(* ===== verification/Prelude.thy ===== *)
theory Prelude
  imports Complex_Main "HOL-Library.AList" "HOL-Library.List_Lexorder"
    "HOL-Library.Char_ord" "HOL-Library.Sublist" "HOL-Library.Multiset"
begin

text \<open>
  Shared vocabulary of the development: the Python string, list and dictionary
  operations the source uses, sequencing of fallible checks, and the generic
  lemmas about them.  A Python \<open>str\<close> is a \<open>string\<close> whose characters are code
  points below 256; a \<open>dict\<close> is an association list with distinct keys in
  insertion order (\<open>AList.update\<close> overwrites in place and appends new keys, as
  Python does); an aware \<open>datetime\<close> is its UTC instant in microseconds.
\<close>

named_theorems model_defs \<open>definitions of operations, for unfolding in component proofs\<close>

type_synonym ('k, 'v) dict = "('k \<times> 'v) list"
type_synonym instant = int

section \<open>Datetimes\<close>

text \<open>A datetime argument may lack a timezone; an aware one is given by its UTC instant.\<close>

datatype py_datetime = Naive int | Aware instant

section \<open>Strings\<close>

text \<open>\<open>str.isspace\<close> on code points below 256, and \<open>str.strip\<close>.\<close>

definition py_isspace :: "char \<Rightarrow> bool" where
  "py_isspace c = (let n = (of_char c :: nat) in
     (9 \<le> n \<and> n \<le> 13) \<or> (28 \<le> n \<and> n \<le> 32) \<or> n = 133 \<or> n = 160)"

definition py_strip :: "string \<Rightarrow> string" where
  "py_strip s = rev (dropWhile py_isspace (rev (dropWhile py_isspace s)))"

definition non_blank :: "string \<Rightarrow> bool" where
  "non_blank s = (py_strip s \<noteq> [])"

text \<open>\<open>(value or "")\<close> for an optional string.\<close>

definition str_or_empty :: "string option \<Rightarrow> string" where
  "str_or_empty v = (case v of None \<Rightarrow> [] | Some s \<Rightarrow> s)"

text \<open>\<open>str.lower\<close> on code points below 256.\<close>

definition py_lower_char :: "char \<Rightarrow> char" where
  "py_lower_char c = (let n = (of_char c :: nat) in
     if (65 \<le> n \<and> n \<le> 90) \<or> (192 \<le> n \<and> n \<le> 222 \<and> n \<noteq> 215) then char_of (n + 32) else c)"

definition py_lower :: "string \<Rightarrow> string" where
  "py_lower s = map py_lower_char s"

lemma length_py_strip: "length (py_strip s) \<le> length s"
  using length_dropWhile_le [of py_isspace s] length_dropWhile_le [of py_isspace "rev (dropWhile py_isspace s)"]
  by (simp add: py_strip_def)

lemma non_blank_iff: "non_blank s \<longleftrightarrow> (\<exists>c\<in>set s. \<not> py_isspace c)"
  by (auto simp: non_blank_def py_strip_def dropWhile_eq_Nil_conv dest: set_dropWhileD)
     (metis dropWhile_eq_Nil_conv hd_dropWhile hd_in_set list.set_sel(1))

section \<open>Sequencing of checks\<close>

text \<open>The first failed check of a sequence of \<open>if ...: raise ...\<close> statements.\<close>

fun first_error :: "'e option list \<Rightarrow> 'e option" where
  "first_error [] = None"
| "first_error (None # es) = first_error es"
| "first_error (Some e # es) = Some e"

definition fail_if :: "bool \<Rightarrow> 'e \<Rightarrow> 'e option" where
  "fail_if b e = (if b then Some e else None)"

lemma fail_if_None [simp]: "fail_if b e = None \<longleftrightarrow> \<not> b"
  by (simp add: fail_if_def)

lemma fail_if_Some [simp]: "fail_if b e = Some x \<longleftrightarrow> b \<and> e = x"
  by (simp add: fail_if_def)

lemma first_error_None [simp]: "first_error es = None \<longleftrightarrow> (\<forall>e\<in>set es. e = None)"
  by (induction es rule: first_error.induct) auto

lemma first_error_Some: "first_error es = Some e \<Longrightarrow> Some e \<in> set es"
  by (induction es rule: first_error.induct) auto

section \<open>Selection by key\<close>

text \<open>\<open>max(xs, key=k, default=None)\<close>: the first of the elements with the greatest key.\<close>

fun max_from :: "('a \<Rightarrow> 'k::linorder) \<Rightarrow> 'a \<Rightarrow> 'a list \<Rightarrow> 'a" where
  "max_from k best [] = best"
| "max_from k best (y # ys) = max_from k (if k best < k y then y else best) ys"

fun max_by :: "('a \<Rightarrow> 'k::linorder) \<Rightarrow> 'a list \<Rightarrow> 'a option" where
  "max_by k [] = None"
| "max_by k (x # xs) = Some (max_from k x xs)"

lemma max_from_in: "max_from k x xs \<in> set (x # xs)"
  by (induction xs arbitrary: x) (auto split: if_splits)

lemma max_from_ge: "y \<in> set (x # xs) \<Longrightarrow> k y \<le> k (max_from k x xs)"
proof (induction xs arbitrary: x y)
  case Nil
  then show ?case by simp
next
  case (Cons a xs)
  let ?b = "if k x < k a then a else x"
  have b: "k ?b \<le> k (max_from k ?b xs)" by (rule Cons.IH) simp
  show ?case
  proof (cases "y \<in> set xs")
    case True
    then show ?thesis using Cons.IH [of y ?b] by simp
  next
    case False
    with Cons.prems have "k y \<le> k ?b" by auto
    with b show ?thesis by simp
  qed
qed

lemma max_by_None [simp]: "max_by k xs = None \<longleftrightarrow> xs = []"
  by (cases xs) auto

lemma max_by_in: "max_by k xs = Some m \<Longrightarrow> m \<in> set xs"
  using max_from_in [of k] by (cases xs) auto

lemma max_by_ge: "max_by k xs = Some m \<Longrightarrow> y \<in> set xs \<Longrightarrow> k y \<le> k m"
  using max_from_ge [of y _ _ k] by (cases xs) auto

lemma max_by_unique:
  assumes "m \<in> set xs" and "\<And>y. y \<in> set xs \<Longrightarrow> k y \<le> k m" and "inj_on k (set xs)"
  shows "max_by k xs = Some m"
proof -
  from assms(1) obtain m' where m': "max_by k xs = Some m'"
    by (cases "max_by k xs") auto
  have "k m = k m'"
    using assms(2) [OF max_by_in [OF m']] max_by_ge [OF m' assms(1)] by simp
  with assms(1,3) m' max_by_in [OF m'] show ?thesis by (auto dest: inj_onD)
qed

section \<open>Dictionaries and pages\<close>

text \<open>\<open>xs[offset : offset + limit]\<close> for non-negative bounds.\<close>

definition page :: "nat \<Rightarrow> nat \<Rightarrow> 'a list \<Rightarrow> 'a list" where
  "page offset limit xs = take limit (drop offset xs)"

lemma page_append: "page o1 n xs @ page (o1 + n) m xs = page o1 (n + m) xs"
  unfolding page_def using take_add [of n m "drop o1 xs"] by (simp add: add.commute)

lemma map_of_update_eq [simp]: "map_of (AList.update k v d) = (map_of d)(k \<mapsto> v)"
  by (simp add: update_conv')

lemma distinct_update_keys [intro]:
  "distinct (map fst d) \<Longrightarrow> distinct (map fst (AList.update k v d))"
  by (rule distinct_update)

lemma keys_update: "fst ` set (AList.update k v d) = insert k (fst ` set d)"
  by (simp add: dom_update)

text \<open>A dict comprehension: a repeated key keeps its first place and its last value.\<close>

definition dict_of :: "('k \<times> 'v) list \<Rightarrow> ('k, 'v) dict" where
  "dict_of kvs = foldl (\<lambda>d (k, v). AList.update k v d) [] kvs"

lemma dict_of_set: "set (dict_of kvs) \<subseteq> set kvs"
proof -
  have upd: "set (AList.update k v d) \<subseteq> insert (k, v) (set d)" for k v and d :: "('a, 'b) dict"
    by (induction d) auto
  have "set (foldl (\<lambda>d (k, v). AList.update k v d) d kvs) \<subseteq> set d \<union> set kvs" for d
  proof (induction kvs arbitrary: d)
    case Nil
    then show ?case by simp
  next
    case (Cons kv kvs)
    then show ?case using upd [of "fst kv" "snd kv" d] by (cases kv) fastforce
  qed
  from this [of "[]"] show ?thesis by (simp add: dict_of_def)
qed

lemma map_of_dict_of: "map_of (dict_of kvs) = map_of (rev kvs)"
proof -
  have "map_of (foldl (\<lambda>d (k, v). AList.update k v d) d kvs) = map_of d ++ map_of (rev kvs)" for d
    by (induction kvs arbitrary: d) (auto simp: map_add_def fun_eq_iff split: option.splits)
  from this [of "[]"] show ?thesis by (simp add: dict_of_def)
qed

lemma map_of_dict_of_unique:
  "distinct (map fst kvs) \<Longrightarrow> map_of (dict_of kvs) k = Some v \<longleftrightarrow> (k, v) \<in> set kvs"
  by (simp add: map_of_dict_of map_of_eq_Some_iff rev_map [symmetric])

lemma map_filter_iff: "y \<in> set (List.map_filter f xs) \<longleftrightarrow> (\<exists>x\<in>set xs. f x = Some y)"
  by (induction xs) (auto split: option.splits)

text \<open>A check of an optional field.\<close>

definition opt_ok :: "('a \<Rightarrow> bool) \<Rightarrow> 'a option \<Rightarrow> bool" where
  "opt_ok p v = (case v of None \<Rightarrow> True | Some x \<Rightarrow> p x)"

lemma opt_ok_simps [simp]: "opt_ok p None" "opt_ok p (Some x) = p x"
  by (simp_all add: opt_ok_def)

end
