(* ===== verification/Json.thy ===== *)
theory Json
  imports Prelude
begin

text \<open>
  JSON values and their canonical text (\<open>json.dumps\<close> with \<open>sort_keys=True\<close>,
  \<open>separators=(",", ":")\<close>, \<open>ensure_ascii=False\<close>, \<open>allow_nan=False\<close>), the UTF-8
  size of a text, and the stack loop \<open>_payload_depth\<close> that bounds the nesting
  depth of a payload (\<open>contracts.py\<close> and \<open>memory.py\<close> of telco-domain hold the
  same loop).  A float enters serialisation through its shortest \<open>repr\<close> only,
  so it is held as that text; \<open>JOpaque\<close> is a value that \<open>json.dumps\<close> refuses
  (a non-finite float or an object with no JSON form).
\<close>

datatype json =
    JNull
  | JBool bool
  | JInt int
  | JFloat string
  | JStr string
  | JList "json list"
  | JObj "(string \<times> json) list"
  | JOpaque

lemma json_pair_size [termination_simp]:
  "(k, v) \<in> set kvs \<Longrightarrow> size v < Suc (size_list (size_prod (\<lambda>_. 0) size) kvs)"
  by (induction kvs) auto

section \<open>Canonical text\<close>

fun show_nat :: "nat \<Rightarrow> string" where
  "show_nat n = (if n < 10 then [char_of (48 + n)]
     else show_nat (n div 10) @ [char_of (48 + n mod 10)])"

declare show_nat.simps [simp del]

definition show_int :: "int \<Rightarrow> string" where
  "show_int i = (if i < 0 then CHR ''-'' # show_nat (nat (- i)) else show_nat (nat i))"

text \<open>\<open>separator.join(parts)\<close>.\<close>

fun join :: "string \<Rightarrow> string list \<Rightarrow> string" where
  "join sep [] = []"
| "join sep [x] = x"
| "join sep (x # y # zs) = x @ sep @ join sep (y # zs)"

definition hex_digit :: "nat \<Rightarrow> char" where
  "hex_digit n = (if n < 10 then char_of (48 + n) else char_of (87 + n))"

definition json_escape :: "char \<Rightarrow> string" where
  "json_escape c = (let n = (of_char c :: nat) in
     if n = 34 then [CHR 0x5C, CHR 0x22]
     else if n = 92 then [CHR 0x5C, CHR 0x5C]
     else if n = 10 then [CHR 0x5C, CHR ''n'']
     else if n = 13 then [CHR 0x5C, CHR ''r'']
     else if n = 9 then [CHR 0x5C, CHR ''t'']
     else if n = 8 then [CHR 0x5C, CHR ''b'']
     else if n = 12 then [CHR 0x5C, CHR ''f'']
     else if n < 32 then CHR 0x5C # ''u00'' @ [hex_digit (n div 16), hex_digit (n mod 16)]
     else [c])"

definition json_quote :: "string \<Rightarrow> string" where
  "json_quote s = CHR 0x22 # concat (map json_escape s) @ [CHR 0x22]"

fun json_text :: "json \<Rightarrow> string" where
  "json_text JNull = ''null''"
| "json_text (JBool b) = (if b then ''true'' else ''false'')"
| "json_text (JInt i) = show_int i"
| "json_text (JFloat r) = r"
| "json_text (JStr s) = json_quote s"
| "json_text (JList vs) = ''['' @ join '','' (map json_text vs) @ '']''"
| "json_text (JObj kvs) = ''{'' @ join '',''
     (map (\<lambda>(k, t). json_quote k @ '':'' @ t)
       (sort_key fst (map (\<lambda>(k, v). (k, json_text v)) kvs))) @ ''}''"
| "json_text JOpaque = []"

fun json_serializable :: "json \<Rightarrow> bool" where
  "json_serializable (JList vs) = list_all json_serializable vs"
| "json_serializable (JObj kvs) = list_all (\<lambda>(k, v). json_serializable v) kvs"
| "json_serializable JOpaque = False"
| "json_serializable _ = True"

text \<open>\<open>json.dumps\<close>: \<open>None\<close> stands for the \<open>TypeError\<close> or \<open>ValueError\<close> it raises.\<close>

definition json_dumps :: "json \<Rightarrow> string option" where
  "json_dumps v = (if json_serializable v then Some (json_text v) else None)"

text \<open>\<open>len(text.encode("utf-8"))\<close> for code points below 256.\<close>

definition utf8_length :: "string \<Rightarrow> nat" where
  "utf8_length s = sum_list (map (\<lambda>c. if (of_char c :: nat) < 128 then 1 else 2) s)"

lemma utf8_length_ge: "length s \<le> utf8_length s"
  by (induction s) (auto simp: utf8_length_def)

text \<open>Objects that differ only in the order of their keys have one canonical text.\<close>

lemma json_text_obj_perm:
  assumes "mset kvs = mset kvs'" and "distinct (map fst kvs)"
  shows "json_text (JObj kvs) = json_text (JObj kvs')"
proof -
  let ?f = "\<lambda>(k, v). (k, json_text v)"
  have fst_f: "map fst (map ?f xs) = map fst xs" for xs
    by (induction xs) auto
  have "inj_on fst (set (map ?f kvs))"
    using assms(2) fst_f [of kvs] distinct_map by metis
  then have "sort_key fst (map ?f kvs) = sort_key fst (map ?f kvs')"
    using assms(1) by (intro sort_key_inj_key_eq) simp_all
  then show ?thesis by simp
qed

section \<open>The depth loop\<close>

text \<open>
  The loop walks live Python objects: containers carry an identity (\<open>id(...)\<close>)
  and one object may be reached twice.  A \<open>pynode\<close> is the part of a payload the
  loop looks at, with the identity of every container.
\<close>

datatype 'i pynode = PLeaf | PMapping 'i "'i pynode list" | PSequence 'i "'i pynode list"

definition MAX_CONTRACT_DEPTH :: nat where "MAX_CONTRACT_DEPTH = 24"
definition MAX_CONTRACT_SERIALIZED_BYTES :: nat where "MAX_CONTRACT_SERIALIZED_BYTES = 256000"

fun node_children :: "'i pynode \<Rightarrow> ('i \<times> 'i pynode list) option" where
  "node_children PLeaf = None"
| "node_children (PMapping i vs) = Some (i, vs)"
| "node_children (PSequence i vs) = Some (i, vs)"

lemma node_children_size:
  "node_children v = Some (i, vs) \<Longrightarrow> size_list size vs < size v"
  by (cases v) auto

function (sequential) depth_loop :: "('i pynode \<times> nat) list \<Rightarrow> 'i list \<Rightarrow> nat \<Rightarrow> nat" where
  "depth_loop [] seen maximum = maximum"
| "depth_loop ((current, depth) # stack) seen maximum =
     (let maximum = max maximum depth in
      if depth > MAX_CONTRACT_DEPTH then depth
      else case node_children current of
        None \<Rightarrow> depth_loop stack seen maximum
      | Some (identity, items) \<Rightarrow>
          if identity \<in> set seen then depth_loop stack seen maximum
          else depth_loop (map (\<lambda>v. (v, depth + 1)) (rev items) @ stack) (identity # seen) maximum)"
  by pat_completeness auto
termination
proof (relation "measure (\<lambda>(st, seen, m). sum_list (map (\<lambda>(v, d). Suc (size v)) st))", goal_cases)
  case (4 current depth stack seen maximum x xa identity items)
  then have "size_list size items < size current"
    by (metis node_children_size)
  moreover have "sum_list (map (\<lambda>(v, d). Suc (size v)) (map (\<lambda>v. (v, depth + 1)) (rev items)))
      \<le> size_list size items"
    by (induction items) auto
  ultimately show ?case by simp
qed auto

definition payload_depth :: "'i pynode \<Rightarrow> nat" where
  "payload_depth v = depth_loop [(v, 1)] [] 1"

text \<open>The depth the loop is meant to measure, and the identities in a payload.\<close>

fun node_depth :: "'i pynode \<Rightarrow> nat" where
  "node_depth PLeaf = 1"
| "node_depth (PMapping i vs) = Suc (foldr max (map node_depth vs) 0)"
| "node_depth (PSequence i vs) = Suc (foldr max (map node_depth vs) 0)"

fun node_ids :: "'i pynode \<Rightarrow> 'i list" where
  "node_ids PLeaf = []"
| "node_ids (PMapping i vs) = i # concat (map node_ids vs)"
| "node_ids (PSequence i vs) = i # concat (map node_ids vs)"

definition stack_depth :: "('i pynode \<times> nat) list \<Rightarrow> nat" where
  "stack_depth st = foldr max (map (\<lambda>(v, d). d + node_depth v - 1) st) 0"

definition stack_ids :: "('i pynode \<times> nat) list \<Rightarrow> 'i list" where
  "stack_ids st = concat (map (\<lambda>(v, d). node_ids v) st)"

lemma node_depth_pos [simp]: "0 < node_depth v"
  by (cases v) auto

lemma stack_depth_simps [simp]:
  "stack_depth [] = 0"
  "stack_depth ((v, d) # st) = max (d + node_depth v - 1) (stack_depth st)"
  by (auto simp: stack_depth_def)

lemma stack_depth_append [simp]:
  "stack_depth (xs @ ys) = max (stack_depth xs) (stack_depth ys)"
  by (induction xs) auto

lemma stack_ids_simps [simp]:
  "stack_ids [] = []"
  "stack_ids ((v, d) # st) = node_ids v @ stack_ids st"
  by (auto simp: stack_ids_def)

lemma stack_ids_append [simp]: "stack_ids (xs @ ys) = stack_ids xs @ stack_ids ys"
  by (simp add: stack_ids_def)

lemma node_children_depth:
  "node_children v = Some (i, vs) \<Longrightarrow> node_depth v = Suc (foldr max (map node_depth vs) 0)"
  by (cases v) auto

lemma node_children_ids:
  "node_children v = Some (i, vs) \<Longrightarrow> node_ids v = i # concat (map node_ids vs)"
  by (cases v) auto

lemma node_children_None: "node_children v = None \<Longrightarrow> v = PLeaf"
  by (cases v) auto

lemma stack_depth_children:
  "max (d + 0) (stack_depth (map (\<lambda>v. (v, d + 1)) (rev vs))) =
     d + foldr max (map node_depth vs) 0"
proof (induction vs)
  case Nil
  then show ?case by simp
next
  case (Cons a vs)
  then show ?case by (auto simp: max_def split: if_splits)
qed

lemma stack_ids_children:
  "set (stack_ids (map (\<lambda>v. (v, n)) (rev vs))) = set (concat (map node_ids vs))"
  "distinct (stack_ids (map (\<lambda>v. (v, n)) (rev vs))) \<longleftrightarrow> distinct (concat (map node_ids vs))"
  by (induction vs) auto

text \<open>
  On a payload whose containers are pairwise distinct objects the loop computes the
  nesting depth, cut off at one above the limit.
\<close>

lemma depth_loop_exact:
  assumes "distinct (stack_ids st)" and "set (stack_ids st) \<inter> set seen = {}"
    and "\<forall>(v, d)\<in>set st. d \<le> Suc MAX_CONTRACT_DEPTH" and "m \<le> MAX_CONTRACT_DEPTH"
  shows "depth_loop st seen m = min (Suc MAX_CONTRACT_DEPTH) (max m (stack_depth st))"
  using assms
proof (induction st seen m rule: depth_loop.induct)
  case (1 seen m)
  then show ?case by simp
next
  case (2 v d st seen m)
  show ?case
  proof (cases "MAX_CONTRACT_DEPTH < d")
    case True
    have "Suc MAX_CONTRACT_DEPTH \<le> d + node_depth v - 1"
      using True node_depth_pos [of v] by linarith
    with True "2.prems" show ?thesis by (auto simp: Let_def)
  next
    case False
    note IH = "2.IH" [OF refl False]
    show ?thesis
    proof (cases "node_children v")
      case None
      then have v: "v = PLeaf" by (rule node_children_None)
      have "depth_loop st seen (max m d) =
          min (Suc MAX_CONTRACT_DEPTH) (max (max m d) (stack_depth st))"
        by (rule IH(1) [OF None]) (use "2.prems" False in auto)
      with False v show ?thesis by (simp add: Let_def max.assoc)
    next
      case (Some p)
      obtain i vs where p: "p = (i, vs)" by (cases p)
      note Some = Some [unfolded p]
      have fresh: "i \<notin> set seen"
        using "2.prems"(2) node_children_ids [OF Some] by auto
      have "depth_loop (map (\<lambda>v. (v, d + 1)) (rev vs) @ st) (i # seen) (max m d) =
          min (Suc MAX_CONTRACT_DEPTH)
            (max (max m d) (stack_depth (map (\<lambda>v. (v, d + 1)) (rev vs) @ st)))"
        by (rule IH(3) [OF Some refl fresh])
          (use "2.prems" False node_children_ids [OF Some] in
            \<open>auto simp: stack_ids_children\<close>)
      also have "max (max m d) (stack_depth (map (\<lambda>v. (v, d + 1)) (rev vs) @ st)) =
          max m (max (d + foldr max (map node_depth vs) 0) (stack_depth st))"
        using stack_depth_children [of d vs] by (simp add: max.assoc max.left_commute)
      finally show ?thesis
        using False Some fresh node_children_depth [OF Some] by (simp add: Let_def)
    qed
  qed
qed

lemma payload_depth_exact:
  "distinct (node_ids v) \<Longrightarrow> payload_depth v = min (Suc MAX_CONTRACT_DEPTH) (node_depth v)"
  using depth_loop_exact [of "[(v, 1)]" "[]" 1] node_depth_pos [of v]
  by (simp add: payload_depth_def MAX_CONTRACT_DEPTH_def)

text \<open>
  A JSON value is a freshly built tree: every container is an object of its own, named
  here by its position (the path of child indices to it).
\<close>

fun node_of :: "nat list \<Rightarrow> json \<Rightarrow> nat list pynode"
  and nodes_of :: "nat list \<Rightarrow> nat \<Rightarrow> json list \<Rightarrow> nat list pynode list"
  and field_nodes :: "nat list \<Rightarrow> nat \<Rightarrow> (string \<times> json) list \<Rightarrow> nat list pynode list"
where
  "node_of p (JList vs) = PSequence p (nodes_of p 0 vs)"
| "node_of p (JObj kvs) = PMapping p (field_nodes p 0 kvs)"
| "node_of p JNull = PLeaf"
| "node_of p (JBool b) = PLeaf"
| "node_of p (JInt i) = PLeaf"
| "node_of p (JFloat r) = PLeaf"
| "node_of p (JStr s) = PLeaf"
| "node_of p JOpaque = PLeaf"
| "nodes_of p i [] = []"
| "nodes_of p i (v # vs) = node_of (i # p) v # nodes_of p (Suc i) vs"
| "field_nodes p i [] = []"
| "field_nodes p i ((k, v) # kvs) = node_of (i # p) v # field_nodes p (Suc i) kvs"

fun json_depth :: "json \<Rightarrow> nat" where
  "json_depth (JList vs) = Suc (foldr max (map json_depth vs) 0)"
| "json_depth (JObj kvs) = Suc (foldr max (map (\<lambda>(k, v). json_depth v) kvs) 0)"
| "json_depth _ = 1"

lemma node_depth_node_of:
  "node_depth (node_of p v) = json_depth v"
  "map node_depth (nodes_of p i vs) = map json_depth vs"
  "map node_depth (field_nodes p i kvs) = map (\<lambda>(k, v). json_depth v) kvs"
  by (induction p v and p i vs and p i kvs rule: node_of_nodes_of_field_nodes.induct) simp_all

lemma suffix_Cons_unique: "suffix (i # p) q \<Longrightarrow> suffix (j # p) q \<Longrightarrow> i = j"
  by (auto simp: suffix_def)

definition ids_from :: "nat list \<Rightarrow> nat \<Rightarrow> nat list pynode list \<Rightarrow> bool" where
  "ids_from p i ns \<longleftrightarrow> distinct (concat (map node_ids ns)) \<and>
     (\<forall>q\<in>set (concat (map node_ids ns)). \<exists>j\<ge>i. suffix (j # p) q)"

lemma ids_from_Cons:
  assumes "distinct (node_ids n)" and "\<forall>q\<in>set (node_ids n). suffix (i # p) q"
    and "ids_from p (Suc i) ns"
  shows "ids_from p i (n # ns)"
proof -
  have "q \<notin> set (node_ids n)" if "q \<in> set (concat (map node_ids ns))" for q
  proof
    assume "q \<in> set (node_ids n)"
    with assms(2) have "suffix (i # p) q" by blast
    moreover obtain j where "Suc i \<le> j" "suffix (j # p) q"
      using assms(3) \<open>q \<in> set (concat (map node_ids ns))\<close> unfolding ids_from_def by blast
    ultimately show False using suffix_Cons_unique by fastforce
  qed
  then have "set (node_ids n) \<inter> set (concat (map node_ids ns)) = {}" by blast
  moreover have "\<exists>j\<ge>i. suffix (j # p) q" if "q \<in> set (concat (map node_ids ns))" for q
    using assms(3) that unfolding ids_from_def by (meson Suc_leD)
  ultimately show ?thesis using assms unfolding ids_from_def by auto
qed

lemma ids_from_node:
  assumes "ids_from p 0 ns"
  shows "distinct (p # concat (map node_ids ns)) \<and> (\<forall>q\<in>set (p # concat (map node_ids ns)). suffix p q)"
proof -
  have s: "suffix (j # p) q \<Longrightarrow> suffix p q \<and> q \<noteq> p" for j q
    by (metis suffix_ConsD not_Cons_self2 suffix_length_le suffix_order.antisym suffix_ConsI suffix_order.refl)
  show ?thesis using assms s unfolding ids_from_def by (metis (no_types, lifting) distinct.simps(2)
      set_ConsD suffix_order.refl)
qed

lemma node_ids_node_of:
  "distinct (node_ids (node_of p v)) \<and> (\<forall>q\<in>set (node_ids (node_of p v)). suffix p q)"
  "ids_from p i (nodes_of p i vs)"
  "ids_from p i (field_nodes p i kvs)"
proof (induction p v and p i vs and p i kvs rule: node_of_nodes_of_field_nodes.induct)
  case (1 p vs)
  from ids_from_node [OF this] show ?case by simp
next
  case (2 p kvs)
  from ids_from_node [OF this] show ?case by simp
next
  case (10 p i v vs)
  then show ?case by (simp add: ids_from_Cons)
next
  case (12 p i k v kvs)
  then show ?case by (simp add: ids_from_Cons)
qed (simp_all add: ids_from_def)

lemma payload_depth_json:
  "payload_depth (node_of [] v) = min (Suc MAX_CONTRACT_DEPTH) (json_depth v)"
  using payload_depth_exact [of "node_of [] v"] node_ids_node_of(1) [of "[]" v]
  by (simp add: node_depth_node_of)

end
