(* ===== verification/Privacy.thy ===== *)
theory Privacy
  imports Json
begin

text \<open>
  \<open>telco_domain/privacy.py\<close>: detection and redaction of raw subscriber identifiers
  in payloads.  The regular expression \<open>_LABELED_IDENTIFIER\<close> is modelled by lists of
  successes: each part of the pattern yields the splits of the remaining text it can
  make, in the order a backtracking matcher tries them, so the first element of the
  combined list is the match Python reports.
\<close>

section \<open>The pattern\<close>

definition REDACTED :: string where "REDACTED = ''[REDACTED]''"

definition SENSITIVE_KEY_NAMES :: "string list" where
  "SENSITIVE_KEY_NAMES = [''imsi'', ''msisdn'', ''imei'', ''imeisv'', ''supi'', ''suci'',
     ''subscriberid'', ''subscriberidentity'', ''subscriberpermanentidentifier'',
     ''subscriptionconcealedidentifier'']"

text \<open>\<open>\w\<close> on code points below 256.\<close>

definition re_word :: "char \<Rightarrow> bool" where
  "re_word c = (let n = (of_char c :: nat) in
     (48 \<le> n \<and> n \<le> 57) \<or> (65 \<le> n \<and> n \<le> 90) \<or> n = 95 \<or> (97 \<le> n \<and> n \<le> 122) \<or>
     n \<in> {170, 178, 179, 181, 185, 186, 188, 189, 190} \<or> (192 \<le> n \<and> n \<noteq> 215 \<and> n \<noteq> 247))"

text \<open>The class \<open>[+a-z0-9_-]\<close> under \<open>(?i)\<close>.\<close>

definition value_char :: "char \<Rightarrow> bool" where
  "value_char c = (let n = (of_char c :: nat) in
     n = 43 \<or> n = 45 \<or> n = 95 \<or> (48 \<le> n \<and> n \<le> 57) \<or> (65 \<le> n \<and> n \<le> 90) \<or> (97 \<le> n \<and> n \<le> 122))"

definition separator_char :: "char \<Rightarrow> bool" where
  "separator_char c = (c \<in> {CHR ''-'', CHR '':'', CHR ''=''})"

definition identifier_labels :: "string list" where
  "identifier_labels = [''imsi'', ''msisdn'', ''imei'', ''imeisv'', ''supi'', ''suci'']"

text \<open>\<open>\b(?P<label>...)\b\<close> at a position whose preceding character is \<open>prev\<close>.\<close>

definition boundary :: "char option \<Rightarrow> char option \<Rightarrow> bool" where
  "boundary a b = (case_option False re_word a \<noteq> case_option False re_word b)"

definition next_char :: "string \<Rightarrow> char option" where
  "next_char s = (case s of [] \<Rightarrow> None | c # _ \<Rightarrow> Some c)"

definition label_ok :: "char option \<Rightarrow> string \<Rightarrow> string \<Rightarrow> bool" where
  "label_ok prev s l \<longleftrightarrow> py_lower (take (length l) s) = l \<and> boundary prev (next_char s) \<and>
     boundary (Some (last (take (length l) s))) (next_char (drop (length l) s))"

definition label_matches :: "char option \<Rightarrow> string \<Rightarrow> (string \<times> string) list" where
  "label_matches prev s =
     map (\<lambda>l. (take (length l) s, drop (length l) s)) (filter (label_ok prev s) identifier_labels)"

text \<open>\<open>(?P<separator>\s*[-:=]\s*|\s+)\<close>.\<close>

definition separator_matches :: "string \<Rightarrow> (string \<times> string) list" where
  "separator_matches s =
     (let w = takeWhile py_isspace s; r = dropWhile py_isspace s in
      (case r of [] \<Rightarrow> []
       | c # r' \<Rightarrow> if separator_char c
           then [(w @ c # take n r', drop n r'). n \<leftarrow> rev [0..<Suc (length (takeWhile py_isspace r'))]]
           else [])
      @ [(take n s, drop n s). n \<leftarrow> rev [1..<Suc (length w)]])"

text \<open>\<open>(?P<value>(?:imsi-)?[+a-z0-9_-]{6,})\<close>.\<close>

definition class_runs :: "string \<Rightarrow> (string \<times> string) list" where
  "class_runs s = [(take n s, drop n s). n \<leftarrow> rev [6..<Suc (length (takeWhile value_char s))]]"

definition value_matches :: "string \<Rightarrow> (string \<times> string) list" where
  "value_matches s =
     (if py_lower (take 5 s) = ''imsi-''
      then [(take 5 s @ v, r). (v, r) \<leftarrow> class_runs (drop 5 s)] else []) @ class_runs s"

text \<open>The match at one position: label, separator, value and the text after it.\<close>

definition head_opt :: "'a list \<Rightarrow> 'a option" where
  "head_opt xs = (case xs of [] \<Rightarrow> None | x # _ \<Rightarrow> Some x)"

definition with_value :: "string \<times> string \<Rightarrow> (string \<times> string \<times> string) list" where
  "with_value = (\<lambda>(p, r2). map (\<lambda>(v, r). (p, v, r)) (value_matches r2))"

definition match_at :: "char option \<Rightarrow> string \<Rightarrow> (string \<times> string \<times> string \<times> string) option" where
  "match_at prev s = head_opt (concat (map
     (\<lambda>(l, r1). map (\<lambda>m. (l, m)) (concat (map with_value (separator_matches r1))))
     (label_matches prev s)))"

text \<open>\<open>_LABELED_IDENTIFIER.search(s) is not None\<close>.\<close>

fun search_from :: "char option \<Rightarrow> string \<Rightarrow> bool" where
  "search_from prev [] = (match_at prev [] \<noteq> None)"
| "search_from prev (c # cs) = (match_at prev (c # cs) \<noteq> None \<or> search_from (Some c) cs)"

definition labeled_identifier :: "string \<Rightarrow> bool" where
  "labeled_identifier s = search_from None s"

section \<open>What a position matches\<close>

definition value_ok :: "string \<Rightarrow> bool" where
  "value_ok s \<longleftrightarrow> 6 \<le> length (takeWhile value_char s)"

lemma class_runs_Nil: "class_runs s = [] \<longleftrightarrow> \<not> value_ok s"
  by (auto simp: class_runs_def value_ok_def)

lemma class_runs_hd:
  "value_ok s \<Longrightarrow> \<exists>t. class_runs s = (takeWhile value_char s, dropWhile value_char s) # t"
proof -
  assume "value_ok s"
  then have "rev [6..<Suc (length (takeWhile value_char s))] =
      length (takeWhile value_char s) # rev [6..<length (takeWhile value_char s)]"
    by (simp add: value_ok_def)
  then show ?thesis
    by (simp add: class_runs_def takeWhile_eq_take [symmetric] dropWhile_eq_drop [symmetric])
qed

lemma char_cases:
  "value_char c \<Longrightarrow> \<not> py_isspace c"
  "separator_char c \<Longrightarrow> \<not> py_isspace c \<and> \<not> re_word c"
  "py_isspace c \<Longrightarrow> \<not> re_word c"
  by (auto simp: value_char_def py_isspace_def separator_char_def re_word_def Let_def)

lemma value_char_lower: "value_char (py_lower_char c) \<Longrightarrow> value_char c"
  by (auto simp: value_char_def py_lower_char_def Let_def split: if_splits)

lemma value_ok_not_space: "py_isspace c \<Longrightarrow> \<not> value_ok (c # s)"
  using char_cases(1) by (auto simp: value_ok_def)

lemma imsi_prefix_run:
  assumes "py_lower (take 5 s) = ''imsi-''"
  shows "takeWhile value_char s = take 5 s @ takeWhile value_char (drop 5 s)"
    and "dropWhile value_char s = dropWhile value_char (drop 5 s)"
proof -
  have "value_char c" if "c \<in> set (take 5 s)" for c
  proof -
    have "py_lower_char c \<in> set ''imsi-''"
      using that assms unfolding py_lower_def by (metis image_eqI list.set_map)
    then have "value_char (py_lower_char c)" by (auto simp: value_char_def)
    then show ?thesis by (rule value_char_lower)
  qed
  then show "takeWhile value_char s = take 5 s @ takeWhile value_char (drop 5 s)"
    "dropWhile value_char s = dropWhile value_char (drop 5 s)"
    by (metis append_take_drop_id takeWhile_append2, metis append_take_drop_id dropWhile_append2)
qed

lemma head_opt_simps [simp]:
  "head_opt [] = None"
  "head_opt (x # xs) = Some x"
  "head_opt (xs @ ys) = (case head_opt xs of None \<Rightarrow> head_opt ys | Some x \<Rightarrow> Some x)"
  by (auto simp: head_opt_def split: list.splits)

lemma head_opt_None [simp]: "head_opt xs = None \<longleftrightarrow> xs = []"
  by (cases xs) auto

lemma head_opt_concat:
  "head_opt (concat (map f xs)) = Some m \<Longrightarrow> \<exists>x\<in>set xs. head_opt (f x) = Some m"
  by (induction xs) (auto split: option.splits)

lemma head_opt_last_index:
  assumes "a \<le> k" and "\<And>n. n < k \<Longrightarrow> f n = []"
  shows "head_opt (concat (map f (rev [a..<Suc k]))) = head_opt (f k)"
proof -
  have "rev [a..<Suc k] = k # rev [a..<k]" using assms(1) by simp
  moreover have "concat (map f (rev [a..<k])) = []" using assms(2) by auto
  ultimately show ?thesis by (simp split: option.splits)
qed

lemma value_matches_head:
  "head_opt (value_matches s) =
     (if value_ok s then Some (takeWhile value_char s, dropWhile value_char s) else None)"
proof (cases "py_lower (take 5 s) = ''imsi-'' \<and> value_ok (drop 5 s)")
  case True
  then obtain t where "class_runs (drop 5 s) =
      (takeWhile value_char (drop 5 s), dropWhile value_char (drop 5 s)) # t"
    using class_runs_hd by blast
  moreover have "value_ok s"
    using True imsi_prefix_run(1) [of s] by (simp add: value_ok_def)
  ultimately show ?thesis using True imsi_prefix_run [of s] by (simp add: value_matches_def)
next
  case False
  then have "value_matches s = class_runs s"
    by (auto simp: value_matches_def class_runs_Nil)
  then show ?thesis using class_runs_hd [of s] class_runs_Nil [of s] by auto
qed

lemma value_matches_Nil: "\<not> value_ok s \<Longrightarrow> value_matches s = []"
  using value_matches_head [of s] by simp

text \<open>Separator and value together, without backtracking.\<close>

definition sep_value :: "string \<Rightarrow> (string \<times> string \<times> string) option" where
  "sep_value s =
     (let w = takeWhile py_isspace s; r = dropWhile py_isspace s;
          plain = (if w \<noteq> [] \<and> value_ok r
                   then Some (w, takeWhile value_char r, dropWhile value_char r) else None)
      in case r of [] \<Rightarrow> None
         | c # r' \<Rightarrow>
             (let t = dropWhile py_isspace r' in
              if separator_char c \<and> value_ok t
              then Some (w @ c # takeWhile py_isspace r', takeWhile value_char t, dropWhile value_char t)
              else plain))"

lemma drop_in_spaces: "n < length (takeWhile py_isspace s) \<Longrightarrow> \<not> value_ok (drop n s)"
proof -
  assume n: "n < length (takeWhile py_isspace s)"
  then have "n < length s" using length_takeWhile_le [of py_isspace s] by linarith
  then have "drop n s = s ! n # drop (Suc n) s" by (rule Cons_nth_drop_Suc [symmetric])
  moreover have "py_isspace (s ! n)" using n by (metis nth_mem set_takeWhileD takeWhile_nth)
  ultimately show ?thesis by (simp add: value_ok_not_space)
qed

lemma with_value_head:
  "head_opt (with_value (p, r2)) =
     (if value_ok r2 then Some (p, takeWhile value_char r2, dropWhile value_char r2) else None)"
  using value_matches_head [of r2] value_matches_Nil [of r2]
  by (cases "value_matches r2") (auto simp: with_value_def split: if_splits)

lemma sep_value_head:
  "head_opt (concat (map with_value (separator_matches s))) = sep_value s"
proof -
  let ?w = "takeWhile py_isspace s" and ?r = "dropWhile py_isspace s"
  have plain: "head_opt (concat (map with_value [(take n s, drop n s). n \<leftarrow> rev [1..<Suc (length ?w)]])) =
      (if ?w \<noteq> [] \<and> value_ok ?r then Some (?w, takeWhile value_char ?r, dropWhile value_char ?r) else None)"
  proof (cases "?w = []")
    case True
    then show ?thesis by simp
  next
    case False
    then have "1 \<le> length ?w" by (simp add: Suc_le_eq)
    then have "head_opt (concat (map (\<lambda>n. with_value (take n s, drop n s)) (rev [1..<Suc (length ?w)]))) =
        head_opt (with_value (take (length ?w) s, drop (length ?w) s))"
      by (rule head_opt_last_index) (use drop_in_spaces [of _ s] value_matches_Nil in \<open>simp add: with_value_def\<close>)
    then show ?thesis
      using False by (simp add: comp_def with_value_head takeWhile_eq_take [symmetric]
          dropWhile_eq_drop [symmetric])
  qed
  show ?thesis
  proof (cases ?r)
    case Nil
    have "\<not> value_ok ?r" unfolding Nil by (simp add: value_ok_def)
    moreover have "separator_matches s = [(take n s, drop n s). n \<leftarrow> rev [1..<Suc (length ?w)]]"
      unfolding separator_matches_def Let_def Nil by simp
    moreover have "sep_value s = None" unfolding sep_value_def Let_def Nil by simp
    ultimately show ?thesis using plain by (simp only: simp_thms if_False)
  next
    case (Cons c r')
    let ?t = "dropWhile py_isspace r'"
    have alt: "head_opt (concat (map with_value
          [(?w @ c # take n r', drop n r'). n \<leftarrow> rev [0..<Suc (length (takeWhile py_isspace r'))]])) =
        (if value_ok ?t then Some (?w @ c # takeWhile py_isspace r', takeWhile value_char ?t, dropWhile value_char ?t)
         else None)"
    proof -
      have "head_opt (concat (map (\<lambda>n. with_value (?w @ c # take n r', drop n r'))
            (rev [0..<Suc (length (takeWhile py_isspace r'))]))) =
          head_opt (with_value (?w @ c # take (length (takeWhile py_isspace r')) r',
            drop (length (takeWhile py_isspace r')) r'))"
        by (rule head_opt_last_index) (use drop_in_spaces [of _ r'] value_matches_Nil in \<open>simp_all add: with_value_def\<close>)
      then show ?thesis
        by (simp add: comp_def with_value_head takeWhile_eq_take [symmetric]
            dropWhile_eq_drop [symmetric])
    qed
    let ?A = "[(?w @ c # take n r', drop n r'). n \<leftarrow> rev [0..<Suc (length (takeWhile py_isspace r'))]]"
    let ?B = "[(take n s, drop n s). n \<leftarrow> rev [1..<Suc (length ?w)]]"
    have "separator_matches s = (if separator_char c then ?A else []) @ ?B"
      unfolding separator_matches_def Let_def Cons by simp
    moreover have "sep_value s = (if separator_char c \<and> value_ok ?t
        then Some (?w @ c # takeWhile py_isspace r', takeWhile value_char ?t, dropWhile value_char ?t)
        else if ?w \<noteq> [] \<and> value_ok ?r
        then Some (?w, takeWhile value_char ?r, dropWhile value_char ?r) else None)"
      unfolding sep_value_def Let_def Cons by simp
    ultimately show ?thesis
      by (cases "separator_char c"; cases "value_ok ?t")
        (simp_all only: map_append concat_append head_opt_simps plain alt if_True if_False
          simp_thms option.case append_Nil)
  qed
qed

lemma head_opt_map: "head_opt (map g xs) = map_option g (head_opt xs)"
  by (cases xs) auto

lemma match_at_head:
  "match_at prev s = head_opt (concat (map (\<lambda>l. map (Pair (take (length l) s))
      (concat (map with_value (separator_matches (drop (length l) s)))))
      (filter (label_ok prev s) identifier_labels)))"
  by (simp add: match_at_def label_matches_def comp_def)

lemma match_at_Some:
  assumes "match_at prev s = Some (l, m)"
  obtains lab where "lab \<in> set identifier_labels" "label_ok prev s lab" "l = take (length lab) s"
    "sep_value (drop (length lab) s) = Some m"
proof -
  from head_opt_concat [OF assms [unfolded match_at_head]] obtain lab
    where lab: "lab \<in> set identifier_labels" "label_ok prev s lab"
      and h: "map_option (Pair (take (length lab) s)) (sep_value (drop (length lab) s)) = Some (l, m)"
    unfolding head_opt_map sep_value_head by auto
  from h show thesis using that lab by auto
qed

lemma match_at_None:
  "match_at prev s = None \<longleftrightarrow>
     (\<forall>l\<in>set identifier_labels. label_ok prev s l \<longrightarrow> sep_value (drop (length l) s) = None)"
proof -
  have "concat (map with_value (separator_matches t)) = [] \<longleftrightarrow> sep_value t = None" for t
    using sep_value_head [of t] by (metis head_opt_None)
  then have e: "map (Pair a) (concat (map with_value (separator_matches t))) = [] \<longleftrightarrow>
      sep_value t = None" for a :: string and t
    by (simp only: map_is_Nil_conv)
  show ?thesis unfolding match_at_head head_opt_None concat_eq_Nil_conv by (auto simp only: set_map
      set_filter e image_iff mem_Collect_eq ball_simps)
qed

definition is_separator :: "string \<Rightarrow> bool" where
  "is_separator p \<longleftrightarrow> (\<exists>w c w'. p = w @ c # w' \<and> list_all py_isspace w \<and>
      list_all py_isspace w' \<and> separator_char c) \<or> (p \<noteq> [] \<and> list_all py_isspace p)"

lemma is_separator_intros:
  "list_all py_isspace w \<Longrightarrow> list_all py_isspace w' \<Longrightarrow> separator_char c \<Longrightarrow> is_separator (w @ c # w')"
  "p \<noteq> [] \<Longrightarrow> list_all py_isspace p \<Longrightarrow> is_separator p"
  by (auto simp: is_separator_def)

lemma sep_value_Some:
  assumes "sep_value s = Some (p, v, r)"
  shows "s = p @ v @ r" and "v \<noteq> []" and "value_ok v" and "list_all value_char v"
    and "r = [] \<or> \<not> value_char (hd r)"
    and "is_separator p"
proof -
  have spc: "list_all py_isspace (takeWhile py_isspace t)" for t
    by (auto simp: list_all_iff dest: set_takeWhileD)
  have val: "list_all value_char (takeWhile value_char t)" for t
    by (auto simp: list_all_iff dest: set_takeWhileD)
  obtain t where t: "value_ok t" "v = takeWhile value_char t" "r = dropWhile value_char t"
    and p: "s = p @ t" "is_separator p"
  proof (cases "dropWhile py_isspace s")
    case Nil
    with assms show ?thesis unfolding sep_value_def Let_def by simp
  next
    case (Cons c r')
    have split: "s = takeWhile py_isspace s @ c # takeWhile py_isspace r' @ dropWhile py_isspace r'"
      using takeWhile_dropWhile_id [of py_isspace s] Cons by simp
    show ?thesis
    proof (cases "separator_char c \<and> value_ok (dropWhile py_isspace r')")
      case True
      with assms Cons show ?thesis
        using that [of "dropWhile py_isspace r'"] split
          is_separator_intros(1) [OF spc [of s] spc [of r'], of c]
        unfolding sep_value_def Let_def by auto
    next
      case False
      with assms Cons show ?thesis
        using that [of "c # r'"] split is_separator_intros(2) [OF _ spc [of s]]
        unfolding sep_value_def Let_def by (auto split: if_splits)
    qed
  qed
  show "s = p @ v @ r" using p t by simp
  show "v \<noteq> []" using t by (auto simp: value_ok_def)
  show "value_ok v" using t val by (simp add: value_ok_def takeWhile_eq_all_conv list_all_iff)
  show "list_all value_char v" using t val by simp
  show "r = [] \<or> \<not> value_char (hd r)" using t hd_dropWhile by metis
  show "is_separator p" by (rule p(2))
qed

lemma match_at_split:
  assumes "match_at prev s = Some (l, p, v, r)"
  shows "s = l @ p @ v @ r" and "v \<noteq> []" and "p \<noteq> []"
proof -
  obtain lab :: string where l: "l = take (length lab) s"
    and m: "sep_value (drop (length lab) s) = Some (p, v, r)"
    by (rule match_at_Some [OF assms]) blast
  have "s = l @ drop (length lab) s" using l by simp
  with sep_value_Some(1) [OF m] show "s = l @ p @ v @ r" by simp
  show "v \<noteq> []" "p \<noteq> []" using sep_value_Some(2,6) [OF m] by (auto simp: is_separator_def)
qed

section \<open>Substitution, detection and redaction\<close>

text \<open>\<open>_LABELED_IDENTIFIER.sub(...)\<close>: matching resumes after the text a match consumed.\<close>

function sub_from :: "char option \<Rightarrow> string \<Rightarrow> string" where
  "sub_from prev s =
     (case match_at prev s of
        Some (l, p, v, r) \<Rightarrow> l @ p @ REDACTED @ sub_from (Some (last v)) r
      | None \<Rightarrow> (case s of [] \<Rightarrow> [] | c # cs \<Rightarrow> c # sub_from (Some c) cs))"
  by pat_completeness auto
termination
proof (relation "measure (\<lambda>(prev, s). length s)")
  fix prev s m l m' p m'' v r
  assume "match_at prev s = Some m" "(l, m') = m" "(p, m'') = m'" "(v, r) = m''"
  then have "match_at prev s = Some (l, p, v, r)" by simp
  from match_at_split [OF this] show "((Some (last v), r), prev, s) \<in> measure (\<lambda>(prev, s). length s)"
    by simp
qed auto

declare sub_from.simps [simp del]

definition redact_text :: "string \<Rightarrow> string" where
  "redact_text s = sub_from None s"

definition normalized_key :: "string \<Rightarrow> string" where
  "normalized_key k = filter (\<lambda>c. let n = (of_char c :: nat) in
     (97 \<le> n \<and> n \<le> 122) \<or> (48 \<le> n \<and> n \<le> 57)) (py_lower k)"

definition is_sensitive_key :: "string \<Rightarrow> bool" where
  "is_sensitive_key k = (normalized_key k \<in> set SENSITIVE_KEY_NAMES)"

definition is_empty_value :: "json \<Rightarrow> bool" where
  "is_empty_value v = (v = JNull \<or> v = JStr [] \<or> v = JList [] \<or> v = JObj [])"

fun find_sensitive_paths :: "string \<Rightarrow> json \<Rightarrow> string list"
  and find_in_fields :: "string \<Rightarrow> (string \<times> json) list \<Rightarrow> string list"
  and find_in_items :: "string \<Rightarrow> nat \<Rightarrow> json list \<Rightarrow> string list"
where
  "find_sensitive_paths path (JObj kvs) = find_in_fields path kvs"
| "find_sensitive_paths path (JList vs) = find_in_items path 0 vs"
| "find_sensitive_paths path (JStr s) = (if labeled_identifier s then [path] else [])"
| "find_sensitive_paths path JNull = []"
| "find_sensitive_paths path (JBool b) = []"
| "find_sensitive_paths path (JInt i) = []"
| "find_sensitive_paths path (JFloat r) = []"
| "find_sensitive_paths path JOpaque = []"
| "find_in_fields path [] = []"
| "find_in_fields path ((key, nested) # kvs) =
     (if labeled_identifier key then [path @ ''.<sensitive-key>'']
      else if is_sensitive_key key \<and> \<not> is_empty_value nested then [path @ ''.'' @ key]
      else find_sensitive_paths (path @ ''.'' @ key) nested) @ find_in_fields path kvs"
| "find_in_items path i [] = []"
| "find_in_items path i (v # vs) =
     find_sensitive_paths (path @ ''['' @ show_nat i @ '']'') v @ find_in_items path (Suc i) vs"

text \<open>\<open>assert_model_safe\<close>: the message of the \<open>SensitiveDataError\<close> it raises, if any.\<close>

definition assert_model_safe :: "json \<Rightarrow> string option" where
  "assert_model_safe v =
     (let paths = find_sensitive_paths ''$'' v in
      if paths \<noteq> [] then Some (''Raw subscriber identifiers are not allowed at: '' @ join '', '' paths)
      else None)"

fun redact_sensitive_data :: "json \<Rightarrow> json" where
  "redact_sensitive_data (JObj kvs) = JObj (dict_of (map (\<lambda>(key, nested).
     (if labeled_identifier key then REDACTED else key,
      if is_sensitive_key key \<and> \<not> is_empty_value nested then JStr REDACTED
      else redact_sensitive_data nested)) kvs))"
| "redact_sensitive_data (JList vs) = JList (map redact_sensitive_data vs)"
| "redact_sensitive_data (JStr s) = JStr (redact_text s)"
| "redact_sensitive_data v = v"

section \<open>Redaction leaves no labelled identifier in a text\<close>

lemma bracket_char [simp]:
  "\<not> value_char CHR ''[''" "\<not> py_isspace CHR ''[''" "\<not> separator_char CHR ''[''" "\<not> re_word CHR ''[''"
  by (simp_all add: value_char_def py_isspace_def separator_char_def re_word_def)

lemma label_chars: "l \<in> set identifier_labels \<Longrightarrow> c \<in> set l \<Longrightarrow> c \<in> set ''imsidneuvpc''"
  by (auto simp: identifier_labels_def)

lemma label_nonempty: "l \<in> set identifier_labels \<Longrightarrow> l \<noteq> []"
  by (auto simp: identifier_labels_def)

lemma lower_letter_word:
  "97 \<le> (of_char (py_lower_char c) :: nat) \<Longrightarrow> (of_char (py_lower_char c) :: nat) \<le> 122 \<Longrightarrow>
     re_word c \<and> value_char c"
  by (auto simp: py_lower_char_def re_word_def value_char_def Let_def split: if_splits)

lemma lower_label_word: "py_lower_char c \<in> set ''imsidneuvpc'' \<Longrightarrow> re_word c \<and> value_char c"
proof (rule lower_letter_word)
  assume a: "py_lower_char c \<in> set ''imsidneuvpc''"
  have "\<forall>x\<in>set ''imsidneuvpc''. 97 \<le> (of_char x :: nat) \<and> (of_char x :: nat) \<le> 122" by simp
  with a show "97 \<le> (of_char (py_lower_char c) :: nat)" "(of_char (py_lower_char c) :: nat) \<le> 122"
    by blast+
qed

lemma label_ok_chars:
  assumes "label_ok prev s l" and "l \<in> set identifier_labels"
  shows "length l \<le> length s" and "\<forall>c\<in>set (take (length l) s). re_word c \<and> value_char c"
proof -
  from assms(1) have low: "py_lower (take (length l) s) = l" by (simp add: label_ok_def)
  then have "length (take (length l) s) = length l" by (metis length_map py_lower_def)
  then show "length l \<le> length s" by simp
  show "\<forall>c\<in>set (take (length l) s). re_word c \<and> value_char c"
  proof
    fix c assume "c \<in> set (take (length l) s)"
    then have "py_lower_char c \<in> set l"
      using low unfolding py_lower_def by (metis image_eqI list.set_map)
    with assms(2) show "re_word c \<and> value_char c" using label_chars lower_label_word by blast
  qed
qed

lemma label_ok_first:
  assumes "label_ok prev (c # s) l" and "l \<in> set identifier_labels"
  shows "py_lower_char c \<in> set ''ims''" and "re_word c" and "\<not> case_option False re_word prev"
proof -
  obtain a t where l: "l = a # t" using label_nonempty [OF assms(2)] by (cases l) auto
  from assms(1) l have "py_lower_char c = a" by (simp add: label_ok_def py_lower_def)
  with assms(2) l show "py_lower_char c \<in> set ''ims''" by (auto simp: identifier_labels_def)
  show "re_word c" using label_ok_chars(2) [OF assms] l by simp
  with assms(1) show "\<not> case_option False re_word prev"
    by (simp add: label_ok_def boundary_def next_char_def)
qed

lemma no_match_start:
  "py_lower_char c \<notin> set ''ims'' \<Longrightarrow> match_at prev (c # s) = None"
  using label_ok_first(1) unfolding match_at_None by blast

lemma no_match_inside: "re_word q \<Longrightarrow> match_at (Some q) (c # s) = None"
  using label_ok_first(3) [of "Some q"] unfolding match_at_None by auto

lemma no_match_Nil: "match_at prev [] = None"
  unfolding match_at_None by (simp add: sep_value_def)

lemma space_not_start: "py_isspace c \<or> separator_char c \<or> \<not> value_char c \<Longrightarrow> py_lower_char c \<notin> set ''ims''"
proof
  assume c: "py_isspace c \<or> separator_char c \<or> \<not> value_char c" and i: "py_lower_char c \<in> set ''ims''"
  from i have "re_word c \<and> value_char c" by (intro lower_label_word) auto
  with c char_cases show False by blast
qed

lemma sub_shape:
  "sub_from q s = s \<or> (\<exists>u v w. s = u @ v \<and> sub_from q s = u @ CHR ''['' # w \<and> v \<noteq> [] \<and> value_char (hd v))"
proof (induction q s rule: sub_from.induct)
  case (1 q s)
  show ?case
  proof (cases "match_at q s")
    case None
    show ?thesis
    proof (cases s)
      case Nil
      with None show ?thesis by (simp add: sub_from.simps)
    next
      case (Cons c cs)
      have eq: "sub_from q s = c # sub_from (Some c) cs"
        using None Cons by (simp add: sub_from.simps)
      from "1.IH"(1) [OF None Cons] show ?thesis
      proof
        assume "sub_from (Some c) cs = cs"
        with eq Cons show ?thesis by simp
      next
        assume "\<exists>u v w. cs = u @ v \<and> sub_from (Some c) cs = u @ CHR ''['' # w \<and> v \<noteq> [] \<and> value_char (hd v)"
        then obtain u v w where "cs = u @ v" "sub_from (Some c) cs = u @ CHR ''['' # w"
          "v \<noteq> []" "value_char (hd v)" by blast
        with eq Cons have "s = (c # u) @ v \<and> sub_from q s = (c # u) @ CHR ''['' # w \<and> v \<noteq> [] \<and> value_char (hd v)"
          by simp
        then show ?thesis by blast
      qed
    qed
  next
    case (Some m)
    obtain l p v r where m: "m = (l, p, v, r)" by (cases m)
    note Some = Some [unfolded m]
    obtain lab :: string where "sep_value (drop (length lab) s) = Some (p, v, r)"
      by (rule match_at_Some [OF Some]) blast
    then have v: "v \<noteq> []" "list_all value_char v" by (auto dest: sep_value_Some)
    have "s = (l @ p) @ v @ r" using match_at_split(1) [OF Some] by simp
    moreover have "sub_from q s = (l @ p) @ CHR ''['' # ''REDACTED]'' @ sub_from (Some (last v)) r"
      using Some by (simp add: sub_from.simps REDACTED_def)
    moreover have "value_char (hd (v @ r))" using v by (cases v) auto
    ultimately show ?thesis using v(1) by (metis Nil_is_append_conv)
  qed
qed

lemma sep_value_iff:
  "sep_value s \<noteq> None \<longleftrightarrow> (\<exists>w c t. s = w @ c # t \<and> list_all py_isspace w \<and> \<not> py_isspace c \<and>
     ((separator_char c \<and> value_ok (dropWhile py_isspace t)) \<or> (w \<noteq> [] \<and> value_ok (c # t))))"
  (is "_ \<longleftrightarrow> ?R")
proof
  assume l: "sep_value s \<noteq> None"
  then obtain c t where d: "dropWhile py_isspace s = c # t"
    unfolding sep_value_def Let_def by (cases "dropWhile py_isspace s") simp_all
  then have "s = takeWhile py_isspace s @ c # t" "\<not> py_isspace c"
    using takeWhile_dropWhile_id [of py_isspace s] hd_dropWhile [of py_isspace s] by auto
  moreover have "list_all py_isspace (takeWhile py_isspace s)"
    by (auto simp: list_all_iff dest: set_takeWhileD)
  ultimately show ?R
    using l d unfolding sep_value_def Let_def by (fastforce split: if_splits)
next
  assume ?R
  then obtain w c t where s: "s = w @ c # t" "list_all py_isspace w" "\<not> py_isspace c"
    and v: "(separator_char c \<and> value_ok (dropWhile py_isspace t)) \<or> (w \<noteq> [] \<and> value_ok (c # t))"
    by blast
  have "takeWhile py_isspace s = w" "dropWhile py_isspace s = c # t"
    using s by (simp_all add: list_all_iff)
  with v show "sep_value s \<noteq> None" unfolding sep_value_def Let_def by auto
qed

lemma value_ok_keep: "value_ok (x @ CHR ''['' # w) \<Longrightarrow> value_ok (x @ y)"
proof -
  have "length (takeWhile value_char (x @ CHR ''['' # w)) \<le> length (takeWhile value_char (x @ y))"
    by (induction x) auto
  then show "value_ok (x @ CHR ''['' # w) \<Longrightarrow> value_ok (x @ y)" by (simp add: value_ok_def)
qed

lemma value_ok_drop_keep:
  "value_ok (dropWhile py_isspace (x @ CHR ''['' # w)) \<Longrightarrow> value_ok (dropWhile py_isspace (x @ y))"
proof (induction x)
  case Nil
  then show ?case by (simp add: value_ok_def)
next
  case (Cons a x)
  then show ?case using value_ok_keep [of "a # x" w y] by (cases "py_isspace a") auto
qed

lemma sep_value_keep:
  assumes "sep_value (u @ CHR ''['' # w) \<noteq> None"
  shows "sep_value (u @ v) \<noteq> None"
proof -
  from assms obtain x c t where s: "u @ CHR ''['' # w = x @ c # t" "list_all py_isspace x" "\<not> py_isspace c"
    and ok: "(separator_char c \<and> value_ok (dropWhile py_isspace t)) \<or> (x \<noteq> [] \<and> value_ok (c # t))"
    unfolding sep_value_iff by blast
  have c: "c \<noteq> CHR ''[''" using ok by (auto simp: value_ok_def)
  from s(1) obtain us where "(u = x @ us \<and> us @ CHR ''['' # w = c # t) \<or>
      (u @ us = x \<and> CHR ''['' # w = us @ c # t)"
    unfolding append_eq_append_conv2 by blast
  then have "u = x @ us \<and> us @ CHR ''['' # w = c # t"
    using s(2) c by (cases us) auto
  then obtain u' where u: "u = x @ c # u'" "t = u' @ CHR ''['' # w"
    using c by (cases us) auto
  have "(separator_char c \<and> value_ok (dropWhile py_isspace (u' @ v))) \<or> (x \<noteq> [] \<and> value_ok (c # u' @ v))"
    using ok u value_ok_drop_keep [of u' w v] value_ok_keep [of "c # u'" w v] by auto
  with s(2,3) u show ?thesis unfolding sep_value_iff by fastforce
qed

text \<open>A position that did not match still does not match once a later match is redacted.\<close>

lemma match_at_keep:
  assumes "match_at q (c # u @ CHR ''['' # w) \<noteq> None" and "v \<noteq> []"
  shows "match_at q (c # u @ v) \<noteq> None"
proof -
  from assms(1) obtain l where l: "l \<in> set identifier_labels" "label_ok q (c # u @ CHR ''['' # w) l"
    "sep_value (drop (length l) (c # u @ CHR ''['' # w)) \<noteq> None"
    unfolding match_at_None by blast
  let ?n = "length l" and ?T = "(c # u) @ CHR ''['' # w"
  have chars: "\<forall>x\<in>set (take ?n ?T). re_word x" using label_ok_chars(2) [OF l(2,1)] by simp
  have n: "?n < length (c # u)"
  proof (rule ccontr)
    assume "\<not> ?thesis"
    then consider "?n = length (c # u)" | "length (c # u) < ?n" by linarith
    then show False
    proof cases
      case 1
      then have "drop ?n ?T = CHR ''['' # w" by simp
      with l(3) show False by (auto simp: sep_value_def)
    next
      case 2
      then have "CHR ''['' \<in> set (take ?n ?T)" by (auto simp: take_Cons')
      with chars show False by auto
    qed
  qed
  then have d: "drop ?n (c # u @ X) = drop ?n (c # u) @ X" "take ?n (c # u @ X) = take ?n (c # u)" for X
    using drop_append [of ?n "c # u" X] take_append [of ?n "c # u" X] by simp_all
  have ne: "drop ?n (c # u) \<noteq> []" using n by simp
  have nx: "next_char (drop ?n (c # u) @ X) = next_char (drop ?n (c # u))" for X
    using ne by (cases "drop ?n (c # u)") (auto simp: next_char_def)
  have ok: "label_ok q (c # u @ v) l"
    using l(2) by (simp add: label_ok_def d nx) (simp add: next_char_def)
  have "sep_value (drop ?n (c # u) @ CHR ''['' # w) \<noteq> None"
    using l(3) unfolding d(1) .
  then have sv: "sep_value (drop ?n (c # u @ v)) \<noteq> None"
    unfolding d(1) by (rule sep_value_keep)
  show ?thesis
  proof
    assume "match_at q (c # u @ v) = None"
    then have "label_ok q (c # u @ v) l \<longrightarrow> sep_value (drop ?n (c # u @ v)) = None"
      using l(1) unfolding match_at_None by (rule bspec)
    with ok sv show False by (simp only: simp_thms)
  qed
qed

lemma match_at_sub_tail:
  assumes "match_at q (c # cs) = None"
  shows "match_at q (c # sub_from (Some c) cs) = None"
  using sub_shape [of "Some c" cs] assms match_at_keep by metis

lemma sep_value_redacted:
  assumes "is_separator p"
  shows "sep_value (p @ CHR ''['' # z) = None"
proof -
  from assms consider w c w' where "p = w @ c # w'" "list_all py_isspace w" "list_all py_isspace w'" "separator_char c"
    | "list_all py_isspace p" unfolding is_separator_def by blast
  then show ?thesis
  proof cases
    case 1
    then have "\<not> py_isspace c" using char_cases(2) by blast
    with 1 have d: "takeWhile py_isspace (p @ CHR ''['' # z) = w" "dropWhile py_isspace (p @ CHR ''['' # z) = c # w' @ CHR ''['' # z"
      "dropWhile py_isspace (w' @ CHR ''['' # z) = CHR ''['' # z"
      by (simp_all add: list_all_iff)
    have "\<not> value_ok (c # w' @ CHR ''['' # z)"
      using 1(3) char_cases(1) by (cases w') (auto simp: value_ok_def)
    then show ?thesis unfolding sep_value_def Let_def d by (simp add: d value_ok_def)
  next
    case 2
    then have d: "takeWhile py_isspace (p @ CHR ''['' # z) = p" "dropWhile py_isspace (p @ CHR ''['' # z) = CHR ''['' # z"
      by (simp_all add: list_all_iff)
    show ?thesis unfolding sep_value_def Let_def d by (simp add: value_ok_def)
  qed
qed

lemma separator_first: "is_separator p \<Longrightarrow> c \<in> set p \<Longrightarrow> py_isspace c \<or> separator_char c"
  by (auto simp: is_separator_def list_all_iff)

lemma match_at_redacted:
  assumes "match_at q s = Some (l, p, v, r)"
  shows "match_at q (l @ p @ CHR ''['' # z) = None"
proof -
  obtain lab where lab: "lab \<in> set identifier_labels" "label_ok q s lab" "l = take (length lab) s"
    "sep_value (drop (length lab) s) = Some (p, v, r)"
    by (rule match_at_Some [OF assms]) blast
  have lw: "\<forall>c\<in>set l. re_word c" using label_ok_chars(2) [OF lab(2,1)] lab(3) by simp
  have sp: "is_separator p" by (rule sep_value_Some(6) [OF lab(4)])
  then obtain a p' where p: "p = a # p'" by (cases p) (auto simp: is_separator_def)
  have a: "\<not> re_word a" using separator_first [OF sp, of a] p char_cases by auto
  let ?T = "l @ p @ CHR ''['' # z"
  have "sep_value (drop (length k) ?T) = None" if k: "k \<in> set identifier_labels" "label_ok q ?T k" for k
  proof -
    have kw: "\<forall>c\<in>set (take (length k) ?T). re_word c" using label_ok_chars(2) [OF k(2,1)] by simp
    have "length k = length l"
    proof (rule ccontr)
      assume "\<not> ?thesis"
      then consider "length l < length k" | "length k < length l" by linarith
      then show False
      proof cases
        case 1
        then have "a \<in> set (take (length k) ?T)" using p by (auto simp: take_Cons')
        with kw a show False by blast
      next
        case 2
        have "take (length k) ?T \<noteq> []" using label_nonempty [OF k(1)] 2 by auto
        then have "re_word (last (take (length k) ?T))" using kw last_in_set by blast
        moreover obtain b t where b: "drop (length k) l = b # t" using 2 by (cases "drop (length k) l") auto
        then have "b \<in> set l" by (metis in_set_dropD list.set_intros(1))
        then have "re_word b" using lw by blast
        moreover have "next_char (drop (length k) ?T) = Some b" using b 2 by (simp add: next_char_def)
        ultimately show False using k(2) by (simp add: label_ok_def boundary_def)
      qed
    qed
    then show ?thesis using sep_value_redacted [OF sp] by simp
  qed
  then show ?thesis unfolding match_at_None by blast
qed

lemma search_skip_word:
  "re_word a \<Longrightarrow> \<forall>c\<in>set xs. re_word c \<Longrightarrow> search_from (Some a) (xs @ ys) \<Longrightarrow>
     search_from (Some (last (a # xs))) ys"
  by (induction xs arbitrary: a) (auto simp: no_match_inside)

lemma search_skip_start:
  "\<forall>c\<in>set xs. py_lower_char c \<notin> set ''ims'' \<Longrightarrow> xs \<noteq> [] \<Longrightarrow>
     search_from q (xs @ ys) = search_from (Some (last xs)) ys"
proof (induction xs arbitrary: q)
  case Nil
  then show ?case by simp
next
  case (Cons a xs)
  then have "match_at q (a # xs @ ys) = None" by (intro no_match_start) simp
  then show ?case using Cons by (cases xs) auto
qed

lemma REDACTED_not_start: "\<forall>c\<in>set REDACTED. py_lower_char c \<notin> set ''ims''"
  by code_simp

lemma sub_from_clean: "\<not> search_from q (sub_from q s)"
proof (induction q s rule: sub_from.induct)
  case (1 q s)
  show ?case
  proof (cases "match_at q s")
    case None
    show ?thesis
    proof (cases s)
      case Nil
      with None show ?thesis by (simp add: sub_from.simps no_match_Nil)
    next
      case (Cons c cs)
      have "sub_from q s = c # sub_from (Some c) cs" using None Cons by (simp add: sub_from.simps)
      with "1.IH"(1) [OF None Cons] None Cons match_at_sub_tail [of q c cs] show ?thesis by simp
    qed
  next
    case (Some m)
    obtain l p v r where m: "m = (l, p, v, r)" by (cases m)
    note Some = Some [unfolded m]
    let ?Z = "sub_from (Some (last v)) r"
    obtain lab where lab: "lab \<in> set identifier_labels" "label_ok q s lab" "l = take (length lab) s"
      "sep_value (drop (length lab) s) = Some (p, v, r)"
      by (rule match_at_Some [OF Some]) blast
    have lw: "\<forall>c\<in>set l. re_word c" using label_ok_chars(2) [OF lab(2,1)] lab(3) by simp
    have "l \<noteq> []"
      using lab(3) label_ok_chars(1) [OF lab(2,1)] label_nonempty [OF lab(1)] by auto
    then obtain a l' where l: "l = a # l'" by (cases l) auto
    have out: "sub_from q s = l @ p @ REDACTED @ ?Z" using Some by (simp add: sub_from.simps)
    have sp: "\<forall>c\<in>set (p @ REDACTED). py_lower_char c \<notin> set ''ims''"
    proof
      fix c assume "c \<in> set (p @ REDACTED)"
      then consider "c \<in> set p" | "c \<in> set REDACTED" by auto
      then show "py_lower_char c \<notin> set ''ims''"
      proof cases
        case 1
        with separator_first [OF sep_value_Some(6) [OF lab(4)]] have "py_isspace c \<or> separator_char c"
          by blast
        then show ?thesis using space_not_start by blast
      next
        case 2
        then show ?thesis using REDACTED_not_start by blast
      qed
    qed
    have tail: "\<not> search_from (Some CHR '']'') ?Z"
    proof (cases r)
      case Nil
      then show ?thesis by (simp add: sub_from.simps no_match_Nil)
    next
      case (Cons c cs)
      then have "py_lower_char c \<notin> set ''ims''"
        using sep_value_Some(5) [OF lab(4)] space_not_start [of c] by auto
      then have n: "match_at x (c # y) = None" for x y by (rule no_match_start)
      then have "?Z = c # sub_from (Some c) cs" using Cons by (simp add: sub_from.simps)
      with "1.IH"(2) [OF Some refl refl refl] n show ?thesis by simp
    qed
    have "\<not> search_from (Some (last l)) ((p @ REDACTED) @ ?Z)"
      using tail search_skip_start [OF sp, of "Some (last l)" ?Z] by (simp add: REDACTED_def)
    then have "\<not> search_from (Some a) (l' @ p @ REDACTED @ ?Z)"
      using search_skip_word [of a l' "p @ REDACTED @ ?Z"] lw l by auto
    moreover have "match_at q (l @ p @ REDACTED @ ?Z) = None"
      using match_at_redacted [OF Some, of "''REDACTED]'' @ ?Z"] by (simp add: REDACTED_def)
    ultimately show ?thesis unfolding out using l by simp
  qed
qed

lemma redact_text_clean: "\<not> labeled_identifier (redact_text s)"
  by (simp add: labeled_identifier_def redact_text_def sub_from_clean)

section \<open>Redacted payloads\<close>

text \<open>Every key of a payload is free of the reserved subscriber names.\<close>

fun keys_ordinary :: "json \<Rightarrow> bool" where
  "keys_ordinary (JObj kvs) = list_all (\<lambda>(k, v). \<not> is_sensitive_key k \<and> keys_ordinary v) kvs"
| "keys_ordinary (JList vs) = list_all keys_ordinary vs"
| "keys_ordinary v = True"

lemma find_in_fields_empty:
  "(\<forall>(k, v)\<in>set kvs. \<not> labeled_identifier k \<and> \<not> is_sensitive_key k \<and>
      (\<forall>path. find_sensitive_paths path v = [])) \<Longrightarrow> find_in_fields path kvs = []"
  by (induction kvs) auto

lemma find_in_items_empty:
  "(\<forall>v\<in>set vs. \<forall>path. find_sensitive_paths path v = []) \<Longrightarrow> find_in_items path i vs = []"
  by (induction vs arbitrary: i) auto

lemma REDACTED_ordinary: "\<not> labeled_identifier REDACTED" "\<not> is_sensitive_key REDACTED"
proof -
  have "match_at q (c # cs) = None" if "c \<in> set REDACTED" for q c cs
    by (rule no_match_start) (use that REDACTED_not_start in blast)
  then show "\<not> labeled_identifier REDACTED"
    by (simp add: labeled_identifier_def REDACTED_def no_match_Nil)
  show "\<not> is_sensitive_key REDACTED" by code_simp
qed

lemma redacted_payload_clean:
  "keys_ordinary v \<Longrightarrow> find_sensitive_paths path (redact_sensitive_data v) = []"
proof (induction v arbitrary: path rule: redact_sensitive_data.induct)
  case (1 kvs)
  let ?g = "\<lambda>(key, nested). (if labeled_identifier key then REDACTED else key,
      if is_sensitive_key key \<and> \<not> is_empty_value nested then JStr REDACTED
      else redact_sensitive_data nested)"
  have "\<not> labeled_identifier k \<and> \<not> is_sensitive_key k \<and> (\<forall>p. find_sensitive_paths p w = [])"
    if "(k, w) \<in> set (map ?g kvs)" for k w
    using that "1" REDACTED_ordinary by (fastforce simp: list_all_iff split: if_splits)
  then have "find_in_fields path (dict_of (map ?g kvs)) = []"
    using dict_of_set [of "map ?g kvs"] by (intro find_in_fields_empty) blast
  then show ?case by simp
next
  case (2 vs)
  then show ?case by (simp add: list_all_iff find_in_items_empty)
next
  case (3 s)
  then show ?case by (simp add: redact_text_clean)
qed auto

section \<open>Strings without a separator\<close>

lemma match_at_separator:
  assumes "match_at prev s \<noteq> None"
  shows "\<exists>c\<in>set s. py_isspace c \<or> separator_char c"
proof -
  from assms obtain l p v r where m: "match_at prev s = Some (l, p, v, r)" by (cases "match_at prev s") auto
  from m obtain lab :: string where "sep_value (drop (length lab) s) = Some (p, v, r)" by (rule match_at_Some) blast
  then have "is_separator p" by (rule sep_value_Some(6))
  then have "\<exists>c\<in>set p. py_isspace c \<or> separator_char c"
    by (auto simp: is_separator_def list_all_iff neq_Nil_conv)
  then show ?thesis using match_at_split(1) [OF m] by auto
qed

lemma no_separator_clean:
  assumes "\<forall>c\<in>set s. \<not> py_isspace c \<and> \<not> separator_char c"
  shows "\<not> labeled_identifier s"
proof -
  have "\<not> search_from prev s" for prev
    using assms match_at_separator by (induction s arbitrary: prev) fastforce+
  then show ?thesis by (simp add: labeled_identifier_def)
qed

end
