(* ===== verification/Models.thy ===== *)
theory Models
  imports Privacy
begin

text \<open>
  \<open>telco_domain/models.py\<close>: the domain values shared by every profile.  Each pydantic
  class is a record; its literal \<open>schema_version\<close> (always \<open>"1.0"\<close>) and the literal
  \<open>requires_approval\<close> (always true) are left out.  A value of a record stands for a
  field-coerced instance (strings stripped, digests lower-cased, datetimes in UTC);
  \<open>..._fields_ok\<close> are the declared field constraints and \<open>validate_...\<close> the source's
  own validators, \<open>None\<close> when they accept and \<open>Some message\<close> when they raise
  \<open>ValueError\<close>.  A \<open>dict\<close> field is an association list in key order, so that equality
  of records is Python's equality.  The argument \<open>h\<close> of the hashing operations stands
  for \<open>hashlib.sha256(text.encode("utf-8")).hexdigest()\<close>.
\<close>

section \<open>Enumerations\<close>

datatype incident_status = DETECTED | TRIAGED | INVESTIGATING | RCA_COMPLETE
  | AWAITING_APPROVAL | REMEDIATING | VERIFYING | RESOLVED | CLOSED | DUPLICATE
  | REJECTED | FAILED | CANCELLED | REOPENED

datatype incident_severity = Sev_UNKNOWN | Sev_INFO | Sev_LOW | Sev_MEDIUM | Sev_HIGH | Sev_CRITICAL

datatype technology = Tech_UNKNOWN | LTE | FIVE_G_NSA | FIVE_G_SA

datatype resource_type = LOCATION | NETWORK_SERVICE | NETWORK_NODE | ENODEB | CELL | GNB
  | NR_CELL | NETWORK_SLICE | Res_OTHER

datatype kpi_comparator = LESS_THAN | LESS_THAN_OR_EQUAL | GREATER_THAN
  | GREATER_THAN_OR_EQUAL | EQUAL | NOT_EQUAL

datatype evidence_type = METRIC | TRACE | LOG | RULE | DOCUMENT | PRIOR_INCIDENT
  | TEST_RESULT | TOPOLOGY | Ev_OTHER

datatype report_status = Rep_DRAFT | Rep_PROPOSED | Rep_APPROVED | Rep_PERSISTED | Rep_SUPERSEDED

datatype rca_conclusion = CONCLUSIVE | INCONCLUSIVE

datatype approval_type = REPORT_PERSISTENCE | NETWORK_ACTION

datatype approval_status = Ap_PENDING | Ap_APPROVED | Ap_REJECTED | Ap_EXPIRED | Ap_CANCELLED

datatype risk_level = Risk_LOW | Risk_MEDIUM | Risk_HIGH | Risk_CRITICAL

datatype action_run_status = Run_PENDING | Run_QUEUED | Run_RUNNING | Run_SUCCEEDED
  | Run_FAILED | Run_CANCELLED | Run_SKIPPED

datatype verification_status = Ver_PENDING | Ver_RUNNING | Ver_PASSED | Ver_FAILED
  | Ver_INCONCLUSIVE | Ver_CANCELLED

text \<open>\<open>set(IncidentStatus)\<close> is finite and enumerated, so statements over all statuses compute.\<close>

instantiation incident_status :: enum
begin

definition enum_incident_status :: "incident_status list" where
  "enum_incident_status = [DETECTED, TRIAGED, INVESTIGATING, RCA_COMPLETE, AWAITING_APPROVAL,
     REMEDIATING, VERIFYING, RESOLVED, CLOSED, DUPLICATE, REJECTED, FAILED, CANCELLED, REOPENED]"

definition enum_all_incident_status :: "(incident_status \<Rightarrow> bool) \<Rightarrow> bool" where
  "enum_all_incident_status p = list_all p enum_class.enum"

definition enum_ex_incident_status :: "(incident_status \<Rightarrow> bool) \<Rightarrow> bool" where
  "enum_ex_incident_status p = list_ex p enum_class.enum"

instance
proof
  have in_enum: "s \<in> set enum_class.enum" for s :: incident_status
    by (cases s) (simp_all add: enum_incident_status_def)
  then show "UNIV = set (enum_class.enum :: incident_status list)" by blast
  show "distinct (enum_class.enum :: incident_status list)"
    by (simp add: enum_incident_status_def)
  show "enum_class.enum_all p \<longleftrightarrow> Ball UNIV p" for p :: "incident_status \<Rightarrow> bool"
    using in_enum by (auto simp: enum_all_incident_status_def list_all_iff)
  show "enum_class.enum_ex p \<longleftrightarrow> Bex UNIV p" for p :: "incident_status \<Rightarrow> bool"
    using in_enum by (auto simp: enum_ex_incident_status_def list_ex_iff)
qed

end

fun technology_value :: "technology \<Rightarrow> string" where
  "technology_value Tech_UNKNOWN = ''UNKNOWN''"
| "technology_value LTE = ''LTE''"
| "technology_value FIVE_G_NSA = ''5G_NSA''"
| "technology_value FIVE_G_SA = ''5G_SA''"

fun resource_type_value :: "resource_type \<Rightarrow> string" where
  "resource_type_value LOCATION = ''LOCATION''"
| "resource_type_value NETWORK_SERVICE = ''NETWORK_SERVICE''"
| "resource_type_value NETWORK_NODE = ''NETWORK_NODE''"
| "resource_type_value ENODEB = ''ENODEB''"
| "resource_type_value CELL = ''CELL''"
| "resource_type_value GNB = ''GNB''"
| "resource_type_value NR_CELL = ''NR_CELL''"
| "resource_type_value NETWORK_SLICE = ''NETWORK_SLICE''"
| "resource_type_value Res_OTHER = ''OTHER''"

fun risk_level_value :: "risk_level \<Rightarrow> string" where
  "risk_level_value Risk_LOW = ''LOW''"
| "risk_level_value Risk_MEDIUM = ''MEDIUM''"
| "risk_level_value Risk_HIGH = ''HIGH''"
| "risk_level_value Risk_CRITICAL = ''CRITICAL''"

fun incident_status_value :: "incident_status \<Rightarrow> string" where
  "incident_status_value DETECTED = ''DETECTED''"
| "incident_status_value TRIAGED = ''TRIAGED''"
| "incident_status_value INVESTIGATING = ''INVESTIGATING''"
| "incident_status_value RCA_COMPLETE = ''RCA_COMPLETE''"
| "incident_status_value AWAITING_APPROVAL = ''AWAITING_APPROVAL''"
| "incident_status_value REMEDIATING = ''REMEDIATING''"
| "incident_status_value VERIFYING = ''VERIFYING''"
| "incident_status_value RESOLVED = ''RESOLVED''"
| "incident_status_value CLOSED = ''CLOSED''"
| "incident_status_value DUPLICATE = ''DUPLICATE''"
| "incident_status_value REJECTED = ''REJECTED''"
| "incident_status_value FAILED = ''FAILED''"
| "incident_status_value CANCELLED = ''CANCELLED''"
| "incident_status_value REOPENED = ''REOPENED''"

section \<open>Field types\<close>

definition MAX_INCIDENT_SOURCE_EVENTS :: nat where "MAX_INCIDENT_SOURCE_EVENTS = 1000"

text \<open>\<open>_as_utc\<close>: naive datetimes are rejected.\<close>

definition as_utc :: "py_datetime \<Rightarrow> string + instant" where
  "as_utc value = (case value of Naive _ \<Rightarrow> Inl ''datetime values must include a timezone''
     | Aware t \<Rightarrow> Inr t)"

definition identifier_ok :: "string \<Rightarrow> bool" where
  "identifier_ok s = (1 \<le> length s \<and> length s \<le> 256)"

definition non_empty_str_ok :: "string \<Rightarrow> bool" where
  "non_empty_str_ok s = (1 \<le> length s \<and> length s \<le> 1024)"

definition sha256_digest_ok :: "string \<Rightarrow> bool" where
  "sha256_digest_ok s = (length s = 64 \<and> list_all (\<lambda>c. c \<in> set ''0123456789abcdefABCDEF'') s)"

section \<open>Resources, KPIs and evidence\<close>

record resource_reference =
  resource_id :: string
  resource_type :: resource_type
  resource_name :: "string option"
  resource_technology :: "technology option"
  resource_vendor_profile :: "string option"
  parent_resource_id :: "string option"
  location_id :: "string option"
  external_ids :: "(string, string) dict"
  resource_attributes :: "(string, json) dict"

definition resource_fields_ok :: "resource_reference \<Rightarrow> bool" where
  "resource_fields_ok r \<longleftrightarrow> identifier_ok (resource_id r) \<and> opt_ok non_empty_str_ok (resource_name r) \<and>
     opt_ok non_empty_str_ok (resource_vendor_profile r) \<and> opt_ok identifier_ok (parent_resource_id r) \<and>
     opt_ok identifier_ok (location_id r)"

definition json_opt :: "string option \<Rightarrow> json" where
  "json_opt v = (case v of None \<Rightarrow> JNull | Some s \<Rightarrow> JStr s)"

definition stable_identity :: "resource_reference \<Rightarrow> json" where
  "stable_identity r = JObj [
     (''resource_id'', JStr (resource_id r)),
     (''resource_type'', JStr (resource_type_value (resource_type r))),
     (''technology'', json_opt (map_option technology_value (resource_technology r))),
     (''vendor_profile'', json_opt (resource_vendor_profile r)),
     (''location_id'', json_opt (location_id r)),
     (''parent_resource_id'', json_opt (parent_resource_id r)),
     (''external_ids'', JObj (map (\<lambda>(k, v). (k, JStr v)) (external_ids r)))]"

text \<open>\<open>_canonical_json\<close> on domain values, which hold no non-finite float.\<close>

definition canonical_json :: "json \<Rightarrow> string" where
  "canonical_json value = json_text value"

definition stable_hash :: "(string \<Rightarrow> string) \<Rightarrow> json \<Rightarrow> string" where
  "stable_hash h value = h (canonical_json value)"

definition canonical_resource_identity :: "resource_reference \<Rightarrow> string" where
  "canonical_resource_identity r = canonical_json (stable_identity r)"

definition resource_scope_identity :: "resource_reference list \<Rightarrow> string list" where
  "resource_scope_identity resources = sort (map canonical_resource_identity resources)"

record kpi_violation =
  violation_id :: "string option"
  kpi_name :: string
  observed_value :: rat
  threshold_value :: rat
  comparator :: kpi_comparator
  kpi_unit :: "string option"
  kpi_window_start :: "instant option"
  kpi_window_end :: "instant option"
  kpi_rule_id :: "string option"
  kpi_rule_version :: "string option"
  kpi_resource_ids :: "string list"
  kpi_dimensions :: "(string, string) dict"

definition kpi_violation_fields_ok :: "kpi_violation \<Rightarrow> bool" where
  "kpi_violation_fields_ok k \<longleftrightarrow> opt_ok identifier_ok (violation_id k) \<and> non_empty_str_ok (kpi_name k) \<and>
     opt_ok identifier_ok (kpi_rule_id k) \<and> opt_ok non_empty_str_ok (kpi_rule_version k) \<and>
     list_all identifier_ok (kpi_resource_ids k)"

text \<open>The check of a window shared by \<open>KpiViolation\<close> and \<open>Incident\<close>.\<close>

definition validate_window :: "instant option \<Rightarrow> instant option \<Rightarrow> string option" where
  "validate_window ws we =
     (if (ws = None) \<noteq> (we = None) then Some ''window_start and window_end must be provided together''
      else case (ws, we) of
        (Some a, Some b) \<Rightarrow> fail_if (b < a) ''window_end must not be earlier than window_start''
      | _ \<Rightarrow> None)"

definition validate_kpi_violation :: "kpi_violation \<Rightarrow> string option" where
  "validate_kpi_violation k = first_error [
     fail_if (\<not> kpi_violation_fields_ok k) ''field constraint'',
     validate_window (kpi_window_start k) (kpi_window_end k)]"

record kpi_observation =
  observation_id :: string
  obs_kpi_name :: string
  obs_observed_value :: rat
  observed_at :: instant
  obs_resources :: "resource_reference list"
  obs_unit :: "string option"
  obs_source_uri :: string
  quality_flags :: "string list"
  obs_dimensions :: "(string, string) dict"

definition validate_kpi_observation :: "kpi_observation \<Rightarrow> string option" where
  "validate_kpi_observation k = first_error [
     fail_if (\<not> (identifier_ok (observation_id k) \<and> non_empty_str_ok (obs_kpi_name k) \<and>
        obs_resources k \<noteq> [] \<and> list_all resource_fields_ok (obs_resources k) \<and>
        opt_ok non_empty_str_ok (obs_unit k) \<and> non_empty_str_ok (obs_source_uri k) \<and>
        list_all non_empty_str_ok (quality_flags k))) ''field constraint'',
     fail_if (\<not> distinct (map (\<lambda>r. (resource_type_value (resource_type r), resource_id r,
        parent_resource_id r)) (obs_resources k))) ''resources must not contain duplicates'',
     fail_if (\<not> distinct (quality_flags k)) ''quality_flags must not contain duplicates'']"

record evidence_reference =
  evidence_id :: string
  evidence_type :: evidence_type
  evidence_uri :: string
  evidence_source :: "string option"
  evidence_summary :: "string option"
  collected_at :: "instant option"
  content_type :: "string option"
  checksum_sha256 :: "string option"
  evidence_attributes :: "(string, json) dict"

definition validate_evidence :: "evidence_reference \<Rightarrow> string option" where
  "validate_evidence e = fail_if (\<not> (identifier_ok (evidence_id e) \<and> non_empty_str_ok (evidence_uri e) \<and>
     opt_ok non_empty_str_ok (evidence_source e) \<and> opt_ok non_empty_str_ok (content_type e) \<and>
     opt_ok sha256_digest_ok (checksum_sha256 e))) ''field constraint''"

section \<open>Remediation actions\<close>

record remediation_action =
  action_id :: string
  action_type :: string
  action_description :: "string option"
  target_resources :: "resource_reference list"
  parameters :: "(string, json) dict"
  risk_level :: risk_level
  reversible :: bool
  rollback_plan :: "string option"
  expected_outcome :: "string option"
  action_idempotency_key :: "string option"
  action_created_at :: instant

definition remediation_fields_ok :: "remediation_action \<Rightarrow> bool" where
  "remediation_fields_ok a \<longleftrightarrow> identifier_ok (action_id a) \<and> non_empty_str_ok (action_type a) \<and>
     target_resources a \<noteq> [] \<and> list_all resource_fields_ok (target_resources a) \<and>
     opt_ok identifier_ok (action_idempotency_key a)"

definition validate_remediation_action :: "remediation_action \<Rightarrow> string option" where
  "validate_remediation_action a = first_error [
     fail_if (\<not> remediation_fields_ok a) ''field constraint'',
     fail_if (\<not> distinct (map canonical_resource_identity (target_resources a)))
       ''target_resources must not contain duplicates'',
     fail_if (reversible a \<and> \<not> non_blank (str_or_empty (rollback_plan a)))
       ''reversible actions must include a rollback_plan'']"

definition parameter_hash :: "(string \<Rightarrow> string) \<Rightarrow> remediation_action \<Rightarrow> string" where
  "parameter_hash h a = stable_hash h (JObj (parameters a))"

definition action_identity :: "(string \<Rightarrow> string) \<Rightarrow> remediation_action \<Rightarrow> json" where
  "action_identity h a = JObj [
     (''action_type'', JStr (action_type a)),
     (''description'', json_opt (action_description a)),
     (''risk_level'', JStr (risk_level_value (risk_level a))),
     (''reversible'', JBool (reversible a)),
     (''rollback_plan'', json_opt (rollback_plan a)),
     (''expected_outcome'', json_opt (expected_outcome a)),
     (''parameter_hash'', JStr (parameter_hash h a)),
     (''targets'', JList (sort_key canonical_json (map stable_identity (target_resources a))))]"

definition compute_action_hash :: "(string \<Rightarrow> string) \<Rightarrow> remediation_action \<Rightarrow> string" where
  "compute_action_hash h a = stable_hash h (action_identity h a)"

section \<open>Reports and approvals\<close>

record rca_report =
  report_id :: string
  report_incident_id :: string
  version :: int
  report_status :: report_status
  report_title :: "string option"
  report_summary :: string
  report_hypotheses :: "string list"
  report_root_cause :: "string option"
  conclusion :: rca_conclusion
  confidence :: "rat option"
  report_evidence_refs :: "evidence_reference list"
  report_recommendations :: "remediation_action list"
  generated_by :: "string option"
  report_model_metadata :: "(string, json) dict"
  report_created_at :: instant

definition validate_rca_report :: "rca_report \<Rightarrow> string option" where
  "validate_rca_report r = first_error ([
     fail_if (\<not> (identifier_ok (report_id r) \<and> identifier_ok (report_incident_id r) \<and> 1 \<le> version r \<and>
       opt_ok (\<lambda>c. 0 \<le> c \<and> c \<le> 1) (confidence r))) ''field constraint'']
     @ map validate_evidence (report_evidence_refs r)
     @ map validate_remediation_action (report_recommendations r))"

record approval_decision =
  approval_id :: string
  request_id :: string
  sequence :: int
  approval_incident_id :: string
  approval_report_id :: string
  approval_report_version :: int
  subject_id :: string
  approval_status :: approval_status
  approval_type :: approval_type
  approval_action_hash :: "string option"
  scope :: "resource_reference list"
  requested_by :: "string option"
  decided_by :: "string option"
  approval_reason :: "string option"
  requested_at :: instant
  decided_at :: "instant option"
  expires_at :: "instant option"
  approval_idempotency_key :: string

definition approval_fields_ok :: "approval_decision \<Rightarrow> bool" where
  "approval_fields_ok d \<longleftrightarrow> identifier_ok (approval_id d) \<and> identifier_ok (request_id d) \<and> 0 \<le> sequence d \<and>
     identifier_ok (approval_incident_id d) \<and> identifier_ok (approval_report_id d) \<and>
     1 \<le> approval_report_version d \<and> identifier_ok (subject_id d) \<and>
     opt_ok sha256_digest_ok (approval_action_hash d) \<and> list_all resource_fields_ok (scope d) \<and>
     opt_ok identifier_ok (requested_by d) \<and> opt_ok identifier_ok (decided_by d) \<and>
     identifier_ok (approval_idempotency_key d)"

text \<open>\<open>ApprovalDecision.validate_timeline\<close>.\<close>

definition validate_approval :: "approval_decision \<Rightarrow> string option" where
  "validate_approval d = first_error [
     fail_if (\<not> approval_fields_ok d) ''field constraint'',
     fail_if (\<not> opt_ok (\<lambda>t. requested_at d \<le> t) (decided_at d))
       ''decided_at must not be earlier than requested_at'',
     fail_if (\<not> opt_ok (\<lambda>t. requested_at d < t) (expires_at d))
       ''expires_at must be later than requested_at'',
     fail_if (approval_status d = Ap_APPROVED \<and>
       \<not> opt_ok (\<lambda>t. opt_ok (\<lambda>e. t < e) (expires_at d)) (decided_at d))
       ''approved decisions must precede expires_at'',
     fail_if (approval_status d = Ap_EXPIRED \<and> expires_at d = None)
       ''EXPIRED decisions require expires_at'',
     fail_if (approval_status d = Ap_EXPIRED \<and>
       \<not> opt_ok (\<lambda>t. opt_ok (\<lambda>e. e \<le> t) (expires_at d)) (decided_at d))
       ''EXPIRED decided_at must be at or after expires_at'',
     fail_if (approval_status d \<noteq> Ap_PENDING \<and> (decided_by d = None \<or> decided_at d = None))
       ''terminal approval decisions require decided_by, decided_at'',
     fail_if (approval_status d \<noteq> Ap_PENDING \<and> sequence d = 0)
       ''terminal approval decisions require sequence >= 1'',
     fail_if (approval_status d = Ap_PENDING \<and> sequence d \<noteq> 0)
       ''pending approval requests must use sequence 0'',
     fail_if (approval_type d = NETWORK_ACTION \<and>
       (approval_action_hash d = None \<or> scope d = [] \<or> expires_at d = None))
       ''network action approvals require action_hash, scope, expires_at'',
     fail_if (approval_type d = NETWORK_ACTION \<and>
       \<not> distinct (map canonical_resource_identity (scope d)))
       ''approval scope must not contain duplicates'',
     fail_if (approval_type d \<noteq> NETWORK_ACTION \<and> subject_id d \<noteq> approval_report_id d)
       ''report approval subject_id must match report_id'']"

text \<open>\<open>is_effective\<close> at a normalised instant, and with its optional argument.\<close>

definition effective_at :: "approval_decision \<Rightarrow> instant \<Rightarrow> bool" where
  "effective_at d instant =
     (if approval_status d \<noteq> Ap_APPROVED then False
      else case decided_at d of None \<Rightarrow> False
      | Some t \<Rightarrow> if instant < t then False
          else (case expires_at d of None \<Rightarrow> True | Some e \<Rightarrow> instant < e))"

definition is_effective :: "instant \<Rightarrow> approval_decision \<Rightarrow> py_datetime option \<Rightarrow> string + bool" where
  "is_effective utc_now d moment =
     (case moment of None \<Rightarrow> Inr (effective_at d utc_now)
      | Some v \<Rightarrow> (case as_utc v of Inl e \<Rightarrow> Inl e | Inr t \<Rightarrow> Inr (effective_at d t)))"

definition covers_action ::
  "(string \<Rightarrow> string) \<Rightarrow> approval_decision \<Rightarrow> remediation_action \<Rightarrow> string \<Rightarrow> rca_report \<Rightarrow> bool" where
  "covers_action h d action incident_id report \<longleftrightarrow>
     approval_type d = NETWORK_ACTION \<and> approval_incident_id d = incident_id \<and>
     approval_report_id d = report_id report \<and> approval_report_version d = version report \<and>
     report_incident_id report = incident_id \<and> subject_id d = action_id action \<and>
     approval_action_hash d = Some (compute_action_hash h action) \<and>
     resource_scope_identity (scope d) = resource_scope_identity (target_resources action)"

section \<open>Runs and audit records\<close>

record action_run =
  action_run_id :: string
  run_incident_id :: "string option"
  run_action_id :: string
  run_action_hash :: "string option"
  run_status :: action_run_status
  run_idempotency_key :: "string option"
  attempt :: int
  run_started_at :: "instant option"
  run_finished_at :: "instant option"
  output_summary :: "string option"
  run_error :: "string option"
  run_metadata :: "(string, json) dict"

definition bound_statuses :: "action_run_status list" where
  "bound_statuses = [Run_RUNNING, Run_SUCCEEDED, Run_FAILED, Run_CANCELLED, Run_SKIPPED]"

definition run_terminal_statuses :: "action_run_status list" where
  "run_terminal_statuses = filter (\<lambda>s. s \<noteq> Run_RUNNING) bound_statuses"

text \<open>The check \<open>finished_at < started_at\<close> of both kinds of runs.\<close>

definition finished_before_started :: "instant option \<Rightarrow> instant option \<Rightarrow> bool" where
  "finished_before_started s f \<longleftrightarrow> (case (s, f) of (Some a, Some b) \<Rightarrow> b < a | _ \<Rightarrow> False)"

definition validate_action_run :: "action_run \<Rightarrow> string option" where
  "validate_action_run r = first_error [
     fail_if (\<not> (identifier_ok (action_run_id r) \<and> opt_ok identifier_ok (run_incident_id r) \<and>
        identifier_ok (run_action_id r) \<and> opt_ok sha256_digest_ok (run_action_hash r) \<and>
        opt_ok identifier_ok (run_idempotency_key r) \<and> 1 \<le> attempt r \<and>
        opt_ok non_empty_str_ok (run_error r))) ''field constraint'',
     fail_if (finished_before_started (run_started_at r) (run_finished_at r))
       ''finished_at must not be earlier than started_at'',
     fail_if (run_status r \<in> set bound_statuses \<and>
        (run_incident_id r = None \<or> run_action_hash r = None \<or> run_idempotency_key r = None \<or>
         run_started_at r = None)) ''ActionRun requires bindings'',
     fail_if (run_status r \<in> set run_terminal_statuses \<and> run_finished_at r = None)
       ''ActionRun requires finished_at'',
     fail_if (run_status r = Run_FAILED \<and> run_error r = None)
       ''FAILED ActionRun requires a safe error summary'']"

record verification_run =
  verification_id :: string
  ver_incident_id :: "string option"
  ver_action_run_ids :: "string list"
  ver_status :: verification_status
  checks :: "string list"
  observed_kpis :: "kpi_violation list"
  ver_evidence_refs :: "evidence_reference list"
  ver_summary :: "string option"
  ver_error :: "string option"
  ver_started_at :: "instant option"
  ver_finished_at :: "instant option"
  ver_metadata :: "(string, json) dict"

definition validate_verification_run :: "verification_run \<Rightarrow> string option" where
  "validate_verification_run v = first_error ([
     fail_if (\<not> (identifier_ok (verification_id v) \<and> opt_ok identifier_ok (ver_incident_id v) \<and>
        list_all identifier_ok (ver_action_run_ids v) \<and> opt_ok non_empty_str_ok (ver_error v)))
        ''field constraint'']
     @ map validate_kpi_violation (observed_kpis v) @ map validate_evidence (ver_evidence_refs v) @ [
     fail_if (finished_before_started (ver_started_at v) (ver_finished_at v))
       ''finished_at must not be earlier than started_at'',
     fail_if (ver_status v = Ver_RUNNING \<and> (ver_incident_id v = None \<or> ver_started_at v = None))
       ''RUNNING VerificationRun requires incident_id, started_at'',
     fail_if (ver_status v \<in> {Ver_PASSED, Ver_FAILED} \<and>
        (ver_incident_id v = None \<or> ver_action_run_ids v = [] \<or> \<not> list_ex non_blank (checks v) \<or>
         ver_evidence_refs v = [] \<or> ver_started_at v = None \<or> ver_finished_at v = None))
       ''VerificationRun requires bindings'',
     fail_if (ver_status v = Ver_FAILED \<and> ver_error v = None)
       ''FAILED VerificationRun requires a safe error summary'',
     fail_if (\<not> distinct (ver_action_run_ids v)) ''action_run_ids must not contain duplicates''])"

record incident_audit_event =
  event_id :: string
  audit_incident_id :: string
  from_status :: "incident_status option"
  to_status :: incident_status
  audit_revision :: int
  occurred_at :: instant
  audit_actor :: string
  audit_reason :: string
  audit_idempotency_key :: string
  audit_trace_id :: string

record source_event_association =
  assoc_incident_id :: string
  assoc_source_event_id :: string
  registered_at :: instant
  assoc_actor :: string
  assoc_reason :: string
  assoc_idempotency_key :: string
  assoc_trace_id :: string

text \<open>
  Construction of the two audit records: the string fields are stripped, and an
  \<open>Identifier\<close> field holds at most 256 characters, a \<open>NonEmptyStr\<close> one at most 1024.
\<close>

definition new_audit_event ::
  "string \<Rightarrow> string \<Rightarrow> incident_status option \<Rightarrow> incident_status \<Rightarrow> int \<Rightarrow> instant \<Rightarrow> string \<Rightarrow>
   string \<Rightarrow> string \<Rightarrow> string \<Rightarrow> string + incident_audit_event" where
  "new_audit_event eid iid fromst tost revn at_time actor reason key trace =
     (if identifier_ok (py_strip eid) \<and> identifier_ok (py_strip iid) \<and> 0 \<le> revn \<and>
         identifier_ok (py_strip actor) \<and> non_empty_str_ok (py_strip reason) \<and>
         identifier_ok (py_strip key) \<and> identifier_ok (py_strip trace)
      then Inr \<lparr>event_id = py_strip eid, audit_incident_id = py_strip iid, from_status = fromst,
         to_status = tost, audit_revision = revn, occurred_at = at_time, audit_actor = py_strip actor,
         audit_reason = py_strip reason, audit_idempotency_key = py_strip key,
         audit_trace_id = py_strip trace\<rparr>
      else Inl ''field constraint'')"

definition new_association ::
  "string \<Rightarrow> string \<Rightarrow> instant \<Rightarrow> string \<Rightarrow> string \<Rightarrow> string \<Rightarrow> string \<Rightarrow>
   string + source_event_association" where
  "new_association iid sid at_time actor reason key trace =
     (if identifier_ok (py_strip iid) \<and> identifier_ok (py_strip sid) \<and>
         identifier_ok (py_strip actor) \<and> non_empty_str_ok (py_strip reason) \<and>
         identifier_ok (py_strip key) \<and> identifier_ok (py_strip trace)
      then Inr \<lparr>assoc_incident_id = py_strip iid, assoc_source_event_id = py_strip sid,
         registered_at = at_time, assoc_actor = py_strip actor, assoc_reason = py_strip reason,
         assoc_idempotency_key = py_strip key, assoc_trace_id = py_strip trace\<rparr>
      else Inl ''field constraint'')"

section \<open>The Incident aggregate\<close>

record incident =
  incident_id :: string
  correlation_key :: "string option"
  source_event_ids :: "string list"
  technology :: technology
  vendor_profile :: "string option"
  status :: incident_status
  severity :: incident_severity
  title :: string
  description :: string
  affected_resources :: "resource_reference list"
  detected_at :: instant
  window_start :: "instant option"
  window_end :: "instant option"
  violated_kpis :: "kpi_violation list"
  evidence_refs :: "evidence_reference list"
  hypotheses :: "string list"
  root_cause :: "string option"
  rca_reports :: "rca_report list"
  recommendations :: "remediation_action list"
  approvals :: "approval_decision list"
  action_runs :: "action_run list"
  verification_runs :: "verification_run list"
  model_metadata :: "(string, json) dict"
  rule_versions :: "(string, string) dict"
  trace_id :: string
  duplicate_of :: "string option"
  created_at :: instant
  updated_at :: instant
  revision :: int

definition incident_fields_ok :: "incident \<Rightarrow> bool" where
  "incident_fields_ok i \<longleftrightarrow> identifier_ok (incident_id i) \<and> opt_ok identifier_ok (correlation_key i) \<and>
     list_all identifier_ok (source_event_ids i) \<and>
     length (source_event_ids i) \<le> MAX_INCIDENT_SOURCE_EVENTS \<and>
     opt_ok non_empty_str_ok (vendor_profile i) \<and> list_all resource_fields_ok (affected_resources i) \<and>
     identifier_ok (trace_id i) \<and> opt_ok identifier_ok (duplicate_of i) \<and> 0 \<le> revision i"

text \<open>\<open>_approval_binding\<close>: what the events of one approval request have in common.\<close>

definition approval_binding ::
  "approval_decision \<Rightarrow> approval_type \<times> string \<times> string \<times> int \<times> string \<times> string option \<times>
     string list \<times> instant \<times> instant option" where
  "approval_binding d = (approval_type d, approval_incident_id d, approval_report_id d,
     approval_report_version d, subject_id d, approval_action_hash d,
     resource_scope_identity (scope d), requested_at d, expires_at d)"

text \<open>\<open>grouped.setdefault(request_id, []).append(approval)\<close>.\<close>

definition group_approvals :: "approval_decision list \<Rightarrow> (string, approval_decision list) dict" where
  "group_approvals ds = foldl (\<lambda>g d. AList.update (request_id d)
     ((case map_of g (request_id d) of None \<Rightarrow> [] | Some xs \<Rightarrow> xs) @ [d]) g) [] ds"

definition check_approval :: "(string \<Rightarrow> string) \<Rightarrow> incident \<Rightarrow> approval_decision \<Rightarrow> string option" where
  "check_approval h i d =
     (if approval_incident_id d \<noteq> incident_id i then Some ''approval incident_id must match its Incident''
      else case map_of (dict_of (map (\<lambda>r. ((report_id r, version r), r)) (rca_reports i)))
                  (approval_report_id d, approval_report_version d) of
        None \<Rightarrow> Some ''approval must bind an RCA report on its Incident''
      | Some report \<Rightarrow> first_error [
          fail_if (approval_type d = NETWORK_ACTION \<and>
            (case map_of (dict_of (map (\<lambda>a. (action_id a, a)) (recommendations i))) (subject_id d) of
               None \<Rightarrow> True | Some action \<Rightarrow> \<not> covers_action h d action (incident_id i) report))
            ''approval must exactly bind a recommended action'',
          fail_if (approval_type d = REPORT_PERSISTENCE \<and> subject_id d \<noteq> report_id report)
            ''report approval subject_id must match report_id''])"

definition check_approval_group :: "approval_decision list \<Rightarrow> string option" where
  "check_approval_group events =
     (let ordered = sort_key sequence events in
      if map sequence ordered \<noteq> map int [0..<length ordered]
        then Some ''approval request must have contiguous sequences''
      else case ordered of [] \<Rightarrow> None
      | first # rest \<Rightarrow> first_error [
          fail_if (approval_status first \<noteq> Ap_PENDING) ''approval request must begin with PENDING'',
          fail_if (list_ex (\<lambda>e. approval_binding e \<noteq> approval_binding first) rest)
            ''approval request cannot change its binding''])"

definition validate_approval_lifecycles :: "(string \<Rightarrow> string) \<Rightarrow> incident \<Rightarrow> string option" where
  "validate_approval_lifecycles h i = first_error (
     map (check_approval h i) (approvals i) @
     map (\<lambda>(request_id, events). check_approval_group events) (group_approvals (approvals i)))"

definition ensure_unique :: "string \<Rightarrow> 'a list \<Rightarrow> string option" where
  "ensure_unique name values = fail_if (\<not> distinct values) (name @ '' must not contain duplicates'')"

text \<open>\<open>validate_aggregate\<close>.\<close>

definition validate_aggregate :: "(string \<Rightarrow> string) \<Rightarrow> incident \<Rightarrow> string option" where
  "validate_aggregate h i = first_error [
     validate_window (window_start i) (window_end i),
     fail_if (\<not> opt_ok (\<lambda>e. e \<le> detected_at i) (window_end i))
       ''window_end must not be later than detected_at'',
     fail_if (updated_at i < created_at i) ''updated_at must not be earlier than created_at'',
     fail_if (duplicate_of i = Some (incident_id i)) ''duplicate_of must reference a different incident'',
     ensure_unique ''source_event_ids'' (source_event_ids i),
     ensure_unique ''affected_resources''
       (map (\<lambda>r. (resource_type_value (resource_type r), resource_id r)) (affected_resources i)),
     ensure_unique ''approvals'' (map approval_id (approvals i)),
     ensure_unique ''approval lifecycle sequences'' (map (\<lambda>d. (request_id d, sequence d)) (approvals i)),
     ensure_unique ''approval idempotency keys'' (map approval_idempotency_key (approvals i)),
     ensure_unique ''rca_reports'' (map (\<lambda>r. (report_id r, version r)) (rca_reports i)),
     ensure_unique ''RCA report versions'' (map version (rca_reports i)),
     ensure_unique ''evidence_refs'' (map evidence_id (evidence_refs i)),
     ensure_unique ''recommendations'' (map action_id (recommendations i)),
     fail_if (list_ex (\<lambda>r. report_incident_id r \<noteq> incident_id i) (rca_reports i))
       ''RCA report incident_id must match its Incident'',
     validate_approval_lifecycles h i,
     fail_if (list_ex (\<lambda>r. run_incident_id r \<noteq> None \<and> run_incident_id r \<noteq> Some (incident_id i)) (action_runs i) \<or>
        list_ex (\<lambda>v. ver_incident_id v \<noteq> None \<and> ver_incident_id v \<noteq> Some (incident_id i)) (verification_runs i))
       ''run incident_id must match its Incident'',
     ensure_unique ''action_runs'' (map action_run_id (action_runs i)),
     ensure_unique ''action run attempts'' (map (\<lambda>r. (run_action_id r, attempt r)) (action_runs i)),
     ensure_unique ''action run idempotency keys''
       (filter (\<lambda>k. k \<noteq> None) (map run_idempotency_key (action_runs i))),
     ensure_unique ''verification_runs'' (map verification_id (verification_runs i)),
     fail_if (list_ex (\<lambda>v. \<not> set (ver_action_run_ids v) \<subseteq> set (map action_run_id (action_runs i)))
        (verification_runs i)) ''VerificationRun action_run_ids must reference this Incident'']"

text \<open>\<open>Incident.model_validate\<close>: field constraints, nested validators, then the aggregate.\<close>

definition model_validate :: "(string \<Rightarrow> string) \<Rightarrow> incident \<Rightarrow> string option" where
  "model_validate h i = first_error ([fail_if (\<not> incident_fields_ok i) ''field constraint'']
     @ map validate_kpi_violation (violated_kpis i) @ map validate_evidence (evidence_refs i)
     @ map validate_rca_report (rca_reports i) @ map validate_remediation_action (recommendations i)
     @ map validate_approval (approvals i) @ map validate_action_run (action_runs i)
     @ map validate_verification_run (verification_runs i) @ [validate_aggregate h i])"

abbreviation incident_valid :: "(string \<Rightarrow> string) \<Rightarrow> incident \<Rightarrow> bool" where
  "incident_valid h i \<equiv> model_validate h i = None"

definition latest_approval_decision :: "incident \<Rightarrow> string \<Rightarrow> approval_decision option" where
  "latest_approval_decision i rid =
     max_by sequence (filter (\<lambda>d. request_id d = rid) (approvals i))"

text \<open>
  \<open>effective_action_approval\<close> iterates over a \<open>set\<close> of request identifiers, whose order the
  language leaves open; \<open>request_ids\<close> is the order of one run (some list of that set).
\<close>

definition effective_action_approval ::
  "(string \<Rightarrow> string) \<Rightarrow> incident \<Rightarrow> string list \<Rightarrow> remediation_action \<Rightarrow> rca_report \<Rightarrow> instant \<Rightarrow>
   approval_decision option" where
  "effective_action_approval h i request_ids action report moment =
     List.find (\<lambda>d. covers_action h d action (incident_id i) report \<and> effective_at d moment)
       (List.map_filter (latest_approval_decision i) request_ids)"

section \<open>What validation gives\<close>

lemma model_validate_nested:
  assumes "incident_valid h i"
  shows "incident_fields_ok i" and "validate_aggregate h i = None"
    and "d \<in> set (approvals i) \<Longrightarrow> validate_approval d = None"
    and "r \<in> set (action_runs i) \<Longrightarrow> validate_action_run r = None"
    and "v \<in> set (verification_runs i) \<Longrightarrow> validate_verification_run v = None"
  using assms by (auto simp: model_validate_def)

lemma validate_aggregate_parts:
  assumes "validate_aggregate h i = None"
  shows "distinct (source_event_ids i)" and "distinct (map approval_id (approvals i))"
    and "distinct (map (\<lambda>d. (request_id d, sequence d)) (approvals i))"
    and "distinct (map version (rca_reports i))" and "distinct (map action_id (recommendations i))"
    and "validate_approval_lifecycles h i = None" and "created_at i \<le> updated_at i"
    and "distinct (map action_run_id (action_runs i))"
    and "distinct (map (\<lambda>r. (run_action_id r, attempt r)) (action_runs i))"
  using assms by (auto simp: validate_aggregate_def ensure_unique_def)

lemma group_approvals_lookup:
  "map_of (group_approvals ds) r =
     (if filter (\<lambda>d. request_id d = r) ds = [] then None else Some (filter (\<lambda>d. request_id d = r) ds))"
proof -
  have "map_of (foldl (\<lambda>g d. AList.update (request_id d)
       ((case map_of g (request_id d) of None \<Rightarrow> [] | Some xs \<Rightarrow> xs) @ [d]) g) g ds) r =
     (if filter (\<lambda>d. request_id d = r) ds = [] then map_of g r
      else Some ((case map_of g r of None \<Rightarrow> [] | Some xs \<Rightarrow> xs) @ filter (\<lambda>d. request_id d = r) ds))" for g
    by (induction ds arbitrary: g) (auto split: option.splits)
  from this [of "[]"] show ?thesis by (simp add: group_approvals_def)
qed

lemma approval_lifecycle_group:
  assumes "validate_approval_lifecycles h i = None" and "d \<in> set (approvals i)"
  shows "check_approval h i d = None"
    and "check_approval_group (filter (\<lambda>e. request_id e = request_id d) (approvals i)) = None"
proof -
  show "check_approval h i d = None" using assms by (auto simp: validate_approval_lifecycles_def)
  have "map_of (group_approvals (approvals i)) (request_id d) =
      Some (filter (\<lambda>e. request_id e = request_id d) (approvals i))"
    using assms(2) by (auto simp: group_approvals_lookup filter_empty_conv)
  from map_of_SomeD [OF this] assms(1)
  show "check_approval_group (filter (\<lambda>e. request_id e = request_id d) (approvals i)) = None"
    by (fastforce simp: validate_approval_lifecycles_def)
qed

lemma approval_group_contiguous:
  assumes "incident_valid h i"
  shows "map sequence (sort_key sequence (filter (\<lambda>e. request_id e = r) (approvals i))) =
    map int [0..<length (filter (\<lambda>e. request_id e = r) (approvals i))]"
proof (cases "filter (\<lambda>e. request_id e = r) (approvals i)")
  case (Cons d ds)
  then have "d \<in> set (filter (\<lambda>e. request_id e = r) (approvals i))" by simp
  then have d: "d \<in> set (approvals i)" "request_id d = r" by simp_all
  have "validate_approval_lifecycles h i = None"
    by (rule validate_aggregate_parts(6) [OF model_validate_nested(2) [OF assms]])
  from approval_lifecycle_group(2) [OF this d(1)] d(2) show ?thesis
    by (simp add: check_approval_group_def Let_def split: if_splits)
qed simp

lemma approval_incident_bound:
  assumes "incident_valid h i" and "d \<in> set (approvals i)"
  shows "approval_incident_id d = incident_id i"
proof -
  have "validate_approval_lifecycles h i = None"
    by (rule validate_aggregate_parts(6) [OF model_validate_nested(2) [OF assms(1)]])
  from approval_lifecycle_group(1) [OF this assms(2)] show ?thesis
    by (auto simp: check_approval_def split: if_splits)
qed

end
