(* ===== verification/State_Machine.thy ===== *)
theory State_Machine
  imports Models
begin

text \<open>
  \<open>telco_domain/state_machine.py\<close>: the graph of legal incident transitions, the guards
  of each target status, and \<open>transition_incident\<close>, the pure function every repository
  commits through.  Its \<open>updates\<close> argument is a list of field updates; the flag
  \<open>dumped\<close> says whether the model-valued ones hold dictionaries from \<open>model_dump\<close>
  (as \<open>save\<close> passes them) instead of model instances, because a dictionary never
  equals a model instance in the history checks.
\<close>

section \<open>Errors and the transition graph\<close>

datatype state_error =
    InvalidTransitionError string incident_status incident_status
  | RevisionConflictError string int int
  | InvalidTransitionUpdateError "string list"
  | TransitionTimeError
  | TransitionGuardError string incident_status string
  | IncidentStateError string
  | ValidationError string

fun TRANSITIONS :: "incident_status \<Rightarrow> incident_status list" where
  "TRANSITIONS DETECTED = [TRIAGED, DUPLICATE, FAILED, CANCELLED]"
| "TRANSITIONS TRIAGED = [INVESTIGATING, DUPLICATE, REJECTED, FAILED, CANCELLED]"
| "TRANSITIONS INVESTIGATING = [RCA_COMPLETE, DUPLICATE, FAILED, CANCELLED]"
| "TRANSITIONS RCA_COMPLETE = [AWAITING_APPROVAL, INVESTIGATING, REJECTED, FAILED, CANCELLED]"
| "TRANSITIONS AWAITING_APPROVAL = [REMEDIATING, REJECTED, FAILED, CANCELLED]"
| "TRANSITIONS REMEDIATING = [VERIFYING, FAILED, CANCELLED]"
| "TRANSITIONS VERIFYING = [RESOLVED, REOPENED, FAILED, CANCELLED]"
| "TRANSITIONS RESOLVED = [CLOSED, REOPENED]"
| "TRANSITIONS CLOSED = [REOPENED]"
| "TRANSITIONS DUPLICATE = []"
| "TRANSITIONS REJECTED = []"
| "TRANSITIONS FAILED = []"
| "TRANSITIONS CANCELLED = []"
| "TRANSITIONS REOPENED = [INVESTIGATING, FAILED, CANCELLED]"

definition TERMINAL_STATUSES :: "incident_status list" where
  "TERMINAL_STATUSES = [DUPLICATE, REJECTED, FAILED, CANCELLED]"

definition CLOSED_STATUSES :: "incident_status list" where
  "CLOSED_STATUSES = TERMINAL_STATUSES @ [CLOSED]"

definition SETTLED_STATUSES :: "incident_status list" where
  "SETTLED_STATUSES = CLOSED_STATUSES"

definition REOPENABLE_STATUSES :: "incident_status list" where
  "REOPENABLE_STATUSES = [VERIFYING, RESOLVED, CLOSED]"

definition ACTIVE_STATUSES :: "incident_status list" where
  "ACTIVE_STATUSES = filter (\<lambda>s. s \<notin> set SETTLED_STATUSES) Enum.enum"

text \<open>\<open>IncidentStatus(value)\<close>; \<open>None\<close> is its \<open>ValueError\<close>.\<close>

definition parse_status :: "string \<Rightarrow> incident_status option" where
  "parse_status value = List.find (\<lambda>s. incident_status_value s = value) Enum.enum"

definition allowed_transitions :: "incident_status \<Rightarrow> incident_status list" where
  "allowed_transitions current = TRANSITIONS current"

definition can_transition :: "incident_status \<Rightarrow> incident_status \<Rightarrow> bool" where
  "can_transition current target \<longleftrightarrow> target \<in> set (allowed_transitions current)"

section \<open>Updates\<close>

datatype field_update =
    U_source_event_ids "string list"
  | U_vendor_profile "string option"
  | U_severity incident_severity
  | U_title string
  | U_description string
  | U_affected_resources "resource_reference list"
  | U_window_start "instant option"
  | U_window_end "instant option"
  | U_violated_kpis "kpi_violation list"
  | U_evidence_refs "evidence_reference list"
  | U_hypotheses "string list"
  | U_root_cause "string option"
  | U_rca_reports "rca_report list"
  | U_recommendations "remediation_action list"
  | U_approvals "approval_decision list"
  | U_action_runs "action_run list"
  | U_verification_runs "verification_run list"
  | U_model_metadata "(string, json) dict"
  | U_rule_versions "(string, string) dict"
  | U_duplicate_of "string option"
  | U_other string

fun update_field :: "field_update \<Rightarrow> string" where
  "update_field (U_source_event_ids _) = ''source_event_ids''"
| "update_field (U_vendor_profile _) = ''vendor_profile''"
| "update_field (U_severity _) = ''severity''"
| "update_field (U_title _) = ''title''"
| "update_field (U_description _) = ''description''"
| "update_field (U_affected_resources _) = ''affected_resources''"
| "update_field (U_window_start _) = ''window_start''"
| "update_field (U_window_end _) = ''window_end''"
| "update_field (U_violated_kpis _) = ''violated_kpis''"
| "update_field (U_evidence_refs _) = ''evidence_refs''"
| "update_field (U_hypotheses _) = ''hypotheses''"
| "update_field (U_root_cause _) = ''root_cause''"
| "update_field (U_rca_reports _) = ''rca_reports''"
| "update_field (U_recommendations _) = ''recommendations''"
| "update_field (U_approvals _) = ''approvals''"
| "update_field (U_action_runs _) = ''action_runs''"
| "update_field (U_verification_runs _) = ''verification_runs''"
| "update_field (U_model_metadata _) = ''model_metadata''"
| "update_field (U_rule_versions _) = ''rule_versions''"
| "update_field (U_duplicate_of _) = ''duplicate_of''"
| "update_field (U_other name) = name"

fun apply_update :: "incident \<Rightarrow> field_update \<Rightarrow> incident" where
  "apply_update i (U_source_event_ids x) = i\<lparr>source_event_ids := x\<rparr>"
| "apply_update i (U_vendor_profile x) = i\<lparr>vendor_profile := x\<rparr>"
| "apply_update i (U_severity x) = i\<lparr>severity := x\<rparr>"
| "apply_update i (U_title x) = i\<lparr>title := x\<rparr>"
| "apply_update i (U_description x) = i\<lparr>description := x\<rparr>"
| "apply_update i (U_affected_resources x) = i\<lparr>affected_resources := x\<rparr>"
| "apply_update i (U_window_start x) = i\<lparr>window_start := x\<rparr>"
| "apply_update i (U_window_end x) = i\<lparr>window_end := x\<rparr>"
| "apply_update i (U_violated_kpis x) = i\<lparr>violated_kpis := x\<rparr>"
| "apply_update i (U_evidence_refs x) = i\<lparr>evidence_refs := x\<rparr>"
| "apply_update i (U_hypotheses x) = i\<lparr>hypotheses := x\<rparr>"
| "apply_update i (U_root_cause x) = i\<lparr>root_cause := x\<rparr>"
| "apply_update i (U_rca_reports x) = i\<lparr>rca_reports := x\<rparr>"
| "apply_update i (U_recommendations x) = i\<lparr>recommendations := x\<rparr>"
| "apply_update i (U_approvals x) = i\<lparr>approvals := x\<rparr>"
| "apply_update i (U_action_runs x) = i\<lparr>action_runs := x\<rparr>"
| "apply_update i (U_verification_runs x) = i\<lparr>verification_runs := x\<rparr>"
| "apply_update i (U_model_metadata x) = i\<lparr>model_metadata := x\<rparr>"
| "apply_update i (U_rule_versions x) = i\<lparr>rule_versions := x\<rparr>"
| "apply_update i (U_duplicate_of x) = i\<lparr>duplicate_of := x\<rparr>"
| "apply_update i (U_other name) = i"

definition PROTECTED_UPDATE_FIELDS :: "string list" where
  "PROTECTED_UPDATE_FIELDS = [''schema_version'', ''incident_id'', ''correlation_key'',
     ''technology'', ''status'', ''revision'', ''created_at'', ''detected_at'', ''trace_id'',
     ''updated_at'']"

definition FROZEN_RECOMMENDATION_STATUSES :: "incident_status list" where
  "FROZEN_RECOMMENDATION_STATUSES = [RCA_COMPLETE, AWAITING_APPROVAL, REMEDIATING, VERIFYING,
     RESOLVED, CLOSED]"

text \<open>The value an update list gives to a field (a dictionary names a field at most once).\<close>

definition requested :: "(field_update \<Rightarrow> 'a option) \<Rightarrow> field_update list \<Rightarrow> 'a option" where
  "requested get changes = (case List.map_filter get changes of [] \<Rightarrow> None | x # _ \<Rightarrow> Some x)"

fun get_approvals where "get_approvals (U_approvals x) = Some x" | "get_approvals _ = None"
fun get_rca_reports where "get_rca_reports (U_rca_reports x) = Some x" | "get_rca_reports _ = None"
fun get_action_runs where "get_action_runs (U_action_runs x) = Some x" | "get_action_runs _ = None"
fun get_verification_runs where
  "get_verification_runs (U_verification_runs x) = Some x" | "get_verification_runs _ = None"
fun get_evidence_refs where "get_evidence_refs (U_evidence_refs x) = Some x" | "get_evidence_refs _ = None"
fun get_source_event_ids where
  "get_source_event_ids (U_source_event_ids x) = Some x" | "get_source_event_ids _ = None"
fun get_recommendations where
  "get_recommendations (U_recommendations x) = Some x" | "get_recommendations _ = None"

section \<open>Time and history guards\<close>

definition normalize_transition_time ::
  "instant \<Rightarrow> py_datetime option \<Rightarrow> instant \<Rightarrow> state_error + instant" where
  "normalize_transition_time utc_now value current_updated_at =
     (case value of
        None \<Rightarrow> Inr (max utc_now current_updated_at)
      | Some (Naive _) \<Rightarrow> Inl TransitionTimeError
      | Some (Aware t) \<Rightarrow> if t < current_updated_at then Inl TransitionTimeError else Inr t)"

definition normalize_trusted_now :: "instant \<Rightarrow> py_datetime option \<Rightarrow> state_error + instant" where
  "normalize_trusted_now utc_now value =
     (case value of
        None \<Rightarrow> Inr utc_now
      | Some (Naive _) \<Rightarrow> Inl (IncidentStateError ''now must include a timezone'')
      | Some (Aware t) \<Rightarrow> Inr t)"

definition latest_report :: "incident \<Rightarrow> rca_report option" where
  "latest_report i = (if rca_reports i = [] then None else max_by version (rca_reports i))"

text \<open>\<open>len(after) < len(before) or after[:len(before)] != before\<close>; the items of \<open>after\<close> may be
  dictionaries, which differ from every model instance.\<close>

definition rewrites_history :: "bool \<Rightarrow> 'a list \<Rightarrow> 'a list \<Rightarrow> bool" where
  "rewrites_history dumped before after \<longleftrightarrow>
     length after < length before \<or>
     (if dumped then before \<noteq> [] else take (length before) after \<noteq> before)"

definition guard_append :: "incident \<Rightarrow> incident_status \<Rightarrow> string \<Rightarrow> bool \<Rightarrow> state_error option" where
  "guard_append i target field bad = fail_if bad (TransitionGuardError (incident_id i) target
     (field @ '' is append-only; existing history cannot be removed or changed''))"

definition guard_frozen :: "incident \<Rightarrow> incident_status \<Rightarrow> bool \<Rightarrow> state_error option" where
  "guard_frozen i target bad = fail_if bad (TransitionGuardError (incident_id i) target
     ''recommendations are frozen after entering AWAITING_APPROVAL'')"

definition validate_append_only :: "incident \<Rightarrow> incident \<Rightarrow> state_error option" where
  "validate_append_only original successor =
     (let g = guard_append successor (status successor) in first_error [
       g ''approvals'' (rewrites_history False (approvals original) (approvals successor)),
       g ''rca_reports'' (rewrites_history False (rca_reports original) (rca_reports successor)),
       g ''action_runs'' (rewrites_history False (action_runs original) (action_runs successor)),
       g ''verification_runs'' (rewrites_history False (verification_runs original) (verification_runs successor)),
       g ''evidence_refs'' (rewrites_history False (evidence_refs original) (evidence_refs successor)),
       g ''source_event_ids'' (rewrites_history False (source_event_ids original) (source_event_ids successor)),
       guard_frozen successor (status successor)
         (status original \<in> set FROZEN_RECOMMENDATION_STATUSES \<and>
          recommendations successor \<noteq> recommendations original)])"

definition requested_rewrite ::
  "bool \<Rightarrow> (field_update \<Rightarrow> 'a list option) \<Rightarrow> field_update list \<Rightarrow> 'a list \<Rightarrow> bool" where
  "requested_rewrite dumped get changes before =
     (case requested get changes of None \<Rightarrow> False | Some after \<Rightarrow> rewrites_history dumped before after)"

definition validate_requested_history_update ::
  "bool \<Rightarrow> incident \<Rightarrow> incident_status \<Rightarrow> field_update list \<Rightarrow> state_error option" where
  "validate_requested_history_update dumped original target changes =
     (let g = guard_append original target in first_error [
       g ''approvals'' (requested_rewrite dumped get_approvals changes (approvals original)),
       g ''rca_reports'' (requested_rewrite dumped get_rca_reports changes (rca_reports original)),
       g ''action_runs'' (requested_rewrite dumped get_action_runs changes (action_runs original)),
       g ''verification_runs''
         (requested_rewrite dumped get_verification_runs changes (verification_runs original)),
       g ''evidence_refs'' (requested_rewrite dumped get_evidence_refs changes (evidence_refs original)),
       g ''source_event_ids''
         (requested_rewrite False get_source_event_ids changes (source_event_ids original)),
       guard_frozen original target
         (status original \<in> set FROZEN_RECOMMENDATION_STATUSES \<and>
          (case requested get_recommendations changes of None \<Rightarrow> False
           | Some after \<Rightarrow> if dumped then after \<noteq> [] \<or> recommendations original \<noteq> []
               else after \<noteq> recommendations original))])"

section \<open>Guards of the target statuses\<close>

definition raise_guard :: "incident \<Rightarrow> incident_status \<Rightarrow> string \<Rightarrow> state_error" where
  "raise_guard i target reason = TransitionGuardError (incident_id i) target reason"

definition rca_report_eligible :: "incident \<Rightarrow> rca_report \<Rightarrow> bool" where
  "rca_report_eligible i report \<longleftrightarrow>
     report_incident_id report = incident_id i \<and>
     report_status report \<in> {Rep_PROPOSED, Rep_APPROVED, Rep_PERSISTED} \<and>
     report_evidence_refs report \<noteq> [] \<and>
     (non_blank (str_or_empty (report_root_cause report)) \<or> conclusion report = INCONCLUSIVE) \<and>
     report_recommendations report = recommendations i"

definition validate_rca_complete :: "incident \<Rightarrow> incident_status \<Rightarrow> state_error option" where
  "validate_rca_complete i target =
     (case latest_report i of
        None \<Rightarrow> Some (raise_guard i target ''an eligible latest RCA report is required'')
      | Some report \<Rightarrow> fail_if (\<not> rca_report_eligible i report)
          (raise_guard i target ''latest RCA report must match the Incident, be eligible, include evidence, declare a root cause or INCONCLUSIVE result, and own recommendations''))"

text \<open>\<open>_latest_approval_events\<close>: one pass that keeps the greatest sequence per request.\<close>

definition latest_step :: "(string, approval_decision) dict \<Rightarrow> approval_decision \<Rightarrow> (string, approval_decision) dict" where
  "latest_step latest d = (case map_of latest (request_id d) of
        None \<Rightarrow> AList.update (request_id d) d latest
      | Some previous \<Rightarrow>
          if sequence previous < sequence d then AList.update (request_id d) d latest else latest)"

definition latest_approval_events :: "incident \<Rightarrow> approval_decision list" where
  "latest_approval_events i = map snd (foldl latest_step [] (approvals i))"

definition action_approved ::
  "(string \<Rightarrow> string) \<Rightarrow> incident \<Rightarrow> rca_report \<Rightarrow> instant \<Rightarrow> remediation_action \<Rightarrow> bool" where
  "action_approved h i report now action \<longleftrightarrow>
     list_ex (\<lambda>d. approval_status d = Ap_APPROVED \<and>
        covers_action h d action (incident_id i) report \<and> effective_at d now)
       (latest_approval_events i)"

definition validate_remediation_approvals ::
  "(string \<Rightarrow> string) \<Rightarrow> incident \<Rightarrow> incident_status \<Rightarrow> instant \<Rightarrow> state_error option" where
  "validate_remediation_approvals h i target now =
     (case latest_report i of
        None \<Rightarrow> Some (raise_guard i target ''latest RCA report must own the frozen remediation actions'')
      | Some report \<Rightarrow>
          if report_recommendations report \<noteq> recommendations i
          then Some (raise_guard i target ''latest RCA report must own the frozen remediation actions'')
          else first_error (map (\<lambda>action. fail_if (\<not> action_approved h i report now action)
            (raise_guard i target (''action lacks a matching effective approval''))) (recommendations i)))"

definition run_successful :: "(string \<Rightarrow> string) \<Rightarrow> incident \<Rightarrow> remediation_action \<Rightarrow> action_run \<Rightarrow> bool" where
  "run_successful h i action r \<longleftrightarrow> run_status r = Run_SUCCEEDED \<and>
     run_incident_id r = Some (incident_id i) \<and>
     run_action_hash r = Some (compute_action_hash h action) \<and> run_finished_at r \<noteq> None"

definition latest_run :: "incident \<Rightarrow> remediation_action \<Rightarrow> action_run option" where
  "latest_run i action = max_by attempt (filter (\<lambda>r. run_action_id r = action_id action) (action_runs i))"

fun collect_runs ::
  "(string \<Rightarrow> string) \<Rightarrow> incident \<Rightarrow> incident_status \<Rightarrow> remediation_action list \<Rightarrow>
   state_error + action_run list" where
  "collect_runs h i target [] = Inr []"
| "collect_runs h i target (action # actions) =
     (case latest_run i action of
        None \<Rightarrow> Inl (raise_guard i target ''every recommended action requires an exact successful ActionRun'')
      | Some r \<Rightarrow>
          if \<not> run_successful h i action r
          then Inl (raise_guard i target ''every recommended action requires an exact successful ActionRun'')
          else case collect_runs h i target actions of Inl e \<Rightarrow> Inl e | Inr rs \<Rightarrow> Inr (r # rs))"

definition successful_action_runs ::
  "(string \<Rightarrow> string) \<Rightarrow> incident \<Rightarrow> incident_status \<Rightarrow> state_error + action_run list" where
  "successful_action_runs h i target = collect_runs h i target (recommendations i)"

definition verification_covers :: "incident \<Rightarrow> action_run list \<Rightarrow> verification_run \<Rightarrow> bool" where
  "verification_covers i runs v \<longleftrightarrow> ver_status v = Ver_PASSED \<and>
     ver_incident_id v = Some (incident_id i) \<and> ver_finished_at v \<noteq> None \<and>
     list_ex non_blank (checks v) \<and> ver_evidence_refs v \<noteq> [] \<and>
     set (map action_run_id runs) = set (ver_action_run_ids v)"

definition validate_resolved :: "(string \<Rightarrow> string) \<Rightarrow> incident \<Rightarrow> incident_status \<Rightarrow> state_error option" where
  "validate_resolved h i target =
     (case successful_action_runs h i target of
        Inl e \<Rightarrow> Some e
      | Inr runs \<Rightarrow>
          if verification_runs i = [] then Some (raise_guard i target ''a latest VerificationRun is required'')
          else fail_if (\<not> verification_covers i runs (last (verification_runs i)))
            (raise_guard i target ''latest VerificationRun must be PASSED, complete, and cover successful runs''))"

definition validate_transition_guard ::
  "(string \<Rightarrow> string) \<Rightarrow> incident \<Rightarrow> incident \<Rightarrow> incident_status \<Rightarrow> instant \<Rightarrow> state_error option" where
  "validate_transition_guard h original i target now =
     (let no_action = fail_if (recommendations i = [])
            (raise_guard i target ''at least one remediation action is required'') in
      first_error ([validate_append_only original i,
        fail_if (target = DUPLICATE \<and> duplicate_of i = None) (raise_guard i target ''duplicate_of is required'')]
      @ (if target = RCA_COMPLETE then [validate_rca_complete i target] else [])
      @ (if target = AWAITING_APPROVAL then [validate_rca_complete i target, no_action] else [])
      @ (if target = REMEDIATING then [no_action, validate_remediation_approvals h i target now] else [])
      @ (if target = VERIFYING then
           [case successful_action_runs h i target of Inl e \<Rightarrow> Some e | Inr _ \<Rightarrow> None] else [])
      @ (if target = RESOLVED then [validate_resolved h i target] else [])))"

section \<open>The transition\<close>

text \<open>\<open>payload.update(changes)\<close>, then status, revision and time, then validation.  A key that is
  not a field of \<open>Incident\<close> is refused by the model's \<open>extra="forbid"\<close>.\<close>

definition successor_of ::
  "incident \<Rightarrow> field_update list \<Rightarrow> incident_status \<Rightarrow> instant \<Rightarrow> incident" where
  "successor_of i changes target t =
     (foldl apply_update i changes)\<lparr>status := target, revision := revision i + 1, updated_at := t\<rparr>"

definition transition_incident ::
  "(string \<Rightarrow> string) \<Rightarrow> instant \<Rightarrow> bool \<Rightarrow> incident \<Rightarrow> string \<Rightarrow> int \<Rightarrow> py_datetime option \<Rightarrow>
   py_datetime option \<Rightarrow> field_update list \<Rightarrow> state_error + incident" where
  "transition_incident h utc_now dumped i target_status expected_revision transitioned_at now changes =
     (if expected_revision \<noteq> revision i
      then Inl (RevisionConflictError (incident_id i) expected_revision (revision i))
      else case parse_status target_status of
        None \<Rightarrow> Inl (IncidentStateError ''unknown incident status'')
      | Some target \<Rightarrow>
        if \<not> can_transition (status i) target
        then Inl (InvalidTransitionError (incident_id i) (status i) target)
        else let protected = filter (\<lambda>f. f \<in> set PROTECTED_UPDATE_FIELDS) (map update_field changes) in
        if protected \<noteq> [] then Inl (InvalidTransitionUpdateError protected)
        else case validate_requested_history_update dumped i target changes of
          Some e \<Rightarrow> Inl e
        | None \<Rightarrow>
        case normalize_transition_time utc_now transitioned_at (updated_at i) of
          Inl e \<Rightarrow> Inl e
        | Inr t \<Rightarrow>
        case normalize_trusted_now utc_now now of
          Inl e \<Rightarrow> Inl e
        | Inr trusted_now \<Rightarrow>
        let successor = successor_of i changes target t in
        if list_ex (\<lambda>u. case u of U_other _ \<Rightarrow> True | _ \<Rightarrow> False) changes
        then Inl (ValidationError ''extra fields not permitted'')
        else case model_validate h successor of
          Some e \<Rightarrow> Inl (ValidationError e)
        | None \<Rightarrow>
        case validate_transition_guard h i successor target trusted_now of
          Some e \<Rightarrow> Inl e
        | None \<Rightarrow> Inr successor)"

section \<open>What a successful transition gives\<close>

lemma transition_incident_Inr:
  assumes "transition_incident h utc_now dumped i target_status expected transitioned_at now changes = Inr j"
  obtains target t trusted where
    "expected = revision i" "parse_status target_status = Some target"
    "target \<in> set (TRANSITIONS (status i))"
    "\<forall>u\<in>set changes. update_field u \<notin> set PROTECTED_UPDATE_FIELDS"
    "normalize_transition_time utc_now transitioned_at (updated_at i) = Inr t"
    "normalize_trusted_now utc_now now = Inr trusted"
    "validate_requested_history_update dumped i target changes = None"
    "j = successor_of i changes target t"
    "incident_valid h j" "validate_transition_guard h i j target trusted = None"
  using assms
  by (simp add: transition_incident_def Let_def can_transition_def allowed_transitions_def filter_empty_conv
      split: if_splits option.splits sum.splits)

lemma parse_status_value: "parse_status (incident_status_value s) = Some s"
  by (cases s) (simp_all add: parse_status_def enum_incident_status_def)

lemma parse_status_Some: "parse_status v = Some s \<longleftrightarrow> incident_status_value s = v"
  using parse_status_value [of s] by (auto simp: parse_status_def find_Some_iff)

lemma transition_incident_success:
  assumes "target \<in> set (TRANSITIONS (status i))"
    and "\<forall>u\<in>set changes. update_field u \<notin> set PROTECTED_UPDATE_FIELDS \<and> (\<forall>n. u \<noteq> U_other n)"
    and "validate_requested_history_update dumped i target changes = None"
    and "updated_at i \<le> t" and "incident_valid h (successor_of i changes target t)"
    and "validate_transition_guard h i (successor_of i changes target t) target n = None"
  shows "transition_incident h utc_now dumped i (incident_status_value target) (revision i)
    (Some (Aware t)) (Some (Aware n)) changes = Inr (successor_of i changes target t)"
proof -
  have "filter (\<lambda>f. f \<in> set PROTECTED_UPDATE_FIELDS) (map update_field changes) = []"
    and "\<not> list_ex (\<lambda>u. case u of U_other _ \<Rightarrow> True | _ \<Rightarrow> False) changes"
    using assms(2) by (auto simp: filter_empty_conv list_ex_iff split: field_update.splits)
  then show ?thesis
    using assms by (simp add: transition_incident_def can_transition_def allowed_transitions_def parse_status_value
        normalize_transition_time_def normalize_trusted_now_def Let_def)
qed

lemma apply_update_protected:
  "incident_id (apply_update i u) = incident_id i" "correlation_key (apply_update i u) = correlation_key i"
  "technology (apply_update i u) = technology i" "detected_at (apply_update i u) = detected_at i"
  "trace_id (apply_update i u) = trace_id i" "created_at (apply_update i u) = created_at i"
  by (cases u; simp)+

lemma apply_updates_protected:
  "incident_id (foldl apply_update i changes) = incident_id i"
  "correlation_key (foldl apply_update i changes) = correlation_key i"
  "technology (foldl apply_update i changes) = technology i"
  "detected_at (foldl apply_update i changes) = detected_at i"
  "trace_id (foldl apply_update i changes) = trace_id i"
  "created_at (foldl apply_update i changes) = created_at i"
  by (induction changes rule: rev_induct; simp add: apply_update_protected)+

lemma successor_of_simps [simp]:
  "status (successor_of i changes target t) = target"
  "revision (successor_of i changes target t) = revision i + 1"
  "updated_at (successor_of i changes target t) = t"
  "incident_id (successor_of i changes target t) = incident_id i"
  "correlation_key (successor_of i changes target t) = correlation_key i"
  "technology (successor_of i changes target t) = technology i"
  "detected_at (successor_of i changes target t) = detected_at i"
  "trace_id (successor_of i changes target t) = trace_id i"
  "created_at (successor_of i changes target t) = created_at i"
  by (simp_all add: successor_of_def apply_updates_protected)

lemma transition_time_later:
  "normalize_transition_time utc_now v u = Inr t \<Longrightarrow> u \<le> t"
  by (auto simp: normalize_transition_time_def split: option.splits py_datetime.splits if_splits)

lemma rewrites_history_prefix: "rewrites_history False before after \<longleftrightarrow> \<not> prefix before after"
  by (auto simp: rewrites_history_def prefix_def) (metis append_take_drop_id)+

definition histories_extend :: "incident \<Rightarrow> incident \<Rightarrow> bool" where
  "histories_extend i j \<longleftrightarrow> prefix (approvals i) (approvals j) \<and> prefix (rca_reports i) (rca_reports j) \<and>
     prefix (action_runs i) (action_runs j) \<and> prefix (verification_runs i) (verification_runs j) \<and>
     prefix (evidence_refs i) (evidence_refs j) \<and> prefix (source_event_ids i) (source_event_ids j)"

lemma validate_append_only_None:
  "validate_append_only i j = None \<longleftrightarrow> histories_extend i j \<and>
     (status i \<in> set FROZEN_RECOMMENDATION_STATUSES \<longrightarrow> recommendations j = recommendations i)"
  by (auto simp: validate_append_only_def Let_def guard_append_def guard_frozen_def histories_extend_def
      rewrites_history_prefix)

lemma guard_None:
  assumes "validate_transition_guard h i j target now = None"
  shows "validate_append_only i j = None"
    and "target = DUPLICATE \<Longrightarrow> duplicate_of j \<noteq> None"
    and "target \<in> {RCA_COMPLETE, AWAITING_APPROVAL} \<Longrightarrow> validate_rca_complete j target = None"
    and "target \<in> {AWAITING_APPROVAL, REMEDIATING} \<Longrightarrow> recommendations j \<noteq> []"
    and "target = REMEDIATING \<Longrightarrow> validate_remediation_approvals h j target now = None"
    and "target = VERIFYING \<Longrightarrow> \<exists>runs. successful_action_runs h j target = Inr runs"
    and "target = RESOLVED \<Longrightarrow> validate_resolved h j target = None"
proof -
  note none = assms [unfolded validate_transition_guard_def Let_def first_error_None]
  from none show "validate_append_only i j = None" by simp
  from none show "target = DUPLICATE \<Longrightarrow> duplicate_of j \<noteq> None" by simp
  from none show "target \<in> {RCA_COMPLETE, AWAITING_APPROVAL} \<Longrightarrow> validate_rca_complete j target = None"
    by (elim insertE) simp_all
  from none show "target \<in> {AWAITING_APPROVAL, REMEDIATING} \<Longrightarrow> recommendations j \<noteq> []"
    by (elim insertE) simp_all
  from none show "target = REMEDIATING \<Longrightarrow> validate_remediation_approvals h j target now = None" by simp
  from none show "target = VERIFYING \<Longrightarrow> \<exists>runs. successful_action_runs h j target = Inr runs"
    by (cases "successful_action_runs h j target") simp_all
  from none show "target = RESOLVED \<Longrightarrow> validate_resolved h j target = None" by simp
qed

section \<open>Latest approvals\<close>

lemma max_by_snoc:
  "max_by k (xs @ [y]) = (case max_by k xs of None \<Rightarrow> Some y | Some m \<Rightarrow> Some (if k m < k y then y else m))"
proof -
  have "max_from k x (xs @ [y]) = (if k (max_from k x xs) < k y then y else max_from k x xs)" for x xs
    by (induction xs arbitrary: x) auto
  then show ?thesis by (cases xs) auto
qed

lemma latest_fold:
  "distinct (map fst (foldl latest_step [] ds)) \<and>
   map_of (foldl latest_step [] ds) r = max_by sequence (filter (\<lambda>d. request_id d = r) ds)"
  by (induction ds arbitrary: r rule: rev_induct)
     (auto simp: latest_step_def max_by_snoc split: option.splits)

lemma latest_approval_events_iff:
  "d \<in> set (latest_approval_events i) \<longleftrightarrow> latest_approval_decision i (request_id d) = Some d"
proof -
  let ?m = "foldl latest_step [] (approvals i)"
  have key: "map_of ?m r = Some d \<Longrightarrow> request_id d = r" for r
    using latest_fold [of "approvals i" r] by (auto dest: max_by_in)
  have "d \<in> snd ` set ?m \<longleftrightarrow> (\<exists>r. map_of ?m r = Some d)"
    using latest_fold [of "approvals i" undefined] by (force simp: map_of_eq_Some_iff)
  also have "\<dots> \<longleftrightarrow> map_of ?m (request_id d) = Some d" using key by blast
  finally show ?thesis
    using latest_fold [of "approvals i" "request_id d"]
    by (simp add: latest_approval_events_def latest_approval_decision_def)
qed

section \<open>Steps and runs of one incident\<close>

text \<open>
  A step is one successful call of \<open>transition_incident\<close>, with any clock reading,
  arguments and updates; a run is a sequence of steps.
\<close>

inductive incident_step :: "(string \<Rightarrow> string) \<Rightarrow> incident \<Rightarrow> incident \<Rightarrow> bool" for h where
  transition: "transition_incident h utc_now dumped i target expected at_time now changes = Inr j \<Longrightarrow>
    incident_step h i j"

inductive_cases incident_stepE: "incident_step h i j"

lemma incident_step_facts:
  assumes "incident_step h i j"
  shows "status j \<in> set (TRANSITIONS (status i))" and "revision j = revision i + 1"
    and "updated_at i \<le> updated_at j" and "histories_extend i j" and "incident_valid h j"
    and "incident_id j = incident_id i" and "trace_id j = trace_id i"
    and "correlation_key j = correlation_key i"
    and "status i \<in> set FROZEN_RECOMMENDATION_STATUSES \<Longrightarrow> recommendations j = recommendations i"
    and "\<exists>now. validate_transition_guard h i j (status j) now = None"
proof -
  from assms obtain utc_now dumped target expected at_time now changes where
    "transition_incident h utc_now dumped i target expected at_time now changes = Inr j"
    by (rule incident_stepE)
  then obtain tgt t trusted where facts: "tgt \<in> set (TRANSITIONS (status i))"
    "normalize_transition_time utc_now at_time (updated_at i) = Inr t"
    "j = successor_of i changes tgt t" "incident_valid h j"
    "validate_transition_guard h i j tgt trusted = None" by (rule transition_incident_Inr)
  have append: "validate_append_only i j = None" by (rule guard_None(1) [OF facts(5)])
  from facts(1,3) show "status j \<in> set (TRANSITIONS (status i))" by simp
  from facts(3) show "revision j = revision i + 1" by simp
  from transition_time_later [OF facts(2)] facts(3) show "updated_at i \<le> updated_at j" by simp
  from append show "histories_extend i j" by (simp add: validate_append_only_None)
  from append show "status i \<in> set FROZEN_RECOMMENDATION_STATUSES \<Longrightarrow>
    recommendations j = recommendations i" by (simp add: validate_append_only_None)
  from facts(4) show "incident_valid h j" .
  from facts(3) show "incident_id j = incident_id i" "trace_id j = trace_id i"
    "correlation_key j = correlation_key i" by simp_all
  from facts(3,5) show "\<exists>now. validate_transition_guard h i j (status j) now = None" by auto
qed

lemma histories_extend_refl: "histories_extend i i"
  by (simp add: histories_extend_def)

lemma histories_extend_trans: "histories_extend i j \<Longrightarrow> histories_extend j k \<Longrightarrow> histories_extend i k"
  by (auto simp: histories_extend_def intro: prefix_order.trans)

text \<open>
  The contract of a versioned, append-only aggregate: what every writer of the incident
  relies on, proved here once for runs of any length.
\<close>

locale versioned_aggregate =
  fixes step :: "'s \<Rightarrow> 's \<Rightarrow> bool" and version_of :: "'s \<Rightarrow> int" and stamp :: "'s \<Rightarrow> int"
    and extends :: "'s \<Rightarrow> 's \<Rightarrow> bool"
  assumes step_version: "step a b \<Longrightarrow> version_of b = version_of a + 1"
    and step_stamp: "step a b \<Longrightarrow> stamp a \<le> stamp b"
    and step_extends: "step a b \<Longrightarrow> extends a b"
    and extends_refl: "extends a a"
    and extends_trans: "extends a b \<Longrightarrow> extends b c \<Longrightarrow> extends a c"
begin

lemma run_version: "(step ^^ n) a b \<Longrightarrow> version_of b = version_of a + int n"
  by (induction n arbitrary: b) (auto dest: step_version)

lemma run_stamp: "step\<^sup>*\<^sup>* a b \<Longrightarrow> stamp a \<le> stamp b"
  by (induction rule: rtranclp_induct) (auto dest: step_stamp)

lemma run_extends: "step\<^sup>*\<^sup>* a b \<Longrightarrow> extends a b"
  by (induction rule: rtranclp_induct) (auto intro: extends_refl extends_trans step_extends)

lemma proper_run_version: "step\<^sup>+\<^sup>+ a b \<Longrightarrow> version_of a < version_of b"
  by (induction rule: tranclp_induct) (auto dest: step_version)

lemma run_version_determines_end: "step\<^sup>*\<^sup>* a b \<Longrightarrow> version_of b \<le> version_of a \<Longrightarrow> b = a"
  by (metis proper_run_version not_le rtranclpD)

end

text \<open>A labelled transition system over a finite graph, and its dominators.\<close>

locale status_graph =
  fixes step :: "'s \<Rightarrow> 's \<Rightarrow> bool" and label_of :: "'s \<Rightarrow> 'l" and succs :: "'l \<Rightarrow> 'l list"
  assumes step_label: "step a b \<Longrightarrow> label_of b \<in> set (succs (label_of a))"
begin

lemma only_predecessor:
  assumes "step\<^sup>*\<^sup>* a b" and "label_of b = l" and "label_of a \<noteq> l"
    and "\<And>m. l \<in> set (succs m) \<Longrightarrow> m = d"
  shows "\<exists>c. step\<^sup>*\<^sup>* a c \<and> step c b \<and> label_of c = d"
proof -
  from assms(1-3) have "step\<^sup>+\<^sup>+ a b" by (metis rtranclpD)
  then obtain c where "step\<^sup>*\<^sup>* a c" "step c b" by (metis tranclpD tranclp.cases rtranclp.rtrancl_refl tranclp_into_rtranclp)
  moreover from step_label [OF \<open>step c b\<close>] assms(2,4) have "label_of c = d" by simp
  ultimately show ?thesis by blast
qed

lemma sink_is_final:
  assumes "succs (label_of a) = []"
  shows "\<not> step a b" and "step\<^sup>*\<^sup>* a b \<Longrightarrow> b = a"
  using assms step_label by (fastforce elim: converse_rtranclpE)+

end

interpretation incident_versions: versioned_aggregate "incident_step h" revision updated_at histories_extend
  for h
  by unfold_locales (auto dest: incident_step_facts intro: histories_extend_refl histories_extend_trans)

interpretation incident_graph: status_graph "incident_step h" status allowed_transitions
  for h
  by unfold_locales (auto simp: allowed_transitions_def dest: incident_step_facts)

end
