(* ===== verification/Fixtures.thy ===== *)
theory Fixtures
  imports State_Machine
begin

text \<open>
  A concrete incident and its life from detection to resolution, on which the
  properties of the other theories are evaluated.  \<open>digest\<close> stands for SHA-256 in
  these evaluations: any function into 64 hexadecimal digits will do.
\<close>

definition digest :: "string \<Rightarrow> string" where
  "digest text = replicate 64 (CHR ''a'')"

definition ex_cell :: resource_reference where
  "ex_cell = \<lparr>resource_id = ''cell-7'', resource_type = NR_CELL, resource_name = None,
     resource_technology = Some FIVE_G_SA, resource_vendor_profile = None, parent_resource_id = None,
     location_id = None, external_ids = [], resource_attributes = []\<rparr>"

definition ex_evidence :: evidence_reference where
  "ex_evidence = \<lparr>evidence_id = ''ev-1'', evidence_type = METRIC, evidence_uri = ''telemetry://kpi'',
     evidence_source = None, evidence_summary = None, collected_at = None, content_type = None,
     checksum_sha256 = None, evidence_attributes = []\<rparr>"

definition ex_action :: remediation_action where
  "ex_action = \<lparr>action_id = ''act-1'', action_type = ''restart_cell'', action_description = None,
     target_resources = [ex_cell], parameters = [(''delay'', JInt 5)], risk_level = Risk_LOW,
     reversible = False, rollback_plan = None, expected_outcome = None,
     action_idempotency_key = None, action_created_at = 100\<rparr>"

definition ex_report :: rca_report where
  "ex_report = \<lparr>report_id = ''rep-1'', report_incident_id = ''inc-1'', version = 1,
     report_status = Rep_PROPOSED, report_title = None, report_summary = ''overload'',
     report_hypotheses = [], report_root_cause = Some ''overload'', conclusion = CONCLUSIVE,
     confidence = None, report_evidence_refs = [ex_evidence], report_recommendations = [ex_action],
     generated_by = None, report_model_metadata = [], report_created_at = 100\<rparr>"

definition ex_pending :: approval_decision where
  "ex_pending = \<lparr>approval_id = ''ap-0'', request_id = ''req-1'', sequence = 0,
     approval_incident_id = ''inc-1'', approval_report_id = ''rep-1'', approval_report_version = 1,
     subject_id = ''act-1'', approval_status = Ap_PENDING, approval_type = NETWORK_ACTION,
     approval_action_hash = Some (digest ''''), scope = [ex_cell], requested_by = None,
     decided_by = None, approval_reason = None, requested_at = 110, decided_at = None,
     expires_at = Some 500, approval_idempotency_key = ''k-ap-0''\<rparr>"

definition ex_approved :: approval_decision where
  "ex_approved = ex_pending\<lparr>approval_id := ''ap-1'', sequence := 1, approval_status := Ap_APPROVED,
     decided_by := Some ''operator'', decided_at := Some 120, approval_idempotency_key := ''k-ap-1''\<rparr>"

definition ex_run :: action_run where
  "ex_run = \<lparr>action_run_id = ''run-1'', run_incident_id = Some ''inc-1'', run_action_id = ''act-1'',
     run_action_hash = Some (digest ''''), run_status = Run_SUCCEEDED, run_idempotency_key = Some ''k-run-1'',
     attempt = 1, run_started_at = Some 140, run_finished_at = Some 150, output_summary = None,
     run_error = None, run_metadata = []\<rparr>"

definition ex_verification :: verification_run where
  "ex_verification = \<lparr>verification_id = ''ver-1'', ver_incident_id = Some ''inc-1'',
     ver_action_run_ids = [''run-1''], ver_status = Ver_PASSED, checks = [''kpi recovered''],
     observed_kpis = [], ver_evidence_refs = [ex_evidence], ver_summary = None, ver_error = None,
     ver_started_at = Some 155, ver_finished_at = Some 160, ver_metadata = []\<rparr>"

definition ex_detected :: incident where
  "ex_detected = \<lparr>incident_id = ''inc-1'', correlation_key = Some ''corr-1'', source_event_ids = [''se-1''],
     technology = FIVE_G_SA, vendor_profile = None, status = DETECTED, severity = Sev_HIGH,
     title = ''cell overload'', description = '''', affected_resources = [ex_cell], detected_at = 90,
     window_start = None, window_end = None, violated_kpis = [], evidence_refs = [ex_evidence],
     hypotheses = [], root_cause = None, rca_reports = [], recommendations = [], approvals = [],
     action_runs = [], verification_runs = [], model_metadata = [], rule_versions = [],
     trace_id = ''trace1'', duplicate_of = None, created_at = 95, updated_at = 95, revision = 0\<rparr>"

definition ex_step :: "incident_status \<Rightarrow> instant \<Rightarrow> field_update list \<Rightarrow> incident \<Rightarrow> state_error + incident" where
  "ex_step target t changes i =
     transition_incident digest t False i (incident_status_value target) (revision i)
       (Some (Aware t)) (Some (Aware t)) changes"

definition ex_triaged :: incident where
  "ex_triaged = ex_detected\<lparr>status := TRIAGED, revision := 1, updated_at := 98\<rparr>"

definition ex_investigating :: incident where
  "ex_investigating = ex_triaged\<lparr>status := INVESTIGATING, revision := 2, updated_at := 99\<rparr>"

definition ex_rca_complete :: incident where
  "ex_rca_complete = ex_investigating\<lparr>status := RCA_COMPLETE, revision := 3, updated_at := 100,
     rca_reports := [ex_report], recommendations := [ex_action]\<rparr>"

definition ex_awaiting :: incident where
  "ex_awaiting = ex_rca_complete\<lparr>status := AWAITING_APPROVAL, revision := 4, updated_at := 110,
     approvals := [ex_pending]\<rparr>"

definition ex_remediating :: incident where
  "ex_remediating = ex_awaiting\<lparr>status := REMEDIATING, revision := 5, updated_at := 130,
     approvals := [ex_pending, ex_approved]\<rparr>"

definition ex_verifying :: incident where
  "ex_verifying = ex_remediating\<lparr>status := VERIFYING, revision := 6, updated_at := 155,
     action_runs := [ex_run]\<rparr>"

definition ex_resolved :: incident where
  "ex_resolved = ex_verifying\<lparr>status := RESOLVED, revision := 7, updated_at := 165,
     verification_runs := [ex_verification]\<rparr>"

text \<open>The parts of the fixture are well formed; the rest of its evaluation uses these facts.\<close>

lemma digest_ok [simp]: "sha256_digest_ok (digest text)"
  by (simp add: digest_def sha256_digest_ok_def list_all_iff)

lemma digest_hash [simp]: "compute_action_hash digest a = digest ''''"
  by (simp add: compute_action_hash_def stable_hash_def digest_def)

lemma scope_singleton [simp]: "resource_scope_identity [r] = [canonical_resource_identity r]"
  by (simp add: resource_scope_identity_def)

lemmas ex_field_defs = identifier_ok_def non_empty_str_ok_def

lemmas ex_data_defs = ex_cell_def ex_evidence_def ex_action_def ex_report_def ex_pending_def ex_approved_def
  ex_run_def ex_verification_def

lemmas ex_incident_defs = ex_detected_def ex_triaged_def ex_investigating_def ex_rca_complete_def
  ex_awaiting_def ex_remediating_def ex_verifying_def ex_resolved_def

lemma ex_non_blank [simp]: "non_blank ''overload''" "non_blank ''kpi recovered''"
  by (simp_all add: non_blank_def py_strip_def py_isspace_def)

lemma ex_cell_ok: "resource_fields_ok ex_cell"
  by (simp add: ex_cell_def resource_fields_ok_def ex_field_defs)

lemma ex_evidence_ok: "validate_evidence ex_evidence = None"
  by (simp add: ex_evidence_def validate_evidence_def ex_field_defs)

lemma ex_action_ok: "validate_remediation_action ex_action = None"
  by (simp add: ex_action_def validate_remediation_action_def remediation_fields_ok_def ex_cell_ok ex_field_defs)

lemma ex_report_ok: "validate_rca_report ex_report = None"
  by (simp add: ex_report_def validate_rca_report_def ex_evidence_ok ex_action_ok ex_field_defs)

lemma ex_pending_ok: "validate_approval ex_pending = None"
  by (simp add: ex_pending_def validate_approval_def approval_fields_ok_def ex_cell_ok ex_field_defs)

lemma ex_approved_ok: "validate_approval ex_approved = None"
  by (simp add: ex_approved_def ex_pending_def validate_approval_def approval_fields_ok_def ex_cell_ok
      ex_field_defs)

lemma ex_run_ok: "validate_action_run ex_run = None"
  by (simp add: ex_run_def validate_action_run_def finished_before_started_def ex_field_defs)

lemma ex_verification_ok: "validate_verification_run ex_verification = None"
  by (simp add: ex_verification_def validate_verification_run_def finished_before_started_def ex_evidence_ok
      ex_field_defs)

lemmas ex_parts_ok = ex_cell_ok ex_evidence_ok ex_action_ok ex_report_ok ex_pending_ok ex_approved_ok ex_run_ok
  ex_verification_ok

lemmas ex_validate_defs = model_validate_def incident_fields_ok_def validate_aggregate_def validate_window_def
  ensure_unique_def validate_approval_lifecycles_def group_approvals_def check_approval_def check_approval_group_def
  covers_action_def dict_of_def approval_binding_def MAX_INCIDENT_SOURCE_EVENTS_def identifier_ok_def
  non_empty_str_ok_def

lemmas ex_guard_defs = validate_transition_guard_def validate_append_only_def guard_append_def guard_frozen_def
  rewrites_history_def FROZEN_RECOMMENDATION_STATUSES_def validate_rca_complete_def latest_report_def
  rca_report_eligible_def validate_remediation_approvals_def action_approved_def latest_approval_events_def
  latest_step_def effective_at_def successful_action_runs_def latest_run_def run_successful_def
  validate_resolved_def verification_covers_def str_or_empty_def

lemmas ex_request_defs = successor_of_def validate_requested_history_update_def requested_rewrite_def requested_def

text \<open>One transition of the fixture, from the facts that make it legal.\<close>

lemma ex_stepI:
  assumes "target \<in> set (TRANSITIONS (status i))" and "\<forall>u\<in>set changes. \<forall>n. u \<noteq> U_other n"
    and "validate_requested_history_update False i target changes = None" and "updated_at i \<le> t"
    and "successor_of i changes target t = j" and "incident_valid digest j"
    and "validate_transition_guard digest i j target t = None"
  shows "ex_step target t changes i = Inr j"
proof -
  have "update_field u \<notin> set PROTECTED_UPDATE_FIELDS" if "\<forall>n. u \<noteq> U_other n" for u
    using that by (cases u) (simp_all add: PROTECTED_UPDATE_FIELDS_def)
  with assms show ?thesis
    unfolding ex_step_def assms(5) [symmetric] by (intro transition_incident_success) auto
qed

lemma ex_detected_valid: "incident_valid digest ex_detected"
  by (simp add: ex_detected_def ex_validate_defs ex_parts_ok)

lemma ex_triaged_valid: "incident_valid digest ex_triaged"
  by (simp add: ex_incident_defs ex_validate_defs ex_parts_ok)

lemma ex_triaged_guard: "validate_transition_guard digest ex_detected ex_triaged TRIAGED 98 = None"
  by (simp add: ex_incident_defs ex_guard_defs covers_action_def Let_def)

lemma ex_step_triaged: "ex_step TRIAGED 98 [] ex_detected = Inr ex_triaged"
  by (rule ex_stepI [OF _ _ _ _ _ ex_triaged_valid ex_triaged_guard])
     (simp_all add: ex_incident_defs ex_request_defs ex_guard_defs)

lemma ex_investigating_valid: "incident_valid digest ex_investigating"
  by (simp add: ex_incident_defs ex_validate_defs ex_parts_ok)

lemma ex_investigating_guard: "validate_transition_guard digest ex_triaged ex_investigating INVESTIGATING 99 = None"
  by (simp add: ex_incident_defs ex_guard_defs covers_action_def Let_def)

lemma ex_step_investigating: "ex_step INVESTIGATING 99 [] ex_triaged = Inr ex_investigating"
  by (rule ex_stepI [OF _ _ _ _ _ ex_investigating_valid ex_investigating_guard])
     (simp_all add: ex_incident_defs ex_request_defs ex_guard_defs)

lemma ex_rca_complete_valid: "incident_valid digest ex_rca_complete"
  by (simp add: ex_incident_defs ex_validate_defs ex_parts_ok) (simp add: ex_data_defs)

lemma ex_rca_complete_guard: "validate_transition_guard digest ex_investigating ex_rca_complete RCA_COMPLETE 100 = None"
  by (simp add: ex_incident_defs ex_guard_defs covers_action_def Let_def) (simp add: ex_data_defs)

lemma ex_step_rca_complete: "ex_step RCA_COMPLETE 100 [U_rca_reports [ex_report], U_recommendations [ex_action]] ex_investigating = Inr ex_rca_complete"
  by (rule ex_stepI [OF _ _ _ _ _ ex_rca_complete_valid ex_rca_complete_guard])
     (simp_all add: ex_incident_defs ex_request_defs ex_guard_defs)

lemma ex_awaiting_valid: "incident_valid digest ex_awaiting"
  by (simp add: ex_incident_defs ex_validate_defs ex_parts_ok) (simp add: ex_data_defs)

lemma ex_awaiting_guard: "validate_transition_guard digest ex_rca_complete ex_awaiting AWAITING_APPROVAL 110 = None"
  by (simp add: ex_incident_defs ex_guard_defs covers_action_def Let_def) (simp add: ex_data_defs)

lemma ex_step_awaiting: "ex_step AWAITING_APPROVAL 110 [U_approvals [ex_pending]] ex_rca_complete = Inr ex_awaiting"
  by (rule ex_stepI [OF _ _ _ _ _ ex_awaiting_valid ex_awaiting_guard])
     (simp_all add: ex_incident_defs ex_request_defs ex_guard_defs)

lemma ex_remediating_valid: "incident_valid digest ex_remediating"
  by (simp add: ex_incident_defs ex_validate_defs ex_parts_ok) (simp add: ex_data_defs)

lemma ex_remediating_guard: "validate_transition_guard digest ex_awaiting ex_remediating REMEDIATING 130 = None"
  by (simp add: ex_incident_defs ex_guard_defs covers_action_def Let_def) (simp add: ex_data_defs)

lemma ex_step_remediating: "ex_step REMEDIATING 130 [U_approvals [ex_pending, ex_approved]] ex_awaiting = Inr ex_remediating"
  by (rule ex_stepI [OF _ _ _ _ _ ex_remediating_valid ex_remediating_guard])
     (simp_all add: ex_incident_defs ex_request_defs ex_guard_defs)

lemma ex_verifying_valid: "incident_valid digest ex_verifying"
  by (simp add: ex_incident_defs ex_validate_defs ex_parts_ok) (simp add: ex_data_defs)

lemma ex_verifying_guard: "validate_transition_guard digest ex_remediating ex_verifying VERIFYING 155 = None"
  by (simp add: ex_incident_defs ex_guard_defs covers_action_def Let_def) (simp add: ex_data_defs)

lemma ex_step_verifying: "ex_step VERIFYING 155 [U_action_runs [ex_run]] ex_remediating = Inr ex_verifying"
  by (rule ex_stepI [OF _ _ _ _ _ ex_verifying_valid ex_verifying_guard])
     (simp_all add: ex_incident_defs ex_request_defs ex_guard_defs)

lemma ex_resolved_valid: "incident_valid digest ex_resolved"
  by (simp add: ex_incident_defs ex_validate_defs ex_parts_ok) (simp add: ex_data_defs)

lemma ex_resolved_guard: "validate_transition_guard digest ex_verifying ex_resolved RESOLVED 165 = None"
  by (simp add: ex_incident_defs ex_guard_defs covers_action_def Let_def) (simp add: ex_data_defs)

lemma ex_step_resolved: "ex_step RESOLVED 165 [U_verification_runs [ex_verification]] ex_verifying = Inr ex_resolved"
  by (rule ex_stepI [OF _ _ _ _ _ ex_resolved_valid ex_resolved_guard])
     (simp_all add: ex_incident_defs ex_request_defs ex_guard_defs)

lemma ex_step_incident_step: "ex_step target t changes i = Inr j \<Longrightarrow> incident_step digest i j"
  unfolding ex_step_def by (rule incident_step.transition)

lemmas ex_steps = ex_step_triaged ex_step_investigating ex_step_rca_complete ex_step_awaiting
  ex_step_remediating ex_step_verifying ex_step_resolved

lemmas ex_incident_steps = ex_steps [THEN ex_step_incident_step]

lemma ex_run_to_resolved: "(incident_step digest)\<^sup>*\<^sup>* ex_detected ex_resolved"
  using ex_incident_steps by (meson rtranclp.rtrancl_into_rtrancl rtranclp.rtrancl_refl)

lemma ex_statuses [simp]: "status ex_detected = DETECTED" "status ex_resolved = RESOLVED"
  "status ex_remediating = REMEDIATING" "status ex_awaiting = AWAITING_APPROVAL"
  by (simp_all add: ex_incident_defs)

end
