(* ===== verification/Contracts.thy ===== *)
theory Contracts
  imports Fixtures
begin

text \<open>
  \<open>telco_domain/contracts.py\<close>: the messages agents exchange, the validators that bind their
  parts to each other, the size, depth and privacy budget of a payload, and the resolution of an
  approval reference against the recorded decisions.  Two arguments stand for pydantic: \<open>dump\<close>
  for \<open>model_dump(mode="json", round_trip=True)\<close> and \<open>decode\<close> for the field parsing of
  \<open>model_validate\<close>, which either yields the field-coerced message or a list of field errors;
  the validators written in this module are modelled here.
\<close>

section \<open>Payload budget\<close>

datatype contract_error =
    ContractDecodeError string
  | ContractPayloadLimitError string
  | ContractEncodeError string
  | ApprovalAuthorizationError string

text \<open>A payload is a tree: no object of it is shared between two places.\<close>

definition assert_payload_budget :: "json \<Rightarrow> contract_error option" where
  "assert_payload_budget v =
     (if payload_depth (node_of [] v) > MAX_CONTRACT_DEPTH
      then Some (ContractPayloadLimitError ''canonical payload depth exceeds 24'')
      else case json_dumps v of
        None \<Rightarrow> Some (ContractDecodeError ''canonical payload must be JSON-safe'')
      | Some encoded \<Rightarrow> fail_if (utf8_length encoded > MAX_CONTRACT_SERIALIZED_BYTES)
          (ContractPayloadLimitError ''canonical payload serialized size exceeds 256000 bytes''))"

section \<open>Messages\<close>

record approval_reference =
  ref_approval_id :: string
  ref_request_id :: string
  decision_sequence :: int
  ref_incident_id :: string
  ref_report_id :: string
  ref_report_version :: int
  ref_subject_id :: string
  ref_action_hash :: string
  ref_based_on_revision :: int
  validated_at :: instant
  validator_id :: string

text \<open>\<open>Sha256Digest\<close> of this module: lower-case digits only.\<close>

definition contract_digest_ok :: "string \<Rightarrow> bool" where
  "contract_digest_ok s = (length s = 64 \<and> list_all (\<lambda>c. c \<in> set ''0123456789abcdef'') s)"

definition short_text_ok :: "string \<Rightarrow> bool" where
  "short_text_ok s = (length s \<le> 4096)"

definition approval_reference_ok :: "approval_reference \<Rightarrow> bool" where
  "approval_reference_ok r \<longleftrightarrow> list_all identifier_ok [ref_approval_id r, ref_request_id r, ref_incident_id r,
       ref_report_id r, ref_subject_id r, validator_id r] \<and>
     1 \<le> decision_sequence r \<and> 1 \<le> ref_report_version r \<and> contract_digest_ok (ref_action_hash r) \<and>
     0 \<le> ref_based_on_revision r"

record envelope =
  message_id :: string
  workflow_id :: string
  env_incident_id :: string
  env_trace_id :: string
  env_idempotency_key :: string
  sent_at :: instant

definition envelope_ok :: "envelope \<Rightarrow> bool" where
  "envelope_ok e = list_all identifier_ok
     [message_id e, workflow_id e, env_incident_id e, env_trace_id e, env_idempotency_key e]"

datatype contract_message =
    IncidentTrigger envelope incident string
  | RcaRequest envelope incident int int
  | RcaResult envelope string rca_report int int string
  | ApprovalRequest envelope string approval_type rca_report "remediation_action option"
      "resource_reference list" int "instant option" string
  | ApprovalResult envelope string approval_decision string
  | NetworkChangeRequest envelope remediation_action rca_report int approval_reference
  | VerificationRequest envelope action_run verification_run
  | VerificationResult envelope verification_run string

fun message_type :: "contract_message \<Rightarrow> string" where
  "message_type (IncidentTrigger _ _ _) = ''incident_trigger''"
| "message_type (RcaRequest _ _ _ _) = ''rca_request''"
| "message_type (RcaResult _ _ _ _ _ _) = ''rca_result''"
| "message_type (ApprovalRequest _ _ _ _ _ _ _ _ _) = ''approval_request''"
| "message_type (ApprovalResult _ _ _ _) = ''approval_result''"
| "message_type (NetworkChangeRequest _ _ _ _ _) = ''network_change_request''"
| "message_type (VerificationRequest _ _ _) = ''verification_request''"
| "message_type (VerificationResult _ _ _) = ''verification_result''"

fun envelope_of :: "contract_message \<Rightarrow> envelope" where
  "envelope_of (IncidentTrigger e _ _) = e"
| "envelope_of (RcaRequest e _ _ _) = e"
| "envelope_of (RcaResult e _ _ _ _ _) = e"
| "envelope_of (ApprovalRequest e _ _ _ _ _ _ _ _) = e"
| "envelope_of (ApprovalResult e _ _ _) = e"
| "envelope_of (NetworkChangeRequest e _ _ _ _) = e"
| "envelope_of (VerificationRequest e _ _) = e"
| "envelope_of (VerificationResult e _ _) = e"

section \<open>Validators\<close>

definition resource_identities :: "resource_reference list \<Rightarrow> string list" where
  "resource_identities resources = sort (map (\<lambda>r. json_text (stable_identity r)) resources)"

definition report_contains_action :: "(string \<Rightarrow> string) \<Rightarrow> rca_report \<Rightarrow> remediation_action \<Rightarrow> bool" where
  "report_contains_action h report action = list_ex (\<lambda>r. action_id r = action_id action \<and>
     compute_action_hash h r = compute_action_hash h action) (report_recommendations report)"

definition field_check :: "bool \<Rightarrow> string option" where
  "field_check ok = fail_if (\<not> ok) ''field constraint''"

definition validate_incident_trigger :: "(string \<Rightarrow> string) \<Rightarrow> envelope \<Rightarrow> incident \<Rightarrow> string \<Rightarrow> string option" where
  "validate_incident_trigger h e i summary = first_error [
     field_check (envelope_ok e \<and> short_text_ok summary), model_validate h i,
     fail_if (incident_id i \<noteq> env_incident_id e) ''incident.incident_id must match envelope incident_id'',
     fail_if (trace_id i \<noteq> env_trace_id e) ''incident.trace_id must match envelope trace_id'']"

definition validate_rca_request :: "(string \<Rightarrow> string) \<Rightarrow> envelope \<Rightarrow> incident \<Rightarrow> int \<Rightarrow> int \<Rightarrow> string option" where
  "validate_rca_request h e i based_on requested_version = first_error [
     field_check (envelope_ok e \<and> 0 \<le> based_on \<and> 1 \<le> requested_version), model_validate h i,
     fail_if (incident_id i \<noteq> env_incident_id e) ''incident.incident_id must match envelope incident_id'',
     fail_if (trace_id i \<noteq> env_trace_id e) ''incident.trace_id must match envelope trace_id'',
     fail_if (revision i \<noteq> based_on) ''based_on_revision must match incident.revision'']"

definition validate_rca_result :: "envelope \<Rightarrow> string \<Rightarrow> rca_report \<Rightarrow> int \<Rightarrow> int \<Rightarrow> string \<Rightarrow> string option" where
  "validate_rca_result e request_message_id report based_on requested_version summary = first_error [
     field_check (envelope_ok e \<and> identifier_ok request_message_id \<and> 0 \<le> based_on \<and>
       1 \<le> requested_version \<and> short_text_ok summary), validate_rca_report report,
     fail_if (report_incident_id report \<noteq> env_incident_id e) ''report.incident_id must match envelope incident_id'',
     fail_if (version report \<noteq> requested_version) ''report.version must match requested_report_version'']"

definition validate_approval_request ::
  "(string \<Rightarrow> string) \<Rightarrow> envelope \<Rightarrow> string \<Rightarrow> approval_type \<Rightarrow> rca_report \<Rightarrow> remediation_action option \<Rightarrow>
   resource_reference list \<Rightarrow> int \<Rightarrow> instant option \<Rightarrow> string \<Rightarrow> string option" where
  "validate_approval_request h e rid ty report action resources based_on expires summary = first_error ([
     field_check (envelope_ok e \<and> identifier_ok rid \<and> list_all resource_fields_ok resources \<and> 0 \<le> based_on \<and>
       short_text_ok summary), validate_rca_report report,
     (case action of None \<Rightarrow> None | Some a \<Rightarrow> validate_remediation_action a),
     fail_if (report_incident_id report \<noteq> env_incident_id e) ''report.incident_id must match envelope incident_id'']
     @ (if ty \<noteq> NETWORK_ACTION then [] else
        case action of None \<Rightarrow> [Some ''network action approval requires an action'']
        | Some a \<Rightarrow> [
            fail_if (expires = None) ''network action approval requires expires_at'',
            fail_if (resources = []) ''network action approval requires non-empty scope'',
            fail_if (resource_identities resources \<noteq> resource_identities (target_resources a))
              ''approval scope must exactly match action targets'',
            fail_if (\<not> report_contains_action h report a) ''action must be an immutable recommendation in report'']))"

definition validate_approval_result :: "envelope \<Rightarrow> string \<Rightarrow> approval_decision \<Rightarrow> string \<Rightarrow> string option" where
  "validate_approval_result e rid d summary = first_error [
     field_check (envelope_ok e \<and> identifier_ok rid \<and> short_text_ok summary), validate_approval d,
     fail_if (request_id d \<noteq> rid) ''decision.request_id must match request_id'',
     fail_if (approval_incident_id d \<noteq> env_incident_id e) ''decision.incident_id must match envelope incident_id'']"

definition validate_network_change_request ::
  "(string \<Rightarrow> string) \<Rightarrow> envelope \<Rightarrow> remediation_action \<Rightarrow> rca_report \<Rightarrow> int \<Rightarrow> approval_reference \<Rightarrow> string option" where
  "validate_network_change_request h e action report based_on reference = first_error [
     field_check (envelope_ok e \<and> 0 \<le> based_on \<and> approval_reference_ok reference),
     validate_remediation_action action, validate_rca_report report,
     fail_if (report_incident_id report \<noteq> env_incident_id e) ''report.incident_id must match envelope incident_id'',
     fail_if (ref_incident_id reference \<noteq> env_incident_id e) ''approval reference is bound to another incident'',
     fail_if (ref_report_id reference \<noteq> report_id report) ''approval reference report_id does not match report'',
     fail_if (ref_report_version reference \<noteq> version report)
       ''approval reference report_version does not match report'',
     fail_if (ref_subject_id reference \<noteq> action_id action) ''approval reference subject_id does not match action'',
     fail_if (ref_action_hash reference \<noteq> compute_action_hash h action)
       ''approval reference action_hash does not match action'',
     fail_if (ref_based_on_revision reference \<noteq> based_on) ''approval reference revision does not match request'',
     fail_if (\<not> report_contains_action h report action) ''action must be an immutable recommendation in report'']"

definition validate_verification_request :: "envelope \<Rightarrow> action_run \<Rightarrow> verification_run \<Rightarrow> string option" where
  "validate_verification_request e r v = first_error [
     field_check (envelope_ok e), validate_action_run r, validate_verification_run v,
     fail_if (run_status r \<noteq> Run_SUCCEEDED) ''verification requires a SUCCEEDED ActionRun'',
     fail_if (run_incident_id r \<noteq> Some (env_incident_id e)) ''action_run.incident_id must match envelope incident_id'',
     fail_if (ver_incident_id v \<noteq> Some (env_incident_id e)) ''verification.incident_id must match envelope incident_id'',
     fail_if (action_run_id r \<notin> set (ver_action_run_ids v)) ''verification must include action_run.action_run_id'']"

definition validate_verification_result :: "envelope \<Rightarrow> verification_run \<Rightarrow> string \<Rightarrow> string option" where
  "validate_verification_result e v summary = first_error [
     field_check (envelope_ok e \<and> short_text_ok summary), validate_verification_run v,
     fail_if (ver_incident_id v \<noteq> Some (env_incident_id e)) ''verification.incident_id must match envelope incident_id'']"

fun validate_message :: "(string \<Rightarrow> string) \<Rightarrow> contract_message \<Rightarrow> string option" where
  "validate_message h (IncidentTrigger e i s) = validate_incident_trigger h e i s"
| "validate_message h (RcaRequest e i b v) = validate_rca_request h e i b v"
| "validate_message h (RcaResult e m r b v s) = validate_rca_result e m r b v s"
| "validate_message h (ApprovalRequest e q t r a c b x s) = validate_approval_request h e q t r a c b x s"
| "validate_message h (ApprovalResult e q d s) = validate_approval_result e q d s"
| "validate_message h (NetworkChangeRequest e a r b p) = validate_network_change_request h e a r b p"
| "validate_message h (VerificationRequest e r v) = validate_verification_request e r v"
| "validate_message h (VerificationResult e v s) = validate_verification_result e v s"

section \<open>The wire\<close>

definition to_data_part :: "(contract_message \<Rightarrow> json) \<Rightarrow> contract_message \<Rightarrow> contract_error + json" where
  "to_data_part dump m =
     (let payload = dump m in
      case assert_payload_budget payload of Some e \<Rightarrow> Inl e
      | None \<Rightarrow> (case assert_model_safe payload of
          Some _ \<Rightarrow> Inl (ContractEncodeError ''canonical payload violates the privacy policy'')
        | None \<Rightarrow> Inr payload))"

definition MESSAGE_TYPES :: "string list" where
  "MESSAGE_TYPES = [''incident_trigger'', ''rca_request'', ''rca_result'', ''approval_request'',
     ''approval_result'', ''network_change_request'', ''verification_request'', ''verification_result'']"

definition to_display_text :: "contract_message \<Rightarrow> string" where
  "to_display_text m = ''[1.0] '' @ message_type m @ '' incident_id='' @ env_incident_id (envelope_of m) @
     '' workflow_id='' @ workflow_id (envelope_of m) @ '' trace_id='' @ env_trace_id (envelope_of m)"

text \<open>A field error of pydantic: its location and its type.  Validators of this module report
  \<open>value_error\<close> at the message itself.\<close>

datatype loc_part = Index nat | Name string

type_synonym field_error = "loc_part list \<times> string"

definition mask_part :: "string list \<Rightarrow> loc_part \<Rightarrow> string" where
  "mask_part safe_field_names part =
     (case part of Index i \<Rightarrow> show_nat i
      | Name n \<Rightarrow> if n \<in> set safe_field_names then n else ''<unknown_field>'')"

definition safe_errors :: "string list \<Rightarrow> field_error list \<Rightarrow> (string \<times> string) list" where
  "safe_errors safe_field_names errors =
     map (\<lambda>(loc, ty). (join ''.'' (map (mask_part safe_field_names) loc), ty)) errors"

datatype parse_error = Contract contract_error | InvalidFields "(string \<times> string) list"

definition lookup_field :: "string \<Rightarrow> (string, json) dict \<Rightarrow> json option" where
  "lookup_field key data = map_of data key"

definition parse_contract_message ::
  "(string \<Rightarrow> string) \<Rightarrow> (string \<Rightarrow> (string, json) dict \<Rightarrow> field_error list + contract_message) \<Rightarrow>
   (string \<Rightarrow> string list) \<Rightarrow> json \<Rightarrow> parse_error + contract_message" where
  "parse_contract_message h decode safe_field_names data =
     (case data of JObj entries \<Rightarrow>
       (case assert_payload_budget data of Some e \<Rightarrow> Inl (Contract e)
        | None \<Rightarrow>
        (case assert_model_safe data of
           Some _ \<Rightarrow> Inl (Contract (ContractDecodeError ''canonical payload violates the privacy policy''))
         | None \<Rightarrow>
         if lookup_field ''schema_version'' entries \<noteq> Some (JStr ''1.0'')
         then Inl (Contract (ContractDecodeError ''unsupported or missing schema_version''))
         else case lookup_field ''message_type'' entries of
           Some (JStr ty) \<Rightarrow>
             if ty \<notin> set MESSAGE_TYPES
             then Inl (Contract (ContractDecodeError ''unsupported or missing message_type''))
             else (case decode ty entries of
                Inl errors \<Rightarrow> Inl (InvalidFields (safe_errors (safe_field_names ty) errors))
              | Inr m \<Rightarrow> (case validate_message h m of
                  Some _ \<Rightarrow> Inl (InvalidFields (safe_errors (safe_field_names ty) [([], ''value_error'')]))
                | None \<Rightarrow> Inr m))
         | _ \<Rightarrow> Inl (Contract (ContractDecodeError ''unsupported or missing message_type''))))
      | _ \<Rightarrow> Inl (Contract (ContractDecodeError ''canonical payload must be a structured mapping'')))"

section \<open>Approval references\<close>

definition validate_approval_reference ::
  "(string \<Rightarrow> string) \<Rightarrow> approval_reference \<Rightarrow> approval_decision list \<Rightarrow> remediation_action \<Rightarrow> rca_report \<Rightarrow>
   py_datetime \<Rightarrow> contract_error + approval_decision" where
  "validate_approval_reference h reference decisions action report trusted_now =
     (case trusted_now of
        Naive _ \<Rightarrow> Inl (ApprovalAuthorizationError ''trusted_now must include a timezone'')
      | Aware now \<Rightarrow>
        let matching = sort_key sequence (filter (\<lambda>d. request_id d = ref_request_id reference) decisions) in
        if matching = [] then Inl (ApprovalAuthorizationError ''approval request was not found'')
        else if map sequence matching \<noteq> map int [0..<length matching]
        then Inl (ApprovalAuthorizationError ''approval lifecycle is not contiguous'')
        else let latest = last matching in
        if approval_id latest \<noteq> ref_approval_id reference \<or> sequence latest \<noteq> decision_sequence reference
        then Inl (ApprovalAuthorizationError ''approval reference is not the latest decision'')
        else if approval_incident_id latest \<noteq> ref_incident_id reference \<or>
          approval_report_id latest \<noteq> ref_report_id reference \<or>
          approval_report_version latest \<noteq> ref_report_version reference \<or>
          subject_id latest \<noteq> ref_subject_id reference \<or>
          approval_action_hash latest \<noteq> Some (ref_action_hash reference)
        then Inl (ApprovalAuthorizationError ''approval reference binding does not match'')
        else if \<not> covers_action h latest action (ref_incident_id reference) report
        then Inl (ApprovalAuthorizationError ''latest decision does not cover the action'')
        else if \<not> effective_at latest now
        then Inl (ApprovalAuthorizationError ''latest decision is not effective'')
        else Inr latest)"

section \<open>The budget is exact\<close>

lemma assert_payload_budget_None:
  "assert_payload_budget v = None \<longleftrightarrow> json_depth v \<le> MAX_CONTRACT_DEPTH \<and> json_serializable v \<and>
     utf8_length (json_text v) \<le> MAX_CONTRACT_SERIALIZED_BYTES"
  by (auto simp: assert_payload_budget_def payload_depth_json json_dumps_def split: option.splits if_splits)

lemma assert_model_safe_None: "assert_model_safe v = None \<longleftrightarrow> find_sensitive_paths ''$'' v = []"
  by (simp add: assert_model_safe_def Let_def)

lemma to_data_part_Inr:
  "to_data_part dump m = Inr p \<longleftrightarrow> p = dump m \<and> assert_payload_budget p = None \<and> assert_model_safe p = None"
  by (auto simp: to_data_part_def Let_def split: option.splits)

lemma parse_contract_message_Inr:
  assumes "parse_contract_message h decode names data = Inr m"
  shows "assert_payload_budget data = None" "assert_model_safe data = None" "validate_message h m = None"
  using assms by (cases data; simp add: parse_contract_message_def split: option.splits json.splits if_splits sum.splits)+

text \<open>
  For payloads that are trees, no container of which occurs twice: nothing crosses the contract boundary in
  either direction unless its nesting is at most 24, its canonical JSON at most 256000 bytes and no path of
  it holds a subscriber identifier; and an accepted inbound message satisfies every validator of its type.
\<close>
theorem contract_boundary_is_guarded:
  "(to_data_part dump m = Inr p \<longrightarrow> p = dump m \<and> json_depth p \<le> 24 \<and>
      utf8_length (json_text p) \<le> 256000 \<and> find_sensitive_paths ''$'' p = []) \<and>
   (parse_contract_message h decode names data = Inr m \<longrightarrow> json_depth data \<le> 24 \<and>
      utf8_length (json_text data) \<le> 256000 \<and> find_sensitive_paths ''$'' data = [] \<and>
      validate_message h m = None)"
proof -
  have "json_depth v \<le> 24 \<and> utf8_length (json_text v) \<le> 256000 \<and> find_sensitive_paths ''$'' v = []"
    if "assert_payload_budget v = None" "assert_model_safe v = None" for v
    using that by (simp add: assert_payload_budget_None assert_model_safe_None MAX_CONTRACT_DEPTH_def
        MAX_CONTRACT_SERIALIZED_BYTES_def)
  then show ?thesis using parse_contract_message_Inr [of h decode names data m] to_data_part_Inr [of dump m p] by metis
qed

definition ex_envelope :: envelope where
  "ex_envelope = \<lparr>message_id = ''m-1'', workflow_id = ''w-1'', env_incident_id = ''inc-1'',
     env_trace_id = ''trace1'', env_idempotency_key = ''k-1'', sent_at = 100\<rparr>"

definition ex_message :: contract_message where
  "ex_message = VerificationResult ex_envelope ex_verification ''''"

definition ex_payload :: json where
  "ex_payload = JObj [(''schema_version'', JStr ''1.0''), (''message_type'', JStr ''verification_result'')]"

lemma ex_payload_sent: "to_data_part (\<lambda>_. ex_payload) ex_message = Inr ex_payload"
proof -
  have "utf8_length (json_text ex_payload) = 61" by code_simp
  then have "json_depth ex_payload \<le> MAX_CONTRACT_DEPTH \<and> json_serializable ex_payload \<and>
      utf8_length (json_text ex_payload) \<le> MAX_CONTRACT_SERIALIZED_BYTES"
    by (simp add: ex_payload_def MAX_CONTRACT_DEPTH_def MAX_CONTRACT_SERIALIZED_BYTES_def)
  moreover have "find_sensitive_paths ''$'' ex_payload = []"
    by (simp add: ex_payload_def no_separator_clean py_isspace_def separator_char_def is_sensitive_key_def
        normalized_key_def SENSITIVE_KEY_NAMES_def py_lower_def py_lower_char_def)
  ultimately show ?thesis by (simp add: to_data_part_Inr assert_payload_budget_None assert_model_safe_None)
qed

theorem contract_boundary_is_guarded_witness:
  "to_data_part (\<lambda>_. ex_payload) ex_message = Inr ex_payload \<and> json_depth ex_payload \<le> 24"
proof -
  note ex_payload_sent
  with contract_boundary_is_guarded [of "\<lambda>_. ex_payload" ex_message ex_payload] show ?thesis by blast
qed

text \<open>
  Encoding then parsing returns the message: for every message that satisfies its validators and
  whose dump the boundary lets out, given that pydantic decodes what it dumped and that the dump carries
  the message's literal type and version.
\<close>
theorem contract_roundtrip:
  assumes "validate_message h m = None" and "to_data_part dump m = Inr p"
    and dump_literals: "\<exists>entries. dump m = JObj entries \<and>
      map_of entries ''schema_version'' = Some (JStr ''1.0'') \<and>
      map_of entries ''message_type'' = Some (JStr (message_type m))"
    and decode_dump: "\<And>entries. dump m = JObj entries \<Longrightarrow> decode (message_type m) entries = Inr m"
  shows "parse_contract_message h decode names p = Inr m"
proof -
  from dump_literals obtain entries where d: "dump m = JObj entries"
    "map_of entries ''schema_version'' = Some (JStr ''1.0'')"
    "map_of entries ''message_type'' = Some (JStr (message_type m))" by blast
  have "message_type m \<in> set MESSAGE_TYPES" by (cases m) (simp_all add: MESSAGE_TYPES_def)
  moreover from assms(2) have "p = dump m" "assert_payload_budget p = None" "assert_model_safe p = None"
    by (auto simp: to_data_part_Inr)
  ultimately show ?thesis
    using assms(1) d decode_dump [OF d(1)] by (simp add: parse_contract_message_def lookup_field_def)
qed

theorem contract_roundtrip_witness:
  "parse_contract_message digest (\<lambda>_ _. Inr ex_message) (\<lambda>_. []) ex_payload = Inr ex_message"
proof (rule contract_roundtrip)
  show "validate_message digest ex_message = None"
    by (simp add: ex_message_def validate_verification_result_def ex_verification_ok field_check_def
        envelope_ok_def ex_envelope_def identifier_ok_def short_text_ok_def)
       (simp add: ex_verification_def)
  show "to_data_part (\<lambda>_. ex_payload) ex_message = Inr ex_payload" by (rule ex_payload_sent)
qed (simp_all add: ex_payload_def ex_message_def)

text \<open>
  The error of a refused payload names no field that is not of the canonical models: every part
  of a reported location is an index, a known field name or the mask.
\<close>
theorem refused_payload_masks_unknown_fields:
  "set (map fst (safe_errors names errors)) \<subseteq>
     {join ''.'' parts |parts. list_all (\<lambda>p. p \<in> set names \<or> p = ''<unknown_field>'' \<or> (\<exists>i. p = show_nat i)) parts}"
proof -
  have "mask_part names q \<in> set names \<or> mask_part names q = ''<unknown_field>'' \<or> (\<exists>i. mask_part names q = show_nat i)"
    for q by (cases q) (auto simp: mask_part_def)
  then have masked: "list_all (\<lambda>p. p \<in> set names \<or> p = ''<unknown_field>'' \<or> (\<exists>i. p = show_nat i))
      (map (mask_part names) loc)" for loc by (auto simp: list_all_iff)
  show ?thesis
  proof
    fix x assume "x \<in> set (map fst (safe_errors names errors))"
    then obtain loc where "x = join ''.'' (map (mask_part names) loc)" by (auto simp: safe_errors_def)
    with masked [of loc] show "x \<in> {join ''.'' parts |parts. list_all (\<lambda>p. p \<in> set names \<or>
      p = ''<unknown_field>'' \<or> (\<exists>i. p = show_nat i)) parts}" by blast
  qed
qed

section \<open>Resolving an approval reference\<close>

text \<open>What a reference binds of the decision it names.\<close>

definition reference_binds :: "approval_reference \<Rightarrow> approval_decision \<Rightarrow> bool" where
  "reference_binds reference d \<longleftrightarrow> ref_request_id reference = request_id d \<and>
     ref_approval_id reference = approval_id d \<and> decision_sequence reference = sequence d \<and>
     ref_incident_id reference = approval_incident_id d \<and> ref_report_id reference = approval_report_id d \<and>
     ref_report_version reference = approval_report_version d \<and> ref_subject_id reference = subject_id d \<and>
     Some (ref_action_hash reference) = approval_action_hash d"

lemma contiguous_sequences_inj:
  assumes "map sequence (sort_key sequence ds) = map int [0..<length ds]"
  shows "inj_on sequence (set ds)"
proof -
  have "distinct (map sequence (sort_key sequence ds))" using assms by (simp add: distinct_map)
  then show ?thesis by (simp add: distinct_map)
qed

lemma last_sorted_is_max:
  assumes "inj_on k (set xs)" and "xs \<noteq> []"
  shows "max_by k xs = Some (last (sort_key k xs))"
proof (rule max_by_unique [OF _ _ assms(1)])
  have ne: "sort_key k xs \<noteq> []" using assms(2) by (metis set_empty set_sort)
  then show "last (sort_key k xs) \<in> set xs" by (metis last_in_set set_sort)
  fix y assume "y \<in> set xs"
  then obtain n where n: "n < length (sort_key k xs)" "y = sort_key k xs ! n"
    by (metis in_set_conv_nth set_sort)
  have "sorted (map k (sort_key k xs))" by simp
  from sorted_nth_mono [OF this, of n "length (sort_key k xs) - 1"] n ne
  show "k y \<le> k (last (sort_key k xs))" by (simp add: last_conv_nth)
qed

lemma if_Inl_Inr: "(if b then Inl e else x) = Inr y \<longleftrightarrow> \<not> b \<and> x = Inr y"
  by simp

lemma validate_approval_reference_Inr:
  "validate_approval_reference h reference ds action report (Aware now) = Inr d \<longleftrightarrow>
     (let events = filter (\<lambda>e. request_id e = ref_request_id reference) ds in
      events \<noteq> [] \<and> map sequence (sort_key sequence events) = map int [0..<length events] \<and>
      max_by sequence events = Some d \<and> reference_binds reference d \<and>
      covers_action h d action (ref_incident_id reference) report \<and> effective_at d now)"
proof -
  define events where "events = filter (\<lambda>e. request_id e = ref_request_id reference) ds"
  define ok where "ok \<longleftrightarrow> events \<noteq> [] \<and> map sequence (sort_key sequence events) = map int [0..<length events]"
  have len: "length (sort_key sequence events) = length events" by simp
  have ne: "sort_key sequence events = [] \<longleftrightarrow> events = []" by (metis set_empty set_sort)
  have max: "max_by sequence events = Some (last (sort_key sequence events))" if ok
    using that by (intro last_sorted_is_max contiguous_sequences_inj) (simp_all add: ok_def)
  have req: "request_id (last (sort_key sequence events)) = ref_request_id reference" if ok
    using max_by_in [OF max [OF that]] by (simp add: events_def)
  have "validate_approval_reference h reference ds action report (Aware now) = Inr d \<longleftrightarrow>
     ok \<and> last (sort_key sequence events) = d \<and> reference_binds reference d \<and>
     covers_action h d action (ref_incident_id reference) report \<and> effective_at d now"
  proof (cases ok)
    case True
    then have "events \<noteq> []" "map sequence (sort_key sequence events) = map int [0..<length events]"
      by (simp_all add: ok_def)
    with True req [OF True] show ?thesis
      unfolding validate_approval_reference_def events_def [symmetric]
      by (simp add: Let_def len ne if_Inl_Inr reference_binds_def del: if_split) auto
  next
    case False
    then have "events = [] \<or> map sequence (sort_key sequence events) \<noteq> map int [0..<length events]"
      by (simp add: ok_def)
    with False show ?thesis
      unfolding validate_approval_reference_def events_def [symmetric]
      by (simp add: Let_def len ne if_Inl_Inr del: if_split) auto
  qed
  also have "\<dots> \<longleftrightarrow> ok \<and> max_by sequence events = Some d \<and> reference_binds reference d \<and>
     covers_action h d action (ref_incident_id reference) report \<and> effective_at d now"
    using max by auto
  finally show ?thesis unfolding Let_def events_def [symmetric] ok_def by simp
qed

text \<open>
  C25: For a valid incident, a reference resolves to a decision exactly when that decision is the latest of
  its request, is the one the reference names and binds, covers the action and is in force at the gateway's
  clock; and then the state machine's remediation guard accepts the action at that instant too.
\<close>
theorem approval_reference_exact:
  assumes "incident_valid h i"
  shows "(validate_approval_reference h reference (approvals i) action report (Aware now) = Inr d \<longleftrightarrow>
     latest_approval_decision i (ref_request_id reference) = Some d \<and> reference_binds reference d \<and>
     covers_action h d action (incident_id i) report \<and> effective_at d now) \<and>
   (validate_approval_reference h reference (approvals i) action report (Aware now) = Inr d \<longrightarrow>
     action_approved h i report now action)"
proof -
  let ?events = "filter (\<lambda>e. request_id e = ref_request_id reference) (approvals i)"
  have max: "latest_approval_decision i (ref_request_id reference) = max_by sequence ?events"
    by (simp add: latest_approval_decision_def)
  have member: "d \<in> set (approvals i) \<and> request_id d = ref_request_id reference"
    if "max_by sequence ?events = Some d" using max_by_in [OF that] by simp
  have bound: "ref_incident_id reference = incident_id i"
    if "max_by sequence ?events = Some d" "reference_binds reference d"
    using that(2) member [OF that(1)] approval_incident_bound [OF assms] by (simp add: reference_binds_def)
  have exact: "validate_approval_reference h reference (approvals i) action report (Aware now) = Inr d \<longleftrightarrow>
     latest_approval_decision i (ref_request_id reference) = Some d \<and> reference_binds reference d \<and>
     covers_action h d action (incident_id i) report \<and> effective_at d now"
  proof (cases "max_by sequence ?events = Some d \<and> reference_binds reference d")
    case True
    then have "?events \<noteq> []" by auto
    with True bound approval_group_contiguous [OF assms, of "ref_request_id reference"]
    show ?thesis unfolding validate_approval_reference_Inr Let_def max by simp
  next
    case False
    then show ?thesis unfolding validate_approval_reference_Inr Let_def max by blast
  qed
  moreover have "action_approved h i report now action"
    if "latest_approval_decision i (ref_request_id reference) = Some d"
      "covers_action h d action (incident_id i) report" "effective_at d now"
    using that member max unfolding action_approved_def list_ex_iff
    by (intro bexI [of _ d]) (auto simp: latest_approval_events_iff effective_at_def split: if_splits)
  ultimately show ?thesis by blast
qed

definition ex_reference :: approval_reference where
  "ex_reference = \<lparr>ref_approval_id = ''ap-1'', ref_request_id = ''req-1'', decision_sequence = 1,
     ref_incident_id = ''inc-1'', ref_report_id = ''rep-1'', ref_report_version = 1, ref_subject_id = ''act-1'',
     ref_action_hash = digest '''', ref_based_on_revision = 5, validated_at = 125, validator_id = ''gw-1''\<rparr>"

theorem approval_reference_exact_witness:
  "validate_approval_reference digest ex_reference (approvals ex_remediating) ex_action ex_report (Aware 130) =
     Inr ex_approved \<and> action_approved digest ex_remediating ex_report 130 ex_action"
proof -
  have latest: "latest_approval_decision ex_remediating ''req-1'' = Some ex_approved"
    by (simp add: latest_approval_decision_def ex_remediating_def ex_approved_def ex_pending_def)
  have "reference_binds ex_reference ex_approved" "ref_request_id ex_reference = ''req-1''"
    by (simp_all add: reference_binds_def ex_reference_def ex_approved_def ex_pending_def)
  moreover have "covers_action digest ex_approved ex_action (incident_id ex_remediating) ex_report"
    by (simp add: covers_action_def ex_incident_defs) (simp add: ex_data_defs)
  moreover have "effective_at ex_approved 130"
    by (simp add: effective_at_def ex_approved_def ex_pending_def)
  ultimately show ?thesis
    using approval_reference_exact [OF ex_remediating_valid, of ex_reference ex_action ex_report 130 ex_approved] latest
    by simp
qed

text \<open>
  An authorization never outlives its decision: once a later event of the same request is recorded, or
  the expiry has passed, the reference that used to resolve authorizes nothing at any instant.
\<close>
theorem approval_reference_superseded:
  assumes "validate_approval_reference h reference ds action report (Aware now) = Inr d"
  shows "(request_id d' = request_id d \<and> sequence d < sequence d' \<longrightarrow>
      validate_approval_reference h reference (ds @ [d']) action' report' (Aware later) \<noteq> Inr x) \<and>
    (expires_at d = Some e \<and> e \<le> later \<longrightarrow>
      validate_approval_reference h reference ds action' report' (Aware later) \<noteq> Inr x)"
proof -
  let ?events = "\<lambda>ds. filter (\<lambda>e. request_id e = ref_request_id reference) ds"
  from assms have d: "max_by sequence (?events ds) = Some d" "reference_binds reference d"
    by (simp_all add: validate_approval_reference_Inr Let_def)
  have "validate_approval_reference h reference (ds @ [d']) action' report' (Aware later) \<noteq> Inr x"
    if "request_id d' = request_id d" "sequence d < sequence d'"
  proof
    assume "validate_approval_reference h reference (ds @ [d']) action' report' (Aware later) = Inr x"
    then have x: "max_by sequence (?events (ds @ [d'])) = Some x" "reference_binds reference x"
      by (simp_all add: validate_approval_reference_Inr Let_def)
    have "d' \<in> set (?events (ds @ [d']))" using d(2) that(1) by (simp add: reference_binds_def)
    from max_by_ge [OF x(1) this] d(2) x(2) that(2) show False by (simp add: reference_binds_def)
  qed
  moreover have "validate_approval_reference h reference ds action' report' (Aware later) \<noteq> Inr x"
    if "expires_at d = Some e" "e \<le> later"
  proof
    assume "validate_approval_reference h reference ds action' report' (Aware later) = Inr x"
    then have "max_by sequence (?events ds) = Some x" "effective_at x later"
      by (simp_all add: validate_approval_reference_Inr Let_def)
    with d(1) that show False by (simp add: effective_at_def split: if_splits option.splits)
  qed
  ultimately show ?thesis by blast
qed

lemma ex_reference_resolves:
  "validate_approval_reference digest ex_reference [ex_pending, ex_approved] ex_action ex_report (Aware 130) =
     Inr ex_approved"
  unfolding validate_approval_reference_Inr Let_def
  by (simp add: reference_binds_def covers_action_def effective_at_def ex_reference_def ex_approved_def
      ex_pending_def) (simp add: ex_action_def ex_report_def)

theorem approval_reference_superseded_witness:
  "validate_approval_reference digest ex_reference [ex_pending, ex_approved] ex_action ex_report (Aware 500) \<noteq> Inr ex_approved"
proof -
  have "expires_at ex_approved = Some 500" by (simp add: ex_approved_def ex_pending_def)
  then show ?thesis using approval_reference_superseded [OF ex_reference_resolves] by blast
qed

end
