(* ===== verification/Lifecycle.thy ===== *)
theory Lifecycle
  imports Fixtures
begin

text \<open>
  Properties of the incident state machine: what a successful transition guarantees,
  which approvals and runs the guarded statuses require, and what holds along every
  run of an incident.  The fixture's run from detection to resolution witnesses them.
\<close>

section \<open>Facts about guards\<close>

lemma remediation_approvals_None:
  assumes "validate_remediation_approvals h i target now = None"
  obtains report where "latest_report i = Some report" "report_recommendations report = recommendations i"
    "\<forall>a\<in>set (recommendations i). action_approved h i report now a"
  using assms by (cases "latest_report i")
    (auto simp: validate_remediation_approvals_def split: if_splits)

lemma action_approved_iff:
  "action_approved h i report now a \<longleftrightarrow>
     (\<exists>d. latest_approval_decision i (request_id d) = Some d \<and> approval_status d = Ap_APPROVED \<and>
        covers_action h d a (incident_id i) report \<and> effective_at d now)"
  by (auto simp: action_approved_def list_ex_iff latest_approval_events_iff)

lemma collect_runs_Inr:
  "collect_runs h i target actions = Inr runs \<Longrightarrow> map (latest_run i) actions = map Some runs \<and>
     (\<forall>a\<in>set actions. \<exists>r. latest_run i a = Some r \<and> run_successful h i a r)"
  by (induction actions arbitrary: runs) (auto split: option.splits sum.splits if_splits)

lemma latest_run_in: "latest_run i a = Some r \<Longrightarrow> r \<in> set (action_runs i) \<and> run_action_id r = action_id a"
  by (auto simp: latest_run_def dest: max_by_in)

lemma latest_decision_in: "latest_approval_decision i r = Some d \<Longrightarrow> d \<in> set (approvals i) \<and> request_id d = r"
  by (auto simp: latest_approval_decision_def dest: max_by_in)

lemma validate_resolved_None:
  assumes "validate_resolved h i target = None"
  obtains runs where "successful_action_runs h i target = Inr runs" "verification_runs i \<noteq> []"
    "verification_covers i runs (last (verification_runs i))"
  using assms by (auto simp: validate_resolved_def split: sum.splits if_splits)

section \<open>One transition\<close>

text \<open>
  C4: A successful transition yields a valid incident with the requested status, the next
  revision and a time no earlier than before; identity, trace, correlation key, technology
  and the two birth dates are untouched, the six histories only grow at the end, and the
  recommendations are unchanged from RCA_COMPLETE on.
\<close>
theorem transition_contract:
  assumes "transition_incident h utc_now dumped i target_status expected transitioned_at now changes = Inr j"
  shows "incident_valid h j \<and> incident_status_value (status j) = target_status \<and> expected = revision i \<and>
    status j \<in> set (allowed_transitions (status i)) \<and> revision j = revision i + 1 \<and>
    updated_at i \<le> updated_at j \<and> incident_id j = incident_id i \<and> trace_id j = trace_id i \<and>
    correlation_key j = correlation_key i \<and> technology j = technology i \<and>
    detected_at j = detected_at i \<and> created_at j = created_at i \<and>
    histories_extend i j \<and>
    (status i \<in> set FROZEN_RECOMMENDATION_STATUSES \<longrightarrow> recommendations j = recommendations i)"
proof -
  from assms obtain target t trusted where f: "expected = revision i"
    "parse_status target_status = Some target" "target \<in> set (TRANSITIONS (status i))"
    "normalize_transition_time utc_now transitioned_at (updated_at i) = Inr t"
    "j = successor_of i changes target t" "incident_valid h j"
    "validate_transition_guard h i j target trusted = None" by (rule transition_incident_Inr)
  note append = guard_None(1) [OF f(7)]
  from f append show ?thesis
    by (auto simp: parse_status_Some allowed_transitions_def validate_append_only_None
        dest: transition_time_later)
qed

theorem transition_contract_witness:
  "incident_valid digest ex_remediating \<and> revision ex_remediating = revision ex_awaiting + 1 \<and>
   histories_extend ex_awaiting ex_remediating"
  using transition_contract [OF ex_step_remediating [unfolded ex_step_def]] by simp

text \<open>
  C3: An incident enters REMEDIATING only when every recommended action has an approval
  whose latest event is APPROVED, binds the incident, the latest RCA report and version,
  the action, its hash and exactly its targets, and is in force at the trusted instant.
\<close>
theorem remediation_needs_effective_approval:
  assumes "transition_incident h utc_now dumped i ''REMEDIATING'' expected transitioned_at
    (Some (Aware n)) changes = Inr j"
  shows "recommendations j \<noteq> [] \<and> (\<exists>report. latest_report j = Some report \<and>
    (\<forall>a\<in>set (recommendations j). \<exists>d. latest_approval_decision j (request_id d) = Some d \<and>
       approval_status d = Ap_APPROVED \<and> subject_id d = action_id a \<and>
       approval_action_hash d = Some (compute_action_hash h a) \<and>
       approval_report_id d = report_id report \<and> approval_report_version d = version report \<and>
       approval_incident_id d = incident_id i \<and>
       resource_scope_identity (scope d) = resource_scope_identity (target_resources a) \<and>
       (\<exists>t e. decided_at d = Some t \<and> expires_at d = Some e \<and> t \<le> n \<and> n < e)))"
proof -
  from assms obtain target t trusted where f: "parse_status ''REMEDIATING'' = Some target"
    "normalize_trusted_now utc_now (Some (Aware n)) = Inr trusted" "j = successor_of i changes target t"
    "incident_valid h j" "validate_transition_guard h i j target trusted = None"
    by (rule transition_incident_Inr)
  have "parse_status ''REMEDIATING'' = Some REMEDIATING" by (simp add: parse_status_Some)
  with f(1) have tgt: "target = REMEDIATING" by simp
  from f(2) have now: "trusted = n" by (simp add: normalize_trusted_now_def)
  note g = guard_None [OF f(5)]
  from g(5) tgt now obtain report where r: "latest_report j = Some report"
    "\<forall>a\<in>set (recommendations j). action_approved h j report n a"
    by (metis remediation_approvals_None)
  have expires: "expires_at d \<noteq> None" if "d \<in> set (approvals j)" "approval_type d = NETWORK_ACTION" for d
    using model_validate_nested(3) [OF f(4) that(1)] that(2) by (auto simp: validate_approval_def)
  have "\<exists>d. latest_approval_decision j (request_id d) = Some d \<and>
       approval_status d = Ap_APPROVED \<and> subject_id d = action_id a \<and>
       approval_action_hash d = Some (compute_action_hash h a) \<and>
       approval_report_id d = report_id report \<and> approval_report_version d = version report \<and>
       approval_incident_id d = incident_id i \<and>
       resource_scope_identity (scope d) = resource_scope_identity (target_resources a) \<and>
       (\<exists>t e. decided_at d = Some t \<and> expires_at d = Some e \<and> t \<le> n \<and> n < e)"
    if "a \<in> set (recommendations j)" for a
  proof -
    from r(2) that obtain d where d: "latest_approval_decision j (request_id d) = Some d"
      "approval_status d = Ap_APPROVED" "covers_action h d a (incident_id j) report" "effective_at d n"
      by (auto simp: action_approved_iff)
    from d(3) expires [OF conjunct1 [OF latest_decision_in [OF d(1)]]]
    obtain e where "expires_at d = Some e" by (auto simp: covers_action_def)
    with d f(3) show ?thesis
      by (intro exI [of _ d]) (auto simp: covers_action_def effective_at_def split: option.splits if_splits)
  qed
  with r(1) g(4) tgt show ?thesis by blast
qed

theorem remediation_needs_effective_approval_witness:
  "recommendations ex_remediating \<noteq> [] \<and> (\<exists>report. latest_report ex_remediating = Some report)"
  using remediation_needs_effective_approval [OF ex_step_remediating
    [unfolded ex_step_def incident_status_value.simps]] by blast

text \<open>
  C5: An incident enters RESOLVED only when the latest attempt of every recommended action
  succeeded with the action's exact hash, and the last verification run passed, is complete
  and names exactly those runs.
\<close>
theorem resolution_needs_verified_runs:
  assumes "transition_incident h utc_now dumped i ''RESOLVED'' expected transitioned_at now changes = Inr j"
  shows "(\<forall>a\<in>set (recommendations j). \<exists>r. latest_run j a = Some r \<and> r \<in> set (action_runs j) \<and>
      run_status r = Run_SUCCEEDED \<and> run_action_hash r = Some (compute_action_hash h a) \<and>
      run_finished_at r \<noteq> None) \<and>
    (\<exists>v. verification_runs j \<noteq> [] \<and> v = last (verification_runs j) \<and> ver_status v = Ver_PASSED \<and>
      ver_evidence_refs v \<noteq> [] \<and> list_ex non_blank (checks v) \<and>
      set (ver_action_run_ids v) =
        {action_run_id r |r. \<exists>a\<in>set (recommendations j). latest_run j a = Some r})"
proof -
  from assms obtain target t trusted where f: "parse_status ''RESOLVED'' = Some target"
    "validate_transition_guard h i j target trusted = None" by (rule transition_incident_Inr)
  have "parse_status ''RESOLVED'' = Some RESOLVED" by (simp add: parse_status_Some)
  with f(1) have "target = RESOLVED" by simp
  with guard_None(7) [OF f(2)] obtain runs where r: "successful_action_runs h j target = Inr runs"
    "verification_runs j \<noteq> []" "verification_covers j runs (last (verification_runs j))"
    by (metis validate_resolved_None)
  from r(1) have runs: "map (latest_run j) (recommendations j) = map Some runs"
    "\<forall>a\<in>set (recommendations j). \<exists>r. latest_run j a = Some r \<and> run_successful h j a r"
    by (auto simp: successful_action_runs_def dest: collect_runs_Inr)
  have "Some ` set runs = latest_run j ` set (recommendations j)"
    using arg_cong [OF runs(1), of set] by simp
  then have "r \<in> set runs \<longleftrightarrow> (\<exists>a\<in>set (recommendations j). latest_run j a = Some r)" for r
    by (metis image_iff option.inject)
  then have "set (map action_run_id runs) = {action_run_id r |r. \<exists>a\<in>set (recommendations j). latest_run j a = Some r}"
    by auto
  with r(2,3) runs(2) show ?thesis
    by (fastforce simp: verification_covers_def run_successful_def dest: latest_run_in)
qed

theorem resolution_needs_verified_runs_witness:
  "\<exists>v. v = last (verification_runs ex_resolved) \<and> ver_status v = Ver_PASSED"
  using resolution_needs_verified_runs [OF ex_step_resolved [unfolded ex_step_def incident_status_value.simps]]
  by blast

section \<open>Runs\<close>

lemma predecessors:
  "RESOLVED \<in> set (allowed_transitions s) \<Longrightarrow> s = VERIFYING"
  "VERIFYING \<in> set (allowed_transitions s) \<Longrightarrow> s = REMEDIATING"
  "REMEDIATING \<in> set (allowed_transitions s) \<Longrightarrow> s = AWAITING_APPROVAL"
  "AWAITING_APPROVAL \<in> set (allowed_transitions s) \<Longrightarrow> s = RCA_COMPLETE"
  by (cases s; simp add: allowed_transitions_def)+

lemma step_into_remediating:
  assumes "incident_step h i j" and "status j = REMEDIATING"
  shows "recommendations j \<noteq> [] \<and> (\<exists>now report. latest_report j = Some report \<and>
    (\<forall>a\<in>set (recommendations j). action_approved h j report now a))"
proof -
  from incident_step_facts(10) [OF assms(1)] assms(2)
  obtain now where g: "validate_transition_guard h i j REMEDIATING now = None" by auto
  from guard_None(4,5) [OF g] show ?thesis by (metis insertI1 insertI2 remediation_approvals_None)
qed

lemma resolved_run_approved:
  assumes "(incident_step h)\<^sup>*\<^sup>* i j" and "status i = DETECTED" and "status j = RESOLVED"
  shows "\<exists>a k v. (incident_step h)\<^sup>*\<^sup>* i a \<and> incident_step h a k \<and> incident_step h k v \<and> incident_step h v j \<and>
    status a = AWAITING_APPROVAL \<and> status k = REMEDIATING \<and> status v = VERIFYING \<and>
    recommendations k = recommendations j \<and> recommendations j \<noteq> [] \<and>
    (\<exists>now report. latest_report k = Some report \<and> (\<forall>action\<in>set (recommendations j).
       \<exists>d\<in>set (approvals j). covers_action h d action (incident_id j) report \<and> effective_at d now))"
proof -
  from assms obtain v where v: "(incident_step h)\<^sup>*\<^sup>* i v" "incident_step h v j" "status v = VERIFYING"
    using incident_graph.only_predecessor [OF assms(1,3)] predecessors(1) by fastforce
  from v assms(2) obtain k where k: "(incident_step h)\<^sup>*\<^sup>* i k" "incident_step h k v" "status k = REMEDIATING"
    using incident_graph.only_predecessor [OF v(1,3)] predecessors(2) by fastforce
  from k assms(2) obtain a where a: "(incident_step h)\<^sup>*\<^sup>* i a" "incident_step h a k"
      "status a = AWAITING_APPROVAL"
    using incident_graph.only_predecessor [OF k(1,3)] predecessors(3) by fastforce
  note fv = incident_step_facts [OF v(2)] and fk = incident_step_facts [OF k(2)]
  from fv(9) fk(9) v(3) k(3) have recs: "recommendations k = recommendations j"
    by (simp add: FROZEN_RECOMMENDATION_STATUSES_def)
  from fv(6) fk(6) have ids: "incident_id k = incident_id j" by simp
  have "histories_extend k j" by (rule histories_extend_trans [OF fk(4) fv(4)])
  then have kept: "set (approvals k) \<subseteq> set (approvals j)"
    by (simp add: histories_extend_def set_mono_prefix)
  from step_into_remediating [OF a(2) k(3)] obtain now report where
    r: "recommendations k \<noteq> []" "latest_report k = Some report"
      "\<forall>x\<in>set (recommendations k). action_approved h k report now x" by blast
  have "\<exists>d\<in>set (approvals j). covers_action h d x (incident_id j) report \<and> effective_at d now"
    if "x \<in> set (recommendations j)" for x
    using r(3) that kept unfolding recs action_approved_iff ids by (meson latest_decision_in subsetD)
  with r(1,2) recs a k v show ?thesis by (intro exI [of _ a] exI [of _ k] exI [of _ v]) auto
qed

text \<open>
  C6: Along every run, an incident that started as DETECTED and is RESOLVED was REMEDIATING two
  steps before, with the same non-empty recommendations, and at that entry every one of its
  actions had a covering approval in force whose event is still in its approval history.
\<close>
theorem resolved_only_after_approval:
  assumes "(incident_step h)\<^sup>*\<^sup>* i j" and "status i = DETECTED" and "status j = RESOLVED"
  shows "\<exists>a k v. (incident_step h)\<^sup>*\<^sup>* i a \<and> incident_step h a k \<and> incident_step h k v \<and> incident_step h v j \<and>
    status a = AWAITING_APPROVAL \<and> status k = REMEDIATING \<and> status v = VERIFYING \<and>
    recommendations k = recommendations j \<and> recommendations j \<noteq> [] \<and>
    (\<exists>now report. latest_report k = Some report \<and> (\<forall>action\<in>set (recommendations j).
       \<exists>d\<in>set (approvals j). covers_action h d action (incident_id j) report \<and> effective_at d now))"
  by (rule resolved_run_approved [OF assms])

theorem resolved_only_after_approval_witness:
  "\<exists>k v. incident_step digest k v \<and> incident_step digest v ex_resolved \<and> status k = REMEDIATING"
  using resolved_only_after_approval [OF ex_run_to_resolved] by auto

text \<open>
  After n transitions the revision has grown by exactly n, the update time has not gone
  back, and every history of the incident is a prefix of its later form; so an incident that
  has moved never returns to an earlier value.
\<close>
theorem run_revision_and_history:
  assumes "(incident_step h ^^ n) i j"
  shows "revision j = revision i + int n \<and> updated_at i \<le> updated_at j \<and> histories_extend i j \<and>
    (0 < n \<longrightarrow> j \<noteq> i)"
proof -
  from assms have run: "(incident_step h)\<^sup>*\<^sup>* i j" by (rule relpowp_imp_rtranclp)
  from incident_versions.run_version [OF assms] incident_versions.run_stamp [OF run]
    incident_versions.run_extends [OF run]
  show ?thesis by auto
qed

lemma ex_run_length: "(incident_step digest ^^ 2) ex_detected ex_investigating"
  using ex_incident_steps(1,2) by (auto simp: numeral_2_eq_2)

theorem run_revision_and_history_witness: "revision ex_investigating = revision ex_detected + 2"
  using run_revision_and_history [OF ex_run_length] by simp

text \<open>
  TERMINAL_STATUSES are exactly the statuses without a successor; an incident in one of
  them is never changed again: a transition with the right revision and a known target raises
  InvalidTransitionError.
\<close>
theorem terminal_statuses_are_final:
  "(s \<in> set TERMINAL_STATUSES \<longleftrightarrow> allowed_transitions s = []) \<and>
   (allowed_transitions (status i) = [] \<longrightarrow>
      (\<forall>j. (incident_step h)\<^sup>*\<^sup>* i j \<longrightarrow> j = i) \<and>
      (\<forall>t. transition_incident h utc_now dumped i (incident_status_value t) (revision i) at_time now changes
         = Inl (InvalidTransitionError (incident_id i) (status i) t)))"
proof -
  have "s \<in> set TERMINAL_STATUSES \<longleftrightarrow> allowed_transitions s = []"
    by (cases s) (simp_all add: TERMINAL_STATUSES_def allowed_transitions_def)
  moreover have "transition_incident h utc_now dumped i (incident_status_value t) (revision i) at_time now changes
     = Inl (InvalidTransitionError (incident_id i) (status i) t)" if "allowed_transitions (status i) = []" for t
    using that by (simp add: transition_incident_def parse_status_value can_transition_def)
  ultimately show ?thesis using incident_graph.sink_is_final(2) by blast
qed

definition ex_cancelled :: incident where
  "ex_cancelled = ex_detected\<lparr>status := CANCELLED\<rparr>"

theorem terminal_statuses_are_final_witness:
  "transition_incident digest 0 False ex_cancelled ''TRIAGED'' 0 None None [] =
     Inl (InvalidTransitionError ''inc-1'' CANCELLED TRIAGED)"
  using terminal_statuses_are_final [of CANCELLED ex_cancelled digest 0 False None None "[]"]
  by (simp add: ex_cancelled_def ex_detected_def allowed_transitions_def) (metis incident_status_value.simps(2))

section \<open>Approvals\<close>

text \<open>
  The single pass of \<open>_latest_approval_events\<close> keeps exactly the decisions that
  \<open>Incident.latest_approval_decision\<close> selects by maximum, one for every request.
\<close>
theorem latest_approval_events_exact:
  "set (latest_approval_events i) =
     {d. \<exists>r\<in>set (map request_id (approvals i)). latest_approval_decision i r = Some d} \<and>
   distinct (map request_id (latest_approval_events i))"
proof -
  have "map request_id (latest_approval_events i) = map fst (foldl latest_step [] (approvals i))"
    unfolding latest_approval_events_def
  proof (rule nth_equalityI)
    fix n assume "n < length (map request_id (map snd (foldl latest_step [] (approvals i))))"
    then have n: "n < length (foldl latest_step [] (approvals i))" by simp
    obtain r d where rd: "foldl latest_step [] (approvals i) ! n = (r, d)" by fastforce
    with n have "map_of (foldl latest_step [] (approvals i)) r = Some d"
      using latest_fold [of "approvals i"] by (metis map_of_eq_Some_iff nth_mem)
    then have "request_id d = r" using latest_fold [of "approvals i" r] by (auto dest: max_by_in)
    with n rd show "map request_id (map snd (foldl latest_step [] (approvals i))) ! n =
      map fst (foldl latest_step [] (approvals i)) ! n" by simp
  qed simp
  then have "distinct (map request_id (latest_approval_events i))" using latest_fold by simp
  moreover have "d \<in> set (latest_approval_events i) \<longleftrightarrow>
      (\<exists>r\<in>set (map request_id (approvals i)). latest_approval_decision i r = Some d)" for d
    using latest_decision_in [of i _ d] by (fastforce simp: latest_approval_events_iff)
  ultimately show ?thesis by blast
qed

text \<open>
  The remediation guard and \<open>Incident.effective_action_approval\<close> agree: whatever order the
  set of request identifiers is iterated in, the lookup finds an approval exactly when the guard
  accepts the action.
\<close>
theorem guard_agrees_with_lookup:
  assumes "set request_ids = set (map request_id (approvals i))"
  shows "effective_action_approval h i request_ids action report now \<noteq> None \<longleftrightarrow>
    action_approved h i report now action"
proof -
  have "effective_action_approval h i request_ids action report now \<noteq> None \<longleftrightarrow>
    (\<exists>d. (\<exists>r\<in>set request_ids. latest_approval_decision i r = Some d) \<and>
       covers_action h d action (incident_id i) report \<and> effective_at d now)"
    by (auto simp: effective_action_approval_def find_None_iff map_filter_iff)
  also have "\<dots> \<longleftrightarrow> action_approved h i report now action"
    unfolding action_approved_iff assms
    using latest_decision_in [of i] by (fastforce simp: effective_at_def split: if_splits)
  finally show ?thesis .
qed

theorem guard_agrees_with_lookup_witness:
  "effective_action_approval digest ex_remediating [''req-1''] ex_action ex_report 130 \<noteq> None \<longleftrightarrow>
    action_approved digest ex_remediating ex_report 130 ex_action"
  by (rule guard_agrees_with_lookup) (simp add: ex_incident_defs ex_data_defs)

text \<open>
  In a valid incident the events of an approval request are numbered from 0 without gaps,
  begin with one PENDING event and never change what they bind; the latest one is numbered one
  less than their count.
\<close>
theorem approval_lifecycle_contiguous:
  assumes "incident_valid h i" and "d \<in> set (approvals i)"
    and "events = filter (\<lambda>e. request_id e = request_id d) (approvals i)"
  shows "sort (map sequence events) = map int [0..<length events] \<and>
    (\<forall>e\<in>set events. approval_binding e = approval_binding d \<and>
       (approval_status e = Ap_PENDING \<longleftrightarrow> sequence e = 0)) \<and>
    (\<exists>m. latest_approval_decision i (request_id d) = Some m \<and> sequence m = int (length events) - 1)"
proof -
  note agg = model_validate_nested(2) [OF assms(1)]
  note life = validate_aggregate_parts(6) [OF agg]
  from approval_lifecycle_group(2) [OF life assms(2)] have grp: "check_approval_group events = None"
    by (simp add: assms(3))
  have "events \<noteq> []" using assms(2,3) by (auto simp: filter_empty_conv)
  then obtain first rest where ord: "sort_key sequence events = first # rest"
    by (metis list.exhaust set_empty set_sort)
  have seqs: "map sequence (sort_key sequence events) = map int [0..<length events]"
    using approval_group_contiguous [OF assms(1)] by (simp add: assms(3))
  have bind: "\<forall>e\<in>set (first # rest). approval_binding e = approval_binding first"
    using grp ord by (auto simp: check_approval_group_def Let_def list_ex_iff split: if_splits list.splits)
  have "set (first # rest) = set events" using ord by (metis set_sort)
  moreover have "d \<in> set events" using assms(2,3) by simp
  ultimately have same: "\<forall>e\<in>set events. approval_binding e = approval_binding d" using bind by metis
  have pend: "approval_status e = Ap_PENDING \<longleftrightarrow> sequence e = 0" if "e \<in> set events" for e
    using model_validate_nested(3) [OF assms(1), of e] that assms(3) by (auto simp: validate_approval_def)
  have "sort (map sequence events) = map sequence (sort_key sequence events)"
    by (intro properties_for_sort) (simp_all add: mset_map)
  with seqs have sorted: "sort (map sequence events) = map int [0..<length events]" by simp
  then have img: "sequence ` set events = int ` {0..<length events}"
    by (metis list.set_map set_sort set_upt)
  obtain m where m: "max_by sequence events = Some m" using \<open>events \<noteq> []\<close> by (cases "max_by sequence events") auto
  have "int (length events - 1) \<in> sequence ` set events" using \<open>events \<noteq> []\<close> by (auto simp: img)
  then have "int (length events - 1) \<le> sequence m" using max_by_ge [OF m] by auto
  moreover have "sequence m \<in> int ` {0..<length events}" using max_by_in [OF m] img by blast
  ultimately have "sequence m = int (length events) - 1" using \<open>events \<noteq> []\<close> by auto
  with m have "\<exists>m. latest_approval_decision i (request_id d) = Some m \<and> sequence m = int (length events) - 1"
    by (auto simp: latest_approval_decision_def assms(3))
  with sorted same pend show ?thesis by blast
qed

lemma ex_remediating_approvals:
  "approvals ex_remediating = [ex_pending, ex_approved]"
  "request_id ex_pending = ''req-1''" "request_id ex_approved = ''req-1''"
  by (simp_all add: ex_remediating_def ex_approved_def ex_pending_def)

theorem approval_lifecycle_contiguous_witness:
  "\<exists>m. latest_approval_decision ex_remediating ''req-1'' = Some m \<and> sequence m = 1"
proof -
  have mem: "ex_approved \<in> set (approvals ex_remediating)" by (simp add: ex_remediating_approvals)
  have events: "[ex_pending, ex_approved] =
    filter (\<lambda>e. request_id e = request_id ex_approved) (approvals ex_remediating)"
    by (simp add: ex_remediating_approvals)
  have "\<exists>m. latest_approval_decision ex_remediating (request_id ex_approved) = Some m \<and>
      sequence m = int (length [ex_pending, ex_approved]) - 1"
    using approval_lifecycle_contiguous [OF ex_remediating_valid mem events] by blast
  then show ?thesis by (simp add: ex_remediating_approvals(3))
qed

end
