(* ===== verification/Repository.thy ===== *)
theory Repository
  imports State_Machine
begin

text \<open>
  \<open>telco_domain/memory.py\<close>: the in-memory incident repository, with the errors and bounds of
  \<open>telco_domain/ports.py\<close>.  The four dictionaries of \<open>InMemoryIncidentRepository\<close> are the
  fields of a record; every operation takes the repository and returns the result or the error
  it raises together with the repository it leaves, so that what a raise leaves behind is part
  of the model.  The lock makes an operation one step.  \<open>services\<close> holds what the module calls
  but does not define: SHA-256 and pydantic's JSON dumps.  The clock reading of a call is an
  argument.
\<close>

section \<open>Errors, bounds and services\<close>

datatype repo_error =
    IncidentNotFoundError string
  | IncidentAlreadyExistsError string
  | ActiveIncidentConflictError string string
  | SourceEventOwnershipConflictError string string string
  | IncidentCorrelationConflictError string "string list"
  | RepositoryRevisionConflictError string int int "int option"
  | IdempotencyConflictError string
  | UnsafeIncidentWriteError string string
  | IncidentRepositoryError string
  | ValueError string
  | RuntimeError string
  | PydanticError string
  | StateError state_error

definition MAX_REPOSITORY_PAGE_SIZE :: int where "MAX_REPOSITORY_PAGE_SIZE = 1000"
definition MAX_REPOSITORY_OFFSET :: int where "MAX_REPOSITORY_OFFSET = 100000"
definition MAX_REPOSITORY_BATCH_BYTES :: nat where "MAX_REPOSITORY_BATCH_BYTES = 64 * 1024 * 1024"

record services =
  sha256 :: "string \<Rightarrow> string"
  dump_incident :: "incident \<Rightarrow> json"
  dump_event :: "incident_audit_event \<Rightarrow> json"
  dump_association :: "source_event_association \<Rightarrow> json"
  dump_updates :: "field_update list \<Rightarrow> json"

text \<open>The keyword arguments every write takes.\<close>

record write_metadata =
  meta_key :: string
  meta_actor :: string
  meta_reason :: string
  meta_trace :: string

type_synonym idempotency_scope = "string \<times> string \<times> string"

record idempotency_record =
  rec_fingerprint :: string
  rec_result :: incident

record repository =
  incidents :: "(string, incident) dict"
  idempotency :: "(idempotency_scope, idempotency_record) dict"
  audit_history :: "(string, incident_audit_event list) dict"
  source_events :: "(string \<times> string, source_event_association) dict"

definition empty_repository :: repository where
  "empty_repository = \<lparr>incidents = [], idempotency = [], audit_history = [], source_events = []\<rparr>"

section \<open>Module functions\<close>

definition fingerprint :: "services \<Rightarrow> string \<Rightarrow> json \<Rightarrow> string" where
  "fingerprint s operation payload =
     sha256 s (json_text (JObj [(''operation'', JStr operation), (''payload'', payload)]))"

definition require_non_empty :: "string \<Rightarrow> string \<Rightarrow> nat \<Rightarrow> repo_error option" where
  "require_non_empty name v max_length = first_error [
     fail_if (\<not> non_blank v) (ValueError (name @ '' must be a non-empty string'')),
     fail_if (max_length < length v) (ValueError (name @ '' is too long''))]"

definition assert_repository_safe :: "json \<Rightarrow> string \<Rightarrow> repo_error + nat" where
  "assert_repository_safe plain iid =
     (if assert_model_safe plain \<noteq> None
      then Inl (UnsafeIncidentWriteError iid ''privacy or JSON policy violation'')
      else if payload_depth (node_of [] plain) > MAX_CONTRACT_DEPTH
      then Inl (UnsafeIncidentWriteError iid ''payload depth exceeds canonical limit'')
      else case json_dumps plain of
        None \<Rightarrow> Inl (UnsafeIncidentWriteError iid ''privacy or JSON policy violation'')
      | Some encoded \<Rightarrow>
          if utf8_length encoded > MAX_CONTRACT_SERIALIZED_BYTES
          then Inl (UnsafeIncidentWriteError iid ''serialized payload exceeds canonical size limit'')
          else Inr (utf8_length encoded))"

definition unsafe_error :: "json \<Rightarrow> string \<Rightarrow> repo_error option" where
  "unsafe_error plain iid = (case assert_repository_safe plain iid of Inl e \<Rightarrow> Some e | Inr _ \<Rightarrow> None)"

definition require_write_metadata :: "write_metadata \<Rightarrow> repo_error option" where
  "require_write_metadata m = first_error [
     require_non_empty ''idempotency_key'' (meta_key m) 256,
     require_non_empty ''actor'' (meta_actor m) 256,
     require_non_empty ''reason'' (meta_reason m) 4096,
     require_non_empty ''trace_id'' (meta_trace m) 256,
     unsafe_error (JObj [(''idempotency_key'', JStr (meta_key m)), (''actor'', JStr (meta_actor m)),
       (''reason'', JStr (meta_reason m)), (''trace_id'', JStr (meta_trace m))]) ''<audit-metadata>'']"

fun bounded_page :: "('a \<Rightarrow> json) \<Rightarrow> nat \<Rightarrow> 'a list \<Rightarrow> repo_error + 'a list" where
  "bounded_page dump total_bytes [] = Inr []"
| "bounded_page dump total_bytes (v # vs) =
     (case assert_repository_safe (dump v) ''<repository-page>'' of
        Inl e \<Rightarrow> Inl e
      | Inr n \<Rightarrow>
          if total_bytes + n > MAX_REPOSITORY_BATCH_BYTES
          then Inl (UnsafeIncidentWriteError ''<repository-page>'' ''repository batch exceeds size limit'')
          else case bounded_page dump (total_bytes + n) vs of Inl e \<Rightarrow> Inl e | Inr vs' \<Rightarrow> Inr (v # vs'))"

definition request_scope :: "string \<Rightarrow> string \<Rightarrow> string \<Rightarrow> repo_error + idempotency_scope" where
  "request_scope operation iid key =
     (case first_error [require_non_empty ''operation'' operation 64, require_non_empty ''incident_id'' iid 256,
        require_non_empty ''idempotency_key'' key 256] of
        Some e \<Rightarrow> Inl e | None \<Rightarrow> Inr (py_lower (py_strip operation), iid, key))"

section \<open>Private helpers of the repository\<close>

text \<open>\<open>_now\<close>: the clock must be aware.\<close>

definition repository_now :: "py_datetime \<Rightarrow> repo_error + instant" where
  "repository_now clock = (case clock of
     Naive _ \<Rightarrow> Inl (ValueError ''repository clock must return a timezone-aware datetime'')
   | Aware t \<Rightarrow> Inr t)"

definition associated_source_ids :: "repository \<Rightarrow> string \<Rightarrow> string list" where
  "associated_source_ids r iid = map snd (filter (\<lambda>(i, _). i = iid) (map fst (source_events r)))"

definition source_event_owner :: "repository \<Rightarrow> string \<Rightarrow> repo_error + string option" where
  "source_event_owner r sid =
     (let owners = remdups (map fst (filter (\<lambda>(_, s). s = sid) (map fst (source_events r)))) in
      if length owners > 1 then Inl (RuntimeError ''source-event ownership invariant is corrupted'')
      else Inr (case owners of [] \<Rightarrow> None | i # _ \<Rightarrow> Some i))"

definition active_match :: "repository \<Rightarrow> string option \<Rightarrow> string list \<Rightarrow> string option \<Rightarrow> incident \<Rightarrow> bool" where
  "active_match r key sids exclude i \<longleftrightarrow> exclude \<noteq> Some (incident_id i) \<and> status i \<notin> set SETTLED_STATUSES \<and>
     ((key \<noteq> None \<and> correlation_key i = key) \<or>
      set sids \<inter> set (associated_source_ids r (incident_id i)) \<noteq> {})"

definition find_active_locked ::
  "repository \<Rightarrow> string option \<Rightarrow> string list \<Rightarrow> string option \<Rightarrow> string \<Rightarrow> repo_error + incident option" where
  "find_active_locked r key sids exclude requested_id =
     (let ordered = sort_key incident_id (map snd (incidents r));
          matches = dict_of (map (\<lambda>i. (incident_id i, i)) (filter (active_match r key sids exclude) ordered)) in
      if length matches > 1
      then Inl (IncidentCorrelationConflictError requested_id (sort (map fst matches)))
      else Inr (case matches of [] \<Rightarrow> None | (_, i) # _ \<Rightarrow> Some i))"

definition ownership_error :: "repository \<Rightarrow> string \<Rightarrow> string \<Rightarrow> repo_error option" where
  "ownership_error r iid sid =
     (case source_event_owner r sid of
        Inl e \<Rightarrow> Some e
      | Inr None \<Rightarrow> None
      | Inr (Some owner) \<Rightarrow> fail_if (owner \<noteq> iid) (SourceEventOwnershipConflictError sid owner iid))"

text \<open>The second loop of \<open>_register_source_events_locked\<close>: associations made before a raise stay.\<close>

fun register_loop ::
  "services \<Rightarrow> string \<Rightarrow> instant \<Rightarrow> write_metadata \<Rightarrow> string list \<Rightarrow> repository \<Rightarrow> repo_error option \<times> repository" where
  "register_loop s iid at_time m [] r = (None, r)"
| "register_loop s iid at_time m (sid # sids) r =
     (if (iid, sid) \<in> set (map fst (source_events r)) then register_loop s iid at_time m sids r
      else case new_association iid sid at_time (meta_actor m) (meta_reason m) (meta_key m) (meta_trace m) of
        Inl e \<Rightarrow> (Some (PydanticError e), r)
      | Inr association \<Rightarrow>
        case unsafe_error (dump_association s association) iid of
          Some e \<Rightarrow> (Some e, r)
        | None \<Rightarrow> register_loop s iid at_time m sids
            (r\<lparr>source_events := AList.update (iid, sid) association (source_events r)\<rparr>))"

definition register_source_events ::
  "services \<Rightarrow> string \<Rightarrow> string list \<Rightarrow> instant \<Rightarrow> write_metadata \<Rightarrow> repository \<Rightarrow> repo_error option \<times> repository" where
  "register_source_events s iid sids at_time m r =
     (let incoming = sort (remdups sids) in
      if card (set (associated_source_ids r iid) \<union> set incoming) > MAX_INCIDENT_SOURCE_EVENTS
      then (Some (ValueError ''incident source-event association capacity exceeded 1000''), r)
      else case first_error (map (ownership_error r iid) incoming) of
        Some e \<Rightarrow> (Some e, r)
      | None \<Rightarrow> register_loop s iid at_time m incoming r)"

definition new_event ::
  "services \<Rightarrow> incident \<Rightarrow> incident_status option \<Rightarrow> write_metadata \<Rightarrow> string \<Rightarrow> instant \<Rightarrow>
   repo_error + incident_audit_event" where
  "new_event s i fromst m fp at_time =
     (let event_digest = sha256 s (incident_id i @ [CHR 0x00] @ meta_key m @ [CHR 0x00] @ fp) in
      case new_audit_event (''audit-'' @ take 32 event_digest) (incident_id i) fromst (status i) (revision i)
             at_time (meta_actor m) (meta_reason m) (meta_key m) (meta_trace m) of
        Inl e \<Rightarrow> Inl (PydanticError e) | Inr ev \<Rightarrow> Inr ev)"

definition store_incident ::
  "incident \<Rightarrow> idempotency_scope \<Rightarrow> string \<Rightarrow> incident_audit_event list \<Rightarrow> repository \<Rightarrow> repository" where
  "store_incident i sc fp events r = r\<lparr>
     incidents := AList.update (incident_id i) i (incidents r),
     idempotency := AList.update sc \<lparr>rec_fingerprint = fp, rec_result = i\<rparr> (idempotency r),
     audit_history := AList.update (incident_id i) events (audit_history r)\<rparr>"

definition events_of :: "repository \<Rightarrow> string \<Rightarrow> incident_audit_event list" where
  "events_of r iid = (case map_of (audit_history r) iid of None \<Rightarrow> [] | Some es \<Rightarrow> es)"

definition commit_create ::
  "services \<Rightarrow> incident \<Rightarrow> idempotency_scope \<Rightarrow> string \<Rightarrow> write_metadata \<Rightarrow> instant \<Rightarrow> repository \<Rightarrow>
   repo_error option \<times> repository" where
  "commit_create s i sc fp m at_time r =
     (case new_event s i None m fp at_time of
        Inl e \<Rightarrow> (Some e, r)
      | Inr event \<Rightarrow>
        case register_source_events s (incident_id i) (source_event_ids i) at_time m r of
          (Some e, r') \<Rightarrow> (Some e, r')
        | (None, r') \<Rightarrow> (None, store_incident i sc fp [event] r'))"

definition commit_transition ::
  "services \<Rightarrow> incident \<Rightarrow> incident \<Rightarrow> idempotency_scope \<Rightarrow> string \<Rightarrow> write_metadata \<Rightarrow> instant \<Rightarrow> repository \<Rightarrow>
   repo_error option \<times> repository" where
  "commit_transition s current successor sc fp m at_time r =
     (case new_event s successor (Some (status current)) m fp at_time of
        Inl e \<Rightarrow> (Some e, r)
      | Inr event \<Rightarrow>
        case register_source_events s (incident_id successor) (source_event_ids successor) at_time m r of
          (Some e, r') \<Rightarrow> (Some e, r')
        | (None, r') \<Rightarrow> (None, store_incident successor sc fp
            (events_of r' (incident_id successor) @ [event]) r'))"

definition validate_new_incident ::
  "services \<Rightarrow> incident \<Rightarrow> string \<Rightarrow> instant \<Rightarrow> repo_error + incident" where
  "validate_new_incident s i trace now =
     (if revision i \<noteq> 0 then Inl (ValueError ''a newly created incident must have revision 0'')
      else if status i \<noteq> DETECTED then Inl (ValueError ''a newly created incident must have DETECTED status'')
      else if trace_id i \<noteq> trace then Inl (ValueError ''trace_id must match incident.trace_id'')
      else let committed = i\<lparr>created_at := now, updated_at := now\<rparr> in
        case model_validate (sha256 s) committed of
          Some e \<Rightarrow> Inl (PydanticError e)
        | None \<Rightarrow> (case unsafe_error (dump_incident s committed) (incident_id i) of
            Some e \<Rightarrow> Inl e | None \<Rightarrow> Inr committed))"

definition replay :: "repository \<Rightarrow> idempotency_scope \<Rightarrow> string \<Rightarrow> repo_error + incident option" where
  "replay r sc fp =
     (case map_of (idempotency r) sc of
        None \<Rightarrow> Inr None
      | Some record \<Rightarrow> if rec_fingerprint record \<noteq> fp then Inl (IdempotencyConflictError (snd (snd sc)))
          else Inr (Some (rec_result record)))"

definition require_reactivation_keys :: "repository \<Rightarrow> incident \<Rightarrow> incident \<Rightarrow> repo_error option" where
  "require_reactivation_keys r current successor =
     (if status current \<notin> set SETTLED_STATUSES \<or> status successor \<in> set SETTLED_STATUSES then None
      else case find_active_locked r (correlation_key successor)
          (associated_source_ids r (incident_id successor)) (Some (incident_id successor)) (incident_id successor) of
        Inl e \<Rightarrow> Some e
      | Inr None \<Rightarrow> None
      | Inr (Some active) \<Rightarrow> Some (ActiveIncidentConflictError (incident_id successor) (incident_id active)))"

section \<open>Operations\<close>

text \<open>What is checked, and the fingerprint and scope computed, before the lock is taken.\<close>

definition write_request :: "services \<Rightarrow> string \<Rightarrow> incident \<Rightarrow> write_metadata \<Rightarrow> repo_error + idempotency_scope \<times> string" where
  "write_request s operation i m =
     (case first_error [require_write_metadata m, unsafe_error (dump_incident s i) (incident_id i)] of
        Some e \<Rightarrow> Inl e
      | None \<Rightarrow> (case request_scope operation (incident_id i) (meta_key m) of
          Inl e \<Rightarrow> Inl e
        | Inr sc \<Rightarrow> Inr (sc, fingerprint s operation (JObj [(''incident'', dump_incident s i),
            (''actor'', JStr (meta_actor m)), (''reason'', JStr (meta_reason m)),
            (''trace_id'', JStr (meta_trace m))]))))"

definition create ::
  "services \<Rightarrow> py_datetime \<Rightarrow> incident \<Rightarrow> write_metadata \<Rightarrow> repository \<Rightarrow> (repo_error + incident) \<times> repository" where
  "create s clock i m r =
     (case write_request s ''create'' i m of Inl e \<Rightarrow> (Inl e, r) | Inr (sc, fp) \<Rightarrow>
      case replay r sc fp of Inl e \<Rightarrow> (Inl e, r) | Inr (Some x) \<Rightarrow> (Inr x, r) | Inr None \<Rightarrow>
      if incident_id i \<in> set (map fst (incidents r)) then (Inl (IncidentAlreadyExistsError (incident_id i)), r) else
      case repository_now clock of Inl e \<Rightarrow> (Inl e, r) | Inr now \<Rightarrow>
      case validate_new_incident s i (meta_trace m) now of Inl e \<Rightarrow> (Inl e, r) | Inr committed \<Rightarrow>
      case find_active_locked r (correlation_key committed) (source_event_ids committed) None (incident_id committed) of
        Inl e \<Rightarrow> (Inl e, r)
      | Inr (Some active) \<Rightarrow> (Inl (ActiveIncidentConflictError (incident_id committed) (incident_id active)), r)
      | Inr None \<Rightarrow>
      case commit_create s committed sc fp m now r of
        (Some e, r') \<Rightarrow> (Inl e, r') | (None, r') \<Rightarrow> (Inr committed, r'))"

definition create_or_correlate ::
  "services \<Rightarrow> py_datetime \<Rightarrow> incident \<Rightarrow> write_metadata \<Rightarrow> repository \<Rightarrow> (repo_error + incident) \<times> repository" where
  "create_or_correlate s clock i m r =
     (case write_request s ''create_or_correlate'' i m of Inl e \<Rightarrow> (Inl e, r) | Inr (sc, fp) \<Rightarrow>
      case replay r sc fp of Inl e \<Rightarrow> (Inl e, r) | Inr (Some x) \<Rightarrow> (Inr x, r) | Inr None \<Rightarrow>
      case repository_now clock of Inl e \<Rightarrow> (Inl e, r) | Inr now \<Rightarrow>
      case validate_new_incident s i (meta_trace m) now of Inl e \<Rightarrow> (Inl e, r) | Inr candidate \<Rightarrow>
      case find_active_locked r (correlation_key candidate) (source_event_ids candidate) None (incident_id candidate) of
        Inl e \<Rightarrow> (Inl e, r)
      | Inr (Some existing) \<Rightarrow>
          (case register_source_events s (incident_id existing) (source_event_ids candidate) now m r of
             (Some e, r') \<Rightarrow> (Inl e, r')
           | (None, r') \<Rightarrow> (Inr existing, r'\<lparr>idempotency :=
               AList.update sc \<lparr>rec_fingerprint = fp, rec_result = existing\<rparr> (idempotency r')\<rparr>))
      | Inr None \<Rightarrow>
      if incident_id candidate \<in> set (map fst (incidents r))
      then (Inl (IncidentAlreadyExistsError (incident_id candidate)), r) else
      case commit_create s candidate sc fp m now r of
        (Some e, r') \<Rightarrow> (Inl e, r') | (None, r') \<Rightarrow> (Inr candidate, r'))"

definition get :: "string \<Rightarrow> repository \<Rightarrow> incident option" where
  "get iid r = map_of (incidents r) iid"

definition require_current :: "repository \<Rightarrow> string \<Rightarrow> repo_error + incident" where
  "require_current r iid =
     (case map_of (incidents r) iid of None \<Rightarrow> Inl (IncidentNotFoundError iid) | Some i \<Rightarrow> Inr i)"

definition require_revision :: "incident \<Rightarrow> incident \<Rightarrow> int \<Rightarrow> repo_error option" where
  "require_revision current candidate expected = fail_if
     (revision current \<noteq> expected \<or> revision candidate \<noteq> expected + 1)
     (RepositoryRevisionConflictError (incident_id candidate) expected (revision current) (Some (revision candidate)))"

definition require_trace :: "incident \<Rightarrow> string \<Rightarrow> repo_error option" where
  "require_trace i trace = fail_if (trace_id i \<noteq> trace)
     (ValueError ''trace_id must match the persisted incident trace_id'')"

text \<open>The fields of a candidate that differ from the current snapshot, protected ones left out.\<close>

definition update_if :: "bool \<Rightarrow> field_update \<Rightarrow> field_update list" where
  "update_if changed u = (if changed then [u] else [])"

definition snapshot_updates :: "incident \<Rightarrow> incident \<Rightarrow> field_update list" where
  "snapshot_updates c n = concat [
     update_if (source_event_ids n \<noteq> source_event_ids c) (U_source_event_ids (source_event_ids n)),
     update_if (vendor_profile n \<noteq> vendor_profile c) (U_vendor_profile (vendor_profile n)),
     update_if (severity n \<noteq> severity c) (U_severity (severity n)),
     update_if (title n \<noteq> title c) (U_title (title n)),
     update_if (description n \<noteq> description c) (U_description (description n)),
     update_if (affected_resources n \<noteq> affected_resources c) (U_affected_resources (affected_resources n)),
     update_if (window_start n \<noteq> window_start c) (U_window_start (window_start n)),
     update_if (window_end n \<noteq> window_end c) (U_window_end (window_end n)),
     update_if (violated_kpis n \<noteq> violated_kpis c) (U_violated_kpis (violated_kpis n)),
     update_if (evidence_refs n \<noteq> evidence_refs c) (U_evidence_refs (evidence_refs n)),
     update_if (hypotheses n \<noteq> hypotheses c) (U_hypotheses (hypotheses n)),
     update_if (root_cause n \<noteq> root_cause c) (U_root_cause (root_cause n)),
     update_if (rca_reports n \<noteq> rca_reports c) (U_rca_reports (rca_reports n)),
     update_if (recommendations n \<noteq> recommendations c) (U_recommendations (recommendations n)),
     update_if (approvals n \<noteq> approvals c) (U_approvals (approvals n)),
     update_if (action_runs n \<noteq> action_runs c) (U_action_runs (action_runs n)),
     update_if (verification_runs n \<noteq> verification_runs c) (U_verification_runs (verification_runs n)),
     update_if (model_metadata n \<noteq> model_metadata c) (U_model_metadata (model_metadata n)),
     update_if (rule_versions n \<noteq> rule_versions c) (U_rule_versions (rule_versions n)),
     update_if (duplicate_of n \<noteq> duplicate_of c) (U_duplicate_of (duplicate_of n))]"

definition save_request :: "services \<Rightarrow> incident \<Rightarrow> int \<Rightarrow> write_metadata \<Rightarrow> repo_error + idempotency_scope \<times> string" where
  "save_request s i expected m =
     (case first_error [require_write_metadata m, unsafe_error (dump_incident s i) (incident_id i),
        fail_if (expected < 0) (ValueError ''expected_revision must not be negative'')] of
        Some e \<Rightarrow> Inl e
      | None \<Rightarrow> (case request_scope ''save'' (incident_id i) (meta_key m) of
          Inl e \<Rightarrow> Inl e
        | Inr sc \<Rightarrow> Inr (sc, fingerprint s ''save'' (JObj [(''incident'', dump_incident s i),
            (''expected_revision'', JInt expected), (''actor'', JStr (meta_actor m)),
            (''reason'', JStr (meta_reason m)), (''trace_id'', JStr (meta_trace m))]))))"

text \<open>The part of \<open>save\<close> between reading the current snapshot and committing its successor.\<close>

definition save_successor ::
  "services \<Rightarrow> py_datetime \<Rightarrow> incident \<Rightarrow> int \<Rightarrow> write_metadata \<Rightarrow> repository \<Rightarrow> incident \<Rightarrow>
   repo_error + instant \<times> incident" where
  "save_successor s clock i expected m r current =
     (case first_error [require_revision current i expected, require_trace current (meta_trace m),
        map_option PydanticError (model_validate (sha256 s) i),
        unsafe_error (dump_updates s (snapshot_updates current i)) (incident_id i)] of
        Some e \<Rightarrow> Inl e
      | None \<Rightarrow> (case repository_now clock of
          Inl e \<Rightarrow> Inl e
        | Inr now \<Rightarrow> (case transition_incident (sha256 s) now True current (incident_status_value (status i))
              expected (Some (Aware now)) (Some (Aware now)) (snapshot_updates current i) of
            Inl e \<Rightarrow> Inl (StateError e)
          | Inr successor \<Rightarrow> (case first_error [
                fail_if (successor\<lparr>updated_at := 0\<rparr> \<noteq> i\<lparr>updated_at := 0\<rparr>)
                  (UnsafeIncidentWriteError (incident_id i)
                    ''candidate is not the exact output of the domain state machine''),
                unsafe_error (dump_incident s successor) (incident_id i),
                require_reactivation_keys r current successor] of
              Some e \<Rightarrow> Inl e
            | None \<Rightarrow> Inr (now, successor)))))"

definition save ::
  "services \<Rightarrow> py_datetime \<Rightarrow> incident \<Rightarrow> int \<Rightarrow> write_metadata \<Rightarrow> repository \<Rightarrow> (repo_error + incident) \<times> repository" where
  "save s clock i expected m r =
     (case save_request s i expected m of Inl e \<Rightarrow> (Inl e, r) | Inr (sc, fp) \<Rightarrow>
      case replay r sc fp of Inl e \<Rightarrow> (Inl e, r) | Inr (Some x) \<Rightarrow> (Inr x, r) | Inr None \<Rightarrow>
      case require_current r (incident_id i) of Inl e \<Rightarrow> (Inl e, r) | Inr current \<Rightarrow>
      case save_successor s clock i expected m r current of Inl e \<Rightarrow> (Inl e, r) | Inr (now, successor) \<Rightarrow>
      case commit_transition s current successor sc fp m now r of
        (Some e, r') \<Rightarrow> (Inl e, r') | (None, r') \<Rightarrow> (Inr successor, r'))"

definition compare_and_swap ::
  "services \<Rightarrow> py_datetime \<Rightarrow> incident \<Rightarrow> int \<Rightarrow> write_metadata \<Rightarrow> repository \<Rightarrow> (repo_error + incident) \<times> repository" where
  "compare_and_swap s clock i expected m r = save s clock i expected m r"

text \<open>\<open>dumped\<close>: the caller's updates hold dictionaries instead of model instances.\<close>

definition transition_request ::
  "services \<Rightarrow> string \<Rightarrow> string \<Rightarrow> int \<Rightarrow> field_update list \<Rightarrow> write_metadata \<Rightarrow>
   repo_error + idempotency_scope \<times> string" where
  "transition_request s iid target expected updates m =
     (case first_error [require_write_metadata m,
        fail_if (expected < 0) (ValueError ''expected_revision must not be negative''),
        unsafe_error (dump_updates s updates) iid] of
        Some e \<Rightarrow> Inl e
      | None \<Rightarrow> (case request_scope ''transition'' iid (meta_key m) of
          Inl e \<Rightarrow> Inl e
        | Inr sc \<Rightarrow> Inr (sc, fingerprint s ''transition'' (JObj [(''target_status'', JStr target),
            (''expected_revision'', JInt expected), (''updates'', dump_updates s updates),
            (''actor'', JStr (meta_actor m)), (''reason'', JStr (meta_reason m)),
            (''trace_id'', JStr (meta_trace m))]))))"

definition transition_successor ::
  "services \<Rightarrow> py_datetime \<Rightarrow> bool \<Rightarrow> string \<Rightarrow> string \<Rightarrow> int \<Rightarrow> field_update list \<Rightarrow> write_metadata \<Rightarrow>
   repository \<Rightarrow> incident \<Rightarrow> repo_error + instant \<times> incident" where
  "transition_successor s clock dumped iid target expected updates m r current =
     (case first_error [fail_if (revision current \<noteq> expected)
          (RepositoryRevisionConflictError iid expected (revision current) None),
        require_trace current (meta_trace m)] of
        Some e \<Rightarrow> Inl e
      | None \<Rightarrow> (case repository_now clock of
          Inl e \<Rightarrow> Inl e
        | Inr now \<Rightarrow> (case transition_incident (sha256 s) now dumped current target expected
              (Some (Aware now)) (Some (Aware now)) updates of
            Inl e \<Rightarrow> Inl (StateError e)
          | Inr successor \<Rightarrow> (case first_error [unsafe_error (dump_incident s successor) iid,
                require_reactivation_keys r current successor] of
              Some e \<Rightarrow> Inl e
            | None \<Rightarrow> Inr (now, successor)))))"

definition transition ::
  "services \<Rightarrow> py_datetime \<Rightarrow> bool \<Rightarrow> string \<Rightarrow> string \<Rightarrow> int \<Rightarrow> field_update list \<Rightarrow> write_metadata \<Rightarrow>
   repository \<Rightarrow> (repo_error + incident) \<times> repository" where
  "transition s clock dumped iid target expected updates m r =
     (case transition_request s iid target expected updates m of Inl e \<Rightarrow> (Inl e, r) | Inr (sc, fp) \<Rightarrow>
      case replay r sc fp of Inl e \<Rightarrow> (Inl e, r) | Inr (Some x) \<Rightarrow> (Inr x, r) | Inr None \<Rightarrow>
      case require_current r iid of Inl e \<Rightarrow> (Inl e, r) | Inr current \<Rightarrow>
      case transition_successor s clock dumped iid target expected updates m r current of
        Inl e \<Rightarrow> (Inl e, r) | Inr (now, successor) \<Rightarrow>
      case commit_transition s current successor sc fp m now r of
        (Some e, r') \<Rightarrow> (Inl e, r') | (None, r') \<Rightarrow> (Inr successor, r'))"

section \<open>Queries\<close>

definition find_by_idempotency_key ::
  "string \<Rightarrow> string \<Rightarrow> string \<Rightarrow> repository \<Rightarrow> repo_error + incident option" where
  "find_by_idempotency_key iid key operation r =
     (case request_scope operation iid key of Inl e \<Rightarrow> Inl e
      | Inr sc \<Rightarrow> Inr (map_option rec_result (map_of (idempotency r) sc)))"

definition find_active ::
  "string option \<Rightarrow> string option \<Rightarrow> repository \<Rightarrow> repo_error + incident option" where
  "find_active key sid r =
     (if key = None \<and> sid = None then Inl (ValueError ''correlation_key or source_event_id is required'')
      else find_active_locked r key (case sid of None \<Rightarrow> [] | Some x \<Rightarrow> [x]) None ''<lookup>'')"

definition page_bounds_error :: "int \<Rightarrow> int \<Rightarrow> repo_error option" where
  "page_bounds_error limit offset = first_error [
     fail_if (limit < 1 \<or> limit > MAX_REPOSITORY_PAGE_SIZE) (ValueError ''limit must be between 1 and 1000''),
     fail_if (offset < 0 \<or> offset > MAX_REPOSITORY_OFFSET) (ValueError ''offset must be between 0 and 100000'')]"

definition select_incidents :: "incident_status option \<Rightarrow> repository \<Rightarrow> incident list" where
  "select_incidents wanted r = filter (\<lambda>i. wanted = None \<or> wanted = Some (status i))
     (sort_key incident_id (map snd (incidents r)))"

definition list_incidents ::
  "services \<Rightarrow> incident_status option \<Rightarrow> int \<Rightarrow> int \<Rightarrow> repository \<Rightarrow> repo_error + incident list" where
  "list_incidents s wanted limit offset r =
     (case page_bounds_error limit offset of Some e \<Rightarrow> Inl e
      | None \<Rightarrow> bounded_page (dump_incident s) 0 (page (nat offset) (nat limit) (select_incidents wanted r)))"

definition history ::
  "services \<Rightarrow> string \<Rightarrow> int option \<Rightarrow> int \<Rightarrow> repository \<Rightarrow> repo_error + incident_audit_event list" where
  "history s iid limit offset r =
     (case first_error [require_non_empty ''incident_id'' iid 256,
        (case limit of None \<Rightarrow> None | Some n \<Rightarrow> fail_if (n < 1 \<or> n > MAX_REPOSITORY_PAGE_SIZE)
           (ValueError ''limit must be between 1 and 1000'')),
        fail_if (offset < 0 \<or> offset > MAX_REPOSITORY_OFFSET) (ValueError ''offset must be between 0 and 100000''),
        fail_if (limit = None \<and> offset \<noteq> 0) (ValueError ''offset requires an explicit limit'')] of
        Some e \<Rightarrow> Inl e
      | None \<Rightarrow> bounded_page (dump_event s) 0 (case limit of
          None \<Rightarrow> drop (nat offset) (events_of r iid)
        | Some n \<Rightarrow> page (nat offset) (nat n) (events_of r iid)))"

definition source_event_associations ::
  "services \<Rightarrow> string \<Rightarrow> int \<Rightarrow> int \<Rightarrow> repository \<Rightarrow> repo_error + source_event_association list" where
  "source_event_associations s iid limit offset r =
     (case first_error [require_non_empty ''incident_id'' iid 256, page_bounds_error limit offset] of
        Some e \<Rightarrow> Inl e
      | None \<Rightarrow> bounded_page (dump_association s) 0 (page (nat offset) (nat limit)
          (sort_key assoc_source_event_id
            (map snd (filter (\<lambda>((i, _), _). i = iid) (source_events r))))))"

section \<open>Snapshot import\<close>

definition association_fields_ok :: "source_event_association \<Rightarrow> bool" where
  "association_fields_ok a \<longleftrightarrow> identifier_ok (assoc_incident_id a) \<and> identifier_ok (assoc_source_event_id a) \<and>
     identifier_ok (assoc_actor a) \<and> non_empty_str_ok (assoc_reason a) \<and>
     identifier_ok (assoc_idempotency_key a) \<and> identifier_ok (assoc_trace_id a)"

fun check_associations :: "services \<Rightarrow> string \<Rightarrow> nat \<Rightarrow> source_event_association list \<Rightarrow> repo_error option" where
  "check_associations s iid association_bytes [] = None"
| "check_associations s iid association_bytes (a # as) =
     (if \<not> association_fields_ok a then Some (PydanticError ''field constraint'')
      else case assert_repository_safe (dump_association s a) iid of
        Inl e \<Rightarrow> Some e
      | Inr n \<Rightarrow>
          if association_bytes + n + 1 > MAX_REPOSITORY_BATCH_BYTES
          then Some (UnsafeIncidentWriteError iid
            ''cumulative serialized payload exceeds repository batch budget'')
          else check_associations s iid (association_bytes + n + 1) as)"

definition import_request ::
  "services \<Rightarrow> incident \<Rightarrow> source_event_association list \<Rightarrow> write_metadata \<Rightarrow>
   repo_error + idempotency_scope \<times> string" where
  "import_request s i as m =
     (case first_error [require_write_metadata m,
        map_option PydanticError (model_validate (sha256 s) i),
        fail_if (status i \<noteq> DETECTED \<or> revision i \<noteq> 0)
          (ValueError ''migration accepts only DETECTED revision-0 incidents''),
        fail_if (trace_id i \<noteq> meta_trace m) (ValueError ''trace_id must match the imported incident''),
        unsafe_error (dump_incident s i) (incident_id i),
        fail_if (length as > MAX_INCIDENT_SOURCE_EVENTS)
          (ValueError ''migration source association capacity exceeded''),
        check_associations s (incident_id i) 0 as,
        fail_if (\<not> distinct (map assoc_source_event_id as))
          (ValueError ''migration source associations must be unique''),
        fail_if (\<not> set (source_event_ids i) \<subseteq> set (map assoc_source_event_id as))
          (ValueError ''migration source provenance is incomplete''),
        fail_if (list_ex (\<lambda>a. assoc_incident_id a \<noteq> incident_id i) as)
          (ValueError ''migration source association binding mismatch'')] of
        Some e \<Rightarrow> Inl e
      | None \<Rightarrow> (case request_scope ''import_detected_snapshot'' (incident_id i) (meta_key m) of
          Inl e \<Rightarrow> Inl e
        | Inr sc \<Rightarrow> Inr (sc, fingerprint s ''import_detected_snapshot'' (JObj [
            (''incident'', dump_incident s i), (''associations'', JList (map (dump_association s) as)),
            (''actor'', JStr (meta_actor m)), (''reason'', JStr (meta_reason m)),
            (''trace_id'', JStr (meta_trace m))]))))"

text \<open>What a replayed import checks of the persisted state.\<close>

definition import_audit_ok :: "incident_audit_event \<Rightarrow> write_metadata \<Rightarrow> bool" where
  "import_audit_ok audit m \<longleftrightarrow> from_status audit = None \<and> to_status audit = DETECTED \<and>
     audit_idempotency_key audit = meta_key m \<and> audit_actor audit = meta_actor m \<and>
     audit_reason audit = meta_reason m \<and> audit_trace_id audit = meta_trace m"

definition import_replay_error ::
  "incident \<Rightarrow> source_event_association list \<Rightarrow> write_metadata \<Rightarrow> incident \<Rightarrow> repository \<Rightarrow> repo_error option" where
  "import_replay_error i as m replayed r =
     (if replayed \<noteq> i then Some (IncidentRepositoryError ''persisted migration replay snapshot is inconsistent'')
      else case map_of (incidents r) (incident_id i) of
        None \<Rightarrow> Some (IncidentRepositoryError ''persisted migration Incident is missing'')
      | Some current \<Rightarrow>
        if list_ex (\<lambda>a. map_of (source_events r) (assoc_incident_id a, assoc_source_event_id a) \<noteq> Some a) as
        then Some (IncidentRepositoryError ''persisted migration source provenance is inconsistent'')
        else if (case List.find (\<lambda>ev. audit_revision ev = 0) (events_of r (incident_id i)) of
            None \<Rightarrow> True | Some audit \<Rightarrow> \<not> import_audit_ok audit m)
        then Some (IncidentRepositoryError ''persisted migration audit is inconsistent'')
        else if status current \<notin> set SETTLED_STATUSES \<and> (correlation_key i \<noteq> None \<or> as \<noteq> [])
        then (case find_active_locked r (correlation_key i) (map assoc_source_event_id as) None (incident_id i) of
            Inl e \<Rightarrow> Some e
          | Inr active \<Rightarrow> fail_if (map_option incident_id active \<noteq> Some (incident_id i))
              (IncidentRepositoryError ''persisted migration active keys are inconsistent''))
        else None)"

definition add_associations :: "source_event_association list \<Rightarrow> repository \<Rightarrow> repository" where
  "add_associations as r = r\<lparr>source_events := foldl (\<lambda>d a.
     AList.update (assoc_incident_id a, assoc_source_event_id a) a d) (source_events r) as\<rparr>"

definition import_detected_snapshot ::
  "services \<Rightarrow> py_datetime \<Rightarrow> incident \<Rightarrow> source_event_association list \<Rightarrow> write_metadata \<Rightarrow> repository \<Rightarrow>
   (repo_error + incident \<times> bool) \<times> repository" where
  "import_detected_snapshot s clock i as m r =
     (case import_request s i as m of Inl e \<Rightarrow> (Inl e, r) | Inr (sc, fp) \<Rightarrow>
      case replay r sc fp of Inl e \<Rightarrow> (Inl e, r)
      | Inr (Some x) \<Rightarrow> (case import_replay_error i as m x r of Some e \<Rightarrow> (Inl e, r) | None \<Rightarrow> (Inr (x, True), r))
      | Inr None \<Rightarrow>
      if incident_id i \<in> set (map fst (incidents r)) then (Inl (IncidentAlreadyExistsError (incident_id i)), r) else
      case first_error (map (ownership_error r (incident_id i)) (map assoc_source_event_id as)) of
        Some e \<Rightarrow> (Inl e, r) | None \<Rightarrow>
      case find_active_locked r (correlation_key i) (map assoc_source_event_id as) None (incident_id i) of
        Inl e \<Rightarrow> (Inl e, r)
      | Inr (Some active) \<Rightarrow> (Inl (ActiveIncidentConflictError (incident_id i) (incident_id active)), r)
      | Inr None \<Rightarrow>
      case repository_now clock of Inl e \<Rightarrow> (Inl e, r) | Inr now \<Rightarrow>
      case new_event s i None m fp now of Inl e \<Rightarrow> (Inl e, r) | Inr event \<Rightarrow>
      (Inr (i, False), store_incident i sc fp [event] (add_associations as r)))"

end
