(* ===== verification/Repository_Invariant.thy ===== *)
theory Repository_Invariant
  imports Repository
begin

text \<open>
  The invariant of the in-memory repository.  Every operation, whether it returns or raises,
  has one of five effects on the state (\<open>repo_effect\<close>): none, some associations registered,
  a correlation recorded, an incident created, an incident moved by one state-machine step.
  The effects preserve the invariant and only ever add to the durable records.
\<close>

section \<open>Registering source events\<close>

text \<open>The keys of the association dictionary.\<close>

definition assoc_keys :: "repository \<Rightarrow> (string \<times> string) set" where
  "assoc_keys r = fst ` set (source_events r)"

lemma assoc_keys_simps [simp]:
  "assoc_keys (r\<lparr>source_events := AList.update k a (source_events r)\<rparr>) = insert k (assoc_keys r)"
  "assoc_keys (r\<lparr>incidents := x\<rparr>) = assoc_keys r" "assoc_keys (r\<lparr>idempotency := y\<rparr>) = assoc_keys r"
  "assoc_keys (r\<lparr>audit_history := z\<rparr>) = assoc_keys r"
  by (simp_all add: assoc_keys_def keys_update)

lemma assoc_keys_iff:
  "k \<in> assoc_keys r \<longleftrightarrow> k \<in> set (map fst (source_events r))"
  "k \<notin> assoc_keys r \<longleftrightarrow> map_of (source_events r) k = None"
  "sid \<in> set (associated_source_ids r iid) \<longleftrightarrow> (iid, sid) \<in> assoc_keys r"
  by (auto simp: assoc_keys_def associated_source_ids_def map_of_eq_None_iff image_iff)

text \<open>
  \<open>r'\<close> is \<open>r\<close> with some associations of \<open>iid\<close> added, none of an event owned elsewhere, and
  no association of another incident, or of a stored one, changed.
\<close>

definition assoc_extends :: "string \<Rightarrow> repository \<Rightarrow> repository \<Rightarrow> bool" where
  "assoc_extends iid r r' \<longleftrightarrow> incidents r' = incidents r \<and> idempotency r' = idempotency r \<and>
     audit_history r' = audit_history r \<and> assoc_keys r \<subseteq> assoc_keys r' \<and>
     (\<forall>k sid a. map_of (source_events r) (k, sid) = Some a \<and> (k \<noteq> iid \<or> k \<in> set (map fst (incidents r))) \<longrightarrow>
        map_of (source_events r') (k, sid) = Some a) \<and>
     (\<forall>j sid. (j, sid) \<in> assoc_keys r' \<and> (j, sid) \<notin> assoc_keys r \<longrightarrow>
        j = iid \<and> (\<forall>k. (k, sid) \<in> assoc_keys r \<longrightarrow> k = iid)) \<and>
     (distinct (map fst (source_events r)) \<longrightarrow> distinct (map fst (source_events r')))"

lemma assoc_extends_refl: "assoc_extends iid r r"
  by (simp add: assoc_extends_def)

lemma assoc_extends_update:
  assumes "assoc_extends iid r r'" and "\<forall>k. (k, sid) \<in> assoc_keys r \<longrightarrow> k = iid"
    and "(iid, sid) \<notin> assoc_keys r' \<or> iid \<notin> set (map fst (incidents r))"
  shows "assoc_extends iid r (r'\<lparr>source_events := AList.update (iid, sid) a (source_events r')\<rparr>)"
proof -
  let ?u = "r'\<lparr>source_events := AList.update (iid, sid) a (source_events r')\<rparr>"
  have kept: "map_of (source_events ?u) (k, x) = Some v"
    if "map_of (source_events r) (k, x) = Some v" "k \<noteq> iid \<or> k \<in> set (map fst (incidents r))" for k x v
  proof -
    have old: "map_of (source_events r') (k, x) = Some v" using assms(1) that by (simp add: assoc_extends_def)
    then have "(k, x) \<in> assoc_keys r'" by (metis assoc_keys_iff(2) option.distinct(1))
    with assms(3) that(2) have "(k, x) \<noteq> (iid, sid)" by auto
    with old show ?thesis by auto
  qed
  have new: "j = iid \<and> (\<forall>k. (k, x) \<in> assoc_keys r \<longrightarrow> k = iid)"
    if "(j, x) \<in> assoc_keys ?u" "(j, x) \<notin> assoc_keys r" for j x
  proof (cases "(j, x) = (iid, sid)")
    case True
    with assms(2) show ?thesis by simp
  next
    case False
    with that have "(j, x) \<in> assoc_keys r'" by auto
    with that(2) assms(1) show ?thesis unfolding assoc_extends_def by blast
  qed
  from assms(1) have e: "incidents r' = incidents r" "idempotency r' = idempotency r"
    "audit_history r' = audit_history r" "assoc_keys r \<subseteq> assoc_keys r'"
    "distinct (map fst (source_events r)) \<longrightarrow> distinct (map fst (source_events r'))"
    by (simp_all add: assoc_extends_def)
  show ?thesis unfolding assoc_extends_def
  proof (intro conjI)
    show "incidents ?u = incidents r" "idempotency ?u = idempotency r" "audit_history ?u = audit_history r"
      "assoc_keys r \<subseteq> assoc_keys ?u" using e by auto
    show "distinct (map fst (source_events r)) \<longrightarrow> distinct (map fst (source_events ?u))"
      using e(5) by (simp add: distinct_update)
  qed (use kept new in blast)+
qed

lemma register_loop_extends:
  assumes "register_loop s iid t m sids r' = (e, r'')" and "assoc_extends iid r r'"
    and "\<forall>sid\<in>set sids. \<forall>k. (k, sid) \<in> assoc_keys r \<longrightarrow> k = iid"
  shows "assoc_extends iid r r'' \<and>
    (e = None \<longrightarrow> (\<forall>sid\<in>set sids. (iid, sid) \<in> assoc_keys r'') \<and>
       assoc_keys r' \<subseteq> assoc_keys r'')"
  using assms
proof (induction s iid t m sids r' rule: register_loop.induct)
  case (1 s iid at_time m r')
  then show ?case by simp
next
  case (2 s iid at_time m sid sids r')
  show ?case
  proof (cases "(iid, sid) \<in> set (map fst (source_events r'))")
    case True
    then have "(iid, sid) \<in> assoc_keys r'" by (simp only: assoc_keys_iff(1))
    with "2.IH"(1) [OF True] "2.prems" True show ?thesis by auto
  next
    case False
    show ?thesis
    proof (cases "new_association iid sid at_time (meta_actor m) (meta_reason m) (meta_key m) (meta_trace m)")
      case (Inl x)
      with False "2.prems" show ?thesis by auto
    next
      case (Inr a)
      show ?thesis
      proof (cases "unsafe_error (dump_association s a) iid")
        case (Some x)
        with False Inr "2.prems" show ?thesis by auto
      next
        case None
        let ?r = "r'\<lparr>source_events := AList.update (iid, sid) a (source_events r')\<rparr>"
        have "assoc_extends iid r ?r"
          using "2.prems" False by (intro assoc_extends_update) (auto simp: assoc_keys_iff(1))
        with "2.IH"(2) [OF False Inr None] "2.prems" False Inr None show ?thesis by auto
      qed
    qed
  qed
qed

lemma source_event_owner_Inr:
  assumes "source_event_owner r sid = Inr owner"
  shows "(k, sid) \<in> assoc_keys r \<Longrightarrow> owner = Some k"
    and "owner = Some k \<Longrightarrow> (k, sid) \<in> assoc_keys r"
proof -
  define owners where "owners = remdups (map fst (filter (\<lambda>(_, x). x = sid) (map fst (source_events r))))"
  have mem: "k \<in> set owners \<longleftrightarrow> (k, sid) \<in> assoc_keys r" for k
    by (force simp: owners_def assoc_keys_def image_iff)
  have owner: "\<not> length owners > 1" "owner = (case owners of [] \<Rightarrow> None | i # _ \<Rightarrow> Some i)"
    using assms unfolding source_event_owner_def owners_def [symmetric] by (auto simp: Let_def split: if_splits)
  then consider "owners = []" "owner = None" | x where "owners = [x]" "owner = Some x"
    by (cases owners) (auto split: list.splits)
  then have "owner = Some k \<longleftrightarrow> k \<in> set owners" by cases auto
  with mem [of k] show "(k, sid) \<in> assoc_keys r \<Longrightarrow> owner = Some k"
    "owner = Some k \<Longrightarrow> (k, sid) \<in> assoc_keys r" by simp_all
qed

lemma ownership_error_None:
  assumes "ownership_error r iid sid = None"
  shows "(k, sid) \<in> assoc_keys r \<Longrightarrow> k = iid"
proof (cases "source_event_owner r sid")
  case (Inr owner)
  assume "(k, sid) \<in> assoc_keys r"
  with source_event_owner_Inr(1) [OF Inr] have "owner = Some k" by simp
  with Inr assms show ?thesis by (simp add: ownership_error_def)
qed (use assms in \<open>simp add: ownership_error_def\<close>)

lemma register_source_events_extends:
  assumes "register_source_events s iid sids t m r = (e, r')"
  shows "assoc_extends iid r r' \<and> (e = None \<longrightarrow> set sids \<subseteq> set (associated_source_ids r' iid))"
proof (cases "r' = r \<and> e \<noteq> None")
  case True
  then show ?thesis by (auto simp: assoc_extends_refl)
next
  case False
  let ?in = "sort (remdups sids)"
  from assms False have loop: "register_loop s iid t m ?in r = (e, r')"
    and own: "first_error (map (ownership_error r iid) ?in) = None"
    by (auto simp: register_source_events_def Let_def split: if_splits option.splits)
  have "\<forall>sid\<in>set ?in. \<forall>k. (k, sid) \<in> assoc_keys r \<longrightarrow> k = iid"
    using own ownership_error_None by (metis first_error_None image_eqI list.set_map)
  from register_loop_extends [OF loop assoc_extends_refl this]
  have ext: "assoc_extends iid r r'"
    and all: "e = None \<Longrightarrow> \<forall>sid\<in>set sids. (iid, sid) \<in> assoc_keys r'" by auto
  have "set sids \<subseteq> set (associated_source_ids r' iid)" if "e = None"
    using all [OF that] by (auto simp: assoc_keys_iff(3))
  with ext show ?thesis by blast
qed

section \<open>Finding the active incident\<close>

lemma dict_of_Nil [simp]: "dict_of kvs = [] \<longleftrightarrow> kvs = []"
proof -
  have "foldl (\<lambda>d (k, v). AList.update k v d) d kvs \<noteq> []" if "d \<noteq> []" for d :: "('a, 'b) dict"
    using that by (induction kvs arbitrary: d) (auto split: prod.splits)
  from this [of "[hd kvs]"] show ?thesis by (cases kvs) (simp_all add: dict_of_def split: prod.splits)
qed

lemma find_active_None:
  assumes "find_active_locked r key sids exclude q = Inr None" and "map_of (incidents r) k = Some i"
  shows "\<not> active_match r key sids exclude i"
proof -
  have "i \<in> set (sort_key incident_id (map snd (incidents r)))"
    using map_of_SomeD [OF assms(2)] by force
  moreover have "filter (active_match r key sids exclude) (sort_key incident_id (map snd (incidents r))) = []"
    using assms(1) by (auto simp: find_active_locked_def Let_def split: if_splits list.splits prod.splits)
  ultimately show ?thesis unfolding filter_empty_conv by blast
qed

lemma find_active_Some:
  assumes "find_active_locked r key sids exclude q = Inr (Some i)"
  shows "i \<in> snd ` set (incidents r) \<and> active_match r key sids exclude i"
proof -
  let ?l = "map (\<lambda>i. (incident_id i, i))
    (filter (active_match r key sids exclude) (sort_key incident_id (map snd (incidents r))))"
  from assms obtain k rest where "dict_of ?l = (k, i) # rest"
    by (auto simp: find_active_locked_def Let_def split: if_splits list.splits prod.splits)
  then have "(k, i) \<in> set ?l" using dict_of_set [of ?l] by auto
  then show ?thesis by auto
qed

section \<open>Effects of the operations\<close>

inductive repo_effect :: "services \<Rightarrow> repository \<Rightarrow> repository \<Rightarrow> bool" for s r where
  unchanged: "repo_effect s r r"
| registered: "assoc_extends iid r r' \<Longrightarrow> repo_effect s r r'"
| correlated: "assoc_extends iid r r' \<Longrightarrow> map_of (idempotency r) sc = None \<Longrightarrow>
    repo_effect s r (r'\<lparr>idempotency := AList.update sc record_entry (idempotency r')\<rparr>)"
| created: "map_of (incidents r) (incident_id i) = None \<Longrightarrow> status i = DETECTED \<Longrightarrow> revision i = 0 \<Longrightarrow>
    incident_valid (sha256 s) i \<Longrightarrow>
    (\<And>k j. map_of (incidents r) k = Some j \<Longrightarrow> \<not> active_match r (correlation_key i) sids None j) \<Longrightarrow>
    assoc_extends (incident_id i) r r' \<Longrightarrow>
    set (source_event_ids i) \<subseteq> set (associated_source_ids r' (incident_id i)) \<Longrightarrow>
    map_of (idempotency r) sc = None \<Longrightarrow>
    from_status event = None \<Longrightarrow> to_status event = DETECTED \<Longrightarrow> audit_revision event = 0 \<Longrightarrow>
    repo_effect s r (store_incident i sc fp [event] r')"
| moved: "map_of (incidents r) iid = Some c \<Longrightarrow> incident_step (sha256 s) c i \<Longrightarrow>
    require_reactivation_keys r c i = None \<Longrightarrow> assoc_extends (incident_id i) r r' \<Longrightarrow>
    set (source_event_ids i) \<subseteq> set (associated_source_ids r' (incident_id i)) \<Longrightarrow>
    map_of (idempotency r) sc = None \<Longrightarrow>
    from_status event = Some (status c) \<Longrightarrow> to_status event = status i \<Longrightarrow> audit_revision event = revision i \<Longrightarrow>
    repo_effect s r (store_incident i sc fp (events_of r' (incident_id i) @ [event]) r')"

lemma replay_None: "replay r sc fp = Inr None \<longleftrightarrow> map_of (idempotency r) sc = None"
  by (auto simp: replay_def split: option.splits)

lemma new_event_Inr:
  assumes "new_event s i fromst m fp t = Inr ev"
  shows "from_status ev = fromst" "to_status ev = status i" "audit_revision ev = revision i"
  using assms by (auto simp: new_event_def new_audit_event_def Let_def split: sum.splits if_splits)

lemma validate_new_incident_Inr:
  assumes "validate_new_incident s i trace now = Inr c"
  shows "c = i\<lparr>created_at := now, updated_at := now\<rparr>" "status c = DETECTED" "revision c = 0"
    "incident_valid (sha256 s) c"
  using assms by (auto simp: validate_new_incident_def Let_def split: if_splits option.splits)

lemma commit_create_effect:
  assumes "commit_create s i sc fp m t r = (e, r')" and "map_of (incidents r) (incident_id i) = None"
    and "status i = DETECTED" "revision i = 0" "incident_valid (sha256 s) i"
    and "find_active_locked r (correlation_key i) sids None q = Inr None"
    and "replay r sc fp = Inr None"
  shows "repo_effect s r r'"
proof (cases "new_event s i None m fp t")
  case (Inl x)
  with assms(1) show ?thesis by (auto simp: commit_create_def intro: repo_effect.unchanged)
next
  case (Inr ev)
  obtain e1 r1 where reg: "register_source_events s (incident_id i) (source_event_ids i) t m r = (e1, r1)"
    by (cases "register_source_events s (incident_id i) (source_event_ids i) t m r")
  note ext = register_source_events_extends [OF reg]
  show ?thesis
  proof (cases e1)
    case None
    with assms(1) Inr reg have "r' = store_incident i sc fp [ev] r1" by (simp add: commit_create_def)
    moreover have "repo_effect s r (store_incident i sc fp [ev] r1)"
      using assms ext None new_event_Inr [OF Inr] find_active_None [OF assms(6)]
      by (intro repo_effect.created [where sids = sids]) (auto simp: replay_None)
    ultimately show ?thesis by simp
  next
    case (Some x)
    with assms(1) Inr reg have "r' = r1" by (simp add: commit_create_def)
    with ext show ?thesis by (auto intro: repo_effect.registered)
  qed
qed

lemma commit_transition_effect:
  assumes "commit_transition s c i sc fp m t r = (e, r')" and "map_of (incidents r) iid = Some c"
    and "incident_step (sha256 s) c i" and "require_reactivation_keys r c i = None"
    and "replay r sc fp = Inr None"
  shows "repo_effect s r r'"
proof (cases "new_event s i (Some (status c)) m fp t")
  case (Inl x)
  with assms(1) show ?thesis by (auto simp: commit_transition_def intro: repo_effect.unchanged)
next
  case (Inr ev)
  obtain e1 r1 where reg: "register_source_events s (incident_id i) (source_event_ids i) t m r = (e1, r1)"
    by (cases "register_source_events s (incident_id i) (source_event_ids i) t m r")
  note ext = register_source_events_extends [OF reg]
  show ?thesis
  proof (cases e1)
    case None
    with assms(1) Inr reg have "r' = store_incident i sc fp (events_of r1 (incident_id i) @ [ev]) r1"
      by (simp add: commit_transition_def)
    moreover have "repo_effect s r (store_incident i sc fp (events_of r1 (incident_id i) @ [ev]) r1)"
      using assms ext None new_event_Inr [OF Inr] by (intro repo_effect.moved) (auto simp: replay_None)
    ultimately show ?thesis by simp
  next
    case (Some x)
    with assms(1) Inr reg have "r' = r1" by (simp add: commit_transition_def)
    with ext show ?thesis by (auto intro: repo_effect.registered)
  qed
qed

lemma commit_new_effect:
  assumes "commit_create s c sc fp m t r = (e, r')" and "validate_new_incident s i trace now = Inr c"
    and "incident_id i \<notin> fst ` set (incidents r)"
    and "find_active_locked r (correlation_key c) sids None q = Inr None" and "replay r sc fp = Inr None"
  shows "repo_effect s r r'"
proof -
  note v = validate_new_incident_Inr [OF assms(2)]
  have "map_of (incidents r) (incident_id c) = None" using assms(3) v(1) by (simp add: map_of_eq_None_iff)
  then show ?thesis by (rule commit_create_effect [OF assms(1) _ v(2-4) assms(4,5)])
qed

lemma create_effect:
  assumes "create s clock i m r = (res, r')"
  shows "repo_effect s r r'"
  using assms unfolding create_def
  by (auto split: sum.splits option.splits if_splits prod.splits
      intro: repo_effect.unchanged commit_new_effect)

lemma correlate_effect:
  assumes "register_source_events s iid sids now m r = (e, r1)" and "replay r sc fp = Inr None"
  shows "repo_effect s r r1"
    and "repo_effect s r (r1\<lparr>idempotency := AList.update sc x (idempotency r1)\<rparr>)"
  using register_source_events_extends [OF assms(1)] assms(2)
  by (auto simp: replay_None intro: repo_effect.registered repo_effect.correlated)

lemma create_or_correlate_effect:
  assumes "create_or_correlate s clock i m r = (res, r')"
  shows "repo_effect s r r'"
proof -
  have "incident_id c = incident_id i" if "validate_new_incident s i (meta_trace m) now = Inr c" for now c
    using validate_new_incident_Inr(1) [OF that] by simp
  with assms show ?thesis unfolding create_or_correlate_def
    by (auto split: sum.splits option.splits if_splits prod.splits
        intro: repo_effect.unchanged commit_new_effect correlate_effect)
qed

lemma require_current_Inr: "require_current r iid = Inr c \<longleftrightarrow> map_of (incidents r) iid = Some c"
  by (auto simp: require_current_def split: option.splits)

lemma transition_successor_Inr:
  assumes "transition_successor s clock dumped iid target expected updates m r c = Inr (now, i)"
  shows "incident_step (sha256 s) c i" "require_reactivation_keys r c i = None" "revision c = expected"
    "trace_id c = meta_trace m" "clock = Aware now" "incident_status_value (status i) = target"
proof -
  from assms have t: "transition_incident (sha256 s) now dumped c target expected (Some (Aware now))
      (Some (Aware now)) updates = Inr i"
    and rest: "require_reactivation_keys r c i = None" "revision c = expected" "trace_id c = meta_trace m"
      "clock = Aware now"
    by (auto simp: transition_successor_def require_trace_def repository_now_def
        split: option.splits sum.splits py_datetime.splits)
  show "incident_step (sha256 s) c i" by (rule incident_step.transition [OF t])
  from rest show "require_reactivation_keys r c i = None" "revision c = expected"
    "trace_id c = meta_trace m" "clock = Aware now" by simp_all
  from t obtain tg tt tr where "parse_status target = Some tg" "i = successor_of c updates tg tt"
    by (rule transition_incident_Inr)
  then show "incident_status_value (status i) = target" by (simp add: parse_status_Some)
qed

lemma save_successor_Inr:
  assumes "save_successor s clock i expected m r c = Inr (now, j)"
  shows "incident_step (sha256 s) c j" "require_reactivation_keys r c j = None" "revision c = expected"
    "j\<lparr>updated_at := 0\<rparr> = i\<lparr>updated_at := 0\<rparr>"
proof -
  from assms have t: "transition_incident (sha256 s) now True c (incident_status_value (status i)) expected
      (Some (Aware now)) (Some (Aware now)) (snapshot_updates c i) = Inr j"
    and rest: "require_reactivation_keys r c j = None" "revision c = expected"
      "j\<lparr>updated_at := 0\<rparr> = i\<lparr>updated_at := 0\<rparr>"
    by (auto simp: save_successor_def require_revision_def split: option.splits sum.splits)
  show "incident_step (sha256 s) c j" by (rule incident_step.transition [OF t])
  from rest show "require_reactivation_keys r c j = None" "revision c = expected"
    "j\<lparr>updated_at := 0\<rparr> = i\<lparr>updated_at := 0\<rparr>" by simp_all
qed

lemma transition_effect:
  assumes "transition s clock dumped iid target expected updates m r = (res, r')"
  shows "repo_effect s r r'"
proof (cases "r' = r")
  case False
  with assms obtain sc fp c now i e where
    f: "replay r sc fp = Inr None" "require_current r iid = Inr c"
      "transition_successor s clock dumped iid target expected updates m r c = Inr (now, i)"
      "commit_transition s c i sc fp m now r = (e, r')"
    unfolding transition_def by (auto split: sum.splits option.splits prod.splits)
  note t = transition_successor_Inr [OF f(3)]
  from f(2) have "map_of (incidents r) iid = Some c" by (simp add: require_current_Inr)
  from commit_transition_effect [OF f(4) this t(1,2) f(1)] show ?thesis .
qed (simp add: repo_effect.unchanged)

lemma save_effect:
  assumes "save s clock i expected m r = (res, r')"
  shows "repo_effect s r r'"
proof (cases "r' = r")
  case False
  with assms obtain sc fp c now j e where
    f: "replay r sc fp = Inr None" "require_current r (incident_id i) = Inr c"
      "save_successor s clock i expected m r c = Inr (now, j)"
      "commit_transition s c j sc fp m now r = (e, r')"
    unfolding save_def by (auto split: sum.splits option.splits prod.splits)
  note t = save_successor_Inr [OF f(3)]
  from f(2) have "map_of (incidents r) (incident_id i) = Some c" by (simp add: require_current_Inr)
  from commit_transition_effect [OF f(4) this t(1,2) f(1)] show ?thesis .
qed (simp add: repo_effect.unchanged)

lemma add_associations_extends:
  assumes "\<forall>a\<in>set as. assoc_incident_id a = iid" and "iid \<notin> set (map fst (incidents r))"
    and "\<forall>a\<in>set as. \<forall>k. (k, assoc_source_event_id a) \<in> assoc_keys r \<longrightarrow> k = iid"
  shows "assoc_extends iid r (add_associations as r) \<and>
    assoc_source_event_id ` set as \<subseteq> set (associated_source_ids (add_associations as r) iid)"
  using assms
proof (induction as rule: rev_induct)
  case Nil
  then show ?case by (simp add: add_associations_def assoc_extends_refl)
next
  case (snoc a as)
  let ?r = "add_associations as r" and ?k = "(iid, assoc_source_event_id a)"
  have a: "assoc_incident_id a = iid" "\<forall>k. (k, assoc_source_event_id a) \<in> assoc_keys r \<longrightarrow> k = iid"
    using snoc.prems(1,3) by simp_all
  have p: "\<forall>a\<in>set as. assoc_incident_id a = iid"
    "\<forall>a\<in>set as. \<forall>k. (k, assoc_source_event_id a) \<in> assoc_keys r \<longrightarrow> k = iid"
    using snoc.prems(1,3) unfolding set_append ball_Un by blast+
  have eq: "add_associations (as @ [a]) r = ?r\<lparr>source_events := AList.update ?k a (source_events ?r)\<rparr>"
    using a(1) by (simp add: add_associations_def)
  have ih: "assoc_extends iid r ?r" "assoc_source_event_id ` set as \<subseteq> set (associated_source_ids ?r iid)"
    using snoc.IH [OF p(1) snoc.prems(2) p(2)] by blast+
  have "assoc_extends iid r (add_associations (as @ [a]) r)"
    unfolding eq by (rule assoc_extends_update [OF ih(1) a(2) disjI2 [OF snoc.prems(2)]])
  moreover have "assoc_source_event_id ` set (as @ [a]) \<subseteq>
      set (associated_source_ids (add_associations (as @ [a]) r) iid)"
  proof
    fix x assume "x \<in> assoc_source_event_id ` set (as @ [a])"
    then have "x = assoc_source_event_id a \<or> (iid, x) \<in> assoc_keys ?r"
      using ih(2) assoc_keys_iff(3) by auto
    then show "x \<in> set (associated_source_ids (add_associations (as @ [a]) r) iid)"
      unfolding assoc_keys_iff(3) eq by auto
  qed
  ultimately show ?case ..
qed

lemma import_request_Inr:
  assumes "import_request s i as m = Inr (sc, fp)"
  shows "incident_valid (sha256 s) i" "status i = DETECTED" "revision i = 0" "trace_id i = meta_trace m"
    "set (source_event_ids i) \<subseteq> assoc_source_event_id ` set as"
    "\<forall>a\<in>set as. assoc_incident_id a = incident_id i"
  using assms by (auto simp: import_request_def list_ex_iff split: option.splits sum.splits)

lemma import_commit_effect:
  assumes "import_request s i as m = Inr (sc, fp)" and "replay r sc fp = Inr None"
    and "incident_id i \<notin> fst ` set (incidents r)"
    and "\<forall>a\<in>set as. ownership_error r (incident_id i) (assoc_source_event_id a) = None"
    and "find_active_locked r (correlation_key i) sids None q = Inr None"
    and "new_event s i None m fp t = Inr event"
  shows "repo_effect s r (store_incident i sc fp [event] (add_associations as r))"
proof (rule repo_effect.created [where sids = sids])
  note req = import_request_Inr [OF assms(1)]
  have "assoc_extends (incident_id i) r (add_associations as r) \<and>
    assoc_source_event_id ` set as \<subseteq> set (associated_source_ids (add_associations as r) (incident_id i))"
    using assms(3,4) req(6) ownership_error_None by (intro add_associations_extends) (simp, simp, blast)
  with req(5) show "assoc_extends (incident_id i) r (add_associations as r)"
    "set (source_event_ids i) \<subseteq> set (associated_source_ids (add_associations as r) (incident_id i))" by auto
  show "status i = DETECTED" "revision i = 0" "incident_valid (sha256 s) i" using req by simp_all
  show "map_of (incidents r) (incident_id i) = None" using assms(3) by (simp add: map_of_eq_None_iff)
  show "\<not> active_match r (correlation_key i) sids None j" if "map_of (incidents r) k = Some j" for k j
    by (rule find_active_None [OF assms(5) that])
  show "map_of (idempotency r) sc = None" using assms(2) by (simp add: replay_None)
  show "from_status event = None" "to_status event = DETECTED" "audit_revision event = 0"
    using new_event_Inr [OF assms(6)] req by simp_all
qed

lemma import_effect:
  assumes "import_detected_snapshot s clock i as m r = (res, r')"
  shows "repo_effect s r r'"
  using assms unfolding import_detected_snapshot_def
  by (auto split: sum.splits option.splits if_splits prod.splits
      intro: repo_effect.unchanged import_commit_effect)

lemmas operation_effects = create_effect create_or_correlate_effect transition_effect save_effect import_effect

section \<open>The invariant\<close>

text \<open>
  The audit chain of an incident: it starts with its detection at revision 0, and each
  further event follows an edge of the state machine and raises the revision by one.
\<close>

inductive audit_chain :: "incident_audit_event list \<Rightarrow> incident_status \<Rightarrow> int \<Rightarrow> bool" where
  start: "from_status e = None \<Longrightarrow> to_status e = DETECTED \<Longrightarrow> audit_revision e = 0 \<Longrightarrow>
    audit_chain [e] DETECTED 0"
| follow: "audit_chain es st n \<Longrightarrow> from_status e = Some st \<Longrightarrow> to_status e \<in> set (allowed_transitions st) \<Longrightarrow>
    audit_revision e = n + 1 \<Longrightarrow> audit_chain (es @ [e]) (to_status e) (n + 1)"

lemma audit_chain_revisions:
  "audit_chain es st n \<Longrightarrow> map audit_revision es = map int [0..<length es] \<and> n = int (length es) - 1"
  by (induction rule: audit_chain.induct) auto

definition active_keys_unique :: "repository \<Rightarrow> bool" where
  "active_keys_unique r \<longleftrightarrow> (\<forall>a i b j. map_of (incidents r) a = Some i \<and> map_of (incidents r) b = Some j \<and>
     status i \<notin> set SETTLED_STATUSES \<and> status j \<notin> set SETTLED_STATUSES \<and>
     correlation_key i \<noteq> None \<and> correlation_key i = correlation_key j \<longrightarrow> a = b)"

definition source_owners_unique :: "repository \<Rightarrow> bool" where
  "source_owners_unique r \<longleftrightarrow>
     (\<forall>i j sid. (i, sid) \<in> assoc_keys r \<and> (j, sid) \<in> assoc_keys r \<longrightarrow> i = j)"

text \<open>The incident came to its value by steps of the state machine from a detection.\<close>

definition detected_origin :: "(string \<Rightarrow> string) \<Rightarrow> incident \<Rightarrow> bool" where
  "detected_origin h i \<longleftrightarrow> (\<exists>i0. status i0 = DETECTED \<and> (incident_step h)\<^sup>*\<^sup>* i0 i)"

definition incident_stored_ok :: "services \<Rightarrow> repository \<Rightarrow> string \<Rightarrow> incident \<Rightarrow> bool" where
  "incident_stored_ok s r k i \<longleftrightarrow> incident_id i = k \<and> incident_valid (sha256 s) i \<and>
     detected_origin (sha256 s) i \<and> audit_chain (events_of r k) (status i) (revision i) \<and>
     set (source_event_ids i) \<subseteq> set (associated_source_ids r k)"

definition repo_inv :: "services \<Rightarrow> repository \<Rightarrow> bool" where
  "repo_inv s r \<longleftrightarrow> distinct (map fst (incidents r)) \<and> distinct (map fst (source_events r)) \<and>
     distinct (map fst (idempotency r)) \<and>
     (\<forall>k i. map_of (incidents r) k = Some i \<longrightarrow> incident_stored_ok s r k i) \<and>
     source_owners_unique r \<and> active_keys_unique r"

lemma store_incident_simps [simp]:
  "incidents (store_incident i sc fp es r) = AList.update (incident_id i) i (incidents r)"
  "idempotency (store_incident i sc fp es r) =
     AList.update sc \<lparr>rec_fingerprint = fp, rec_result = i\<rparr> (idempotency r)"
  "source_events (store_incident i sc fp es r) = source_events r"
  "assoc_keys (store_incident i sc fp es r) = assoc_keys r"
  "associated_source_ids (store_incident i sc fp es r) k = associated_source_ids r k"
  "events_of (store_incident i sc fp es r) k = (if k = incident_id i then es else events_of r k)"
  by (auto simp: store_incident_def events_of_def assoc_keys_def associated_source_ids_def)

lemma assoc_extends_owners:
  assumes "assoc_extends iid r r'" and "source_owners_unique r"
  shows "source_owners_unique r'"
proof -
  have new: "k = iid \<and> (\<forall>j. (j, x) \<in> assoc_keys r \<longrightarrow> j = iid)"
    if "(k, x) \<in> assoc_keys r'" "(k, x) \<notin> assoc_keys r" for k x
    using assms(1) that unfolding assoc_extends_def by blast
  show ?thesis unfolding source_owners_unique_def
  proof (intro allI impI, elim conjE)
    fix i j x assume a: "(i, x) \<in> assoc_keys r'" "(j, x) \<in> assoc_keys r'"
    show "i = j"
      using new [OF a(1)] new [OF a(2)] assms(2) unfolding source_owners_unique_def by metis
  qed
qed

lemma assoc_extends_stored:
  assumes "assoc_extends iid r r'" and "incident_stored_ok s r k i"
  shows "incident_stored_ok s r' k i"
proof -
  have "assoc_keys r \<subseteq> assoc_keys r'" "audit_history r' = audit_history r"
    using assms(1) by (simp_all add: assoc_extends_def)
  with assms(2) show ?thesis
    by (auto simp: incident_stored_ok_def events_of_def assoc_keys_iff(3) subset_iff)
qed

lemma assoc_extends_inv:
  assumes "assoc_extends iid r r'" and "repo_inv s r"
  shows "repo_inv s r'"
proof -
  have same: "incidents r' = incidents r" "idempotency r' = idempotency r"
    and d: "distinct (map fst (source_events r'))"
    using assms by (simp_all add: assoc_extends_def repo_inv_def)
  have "source_owners_unique r'" using assms by (simp add: assoc_extends_owners repo_inv_def)
  moreover have "incident_stored_ok s r' k i" if "map_of (incidents r) k = Some i" for k i
    using assms that assoc_extends_stored [OF assms(1)] by (simp add: repo_inv_def)
  ultimately show ?thesis
    using assms(2) d same by (simp add: repo_inv_def active_keys_unique_def)
qed

lemma store_inv:
  assumes inv: "repo_inv s r"
    and ok: "incident_valid (sha256 s) i" "detected_origin (sha256 s) i" "audit_chain es (status i) (revision i)"
      "set (source_event_ids i) \<subseteq> set (associated_source_ids r (incident_id i))"
    and keys: "\<And>k j. map_of (incidents r) k = Some j \<Longrightarrow> status j \<notin> set SETTLED_STATUSES \<Longrightarrow>
      status i \<notin> set SETTLED_STATUSES \<Longrightarrow> correlation_key j = correlation_key i \<Longrightarrow>
      correlation_key i \<noteq> None \<Longrightarrow> k = incident_id i"
  shows "repo_inv s (store_incident i sc fp es r)"
proof -
  let ?r = "store_incident i sc fp es r"
  have "incident_stored_ok s ?r k j" if "map_of (incidents ?r) k = Some j" for k j
    using that inv ok by (auto simp: incident_stored_ok_def repo_inv_def split: if_splits)
  moreover have "active_keys_unique ?r"
    using inv keys unfolding active_keys_unique_def repo_inv_def by (auto split: if_splits) metis+
  moreover have "source_owners_unique ?r" using inv by (simp add: repo_inv_def source_owners_unique_def)
  ultimately show ?thesis using inv unfolding repo_inv_def by (simp add: distinct_update)
qed

lemma created_inv:
  assumes inv: "repo_inv s r" and ext: "assoc_extends (incident_id i) r r'"
    and i: "status i = DETECTED" "revision i = 0" "incident_valid (sha256 s) i"
      "set (source_event_ids i) \<subseteq> set (associated_source_ids r' (incident_id i))"
    and free: "\<And>k j. map_of (incidents r) k = Some j \<Longrightarrow> \<not> active_match r (correlation_key i) sids None j"
    and ev: "from_status event = None" "to_status event = DETECTED" "audit_revision event = 0"
  shows "repo_inv s (store_incident i sc fp [event] r')"
proof (rule store_inv [OF assoc_extends_inv [OF ext inv] i(3) _ _ i(4)])
  show "detected_origin (sha256 s) i" using i(1) unfolding detected_origin_def by blast
  show "audit_chain [event] (status i) (revision i)" using i ev by (simp add: audit_chain.start)
  fix k j
  assume "map_of (incidents r') k = Some j" and a: "status j \<notin> set SETTLED_STATUSES"
    "correlation_key j = correlation_key i" "correlation_key i \<noteq> None"
  then have "map_of (incidents r) k = Some j" using ext by (simp add: assoc_extends_def)
  from free [OF this] a show "k = incident_id i" by (simp add: active_match_def)
qed

lemma reactivation_free:
  assumes "require_reactivation_keys r c i = None" and "status c \<in> set SETTLED_STATUSES"
    and "status i \<notin> set SETTLED_STATUSES" and "map_of (incidents r) k = Some j"
    and "status j \<notin> set SETTLED_STATUSES" "correlation_key j = correlation_key i" "correlation_key i \<noteq> None"
  shows "incident_id j = incident_id i"
proof -
  let ?found = "find_active_locked r (correlation_key i) (associated_source_ids r (incident_id i))
    (Some (incident_id i)) (incident_id i)"
  from assms(1-3) have "?found = Inr None"
    by (auto simp: require_reactivation_keys_def split: sum.splits option.splits)
  from find_active_None [OF this assms(4)] assms(5-7) show ?thesis by (auto simp: active_match_def)
qed

lemma moved_inv:
  assumes inv: "repo_inv s r" and ext: "assoc_extends (incident_id i) r r'"
    and c: "map_of (incidents r) iid = Some c" "incident_step (sha256 s) c i"
      "require_reactivation_keys r c i = None"
    and src: "set (source_event_ids i) \<subseteq> set (associated_source_ids r' (incident_id i))"
    and ev: "from_status event = Some (status c)" "to_status event = status i" "audit_revision event = revision i"
  shows "repo_inv s (store_incident i sc fp (events_of r' (incident_id i) @ [event]) r')"
proof -
  note step = incident_step_facts [OF c(2)]
  have inv': "repo_inv s r'" by (rule assoc_extends_inv [OF ext inv])
  have same: "incidents r' = incidents r" using ext by (simp add: assoc_extends_def)
  have id: "incident_id c = iid" using inv c(1) by (simp add: repo_inv_def incident_stored_ok_def)
  have "audit_chain (events_of r' (incident_id i)) (status c) (revision c)"
    using inv' c(1) id step(6) by (simp add: repo_inv_def same incident_stored_ok_def)
  from audit_chain.follow [OF this ev(1)] ev(2,3) step(1,2)
  have chain: "audit_chain (events_of r' (incident_id i) @ [event]) (status i) (revision i)"
    by (simp add: allowed_transitions_def)
  have "detected_origin (sha256 s) c" using inv c(1) by (simp add: repo_inv_def incident_stored_ok_def)
  with c(2) have origin: "detected_origin (sha256 s) i"
    unfolding detected_origin_def by (meson rtranclp.rtrancl_into_rtrancl)
  show ?thesis
  proof (rule store_inv [OF inv' step(5) origin chain src])
    fix k j
    assume j: "map_of (incidents r') k = Some j" "status j \<notin> set SETTLED_STATUSES"
      and i: "status i \<notin> set SETTLED_STATUSES" "correlation_key j = correlation_key i" "correlation_key i \<noteq> None"
    have kj: "incident_id j = k" using inv j(1) by (simp add: repo_inv_def same incident_stored_ok_def)
    show "k = incident_id i"
    proof (cases "status c \<in> set SETTLED_STATUSES")
      case True
      from reactivation_free [OF c(3) True i(1) j(1) [unfolded same] j(2) i(2,3)] kj show ?thesis by simp
    next
      case False
      with inv c(1) j i step(8) have "k = iid"
        unfolding repo_inv_def active_keys_unique_def same by metis
      with id step(6) show ?thesis by simp
    qed
  qed
qed

lemma effect_preserves_inv:
  assumes "repo_effect s r r'" and "repo_inv s r"
  shows "repo_inv s r'"
  using assms(1)
proof cases
  case (correlated iid r1 sc x)
  have "repo_inv s r1" by (rule assoc_extends_inv [OF correlated(2) assms(2)])
  then show ?thesis
    by (simp add: correlated(1) repo_inv_def active_keys_unique_def source_owners_unique_def incident_stored_ok_def
        events_of_def associated_source_ids_def distinct_update)
next
  case unchanged
  with assms(2) show ?thesis by simp
next
  case (registered iid)
  then show ?thesis by (rule assoc_extends_inv [OF _ assms(2)])
next
  case (created i sids r1 sc event fp)
  show ?thesis unfolding created(1)
    by (rule created_inv [OF assms(2) created(7,3,4,5,8,6,10,11,12)])
next
  case (moved iid c i r1 sc event fp)
  show ?thesis unfolding moved(1) by (rule moved_inv [OF assms(2) moved(5,2,3,4,6,8,9,10)])
qed

section \<open>Steps and reachable states\<close>

text \<open>A step is one call of a writing operation, whatever it returns.\<close>

inductive repo_step :: "services \<Rightarrow> repository \<Rightarrow> repository \<Rightarrow> bool" for s where
  step_create: "create s clock i m r = (res, r') \<Longrightarrow> repo_step s r r'"
| step_create_or_correlate: "create_or_correlate s clock i m r = (res, r') \<Longrightarrow> repo_step s r r'"
| step_import: "import_detected_snapshot s clock i as m r = (ires, r') \<Longrightarrow> repo_step s r r'"
| step_save: "save s clock i expected m r = (res, r') \<Longrightarrow> repo_step s r r'"
| step_compare_and_swap: "compare_and_swap s clock i expected m r = (res, r') \<Longrightarrow> repo_step s r r'"
| step_transition: "transition s clock dumped iid target expected updates m r = (res, r') \<Longrightarrow> repo_step s r r'"

inductive_cases repo_stepE: "repo_step s r r'"

lemma repo_step_effect: "repo_step s r r' \<Longrightarrow> repo_effect s r r'"
  by (erule repo_stepE) (auto simp: compare_and_swap_def intro: operation_effects)

definition reachable :: "services \<Rightarrow> repository \<Rightarrow> bool" where
  "reachable s r \<longleftrightarrow> (repo_step s)\<^sup>*\<^sup>* empty_repository r"

lemma empty_inv: "repo_inv s empty_repository"
  by (simp add: repo_inv_def empty_repository_def active_keys_unique_def source_owners_unique_def assoc_keys_def)

text \<open>What a writer may rely on between two looks at the repository.\<close>

definition durable :: "services \<Rightarrow> repository \<Rightarrow> repository \<Rightarrow> bool" where
  "durable s r r' \<longleftrightarrow> map_of (idempotency r) \<subseteq>\<^sub>m map_of (idempotency r') \<and>
     (\<forall>k i. map_of (incidents r) k = Some i \<longrightarrow>
        (\<exists>j. map_of (incidents r') k = Some j \<and> (incident_step (sha256 s))\<^sup>*\<^sup>* i j) \<and>
        prefix (events_of r k) (events_of r' k) \<and>
        (\<forall>sid a. map_of (source_events r) (k, sid) = Some a \<longrightarrow> map_of (source_events r') (k, sid) = Some a))"

lemma durable_refl: "durable s r r"
  by (auto simp: durable_def)

lemma durable_trans:
  assumes "durable s a b" and "durable s b c"
  shows "durable s a c"
  unfolding durable_def
proof (intro conjI allI impI)
  show "map_of (idempotency a) \<subseteq>\<^sub>m map_of (idempotency c)"
    using assms map_le_trans unfolding durable_def by blast
  fix k i assume i: "map_of (incidents a) k = Some i"
  then obtain j where j: "map_of (incidents b) k = Some j" "(incident_step (sha256 s))\<^sup>*\<^sup>* i j"
    using assms(1) unfolding durable_def by blast
  then obtain l where "map_of (incidents c) k = Some l" "(incident_step (sha256 s))\<^sup>*\<^sup>* j l"
    using assms(2) unfolding durable_def by blast
  with j(2) show "\<exists>j. map_of (incidents c) k = Some j \<and> (incident_step (sha256 s))\<^sup>*\<^sup>* i j"
    by (meson rtranclp_trans)
  show "prefix (events_of a k) (events_of c k)"
    using assms i j(1) unfolding durable_def by (meson prefix_order.trans)
  fix sid x assume "map_of (source_events a) (k, sid) = Some x"
  with assms i j(1) show "map_of (source_events c) (k, sid) = Some x" unfolding durable_def by blast
qed

lemma assoc_extends_durable:
  assumes "assoc_extends iid r r'"
  shows "durable s r r'"
proof -
  have e: "incidents r' = incidents r" "idempotency r' = idempotency r" "audit_history r' = audit_history r"
    using assms by (simp_all add: assoc_extends_def)
  have "map_of (source_events r') (k, sid) = Some a"
    if "map_of (incidents r) k = Some i" "map_of (source_events r) (k, sid) = Some a" for k i sid a
  proof -
    have "k \<in> set (map fst (incidents r))" using map_of_SomeD [OF that(1)] by force
    with assms that(2) show ?thesis unfolding assoc_extends_def by blast
  qed
  with e show ?thesis by (auto simp: durable_def events_of_def)
qed

lemma store_durable:
  assumes "durable s r r'" and "map_of (idempotency r') sc = None"
    and "\<And>c. map_of (incidents r') (incident_id i) = Some c \<Longrightarrow>
      incident_step (sha256 s) c i \<and> prefix (events_of r' (incident_id i)) es"
  shows "durable s r (store_incident i sc fp es r')"
proof (rule durable_trans [OF assms(1)])
  show "durable s r' (store_incident i sc fp es r')"
    unfolding durable_def
  proof (intro conjI allI impI)
    show "map_of (idempotency r') \<subseteq>\<^sub>m map_of (idempotency (store_incident i sc fp es r'))"
      using assms(2) by (auto simp: map_le_def)
    fix k j assume j: "map_of (incidents r') k = Some j"
    show "\<exists>l. map_of (incidents (store_incident i sc fp es r')) k = Some l \<and> (incident_step (sha256 s))\<^sup>*\<^sup>* j l"
      using j assms(3) [of j] by auto
    show "prefix (events_of r' k) (events_of (store_incident i sc fp es r') k)"
      using j assms(3) [of j] by auto
  qed simp
qed

lemma effect_durable:
  assumes "repo_effect s r r'" and "repo_inv s r"
  shows "durable s r r'"
  using assms(1)
proof cases
  case unchanged
  then show ?thesis by (simp add: durable_refl)
next
  case (registered iid)
  then show ?thesis by (rule assoc_extends_durable)
next
  case (correlated iid r1 sc x)
  have "idempotency r1 = idempotency r" using correlated(2) by (simp add: assoc_extends_def)
  with assoc_extends_durable [OF correlated(2), of s] correlated(3) show ?thesis
    by (auto simp: correlated(1) durable_def events_of_def map_le_def)
next
  case (created i sids r1 sc event fp)
  have "incidents r1 = incidents r" "idempotency r1 = idempotency r"
    using created(7) by (simp_all add: assoc_extends_def)
  then show ?thesis unfolding created(1)
    using assoc_extends_durable [OF created(7)] created(2,9) by (intro store_durable) simp_all
next
  case (moved iid c i r1 sc event fp)
  have same: "incidents r1 = incidents r" "idempotency r1 = idempotency r"
    using moved(5) by (simp_all add: assoc_extends_def)
  have "incident_id c = iid" using assms(2) moved(2) by (simp add: repo_inv_def incident_stored_ok_def)
  with incident_step_facts(6) [OF moved(3)] have "iid = incident_id i" by simp
  with same show ?thesis unfolding moved(1)
    using assoc_extends_durable [OF moved(5)] moved(2,3,7) by (intro store_durable) simp_all
qed

text \<open>
  The contract of a store whose every step keeps an invariant and a preorder of what is
  durable, with the facts about runs that its clients use.
\<close>

locale durable_store =
  fixes step :: "'r \<Rightarrow> 'r \<Rightarrow> bool" and inv :: "'r \<Rightarrow> bool" and keeps :: "'r \<Rightarrow> 'r \<Rightarrow> bool" and initial :: 'r
  assumes inv_initial: "inv initial"
    and inv_step: "inv a \<Longrightarrow> step a b \<Longrightarrow> inv b"
    and keeps_step: "inv a \<Longrightarrow> step a b \<Longrightarrow> keeps a b"
    and keeps_refl: "keeps a a"
    and keeps_trans: "keeps a b \<Longrightarrow> keeps b c \<Longrightarrow> keeps a c"
begin

lemma run_inv: "step\<^sup>*\<^sup>* a b \<Longrightarrow> inv a \<Longrightarrow> inv b"
  by (induction rule: rtranclp_induct) (auto intro: inv_step)

lemma reachable_inv: "step\<^sup>*\<^sup>* initial a \<Longrightarrow> inv a"
  using run_inv inv_initial by blast

lemma run_keeps: "step\<^sup>*\<^sup>* a b \<Longrightarrow> inv a \<Longrightarrow> keeps a b"
  by (induction rule: rtranclp_induct) (auto intro: keeps_refl keeps_trans keeps_step run_inv)

end

interpretation incident_store: durable_store "repo_step s" "repo_inv s" "durable s" empty_repository for s
  by unfold_locales
     (auto intro: empty_inv effect_preserves_inv repo_step_effect effect_durable durable_refl durable_trans)

end
