(* ===== verification/Repository_Properties.thy ===== *)
theory Repository_Properties
  imports Lifecycle Repository_Invariant
begin

text \<open>
  What callers of the in-memory repository may rely on: consistency of every reachable
  state, durability, exact replay of a write, refusal of reused keys and stale revisions,
  what an error leaves behind, deduplication, and pagination.
\<close>

section \<open>A concrete repository\<close>

definition ex_services :: services where
  "ex_services = \<lparr>sha256 = digest, dump_incident = (\<lambda>_. JObj []), dump_event = (\<lambda>_. JObj []),
     dump_association = (\<lambda>_. JObj []), dump_updates = (\<lambda>_. JObj [])\<rparr>"

definition ex_meta :: "string \<Rightarrow> write_metadata" where
  "ex_meta key = \<lparr>meta_key = key, meta_actor = ''detector'', meta_reason = ''scan'', meta_trace = ''trace1''\<rparr>"

lemma ex_services_simps [simp]:
  "sha256 ex_services = digest" "dump_incident ex_services i = JObj []" "dump_event ex_services e = JObj []"
  "dump_association ex_services a = JObj []" "dump_updates ex_services u = JObj []"
  by (simp_all add: ex_services_def)

lemma ex_meta_simps [simp]: "meta_key (ex_meta k) = k" "meta_actor (ex_meta k) = ''detector''"
  "meta_reason (ex_meta k) = ''scan''" "meta_trace (ex_meta k) = ''trace1''"
  by (simp_all add: ex_meta_def)

lemma utf8_length_double: "utf8_length s \<le> 2 * length s"
  by (induction s) (auto simp: utf8_length_def)

lemma unsafe_error_None:
  "unsafe_error v iid = None \<longleftrightarrow> find_sensitive_paths ''$'' v = [] \<and> json_depth v \<le> MAX_CONTRACT_DEPTH \<and>
     json_serializable v \<and> utf8_length (json_text v) \<le> MAX_CONTRACT_SERIALIZED_BYTES"
  by (auto simp: unsafe_error_def assert_repository_safe_def assert_model_safe_def Let_def payload_depth_json
      json_dumps_def split: sum.splits if_splits option.splits)

lemma ex_safe [simp]: "unsafe_error (JObj []) iid = None"
  by (simp add: unsafe_error_None MAX_CONTRACT_DEPTH_def MAX_CONTRACT_SERIALIZED_BYTES_def utf8_length_def)

lemma ex_meta_ok:
  assumes "c \<in> set ''12345678''"
  shows "require_write_metadata (ex_meta [CHR ''k'', c]) = None"
proof -
  let ?v = "JObj [(''idempotency_key'', JStr [CHR ''k'', c]), (''actor'', JStr ''detector''),
     (''reason'', JStr ''scan''), (''trace_id'', JStr ''trace1'')]"
  have paths: "find_sensitive_paths ''$'' ?v = []"
    using assms by (auto simp: no_separator_clean py_isspace_def separator_char_def is_sensitive_key_def
        normalized_key_def SENSITIVE_KEY_NAMES_def py_lower_def py_lower_char_def)
  have "\<forall>c\<in>set ''12345678''. utf8_length (json_text (JObj [(''idempotency_key'', JStr [CHR ''k'', c]),
      (''actor'', JStr ''detector''), (''reason'', JStr ''scan''), (''trace_id'', JStr ''trace1'')])) = 79"
    by code_simp
  with assms have "utf8_length (json_text ?v) = 79" by blast
  with paths have "unsafe_error ?v ''<audit-metadata>'' = None"
    by (simp add: unsafe_error_None MAX_CONTRACT_DEPTH_def MAX_CONTRACT_SERIALIZED_BYTES_def del: json_text.simps)
  with assms show ?thesis
    by (auto simp: require_write_metadata_def require_non_empty_def non_blank_def py_strip_def py_isspace_def)
qed

definition ex_event :: incident_audit_event where
  "ex_event = \<lparr>event_id = ''audit-'' @ replicate 32 (CHR ''a''), audit_incident_id = ''inc-1'',
     from_status = None, to_status = DETECTED, audit_revision = 0, occurred_at = 95,
     audit_actor = ''detector'', audit_reason = ''scan'', audit_idempotency_key = ''k1'',
     audit_trace_id = ''trace1''\<rparr>"

definition ex_association :: source_event_association where
  "ex_association = \<lparr>assoc_incident_id = ''inc-1'', assoc_source_event_id = ''se-1'', registered_at = 95,
     assoc_actor = ''detector'', assoc_reason = ''scan'', assoc_idempotency_key = ''k1'',
     assoc_trace_id = ''trace1''\<rparr>"

definition ex_repository_of :: "string \<Rightarrow> incident_audit_event \<Rightarrow> repository" where
  "ex_repository_of fp event = \<lparr>incidents = [(''inc-1'', ex_detected)],
     idempotency = [((''create'', ''inc-1'', ''k1''), \<lparr>rec_fingerprint = fp, rec_result = ex_detected\<rparr>)],
     audit_history = [(''inc-1'', [event])],
     source_events = [((''inc-1'', ''se-1''), ex_association)]\<rparr>"

definition ex_repository :: repository where
  "ex_repository = ex_repository_of (digest '''') ex_event"

lemma ex_detected_fields:
  "incident_id ex_detected = ''inc-1''" "revision ex_detected = 0" "trace_id ex_detected = ''trace1''"
  "correlation_key ex_detected = Some ''corr-1''" "source_event_ids ex_detected = [''se-1'']"
  "ex_detected\<lparr>created_at := 95, updated_at := 95\<rparr> = ex_detected"
  by (simp_all add: ex_detected_def)

lemmas ex_strip = py_strip_def py_isspace_def py_lower_def py_lower_char_def

lemma ex_association_new:
  "new_association ''inc-1'' ''se-1'' 95 ''detector'' ''scan'' ''k1'' ''trace1'' = Inr ex_association"
  by (simp add: new_association_def ex_association_def ex_strip identifier_ok_def non_empty_str_ok_def)

text \<open>Services whose dumps are empty objects, with any SHA-256.\<close>

definition ex_services_of :: "(string \<Rightarrow> string) \<Rightarrow> services" where
  "ex_services_of h = ex_services\<lparr>sha256 := h\<rparr>"

lemma ex_services_of_simps [simp]:
  "sha256 (ex_services_of h) = h" "dump_incident (ex_services_of h) i = JObj []"
  "dump_association (ex_services_of h) a = JObj []" "dump_updates (ex_services_of h) u = JObj []"
  "ex_services_of digest = ex_services"
  by (simp_all add: ex_services_of_def ex_services_def)

lemma ex_write_request:
  "write_request (ex_services_of h) ''create'' ex_detected (ex_meta ''k1'') = Inr ((''create'', ''inc-1'', ''k1''),
     h (json_text (JObj [(''operation'', JStr ''create''), (''payload'', JObj [(''incident'', JObj []),
       (''actor'', JStr ''detector''), (''reason'', JStr ''scan''), (''trace_id'', JStr ''trace1'')])])))"
  by (simp add: write_request_def ex_meta_ok [where c = "CHR ''1''", simplified] request_scope_def
      require_non_empty_def non_blank_def ex_detected_fields ex_strip fingerprint_def fail_if_def
      del: json_text.simps)

lemma ex_created_with:
  assumes "incident_valid h ex_detected"
    and "write_request (ex_services_of h) ''create'' ex_detected (ex_meta ''k1'') =
      Inr ((''create'', ''inc-1'', ''k1''), fp)"
    and "new_event (ex_services_of h) ex_detected None (ex_meta ''k1'') fp 95 = Inr event"
  shows "create (ex_services_of h) (Aware 95) ex_detected (ex_meta ''k1'') empty_repository =
    (Inr ex_detected, ex_repository_of fp event)"
proof -
  have new: "validate_new_incident (ex_services_of h) ex_detected ''trace1'' 95 = Inr ex_detected"
    by (simp add: validate_new_incident_def ex_detected_fields Let_def assms(1))
  have "commit_create (ex_services_of h) ex_detected (''create'', ''inc-1'', ''k1'') fp (ex_meta ''k1'') 95
      empty_repository = (None, ex_repository_of fp event)"
    by (simp add: commit_create_def assms(3) ex_association_new ex_detected_fields register_source_events_def
        associated_source_ids_def empty_repository_def MAX_INCIDENT_SOURCE_EVENTS_def ownership_error_def
        source_event_owner_def store_incident_def ex_repository_of_def)
  with new show ?thesis
    by (simp add: create_def assms(2) replay_def repository_now_def empty_repository_def
        find_active_locked_def dict_of_def ex_detected_fields)
qed

lemma ex_created:
  "create ex_services (Aware 95) ex_detected (ex_meta ''k1'') empty_repository = (Inr ex_detected, ex_repository)"
proof -
  have "write_request ex_services ''create'' ex_detected (ex_meta ''k1'') =
      Inr ((''create'', ''inc-1'', ''k1''), digest '''')"
    using ex_write_request [of digest] by (simp add: digest_def del: json_text.simps)
  moreover have "new_event ex_services ex_detected None (ex_meta ''k1'') (digest '''') 95 = Inr ex_event"
    by (simp add: new_event_def new_audit_event_def Let_def ex_detected_fields ex_event_def ex_strip
        identifier_ok_def non_empty_str_ok_def digest_def)
  ultimately show ?thesis
    unfolding ex_repository_def by (intro ex_created_with [OF ex_detected_valid, unfolded ex_services_of_simps(5)])
qed

lemma ex_reachable: "reachable ex_services ex_repository"
  unfolding reachable_def using repo_step.step_create [OF ex_created] by blast

text \<open>The fixture's run, driven through the repository one transition at a time.\<close>

definition ex_at :: "incident \<Rightarrow> string set \<Rightarrow> repository \<Rightarrow> bool" where
  "ex_at c used r \<longleftrightarrow> map_of (incidents r) ''inc-1'' = Some c \<and>
     map fst (source_events r) = [(''inc-1'', ''se-1'')] \<and>
     (\<forall>k. k \<notin> used \<longrightarrow> map_of (idempotency r) (''transition'', ''inc-1'', k) = None)"

text \<open>Write metadata that the repository and its audit events accept.\<close>

definition meta_fits :: "write_metadata \<Rightarrow> bool" where
  "meta_fits m \<longleftrightarrow> require_write_metadata m = None \<and> meta_trace m = ''trace1'' \<and>
     identifier_ok (py_strip (meta_key m)) \<and> identifier_ok (py_strip (meta_actor m)) \<and>
     non_empty_str_ok (py_strip (meta_reason m))"

lemma ex_meta_fits:
  assumes "d \<in> set ''12345678''"
  shows "meta_fits (ex_meta [CHR ''k'', d])"
  using assms ex_meta_ok [OF assms]
  by (auto simp: meta_fits_def ex_strip identifier_ok_def non_empty_str_ok_def)

lemma ex_transition_request:
  assumes "meta_fits m" and "0 \<le> n"
  shows "transition_request ex_services ''inc-1'' target n updates m =
    Inr ((''transition'', ''inc-1'', meta_key m), digest '''')"
proof -
  have "require_non_empty ''idempotency_key'' (meta_key m) 256 = None"
    using assms(1) by (auto simp: meta_fits_def require_write_metadata_def)
  then have "request_scope ''transition'' ''inc-1'' (meta_key m) = Inr (''transition'', ''inc-1'', meta_key m)"
    by (auto simp: request_scope_def require_non_empty_def non_blank_def ex_strip fail_if_def)
  then show ?thesis
    using assms by (simp add: meta_fits_def transition_request_def fingerprint_def fail_if_def digest_def)
qed

lemma ex_registered:
  assumes "map fst (source_events r) = [(''inc-1'', ''se-1'')]"
  shows "register_source_events s ''inc-1'' [''se-1''] t m r = (None, r)"
  using assms by (simp add: register_source_events_def associated_source_ids_def MAX_INCIDENT_SOURCE_EVENTS_def
      ownership_error_def source_event_owner_def fail_if_def)

lemma ex_new_event:
  assumes "incident_id j = ''inc-1''" and "0 \<le> revision j" and "meta_fits m"
  shows "\<exists>ev. new_event ex_services j st m fp t = Inr ev"
proof -
  have "py_strip ''trace1'' = ''trace1''" "py_strip ''inc-1'' = ''inc-1''"
    "py_strip (''audit-'' @ replicate 32 (CHR ''a'')) = ''audit-'' @ replicate 32 (CHR ''a'')"
    by (simp_all add: ex_strip)
  with assms show ?thesis
    by (auto simp: new_event_def new_audit_event_def Let_def meta_fits_def identifier_ok_def digest_def)
qed

lemma ex_write:
  assumes "ex_at c used r" and "ex_step target t changes c = Inr j" and "meta_fits m"
    and "meta_key m \<notin> used" and "incident_id c = ''inc-1''" "trace_id c = ''trace1''" "0 \<le> revision c"
    and "source_event_ids j = [''se-1'']" and "status c \<notin> set SETTLED_STATUSES"
  shows "\<exists>r'. transition ex_services (Aware t) False ''inc-1'' (incident_status_value target) (revision c) changes
    m r = (Inr j, r') \<and> ex_at j (insert (meta_key m) used) r'"
proof -
  note step = incident_step_facts [OF ex_step_incident_step [OF assms(2)]]
  have j: "incident_id j = ''inc-1''" "0 \<le> revision j" using step(2,6) assms(5,7) by simp_all
  have trace: "meta_trace m = ''trace1''" using assms(3) by (simp add: meta_fits_def)
  obtain ev where ev: "new_event ex_services j (Some (status c)) m (digest '''') t = Inr ev"
    using ex_new_event [OF j assms(3)] by blast
  let ?sc = "(''transition'', ''inc-1'', meta_key m)"
  let ?r = "store_incident j ?sc (digest '''') (events_of r ''inc-1'' @ [ev]) r"
  have "commit_transition ex_services c j ?sc (digest '''') m t r = (None, ?r)"
    using assms(1,8) ev j(1) by (simp add: commit_transition_def ex_registered ex_at_def)
  moreover have "transition_successor ex_services (Aware t) False ''inc-1'' (incident_status_value target)
      (revision c) changes m r c = Inr (t, j)"
    using assms(2,6,9) trace by (simp add: transition_successor_def require_trace_def repository_now_def ex_step_def
        require_reactivation_keys_def fail_if_def)
  ultimately have "transition ex_services (Aware t) False ''inc-1'' (incident_status_value target) (revision c)
      changes m r = (Inr j, ?r)"
    using ex_transition_request [OF assms(3,7)] assms(1,4)
    by (simp add: transition_def replay_def require_current_def ex_at_def)
  moreover have "ex_at j (insert (meta_key m) used) ?r"
    using assms(1) j(1) by (simp add: ex_at_def)
  ultimately show ?thesis by blast
qed

lemma ex_advance:
  assumes "ex_at c used r" and "ex_step target t changes c = Inr j" and "d \<in> set ''12345678''"
    and "[CHR ''k'', d] \<notin> used" and "incident_id c = ''inc-1''" "trace_id c = ''trace1''" "0 \<le> revision c"
    and "source_event_ids j = [''se-1'']" and "status c \<notin> set SETTLED_STATUSES"
  shows "\<exists>r'. transition ex_services (Aware t) False ''inc-1'' (incident_status_value target) (revision c) changes
    (ex_meta [CHR ''k'', d]) r = (Inr j, r') \<and> ex_at j (insert [CHR ''k'', d] used) r'"
  using ex_write [OF assms(1,2) ex_meta_fits [OF assms(3)]] assms(4-) by simp

lemma ex_advance_reachable:
  assumes "reachable ex_services r" and "ex_at c used r" and "ex_step target t changes c = Inr j"
    and "d \<in> set ''12345678''" and "[CHR ''k'', d] \<notin> used"
    and "incident_id c = ''inc-1''" "trace_id c = ''trace1''" "0 \<le> revision c"
    and "source_event_ids j = [''se-1'']" and "status c \<notin> set SETTLED_STATUSES"
  shows "\<exists>r'. reachable ex_services r' \<and> ex_at j (insert [CHR ''k'', d] used) r'"
  using ex_advance [OF assms(2-)] assms(1) repo_step.step_transition
  unfolding reachable_def by (meson rtranclp.rtrancl_into_rtrancl)

lemma ex_at_start: "ex_at ex_detected {} ex_repository"
  by (simp add: ex_at_def ex_repository_def ex_repository_of_def)

lemma ex_settled: "set SETTLED_STATUSES = {DUPLICATE, REJECTED, FAILED, CANCELLED, CLOSED}"
  by (simp add: SETTLED_STATUSES_def CLOSED_STATUSES_def TERMINAL_STATUSES_def insert_commute)

text \<open>The run of the fixture, with each state it passes and the keys used so far.\<close>

lemma ex_run_states:
  "\<exists>r. reachable ex_services r \<and> ex_at ex_triaged {''k1''} r"
  "\<exists>r. reachable ex_services r \<and> ex_at ex_investigating {''k2'', ''k1''} r"
  "\<exists>r. reachable ex_services r \<and> ex_at ex_rca_complete {''k3'', ''k2'', ''k1''} r"
  "\<exists>r. reachable ex_services r \<and> ex_at ex_awaiting {''k4'', ''k3'', ''k2'', ''k1''} r"
  "\<exists>r. reachable ex_services r \<and> ex_at ex_remediating {''k5'', ''k4'', ''k3'', ''k2'', ''k1''} r"
proof -
  note adv = ex_advance_reachable and side = ex_incident_defs ex_settled
  show "\<exists>r. reachable ex_services r \<and> ex_at ex_triaged {''k1''} r"
    using adv [OF ex_reachable ex_at_start ex_step_triaged, of "CHR ''1''"] by (auto simp: side)
  then obtain r1 where "reachable ex_services r1" "ex_at ex_triaged {''k1''} r1" by blast
  then show "\<exists>r. reachable ex_services r \<and> ex_at ex_investigating {''k2'', ''k1''} r"
    using adv [OF _ _ ex_step_investigating, of r1 "{''k1''}" "CHR ''2''"] by (auto simp: side)
  then obtain r2 where "reachable ex_services r2" "ex_at ex_investigating {''k2'', ''k1''} r2" by blast
  then show "\<exists>r. reachable ex_services r \<and> ex_at ex_rca_complete {''k3'', ''k2'', ''k1''} r"
    using adv [OF _ _ ex_step_rca_complete, of r2 "{''k2'', ''k1''}" "CHR ''3''"] by (auto simp: side)
  then obtain r3 where "reachable ex_services r3" "ex_at ex_rca_complete {''k3'', ''k2'', ''k1''} r3" by blast
  then show "\<exists>r. reachable ex_services r \<and> ex_at ex_awaiting {''k4'', ''k3'', ''k2'', ''k1''} r"
    using adv [OF _ _ ex_step_awaiting, of r3 "{''k3'', ''k2'', ''k1''}" "CHR ''4''"] by (auto simp: side)
  then obtain r4 where "reachable ex_services r4" "ex_at ex_awaiting {''k4'', ''k3'', ''k2'', ''k1''} r4" by blast
  then show "\<exists>r. reachable ex_services r \<and> ex_at ex_remediating {''k5'', ''k4'', ''k3'', ''k2'', ''k1''} r"
    using adv [OF _ _ ex_step_remediating, of r4 "{''k4'', ''k3'', ''k2'', ''k1''}" "CHR ''5''"] by (auto simp: side)
qed

lemma ex_resolved_stored: "\<exists>r. reachable ex_services r \<and> get ''inc-1'' r = Some ex_resolved"
proof -
  note adv = ex_advance_reachable and side = ex_incident_defs ex_settled
  from ex_run_states(5) obtain r5 where "reachable ex_services r5"
    "ex_at ex_remediating {''k5'', ''k4'', ''k3'', ''k2'', ''k1''} r5" by blast
  then obtain r6 where "reachable ex_services r6" "ex_at ex_verifying {''k6'', ''k5'', ''k4'', ''k3'', ''k2'', ''k1''} r6"
    using adv [OF _ _ ex_step_verifying, of r5 "{''k5'', ''k4'', ''k3'', ''k2'', ''k1''}" "CHR ''6''"]
    by (auto simp: side)
  then obtain r7 where "reachable ex_services r7"
      "ex_at ex_resolved {''k7'', ''k6'', ''k5'', ''k4'', ''k3'', ''k2'', ''k1''} r7"
    using adv [OF _ _ ex_step_resolved, of r6 "{''k6'', ''k5'', ''k4'', ''k3'', ''k2'', ''k1''}" "CHR ''7''"]
    by (auto simp: side)
  then show ?thesis by (auto simp: ex_at_def get_def)
qed

section \<open>Reachable states\<close>

lemma reachable_repo_inv: "reachable s r \<Longrightarrow> repo_inv s r"
  unfolding reachable_def by (rule incident_store.reachable_inv)

lemma reachable_stored: "reachable s r \<Longrightarrow> get k r = Some i \<Longrightarrow> incident_stored_ok s r k i"
  using reachable_repo_inv by (simp add: repo_inv_def get_def)

text \<open>
  C1: In every state the repository can reach by any sequence of calls, successful or not, each stored
  incident is valid and filed under its own identifier, its source events are registered to it, no source
  event has two owners, no two active incidents share a correlation key, and its audit history is numbered
  0 to its revision without gaps, begins with its detection and ends in its status.
\<close>
theorem reachable_repository_consistent:
  assumes "reachable s r"
  shows "source_owners_unique r \<and> active_keys_unique r \<and>
    (\<forall>k i. get k r = Some i \<longrightarrow> incident_id i = k \<and> incident_valid (sha256 s) i \<and>
       set (source_event_ids i) \<subseteq> set (associated_source_ids r k) \<and>
       audit_chain (events_of r k) (status i) (revision i) \<and>
       map audit_revision (events_of r k) = map int [0..<length (events_of r k)] \<and>
       revision i = int (length (events_of r k)) - 1)"
proof -
  have "source_owners_unique r" "active_keys_unique r"
    using reachable_repo_inv [OF assms] by (simp_all add: repo_inv_def)
  moreover note reachable_stored [OF assms, unfolded incident_stored_ok_def]
  ultimately show ?thesis using audit_chain_revisions by blast
qed

theorem reachable_repository_consistent_witness:
  "source_owners_unique ex_repository \<and> active_keys_unique ex_repository \<and>
   map audit_revision (events_of ex_repository ''inc-1'') = [0]"
proof -
  have "get ''inc-1'' ex_repository = Some ex_detected" "events_of ex_repository ''inc-1'' = [ex_event]"
    by (simp_all add: get_def ex_repository_def ex_repository_of_def events_of_def)
  with reachable_repository_consistent [OF ex_reachable] show ?thesis by fastforce
qed

text \<open>
  C12: Nothing is lost: whatever calls follow, an idempotency record stays as it is, a stored incident stays
  stored and has only moved by state-machine steps, its audit history only grows at the end, and its
  source-event associations never change.
\<close>
theorem repository_is_durable:
  assumes "reachable s r" and "(repo_step s)\<^sup>*\<^sup>* r r'" and "get k r = Some i"
  shows "(\<exists>j. get k r' = Some j \<and> (incident_step (sha256 s))\<^sup>*\<^sup>* i j) \<and>
    prefix (events_of r k) (events_of r' k) \<and>
    (\<forall>sid a. map_of (source_events r) (k, sid) = Some a \<longrightarrow> map_of (source_events r') (k, sid) = Some a) \<and>
    map_of (idempotency r) \<subseteq>\<^sub>m map_of (idempotency r')"
proof -
  from incident_store.run_keeps [OF assms(2) reachable_repo_inv [OF assms(1)]] assms(3) show ?thesis by (auto simp: durable_def get_def)
qed

theorem repository_is_durable_witness:
  "\<exists>j. get ''inc-1'' ex_repository = Some j \<and> (incident_step digest)\<^sup>*\<^sup>* ex_detected j"
  using repository_is_durable [OF ex_reachable rtranclp.rtrancl_refl, of "''inc-1''" ex_detected]
  by (simp add: get_def ex_repository_def ex_repository_of_def)

text \<open>
  C2: In every reachable state, a RESOLVED incident was remediated: it passed through REMEDIATING with its
  present recommendations, and each of its actions then had an approval in force, still in its history, that
  covers the action.
\<close>
theorem stored_resolution_was_approved:
  assumes "reachable s r" and "get k r = Some j" and "status j = RESOLVED"
  shows "recommendations j \<noteq> [] \<and> (\<exists>a b. (incident_step (sha256 s))\<^sup>*\<^sup>* a j \<and> incident_step (sha256 s) b a \<and>
    status a = REMEDIATING \<and> status b = AWAITING_APPROVAL \<and> recommendations a = recommendations j \<and>
    (\<exists>now report. latest_report a = Some report \<and> (\<forall>action\<in>set (recommendations j).
       \<exists>d\<in>set (approvals j). covers_action (sha256 s) d action (incident_id j) report \<and> effective_at d now)))"
proof -
  from reachable_stored [OF assms(1,2)] obtain i0 where run: "(incident_step (sha256 s))\<^sup>*\<^sup>* i0 j" "status i0 = DETECTED"
    by (auto simp: incident_stored_ok_def detected_origin_def)
  from resolved_run_approved [OF run assms(3)] obtain b a v where
    c: "incident_step (sha256 s) b a" "incident_step (sha256 s) a v" "incident_step (sha256 s) v j"
      "status b = AWAITING_APPROVAL" "status a = REMEDIATING" "recommendations a = recommendations j"
      "recommendations j \<noteq> []"
      "\<exists>now report. latest_report a = Some report \<and> (\<forall>action\<in>set (recommendations j).
         \<exists>d\<in>set (approvals j). covers_action (sha256 s) d action (incident_id j) report \<and> effective_at d now)"
    by blast
  from c(2,3) have "(incident_step (sha256 s))\<^sup>*\<^sup>* a j" by (meson r_into_rtranclp rtranclp_trans)
  with c show ?thesis by blast
qed

theorem stored_resolution_was_approved_witness:
  "\<exists>r. get ''inc-1'' r = Some ex_resolved \<and> (\<exists>a b. incident_step digest b a \<and> status a = REMEDIATING \<and>
     recommendations a = recommendations ex_resolved)"
proof -
  obtain r where r: "reachable ex_services r" "get ''inc-1'' r = Some ex_resolved" using ex_resolved_stored by blast
  with stored_resolution_was_approved [OF r] show ?thesis by auto
qed

section \<open>Idempotency\<close>

text \<open>
  The contract of an idempotent write: a success is recorded under the request, a recorded
  request is answered from the record without touching the store, and records outlive every
  later state.
\<close>

locale idempotent_write =
  fixes run :: "'q \<Rightarrow> 'c \<Rightarrow> 'r \<Rightarrow> ('e + 'x) \<times> 'r" and recorded :: "'q \<Rightarrow> 'r \<Rightarrow> 'x \<Rightarrow> bool"
    and later :: "'r \<Rightarrow> 'r \<Rightarrow> bool"
  assumes records: "run q c r = (Inr x, r') \<Longrightarrow> recorded q r' x"
    and replays: "recorded q r x \<Longrightarrow> run q c r = (Inr x, r)"
    and persists: "recorded q r x \<Longrightarrow> later r r' \<Longrightarrow> recorded q r' x"
begin

lemma retry: "run q c r = (Inr x, r') \<Longrightarrow> later r' r'' \<Longrightarrow> run q c' r'' = (Inr x, r'')"
  by (meson records replays persists)

end

definition recorded :: "repo_error + idempotency_scope \<times> string \<Rightarrow> repository \<Rightarrow> incident \<Rightarrow> bool" where
  "recorded request r x \<longleftrightarrow> (\<exists>sc fp entry. request = Inr (sc, fp) \<and> map_of (idempotency r) sc = Some entry \<and>
     rec_fingerprint entry = fp \<and> rec_result entry = x)"

lemma replay_recorded:
  "replay r sc fp = Inr (Some x) \<longleftrightarrow> recorded (Inr (sc, fp)) r x"
  by (auto simp: replay_def recorded_def split: option.splits)

lemma recorded_persists:
  assumes "recorded q r x" and "durable s r r'"
  shows "recorded q r' x"
  using assms by (fastforce simp: recorded_def durable_def map_le_def dom_def)

lemma commit_create_recorded:
  "commit_create s i sc fp m t r = (None, r') \<Longrightarrow> recorded (Inr (sc, fp)) r' i"
  by (auto simp: commit_create_def recorded_def split: sum.splits prod.splits option.splits)

lemma commit_transition_recorded:
  "commit_transition s c i sc fp m t r = (None, r') \<Longrightarrow> recorded (Inr (sc, fp)) r' i"
  by (auto simp: commit_transition_def recorded_def split: sum.splits prod.splits option.splits)

lemma correlate_recorded:
  "recorded (Inr (sc, fp)) (r\<lparr>idempotency := AList.update sc \<lparr>rec_fingerprint = fp, rec_result = x\<rparr> d\<rparr>) x"
  by (simp add: recorded_def)

lemma create_records:
  assumes "create s clock i m r = (Inr x, r')"
  shows "recorded (write_request s ''create'' i m) r' x"
  using assms unfolding create_def
  by (auto simp: replay_recorded commit_create_recorded split: sum.splits option.splits if_splits prod.splits)

lemma create_or_correlate_records:
  assumes "create_or_correlate s clock i m r = (Inr x, r')"
  shows "recorded (write_request s ''create_or_correlate'' i m) r' x"
  using assms unfolding create_or_correlate_def
  by (auto simp: replay_recorded commit_create_recorded correlate_recorded
      split: sum.splits option.splits if_splits prod.splits)

lemma save_records:
  assumes "save s clock i expected m r = (Inr x, r')"
  shows "recorded (save_request s i expected m) r' x"
  using assms unfolding save_def
  by (auto simp: replay_recorded commit_transition_recorded split: sum.splits option.splits prod.splits)

lemma transition_records:
  assumes "transition s clock dumped iid target expected updates m r = (Inr x, r')"
  shows "recorded (transition_request s iid target expected updates m) r' x"
  using assms unfolding transition_def
  by (auto simp: replay_recorded commit_transition_recorded split: sum.splits option.splits prod.splits)

lemma recorded_request: "recorded q r x \<Longrightarrow> \<exists>sc fp. q = Inr (sc, fp) \<and> replay r sc fp = Inr (Some x)"
  by (auto simp: recorded_def replay_def)

lemma recorded_replays:
  "recorded (write_request s ''create'' i m) r x \<Longrightarrow> create s clock i m r = (Inr x, r)"
  "recorded (write_request s ''create_or_correlate'' i m) r x \<Longrightarrow> create_or_correlate s clock i m r = (Inr x, r)"
  "recorded (save_request s i expected m) r x \<Longrightarrow> save s clock i expected m r = (Inr x, r)"
  "recorded (transition_request s iid target expected updates m) r x \<Longrightarrow>
     transition s clock dumped iid target expected updates m r = (Inr x, r)"
  by (drule recorded_request, force simp: create_def create_or_correlate_def save_def transition_def)+

interpretation create_op: idempotent_write
  "\<lambda>(i, m) clock. create s clock i m" "\<lambda>(i, m). recorded (write_request s ''create'' i m)" "durable s" for s
  by unfold_locales (auto intro: create_records recorded_replays recorded_persists)

interpretation correlate_op: idempotent_write
  "\<lambda>(i, m) clock. create_or_correlate s clock i m"
  "\<lambda>(i, m). recorded (write_request s ''create_or_correlate'' i m)" "durable s" for s
  by unfold_locales (auto intro: create_or_correlate_records recorded_replays recorded_persists)

interpretation save_op: idempotent_write
  "\<lambda>(i, expected, m) clock. save s clock i expected m"
  "\<lambda>(i, expected, m). recorded (save_request s i expected m)" "durable s" for s
  by unfold_locales (auto intro: save_records recorded_replays recorded_persists)

interpretation transition_op: idempotent_write
  "\<lambda>(dumped, iid, target, expected, updates, m) clock. transition s clock dumped iid target expected updates m"
  "\<lambda>(dumped, iid, target, expected, updates, m). recorded (transition_request s iid target expected updates m)"
  "durable s" for s
  by unfold_locales (auto intro: transition_records recorded_replays recorded_persists)

text \<open>
  C9: An exact retry of a successful write, at any later time and after any other calls, returns the original
  result and leaves the repository as it is, for each of the four writing operations.
\<close>
theorem retry_returns_original:
  assumes "reachable s r'" and "(repo_step s)\<^sup>*\<^sup>* r' r''"
  shows "(create s c i m r = (Inr x, r') \<longrightarrow> create s c' i m r'' = (Inr x, r'')) \<and>
    (create_or_correlate s c i m r = (Inr x, r') \<longrightarrow> create_or_correlate s c' i m r'' = (Inr x, r'')) \<and>
    (save s c i n m r = (Inr x, r') \<longrightarrow> save s c' i n m r'' = (Inr x, r'')) \<and>
    (transition s c dumped iid target n updates m r = (Inr x, r') \<longrightarrow>
       transition s c' dumped iid target n updates m r'' = (Inr x, r''))"
proof -
  have later: "durable s r' r''"
    by (rule incident_store.run_keeps [OF assms(2) reachable_repo_inv [OF assms(1)]])
  show ?thesis
    using create_op.retry [OF _ later, where q = "(i, m)"] correlate_op.retry [OF _ later, where q = "(i, m)"]
      save_op.retry [OF _ later, where q = "(i, n, m)"]
      transition_op.retry [OF _ later, where q = "(dumped, iid, target, n, updates, m)"]
    by simp
qed

theorem retry_returns_original_witness:
  "create ex_services (Aware 777) ex_detected (ex_meta ''k1'') ex_repository = (Inr ex_detected, ex_repository)"
  using retry_returns_original [OF ex_reachable rtranclp.rtrancl_refl, of "Aware 95" ex_detected "ex_meta ''k1''"
    empty_repository ex_detected "Aware 777"] ex_created by blast

text \<open>
  C24: A key that was used for one creation of an incident cannot be used for a different creation of the same
  incident: as long as SHA-256 tells the two requests apart, the second raises IdempotencyConflictError and
  changes nothing, at any later time.  Keys are scoped by the incident, so another incident may use it too.
\<close>
theorem reused_key_is_refused:
  assumes "reachable s r'" and "(repo_step s)\<^sup>*\<^sup>* r' r''" and "create s c i m r = (Inr x, r')"
    and "write_request s ''create'' i m = Inr (sc, fp)" and "write_request s ''create'' j m2 = Inr (sc2, fp2)"
    and "incident_id j = incident_id i" and "meta_key m2 = meta_key m" and "fp2 \<noteq> fp"
  shows "create s c' j m2 r'' = (Inl (IdempotencyConflictError (meta_key m)), r'')"
proof -
  have later: "durable s r' r''"
    by (rule incident_store.run_keeps [OF assms(2) reachable_repo_inv [OF assms(1)]])
  have "recorded (Inr (sc, fp)) r'' x"
    using recorded_persists [OF create_records [OF assms(3)] later] assms(4) by simp
  then obtain entry where e: "map_of (idempotency r'') sc = Some entry" "rec_fingerprint entry = fp"
    by (auto simp: recorded_def)
  have "sc = (py_lower (py_strip ''create''), incident_id i, meta_key m)"
    using assms(4) by (auto simp: write_request_def request_scope_def split: option.splits)
  moreover have "sc2 = (py_lower (py_strip ''create''), incident_id j, meta_key m2)"
    using assms(5) by (auto simp: write_request_def request_scope_def split: option.splits)
  ultimately have "sc2 = sc" "snd (snd sc) = meta_key m" using assms(6,7) by simp_all
  with e assms(5,8) show ?thesis by (simp add: create_def replay_def)
qed

text \<open>A stand-in for SHA-256 that tells texts of odd and even length apart.\<close>

definition parity_digest :: "string \<Rightarrow> string" where
  "parity_digest text = replicate 63 (CHR ''a'') @ [if even (length text) then CHR ''0'' else CHR ''1'']"

definition ex_meta2 :: write_metadata where
  "ex_meta2 = (ex_meta ''k1'')\<lparr>meta_reason := ''rescan1''\<rparr>"

lemma ex_meta2_simps [simp]: "meta_key ex_meta2 = ''k1''" "meta_actor ex_meta2 = ''detector''"
  "meta_reason ex_meta2 = ''rescan1''" "meta_trace ex_meta2 = ''trace1''"
  by (simp_all add: ex_meta2_def)

lemma ex_meta2_ok: "require_write_metadata ex_meta2 = None"
proof -
  let ?v = "JObj [(''idempotency_key'', JStr ''k1''), (''actor'', JStr ''detector''),
     (''reason'', JStr ''rescan1''), (''trace_id'', JStr ''trace1'')]"
  have "find_sensitive_paths ''$'' ?v = []"
    by (auto simp: no_separator_clean py_isspace_def separator_char_def is_sensitive_key_def
        normalized_key_def SENSITIVE_KEY_NAMES_def py_lower_def py_lower_char_def)
  moreover have "utf8_length (json_text ?v) = 82" by code_simp
  ultimately have "unsafe_error ?v ''<audit-metadata>'' = None"
    by (simp add: unsafe_error_None MAX_CONTRACT_DEPTH_def MAX_CONTRACT_SERIALIZED_BYTES_def del: json_text.simps)
  then show ?thesis
    by (auto simp: require_write_metadata_def require_non_empty_def non_blank_def py_strip_def
        py_isspace_def)
qed

lemma ex_parity_request1:
  "write_request (ex_services_of parity_digest) ''create'' ex_detected (ex_meta ''k1'') =
     Inr ((''create'', ''inc-1'', ''k1''), replicate 63 (CHR ''a'') @ ''1'')"
proof -
  have "parity_digest (json_text (JObj [(''operation'', JStr ''create''), (''payload'', JObj [(''incident'', JObj []),
       (''actor'', JStr ''detector''), (''reason'', JStr ''scan''), (''trace_id'', JStr ''trace1'')])])) =
       replicate 63 (CHR ''a'') @ ''1''" by code_simp
  then show ?thesis by (simp only: ex_write_request)
qed

lemma ex_parity_request2:
  "write_request (ex_services_of parity_digest) ''create'' ex_detected ex_meta2 =
     Inr ((''create'', ''inc-1'', ''k1''), replicate 63 (CHR ''a'') @ ''0'')"
proof -
  have "parity_digest (json_text (JObj [(''operation'', JStr ''create''), (''payload'', JObj [(''incident'', JObj []),
       (''actor'', JStr ''detector''), (''reason'', JStr ''rescan1''), (''trace_id'', JStr ''trace1'')])])) =
       replicate 63 (CHR ''a'') @ ''0''" by code_simp
  then show ?thesis
    by (simp add: write_request_def ex_meta2_ok request_scope_def require_non_empty_def non_blank_def
        ex_detected_fields ex_strip fingerprint_def fail_if_def del: json_text.simps)
qed

lemma ex_detected_valid_any: "incident_valid h ex_detected"
  by (simp add: ex_detected_def ex_validate_defs ex_parts_ok)

theorem reused_key_is_refused_witness:
  "\<exists>r. create (ex_services_of parity_digest) (Aware 300) ex_detected ex_meta2 r =
     (Inl (IdempotencyConflictError ''k1''), r)"
proof -
  let ?s = "ex_services_of parity_digest" and ?fp = "replicate 63 (CHR ''a'') @ ''1''"
  have "\<exists>event. new_event ?s ex_detected None (ex_meta ''k1'') ?fp 95 = Inr event"
    by (simp add: new_event_def new_audit_event_def Let_def ex_detected_fields ex_strip
        identifier_ok_def non_empty_str_ok_def parity_digest_def)
  then obtain event where event: "new_event ?s ex_detected None (ex_meta ''k1'') ?fp 95 = Inr event" ..
  note made = ex_created_with [OF ex_detected_valid_any ex_parity_request1 event]
  have "reachable ?s (ex_repository_of ?fp event)"
    unfolding reachable_def using repo_step.step_create [OF made] by blast
  from reused_key_is_refused [OF this rtranclp.rtrancl_refl made ex_parity_request1 ex_parity_request2]
  show ?thesis by auto
qed

section \<open>Optimistic concurrency\<close>

lemma transition_fresh:
  assumes "transition s clock dumped iid target expected updates m r = (Inr x, r')"
    and "transition_request s iid target expected updates m = Inr (sc, fp)"
    and "map_of (idempotency r) sc = None"
  obtains c now where "map_of (incidents r) iid = Some c" "revision c = expected"
    "incident_step (sha256 s) c x" "commit_transition s c x sc fp m now r = (None, r')"
  using assms
  by (auto simp: transition_def replay_def require_current_def
      split: sum.splits option.splits prod.splits dest: transition_successor_Inr)

lemma commit_transition_stores:
  assumes "commit_transition s c x sc fp m now r = (None, r')"
  shows "map_of (incidents r') (incident_id x) = Some x"
  using assms by (auto simp: commit_transition_def split: sum.splits prod.splits option.splits)

lemma run_revision_le: "(incident_step h)\<^sup>*\<^sup>* i j \<Longrightarrow> revision i \<le> revision j"
  by (induction rule: rtranclp_induct) (auto dest: incident_step_facts(2))

text \<open>
  C10: Of two writers that read the same revision, one wins: once a transition from that revision has been
  committed, any other transition from it, under a key not yet used, raises the revision conflict
  and changes nothing, at any later time.
\<close>
theorem stale_writer_is_refused:
  assumes "reachable s r" and "transition s c1 d1 iid t1 n u1 m1 r = (Inr x, r')"
    and "transition_request s iid t1 n u1 m1 = Inr (sc1, fp1)" and "map_of (idempotency r) sc1 = None"
    and "(repo_step s)\<^sup>*\<^sup>* r' r''"
    and "transition_request s iid t2 n u2 m2 = Inr (sc2, fp2)" and "map_of (idempotency r'') sc2 = None"
  shows "\<exists>k>n. transition s c2 d2 iid t2 n u2 m2 r'' =
    (Inl (RepositoryRevisionConflictError iid n k None), r'')"
proof -
  from assms(2-4) obtain c now where c: "map_of (incidents r) iid = Some c" "revision c = n"
    "incident_step (sha256 s) c x" "commit_transition s c x sc1 fp1 m1 now r = (None, r')"
    by (rule transition_fresh)
  have "incident_id c = iid"
    using reachable_stored [OF assms(1), of iid c] c(1) by (simp add: get_def incident_stored_ok_def)
  with incident_step_facts(6) [OF c(3)] commit_transition_stores [OF c(4)]
  have x: "map_of (incidents r') iid = Some x" by simp
  have "reachable s r'"
    using assms(1) repo_step.step_transition [OF assms(2)] unfolding reachable_def by (rule rtranclp.rtrancl_into_rtrancl)
  from incident_store.run_keeps [OF assms(5) reachable_repo_inv [OF this]] x
  obtain y where y: "map_of (incidents r'') iid = Some y" "(incident_step (sha256 s))\<^sup>*\<^sup>* x y"
    unfolding durable_def by blast
  have "n < revision y" using run_revision_le [OF y(2)] incident_step_facts(2) [OF c(3)] c(2) by simp
  moreover have "transition s c2 d2 iid t2 n u2 m2 r'' =
    (Inl (RepositoryRevisionConflictError iid n (revision y) None), r'')"
    using assms(6,7) y(1) \<open>n < revision y\<close>
    by (simp add: transition_def replay_def require_current_def transition_successor_def fail_if_def)
  ultimately show ?thesis by blast
qed

theorem stale_writer_is_refused_witness:
  "\<exists>r k. 0 < k \<and> transition ex_services (Aware 99) False ''inc-1'' ''CANCELLED'' 0 [] (ex_meta ''k2'') r =
     (Inl (RepositoryRevisionConflictError ''inc-1'' 0 k None), r)"
proof -
  have "\<exists>r'. transition ex_services (Aware 98) False ''inc-1'' ''TRIAGED'' 0 [] (ex_meta ''k1'') ex_repository =
      (Inr ex_triaged, r') \<and> ex_at ex_triaged {''k1''} r'"
    using ex_advance [OF ex_at_start ex_step_triaged, of "CHR ''1''"] by (simp add: ex_incident_defs ex_settled)
  then obtain r' where first: "transition ex_services (Aware 98) False ''inc-1'' ''TRIAGED'' 0 [] (ex_meta ''k1'')
      ex_repository = (Inr ex_triaged, r')" "ex_at ex_triaged {''k1''} r'" by blast
  have req1: "transition_request ex_services ''inc-1'' ''TRIAGED'' 0 [] (ex_meta ''k1'') =
      Inr ((''transition'', ''inc-1'', ''k1''), digest '''')"
    and req2: "transition_request ex_services ''inc-1'' ''CANCELLED'' 0 [] (ex_meta ''k2'') =
      Inr ((''transition'', ''inc-1'', ''k2''), digest '''')"
    by (simp_all add: ex_transition_request [OF ex_meta_fits])
  have fresh: "map_of (idempotency ex_repository) (''transition'', ''inc-1'', ''k1'') = None"
    "map_of (idempotency r') (''transition'', ''inc-1'', ''k2'') = None"
    using ex_at_start first(2) by (simp_all add: ex_at_def)
  from stale_writer_is_refused [OF ex_reachable first(1) req1 fresh(1) rtranclp.rtrancl_refl req2 fresh(2)]
  show ?thesis by blast
qed

section \<open>Errors\<close>

lemma register_error_cases:
  "register_source_events s iid sids t m r = (e, r') \<Longrightarrow> assoc_extends iid r r'"
  using register_source_events_extends by blast

lemma commit_error:
  "commit_create s i sc fp m t r = (Some e, r') \<Longrightarrow> assoc_extends (incident_id i) r r'"
  "commit_transition s c i sc fp m t r = (Some e, r') \<Longrightarrow> assoc_extends (incident_id i) r r'"
  by (auto simp: commit_create_def commit_transition_def assoc_extends_refl dest: register_error_cases
      split: sum.splits prod.splits option.splits)

text \<open>
  C13: A write that raises leaves no partial incident, audit event or idempotency record: those three
  dictionaries are as before, and the association dictionary has at most gained associations of one incident;
  a refused import leaves the whole repository untouched.
\<close>
theorem failed_write_leaves_no_partial_record:
  "(create s c i m r = (Inl e, r') \<longrightarrow> (\<exists>k. assoc_extends k r r')) \<and>
   (create_or_correlate s c i m r = (Inl e, r') \<longrightarrow> (\<exists>k. assoc_extends k r r')) \<and>
   (save s c i n m r = (Inl e, r') \<longrightarrow> (\<exists>k. assoc_extends k r r')) \<and>
   (transition s c dumped iid target n updates m r = (Inl e, r') \<longrightarrow> (\<exists>k. assoc_extends k r r')) \<and>
   (import_detected_snapshot s c i as m r = (Inl e, r') \<longrightarrow> r' = r)"
proof (intro conjI impI)
  show "\<exists>k. assoc_extends k r r'" if "create s c i m r = (Inl e, r')"
    using that unfolding create_def
    by (auto split: sum.splits option.splits if_splits prod.splits intro: assoc_extends_refl dest: commit_error)
  show "\<exists>k. assoc_extends k r r'" if "create_or_correlate s c i m r = (Inl e, r')"
    using that unfolding create_or_correlate_def
    by (auto split: sum.splits option.splits if_splits prod.splits intro: assoc_extends_refl
        dest: commit_error register_error_cases)
  show "\<exists>k. assoc_extends k r r'" if "save s c i n m r = (Inl e, r')"
    using that unfolding save_def
    by (auto split: sum.splits option.splits prod.splits intro: assoc_extends_refl dest: commit_error)
  show "\<exists>k. assoc_extends k r r'" if "transition s c dumped iid target n updates m r = (Inl e, r')"
    using that unfolding transition_def
    by (auto split: sum.splits option.splits prod.splits intro: assoc_extends_refl dest: commit_error)
  show "r' = r" if "import_detected_snapshot s c i as m r = (Inl e, r')"
    using that unfolding import_detected_snapshot_def
    by (auto split: sum.splits option.splits if_splits prod.splits)
qed

theorem failed_write_leaves_no_partial_record_witness:
  "\<exists>k. assoc_extends k empty_repository (snd (transition ex_services (Aware 98) False ''inc-1'' ''TRIAGED'' 0 []
     (ex_meta ''k1'') empty_repository))"
proof -
  have "transition ex_services (Aware 98) False ''inc-1'' ''TRIAGED'' 0 [] (ex_meta ''k1'') empty_repository =
      (Inl (IncidentNotFoundError ''inc-1''), empty_repository)"
    by (simp add: transition_def ex_transition_request [OF ex_meta_fits] replay_def require_current_def empty_repository_def)
  with failed_write_leaves_no_partial_record show ?thesis by (metis snd_conv)
qed

end
