(* ===== verification/Repository_Refinement.thy ===== *)
theory Repository_Refinement
  imports Repository_Properties
begin

text \<open>
  An abstract specification of the in-memory repository and its refinement: a board that keeps for every
  incident its correlation key and the statuses it went through, and for every source event its owner.
  It may open a ticket, move one along an edge of the state machine, or record claims of source events,
  and nothing else; every call of every writing operation is one such step or none.
\<close>

section \<open>The board\<close>

type_synonym ticket = "string option \<times> incident_status list"

record board =
  tickets :: "string \<Rightarrow> ticket option"
  owners :: "string \<Rightarrow> string option"

definition empty_board :: board where
  "empty_board = \<lparr>tickets = (\<lambda>_. None), owners = (\<lambda>_. None)\<rparr>"

text \<open>Events are claimed for one ticket, none of them taken from another.\<close>

definition claims :: "string \<Rightarrow> (string \<Rightarrow> string option) \<Rightarrow> (string \<Rightarrow> string option) \<Rightarrow> bool" where
  "claims k old new \<longleftrightarrow> (\<exists>sids. (\<forall>sid\<in>sids. old sid = None \<or> old sid = Some k) \<and>
     new = (\<lambda>sid. if sid \<in> sids then Some k else old sid))"

text \<open>No other ticket with this correlation key is active.\<close>

definition key_free :: "board \<Rightarrow> string option \<Rightarrow> string \<Rightarrow> bool" where
  "key_free b key k \<longleftrightarrow> key = None \<or>
     (\<forall>j trail. tickets b j = Some (key, trail) \<and> j \<noteq> k \<longrightarrow> last trail \<in> set SETTLED_STATUSES)"

inductive board_step :: "board \<Rightarrow> board \<Rightarrow> bool" where
  claim: "claims k (owners b) own \<Longrightarrow> board_step b \<lparr>tickets = tickets b, owners = own\<rparr>"
| opened: "tickets b k = None \<Longrightarrow> key_free b key k \<Longrightarrow> claims k (owners b) own \<Longrightarrow>
    board_step b \<lparr>tickets = (tickets b)(k \<mapsto> (key, [DETECTED])), owners = own\<rparr>"
| moved: "tickets b k = Some (key, trail) \<Longrightarrow> target \<in> set (allowed_transitions (last trail)) \<Longrightarrow>
    (last trail \<in> set SETTLED_STATUSES \<and> target \<notin> set SETTLED_STATUSES \<Longrightarrow> key_free b key k) \<Longrightarrow>
    claims k (owners b) own \<Longrightarrow>
    board_step b \<lparr>tickets = (tickets b)(k \<mapsto> (key, trail @ [target])), owners = own\<rparr>"

inductive_cases board_stepE: "board_step b b'"

section \<open>The board of a repository\<close>

definition owner_of :: "repository \<Rightarrow> string \<Rightarrow> string option" where
  "owner_of r = map_of (map (\<lambda>((k, sid), a). (sid, k)) (source_events r))"

definition board_of :: "repository \<Rightarrow> board" where
  "board_of r = \<lparr>tickets = (\<lambda>k. map_option (\<lambda>i. (correlation_key i, map to_status (events_of r k)))
     (map_of (incidents r) k)), owners = owner_of r\<rparr>"

lemma owner_of_SomeD: "owner_of r sid = Some k \<Longrightarrow> (k, sid) \<in> assoc_keys r"
  unfolding owner_of_def assoc_keys_def by (drule map_of_SomeD) force

lemma owner_of_iff:
  assumes "source_owners_unique r"
  shows "owner_of r sid = Some k \<longleftrightarrow> (k, sid) \<in> assoc_keys r"
proof
  assume k: "(k, sid) \<in> assoc_keys r"
  then obtain a where "((k, sid), a) \<in> set (source_events r)" by (auto simp: assoc_keys_def)
  then have "(sid, k) \<in> set (map (\<lambda>((k, sid), a). (sid, k)) (source_events r))" by force
  then have "owner_of r sid \<noteq> None" unfolding owner_of_def by (metis option.discI weak_map_of_SomeI)
  then obtain j where j: "owner_of r sid = Some j" by blast
  with owner_of_SomeD k assms have "j = k" unfolding source_owners_unique_def by blast
  with j show "owner_of r sid = Some k" by simp
qed (rule owner_of_SomeD)

lemma assoc_extends_claims:
  assumes "assoc_extends k r r'" and "source_owners_unique r"
  shows "claims k (owner_of r) (owner_of r')"
proof -
  note u = owner_of_iff [OF assms(2)] owner_of_iff [OF assoc_extends_owners [OF assms]]
  let ?sids = "{sid. (k, sid) \<in> assoc_keys r'}"
  have old: "(j, sid) \<in> assoc_keys r'" if "(j, sid) \<in> assoc_keys r" for j sid
    using assms(1) that by (auto simp: assoc_extends_def)
  have new: "(j, sid) \<in> assoc_keys r" if "(j, sid) \<in> assoc_keys r'" "j \<noteq> k" for j sid
    using assms(1) that by (auto simp: assoc_extends_def)
  have "owner_of r sid = None \<or> owner_of r sid = Some k" if "sid \<in> ?sids" for sid
    using that old [of _ sid] u by (metis mem_Collect_eq option.exhaust option.inject)
  moreover have "owner_of r' sid = (if sid \<in> ?sids then Some k else owner_of r sid)" for sid
  proof (cases "sid \<in> ?sids")
    case False
    then have "owner_of r' sid = Some j \<longleftrightarrow> owner_of r sid = Some j" for j
      unfolding u using old [of j sid] new [of j sid] by auto
    with False show ?thesis by (metis option.exhaust)
  qed (simp add: u)
  ultimately show ?thesis unfolding claims_def by (intro exI [of _ ?sids]) auto
qed

lemma audit_chain_last: "audit_chain es st n \<Longrightarrow> es \<noteq> [] \<and> to_status (last es) = st"
  by (induction rule: audit_chain.induct) auto

lemma trail_last:
  assumes "repo_inv s r" and "map_of (incidents r) k = Some i"
  shows "last (map to_status (events_of r k)) = status i"
proof -
  have "audit_chain (events_of r k) (status i) (revision i)"
    using assms by (simp add: repo_inv_def incident_stored_ok_def)
  from audit_chain_last [OF this] show ?thesis by (simp add: last_map)
qed

lemma board_key_free:
  assumes "repo_inv s r"
    and "\<And>j i. map_of (incidents r) j = Some i \<Longrightarrow> j \<noteq> k \<Longrightarrow> key \<noteq> None \<Longrightarrow> correlation_key i = key \<Longrightarrow>
      status i \<in> set SETTLED_STATUSES"
  shows "key_free (board_of r) key k"
  using assms(2) trail_last [OF assms(1)] by (auto simp: key_free_def board_of_def)

lemma same_tickets:
  assumes "assoc_extends k r r'"
  shows "tickets (board_of r') = tickets (board_of r)"
  using assms by (simp add: assoc_extends_def board_of_def events_of_def)

lemma effect_simulated:
  assumes "repo_effect s r r'" and inv: "repo_inv s r"
  shows "board_step (board_of r) (board_of r')"
proof -
  have unique: "source_owners_unique r" using inv by (simp add: repo_inv_def)
  have own: "claims k (owners (board_of r)) (owner_of r1)" if "assoc_extends k r r1" for k r1
    using assoc_extends_claims [OF that unique] by (simp add: board_of_def)
  have registering: "board_step (board_of r) (board_of r1)" if "assoc_extends k r r1" for k r1
    using board_step.claim [OF own [OF that]] same_tickets [OF that] by (simp add: board_of_def)
  show ?thesis using assms(1)
  proof cases
    case unchanged
    then show ?thesis using registering [OF assoc_extends_refl] by simp
  next
    case (registered iid)
    then show ?thesis by (rule registering)
  next
    case (correlated iid r1 sc entry)
    have "board_of r' = board_of r1" by (simp add: correlated(1) board_of_def owner_of_def events_of_def)
    with registering [OF correlated(2)] show ?thesis by simp
  next
    case (created i sids r1 sc event fp)
    let ?k = "incident_id i" and ?key = "correlation_key i"
    have same: "incidents r1 = incidents r" using created(7) by (simp add: assoc_extends_def)
    have "key_free (board_of r) ?key ?k"
      by (rule board_key_free [OF inv]) (use created(6) in \<open>auto simp: active_match_def\<close>)
    moreover have "tickets (board_of r) ?k = None" using created(2) by (simp add: board_of_def)
    moreover have "board_of r' = \<lparr>tickets = (tickets (board_of r))(?k \<mapsto> (?key, [DETECTED])), owners = owner_of r1\<rparr>"
      using created(11) same_tickets [OF created(7)]
      by (auto simp: created(1) board_of_def owner_of_def fun_eq_iff)
    ultimately show ?thesis using board_step.opened own [OF created(7)] by simp
  next
    case (moved iid c i r1 sc event fp)
    note step = incident_step_facts [OF moved(3)]
    have k: "iid = incident_id i"
      using inv moved(2) step(6) by (simp add: repo_inv_def incident_stored_ok_def)
    let ?k = "incident_id i" and ?trail = "map to_status (events_of r (incident_id i))"
    have same: "events_of r1 j = events_of r j" for j using moved(5) by (simp add: assoc_extends_def events_of_def)
    have last: "last ?trail = status c" using trail_last [OF inv moved(2)] by (simp add: k)
    have free: "key_free (board_of r) (correlation_key i) ?k"
      if settled: "status c \<in> set SETTLED_STATUSES" "status i \<notin> set SETTLED_STATUSES"
    proof (rule board_key_free [OF inv], rule ccontr)
      fix j x
      assume x: "map_of (incidents r) j = Some x" "j \<noteq> ?k" "correlation_key i \<noteq> None"
        "correlation_key x = correlation_key i" "status x \<notin> set SETTLED_STATUSES"
      from reactivation_free [OF moved(4) settled x(1,5,4,3)] have "incident_id x = ?k" .
      with inv x(1,2) show False by (simp add: repo_inv_def incident_stored_ok_def)
    qed
    have "tickets (board_of r) ?k = Some (correlation_key i, ?trail)"
      using moved(2) step(8) by (simp add: board_of_def k)
    moreover have "status i \<in> set (allowed_transitions (last ?trail))"
      using step(1) by (simp add: last allowed_transitions_def)
    moreover have "last ?trail \<in> set SETTLED_STATUSES \<and> status i \<notin> set SETTLED_STATUSES \<Longrightarrow>
        key_free (board_of r) (correlation_key i) ?k" using free unfolding last by blast
    ultimately have "board_step (board_of r) \<lparr>tickets = (tickets (board_of r))
        (?k \<mapsto> (correlation_key i, ?trail @ [status i])), owners = owner_of r1\<rparr>"
      using own [OF moved(5)] by (rule board_step.moved)
    moreover have "board_of r' = \<lparr>tickets = (tickets (board_of r))(?k \<mapsto> (correlation_key i, ?trail @ [status i])),
        owners = owner_of r1\<rparr>"
      using moved(9) same_tickets [OF moved(5)]
      by (auto simp: moved(1) board_of_def owner_of_def fun_eq_iff same)
    ultimately show ?thesis by simp
  qed
qed

section \<open>Refinement\<close>

text \<open>A store whose steps are steps of a specification under an abstraction.\<close>

locale refined_store = durable_store step inv keeps initial
  for step :: "'r \<Rightarrow> 'r \<Rightarrow> bool" and inv and keeps and initial +
  fixes spec_step :: "'b \<Rightarrow> 'b \<Rightarrow> bool" and spec_initial :: 'b and abstract :: "'r \<Rightarrow> 'b"
  assumes abstract_initial: "abstract initial = spec_initial"
    and abstract_step: "inv a \<Longrightarrow> step a b \<Longrightarrow> spec_step (abstract a) (abstract b)"
begin

lemma run_simulated: "step\<^sup>*\<^sup>* initial a \<Longrightarrow> spec_step\<^sup>*\<^sup>* spec_initial (abstract a)"
proof (induction rule: rtranclp_induct)
  case (step a b)
  from step.IH abstract_step [OF reachable_inv [OF step.hyps(1)] step.hyps(2)] show ?case
    by (rule rtranclp.rtrancl_into_rtrancl)
qed (simp add: abstract_initial)

lemma spec_invariant:
  assumes "step\<^sup>*\<^sup>* initial a" and "good spec_initial" and "\<And>x y. good x \<Longrightarrow> spec_step x y \<Longrightarrow> good y"
  shows "good (abstract a)"
  using run_simulated [OF assms(1)] by (induction rule: rtranclp_induct) (use assms(2,3) in auto)

end

interpretation incident_board: refined_store "repo_step s" "repo_inv s" "durable s" empty_repository
    board_step empty_board board_of for s
proof unfold_locales
  show "board_of empty_repository = empty_board"
    by (simp add: board_of_def empty_repository_def empty_board_def owner_of_def)
qed (rule effect_simulated [OF repo_step_effect])

text \<open>
  C11: The repository implements the board: in every reachable state, whatever a call returns, what it
  changes on the board is exactly one permitted step - claiming source events no other incident owns,
  opening a new ticket as DETECTED under a correlation key no active ticket has, or moving one ticket
  along an edge of the state machine, where coming back from a settled status needs the key to be free.
\<close>
theorem repository_refines_board:
  assumes "reachable s r" and "repo_step s r r'"
  shows "board_step (board_of r) (board_of r') \<and> board_step\<^sup>*\<^sup>* empty_board (board_of r')"
proof
  show "board_step (board_of r) (board_of r')"
    using incident_board.abstract_step [OF reachable_repo_inv [OF assms(1)] assms(2)] .
  have "(repo_step s)\<^sup>*\<^sup>* empty_repository r'"
    using assms unfolding reachable_def by (rule rtranclp.rtrancl_into_rtrancl)
  then show "board_step\<^sup>*\<^sup>* empty_board (board_of r')" by (rule incident_board.run_simulated)
qed


section \<open>What the board itself guarantees\<close>

definition board_trails_ok :: "board \<Rightarrow> bool" where
  "board_trails_ok b \<longleftrightarrow> (\<forall>k key trail. tickets b k = Some (key, trail) \<longrightarrow> trail \<noteq> [] \<and> hd trail = DETECTED \<and>
     successively (\<lambda>a c. c \<in> set (allowed_transitions a)) trail)"

lemma board_trails_step: "board_trails_ok b \<Longrightarrow> board_step b b' \<Longrightarrow> board_trails_ok b'"
  by (erule board_stepE) (auto simp: board_trails_ok_def successively_append_iff split: if_splits)

lemma stored_trails_follow_machine:
  assumes "reachable s r" and "get k r = Some i"
  shows "successively (\<lambda>a c. c \<in> set (allowed_transitions a)) (map to_status (events_of r k))"
proof -
  have "board_trails_ok empty_board" by (simp add: board_trails_ok_def empty_board_def)
  then have "board_trails_ok (board_of r)"
    by (rule incident_board.spec_invariant [OF assms(1) [unfolded reachable_def]]) (rule board_trails_step)
  with assms(2) show ?thesis by (auto simp: board_trails_ok_def board_of_def get_def)
qed

lemma repository_refines_board_witness:
  "board_step empty_board (board_of ex_repository) \<and>
   tickets (board_of ex_repository) ''inc-1'' = Some (correlation_key ex_detected, [DETECTED])"
proof -
  have "reachable ex_services empty_repository" by (simp add: reachable_def)
  moreover have "repo_step ex_services empty_repository ex_repository" using ex_created by (rule repo_step.step_create)
  ultimately have "board_step (board_of empty_repository) (board_of ex_repository)"
    by (rule repository_refines_board [THEN conjunct1])
  then show ?thesis unfolding incident_board.abstract_initial
    by (simp add: board_of_def ex_repository_def ex_repository_of_def ex_event_def events_of_def)
qed

end
