(* ===== verification/Payloads.thy ===== *)
theory Payloads
  imports Privacy
begin

text \<open>
  What the checks of a payload accept, in a form that proofs can use: the values no path of which
  names a subscriber, by criteria on their keys and texts, and an upper bound on the encoded size
  of a value along its structure.  Every component that builds canonical JSON rests on them.
\<close>

section \<open>Values without subscriber identifiers\<close>

text \<open>What \<open>find_sensitive_paths\<close> finds nothing in, whatever the path prefix.\<close>

fun identifier_free :: "json \<Rightarrow> bool" where
  "identifier_free (JObj kvs) = list_all (\<lambda>(k, v). \<not> labeled_identifier k \<and>
     (if is_sensitive_key k then is_empty_value v else identifier_free v)) kvs"
| "identifier_free (JList vs) = list_all identifier_free vs"
| "identifier_free (JStr s) = (\<not> labeled_identifier s)"
| "identifier_free _ = True"

lemma find_empty_value: "is_empty_value v \<Longrightarrow> identifier_free v"
  by (auto simp: is_empty_value_def labeled_identifier_def no_match_Nil)

lemma find_paths_iff:
  "find_sensitive_paths p v = [] \<longleftrightarrow> identifier_free v"
  "find_in_fields p kvs = [] \<longleftrightarrow> identifier_free (JObj kvs)"
  "find_in_items p i vs = [] \<longleftrightarrow> identifier_free (JList vs)"
proof (induction p v and p kvs and p i vs
    rule: find_sensitive_paths_find_in_fields_find_in_items.induct)
  case (10 path key nested kvs)
  then show ?case using find_empty_value [of nested]
    by (cases "labeled_identifier key"; cases "is_sensitive_key key"; cases "is_empty_value nested") simp_all
qed simp_all

lemma assert_model_safe_iff: "assert_model_safe v = None \<longleftrightarrow> identifier_free v"
  by (simp add: assert_model_safe_def Let_def find_paths_iff)

text \<open>A text in which no subscriber label begins anywhere is not a labelled identifier.\<close>

fun label_free :: "string \<Rightarrow> bool" where
  "label_free [] = True"
| "label_free (c # cs) = (list_all (\<lambda>l. take (length l) (c # cs) \<noteq> l) identifier_labels \<and>
     label_free cs)"

definition no_label :: "string \<Rightarrow> bool" where
  "no_label s = label_free (py_lower s)"

lemma no_label_clean: "no_label s \<Longrightarrow> \<not> labeled_identifier s"
proof -
  have "label_free (py_lower s) \<Longrightarrow> \<not> search_from prev s" for prev
  proof (induction s arbitrary: prev)
    case (Cons c cs)
    have "label_matches prev (c # cs) = []"
      using Cons.prems by (auto simp: label_matches_def label_ok_def list_all_iff filter_empty_conv
          py_lower_def take_map [symmetric])
    with Cons show ?case by (simp add: match_at_def py_lower_def)
  qed (simp add: no_match_Nil)
  then show "no_label s \<Longrightarrow> \<not> labeled_identifier s"
    by (simp add: labeled_identifier_def no_label_def)
qed

lemmas no_label_eval = no_label_def py_lower_def py_lower_char_def identifier_labels_def

definition plain_key :: "string \<Rightarrow> bool" where
  "plain_key k \<longleftrightarrow> no_label k \<and> \<not> is_sensitive_key k"

lemma identifier_free_obj:
  "list_all plain_key (map fst kvs) \<Longrightarrow> list_all identifier_free (map snd kvs) \<Longrightarrow>
     identifier_free (JObj kvs)"
  by (auto simp: list_all_iff plain_key_def no_label_clean)

lemma identifier_free_objD:
  "identifier_free (JObj kvs) \<Longrightarrow> list_all plain_key (map fst kvs) \<Longrightarrow>
     list_all identifier_free (map snd kvs)"
  by (fastforce simp: list_all_iff plain_key_def split: if_splits)


lemmas plain_key_eval = plain_key_def no_label_eval is_sensitive_key_def normalized_key_def
  SENSITIVE_KEY_NAMES_def

section \<open>Size of canonical texts\<close>

text \<open>An upper bound on the encoded size of a value, computed along its structure.\<close>

fun json_bytes :: "json \<Rightarrow> nat" where
  "json_bytes (JObj kvs) =
     2 + sum_list (map (\<lambda>(k, v). utf8_length (json_quote k) + json_bytes v + 2) kvs)"
| "json_bytes (JList vs) = 2 + sum_list (map (\<lambda>v. json_bytes v + 1) vs)"
| "json_bytes v = utf8_length (json_text v)"

lemma utf8_length_simps [simp]:
  "utf8_length [] = 0" "utf8_length (xs @ ys) = utf8_length xs + utf8_length ys"
  "utf8_length (c # cs) = (if (of_char c :: nat) < 128 then 1 else 2) + utf8_length cs"
  by (simp_all add: utf8_length_def)

lemma utf8_length_ascii: "\<forall>c\<in>set s. (of_char c :: nat) < 128 \<Longrightarrow> utf8_length s = length s"
  by (induction s) (auto simp: utf8_length_def)

lemma sum_list_mset_eq: "mset xs = mset ys \<Longrightarrow> sum_list xs = (sum_list ys :: nat)"
  by (metis sum_mset_sum_list)

lemma utf8_length_join: "utf8_length (join '','' xs) \<le> sum_list (map (\<lambda>x. utf8_length x + 1) xs)"
proof (induction "'',''" xs rule: join.induct)
  case (3 x y zs)
  then show ?case by simp
qed simp_all

lemma json_bytes_bound: "utf8_length (json_text v) \<le> json_bytes v"
proof (induction v rule: json_bytes.induct)
  case (1 kvs)
  let ?q = "\<lambda>(k, t). json_quote k @ '':'' @ t" and ?f = "\<lambda>(k, v). (k, json_text v)"
  let ?n = "\<lambda>p. utf8_length (?q p) + 1"
  have "mset (map ?n (sort_key fst (map ?f kvs))) = mset (map ?n (map ?f kvs))"
    unfolding mset_map mset_sort ..
  then have "sum_list (map ?n (sort_key fst (map ?f kvs))) = sum_list (map ?n (map ?f kvs))"
    by (rule sum_list_mset_eq)
  also have "\<dots> \<le> sum_list (map (\<lambda>(k, v). utf8_length (json_quote k) + json_bytes v + 2) kvs)"
    unfolding map_map by (rule sum_list_mono) (use 1 in \<open>auto split: prod.splits\<close>)
  finally show ?case
    using utf8_length_join [of "map ?q (sort_key fst (map ?f kvs))"] by (simp add: comp_def)
next
  case (2 vs)
  have "sum_list (map (\<lambda>v. utf8_length (json_text v) + 1) vs) \<le> sum_list (map (\<lambda>v. json_bytes v + 1) vs)"
    by (rule sum_list_mono) (use 2 in auto)
  with utf8_length_join [of "map json_text vs"] show ?case by (simp add: comp_def)
qed simp_all

lemma length_show_nat: "n < 10 ^ k \<Longrightarrow> 1 \<le> k \<Longrightarrow> length (show_nat n) \<le> k"
proof (induction n arbitrary: k rule: show_nat.induct)
  case (1 n)
  show ?case
  proof (cases "n < 10")
    case True
    with "1.prems" show ?thesis by (simp add: show_nat.simps [of n])
  next
    case False
    then obtain j where k: "k = Suc j" "1 \<le> j" using "1.prems" by (cases k; cases "k - 1") auto
    from k "1.prems" have "n div 10 < 10 ^ j" by (simp add: less_mult_imp_div_less mult.commute)
    from "1.IH" [OF False this k(2)] False k show ?thesis by (simp add: show_nat.simps [of n])
  qed
qed

lemma show_nat_digits: "\<forall>c\<in>set (show_nat n). (of_char c :: nat) < 128"
proof (induction n rule: show_nat.induct)
  case (1 n)
  have "48 + n mod 10 < 256" by simp
  with 1 show ?case by (subst show_nat.simps) (auto simp: of_char_of)
qed

lemma json_bytes_int: "0 \<le> i \<Longrightarrow> i < 10 ^ k \<Longrightarrow> 1 \<le> k \<Longrightarrow> json_bytes (JInt i) \<le> k"
  using length_show_nat [of "nat i" k] utf8_length_ascii [OF show_nat_digits, of "nat i"]
  by (simp add: show_int_def nat_less_iff)

text \<open>Characters that JSON writes as they are in one byte.\<close>

definition one_byte :: "char \<Rightarrow> bool" where
  "one_byte c = (let n = (of_char c :: nat) in 32 \<le> n \<and> n < 128 \<and> n \<noteq> 34 \<and> n \<noteq> 92)"

lemma utf8_length_quote: "list_all one_byte s \<Longrightarrow> utf8_length (json_quote s) = length s + 2"
proof -
  have "list_all one_byte s \<Longrightarrow> utf8_length (concat (map json_escape s)) = length s"
    by (induction s) (auto simp: one_byte_def json_escape_def Let_def utf8_length_def)
  then show "list_all one_byte s \<Longrightarrow> utf8_length (json_quote s) = length s + 2"
    by (simp add: json_quote_def utf8_length_def)
qed

end
