(* ===== verification/Rca_Models.thy ===== *)
theory Rca_Models
  imports Payloads "HOL-Library.Product_Lexorder"
begin

text \<open>
  \<open>telco_lab/rcaeval_models.py\<close>: the strict contracts of the answer-blind ranking
  and of its sealed evaluation, with the canonical serialisation of
  \<open>telco_lab/schema.py\<close> they are measured and sealed by.  A validator returns the
  message of the \<open>ValueError\<close> it raises, if any; a \<open>Fraction\<close> is a \<open>rat\<close>, whose
  reduced numerator and denominator are \<open>quotient_of\<close>; SHA-256 (\<open>hexdigest\<close> of the
  encoded text) is the parameter \<open>h\<close>.
\<close>

section \<open>Constants and field types\<close>

definition RCA_FEATURE_SCHEMA :: string where
  "RCA_FEATURE_SCHEMA = ''networkagent-rca-feature-set/1.0''"
definition RCA_RANKING_SCHEMA :: string where
  "RCA_RANKING_SCHEMA = ''networkagent-rca-ranking/1.0''"
definition RCA_RANKING_SEAL_SCHEMA :: string where
  "RCA_RANKING_SEAL_SCHEMA = ''networkagent-rca-ranking-seal/1.1''"
definition RCA_EVALUATION_SCHEMA :: string where
  "RCA_EVALUATION_SCHEMA = ''networkagent-rca-evaluation/1.0''"
definition RCA_RANKING_ALGORITHM :: string where
  "RCA_RANKING_ALGORITHM = ''networkagent-multisource-shift-v1''"

definition MAX_FEATURE_AGGREGATES :: nat where "MAX_FEATURE_AGGREGATES = 4096"
definition MAX_FEATURE_CANDIDATES :: nat where "MAX_FEATURE_CANDIDATES = 64"
definition MAX_FEATURE_SERIALIZED_BYTES :: nat where "MAX_FEATURE_SERIALIZED_BYTES = 4 * 1024 * 1024"
definition MAX_RANKING_SERIALIZED_BYTES :: nat where "MAX_RANKING_SERIALIZED_BYTES = 1024 * 1024"
definition MAX_TOTAL_ABSOLUTE :: int where "MAX_TOTAL_ABSOLUTE = 10 ^ 18"
definition MAX_SAMPLE_COUNT :: int where "MAX_SAMPLE_COUNT = 10 ^ 9"
definition PPM_SCALE :: int where "PPM_SCALE = 1000000"
definition MAX_SHIFT_PPM :: int where "MAX_SHIFT_PPM = 1000000000"

lemmas rca_limits = MAX_FEATURE_AGGREGATES_def MAX_FEATURE_CANDIDATES_def MAX_TOTAL_ABSOLUTE_def
  MAX_SAMPLE_COUNT_def PPM_SCALE_def MAX_SHIFT_PPM_def

definition lower_char :: "char \<Rightarrow> bool" where
  "lower_char c = (let n = (of_char c :: nat) in 97 \<le> n \<and> n \<le> 122)"

definition digit_char :: "char \<Rightarrow> bool" where
  "digit_char c = (let n = (of_char c :: nat) in 48 \<le> n \<and> n \<le> 57)"

definition lower_hex :: "char \<Rightarrow> bool" where
  "lower_hex c = (c \<in> set ''0123456789abcdef'')"

text \<open>The tail \<open>[a-z0-9]*(?:-[a-z0-9]+)*\<close> of \<open>CandidateId\<close>; the flag says that a dash was just read.\<close>

fun candidate_tail :: "bool \<Rightarrow> string \<Rightarrow> bool" where
  "candidate_tail dash [] = (\<not> dash)"
| "candidate_tail dash (c # cs) =
     (if lower_char c \<or> digit_char c then candidate_tail False cs
      else c = CHR ''-'' \<and> \<not> dash \<and> candidate_tail True cs)"

definition candidate_id_ok :: "string \<Rightarrow> bool" where
  "candidate_id_ok s \<longleftrightarrow> 1 \<le> length s \<and> length s \<le> 64 \<and>
     (case s of [] \<Rightarrow> False | c # cs \<Rightarrow> lower_char c \<and> candidate_tail False cs)"

definition evidence_id_ok :: "string \<Rightarrow> bool" where
  "evidence_id_ok s \<longleftrightarrow> length s = 76 \<and> take 12 s = ''rcaevidence-'' \<and> list_all lower_hex (drop 12 s)"

definition rca_digest_ok :: "string \<Rightarrow> bool" where
  "rca_digest_ok s \<longleftrightarrow> length s = 64 \<and> list_all lower_hex s"

definition aggregate_total_ok :: "int \<Rightarrow> bool" where
  "aggregate_total_ok v \<longleftrightarrow> - MAX_TOTAL_ABSOLUTE \<le> v \<and> v \<le> MAX_TOTAL_ABSOLUTE"

definition positive_count_ok :: "int \<Rightarrow> bool" where
  "positive_count_ok v \<longleftrightarrow> 1 \<le> v \<and> v \<le> MAX_SAMPLE_COUNT"

definition ppm_ok :: "int \<Rightarrow> bool" where
  "ppm_ok v \<longleftrightarrow> 0 \<le> v \<and> v \<le> PPM_SCALE"

text \<open>\<open>tuple(sorted(set(values)))\<close>.\<close>

definition sorted_set :: "'a::linorder list \<Rightarrow> 'a list" where
  "sorted_set xs = sort (remdups xs)"

text \<open>The bytes of \<open>canonical_json_bytes\<close>: the canonical text, sized by its UTF-8 encoding.\<close>

definition canonical_json_bytes :: "json \<Rightarrow> string" where
  "canonical_json_bytes value = json_text value"

section \<open>Feature sets\<close>

datatype modality = Mod_METRIC | Mod_LOG | Mod_TRACE

fun modality_value :: "modality \<Rightarrow> string" where
  "modality_value Mod_METRIC = ''METRIC''"
| "modality_value Mod_LOG = ''LOG''"
| "modality_value Mod_TRACE = ''TRACE''"

record evidence_aggregate =
  agg_evidence_id :: string
  agg_candidate_id :: string
  agg_modality :: modality
  baseline_total :: int
  baseline_count :: int
  observed_total :: int
  observed_count :: int

definition aggregate_json :: "evidence_aggregate \<Rightarrow> json" where
  "aggregate_json a = JObj [
     (''evidence_id'', JStr (agg_evidence_id a)),
     (''candidate_id'', JStr (agg_candidate_id a)),
     (''modality'', JStr (modality_value (agg_modality a))),
     (''baseline_total'', JInt (baseline_total a)),
     (''baseline_count'', JInt (baseline_count a)),
     (''observed_total'', JInt (observed_total a)),
     (''observed_count'', JInt (observed_count a))]"

text \<open>\<open>_safe_projection\<close> runs \<open>assert_model_safe\<close> on the dump of every model.\<close>

definition validate_aggregate_item :: "evidence_aggregate \<Rightarrow> string option" where
  "validate_aggregate_item a = first_error [
     fail_if (\<not> evidence_id_ok (agg_evidence_id a)) ''evidence_id'',
     fail_if (\<not> candidate_id_ok (agg_candidate_id a)) ''candidate_id'',
     fail_if (\<not> aggregate_total_ok (baseline_total a)) ''baseline_total'',
     fail_if (\<not> positive_count_ok (baseline_count a)) ''baseline_count'',
     fail_if (\<not> aggregate_total_ok (observed_total a)) ''observed_total'',
     fail_if (\<not> positive_count_ok (observed_count a)) ''observed_count'',
     assert_model_safe (aggregate_json a)]"

definition feature_set_json :: "evidence_aggregate list \<Rightarrow> json" where
  "feature_set_json aggregates = JObj [
     (''schema_version'', JStr RCA_FEATURE_SCHEMA),
     (''aggregates'', JList (map aggregate_json aggregates))]"

text \<open>An \<open>RcaFeatureSet\<close> is its tuple of aggregates; its schema version is a literal.\<close>

definition validate_feature_set :: "evidence_aggregate list \<Rightarrow> string option" where
  "validate_feature_set aggregates = first_error (map validate_aggregate_item aggregates @ [
     fail_if (length aggregates > MAX_FEATURE_AGGREGATES) ''aggregates'',
     assert_model_safe (feature_set_json aggregates),
     fail_if (length (map agg_evidence_id aggregates) \<noteq> card (set (map agg_evidence_id aggregates)))
       ''feature evidence identifiers must be unique'',
     fail_if (card (set (map agg_candidate_id aggregates)) > MAX_FEATURE_CANDIDATES)
       ''feature candidate budget exceeded'',
     fail_if (utf8_length (canonical_json_bytes (feature_set_json aggregates))
         > MAX_FEATURE_SERIALIZED_BYTES)
       ''feature set serialized budget exceeded''])"

section \<open>Rankings\<close>

record rca_ranked_candidate =
  rc_candidate_id :: string
  rc_rank :: int
  score_numerator :: int
  score_denominator :: int
  rc_evidence_ids :: "string list"

definition candidate_json :: "rca_ranked_candidate \<Rightarrow> json" where
  "candidate_json c = JObj [
     (''candidate_id'', JStr (rc_candidate_id c)),
     (''rank'', JInt (rc_rank c)),
     (''score_numerator'', JInt (score_numerator c)),
     (''score_denominator'', JInt (score_denominator c)),
     (''evidence_ids'', JList (map JStr (rc_evidence_ids c)))]"

definition score_part_ok :: "int \<Rightarrow> bool" where
  "score_part_ok v \<longleftrightarrow> 1 \<le> v \<and> v \<le> MAX_TOTAL_ABSOLUTE"

definition validate_ranked_candidate :: "rca_ranked_candidate \<Rightarrow> string option" where
  "validate_ranked_candidate c = first_error [
     fail_if (\<not> candidate_id_ok (rc_candidate_id c)) ''candidate_id'',
     fail_if (\<not> (1 \<le> rc_rank c \<and> rc_rank c \<le> int MAX_FEATURE_CANDIDATES)) ''rank'',
     fail_if (\<not> score_part_ok (score_numerator c)) ''score_numerator'',
     fail_if (\<not> score_part_ok (score_denominator c)) ''score_denominator'',
     fail_if (\<not> (1 \<le> length (rc_evidence_ids c) \<and> length (rc_evidence_ids c) \<le> MAX_FEATURE_AGGREGATES
         \<and> list_all evidence_id_ok (rc_evidence_ids c))) ''evidence_ids'',
     assert_model_safe (candidate_json c),
     fail_if (gcd (score_numerator c) (score_denominator c) \<noteq> 1)
       ''ranking score fraction must be reduced'',
     fail_if (rc_evidence_ids c \<noteq> sorted_set (rc_evidence_ids c))
       ''ranking evidence identifiers must be unique and sorted'']"

definition candidate_score :: "rca_ranked_candidate \<Rightarrow> rat" where
  "candidate_score c = Fract (score_numerator c) (score_denominator c)"

datatype ranking_outcome = Out_RANKED | Out_INCONCLUSIVE

fun ranking_outcome_value :: "ranking_outcome \<Rightarrow> string" where
  "ranking_outcome_value Out_RANKED = ''RANKED''"
| "ranking_outcome_value Out_INCONCLUSIVE = ''INCONCLUSIVE''"

record rca_ranking =
  outcome :: ranking_outcome
  candidates :: "rca_ranked_candidate list"

definition ranking_json :: "rca_ranking \<Rightarrow> json" where
  "ranking_json r = JObj [
     (''schema_version'', JStr RCA_RANKING_SCHEMA),
     (''algorithm'', JStr RCA_RANKING_ALGORITHM),
     (''outcome'', JStr (ranking_outcome_value (outcome r))),
     (''candidates'', JList (map candidate_json (candidates r)))]"

definition ranking_canonical_bytes :: "rca_ranking \<Rightarrow> string" where
  "ranking_canonical_bytes r = canonical_json_bytes (ranking_json r)"

text \<open>The loop over \<open>enumerate(self.candidates, start=1)\<close> with its \<open>previous\<close> candidate.\<close>

definition not_after :: "rca_ranked_candidate \<Rightarrow> rca_ranked_candidate \<Rightarrow> bool" where
  "not_after previous item \<longleftrightarrow> candidate_score item > candidate_score previous \<or>
     (candidate_score item = candidate_score previous \<and> rc_candidate_id item \<le> rc_candidate_id previous)"

fun check_positions :: "int \<Rightarrow> rca_ranked_candidate option \<Rightarrow> rca_ranked_candidate list \<Rightarrow> string option" where
  "check_positions expected_rank previous [] = None"
| "check_positions expected_rank previous (item # items) =
     (if rc_rank item \<noteq> expected_rank then Some ''ranking positions must be contiguous''
      else if case_option False (\<lambda>p. not_after p item) previous
      then Some ''ranking order is not deterministic''
      else check_positions (expected_rank + 1) (Some item) items)"

definition validate_ranking :: "rca_ranking \<Rightarrow> string option" where
  "validate_ranking r = first_error (map validate_ranked_candidate (candidates r) @ [
     fail_if (length (candidates r) > MAX_FEATURE_CANDIDATES) ''candidates'',
     assert_model_safe (ranking_json r),
     fail_if ((outcome r = Out_RANKED) \<noteq> (candidates r \<noteq> []))
       ''ranking outcome and candidates are inconsistent'',
     fail_if (length (candidates r) \<noteq> card (set (map rc_candidate_id (candidates r))))
       ''ranked candidates must be unique'',
     (let evidence_ids = concat (map rc_evidence_ids (candidates r)) in
      fail_if (length evidence_ids \<noteq> card (set evidence_ids)) ''ranking evidence references must be unique''),
     check_positions 1 None (candidates r),
     fail_if (utf8_length (ranking_canonical_bytes r) > MAX_RANKING_SERIALIZED_BYTES)
       ''ranking serialized budget exceeded''])"

record rca_ranking_seal =
  feature_sha256 :: string
  ranking :: rca_ranking
  ranking_sha256 :: string

definition seal_json :: "rca_ranking_seal \<Rightarrow> json" where
  "seal_json s = JObj [
     (''schema_version'', JStr RCA_RANKING_SEAL_SCHEMA),
     (''feature_sha256'', JStr (feature_sha256 s)),
     (''ranking'', ranking_json (ranking s)),
     (''ranking_sha256'', JStr (ranking_sha256 s))]"

definition validate_seal :: "(string \<Rightarrow> string) \<Rightarrow> rca_ranking_seal \<Rightarrow> string option" where
  "validate_seal h s = first_error [
     fail_if (\<not> rca_digest_ok (feature_sha256 s)) ''feature_sha256'',
     validate_ranking (ranking s),
     fail_if (\<not> rca_digest_ok (ranking_sha256 s)) ''ranking_sha256'',
     assert_model_safe (seal_json s),
     fail_if (ranking_sha256 s \<noteq> h (ranking_canonical_bytes (ranking s)))
       ''ranking seal digest does not match canonical bytes'']"

section \<open>Answers and reports\<close>

record rca_truth =
  truth_candidate_id :: string
  valid_evidence_ids :: "string list"

definition truth_json :: "rca_truth \<Rightarrow> json" where
  "truth_json t = JObj [
     (''candidate_id'', JStr (truth_candidate_id t)),
     (''valid_evidence_ids'', JList (map JStr (valid_evidence_ids t)))]"

definition validate_truth :: "rca_truth \<Rightarrow> string option" where
  "validate_truth t = first_error [
     fail_if (\<not> candidate_id_ok (truth_candidate_id t)) ''candidate_id'',
     fail_if (\<not> (length (valid_evidence_ids t) \<le> MAX_FEATURE_AGGREGATES \<and>
        list_all evidence_id_ok (valid_evidence_ids t))) ''valid_evidence_ids'',
     assert_model_safe (truth_json t),
     fail_if (valid_evidence_ids t \<noteq> sorted_set (valid_evidence_ids t))
       ''valid evidence identifiers must be unique and sorted'']"

record rca_evaluation_report =
  sample_count :: int
  ranked_count :: int
  inconclusive_count :: int
  ac_at_1_ppm :: int
  ac_at_2_ppm :: int
  ac_at_3_ppm :: int
  ac_at_4_ppm :: int
  ac_at_5_ppm :: int
  avg_at_5_ppm :: int
  mrr_ppm :: int
  evidence_reference_count :: int
  valid_evidence_reference_count :: int
  evidence_validity_ppm :: int

definition report_json :: "rca_evaluation_report \<Rightarrow> json" where
  "report_json r = JObj [
     (''schema_version'', JStr RCA_EVALUATION_SCHEMA),
     (''ranking_algorithm'', JStr RCA_RANKING_ALGORITHM),
     (''sample_count'', JInt (sample_count r)),
     (''ranked_count'', JInt (ranked_count r)),
     (''inconclusive_count'', JInt (inconclusive_count r)),
     (''ac_at_1_ppm'', JInt (ac_at_1_ppm r)),
     (''ac_at_2_ppm'', JInt (ac_at_2_ppm r)),
     (''ac_at_3_ppm'', JInt (ac_at_3_ppm r)),
     (''ac_at_4_ppm'', JInt (ac_at_4_ppm r)),
     (''ac_at_5_ppm'', JInt (ac_at_5_ppm r)),
     (''avg_at_5_ppm'', JInt (avg_at_5_ppm r)),
     (''mrr_ppm'', JInt (mrr_ppm r)),
     (''evidence_reference_count'', JInt (evidence_reference_count r)),
     (''valid_evidence_reference_count'', JInt (valid_evidence_reference_count r)),
     (''evidence_validity_ppm'', JInt (evidence_validity_ppm r))]"

definition report_accuracies :: "rca_evaluation_report \<Rightarrow> int list" where
  "report_accuracies r = [ac_at_1_ppm r, ac_at_2_ppm r, ac_at_3_ppm r, ac_at_4_ppm r, ac_at_5_ppm r]"

definition report_fields_ok :: "rca_evaluation_report \<Rightarrow> bool" where
  "report_fields_ok r \<longleftrightarrow> 1 \<le> sample_count r \<and> sample_count r \<le> 10000 \<and>
     0 \<le> ranked_count r \<and> ranked_count r \<le> 10000 \<and>
     0 \<le> inconclusive_count r \<and> inconclusive_count r \<le> 10000 \<and>
     list_all ppm_ok (report_accuracies r) \<and> ppm_ok (avg_at_5_ppm r) \<and> ppm_ok (mrr_ppm r) \<and>
     0 \<le> evidence_reference_count r \<and> evidence_reference_count r \<le> 100000 \<and>
     0 \<le> valid_evidence_reference_count r \<and> valid_evidence_reference_count r \<le> 100000 \<and>
     ppm_ok (evidence_validity_ppm r)"

definition validate_report :: "rca_evaluation_report \<Rightarrow> string option" where
  "validate_report r = first_error [
     fail_if (\<not> report_fields_ok r) ''field'',
     assert_model_safe (report_json r),
     fail_if (ranked_count r + inconclusive_count r \<noteq> sample_count r)
       ''evaluation outcome counts are inconsistent'',
     fail_if (report_accuracies r \<noteq> sort (report_accuracies r))
       ''cumulative accuracy must be nondecreasing'',
     fail_if (valid_evidence_reference_count r > evidence_reference_count r)
       ''valid evidence count exceeds reference count'',
     fail_if (evidence_reference_count r = 0 \<and> evidence_validity_ppm r \<noteq> 0)
       ''empty evidence must have zero validity'']"


section \<open>Sorted sets\<close>

lemma sorted_set_fixed: "xs = sorted_set xs \<longleftrightarrow> sorted xs \<and> distinct xs"
proof
  assume "xs = sorted_set xs"
  then have "sorted xs \<and> distinct xs" unfolding sorted_set_def
    by (metis distinct_remdups distinct_sort sorted_sort)
  then show "sorted xs \<and> distinct xs" .
next
  assume "sorted xs \<and> distinct xs"
  then show "xs = sorted_set xs"
    by (simp add: sorted_set_def distinct_remdups_id sort_key_id_if_sorted)
qed

section \<open>Names of the canonical values\<close>

lemma rca_keys_plain [simp]:
  "plain_key ''evidence_id''" "plain_key ''candidate_id''" "plain_key ''modality''"
  "plain_key ''baseline_total''" "plain_key ''baseline_count''" "plain_key ''observed_total''"
  "plain_key ''observed_count''" "plain_key ''schema_version''" "plain_key ''aggregates''"
  "plain_key ''rank''" "plain_key ''score_numerator''" "plain_key ''score_denominator''"
  "plain_key ''evidence_ids''" "plain_key ''algorithm''" "plain_key ''outcome''"
  "plain_key ''candidates''" "plain_key ''feature_sha256''" "plain_key ''ranking''"
  "plain_key ''ranking_sha256''" "plain_key ''valid_evidence_ids''"
  by (simp_all add: plain_key_eval)

lemma report_keys_plain [simp]:
  "plain_key ''ranking_algorithm''" "plain_key ''sample_count''" "plain_key ''ranked_count''"
  "plain_key ''inconclusive_count''" "plain_key ''ac_at_1_ppm''" "plain_key ''ac_at_2_ppm''"
  "plain_key ''ac_at_3_ppm''" "plain_key ''ac_at_4_ppm''" "plain_key ''ac_at_5_ppm''"
  "plain_key ''avg_at_5_ppm''" "plain_key ''mrr_ppm''" "plain_key ''evidence_reference_count''"
  "plain_key ''valid_evidence_reference_count''" "plain_key ''evidence_validity_ppm''"
  by (simp_all add: plain_key_eval)

lemma rca_literals_clean [simp]:
  "\<not> labeled_identifier RCA_FEATURE_SCHEMA" "\<not> labeled_identifier RCA_RANKING_SCHEMA"
  "\<not> labeled_identifier RCA_RANKING_SEAL_SCHEMA" "\<not> labeled_identifier RCA_EVALUATION_SCHEMA"
  "\<not> labeled_identifier RCA_RANKING_ALGORITHM"
  by (rule no_label_clean, simp add: no_label_eval RCA_FEATURE_SCHEMA_def RCA_RANKING_SCHEMA_def
      RCA_RANKING_SEAL_SCHEMA_def RCA_EVALUATION_SCHEMA_def RCA_RANKING_ALGORITHM_def)+

lemma rca_values_clean [simp]:
  "\<not> labeled_identifier (modality_value m)" "\<not> labeled_identifier (ranking_outcome_value oc)"
  by (rule no_separator_clean; cases m; simp add: py_isspace_def separator_char_def)
    (rule no_separator_clean; cases oc; simp add: py_isspace_def separator_char_def)

lemma hex_not_separator: "\<forall>c\<in>set ''0123456789abcdef''. \<not> py_isspace c \<and> \<not> separator_char c"
  by (simp add: py_isspace_def separator_char_def)

lemma rca_digest_clean: "rca_digest_ok s \<Longrightarrow> \<not> labeled_identifier s"
  using hex_not_separator
  by (intro no_separator_clean) (auto simp: rca_digest_ok_def list_all_iff lower_hex_def simp del: list.set)


end
