(* ===== verification/Rca_Ranking.thy ===== *)
theory Rca_Ranking
  imports Rca_Models
begin

text \<open>
  \<open>telco_lab/rcaeval_ranking.py\<close>: the deterministic multi-modal shift ranking.  A
  value of the wrong Python type is \<open>Other_type\<close>, a field that should hold a tuple is
  a \<open>tuple_arg\<close>.  The nested dictionary \<open>grouped\<close> is an association list in insertion
  order.  The lemmas show what the grouping collects, that the ranking of a valid
  feature set always passes every check of its own contracts (so sealing never fails),
  and that it does not depend on the order of the aggregates.
\<close>

section \<open>Model\<close>

datatype evaluation_error = evaluation_invalid_input | evaluation_type_confusion
  | evaluation_limit_exceeded

text \<open>A failure inside the error boundary: an \<open>EvaluationError\<close> or any other exception.\<close>

datatype rca_failure = Evaluation_error evaluation_error | Other_exception

datatype 'a py_object = Exact 'a | Other_type

datatype 'a tuple_arg = Tuple "'a list" | Sized nat | Unsized

text \<open>\<open>len(value)\<close>; \<open>None\<close> stands for the exception it raises.\<close>

fun py_len :: "'a tuple_arg \<Rightarrow> nat option" where
  "py_len (Tuple xs) = Some (length xs)"
| "py_len (Sized n) = Some n"
| "py_len Unsized = None"

definition normalized :: "evidence_aggregate tuple_arg py_object
    \<Rightarrow> evaluation_error + evidence_aggregate list" where
  "normalized features = (case features of
     Other_type \<Rightarrow> Inl evaluation_type_confusion
   | Exact aggregates \<Rightarrow> (case py_len aggregates of
       None \<Rightarrow> Inl evaluation_invalid_input
     | Some item_count \<Rightarrow>
         if item_count > MAX_FEATURE_AGGREGATES then Inl evaluation_limit_exceeded
         else (case aggregates of
             Tuple items \<Rightarrow> (if validate_feature_set items = None then Inr items
               else Inl evaluation_invalid_input)
           | _ \<Rightarrow> Inl evaluation_invalid_input)))"

definition shift :: "int \<Rightarrow> int \<Rightarrow> int \<Rightarrow> int \<Rightarrow> int" where
  "shift b_total b_count o_total o_count =
     (let observed_cross = o_total * b_count;
          baseline_cross = b_total * o_count;
          delta = \<bar>observed_cross - baseline_cross\<bar>;
          denominator = (if \<bar>b_total\<bar> \<ge> b_count
             then o_count * \<bar>b_total\<bar>
             else o_count * b_count);
          value = (delta * PPM_SCALE) div denominator
      in min value MAX_SHIFT_PPM)"

definition aggregate_shift :: "evidence_aggregate \<Rightarrow> int" where
  "aggregate_shift item = shift (baseline_total item) (baseline_count item)
     (observed_total item) (observed_count item)"

type_synonym entries = "(int \<times> string) list"
type_synonym grouping = "(string, (string, entries) dict) dict"

text \<open>\<open>d[k]\<close> where a missing key was set to the empty container just before.\<close>

definition get_or_empty :: "'k \<Rightarrow> ('k, 'v list) dict \<Rightarrow> 'v list" where
  "get_or_empty k d = (case map_of d k of None \<Rightarrow> [] | Some v \<Rightarrow> v)"

definition group_item :: "grouping \<Rightarrow> evidence_aggregate \<Rightarrow> grouping" where
  "group_item grouped item =
     (let value = aggregate_shift item in
      if value \<le> 0 then grouped
      else let candidate_values = get_or_empty (agg_candidate_id item) grouped;
               modality = modality_value (agg_modality item);
               entries = get_or_empty modality candidate_values
           in AList.update (agg_candidate_id item)
                (AList.update modality (entries @ [(value, agg_evidence_id item)]) candidate_values)
                grouped)"

definition group_items :: "evidence_aggregate list \<Rightarrow> grouping" where
  "group_items aggregates = foldl group_item [] (sort_key agg_evidence_id aggregates)"

definition modality_score :: "entries \<Rightarrow> int" where
  "modality_score entries = sum_list (map fst entries) div int (length entries)"

type_synonym scored = "rat \<times> string \<times> string list"

definition score_candidate :: "string \<Rightarrow> (string, entries) dict \<Rightarrow> scored option" where
  "score_candidate candidate_id modality_values =
     (if length modality_values < 2 then None
      else let columns = map (\<lambda>m. get_or_empty m modality_values) (sort (map fst modality_values));
               modality_scores = map modality_score columns;
               evidence_ids = concat (map (map snd) columns);
               score = Fract (sum_list modality_scores) (int (length modality_scores) * PPM_SCALE)
           in if score > 0 then Some (score, candidate_id, sort evidence_ids) else None)"

definition score_all :: "grouping \<Rightarrow> scored list" where
  "score_all grouped = List.map_filter (\<lambda>c. score_candidate c (get_or_empty c grouped))
     (sort (map fst grouped))"

definition order_scored :: "scored list \<Rightarrow> scored list" where
  "order_scored scored = sort_key (\<lambda>(score, candidate_id, _). (- score, candidate_id)) scored"

definition ranked_candidate :: "nat \<Rightarrow> scored \<Rightarrow> rca_ranked_candidate" where
  "ranked_candidate index item = (case item of (score, candidate_id, evidence_ids) \<Rightarrow>
     \<lparr>rc_candidate_id = candidate_id, rc_rank = int index,
      score_numerator = fst (quotient_of score), score_denominator = snd (quotient_of score),
      rc_evidence_ids = evidence_ids\<rparr>)"

definition number_candidates :: "scored list \<Rightarrow> rca_ranked_candidate list" where
  "number_candidates scored = map (\<lambda>(index, item). ranked_candidate index item) (enumerate 1 scored)"

definition build_ranking :: "evidence_aggregate list \<Rightarrow> rca_ranking" where
  "build_ranking aggregates =
     (let numbered = number_candidates (order_scored (score_all (group_items aggregates)))
      in \<lparr>outcome = (if numbered \<noteq> [] then Out_RANKED else Out_INCONCLUSIVE), candidates = numbered\<rparr>)"

definition rank_rca_features_inner :: "(string \<Rightarrow> string) \<Rightarrow> evidence_aggregate tuple_arg py_object
    \<Rightarrow> rca_failure + rca_ranking_seal" where
  "rank_rca_features_inner h features = (case normalized features of
     Inl e \<Rightarrow> Inl (Evaluation_error e)
   | Inr aggregates \<Rightarrow>
       let feature_digest = h (canonical_json_bytes (feature_set_json aggregates));
           scored = order_scored (score_all (group_items aggregates));
           result = build_ranking aggregates;
           seal = \<lparr>feature_sha256 = feature_digest, ranking = result,
             ranking_sha256 = h (ranking_canonical_bytes result)\<rparr>
       in if length scored > MAX_FEATURE_CANDIDATES
          then Inl (Evaluation_error evaluation_limit_exceeded)
          else if list_ex (\<lambda>c. validate_ranked_candidate c \<noteq> None) (candidates result)
          then Inl Other_exception
          else if validate_ranking result \<noteq> None \<or> validate_seal h seal \<noteq> None
          then Inl (Evaluation_error evaluation_invalid_input)
          else Inr seal)"

definition rank_rca_features :: "(string \<Rightarrow> string) \<Rightarrow> evidence_aggregate tuple_arg py_object
    \<Rightarrow> evaluation_error + rca_ranking_seal" where
  "rank_rca_features h features = (case rank_rca_features_inner h features of
     Inl (Evaluation_error code) \<Rightarrow> Inl code
   | Inl Other_exception \<Rightarrow> Inl evaluation_invalid_input
   | Inr seal \<Rightarrow> Inr seal)"

section \<open>Shifts\<close>

lemma shift_bounds:
  assumes "1 \<le> bc" and "1 \<le> oc"
  shows "0 \<le> shift bt bc ot oc" "shift bt bc ot oc \<le> MAX_SHIFT_PPM"
proof -
  have "0 < (if \<bar>bt\<bar> \<ge> bc then oc * \<bar>bt\<bar> else oc * bc)" using assms by (auto intro: mult_pos_pos)
  then show "0 \<le> shift bt bc ot oc" "shift bt bc ot oc \<le> MAX_SHIFT_PPM"
    by (simp_all add: shift_def Let_def PPM_SCALE_def MAX_SHIFT_PPM_def pos_imp_zdiv_nonneg_iff)
qed

section \<open>What the grouping collects\<close>

definition entries_of :: "grouping \<Rightarrow> string \<Rightarrow> string \<Rightarrow> entries" where
  "entries_of g c m = get_or_empty m (get_or_empty c g)"

definition contributes :: "string \<Rightarrow> string \<Rightarrow> evidence_aggregate \<Rightarrow> bool" where
  "contributes c m a \<longleftrightarrow> 0 < aggregate_shift a \<and> agg_candidate_id a = c \<and>
     modality_value (agg_modality a) = m"

definition entry_of :: "evidence_aggregate \<Rightarrow> int \<times> string" where
  "entry_of a = (aggregate_shift a, agg_evidence_id a)"

text \<open>Every key of the grouping holds at least one entry.\<close>

definition grouping_ok :: "grouping \<Rightarrow> bool" where
  "grouping_ok g \<longleftrightarrow> distinct (map fst g) \<and>
     (\<forall>(c, d)\<in>set g. d \<noteq> [] \<and> distinct (map fst d) \<and> (\<forall>(m, e)\<in>set d. e \<noteq> []))"

lemma get_or_empty_update: "get_or_empty k (AList.update k' v d) = (if k = k' then v else get_or_empty k d)"
  by (simp add: get_or_empty_def)

lemma get_or_empty_Nil [simp]: "get_or_empty k [] = []"
  by (simp add: get_or_empty_def)

lemma get_or_empty_in: "distinct (map fst d) \<Longrightarrow> (k, v) \<in> set d \<Longrightarrow> get_or_empty k d = v"
  by (simp add: get_or_empty_def)

lemma get_or_empty_dom: "get_or_empty k d \<noteq> [] \<Longrightarrow> (k, get_or_empty k d) \<in> set d"
  by (auto simp: get_or_empty_def split: option.splits dest: map_of_SomeD)

lemma set_update_cases: "(c, x) \<in> set (AList.update k v d) \<Longrightarrow> (c, x) = (k, v) \<or> (c, x) \<in> set d"
  by (induction d) (auto split: if_splits)

lemma entries_of_group_item:
  "entries_of (group_item g a) c m = entries_of g c m @ (if contributes c m a then [entry_of a] else [])"
  by (auto simp: entries_of_def group_item_def Let_def get_or_empty_update contributes_def entry_of_def)

lemma grouping_ok_item: "grouping_ok g \<Longrightarrow> grouping_ok (group_item g a)"
proof (cases "aggregate_shift a \<le> 0")
  case False
  assume g: "grouping_ok g"
  let ?cv = "get_or_empty (agg_candidate_id a) g"
  have cv: "distinct (map fst ?cv) \<and> (\<forall>(m, e)\<in>set ?cv. e \<noteq> [])"
  proof (cases "?cv = []")
    case False
    with get_or_empty_dom [OF this] g show ?thesis by (fastforce simp: grouping_ok_def)
  qed simp
  let ?m = "modality_value (agg_modality a)"
  let ?d = "AList.update ?m (get_or_empty ?m ?cv @ [(aggregate_shift a, agg_evidence_id a)]) ?cv"
  have "?d \<noteq> []" by (cases ?cv) (auto split: if_splits)
  moreover have "distinct (map fst ?d)" using cv by (simp add: distinct_update)
  moreover have "\<forall>(m, e)\<in>set ?d. e \<noteq> []" using cv by (auto dest!: set_update_cases)
  ultimately show ?thesis using g False
    by (auto simp: group_item_def Let_def grouping_ok_def distinct_update dest!: set_update_cases)
qed (simp add: group_item_def)

lemma foldl_group:
  "entries_of (foldl group_item g xs) c m = entries_of g c m @ map entry_of (filter (contributes c m) xs)"
  "grouping_ok g \<Longrightarrow> grouping_ok (foldl group_item g xs)"
  by (induction xs arbitrary: g) (simp_all add: entries_of_group_item grouping_ok_item)

lemma group_items_ok: "grouping_ok (group_items xs)"
  unfolding group_items_def by (rule foldl_group(2)) (simp add: grouping_ok_def)

lemma entries_of_group_items:
  "entries_of (group_items xs) c m = map entry_of (filter (contributes c m) (sort_key agg_evidence_id xs))"
  unfolding group_items_def foldl_group(1) by (simp add: entries_of_def)

lemma grouping_modalities:
  assumes "grouping_ok g"
  shows "m \<in> fst ` set (get_or_empty c g) \<longleftrightarrow> entries_of g c m \<noteq> []"
    and "distinct (map fst (get_or_empty c g))"
proof -
  have d: "distinct (map fst (get_or_empty c g)) \<and> (\<forall>(m, e)\<in>set (get_or_empty c g). e \<noteq> [])"
  proof (cases "get_or_empty c g = []")
    case False
    with get_or_empty_dom [OF this] assms show ?thesis by (fastforce simp: grouping_ok_def)
  qed simp
  then show "distinct (map fst (get_or_empty c g))" by simp
  show "m \<in> fst ` set (get_or_empty c g) \<longleftrightarrow> entries_of g c m \<noteq> []"
  proof
    assume "m \<in> fst ` set (get_or_empty c g)"
    then obtain e where e: "(m, e) \<in> set (get_or_empty c g)" by auto
    from get_or_empty_in [OF _ e] d e show "entries_of g c m \<noteq> []" by (auto simp: entries_of_def)
  next
    assume "entries_of g c m \<noteq> []"
    then show "m \<in> fst ` set (get_or_empty c g)"
      using get_or_empty_dom [of m "get_or_empty c g"] by (force simp: entries_of_def)
  qed
qed

lemma grouping_candidates:
  assumes "grouping_ok g"
  shows "c \<in> fst ` set g \<longleftrightarrow> get_or_empty c g \<noteq> []"
proof
  assume "c \<in> fst ` set g"
  then obtain d where d: "(c, d) \<in> set g" by auto
  with assms have "d \<noteq> []" "get_or_empty c g = d"
    by (auto simp: grouping_ok_def get_or_empty_in)
  then show "get_or_empty c g \<noteq> []" by simp
next
  assume "get_or_empty c g \<noteq> []"
  from get_or_empty_dom [OF this] show "c \<in> fst ` set g" by force
qed

section \<open>Scores\<close>

definition well_formed_items :: "evidence_aggregate list \<Rightarrow> bool" where
  "well_formed_items xs \<longleftrightarrow> distinct (map agg_evidence_id xs) \<and>
     (\<forall>a\<in>set xs. 1 \<le> baseline_count a \<and> 1 \<le> observed_count a)"

lemma item_by_evidence:
  "well_formed_items xs \<Longrightarrow> a \<in> set xs \<Longrightarrow> b \<in> set xs \<Longrightarrow>
     agg_evidence_id a = agg_evidence_id b \<Longrightarrow> a = b"
  by (auto simp: well_formed_items_def distinct_map dest: inj_onD)

lemma entry_bounds:
  assumes "well_formed_items xs" and "(v, e) \<in> set (entries_of (group_items xs) c m)"
  shows "1 \<le> v \<and> v \<le> MAX_SHIFT_PPM"
proof -
  from assms(2) obtain a where a: "a \<in> set xs" "0 < aggregate_shift a" "v = aggregate_shift a"
    by (auto simp: entries_of_group_items contributes_def entry_of_def)
  with assms(1) shift_bounds(2) [of "baseline_count a" "observed_count a"] show ?thesis
    by (simp add: well_formed_items_def aggregate_shift_def)
qed

lemma sum_list_bounds:
  fixes vs :: "int list"
  assumes "\<forall>v\<in>set vs. lo \<le> v \<and> v \<le> hi"
  shows "lo * int (length vs) \<le> sum_list vs" "sum_list vs \<le> hi * int (length vs)"
  using assms by (induction vs) (auto simp: algebra_simps)

lemma modality_score_bounds:
  assumes "es \<noteq> []" and "\<forall>(v, e)\<in>set es. 1 \<le> v \<and> v \<le> hi"
  shows "1 \<le> modality_score es" "modality_score es \<le> hi"
proof -
  have b: "\<forall>v\<in>set (map fst es). 1 \<le> v \<and> v \<le> hi" using assms(2) by auto
  have n: "0 < int (length es)" using assms(1) by simp
  have s: "int (length es) \<le> sum_list (map fst es)" "sum_list (map fst es) \<le> hi * int (length es)"
    using sum_list_bounds [OF b] by simp_all
  from n s(1) show "1 \<le> modality_score es"
    by (simp add: modality_score_def pos_imp_zdiv_pos_iff int_one_le_iff_zero_less)
  have "sum_list (map fst es) div int (length es) \<le> hi * int (length es) div int (length es)"
    by (rule zdiv_mono1 [OF s(2) n])
  with n show "modality_score es \<le> hi" by (simp add: modality_score_def)
qed

lemma zdiv_le_self: "0 \<le> a \<Longrightarrow> 1 \<le> d \<Longrightarrow> a div d \<le> (a :: int)"
  using zdiv_mono2 [of a 1 d] by simp

lemma fraction_parts:
  assumes "1 \<le> a" and "1 \<le> b"
  shows "1 \<le> fst (quotient_of (Fract a b))" "fst (quotient_of (Fract a b)) \<le> a"
    "1 \<le> snd (quotient_of (Fract a b))" "snd (quotient_of (Fract a b)) \<le> b"
    "gcd (fst (quotient_of (Fract a b))) (snd (quotient_of (Fract a b))) = 1"
proof -
  have q: "quotient_of (Fract a b) = (a div gcd a b, b div gcd a b)"
    using assms by (simp add: quotient_of_Fract Rat.normalize_def Let_def)
  have g: "1 \<le> gcd a b" using assms by (simp add: int_one_le_iff_zero_less)
  have "gcd a b \<le> a" "gcd a b \<le> b" using assms by (simp_all add: gcd_le1_int gcd_le2_int)
  then have "0 < a div gcd a b" "0 < b div gcd a b"
    using assms g by (simp_all add: pos_imp_zdiv_pos_iff)
  moreover have "a div gcd a b \<le> a" "b div gcd a b \<le> b"
    using assms g by (simp_all add: zdiv_le_self)
  moreover have "gcd (a div gcd a b) (b div gcd a b) = 1"
    using assms by (simp add: div_gcd_coprime flip: coprime_iff_gcd_eq_1)
  ultimately show "1 \<le> fst (quotient_of (Fract a b))" "fst (quotient_of (Fract a b)) \<le> a"
    "1 \<le> snd (quotient_of (Fract a b))" "snd (quotient_of (Fract a b)) \<le> b"
    "gcd (fst (quotient_of (Fract a b))) (snd (quotient_of (Fract a b))) = 1"
    by (simp_all add: q)
qed

lemma distinct_concat_map:
  assumes "distinct ms" and "\<forall>m\<in>set ms. distinct (f m)"
    and "\<And>m n x. m \<in> set ms \<Longrightarrow> n \<in> set ms \<Longrightarrow> x \<in> set (f m) \<Longrightarrow> x \<in> set (f n) \<Longrightarrow> m = n"
  shows "distinct (concat (map f ms))"
  using assms
proof (induction ms)
  case (Cons a ms)
  have "distinct (concat (map f ms))"
    by (rule Cons.IH) (use Cons.prems in \<open>auto intro: Cons.prems(3)\<close>)
  moreover have "set (f a) \<inter> set (concat (map f ms)) = {}"
    using Cons.prems(1) Cons.prems(3) [of a] by fastforce
  ultimately show ?case using Cons.prems(2) by simp
qed simp

lemma modalities_three: "distinct ms \<Longrightarrow> set ms \<subseteq> range modality_value \<Longrightarrow> length ms \<le> 3"
proof -
  assume ms: "distinct ms" "set ms \<subseteq> range modality_value"
  have "range modality_value \<subseteq> {''METRIC'', ''LOG'', ''TRACE''}"
  proof
    fix x assume "x \<in> range modality_value"
    then obtain m where "x = modality_value m" by auto
    then show "x \<in> {''METRIC'', ''LOG'', ''TRACE''}" by (cases m) auto
  qed
  with ms have "card (set ms) \<le> card {''METRIC'', ''LOG'', ''TRACE''}" by (intro card_mono) auto
  with ms show "length ms \<le> 3" by (simp add: distinct_card card_insert_if split: if_splits)
qed

text \<open>The modalities in which a candidate shows a positive shift, in the order they are scored.\<close>

definition shifted_modalities :: "evidence_aggregate list \<Rightarrow> string \<Rightarrow> string list" where
  "shifted_modalities xs c = sort (map fst (get_or_empty c (group_items xs)))"

lemma shifted_modalities:
  "distinct (shifted_modalities xs c)"
  "m \<in> set (shifted_modalities xs c) \<longleftrightarrow> (\<exists>a\<in>set xs. contributes c m a)"
  "m \<in> set (shifted_modalities xs c) \<Longrightarrow> entries_of (group_items xs) c m \<noteq> []"
  "length (shifted_modalities xs c) \<le> 3"
proof -
  let ?g = "group_items xs"
  show d: "distinct (shifted_modalities xs c)"
    by (simp add: shifted_modalities_def grouping_modalities(2) group_items_ok)
  show i: "m \<in> set (shifted_modalities xs c) \<longleftrightarrow> (\<exists>a\<in>set xs. contributes c m a)" for m
    using grouping_modalities(1) [OF group_items_ok, of m c xs]
    by (auto simp: shifted_modalities_def entries_of_group_items filter_empty_conv)
  show "m \<in> set (shifted_modalities xs c) \<Longrightarrow> entries_of (group_items xs) c m \<noteq> []"
    using grouping_modalities(1) [OF group_items_ok, of m c xs] by (auto simp: shifted_modalities_def)
  show "length (shifted_modalities xs c) \<le> 3"
    by (rule modalities_three [OF d]) (use i in \<open>auto simp: contributes_def\<close>)
qed

definition candidate_total :: "evidence_aggregate list \<Rightarrow> string \<Rightarrow> int" where
  "candidate_total xs c =
     sum_list (map (\<lambda>m. modality_score (entries_of (group_items xs) c m)) (shifted_modalities xs c))"

definition cited_evidence :: "evidence_aggregate list \<Rightarrow> string \<Rightarrow> string list" where
  "cited_evidence xs c =
     sort (concat (map (\<lambda>m. map snd (entries_of (group_items xs) c m)) (shifted_modalities xs c)))"

definition mean_shift :: "evidence_aggregate list \<Rightarrow> string \<Rightarrow> rat" where
  "mean_shift xs c = Fract (candidate_total xs c) (int (length (shifted_modalities xs c)) * PPM_SCALE)"

lemma candidate_total_bounds:
  assumes "well_formed_items xs"
  shows "int (length (shifted_modalities xs c)) \<le> candidate_total xs c"
    "candidate_total xs c \<le> 3 * MAX_SHIFT_PPM"
proof -
  let ?vs = "map (\<lambda>m. modality_score (entries_of (group_items xs) c m)) (shifted_modalities xs c)"
  have "1 \<le> v \<and> v \<le> MAX_SHIFT_PPM" if "v \<in> set ?vs" for v
  proof -
    from that obtain m where m: "m \<in> set (shifted_modalities xs c)"
      "v = modality_score (entries_of (group_items xs) c m)" by auto
    with modality_score_bounds [OF shifted_modalities(3) [OF m(1)], of MAX_SHIFT_PPM]
      entry_bounds [OF assms] show ?thesis by auto
  qed
  from sum_list_bounds [of ?vs, OF ballI [OF this]] shifted_modalities(4) [of xs c]
  show "int (length (shifted_modalities xs c)) \<le> candidate_total xs c"
    "candidate_total xs c \<le> 3 * MAX_SHIFT_PPM"
    by (simp_all add: candidate_total_def MAX_SHIFT_PPM_def)
qed

lemma cited_evidence:
  assumes "well_formed_items xs"
  shows "sorted (cited_evidence xs c)" "distinct (cited_evidence xs c)"
    "set (cited_evidence xs c) =
       {agg_evidence_id a | a. a \<in> set xs \<and> 0 < aggregate_shift a \<and> agg_candidate_id a = c}"
    "cited_evidence xs c = [] \<longleftrightarrow> shifted_modalities xs c = []"
proof -
  let ?ms = "shifted_modalities xs c" and ?f = "\<lambda>m. map snd (entries_of (group_items xs) c m)"
  have f: "e \<in> set (?f m) \<longleftrightarrow> (\<exists>a\<in>set xs. contributes c m a \<and> agg_evidence_id a = e)" for e m
    by (auto simp: entries_of_group_items entry_of_def)
  show "sorted (cited_evidence xs c)" by (simp add: cited_evidence_def)
  have d: "distinct (?f m)" for m
  proof -
    have "?f m = map agg_evidence_id (filter (contributes c m) (sort_key agg_evidence_id xs))"
      by (simp add: entries_of_group_items entry_of_def comp_def)
    moreover have "distinct (map agg_evidence_id (sort_key agg_evidence_id xs))"
      using assms by (simp add: well_formed_items_def distinct_map)
    ultimately show ?thesis by (simp add: distinct_map_filter)
  qed
  have "distinct (concat (map ?f ?ms))"
  proof (rule distinct_concat_map)
    fix m n e assume "e \<in> set (?f m)" "e \<in> set (?f n)"
    then show "m = n" unfolding f using item_by_evidence [OF assms] by (auto simp: contributes_def)
  qed (use d shifted_modalities(1) in auto)
  then show "distinct (cited_evidence xs c)" by (simp add: cited_evidence_def)
  show "set (cited_evidence xs c) =
      {agg_evidence_id a | a. a \<in> set xs \<and> 0 < aggregate_shift a \<and> agg_candidate_id a = c}"
  proof -
    have "e \<in> set (cited_evidence xs c) \<longleftrightarrow> (\<exists>m\<in>set ?ms. e \<in> set (?f m))" for e
      by (auto simp: cited_evidence_def)
    then have "e \<in> set (cited_evidence xs c) \<longleftrightarrow>
        (\<exists>m. \<exists>a\<in>set xs. contributes c m a \<and> agg_evidence_id a = e)" for e
      unfolding f using shifted_modalities(2) [of _ xs c] by blast
    then show ?thesis by (auto simp: contributes_def)
  qed
  show "cited_evidence xs c = [] \<longleftrightarrow> ?ms = []"
    using shifted_modalities(3) [of _ xs c] by (auto simp: cited_evidence_def simp flip: set_empty)
qed

lemma mean_shift_pos:
  assumes "well_formed_items xs" and "shifted_modalities xs c \<noteq> []"
  shows "0 < mean_shift xs c"
  using candidate_total_bounds(1) [OF assms(1), of c] assms(2)
  by (simp add: mean_shift_def zero_less_Fract_iff PPM_SCALE_def)
     (metis length_greater_0_conv of_nat_0_less_iff order_less_le_trans)

lemma score_candidate_group:
  assumes "well_formed_items xs"
  shows "score_candidate c (get_or_empty c (group_items xs)) =
     (if length (shifted_modalities xs c) < 2 then None
      else Some (mean_shift xs c, c, cited_evidence xs c))"
proof (cases "length (shifted_modalities xs c) < 2")
  case True
  then show ?thesis by (simp add: score_candidate_def shifted_modalities_def)
next
  case False
  then have "0 < mean_shift xs c" by (intro mean_shift_pos [OF assms]) auto
  with False show ?thesis
    by (simp add: score_candidate_def Let_def mean_shift_def candidate_total_def cited_evidence_def
        shifted_modalities_def entries_of_def comp_def)
qed

text \<open>The candidates that are ranked: those with a positive shift in at least two modalities.\<close>

definition rankable :: "evidence_aggregate list \<Rightarrow> string list" where
  "rankable xs = filter (\<lambda>c. 2 \<le> length (shifted_modalities xs c)) (sort (map fst (group_items xs)))"

lemma score_all_group:
  assumes "well_formed_items xs"
  shows "score_all (group_items xs) = map (\<lambda>c. (mean_shift xs c, c, cited_evidence xs c)) (rankable xs)"
proof -
  have "List.map_filter (\<lambda>c. score_candidate c (get_or_empty c (group_items xs))) cs =
      map (\<lambda>c. (mean_shift xs c, c, cited_evidence xs c))
        (filter (\<lambda>c. 2 \<le> length (shifted_modalities xs c)) cs)" for cs
    by (induction cs) (auto simp: score_candidate_group [OF assms])
  then show ?thesis by (simp add: score_all_def rankable_def)
qed

lemma rankable:
  "distinct (rankable xs)"
  "c \<in> set (rankable xs) \<longleftrightarrow> 2 \<le> length (shifted_modalities xs c)"
  "set (rankable xs) \<subseteq> agg_candidate_id ` set xs"
proof -
  show "distinct (rankable xs)"
    using group_items_ok [of xs] by (simp add: rankable_def grouping_ok_def)
  have "c \<in> fst ` set (group_items xs)" if "2 \<le> length (shifted_modalities xs c)" for c
    unfolding grouping_candidates [OF group_items_ok] using that by (auto simp: shifted_modalities_def)
  then show i: "c \<in> set (rankable xs) \<longleftrightarrow> 2 \<le> length (shifted_modalities xs c)" for c
    by (auto simp: rankable_def)
  show "set (rankable xs) \<subseteq> agg_candidate_id ` set xs"
  proof
    fix c assume "c \<in> set (rankable xs)"
    with i obtain m where "m \<in> set (shifted_modalities xs c)"
      by (cases "shifted_modalities xs c") auto
    then show "c \<in> agg_candidate_id ` set xs" by (auto simp: shifted_modalities(2) contributes_def)
  qed
qed

section \<open>Order\<close>

definition rank_order :: "evidence_aggregate list \<Rightarrow> string list" where
  "rank_order xs = sort_key (\<lambda>c. (- mean_shift xs c, c)) (rankable xs)"

definition ranked_at :: "evidence_aggregate list \<Rightarrow> nat \<Rightarrow> string \<Rightarrow> rca_ranked_candidate" where
  "ranked_at xs index c = ranked_candidate index (mean_shift xs c, c, cited_evidence xs c)"

definition before :: "evidence_aggregate list \<Rightarrow> string \<Rightarrow> string \<Rightarrow> bool" where
  "before xs c d \<longleftrightarrow> mean_shift xs c > mean_shift xs d \<or> (mean_shift xs c = mean_shift xs d \<and> c < d)"

lemma sort_key_map_commute: "sort_key k (map f xs) = map f (sort_key (k \<circ> f) xs)"
proof -
  have "insort_key k (f x) (map f ys) = map f (insort_key (k \<circ> f) x ys)" for x ys
    by (induction ys) auto
  then show ?thesis by (induction xs) (auto simp: comp_def)
qed

lemma build_ranking_candidates:
  assumes "well_formed_items xs"
  shows "order_scored (score_all (group_items xs)) =
      map (\<lambda>c. (mean_shift xs c, c, cited_evidence xs c)) (rank_order xs)"
    "candidates (build_ranking xs) = map (\<lambda>(i, c). ranked_at xs i c) (enumerate 1 (rank_order xs))"
    "outcome (build_ranking xs) = (if rank_order xs \<noteq> [] then Out_RANKED else Out_INCONCLUSIVE)"
proof -
  show o: "order_scored (score_all (group_items xs)) =
      map (\<lambda>c. (mean_shift xs c, c, cited_evidence xs c)) (rank_order xs)"
    by (simp add: order_scored_def score_all_group [OF assms] sort_key_map_commute comp_def rank_order_def)
  have e: "enumerate n (map f cs) = map (\<lambda>(i, c). (i, f c)) (enumerate n cs)" for n cs and f :: "string \<Rightarrow> scored"
    by (induction cs arbitrary: n) auto
  show c: "candidates (build_ranking xs) = map (\<lambda>(i, c). ranked_at xs i c) (enumerate 1 (rank_order xs))"
    by (simp add: build_ranking_def Let_def number_candidates_def o e ranked_at_def comp_def case_prod_unfold)
  have "candidates (build_ranking xs) = [] \<longleftrightarrow> rank_order xs = []"
    unfolding c by (metis Nil_is_map_conv length_enumerate length_0_conv)
  then show "outcome (build_ranking xs) = (if rank_order xs \<noteq> [] then Out_RANKED else Out_INCONCLUSIVE)"
    by (simp add: build_ranking_def Let_def)
qed

lemma rank_order:
  "distinct (rank_order xs)" "set (rank_order xs) = set (rankable xs)"
  "sorted_wrt (before xs) (rank_order xs)"
proof -
  let ?k = "\<lambda>c. (- mean_shift xs c, c)"
  show d: "distinct (rank_order xs)" "set (rank_order xs) = set (rankable xs)"
    by (simp_all add: rank_order_def rankable(1))
  have "sorted (map ?k (rank_order xs))" by (simp add: rank_order_def)
  moreover have "distinct (map ?k (rank_order xs))" using d(1) by (simp add: distinct_map inj_on_def)
  ultimately have "sorted_wrt (<) (map ?k (rank_order xs))" by (simp add: strict_sorted_iff)
  then show "sorted_wrt (before xs) (rank_order xs)"
    unfolding sorted_wrt_map by (rule sorted_wrt_mono_rel [rotated]) (auto simp: before_def)
qed

lemma candidate_score_ranked [simp]: "candidate_score (ranked_at xs i c) = mean_shift xs c"
proof -
  obtain p q where pq: "quotient_of (mean_shift xs c) = (p, q)" by (cases "quotient_of (mean_shift xs c)")
  with quotient_of_div [OF pq] show ?thesis
    by (simp add: candidate_score_def ranked_at_def ranked_candidate_def Fract_of_int_quotient)
qed

lemma ranked_at_simps [simp]:
  "rc_candidate_id (ranked_at xs i c) = c" "rc_rank (ranked_at xs i c) = int i"
  "rc_evidence_ids (ranked_at xs i c) = cited_evidence xs c"
  by (simp_all add: ranked_at_def ranked_candidate_def)

lemma check_positions_ordered:
  assumes "sorted_wrt (before xs) cs" and "case_option True (\<lambda>(j, p). \<forall>c\<in>set cs. before xs p c) prev"
  shows "check_positions (int n) (map_option (\<lambda>(j, p). ranked_at xs j p) prev)
     (map (\<lambda>(i, c). ranked_at xs i c) (enumerate n cs)) = None"
  using assms
proof (induction cs arbitrary: n prev)
  case (Cons c cs)
  have "check_positions (int (Suc n)) (map_option (\<lambda>(j, p). ranked_at xs j p) (Some (n, c)))
     (map (\<lambda>(i, c). ranked_at xs i c) (enumerate (Suc n) cs)) = None"
    by (rule Cons.IH) (use Cons.prems in auto)
  moreover have "\<not> not_after (ranked_at xs j p) (ranked_at xs n c)" if "before xs p c" for j p
    using that by (auto simp: not_after_def before_def)
  ultimately show ?case
    using Cons.prems(2) by (auto simp: add.commute split: option.splits)
qed simp

section \<open>The ranking of a valid feature set is valid\<close>

definition sound_features :: "evidence_aggregate list \<Rightarrow> bool" where
  "sound_features xs \<longleftrightarrow> well_formed_items xs \<and> length xs \<le> MAX_FEATURE_AGGREGATES \<and>
     card (agg_candidate_id ` set xs) \<le> MAX_FEATURE_CANDIDATES \<and>
     (\<forall>a\<in>set xs. evidence_id_ok (agg_evidence_id a) \<and> candidate_id_ok (agg_candidate_id a) \<and>
        \<not> labeled_identifier (agg_evidence_id a) \<and> \<not> labeled_identifier (agg_candidate_id a))"

lemma validate_item_clean:
  "assert_model_safe (aggregate_json a) = None \<Longrightarrow>
     \<not> labeled_identifier (agg_evidence_id a) \<and> \<not> labeled_identifier (agg_candidate_id a)"
  unfolding assert_model_safe_iff aggregate_json_def by (drule identifier_free_objD) simp_all

lemma feature_set_sound: "validate_feature_set xs = None \<Longrightarrow> sound_features xs"
proof -
  assume v: "validate_feature_set xs = None"
  then have i: "\<forall>a\<in>set xs. validate_aggregate_item a = None"
    and l: "length xs \<le> MAX_FEATURE_AGGREGATES"
    and e: "length xs = card (agg_evidence_id ` set xs)"
    and c: "card (agg_candidate_id ` set xs) \<le> MAX_FEATURE_CANDIDATES"
    by (auto simp: validate_feature_set_def)
  from e have "distinct (map agg_evidence_id xs)" by (simp add: card_distinct)
  with i l c show ?thesis
    by (auto simp: sound_features_def well_formed_items_def validate_aggregate_item_def positive_count_ok_def
        dest: validate_item_clean)
qed

lemma rank_order_length:
  assumes "sound_features xs"
  shows "length (rank_order xs) \<le> MAX_FEATURE_CANDIDATES"
proof -
  have "length (rank_order xs) = card (set (rankable xs))"
    using rank_order(1,2) distinct_card by metis
  also have "\<dots> \<le> card (agg_candidate_id ` set xs)" by (rule card_mono) (use rankable(3) in auto)
  finally show ?thesis using assms by (simp add: sound_features_def)
qed

lemma cited_subset: "sound_features xs \<Longrightarrow> set (cited_evidence xs c) \<subseteq> agg_evidence_id ` set xs"
  by (auto simp: sound_features_def cited_evidence(3))

lemma cited_disjoint:
  assumes "sound_features xs" and "e \<in> set (cited_evidence xs c)" and "e \<in> set (cited_evidence xs d)"
  shows "c = d"
proof -
  have wf: "well_formed_items xs" using assms(1) by (simp add: sound_features_def)
  from assms(2,3) item_by_evidence [OF wf] show ?thesis unfolding cited_evidence(3) [OF wf] by blast
qed

lemma cited_total:
  assumes "sound_features xs"
  shows "distinct (concat (map (cited_evidence xs) (rank_order xs)))"
    "length (concat (map (cited_evidence xs) (rank_order xs))) \<le> MAX_FEATURE_AGGREGATES"
proof -
  have wf: "well_formed_items xs" using assms(1) by (simp add: sound_features_def)
  show d: "distinct (concat (map (cited_evidence xs) (rank_order xs)))"
    by (rule distinct_concat_map) (use rank_order(1) cited_evidence(2) [OF wf] cited_disjoint [OF assms] in auto)
  have "length (concat (map (cited_evidence xs) (rank_order xs))) =
      card (set (concat (map (cited_evidence xs) (rank_order xs))))"
    using distinct_card [OF d] by simp
  also have "\<dots> \<le> card (agg_evidence_id ` set xs)"
    by (rule card_mono) (use cited_subset [OF assms] in auto)
  also have "\<dots> \<le> length xs" by (metis card_image_le card_length finite_set le_trans)
  finally show "length (concat (map (cited_evidence xs) (rank_order xs))) \<le> MAX_FEATURE_AGGREGATES"
    using assms by (simp add: sound_features_def)
qed

lemma cited_length: "sound_features xs \<Longrightarrow> length (cited_evidence xs c) \<le> MAX_FEATURE_AGGREGATES"
proof -
  assume s: "sound_features xs"
  then have "length (cited_evidence xs c) = card (set (cited_evidence xs c))"
    by (simp add: sound_features_def cited_evidence(2) distinct_card)
  also have "\<dots> \<le> card (agg_evidence_id ` set xs)" by (rule card_mono) (use cited_subset [OF s] in auto)
  also have "\<dots> \<le> length xs" by (metis card_image_le card_length finite_set le_trans)
  finally show ?thesis using s by (simp add: sound_features_def)
qed

lemma score_parts:
  assumes "well_formed_items xs" and "c \<in> set (rankable xs)"
  shows "1 \<le> score_numerator (ranked_at xs i c)" "score_numerator (ranked_at xs i c) \<le> 3 * MAX_SHIFT_PPM"
    "1 \<le> score_denominator (ranked_at xs i c)" "score_denominator (ranked_at xs i c) \<le> 3 * PPM_SCALE"
    "gcd (score_numerator (ranked_at xs i c)) (score_denominator (ranked_at xs i c)) = 1"
proof -
  let ?t = "candidate_total xs c" and ?k = "int (length (shifted_modalities xs c)) * PPM_SCALE"
  have t: "1 \<le> ?t" "?t \<le> 3 * MAX_SHIFT_PPM"
    using candidate_total_bounds [OF assms(1), of c] assms(2) by (auto simp: rankable(2))
  have k: "1 \<le> ?k" "?k \<le> 3 * PPM_SCALE"
    using assms(2) shifted_modalities(4) [of xs c] by (auto simp: rankable(2) PPM_SCALE_def)
  have q: "score_numerator (ranked_at xs i c) = fst (quotient_of (Fract ?t ?k))"
    "score_denominator (ranked_at xs i c) = snd (quotient_of (Fract ?t ?k))"
    by (simp_all add: ranked_at_def ranked_candidate_def mean_shift_def)
  show "1 \<le> score_numerator (ranked_at xs i c)" "score_numerator (ranked_at xs i c) \<le> 3 * MAX_SHIFT_PPM"
    "1 \<le> score_denominator (ranked_at xs i c)" "score_denominator (ranked_at xs i c) \<le> 3 * PPM_SCALE"
    "gcd (score_numerator (ranked_at xs i c)) (score_denominator (ranked_at xs i c)) = 1"
    unfolding q using fraction_parts [OF t(1) k(1)] t k by auto
qed

lemma ranked_candidate_clean:
  assumes "sound_features xs" and "c \<in> set (rankable xs)"
  shows "identifier_free (candidate_json (ranked_at xs i c))"
proof -
  have "\<not> labeled_identifier c" using assms rankable(3) [of xs] by (auto simp: sound_features_def)
  moreover have "\<not> labeled_identifier e" if "e \<in> set (cited_evidence xs c)" for e
    using that cited_subset [OF assms(1), of c] assms(1) by (auto simp: sound_features_def)
  ultimately show ?thesis
    unfolding candidate_json_def by (intro identifier_free_obj) (auto simp: list_all_iff)
qed

lemma ranked_candidate_valid:
  assumes "sound_features xs" and "c \<in> set (rankable xs)" and "1 \<le> i" and "i \<le> MAX_FEATURE_CANDIDATES"
  shows "validate_ranked_candidate (ranked_at xs i c) = None"
proof -
  have wf: "well_formed_items xs" using assms(1) by (simp add: sound_features_def)
  have "candidate_id_ok c" using assms(1,2) rankable(3) [of xs] by (auto simp: sound_features_def)
  moreover have "list_all evidence_id_ok (cited_evidence xs c)"
    using cited_subset [OF assms(1), of c] assms(1) by (auto simp: list_all_iff sound_features_def)
  moreover have "cited_evidence xs c \<noteq> []"
    using assms(2) by (auto simp: cited_evidence(4) [OF wf] rankable(2))
  ultimately show ?thesis
    using assms(3,4) score_parts [OF wf assms(2), of i] cited_length [OF assms(1), of c]
      ranked_candidate_clean [OF assms(1,2), of i] cited_evidence(1,2) [OF wf, of c]
    by (simp add: validate_ranked_candidate_def assert_model_safe_iff score_part_ok_def rca_limits
        Suc_le_eq sorted_set_fixed [THEN iffD2, symmetric])
qed

lemma candidate_chars: "candidate_id_ok s \<Longrightarrow> list_all one_byte s \<and> length s \<le> 64"
proof -
  have tail: "candidate_tail d t \<Longrightarrow> list_all one_byte t" for d t
    by (induction d t rule: candidate_tail.induct)
      (auto simp: one_byte_def lower_char_def digit_char_def Let_def split: if_splits)
  show "candidate_id_ok s \<Longrightarrow> list_all one_byte s \<and> length s \<le> 64"
    using tail by (cases s) (auto simp: candidate_id_ok_def one_byte_def lower_char_def Let_def)
qed

lemma hex_one_byte: "\<forall>c\<in>set ''0123456789abcdef''. one_byte c"
  by (simp add: one_byte_def)

lemma evidence_chars: "evidence_id_ok s \<Longrightarrow> list_all one_byte s \<and> length s = 76"
proof -
  assume e: "evidence_id_ok s"
  then have "list_all one_byte (drop 12 s)"
    using hex_one_byte unfolding evidence_id_ok_def list_all_iff lower_hex_def by blast
  moreover have "list_all one_byte ''rcaevidence-''" by (simp add: one_byte_def)
  with e have "list_all one_byte (take 12 s)" unfolding evidence_id_ok_def by metis
  ultimately have "list_all one_byte (take 12 s @ drop 12 s)" by (simp only: list_all_append)
  then have "list_all one_byte s" by (simp only: append_take_drop_id)
  with e show "list_all one_byte s \<and> length s = 76" by (simp add: evidence_id_ok_def)
qed

lemma sum_list_constant: "\<forall>x\<in>set xs. f x = (k :: nat) \<Longrightarrow> sum_list (map f xs) = k * length xs"
  by (induction xs) auto

lemma ranked_candidate_bytes:
  assumes "sound_features xs" and "c \<in> set (rankable xs)" and "i \<le> MAX_FEATURE_CANDIDATES"
  shows "json_bytes (candidate_json (ranked_at xs i c)) \<le> 200 + 79 * length (cited_evidence xs c)"
proof -
  have wf: "well_formed_items xs" using assms(1) by (simp add: sound_features_def)
  have c: "utf8_length (json_quote c) \<le> 66"
    using candidate_chars [of c] utf8_length_quote [of c] assms(1,2) rankable(3) [of xs]
    by (fastforce simp: sound_features_def)
  have "utf8_length (json_quote e) = 78" if "e \<in> set (cited_evidence xs c)" for e
  proof -
    have "evidence_id_ok e"
      using that assms(1) cited_subset [OF assms(1), of c] by (auto simp: sound_features_def)
    from evidence_chars [OF this] show ?thesis by (simp add: utf8_length_quote)
  qed
  then have e: "(\<Sum>e\<leftarrow>cited_evidence xs c. Suc (utf8_length (json_quote e))) = 79 * length (cited_evidence xs c)"
    by (intro sum_list_constant) simp
  have "json_bytes (JInt (int i)) \<le> 2"
    by (rule json_bytes_int) (use assms(3) in \<open>simp_all add: MAX_FEATURE_CANDIDATES_def\<close>)
  moreover have "json_bytes (JInt (score_numerator (ranked_at xs i c))) \<le> 10"
    by (rule json_bytes_int) (use score_parts [OF wf assms(2), of i] in \<open>simp_all add: MAX_SHIFT_PPM_def\<close>)
  moreover have "json_bytes (JInt (score_denominator (ranked_at xs i c))) \<le> 7"
    by (rule json_bytes_int) (use score_parts [OF wf assms(2), of i] in \<open>simp_all add: PPM_SCALE_def\<close>)
  moreover have "utf8_length (json_quote ''candidate_id'') = 14" "utf8_length (json_quote ''rank'') = 6"
    "utf8_length (json_quote ''score_numerator'') = 17" "utf8_length (json_quote ''score_denominator'') = 19"
    "utf8_length (json_quote ''evidence_ids'') = 14"
    by (simp_all add: utf8_length_quote one_byte_def)
  ultimately show ?thesis using c e
    by (simp add: candidate_json_def comp_def del: json_text.simps(3))
qed

lemma enumerate_bounds: "(i, c) \<in> set (enumerate n cs) \<Longrightarrow> n \<le> i \<and> i < n + length cs \<and> c \<in> set cs"
  by (auto simp: in_set_enumerate_eq)

lemma map_enumerate_ignore: "map (\<lambda>(i, c). f c) (enumerate n cs) = map f cs"
  by (induction cs arbitrary: n) auto

lemma build_ranking_bytes:
  assumes "sound_features xs"
  shows "utf8_length (ranking_canonical_bytes (build_ranking xs)) \<le> MAX_RANKING_SERIALIZED_BYTES"
proof -
  have wf: "well_formed_items xs" using assms by (simp add: sound_features_def)
  let ?cs = "rank_order xs" and ?es = "enumerate 1 (rank_order xs)"
  have "json_bytes (candidate_json (ranked_at xs i c)) \<le> 200 + 79 * length (cited_evidence xs c)"
    if "(i, c) \<in> set ?es" for i c
    by (rule ranked_candidate_bytes [OF assms])
      (use enumerate_bounds [OF that] rank_order(2) [of xs] rank_order_length [OF assms] in auto)
  then have "sum_list (map (\<lambda>(i, c). json_bytes (candidate_json (ranked_at xs i c)) + 1) ?es)
      \<le> sum_list (map (\<lambda>(i, c). 201 + 79 * length (cited_evidence xs c)) ?es)"
    by (intro sum_list_mono) fastforce
  also have "\<dots> = 201 * length ?cs + 79 * length (concat (map (cited_evidence xs) ?cs))"
    unfolding map_enumerate_ignore by (simp add: sum_list_addf sum_list_triv sum_list_const_mult length_concat comp_def)
  also have "\<dots> \<le> 201 * 64 + 79 * 4096"
    using rank_order_length [OF assms] cited_total(2) [OF assms] by (simp add: rca_limits)
  finally have "json_bytes (JList (map candidate_json (candidates (build_ranking xs)))) \<le> 336450"
    by (simp add: build_ranking_candidates [OF wf] comp_def case_prod_unfold)
  moreover have "utf8_length (json_quote ''schema_version'') = 16" "utf8_length (json_quote ''algorithm'') = 11"
    "utf8_length (json_quote ''outcome'') = 9" "utf8_length (json_quote ''candidates'') = 12"
    "utf8_length (json_quote RCA_RANKING_SCHEMA) = 30" "utf8_length (json_quote RCA_RANKING_ALGORITHM) = 35"
    by (simp_all add: utf8_length_quote one_byte_def RCA_RANKING_SCHEMA_def RCA_RANKING_ALGORITHM_def)
  moreover have "utf8_length (json_quote (ranking_outcome_value (outcome (build_ranking xs)))) \<le> 14"
    by (cases "outcome (build_ranking xs)") (simp_all add: utf8_length_quote one_byte_def)
  moreover have "json_bytes (ranking_json (build_ranking xs)) = 10 +
      utf8_length (json_quote ''schema_version'') + utf8_length (json_quote RCA_RANKING_SCHEMA) +
      utf8_length (json_quote ''algorithm'') + utf8_length (json_quote RCA_RANKING_ALGORITHM) +
      utf8_length (json_quote ''outcome'') + utf8_length (json_quote (ranking_outcome_value (outcome (build_ranking xs)))) +
      utf8_length (json_quote ''candidates'') + json_bytes (JList (map candidate_json (candidates (build_ranking xs))))"
    by (simp add: ranking_json_def del: json_bytes.simps(2))
  ultimately have "json_bytes (ranking_json (build_ranking xs)) \<le> MAX_RANKING_SERIALIZED_BYTES"
    unfolding MAX_RANKING_SERIALIZED_BYTES_def by linarith
  with json_bytes_bound [of "ranking_json (build_ranking xs)"] show ?thesis
    unfolding ranking_canonical_bytes_def canonical_json_bytes_def by (rule order_trans)
qed

lemma build_ranking_clean:
  assumes "sound_features xs"
  shows "identifier_free (ranking_json (build_ranking xs))"
proof -
  have wf: "well_formed_items xs" using assms by (simp add: sound_features_def)
  have "identifier_free (candidate_json c)" if "c \<in> set (candidates (build_ranking xs))" for c
    using that ranked_candidate_clean [OF assms] rank_order(2) [of xs]
    by (auto simp: build_ranking_candidates [OF wf] dest: enumerate_bounds)
  then show ?thesis
    unfolding ranking_json_def by (intro identifier_free_obj) (auto simp: list_all_iff)
qed

lemma build_ranking_valid:
  assumes "sound_features xs"
  shows "validate_ranking (build_ranking xs) = None"
proof -
  have wf: "well_formed_items xs" using assms by (simp add: sound_features_def)
  let ?r = "build_ranking xs" and ?cs = "rank_order xs"
  note c = build_ranking_candidates [OF wf]
  have ids: "map rc_candidate_id (candidates ?r) = ?cs" "map rc_evidence_ids (candidates ?r) = map (cited_evidence xs) ?cs"
    unfolding c map_map using map_enumerate_ignore [of "\<lambda>c. c" 1 ?cs]
      map_enumerate_ignore [of "cited_evidence xs" 1 ?cs] by (simp_all add: comp_def case_prod_unfold)
  have "length (candidates ?r) = length ?cs" unfolding c by simp
  moreover have "\<forall>e\<in>set (map validate_ranked_candidate (candidates ?r)). e = None"
    using ranked_candidate_valid [OF assms] rank_order(2) [of xs] rank_order_length [OF assms]
    unfolding c by (fastforce dest: enumerate_bounds)
  moreover have "check_positions 1 None (candidates ?r) = None"
    unfolding c using check_positions_ordered [OF rank_order(3), of xs None 1] by simp
  moreover have "card (set ?cs) = length ?cs" by (rule distinct_card [OF rank_order(1)])
  moreover have "card (set (concat (map (cited_evidence xs) ?cs))) = length (concat (map (cited_evidence xs) ?cs))"
    by (rule distinct_card [OF cited_total(1) [OF assms]])
  moreover have "(outcome ?r = Out_RANKED) = (candidates ?r \<noteq> [])"
    by (simp add: build_ranking_def Let_def)
  ultimately show ?thesis
    using rank_order_length [OF assms] build_ranking_bytes [OF assms] build_ranking_clean [OF assms]
    unfolding validate_ranking_def first_error_None
    by (simp add: ids assert_model_safe_iff Let_def not_less del: set_map)
qed

lemma seal_valid:
  assumes "sound_features xs" and "\<forall>t. rca_digest_ok (h t)"
  shows "validate_seal h \<lparr>feature_sha256 = h fs, ranking = build_ranking xs,
     ranking_sha256 = h (ranking_canonical_bytes (build_ranking xs))\<rparr> = None"
proof -
  have "\<not> labeled_identifier (h t)" for t using assms(2) rca_digest_clean by blast
  then have "identifier_free (seal_json \<lparr>feature_sha256 = h fs, ranking = build_ranking xs,
     ranking_sha256 = h (ranking_canonical_bytes (build_ranking xs))\<rparr>)"
    unfolding seal_json_def using build_ranking_clean [OF assms(1)] by (intro identifier_free_obj) simp_all
  with assms build_ranking_valid [OF assms(1)] show ?thesis
    by (simp add: validate_seal_def assert_model_safe_iff)
qed

text \<open>Ranking a valid feature set always produces its seal.\<close>

lemma rank_rca_features_success:
  assumes "validate_feature_set xs = None" and "\<forall>t. rca_digest_ok (h t)"
  shows "rank_rca_features h (Exact (Tuple xs)) =
    Inr \<lparr>feature_sha256 = h (canonical_json_bytes (feature_set_json xs)), ranking = build_ranking xs,
      ranking_sha256 = h (ranking_canonical_bytes (build_ranking xs))\<rparr>"
proof -
  have s: "sound_features xs" by (rule feature_set_sound [OF assms(1)])
  then have wf: "well_formed_items xs" by (simp add: sound_features_def)
  have "normalized (Exact (Tuple xs)) = Inr xs"
    using assms(1) s by (simp add: normalized_def sound_features_def)
  moreover have "length (order_scored (score_all (group_items xs))) \<le> MAX_FEATURE_CANDIDATES"
    using rank_order_length [OF s] by (simp add: build_ranking_candidates [OF wf])
  moreover have "validate_ranking (build_ranking xs) = None" by (rule build_ranking_valid [OF s])
  moreover from this have "\<not> list_ex (\<lambda>c. validate_ranked_candidate c \<noteq> None) (candidates (build_ranking xs))"
    by (auto simp: validate_ranking_def list_ex_iff)
  ultimately show ?thesis
    using seal_valid [OF s assms(2)]
    by (simp add: rank_rca_features_def rank_rca_features_inner_def Let_def)
qed

section \<open>The budget of a feature set\<close>

lemma json_bytes_int_abs: "\<bar>i\<bar> < 10 ^ k \<Longrightarrow> 1 \<le> k \<Longrightarrow> json_bytes (JInt i) \<le> k + 1"
  using length_show_nat [of "nat \<bar>i\<bar>" k] utf8_length_ascii [OF show_nat_digits, of "nat \<bar>i\<bar>"]
  by (cases "i < 0") (simp_all add: show_int_def nat_less_iff)

lemma aggregate_bytes:
  assumes "validate_aggregate_item a = None"
  shows "json_bytes (aggregate_json a) \<le> 400"
proof -
  have v: "evidence_id_ok (agg_evidence_id a)" "candidate_id_ok (agg_candidate_id a)"
    "aggregate_total_ok (baseline_total a)" "positive_count_ok (baseline_count a)"
    "aggregate_total_ok (observed_total a)" "positive_count_ok (observed_count a)"
    using assms by (simp_all add: validate_aggregate_item_def)
  have "json_bytes (JInt i) \<le> 20" if "aggregate_total_ok i" for i
    by (rule order_trans [OF json_bytes_int_abs [of i 19]])
      (use that in \<open>auto simp: aggregate_total_ok_def MAX_TOTAL_ABSOLUTE_def abs_if\<close>)
  with v have "json_bytes (JInt (baseline_total a)) \<le> 20" "json_bytes (JInt (observed_total a)) \<le> 20"
    by blast+
  moreover have "json_bytes (JInt i) \<le> 11" if "positive_count_ok i" for i
    by (rule order_trans [OF json_bytes_int_abs [of i 10]])
      (use that in \<open>auto simp: positive_count_ok_def MAX_SAMPLE_COUNT_def abs_if\<close>)
  with v have "json_bytes (JInt (baseline_count a)) \<le> 11" "json_bytes (JInt (observed_count a)) \<le> 11"
    by blast+
  moreover have "json_bytes (JStr (agg_evidence_id a)) = 78"
    using evidence_chars [OF v(1)] by (simp add: utf8_length_quote)
  moreover have "json_bytes (JStr (agg_candidate_id a)) \<le> 66"
    using candidate_chars [OF v(2)] by (simp add: utf8_length_quote)
  moreover have "json_bytes (JStr (modality_value (agg_modality a))) \<le> 8"
    by (cases "agg_modality a") (simp_all add: utf8_length_quote one_byte_def)
  moreover have "utf8_length (json_quote ''evidence_id'') = 13" "utf8_length (json_quote ''candidate_id'') = 14"
    "utf8_length (json_quote ''modality'') = 10" "utf8_length (json_quote ''baseline_total'') = 16"
    "utf8_length (json_quote ''baseline_count'') = 16" "utf8_length (json_quote ''observed_total'') = 16"
    "utf8_length (json_quote ''observed_count'') = 16"
    by (simp_all add: utf8_length_quote one_byte_def)
  ultimately show ?thesis
    by (simp add: aggregate_json_def del: json_bytes.simps(3-) )
qed

lemma feature_set_bytes:
  assumes "\<forall>a\<in>set xs. validate_aggregate_item a = None" and "length xs \<le> MAX_FEATURE_AGGREGATES"
  shows "utf8_length (canonical_json_bytes (feature_set_json xs)) \<le> MAX_FEATURE_SERIALIZED_BYTES"
proof -
  have "sum_list (map (\<lambda>a. json_bytes (aggregate_json a) + 1) xs) \<le> sum_list (map (\<lambda>_. 401) xs)"
    by (rule sum_list_mono) (use assms(1) aggregate_bytes in fastforce)
  then have "json_bytes (JList (map aggregate_json xs)) \<le> 2 + 401 * 4096"
    using assms(2) by (simp add: sum_list_triv comp_def MAX_FEATURE_AGGREGATES_def)
  moreover have "utf8_length (json_quote ''schema_version'') = 16" "utf8_length (json_quote ''aggregates'') = 12"
    "utf8_length (json_quote RCA_FEATURE_SCHEMA) = 34"
    by (simp_all add: utf8_length_quote one_byte_def RCA_FEATURE_SCHEMA_def)
  ultimately have "json_bytes (feature_set_json xs) \<le> MAX_FEATURE_SERIALIZED_BYTES"
    by (simp add: feature_set_json_def MAX_FEATURE_SERIALIZED_BYTES_def del: json_bytes.simps(2))
  with json_bytes_bound [of "feature_set_json xs"] show ?thesis
    unfolding canonical_json_bytes_def by (rule order_trans)
qed

lemma feature_set_clean:
  "\<forall>a\<in>set xs. validate_aggregate_item a = None \<Longrightarrow> identifier_free (feature_set_json xs)"
  unfolding feature_set_json_def
  by (intro identifier_free_obj) (auto simp: list_all_iff validate_aggregate_item_def assert_model_safe_iff)

text \<open>The serialised budget never refuses a feature set that meets the other limits.\<close>

lemma feature_set_valid_iff:
  "validate_feature_set xs = None \<longleftrightarrow> (\<forall>a\<in>set xs. validate_aggregate_item a = None) \<and>
     length xs \<le> MAX_FEATURE_AGGREGATES \<and> distinct (map agg_evidence_id xs) \<and>
     card (agg_candidate_id ` set xs) \<le> MAX_FEATURE_CANDIDATES"
proof -
  have "distinct (map agg_evidence_id xs) \<longleftrightarrow> length xs = card (agg_evidence_id ` set xs)"
    by (metis card_distinct distinct_card length_map set_map)
  then show ?thesis
    using feature_set_bytes [of xs] feature_set_clean [of xs]
    by (auto simp: validate_feature_set_def assert_model_safe_iff)
qed

lemma aggregate_valid:
  assumes "no_label (agg_candidate_id a)" and "no_label (agg_evidence_id a)"
    and "evidence_id_ok (agg_evidence_id a)" and "candidate_id_ok (agg_candidate_id a)"
    and "aggregate_total_ok (baseline_total a)" and "positive_count_ok (baseline_count a)"
    and "aggregate_total_ok (observed_total a)" and "positive_count_ok (observed_count a)"
  shows "validate_aggregate_item a = None"
proof -
  have "identifier_free (aggregate_json a)"
    unfolding aggregate_json_def using assms(1,2) by (intro identifier_free_obj) (simp_all add: no_label_clean)
  with assms(3-) show ?thesis by (simp add: validate_aggregate_item_def assert_model_safe_iff)
qed

end
