(* ===== verification/Rca_Evaluation.thy ===== *)
theory Rca_Evaluation
  imports Rca_Ranking
begin

text \<open>
  \<open>telco_lab/rcaeval_evaluation.py\<close>: scoring sealed rankings against a private answer
  map.  A caller-supplied \<open>Mapping\<close> is what its \<open>len\<close>, its iterator and its item access
  return (\<open>None\<close> for an exception); a supplied seal or answer is an instance of the right
  class whose tuple fields may still hold anything (\<open>raw_seal\<close>, \<open>raw_truth\<close>), as an
  instance built without validation can.  The lemmas show what a report counts.
\<close>

section \<open>Supplied values\<close>

definition MAX_EVALUATION_SEALS :: nat where "MAX_EVALUATION_SEALS = 10000"
definition MAX_EVIDENCE_REFERENCES :: nat where "MAX_EVIDENCE_REFERENCES = 100000"

text \<open>\<open>_EXTERNAL_SLOT_PATTERN.fullmatch\<close>.\<close>

definition external_slot :: "string \<Rightarrow> bool" where
  "external_slot s \<longleftrightarrow> take 8 s = ''rcaslot-'' \<and> length s = 72 \<and> list_all lower_hex (drop 8 s)"

datatype py_key = Str_key string | Other_key

record 'v py_mapping =
  mapping_len :: "nat option"
  mapping_iter :: "py_key list option"
  mapping_get :: "py_key \<Rightarrow> 'v option"

datatype 'v mapping_arg = Mapping_arg "'v py_mapping" | Not_mapping

record raw_candidate =
  raw_candidate_id :: string
  raw_rank :: int
  raw_numerator :: int
  raw_denominator :: int
  raw_evidence_ids :: "string tuple_arg"

record raw_ranking =
  raw_outcome :: ranking_outcome
  raw_candidates :: "raw_candidate py_object tuple_arg"

record raw_seal =
  raw_feature_sha256 :: string
  raw_ranking :: "raw_ranking py_object"
  raw_ranking_sha256 :: string

record raw_truth =
  raw_truth_candidate_id :: string
  raw_valid_evidence_ids :: "string tuple_arg"

section \<open>Scaling\<close>

definition ppm :: "rat \<Rightarrow> int" where
  "ppm value = (if value \<le> 0 then 0 else if value \<ge> 1 then PPM_SCALE
     else (fst (quotient_of value) * PPM_SCALE) div snd (quotient_of value))"

section \<open>Reading the supplied mappings\<close>

text \<open>The loop over the candidates of a supplied seal.\<close>

fun count_evidence :: "nat \<Rightarrow> raw_candidate py_object list \<Rightarrow> evaluation_error + nat" where
  "count_evidence evidence_count [] = Inr evidence_count"
| "count_evidence evidence_count (Other_type # items) = Inl evaluation_invalid_input"
| "count_evidence evidence_count (Exact item # items) =
     (case py_len (raw_evidence_ids item) of
        None \<Rightarrow> Inl evaluation_invalid_input
      | Some item_evidence_count \<Rightarrow>
          if item_evidence_count > MAX_FEATURE_AGGREGATES then Inl evaluation_limit_exceeded
          else (case raw_evidence_ids item of
            Tuple _ \<Rightarrow> (if evidence_count + item_evidence_count > MAX_EVIDENCE_REFERENCES
               then Inl evaluation_limit_exceeded
               else count_evidence (evidence_count + item_evidence_count) items)
          | _ \<Rightarrow> Inl evaluation_invalid_input))"

definition seal_evidence_count :: "raw_seal \<Rightarrow> evaluation_error + nat" where
  "seal_evidence_count seal = (case raw_ranking seal of
     Other_type \<Rightarrow> Inl evaluation_invalid_input
   | Exact r \<Rightarrow> (case py_len (raw_candidates r) of
       None \<Rightarrow> Inl evaluation_invalid_input
     | Some candidate_count \<Rightarrow>
         if candidate_count > MAX_FEATURE_CANDIDATES then Inl evaluation_limit_exceeded
         else (case raw_candidates r of
             Tuple items \<Rightarrow> count_evidence 0 items
           | _ \<Rightarrow> Inl evaluation_invalid_input)))"

fun key_text :: "py_key \<Rightarrow> string" where
  "key_text (Str_key s) = s"
| "key_text Other_key = []"

definition copied_mapping_items :: "'v mapping_arg \<Rightarrow> bool \<Rightarrow> evaluation_error + (string \<times> 'v) list" where
  "copied_mapping_items value require_nonempty = (case value of
     Not_mapping \<Rightarrow> Inl evaluation_invalid_input
   | Mapping_arg m \<Rightarrow> (case mapping_len m of
       None \<Rightarrow> Inl evaluation_invalid_input
     | Some item_count \<Rightarrow>
         if require_nonempty \<and> item_count < 1 then Inl evaluation_invalid_input
         else if item_count > MAX_EVALUATION_SEALS then Inl evaluation_limit_exceeded
         else (case map_option (take (item_count + 1)) (mapping_iter m) of
           None \<Rightarrow> Inl evaluation_invalid_input
         | Some keys \<Rightarrow>
             if length keys \<noteq> item_count then Inl evaluation_invalid_input
             else if list_ex (\<lambda>k. k = Other_key) keys then Inl evaluation_type_confusion
             else if length keys \<noteq> card (set keys) then Inl evaluation_invalid_input
             else if list_ex (\<lambda>k. \<not> external_slot (key_text k)) keys then Inl evaluation_invalid_input
             else if list_ex (\<lambda>k. mapping_get m k = None) keys then Inl evaluation_invalid_input
             else Inr (sort_key fst (map (\<lambda>k. (key_text k, the (mapping_get m k))) keys)))))"

text \<open>\<open>model_validate(item.model_dump(mode="python"), strict=True)\<close>: the instance with its tuples,
  if it is well typed and passes the contract.\<close>

definition typed_tuple :: "'a tuple_arg \<Rightarrow> 'a list option" where
  "typed_tuple v = (case v of Tuple xs \<Rightarrow> Some xs | _ \<Rightarrow> None)"

fun typed_object :: "'a py_object \<Rightarrow> 'a option" where
  "typed_object (Exact x) = Some x"
| "typed_object Other_type = None"

definition typed_candidate :: "raw_candidate \<Rightarrow> rca_ranked_candidate option" where
  "typed_candidate c = map_option (\<lambda>ids. \<lparr>rc_candidate_id = raw_candidate_id c, rc_rank = raw_rank c,
     score_numerator = raw_numerator c, score_denominator = raw_denominator c, rc_evidence_ids = ids\<rparr>)
     (typed_tuple (raw_evidence_ids c))"

definition typed_ranking :: "raw_ranking \<Rightarrow> rca_ranking option" where
  "typed_ranking r = map_option (\<lambda>cs. \<lparr>outcome = raw_outcome r, candidates = cs\<rparr>)
     (Option.bind (typed_tuple (raw_candidates r))
       (\<lambda>items. those (map (\<lambda>i. Option.bind (typed_object i) typed_candidate) items)))"

definition typed_seal :: "raw_seal \<Rightarrow> rca_ranking_seal option" where
  "typed_seal s = map_option (\<lambda>r. \<lparr>feature_sha256 = raw_feature_sha256 s, ranking = r,
     ranking_sha256 = raw_ranking_sha256 s\<rparr>) (Option.bind (typed_object (raw_ranking s)) typed_ranking)"

definition typed_truth :: "raw_truth \<Rightarrow> rca_truth option" where
  "typed_truth t = map_option (\<lambda>ids. \<lparr>truth_candidate_id = raw_truth_candidate_id t,
     valid_evidence_ids = ids\<rparr>) (typed_tuple (raw_valid_evidence_ids t))"

definition validated :: "('v \<Rightarrow> string option) \<Rightarrow> 'v option \<Rightarrow> 'v option" where
  "validated validate v = (case v of Some x \<Rightarrow> (if validate x = None then Some x else None) | None \<Rightarrow> None)"

text \<open>The running total over the supplied items, with its limit.\<close>

fun total_within :: "('v \<Rightarrow> evaluation_error + nat) \<Rightarrow> nat \<Rightarrow> (string \<times> 'v) list \<Rightarrow> evaluation_error option" where
  "total_within measure_item evidence_count [] = None"
| "total_within measure_item evidence_count ((slot_id, item) # items) =
     (case measure_item item of
        Inl e \<Rightarrow> Some e
      | Inr n \<Rightarrow> if evidence_count + n > MAX_EVIDENCE_REFERENCES then Some evaluation_limit_exceeded
          else total_within measure_item (evidence_count + n) items)"

definition normalize_items :: "('v \<Rightarrow> 'w option) \<Rightarrow> (string \<times> 'v) list \<Rightarrow> evaluation_error + (string \<times> 'w) list" where
  "normalize_items validate_item items =
     (case those (map (\<lambda>(slot_id, item). map_option (Pair slot_id) (validate_item item)) items) of
        None \<Rightarrow> Inl evaluation_invalid_input
      | Some xs \<Rightarrow> Inr (dict_of xs))"

definition validated_seals :: "(string \<Rightarrow> string) \<Rightarrow> raw_seal py_object mapping_arg
    \<Rightarrow> evaluation_error + (string, rca_ranking_seal) dict" where
  "validated_seals h value = (case copied_mapping_items value True of
     Inl e \<Rightarrow> Inl e
   | Inr supplied \<Rightarrow>
       if list_ex (\<lambda>(_, item). item = Other_type) supplied then Inl evaluation_type_confusion
       else let seals = map (\<lambda>(slot_id, item). (slot_id, the (typed_object item))) supplied in
         (case total_within seal_evidence_count 0 seals of
            Some e \<Rightarrow> Inl e
          | None \<Rightarrow> normalize_items (\<lambda>s. validated (validate_seal h) (typed_seal s)) seals))"

definition truth_evidence_count :: "raw_truth \<Rightarrow> evaluation_error + nat" where
  "truth_evidence_count item = (case py_len (raw_valid_evidence_ids item) of
     None \<Rightarrow> Inl evaluation_invalid_input
   | Some n \<Rightarrow>
       if n > MAX_FEATURE_AGGREGATES then Inl evaluation_limit_exceeded
       else (case raw_valid_evidence_ids item of Tuple _ \<Rightarrow> Inr n | _ \<Rightarrow> Inl evaluation_invalid_input))"

definition validated_truths :: "raw_truth py_object mapping_arg \<Rightarrow> string list
    \<Rightarrow> evaluation_error + (string, rca_truth) dict" where
  "validated_truths value slot_ids = (case copied_mapping_items value False of
     Inl e \<Rightarrow> Inl e
   | Inr supplied \<Rightarrow>
       if map fst supplied \<noteq> slot_ids then Inl evaluation_invalid_input
       else if list_ex (\<lambda>(_, item). item = Other_type) supplied then Inl evaluation_type_confusion
       else let truths = map (\<lambda>(slot_id, item). (slot_id, the (typed_object item))) supplied in
         (case total_within truth_evidence_count 0 truths of
            Some e \<Rightarrow> Inl e
          | None \<Rightarrow> normalize_items (\<lambda>t. validated validate_truth (typed_truth t)) truths))"

section \<open>Scoring\<close>

record tally =
  hit_counts :: "int list"
  reciprocal_sum :: rat
  tally_ranked :: int
  tally_references :: nat
  tally_valid :: nat

definition empty_tally :: tally where
  "empty_tally = \<lparr>hit_counts = [0, 0, 0, 0, 0], reciprocal_sum = 0, tally_ranked = 0,
     tally_references = 0, tally_valid = 0\<rparr>"

text \<open>The loop over the candidates of one ranking: the answer's rank and the evidence counters.\<close>

fun score_candidates :: "rca_truth \<Rightarrow> int option \<Rightarrow> nat \<Rightarrow> nat \<Rightarrow> rca_ranked_candidate list
    \<Rightarrow> evaluation_error + (int option \<times> nat \<times> nat)" where
  "score_candidates truth answer_rank refs valid [] = Inr (answer_rank, refs, valid)"
| "score_candidates truth answer_rank refs valid (item # items) =
     (let answer_rank = (if rc_candidate_id item = truth_candidate_id truth then Some (rc_rank item) else answer_rank);
          refs = refs + length (rc_evidence_ids item)
      in if refs > MAX_EVIDENCE_REFERENCES then Inl evaluation_limit_exceeded
         else score_candidates truth answer_rank refs
           (valid + length (filter (\<lambda>e. e \<in> set (valid_evidence_ids truth)) (rc_evidence_ids item))) items)"

text \<open>\<open>for index in range(answer_rank - 1, 5): hit_counts[index] += 1\<close>.\<close>

definition count_hit :: "int \<Rightarrow> int list \<Rightarrow> int list" where
  "count_hit answer_rank hits =
     foldl (\<lambda>hs index. hs[index := hs ! index + 1]) hits [nat (answer_rank - 1)..<5]"

definition score_slot :: "tally \<Rightarrow> rca_ranking_seal \<Rightarrow> rca_truth \<Rightarrow> evaluation_error + tally" where
  "score_slot t seal truth =
     (let ranked = (if outcome (ranking seal) = Out_RANKED then tally_ranked t + 1 else tally_ranked t) in
      case score_candidates truth None (tally_references t) (tally_valid t) (candidates (ranking seal)) of
        Inl e \<Rightarrow> Inl e
      | Inr (answer_rank, refs, valid) \<Rightarrow> Inr (case answer_rank of
          None \<Rightarrow> t\<lparr>tally_ranked := ranked, tally_references := refs, tally_valid := valid\<rparr>
        | Some r \<Rightarrow> t\<lparr>tally_ranked := ranked, tally_references := refs, tally_valid := valid,
            reciprocal_sum := reciprocal_sum t + Fract 1 r, hit_counts := count_hit r (hit_counts t)\<rparr>))"

fun score_slots :: "tally \<Rightarrow> (string, rca_truth) dict \<Rightarrow> (string \<times> rca_ranking_seal) list
    \<Rightarrow> evaluation_error + tally" where
  "score_slots t truths [] = Inr t"
| "score_slots t truths ((slot_id, seal) # rest) =
     (case map_of truths slot_id of
        None \<Rightarrow> Inl evaluation_invalid_input
      | Some truth \<Rightarrow> (case score_slot t seal truth of
            Inl e \<Rightarrow> Inl e
          | Inr t' \<Rightarrow> score_slots t' truths rest))"

definition build_report :: "nat \<Rightarrow> tally \<Rightarrow> rca_evaluation_report" where
  "build_report n t =
     (let accuracies = map (\<lambda>v. Fract v (int n)) (hit_counts t);
          average_at_five = sum_list accuracies / 5;
          evidence_validity = (if tally_references t \<noteq> 0
             then Fract (int (tally_valid t)) (int (tally_references t)) else 0)
      in \<lparr>sample_count = int n, ranked_count = tally_ranked t, inconclusive_count = int n - tally_ranked t,
          ac_at_1_ppm = ppm (accuracies ! 0), ac_at_2_ppm = ppm (accuracies ! 1),
          ac_at_3_ppm = ppm (accuracies ! 2), ac_at_4_ppm = ppm (accuracies ! 3),
          ac_at_5_ppm = ppm (accuracies ! 4), avg_at_5_ppm = ppm average_at_five,
          mrr_ppm = ppm (reciprocal_sum t / of_nat n),
          evidence_reference_count = int (tally_references t),
          valid_evidence_reference_count = int (tally_valid t),
          evidence_validity_ppm = ppm evidence_validity\<rparr>)"

definition evaluate_rca_rankings :: "(string \<Rightarrow> string) \<Rightarrow> raw_seal py_object mapping_arg
    \<Rightarrow> raw_truth py_object mapping_arg \<Rightarrow> evaluation_error + rca_evaluation_report" where
  "evaluate_rca_rankings h seals_by_slot truth_by_slot = (case validated_seals h seals_by_slot of
     Inl e \<Rightarrow> Inl e
   | Inr seals \<Rightarrow> (case validated_truths truth_by_slot (map fst seals) of
       Inl e \<Rightarrow> Inl e
     | Inr truths \<Rightarrow> (case score_slots empty_tally truths seals of
         Inl e \<Rightarrow> Inl e
       | Inr t \<Rightarrow>
           let report = build_report (length seals) t in
           if validate_report report \<noteq> None then Inl evaluation_invalid_input else Inr report)))"

section \<open>Parts per million\<close>

lemma ppm_floor: "ppm v = max 0 (min PPM_SCALE \<lfloor>v * of_int PPM_SCALE\<rfloor>)"
proof -
  obtain p q where pq: "quotient_of v = (p, q)" by (cases "quotient_of v")
  have v: "v = of_int p / of_int q" by (rule quotient_of_div [OF pq])
  have "v * of_int PPM_SCALE = of_int (p * PPM_SCALE) / of_int q" by (simp add: v)
  then have f: "\<lfloor>v * of_int PPM_SCALE\<rfloor> = p * PPM_SCALE div q" by (metis floor_divide_of_int_eq)
  consider "v \<le> 0" | "1 \<le> v" | "0 < v" "v < 1" by linarith
  then show ?thesis
  proof cases
    case 1
    then have "\<lfloor>v * of_int PPM_SCALE\<rfloor> \<le> 0" by (simp add: PPM_SCALE_def floor_le_iff mult_nonpos_nonneg)
    with 1 show ?thesis unfolding ppm_def by (simp only: if_True max_absorb1 min.coboundedI2)
  next
    case 2
    then have "PPM_SCALE \<le> \<lfloor>v * of_int PPM_SCALE\<rfloor>" by (simp add: le_floor_iff PPM_SCALE_def)
    with 2 show ?thesis by (simp add: ppm_def PPM_SCALE_def)
  next
    case 3
    then have "0 \<le> \<lfloor>v * of_int PPM_SCALE\<rfloor>" "\<lfloor>v * of_int PPM_SCALE\<rfloor> \<le> PPM_SCALE"
      by (simp_all add: PPM_SCALE_def floor_le_iff)
    with 3 show ?thesis unfolding ppm_def pq f by simp
  qed
qed

lemma ppm_range [simp]: "ppm_ok (ppm v)"
  by (simp add: ppm_floor ppm_ok_def PPM_SCALE_def)

lemma ppm_mono: "v \<le> w \<Longrightarrow> ppm v \<le> ppm w"
proof -
  assume "v \<le> w"
  then have "\<lfloor>v * of_int PPM_SCALE\<rfloor> \<le> \<lfloor>w * of_int PPM_SCALE\<rfloor>"
    by (intro floor_mono mult_right_mono) (simp_all add: PPM_SCALE_def)
  then show ?thesis by (simp add: ppm_floor)
qed

lemma ppm_fraction:
  assumes "0 \<le> a" and "a \<le> b" and "0 < b"
  shows "ppm (Fract a b) = a * PPM_SCALE div b"
proof -
  have "Fract a b * of_int PPM_SCALE = of_int (a * PPM_SCALE) / of_int b"
    by (simp add: Fract_of_int_quotient)
  then have f: "\<lfloor>Fract a b * of_int PPM_SCALE\<rfloor> = a * PPM_SCALE div b" by (metis floor_divide_of_int_eq)
  have "0 \<le> a * PPM_SCALE div b" using assms by (simp add: pos_imp_zdiv_nonneg_iff PPM_SCALE_def)
  moreover have "a * PPM_SCALE div b \<le> b * PPM_SCALE div b"
    using assms by (intro zdiv_mono1 mult_right_mono) (simp_all add: PPM_SCALE_def)
  ultimately show ?thesis using assms by (simp add: ppm_floor f)
qed

section \<open>What the loops count\<close>

definition answer_rank :: "rca_ranking \<Rightarrow> rca_truth \<Rightarrow> int option" where
  "answer_rank r truth = map_option rc_rank
     (find (\<lambda>c. rc_candidate_id c = truth_candidate_id truth) (candidates r))"

definition evidence_total :: "rca_ranking \<Rightarrow> nat" where
  "evidence_total r = length (concat (map rc_evidence_ids (candidates r)))"

definition valid_total :: "rca_ranking \<Rightarrow> rca_truth \<Rightarrow> nat" where
  "valid_total r truth = length (filter (\<lambda>e. e \<in> set (valid_evidence_ids truth))
     (concat (map rc_evidence_ids (candidates r))))"

lemma find_absent: "c \<notin> f ` set items \<Longrightarrow> find (\<lambda>x. f x = c) items = None"
  by (induction items) auto

lemma score_candidates_total:
  assumes "refs + length (concat (map rc_evidence_ids items)) \<le> MAX_EVIDENCE_REFERENCES"
    and "distinct (map rc_candidate_id items)"
    and "ans \<noteq> None \<Longrightarrow> truth_candidate_id truth \<notin> rc_candidate_id ` set items"
  shows "score_candidates truth ans refs valid items =
    Inr (case find (\<lambda>c. rc_candidate_id c = truth_candidate_id truth) items of
           None \<Rightarrow> ans | Some c \<Rightarrow> Some (rc_rank c),
         refs + length (concat (map rc_evidence_ids items)),
         valid + length (filter (\<lambda>e. e \<in> set (valid_evidence_ids truth)) (concat (map rc_evidence_ids items))))"
  using assms
proof (induction items arbitrary: ans refs valid)
  case (Cons item items)
  let ?hit = "rc_candidate_id item = truth_candidate_id truth"
  let ?ans = "if ?hit then Some (rc_rank item) else ans"
  let ?valid = "valid + length (filter (\<lambda>e. e \<in> set (valid_evidence_ids truth)) (rc_evidence_ids item))"
  have "score_candidates truth ?ans (refs + length (rc_evidence_ids item)) ?valid items =
    Inr (case find (\<lambda>c. rc_candidate_id c = truth_candidate_id truth) items of
           None \<Rightarrow> ?ans | Some c \<Rightarrow> Some (rc_rank c),
         refs + length (rc_evidence_ids item) + length (concat (map rc_evidence_ids items)),
         ?valid + length (filter (\<lambda>e. e \<in> set (valid_evidence_ids truth)) (concat (map rc_evidence_ids items))))"
    by (rule Cons.IH) (use Cons.prems in \<open>auto split: if_splits\<close>)
  moreover have "?hit \<Longrightarrow> find (\<lambda>c. rc_candidate_id c = truth_candidate_id truth) items = None"
    using Cons.prems(2) by (intro find_absent) auto
  ultimately show ?case using Cons.prems(1) by (auto simp: Let_def add.assoc)
qed simp

lemma increment_range:
  "b \<le> length hs \<Longrightarrow> k < length hs \<Longrightarrow>
     foldl (\<lambda>hs index. hs[index := hs ! index + 1]) hs [a..<b] ! k =
       hs ! k + (if a \<le> k \<and> k < b then 1 else (0 :: int))"
  "length (foldl (\<lambda>hs index. hs[index := hs ! index + (1 :: int)]) hs [a..<b]) = length hs"
proof -
  show l: "length (foldl (\<lambda>hs index. hs[index := hs ! index + (1 :: int)]) hs [a..<b]) = length hs" for b
    by (induction b) auto
  show "b \<le> length hs \<Longrightarrow> k < length hs \<Longrightarrow>
     foldl (\<lambda>hs index. hs[index := hs ! index + 1]) hs [a..<b] ! k =
       hs ! k + (if a \<le> k \<and> k < b then 1 else (0 :: int))"
    by (induction b) (auto simp: l nth_list_update)
qed

lemma count_hit_five:
  assumes "1 \<le> r"
  shows "count_hit r (map f [1, 2, 3, 4, 5]) =
    map (\<lambda>k. f k + (if r \<le> k then 1 else 0)) [1, 2, 3, 4, (5 :: int)]"
proof (rule nth_equalityI)
  show "length (count_hit r (map f [1, 2, 3, 4, 5])) =
      length (map (\<lambda>k. f k + (if r \<le> k then 1 else 0)) [1, 2, 3, 4, (5 :: int)])"
    by (simp add: count_hit_def increment_range(2) del: upt_rec_numeral)
  fix i assume "i < length (count_hit r (map f [1, 2, 3, 4, 5]))"
  then have i: "i < 5" by (simp add: count_hit_def increment_range(2) del: upt_rec_numeral)
  have "count_hit r (map f [1, 2, 3, 4, 5]) ! i =
      map f [1, 2, 3, 4, 5] ! i + (if nat (r - 1) \<le> i \<and> i < 5 then 1 else 0)"
    unfolding count_hit_def by (rule increment_range(1)) (use i in auto)
  moreover have "[1, 2, 3, 4, 5 :: int] ! i = int i + 1"
    using i by (auto simp: less_Suc_eq numeral_eq_Suc)
  ultimately show "count_hit r (map f [1, 2, 3, 4, 5]) ! i =
      map (\<lambda>k. f k + (if r \<le> k then 1 else 0)) [1, 2, 3, 4, 5] ! i"
    using i assms by (simp add: nth_map nat_le_iff del: list.map)
qed

type_synonym sample = "rca_ranking \<times> rca_truth"

text \<open>The number of samples whose answer stands among the first \<open>k\<close> candidates.\<close>

definition hits_within :: "int \<Rightarrow> sample list \<Rightarrow> int" where
  "hits_within k samples =
     int (length (filter (\<lambda>(r, t). case_option False (\<lambda>a. a \<le> k) (answer_rank r t)) samples))"

definition ranked_samples :: "sample list \<Rightarrow> int" where
  "ranked_samples samples = int (length (filter (\<lambda>(r, t). outcome r = Out_RANKED) samples))"

definition reciprocal_total :: "sample list \<Rightarrow> rat" where
  "reciprocal_total samples =
     sum_list (map (\<lambda>(r, t). case_option 0 (\<lambda>a. Fract 1 a) (answer_rank r t)) samples)"

definition tally_of :: "sample list \<Rightarrow> tally" where
  "tally_of samples = \<lparr>hit_counts = map (\<lambda>k. hits_within k samples) [1, 2, 3, 4, 5],
     reciprocal_sum = reciprocal_total samples, tally_ranked = ranked_samples samples,
     tally_references = sum_list (map (\<lambda>(r, t). evidence_total r) samples),
     tally_valid = sum_list (map (\<lambda>(r, t). valid_total r t) samples)\<rparr>"

lemma tally_of_Nil: "tally_of [] = empty_tally"
  by (simp add: tally_of_def empty_tally_def hits_within_def reciprocal_total_def ranked_samples_def)

lemma validate_ranking_parts:
  assumes "validate_ranking r = None"
  shows "distinct (map rc_candidate_id (candidates r))"
    "\<forall>c\<in>set (candidates r). 1 \<le> rc_rank c"
    "(outcome r = Out_RANKED) = (candidates r \<noteq> [])"
proof -
  have "length (candidates r) = card (set (map rc_candidate_id (candidates r)))"
    using assms by (simp add: validate_ranking_def)
  then show "distinct (map rc_candidate_id (candidates r))" by (simp add: card_distinct)
  show "\<forall>c\<in>set (candidates r). 1 \<le> rc_rank c" "(outcome r = Out_RANKED) = (candidates r \<noteq> [])"
    using assms by (auto simp: validate_ranking_def validate_ranked_candidate_def)
qed

lemma answer_rank_pos: "validate_ranking r = None \<Longrightarrow> answer_rank r t = Some a \<Longrightarrow> 1 \<le> a"
  using validate_ranking_parts(2) [of r]
  by (auto simp: answer_rank_def find_Some_iff dest: nth_mem)

lemma score_slot_tally:
  assumes "validate_ranking (ranking seal) = None"
    and "tally_references (tally_of samples) + evidence_total (ranking seal) \<le> MAX_EVIDENCE_REFERENCES"
  shows "score_slot (tally_of samples) seal truth = Inr (tally_of (samples @ [(ranking seal, truth)]))"
proof -
  let ?r = "ranking seal" and ?t = "tally_of samples"
  have "score_candidates truth None (tally_references ?t) (tally_valid ?t) (candidates ?r) =
      Inr (answer_rank ?r truth, tally_references ?t + evidence_total ?r, tally_valid ?t + valid_total ?r truth)"
    using score_candidates_total [of "tally_references ?t" "candidates ?r" None truth "tally_valid ?t"]
      validate_ranking_parts(1) [OF assms(1)] assms(2)
    by (simp add: answer_rank_def evidence_total_def valid_total_def split: option.splits)
  moreover have "count_hit a (hit_counts ?t) =
      map (\<lambda>k. hits_within k samples + (if a \<le> k then 1 else 0)) [1, 2, 3, 4, 5]"
    if "answer_rank ?r truth = Some a" for a
    unfolding tally_of_def tally.simps by (rule count_hit_five) (rule answer_rank_pos [OF assms(1) that])
  ultimately show ?thesis
    by (cases "answer_rank ?r truth")
      (simp_all add: score_slot_def Let_def tally_of_def hits_within_def reciprocal_total_def ranked_samples_def)
qed

definition samples_of :: "(string, rca_truth) dict \<Rightarrow> (string \<times> rca_ranking_seal) list \<Rightarrow> sample list" where
  "samples_of truths seals = map (\<lambda>(slot_id, seal). (ranking seal, the (map_of truths slot_id))) seals"

lemma score_slots_tally:
  assumes "\<forall>(slot_id, seal)\<in>set seals. validate_ranking (ranking seal) = None \<and> slot_id \<in> fst ` set truths"
    and "tally_references (tally_of samples) + sum_list (map (\<lambda>(s, seal). evidence_total (ranking seal)) seals)
      \<le> MAX_EVIDENCE_REFERENCES"
  shows "score_slots (tally_of samples) truths seals = Inr (tally_of (samples @ samples_of truths seals))"
  using assms
proof (induction seals arbitrary: samples)
  case (Cons p seals)
  obtain slot_id seal where p: "p = (slot_id, seal)" by (cases p)
  obtain truth where t: "map_of truths slot_id = Some truth"
    using Cons.prems(1) p by (cases "map_of truths slot_id") (auto simp: map_of_eq_None_iff)
  have "score_slot (tally_of samples) seal truth = Inr (tally_of (samples @ [(ranking seal, truth)]))"
    by (rule score_slot_tally) (use Cons.prems p in auto)
  moreover have "score_slots (tally_of (samples @ [(ranking seal, truth)])) truths seals =
      Inr (tally_of ((samples @ [(ranking seal, truth)]) @ samples_of truths seals))"
    by (rule Cons.IH) (use Cons.prems p in \<open>auto simp: tally_of_def\<close>)
  ultimately show ?case using p t by (simp add: samples_of_def)
qed (simp add: samples_of_def)

section \<open>Reports\<close>

lemma hits_within_mono: "j \<le> k \<Longrightarrow> hits_within j samples \<le> hits_within k samples"
  unfolding hits_within_def of_nat_le_iff
  by (induction samples) (auto split: option.splits)

lemma hits_within_bounds: "0 \<le> hits_within k samples" "hits_within k samples \<le> int (length samples)"
  by (simp_all add: hits_within_def)

lemma valid_total_le: "valid_total r t \<le> evidence_total r"
  by (simp add: valid_total_def evidence_total_def)

lemma report_of_tally_valid:
  assumes "samples \<noteq> []" and "length samples \<le> 10000"
    and "tally_references (tally_of samples) \<le> MAX_EVIDENCE_REFERENCES"
  shows "validate_report (build_report (length samples) (tally_of samples)) = None"
proof -
  let ?t = "tally_of samples" and ?n = "length samples"
  let ?acc = "\<lambda>k. ppm (Fract (hits_within k samples) (int ?n))"
  have acc: "?acc j \<le> ?acc k" if "j \<le> k" for j k
    using hits_within_mono [OF that, of samples] assms(1) by (intro ppm_mono) (simp add: le_rat)
  have v: "tally_valid ?t \<le> tally_references ?t"
    unfolding tally_of_def tally.simps by (rule sum_list_mono) (auto simp: valid_total_le)
  have r: "0 \<le> tally_ranked ?t" "tally_ranked ?t \<le> int ?n" by (simp_all add: tally_of_def ranked_samples_def)
  let ?p = "build_report ?n ?t"
  have a: "report_accuracies ?p = map ?acc [1, 2, 3, 4, 5]"
    by (simp add: report_accuracies_def build_report_def Let_def tally_of_def)
  then have "sorted (report_accuracies ?p)" using acc by simp
  then have "report_accuracies ?p = sort (report_accuracies ?p)" by (simp add: sort_key_id_if_sorted)
  moreover have "report_fields_ok ?p"
    using assms v r unfolding report_fields_ok_def a
    by (simp add: build_report_def Let_def MAX_EVIDENCE_REFERENCES_def Suc_le_eq int_one_le_iff_zero_less)
  moreover have "identifier_free (report_json ?p)"
    unfolding report_json_def by (intro identifier_free_obj) simp_all
  moreover have "ranked_count ?p + inconclusive_count ?p = sample_count ?p"
    "valid_evidence_reference_count ?p \<le> evidence_reference_count ?p"
    "evidence_reference_count ?p = 0 \<Longrightarrow> evidence_validity_ppm ?p = 0"
    using v by (auto simp: build_report_def Let_def ppm_def)
  ultimately show ?thesis by (simp add: validate_report_def assert_model_safe_iff not_less)
qed

section \<open>What validation establishes\<close>

lemma dict_of_distinct: "distinct (map fst xs) \<Longrightarrow> dict_of xs = xs"
proof -
  have upd: "k \<notin> fst ` set d \<Longrightarrow> AList.update k v d = d @ [(k, v)]" for k v and d :: "('a, 'b) dict"
    by (induction d) auto
  have "distinct (map fst (d @ xs)) \<Longrightarrow> foldl (\<lambda>d (k, v). AList.update k v d) d xs = d @ xs" for d
  proof (induction xs arbitrary: d)
    case (Cons x xs)
    obtain k v where x: "x = (k, v)" by (cases x)
    have "AList.update k v d = d @ [x]" using Cons.prems x by (simp add: upd)
    moreover have "foldl (\<lambda>d (k, v). AList.update k v d) (d @ [x]) xs = (d @ [x]) @ xs"
      by (rule Cons.IH) (use Cons.prems in simp)
    ultimately show ?case using x by simp
  qed simp
  from this [of "[]"] show "distinct (map fst xs) \<Longrightarrow> dict_of xs = xs" by (simp add: dict_of_def)
qed

lemma distinct_map_sort: "distinct (map f (sort_key k xs)) \<longleftrightarrow> distinct (map f xs)"
proof -
  have "mset (map f (sort_key k xs)) = mset (map f xs)" by simp
  then show ?thesis by (rule mset_eq_imp_distinct_iff)
qed

lemma those_Some: "those xs = Some ys \<Longrightarrow> xs = map Some ys"
  by (induction xs arbitrary: ys) (auto split: option.splits)

lemma copied_items:
  assumes "copied_mapping_items value req = Inr items"
  shows "distinct (map fst items)" "length items \<le> MAX_EVALUATION_SEALS" "req \<Longrightarrow> items \<noteq> []"
proof -
  obtain m n keys where m: "value = Mapping_arg m" "mapping_len m = Some n"
    "map_option (take (n + 1)) (mapping_iter m) = Some keys"
    using assms by (auto simp: copied_mapping_items_def split: mapping_arg.splits option.splits if_splits)
  then have k: "n \<le> MAX_EVALUATION_SEALS" "req \<Longrightarrow> 1 \<le> n" "length keys = n" "length keys = card (set keys)"
    "\<forall>k\<in>set keys. k \<noteq> Other_key"
    "items = sort_key fst (map (\<lambda>k. (key_text k, the (mapping_get m k))) keys)"
    using assms by (auto simp: copied_mapping_items_def list_ex_iff split: if_splits)
  have inj: "inj_on key_text (set keys)"
  proof (rule inj_onI)
    fix x y assume "x \<in> set keys" "y \<in> set keys" "key_text x = key_text y"
    with k(5) show "x = y" by (cases x; cases y) auto
  qed
  have "distinct keys" using k(4) by (simp add: card_distinct)
  then have "distinct (map fst (map (\<lambda>k. (key_text k, the (mapping_get m k))) keys))"
    using inj by (simp add: distinct_map comp_def)
  then show "distinct (map fst items)"
    unfolding k(6) by (simp only: distinct_map_sort)
  show "length items \<le> MAX_EVALUATION_SEALS" using k by simp
  show "req \<Longrightarrow> items \<noteq> []" using k by (metis One_nat_def length_greater_0_conv length_map length_sort less_eq_Suc_le)
qed

lemma normalize_items_Inr:
  assumes "normalize_items f items = Inr xs" and "distinct (map fst items)"
  shows "map fst xs = map fst items" "list_all2 (\<lambda>(s, i) (s', x). s = s' \<and> f i = Some x) items xs"
proof -
  obtain ys where ys: "map (\<lambda>(s, i). map_option (Pair s) (f i)) items = map Some ys" "xs = dict_of ys"
    using assms(1) by (auto simp: normalize_items_def split: option.splits dest: those_Some)
  have l: "list_all2 (\<lambda>(s, i) (s', x). s = s' \<and> f i = Some x) items ys"
    using ys(1) by (induction items arbitrary: ys) (auto simp: Cons_eq_map_conv)
  then have "map fst ys = map fst items" by (induction) auto
  with assms(2) have "dict_of ys = ys" by (simp add: dict_of_distinct)
  with ys(2) l \<open>map fst ys = map fst items\<close>
  show "map fst xs = map fst items" "list_all2 (\<lambda>(s, i) (s', x). s = s' \<and> f i = Some x) items xs" by simp_all
qed

lemma total_within_None:
  "total_within f n items = None \<Longrightarrow> \<exists>ns. list_all2 (\<lambda>(s, i) k. f i = Inr k) items ns \<and>
     (items \<noteq> [] \<longrightarrow> n + sum_list ns \<le> MAX_EVIDENCE_REFERENCES)"
proof (induction f n items rule: total_within.induct)
  case (2 f n s i items)
  then obtain k where k: "f i = Inr k" "n + k \<le> MAX_EVIDENCE_REFERENCES" "total_within f (n + k) items = None"
    by (auto split: sum.splits if_splits)
  with "2.IH" [of k] obtain ns where ns: "list_all2 (\<lambda>(s, i) k. f i = Inr k) items ns"
    "items \<noteq> [] \<longrightarrow> n + k + sum_list ns \<le> MAX_EVIDENCE_REFERENCES" by auto
  with k show ?case by (intro exI [of _ "k # ns"]) (cases items; auto)
qed auto

lemma count_evidence_typed:
  "count_evidence n items = Inr k \<Longrightarrow>
     those (map (\<lambda>i. Option.bind (typed_object i) typed_candidate) items) = Some cs \<Longrightarrow>
     k = n + length (concat (map rc_evidence_ids cs))"
proof (induction n items arbitrary: cs rule: count_evidence.induct)
  case (3 n item items)
  then obtain ids where ids: "raw_evidence_ids item = Tuple ids"
    by (auto split: option.splits if_splits tuple_arg.splits)
  with "3.prems" obtain c cs' where c: "cs = c # cs'" "typed_candidate item = Some c"
    "those (map (\<lambda>i. Option.bind (typed_object i) typed_candidate) items) = Some cs'"
    by (auto split: option.splits)
  from c(2) ids have "rc_evidence_ids c = ids" by (auto simp: typed_candidate_def typed_tuple_def)
  moreover from "3.prems"(1) ids have n: "\<not> length ids > MAX_FEATURE_AGGREGATES"
    "\<not> n + length ids > MAX_EVIDENCE_REFERENCES" "count_evidence (n + length ids) items = Inr k"
    by (auto split: if_splits)
  moreover have "k = n + length ids + length (concat (map rc_evidence_ids cs'))"
    using "3.IH" [of "length ids" ids cs'] ids n c(3) by simp
  ultimately show ?case using c(1) by simp
qed auto

lemma seal_evidence_typed:
  assumes "seal_evidence_count s = Inr k" and "typed_seal s = Some seal"
  shows "k = evidence_total (ranking seal)"
proof -
  from assms(2) obtain r where r: "raw_ranking s = Exact r" "typed_ranking r = Some (ranking seal)"
    by (cases "raw_ranking s") (auto simp: typed_seal_def)
  from r(2) obtain items where i: "raw_candidates r = Tuple items"
    "those (map (\<lambda>i. Option.bind (typed_object i) typed_candidate) items) = Some (candidates (ranking seal))"
    by (auto simp: typed_ranking_def typed_tuple_def bind_eq_Some_conv split: tuple_arg.splits)
      (metis rca_ranking.select_convs(2))
  with assms(1) r(1) have "count_evidence 0 items = Inr k"
    by (auto simp: seal_evidence_count_def split: if_splits)
  from count_evidence_typed [OF this i(2)] show ?thesis by (simp add: evidence_total_def)
qed

lemma validated_Some: "validated p v = Some x \<longleftrightarrow> v = Some x \<and> p x = None"
  by (auto simp: validated_def split: option.splits if_splits)

lemma sums_agree:
  assumes "list_all2 (\<lambda>(s, i) k. f i = Inr k) items ns"
    and "list_all2 (\<lambda>(s, i) (s', x). s = s' \<and> g i = Some x) items xs"
    and "\<And>i k x. f i = Inr k \<Longrightarrow> g i = Some x \<Longrightarrow> k = m x"
  shows "sum_list ns = sum_list (map (\<lambda>(s, x). m x) xs)"
  using assms(1,2)
proof (induction items ns arbitrary: xs)
  case (Cons p items k ns)
  then obtain s x xs' where xs: "xs = (s, x) # xs'" "g (snd p) = Some x" "f (snd p) = Inr k"
    by (cases xs; cases p) auto
  with Cons.prems Cons.IH [of xs'] assms(3) [OF xs(3,2)] show ?case by (cases p) auto
qed simp

lemma validated_seals_Inr:
  assumes "validated_seals h value = Inr seals"
  shows "seals \<noteq> []" "length seals \<le> MAX_EVALUATION_SEALS" "distinct (map fst seals)"
    "\<forall>(slot_id, seal)\<in>set seals. validate_seal h seal = None"
    "sum_list (map (\<lambda>(s, seal). evidence_total (ranking seal)) seals) \<le> MAX_EVIDENCE_REFERENCES"
proof -
  obtain supplied where sup: "copied_mapping_items value True = Inr supplied"
    using assms by (auto simp: validated_seals_def split: sum.splits)
  define raw where "raw = map (\<lambda>(slot_id, item). (slot_id, the (typed_object item))) supplied"
  from assms sup have t: "total_within seal_evidence_count 0 raw = None"
    and n: "normalize_items (\<lambda>s. validated (validate_seal h) (typed_seal s)) raw = Inr seals"
    by (auto simp: validated_seals_def raw_def Let_def split: if_splits option.splits)
  have "map fst raw = map fst supplied" by (auto simp: raw_def)
  then have d: "distinct (map fst raw)" "length raw \<le> MAX_EVALUATION_SEALS" "raw \<noteq> []"
    using copied_items [OF sup] by (simp only:, simp_all add: raw_def)
  note s = normalize_items_Inr [OF n d(1)]
  show "distinct (map fst seals)" using s(1) d(1) by simp
  have len: "length seals = length raw" using s(1) by (metis length_map)
  show "length seals \<le> MAX_EVALUATION_SEALS" using d(2) len by simp
  show "seals \<noteq> []" using d(3) len by auto
  show "\<forall>(slot_id, seal)\<in>set seals. validate_seal h seal = None"
    using s(2) by (auto simp: list_all2_conv_all_nth in_set_conv_nth validated_Some split: prod.splits)
      (metis nth_mem prod.exhaust_sel)
  obtain ns where ns: "list_all2 (\<lambda>(s, i) k. seal_evidence_count i = Inr k) raw ns"
    "sum_list ns \<le> MAX_EVIDENCE_REFERENCES"
    using total_within_None [OF t] d(3) by auto
  have "sum_list ns = sum_list (map (\<lambda>(s, seal). evidence_total (ranking seal)) seals)"
    by (rule sums_agree [OF ns(1) s(2)]) (auto simp: validated_Some dest: seal_evidence_typed)
  with ns(2) show "sum_list (map (\<lambda>(s, seal). evidence_total (ranking seal)) seals) \<le> MAX_EVIDENCE_REFERENCES"
    by simp
qed

lemma validated_truths_Inr:
  assumes "validated_truths value slots = Inr truths"
  shows "map fst truths = slots"
proof -
  obtain supplied where sup: "copied_mapping_items value False = Inr supplied"
    using assms by (auto simp: validated_truths_def split: sum.splits)
  define raw where "raw = map (\<lambda>(slot_id, item). (slot_id, the (typed_object item))) supplied"
  from assms sup have f: "map fst supplied = slots"
    and n: "normalize_items (\<lambda>t. validated validate_truth (typed_truth t)) raw = Inr truths"
    by (auto simp: validated_truths_def raw_def Let_def split: if_splits option.splits)
  have r: "map fst raw = map fst supplied" by (auto simp: raw_def)
  with copied_items(1) [OF sup] have "distinct (map fst raw)" by simp
  from normalize_items_Inr(1) [OF n this] r f show ?thesis by simp
qed

lemma validate_seal_ranking: "validate_seal h seal = None \<Longrightarrow> validate_ranking (ranking seal) = None"
  by (simp add: validate_seal_def)

text \<open>Once both mappings are read, scoring them cannot fail.\<close>

lemma evaluate_success:
  assumes "validated_seals h seal_map = Inr seals" and "validated_truths truth_map (map fst seals) = Inr truths"
  shows "evaluate_rca_rankings h seal_map truth_map =
      Inr (build_report (length seals) (tally_of (samples_of truths seals)))"
    and "validate_report (build_report (length seals) (tally_of (samples_of truths seals))) = None"
proof -
  note s = validated_seals_Inr [OF assms(1)] and t = validated_truths_Inr [OF assms(2)]
  have refs: "tally_references (tally_of (samples_of truths seals)) =
      sum_list (map (\<lambda>(s, seal). evidence_total (ranking seal)) seals)"
    by (simp add: tally_of_def samples_of_def comp_def case_prod_unfold)
  have "score_slots (tally_of []) truths seals = Inr (tally_of ([] @ samples_of truths seals))"
  proof (rule score_slots_tally)
    show "\<forall>(slot_id, seal)\<in>set seals. validate_ranking (ranking seal) = None \<and> slot_id \<in> fst ` set truths"
      using s(4) t by (auto dest!: validate_seal_ranking) (metis fst_conv image_eqI set_map)
  qed (use s(5) in \<open>simp add: tally_of_def\<close>)
  then have sc: "score_slots empty_tally truths seals = Inr (tally_of (samples_of truths seals))"
    by (simp add: tally_of_Nil)
  have "length (samples_of truths seals) = length seals" "samples_of truths seals \<noteq> []"
    using s(1) by (simp_all add: samples_of_def)
  with report_of_tally_valid [of "samples_of truths seals"] s refs
  show v: "validate_report (build_report (length seals) (tally_of (samples_of truths seals))) = None"
    by (auto simp: MAX_EVALUATION_SEALS_def)
  show "evaluate_rca_rankings h seal_map truth_map =
      Inr (build_report (length seals) (tally_of (samples_of truths seals)))"
    using assms sc v by (simp add: evaluate_rca_rankings_def Let_def)
qed

end
