(* ===== verification/Rca_Ranking_Properties.thy ===== *)
theory Rca_Ranking_Properties
  imports Rca_Ranking
begin

text \<open>
  Properties of the answer-blind ranking: the integer shift formula is the relative
  change of the mean it stands for, ranking a valid feature set always produces a seal
  that passes its own contract, the ranking holds exactly the candidates with shifts in
  two modalities, and the order of the aggregates does not matter.
\<close>

text \<open>the integer shift is the relative change of the mean against the baseline mean (or
  against one, when the baseline mean is smaller), in parts per million rounded down and capped.\<close>

theorem shift_is_relative_change:
  assumes "1 \<le> bc" and "1 \<le> oc"
  shows "shift bt bc ot oc = min MAX_SHIFT_PPM
    \<lfloor>of_int PPM_SCALE * \<bar>(of_int ot :: rat) / of_int oc - of_int bt / of_int bc\<bar> /
      max \<bar>of_int bt / of_int bc\<bar> 1\<rfloor>"
proof -
  define b o' where "b = (of_int bt :: rat) / of_int bc" and "o' = (of_int ot :: rat) / of_int oc"
  define d where "d = (if \<bar>bt\<bar> \<ge> bc then oc * \<bar>bt\<bar> else oc * bc)"
  have pos: "(0 :: rat) < of_int bc" "(0 :: rat) < of_int oc" using assms by simp_all
  have delta: "(of_int \<bar>ot * bc - bt * oc\<bar> :: rat) = \<bar>o' - b\<bar> * (of_int oc * of_int bc)"
  proof -
    have "(of_int (ot * bc - bt * oc) :: rat) = (o' - b) * (of_int oc * of_int bc)"
      using pos by (simp add: o'_def b_def field_simps)
    then show ?thesis using pos by (simp add: abs_mult)
  qed
  have "(of_int d :: rat) = max \<bar>b\<bar> 1 * (of_int oc * of_int bc)"
  proof (cases "\<bar>bt\<bar> \<ge> bc")
    case True
    then have "(of_int bc :: rat) \<le> of_int \<bar>bt\<bar>" by (simp only: of_int_le_iff)
    then have "1 \<le> \<bar>b\<bar>" using pos by (simp add: b_def)
    with True pos show ?thesis by (simp add: d_def b_def max_def field_simps)
  next
    case False
    then have "(of_int \<bar>bt\<bar> :: rat) \<le> of_int bc" by (simp only: of_int_le_iff)
    then have "\<bar>b\<bar> \<le> 1" using pos by (simp add: b_def)
    with False show ?thesis by (simp add: d_def max_def)
  qed
  then have "(of_int (\<bar>ot * bc - bt * oc\<bar> * PPM_SCALE) :: rat) / of_int d =
      of_int PPM_SCALE * \<bar>o' - b\<bar> / max \<bar>b\<bar> 1"
    using pos delta by (simp add: field_simps)
  then have "\<bar>ot * bc - bt * oc\<bar> * PPM_SCALE div d = \<lfloor>of_int PPM_SCALE * \<bar>o' - b\<bar> / max \<bar>b\<bar> 1\<rfloor>"
    by (metis floor_divide_of_int_eq)
  then show ?thesis by (simp add: shift_def Let_def d_def b_def o'_def min.commute)
qed

theorem shift_is_relative_change_witness:
  "shift 100 10 150 10 = min MAX_SHIFT_PPM
    \<lfloor>of_int PPM_SCALE * \<bar>(of_int 150 :: rat) / of_int 10 - of_int 100 / of_int 10\<bar> /
      max \<bar>of_int 100 / of_int 10\<bar> 1\<rfloor> \<and> shift 100 10 150 10 = 500000"
  using shift_is_relative_change [of 10 10 100 150] by (simp add: shift_def rca_limits)

section \<open>A feature set\<close>

definition sha_constant :: "string \<Rightarrow> string" where
  "sha_constant text = replicate 64 (CHR ''a'')"

definition ex_aggregate :: "char \<Rightarrow> string \<Rightarrow> modality \<Rightarrow> int \<Rightarrow> evidence_aggregate" where
  "ex_aggregate n c m observed = \<lparr>agg_evidence_id = ''rcaevidence-'' @ replicate 63 (CHR ''0'') @ [n],
     agg_candidate_id = c, agg_modality = m, baseline_total = 100, baseline_count = 10,
     observed_total = observed, observed_count = 10\<rparr>"

definition ex_features :: "evidence_aggregate list" where
  "ex_features = [ex_aggregate CHR ''1'' ''db'' Mod_LOG 150, ex_aggregate CHR ''2'' ''db'' Mod_METRIC 130]"

lemma sha_constant_digest: "rca_digest_ok (sha_constant t)"
  by (simp add: sha_constant_def rca_digest_ok_def list_all_iff lower_hex_def)

lemma ex_features_valid: "validate_feature_set ex_features = None"
proof -
  have "validate_aggregate_item (ex_aggregate n c m v) = None"
    if "n \<in> {CHR ''1'', CHR ''2''}" "c = ''db''" "\<bar>v\<bar> < 1000" for n c m v
    by (rule aggregate_valid)
      (use that in \<open>auto simp: ex_aggregate_def no_label_eval numeral_eq_Suc evidence_id_ok_def
        candidate_id_ok_def lower_hex_def lower_char_def aggregate_total_ok_def positive_count_ok_def rca_limits\<close>)
  then show ?thesis
    by (simp add: feature_set_valid_iff ex_features_def) (simp add: ex_aggregate_def rca_limits)
qed

section \<open>The ranking\<close>

lemma inj_modality_value: "inj modality_value"
proof (rule injI)
  fix m n show "modality_value m = modality_value n \<Longrightarrow> m = n" by (cases m; cases n) simp_all
qed

lemma shifted_modality_set:
  "set (shifted_modalities xs c) =
     modality_value ` {agg_modality a | a. a \<in> set xs \<and> 0 < aggregate_shift a \<and> agg_candidate_id a = c}"
proof -
  have "m \<in> set (shifted_modalities xs c) \<longleftrightarrow> (\<exists>a. a \<in> set xs \<and> 0 < aggregate_shift a \<and>
      agg_candidate_id a = c \<and> m = modality_value (agg_modality a))" for m
    unfolding shifted_modalities(2) contributes_def by blast
  then show ?thesis by blast
qed

lemma ranked_ids:
  assumes "well_formed_items xs"
  shows "rc_candidate_id ` set (candidates (build_ranking xs)) = set (rankable xs)"
proof -
  have "map rc_candidate_id (candidates (build_ranking xs)) = rank_order xs"
    using map_enumerate_ignore [of "\<lambda>c. c" 1 "rank_order xs"]
    by (simp add: build_ranking_candidates [OF assms] comp_def case_prod_unfold)
  then show ?thesis using rank_order(2) [of xs] by (metis set_map)
qed

text \<open>C29: ranking a valid feature set always returns a seal, the seal passes its own contract
  (digest, order, contiguous positions, unique evidence, reduced scores and the serialised budget),
  and it is bound to the digest of the features.\<close>

theorem valid_features_are_ranked:
  assumes "validate_feature_set xs = None" and "\<forall>t. rca_digest_ok (h t)"
  shows "\<exists>seal. rank_rca_features h (Exact (Tuple xs)) = Inr seal \<and> validate_seal h seal = None \<and>
    feature_sha256 seal = h (canonical_json_bytes (feature_set_json xs))"
  using rank_rca_features_success [OF assms] seal_valid [OF feature_set_sound [OF assms(1)] assms(2)]
  by simp

theorem valid_features_are_ranked_witness:
  "\<exists>seal. rank_rca_features sha_constant (Exact (Tuple ex_features)) = Inr seal \<and>
    validate_seal sha_constant seal = None \<and>
    feature_sha256 seal = sha_constant (canonical_json_bytes (feature_set_json ex_features))"
  by (rule valid_features_are_ranked [OF ex_features_valid]) (simp add: sha_constant_digest)

text \<open>C31: a candidate is ranked exactly when its aggregates show a positive shift in at least two
  modalities, and then it cites exactly its aggregates with a positive shift.\<close>

theorem ranking_is_exact:
  assumes "validate_feature_set xs = None" and "\<forall>t. rca_digest_ok (h t)"
    and "rank_rca_features h (Exact (Tuple xs)) = Inr seal"
  shows "((\<exists>r\<in>set (candidates (ranking seal)). rc_candidate_id r = c) \<longleftrightarrow>
      2 \<le> card {agg_modality a | a. a \<in> set xs \<and> 0 < aggregate_shift a \<and> agg_candidate_id a = c}) \<and>
    (\<forall>r\<in>set (candidates (ranking seal)). set (rc_evidence_ids r) =
      {agg_evidence_id a | a. a \<in> set xs \<and> 0 < aggregate_shift a \<and> agg_candidate_id a = rc_candidate_id r})"
proof (intro conjI ballI)
  have wf: "well_formed_items xs" using feature_set_sound [OF assms(1)] by (simp add: sound_features_def)
  from assms(3) have s: "ranking seal = build_ranking xs"
    unfolding rank_rca_features_success [OF assms(1,2)] by auto
  let ?M = "{agg_modality a | a. a \<in> set xs \<and> 0 < aggregate_shift a \<and> agg_candidate_id a = c}"
  have "length (shifted_modalities xs c) = card ?M"
    using distinct_card [OF shifted_modalities(1) [of xs c]] shifted_modality_set [of xs c]
      card_image [OF inj_on_subset [OF inj_modality_value subset_UNIV], of ?M] by simp
  moreover have "rc_candidate_id ` set (candidates (ranking seal)) = set (rankable xs)"
    unfolding s by (rule ranked_ids [OF wf])
  moreover have "(\<exists>r\<in>set (candidates (ranking seal)). rc_candidate_id r = c) \<longleftrightarrow>
      c \<in> rc_candidate_id ` set (candidates (ranking seal))" by blast
  ultimately show "(\<exists>r\<in>set (candidates (ranking seal)). rc_candidate_id r = c) \<longleftrightarrow> 2 \<le> card ?M"
    by (simp only: rankable(2))
  show "set (rc_evidence_ids r) =
      {agg_evidence_id a | a. a \<in> set xs \<and> 0 < aggregate_shift a \<and> agg_candidate_id a = rc_candidate_id r}"
    if "r \<in> set (candidates (ranking seal))" for r
    using that unfolding s build_ranking_candidates [OF wf] by (auto simp: cited_evidence(3) [OF wf])
qed

theorem ranking_is_exact_witness:
  "\<exists>seal. rank_rca_features sha_constant (Exact (Tuple ex_features)) = Inr seal \<and>
    ((\<exists>r\<in>set (candidates (ranking seal)). rc_candidate_id r = ''db'') \<longleftrightarrow>
      2 \<le> card {agg_modality a | a. a \<in> set ex_features \<and> 0 < aggregate_shift a \<and> agg_candidate_id a = ''db''})"
  using ranking_is_exact [OF ex_features_valid, of sha_constant _ "''db''"]
    rank_rca_features_success [OF ex_features_valid, of sha_constant] sha_constant_digest by blast

text \<open>the ranking does not depend on the order in which the aggregates are supplied.\<close>

theorem ranking_ignores_input_order:
  assumes "validate_feature_set xs = None" and "mset ys = mset xs" and "\<forall>t. rca_digest_ok (h t)"
  shows "\<exists>seal seal'. rank_rca_features h (Exact (Tuple xs)) = Inr seal \<and>
    rank_rca_features h (Exact (Tuple ys)) = Inr seal' \<and> ranking seal' = ranking seal \<and>
    ranking_sha256 seal' = ranking_sha256 seal"
proof -
  have s: "set ys = set xs" "length ys = length xs" using assms(2) by (metis set_mset_mset, metis size_mset)
  have d: "distinct (map agg_evidence_id xs)" using assms(1) by (simp add: feature_set_valid_iff)
  have "distinct (map agg_evidence_id ys)" using d assms(2) by (metis mset_eq_imp_distinct_iff mset_map)
  then have v: "validate_feature_set ys = None" using assms(1) s by (simp add: feature_set_valid_iff)
  have "sort_key agg_evidence_id ys = sort_key agg_evidence_id xs"
    using assms(2) d s by (intro sort_key_inj_key_eq) (simp_all add: distinct_map)
  then have "build_ranking ys = build_ranking xs" by (simp add: build_ranking_def group_items_def)
  then show ?thesis
    using rank_rca_features_success [OF assms(1,3)] rank_rca_features_success [OF v assms(3)] by simp
qed

theorem ranking_ignores_input_order_witness:
  "\<exists>seal seal'. rank_rca_features sha_constant (Exact (Tuple ex_features)) = Inr seal \<and>
    rank_rca_features sha_constant (Exact (Tuple (rev ex_features))) = Inr seal' \<and>
    ranking seal' = ranking seal \<and> ranking_sha256 seal' = ranking_sha256 seal"
  by (rule ranking_ignores_input_order [OF ex_features_valid]) (simp_all add: sha_constant_digest)

end
