(* ===== verification/Rca_Evaluation_Properties.thy ===== *)
theory Rca_Evaluation_Properties
  imports Rca_Evaluation Rca_Ranking_Properties
begin

text \<open>
  Properties of the sealed evaluation, and of the pipeline ranking then evaluation: a
  dictionary of seals the ranking produced is always scored.
\<close>

section \<open>Dictionaries of instances\<close>

text \<open>An ordinary \<open>dict\<close> of instances, as the caller passes it.\<close>

definition dict_arg :: "(string \<times> 'v) list \<Rightarrow> 'v py_object mapping_arg" where
  "dict_arg d = Mapping_arg \<lparr>mapping_len = Some (length d), mapping_iter = Some (map (Str_key \<circ> fst) d),
     mapping_get = (\<lambda>k. case k of Str_key s \<Rightarrow> map_option Exact (map_of d s) | Other_key \<Rightarrow> None)\<rparr>"

definition raw_of_candidate :: "rca_ranked_candidate \<Rightarrow> raw_candidate" where
  "raw_of_candidate c = \<lparr>raw_candidate_id = rc_candidate_id c, raw_rank = rc_rank c,
     raw_numerator = score_numerator c, raw_denominator = score_denominator c,
     raw_evidence_ids = Tuple (rc_evidence_ids c)\<rparr>"

definition raw_of_seal :: "rca_ranking_seal \<Rightarrow> raw_seal" where
  "raw_of_seal s = \<lparr>raw_feature_sha256 = feature_sha256 s,
     raw_ranking = Exact \<lparr>raw_outcome = outcome (ranking s),
       raw_candidates = Tuple (map (Exact \<circ> raw_of_candidate) (candidates (ranking s)))\<rparr>,
     raw_ranking_sha256 = ranking_sha256 s\<rparr>"

definition raw_of_truth :: "rca_truth \<Rightarrow> raw_truth" where
  "raw_of_truth t = \<lparr>raw_truth_candidate_id = truth_candidate_id t,
     raw_valid_evidence_ids = Tuple (valid_evidence_ids t)\<rparr>"

lemma typed_raw_candidate [simp]: "typed_candidate (raw_of_candidate c) = Some c"
  by (simp add: typed_candidate_def raw_of_candidate_def typed_tuple_def)

lemma those_map_Some: "those (map (\<lambda>x. Some (f x)) xs) = Some (map f xs)"
  by (induction xs) auto

lemma typed_raw_seal [simp]: "typed_seal (raw_of_seal s) = Some s"
  by (simp add: typed_seal_def raw_of_seal_def typed_ranking_def typed_tuple_def comp_def
      those_map_Some [of "\<lambda>x. x", simplified])

lemma typed_raw_truth [simp]: "typed_truth (raw_of_truth t) = Some t"
  by (simp add: typed_truth_def raw_of_truth_def typed_tuple_def)

lemma copied_dict:
  assumes "distinct (map fst d)" and "\<forall>s\<in>fst ` set d. external_slot s"
    and "length d \<le> MAX_EVALUATION_SEALS" and "req \<Longrightarrow> d \<noteq> []"
  shows "copied_mapping_items (dict_arg d) req = Inr (sort_key fst (map (\<lambda>(s, v). (s, Exact v)) d))"
proof -
  let ?keys = "map (Str_key \<circ> fst) d"
  have "distinct ?keys" using assms(1) by (simp add: distinct_map inj_on_def)
  then have c: "card (set ?keys) = length d" using distinct_card [of ?keys] by simp
  have g: "map_of d (fst p) = Some (snd p)" if "p \<in> set d" for p
    using that assms(1) by simp
  then have m: "map (\<lambda>k. (key_text k, the (case k of Str_key s \<Rightarrow> map_option Exact (map_of d s) | Other_key \<Rightarrow> None))) ?keys
      = map (\<lambda>(s, v). (s, Exact v)) d" by auto
  have "\<not> (req \<and> length d < 1)" using assms(4) by (cases d) auto
  moreover have "\<not> list_ex (\<lambda>k. k = Other_key) ?keys"
    "\<not> list_ex (\<lambda>k. \<not> external_slot (key_text k)) ?keys"
    "\<not> list_ex (\<lambda>k. (case k of Str_key s \<Rightarrow> map_option Exact (map_of d s) | Other_key \<Rightarrow> None) = None) ?keys"
    using assms(2) g by (auto simp: list_ex_iff)
  ultimately show ?thesis
    using assms(3) c by (simp add: copied_mapping_items_def dict_arg_def m del: map_map set_map)
qed

lemma total_within_ok:
  "\<forall>(s, i)\<in>set items. f i = Inr (m i) \<Longrightarrow> n + sum_list (map (m \<circ> snd) items) \<le> MAX_EVIDENCE_REFERENCES \<Longrightarrow>
     total_within f n items = None"
  by (induction items arbitrary: n) (auto simp: add.assoc)

lemma normalize_items_ok:
  "\<forall>(s, i)\<in>set items. f i = Some (g i) \<Longrightarrow> distinct (map fst items) \<Longrightarrow>
     normalize_items f items = Inr (map (\<lambda>(s, i). (s, g i)) items)"
proof -
  assume f: "\<forall>(s, i)\<in>set items. f i = Some (g i)" and d: "distinct (map fst items)"
  have "those (map (\<lambda>(s, i). map_option (Pair s) (f i)) items) = Some (map (\<lambda>(s, i). (s, g i)) items)"
    using f by (induction items) auto
  moreover have "map fst (map (\<lambda>(s, i). (s, g i)) items) = map fst items" by auto
  ultimately show ?thesis using d by (simp add: normalize_items_def dict_of_distinct del: map_map)
qed

lemma count_evidence_ok:
  "\<forall>c\<in>set cs. length (rc_evidence_ids c) \<le> MAX_FEATURE_AGGREGATES \<Longrightarrow>
     n + length (concat (map rc_evidence_ids cs)) \<le> MAX_EVIDENCE_REFERENCES \<Longrightarrow>
     count_evidence n (map (Exact \<circ> raw_of_candidate) cs) = Inr (n + length (concat (map rc_evidence_ids cs)))"
  by (induction cs arbitrary: n) (auto simp: raw_of_candidate_def)

lemma seal_evidence_ok:
  assumes "validate_seal h s = None" and "evidence_total (ranking s) \<le> MAX_EVIDENCE_REFERENCES"
  shows "seal_evidence_count (raw_of_seal s) = Inr (evidence_total (ranking s))"
proof -
  from validate_seal_ranking [OF assms(1)]
  have "length (candidates (ranking s)) \<le> MAX_FEATURE_CANDIDATES"
    "\<forall>c\<in>set (candidates (ranking s)). length (rc_evidence_ids c) \<le> MAX_FEATURE_AGGREGATES"
    by (auto simp: validate_ranking_def validate_ranked_candidate_def)
  with count_evidence_ok [of "candidates (ranking s)" 0] assms(2) show ?thesis
    by (simp add: seal_evidence_count_def raw_of_seal_def evidence_total_def)
qed

text \<open>Slots of a supplied dictionary in the order the evaluation visits them.\<close>

lemma sorted_items_map:
  "map (\<lambda>(s, i). (s, the (typed_object i))) (sort_key fst (map (\<lambda>(s, v). (s, Exact (f v))) d)) =
     map (\<lambda>(s, v). (s, f v)) (sort_key fst d)"
proof -
  have "(fst \<circ> (\<lambda>(s, v). (s, Exact (f v)))) = fst" by (simp add: comp_def case_prod_unfold)
  then show ?thesis by (simp add: sort_key_map_commute comp_def case_prod_unfold)
qed

lemma validated_seals_dict:
  assumes "distinct (map fst d)" and "\<forall>s\<in>fst ` set d. external_slot s"
    and "length d \<le> MAX_EVALUATION_SEALS" and "d \<noteq> []"
    and "\<forall>(s, seal)\<in>set d. validate_seal h seal = None"
    and "sum_list (map (\<lambda>(s, seal). evidence_total (ranking seal)) d) \<le> MAX_EVIDENCE_REFERENCES"
  shows "validated_seals h (dict_arg (map (\<lambda>(s, seal). (s, raw_of_seal seal)) d)) = Inr (sort_key fst d)"
proof -
  let ?d = "map (\<lambda>(s, seal). (s, raw_of_seal seal)) d" and ?raw = "map (\<lambda>(s, seal). (s, raw_of_seal seal)) (sort_key fst d)"
  have "copied_mapping_items (dict_arg ?d) True = Inr (sort_key fst (map (\<lambda>(s, v). (s, Exact v)) ?d))"
    by (rule copied_dict) (use assms in \<open>auto simp: comp_def case_prod_unfold\<close>)
  then have c: "copied_mapping_items (dict_arg ?d) True = Inr (sort_key fst (map (\<lambda>(s, v). (s, Exact (raw_of_seal v))) d))"
    by (simp add: comp_def case_prod_unfold)
  have le: "evidence_total (ranking seal) \<le> MAX_EVIDENCE_REFERENCES" if "(s, seal) \<in> set d" for s seal
    using member_le_sum_list [of "evidence_total (ranking seal)" "map (\<lambda>(s, seal). evidence_total (ranking seal)) d"]
      that assms(6) by force
  have "mset (map (\<lambda>(s, seal). evidence_total (ranking seal)) (sort_key fst d)) =
      mset (map (\<lambda>(s, seal). evidence_total (ranking seal)) d)" unfolding mset_map mset_sort ..
  then have sum: "sum_list (map (\<lambda>(s, seal). evidence_total (ranking seal)) (sort_key fst d)) \<le> MAX_EVIDENCE_REFERENCES"
    using assms(6) by (metis sum_list_mset_eq)
  have t: "total_within seal_evidence_count 0 ?raw = None"
    by (rule total_within_ok [where m = "\<lambda>r. evidence_total (ranking (the (typed_seal r)))"])
      (use assms(5) le seal_evidence_ok sum in \<open>auto simp: comp_def case_prod_unfold\<close>)
  have "normalize_items (\<lambda>s. validated (validate_seal h) (typed_seal s)) ?raw =
      Inr (map (\<lambda>(s, i). (s, the (typed_seal i))) ?raw)"
    by (rule normalize_items_ok)
      (use assms(1,5) in \<open>auto simp: validated_Some distinct_map_sort comp_def case_prod_unfold\<close>)
  then have n: "normalize_items (\<lambda>s. validated (validate_seal h) (typed_seal s)) ?raw = Inr (sort_key fst d)"
    by (simp add: comp_def case_prod_unfold)
  have "\<not> list_ex (\<lambda>(_, item). item = Other_type) (sort_key fst (map (\<lambda>(s, v). (s, Exact (raw_of_seal v))) d))"
    by (auto simp: list_ex_iff)
  with t n show ?thesis unfolding validated_seals_def c by (simp add: sorted_items_map Let_def)
qed

lemma validated_truths_dict:
  assumes "distinct (map fst d)" and "\<forall>s\<in>fst ` set d. external_slot s"
    and "length d \<le> MAX_EVALUATION_SEALS" and "\<forall>(s, t)\<in>set d. validate_truth t = None"
    and "sum_list (map (\<lambda>(s, t). length (valid_evidence_ids t)) d) \<le> MAX_EVIDENCE_REFERENCES"
    and "slots = map fst (sort_key fst d)"
  shows "validated_truths (dict_arg (map (\<lambda>(s, t). (s, raw_of_truth t)) d)) slots = Inr (sort_key fst d)"
proof -
  let ?d = "map (\<lambda>(s, t). (s, raw_of_truth t)) d" and ?raw = "map (\<lambda>(s, t). (s, raw_of_truth t)) (sort_key fst d)"
  let ?sup = "sort_key fst (map (\<lambda>(s, v). (s, Exact (raw_of_truth v))) d)"
  have "copied_mapping_items (dict_arg ?d) False = Inr (sort_key fst (map (\<lambda>(s, v). (s, Exact v)) ?d))"
    by (rule copied_dict) (use assms in \<open>auto simp: comp_def case_prod_unfold\<close>)
  then have c: "copied_mapping_items (dict_arg ?d) False = Inr ?sup"
    by (simp add: comp_def case_prod_unfold)
  have "mset (map (\<lambda>(s, t). length (valid_evidence_ids t)) (sort_key fst d)) =
      mset (map (\<lambda>(s, t). length (valid_evidence_ids t)) d)" unfolding mset_map mset_sort ..
  then have sum: "sum_list (map (\<lambda>(s, t). length (valid_evidence_ids t)) (sort_key fst d)) \<le> MAX_EVIDENCE_REFERENCES"
    using assms(5) by (metis sum_list_mset_eq)
  have "\<forall>(s, t)\<in>set d. length (valid_evidence_ids t) \<le> MAX_FEATURE_AGGREGATES"
    using assms(4) by (auto simp: validate_truth_def)
  then have t: "total_within truth_evidence_count 0 ?raw = None"
    using sum
    by (intro total_within_ok [where m = "\<lambda>r. length (valid_evidence_ids (the (typed_truth r)))"])
      (auto simp: comp_def case_prod_unfold truth_evidence_count_def raw_of_truth_def typed_truth_def typed_tuple_def)
  have "normalize_items (\<lambda>t. validated validate_truth (typed_truth t)) ?raw =
      Inr (map (\<lambda>(s, i). (s, the (typed_truth i))) ?raw)"
    by (rule normalize_items_ok)
      (use assms(1,4) in \<open>auto simp: validated_Some distinct_map_sort comp_def case_prod_unfold\<close>)
  then have n: "normalize_items (\<lambda>t. validated validate_truth (typed_truth t)) ?raw = Inr (sort_key fst d)"
    by (simp add: comp_def case_prod_unfold)
  have "\<not> list_ex (\<lambda>(_, item). item = Other_type) ?sup" by (auto simp: list_ex_iff)
  moreover have "map fst ?sup = slots"
    unfolding assms(6) by (simp add: sort_key_map_commute comp_def case_prod_unfold)
  ultimately show ?thesis using t n unfolding validated_truths_def c by (simp add: sorted_items_map Let_def)
qed

section \<open>Properties\<close>

text \<open>once the supplied mappings are read and every seal and answer passes its contract, scoring
  always returns a report and the report passes its own contract (counts add up, accuracies grow with
  the cut-off, every rate lies between zero and one million).\<close>

theorem read_samples_are_scored:
  assumes "validated_seals h seal_map = Inr seals" and "validated_truths truth_map (map fst seals) = Inr truths"
  shows "\<exists>report. evaluate_rca_rankings h seal_map truth_map = Inr report \<and> validate_report report = None"
  using evaluate_success [OF assms] by blast

text \<open>C32: the reported accuracies are the exact shares of samples whose answer stands among the first
  one to five candidates, in parts per million rounded down, and the outcome counts are exact.\<close>

theorem reported_accuracy_is_exact:
  assumes "validated_seals h seal_map = Inr seals" and "validated_truths truth_map (map fst seals) = Inr truths"
    and "evaluate_rca_rankings h seal_map truth_map = Inr report"
  shows "report_accuracies report =
      map (\<lambda>k. hits_within k (samples_of truths seals) * PPM_SCALE div int (length seals)) [1, 2, 3, 4, 5] \<and>
    sample_count report = int (length seals) \<and>
    ranked_count report = int (length (filter (\<lambda>(s, seal). candidates (ranking seal) \<noteq> []) seals))"
proof -
  let ?ss = "samples_of truths seals"
  have r: "report = build_report (length seals) (tally_of ?ss)"
    using evaluate_success(1) [OF assms(1,2)] assms(3) by simp
  note s = validated_seals_Inr [OF assms(1)]
  have len: "length ?ss = length seals" by (simp add: samples_of_def)
  have "ppm (Fract (hits_within k ?ss) (int (length seals))) =
      hits_within k ?ss * PPM_SCALE div int (length seals)" for k
    using hits_within_bounds [of k ?ss] s(1) len by (intro ppm_fraction) simp_all
  moreover have "outcome (ranking seal) = Out_RANKED \<longleftrightarrow> candidates (ranking seal) \<noteq> []"
    if "(i, seal) \<in> set seals" for i seal
    using s(4) that validate_seal_ranking validate_ranking_parts(3) by fastforce
  then have "filter (\<lambda>(i, seal). outcome (ranking seal) = Out_RANKED) seals =
      filter (\<lambda>(i, seal). candidates (ranking seal) \<noteq> []) seals" by (intro filter_cong) auto
  ultimately show ?thesis
    unfolding r by (simp add: report_accuracies_def build_report_def Let_def tally_of_def ranked_samples_def
        samples_of_def filter_map comp_def case_prod_unfold)
qed

section \<open>From features to a report\<close>

text \<open>A sample of the pipeline: its slot, its features and its private answer.\<close>

type_synonym pipeline_sample = "string \<times> evidence_aggregate list \<times> rca_truth"

definition sealed_samples :: "(string \<Rightarrow> string) \<Rightarrow> pipeline_sample list \<Rightarrow> (string \<times> rca_ranking_seal) list" where
  "sealed_samples h samples = map (\<lambda>(slot_id, xs, t). (slot_id, projr (rank_rca_features h (Exact (Tuple xs))))) samples"

definition answers :: "pipeline_sample list \<Rightarrow> (string \<times> rca_truth) list" where
  "answers samples = map (\<lambda>(slot_id, xs, t). (slot_id, t)) samples"

lemma evidence_total_bound:
  assumes "validate_feature_set xs = None" and "\<forall>t. rca_digest_ok (h t)"
  shows "evidence_total (ranking (projr (rank_rca_features h (Exact (Tuple xs))))) \<le> MAX_FEATURE_AGGREGATES"
proof -
  have s: "sound_features xs" by (rule feature_set_sound [OF assms(1)])
  then have wf: "well_formed_items xs" by (simp add: sound_features_def)
  have "map rc_evidence_ids (candidates (build_ranking xs)) = map (cited_evidence xs) (rank_order xs)"
    using map_enumerate_ignore [of "cited_evidence xs" 1 "rank_order xs"]
    by (simp add: build_ranking_candidates [OF wf] comp_def case_prod_unfold)
  with cited_total(2) [OF s] show ?thesis
    by (simp add: rank_rca_features_success [OF assms] evidence_total_def)
qed

lemma sum_list_le_24:
  assumes "\<forall>x\<in>set xs. f x \<le> 4096" and "length xs \<le> 24"
  shows "sum_list (map f xs) \<le> (100000 :: nat)"
proof -
  have "sum_list (map f xs) \<le> sum_list (map (\<lambda>_. 4096) xs)" by (rule sum_list_mono) (use assms(1) in auto)
  with assms(2) show ?thesis by (simp add: sum_list_triv)
qed

lemma map_fst_sort: "map fst (sort_key fst d) = sort (map fst d)"
  by (simp add: sort_key_map_commute comp_def)

text \<open>C30: the pipeline never gets stuck: for up to twenty-four samples with valid features and valid
  answers under distinct external slots, every feature set is ranked and the evaluation of the
  resulting seals returns a report over all of the samples.\<close>

theorem pipeline_always_reports:
  assumes "distinct (map fst samples)" and "samples \<noteq> []" and "length samples \<le> 24"
    and "\<forall>(slot_id, xs, t)\<in>set samples. external_slot slot_id \<and> validate_feature_set xs = None \<and>
      validate_truth t = None"
    and "\<forall>t. rca_digest_ok (h t)"
  shows "\<exists>report. evaluate_rca_rankings h
      (dict_arg (map (\<lambda>(s, seal). (s, raw_of_seal seal)) (sealed_samples h samples)))
      (dict_arg (map (\<lambda>(s, t). (s, raw_of_truth t)) (answers samples))) = Inr report \<and>
    sample_count report = int (length samples)"
proof -
  let ?d = "sealed_samples h samples" and ?t = "answers samples"
  have f: "map fst ?d = map fst samples" "map fst ?t = map fst samples"
    by (simp_all add: sealed_samples_def answers_def comp_def case_prod_unfold)
  have l: "length ?d = length samples" "length ?t = length samples"
    by (simp_all add: sealed_samples_def answers_def)
  have slots: "\<forall>s\<in>fst ` set ?d. external_slot s" "\<forall>s\<in>fst ` set ?t. external_slot s"
    using assms(4) by (auto simp: sealed_samples_def answers_def)
  have v: "\<forall>(s, seal)\<in>set ?d. validate_seal h seal = None \<and> evidence_total (ranking seal) \<le> 4096"
    using assms(4) evidence_total_bound [OF _ assms(5)] seal_valid [OF feature_set_sound assms(5)]
    by (fastforce simp: sealed_samples_def rank_rca_features_success [OF _ assms(5)] MAX_FEATURE_AGGREGATES_def)
  have tv: "\<forall>(s, t)\<in>set ?t. validate_truth t = None \<and> length (valid_evidence_ids t) \<le> 4096"
    using assms(4) by (auto simp: answers_def validate_truth_def MAX_FEATURE_AGGREGATES_def)
  have "sum_list (map (\<lambda>(s, seal). evidence_total (ranking seal)) ?d) \<le> 100000"
    "sum_list (map (\<lambda>(s, t). length (valid_evidence_ids t)) ?t) \<le> 100000"
    using v tv l assms(3) by (auto intro!: sum_list_le_24)
  note lim = this assms(1-3) f l slots
  have seals: "validated_seals h (dict_arg (map (\<lambda>(s, seal). (s, raw_of_seal seal)) ?d)) = Inr (sort_key fst ?d)"
    by (rule validated_seals_dict) (use lim v in \<open>auto simp: MAX_EVALUATION_SEALS_def MAX_EVIDENCE_REFERENCES_def\<close>)
  have truths: "validated_truths (dict_arg (map (\<lambda>(s, t). (s, raw_of_truth t)) ?t)) (map fst (sort_key fst ?d)) =
      Inr (sort_key fst ?t)"
    by (rule validated_truths_dict)
      (use lim tv in \<open>auto simp: MAX_EVALUATION_SEALS_def MAX_EVIDENCE_REFERENCES_def map_fst_sort\<close>)
  show ?thesis
    using evaluate_success(1) [OF seals truths] l by (simp add: build_report_def Let_def)
qed

definition ex_slot :: string where "ex_slot = ''rcaslot-'' @ replicate 64 (CHR ''a'')"
definition ex_truth :: rca_truth where "ex_truth = \<lparr>truth_candidate_id = ''db'', valid_evidence_ids = []\<rparr>"

lemma ex_slot_external: "external_slot ex_slot"
  by (simp add: external_slot_def ex_slot_def list_all_iff lower_hex_def)

lemma ex_truth_valid: "validate_truth ex_truth = None"
proof -
  have "identifier_free (truth_json ex_truth)"
    unfolding truth_json_def ex_truth_def by (intro identifier_free_obj) (simp_all add: no_label_clean no_label_eval)
  then show ?thesis
    by (simp add: validate_truth_def assert_model_safe_iff ex_truth_def candidate_id_ok_def lower_char_def sorted_set_def)
qed

theorem pipeline_always_reports_witness:
  "\<exists>report. evaluate_rca_rankings sha_constant
      (dict_arg (map (\<lambda>(s, seal). (s, raw_of_seal seal)) (sealed_samples sha_constant [(ex_slot, ex_features, ex_truth)])))
      (dict_arg (map (\<lambda>(s, t). (s, raw_of_truth t)) (answers [(ex_slot, ex_features, ex_truth)]))) = Inr report \<and>
    sample_count report = int (length [(ex_slot, ex_features, ex_truth)])"
  by (rule pipeline_always_reports)
    (simp_all add: sha_constant_digest ex_slot_external ex_truth_valid ex_features_valid)

section \<open>The evaluated example\<close>

definition ex_seal :: rca_ranking_seal where
  "ex_seal = projr (rank_rca_features sha_constant (Exact (Tuple ex_features)))"

definition ex_seal_map :: "raw_seal py_object mapping_arg" where
  "ex_seal_map = dict_arg [(ex_slot, raw_of_seal ex_seal)]"

definition ex_truth_map :: "raw_truth py_object mapping_arg" where
  "ex_truth_map = dict_arg [(ex_slot, raw_of_truth ex_truth)]"

lemma ex_seal_valid: "validate_seal sha_constant ex_seal = None" "evidence_total (ranking ex_seal) \<le> 4096"
  using seal_valid [OF feature_set_sound [OF ex_features_valid], of sha_constant]
    rank_rca_features_success [OF ex_features_valid, of sha_constant]
    evidence_total_bound [OF ex_features_valid, of sha_constant] sha_constant_digest
  by (simp_all add: ex_seal_def MAX_FEATURE_AGGREGATES_def)

lemma ex_maps_read:
  "validated_seals sha_constant ex_seal_map = Inr [(ex_slot, ex_seal)]"
  "validated_truths ex_truth_map (map fst [(ex_slot, ex_seal)]) = Inr [(ex_slot, ex_truth)]"
proof -
  have "length (valid_evidence_ids ex_truth) = 0" by (simp add: ex_truth_def)
  then have "validated_truths (dict_arg (map (\<lambda>(s, t). (s, raw_of_truth t)) [(ex_slot, ex_truth)])) [ex_slot] =
      Inr (sort_key fst [(ex_slot, ex_truth)])"
    by (intro validated_truths_dict) (simp_all add: ex_slot_external ex_truth_valid MAX_EVALUATION_SEALS_def)
  then show "validated_truths ex_truth_map (map fst [(ex_slot, ex_seal)]) = Inr [(ex_slot, ex_truth)]"
    by (simp add: ex_truth_map_def)
  have "validated_seals sha_constant (dict_arg (map (\<lambda>(s, t). (s, raw_of_seal t)) [(ex_slot, ex_seal)])) =
      Inr (sort_key fst [(ex_slot, ex_seal)])"
    using ex_seal_valid
    by (intro validated_seals_dict)
      (simp_all add: ex_slot_external MAX_EVALUATION_SEALS_def MAX_EVIDENCE_REFERENCES_def)
  then show "validated_seals sha_constant ex_seal_map = Inr [(ex_slot, ex_seal)]"
    by (simp add: ex_seal_map_def)
qed

theorem read_samples_are_scored_witness:
  "\<exists>report. evaluate_rca_rankings sha_constant ex_seal_map ex_truth_map = Inr report \<and>
    validate_report report = None"
  by (rule read_samples_are_scored [OF ex_maps_read])

theorem reported_accuracy_is_exact_witness:
  "\<exists>report. evaluate_rca_rankings sha_constant ex_seal_map ex_truth_map = Inr report \<and>
    report_accuracies report = map (\<lambda>k. hits_within k (samples_of [(ex_slot, ex_truth)] [(ex_slot, ex_seal)]) *
      PPM_SCALE div int (length [(ex_slot, ex_seal)])) [1, 2, 3, 4, 5]"
  using reported_accuracy_is_exact [OF ex_maps_read evaluate_success(1) [OF ex_maps_read], THEN conjunct1]
    evaluate_success(1) [OF ex_maps_read] by blast

text \<open>C33: a report is only ever computed from untampered seals: when the evaluation returns a report,
  every supplied seal carries the digest of its own ranking and its ranking passes the ranking
  contract.\<close>

theorem tampered_seal_is_never_scored:
  assumes "evaluate_rca_rankings h seal_map truth_map = Inr report"
  shows "\<exists>seals. validated_seals h seal_map = Inr seals \<and> sample_count report = int (length seals) \<and>
    (\<forall>(slot_id, seal)\<in>set seals. ranking_sha256 seal = h (ranking_canonical_bytes (ranking seal)) \<and>
      validate_ranking (ranking seal) = None)"
proof -
  obtain seals truths where s: "validated_seals h seal_map = Inr seals"
    "validated_truths truth_map (map fst seals) = Inr truths"
    using assms by (auto simp: evaluate_rca_rankings_def split: sum.splits)
  have "sample_count report = int (length seals)"
    using evaluate_success(1) [OF s] assms by (simp add: build_report_def Let_def)
  moreover have "\<forall>(slot_id, seal)\<in>set seals. ranking_sha256 seal = h (ranking_canonical_bytes (ranking seal)) \<and>
      validate_ranking (ranking seal) = None"
    using validated_seals_Inr(4) [OF s(1)] by (auto simp: validate_seal_def)
  ultimately show ?thesis using s(1) by blast
qed

theorem tampered_seal_is_never_scored_witness:
  "\<exists>report seals. evaluate_rca_rankings sha_constant ex_seal_map ex_truth_map = Inr report \<and>
    validated_seals sha_constant ex_seal_map = Inr seals \<and> sample_count report = int (length seals)"
  using tampered_seal_is_never_scored [OF evaluate_success(1) [OF ex_maps_read]]
    evaluate_success(1) [OF ex_maps_read] by blast

end
