(* ===== verification/Governance.thy ===== *)
theory Governance
  imports Contracts Repository "HOL-Library.Product_Lexorder"
begin

text \<open>
  \<open>telco_local/governance.py\<close>: the deterministic local governance of an incident, from
  preparation through an explicit decision to the simulated execution and its verification.
  A coroutine is a function on the world it runs in (\<open>'a gov\<close>): the repository, which every
  write goes through, and the number of ticks so far.  Reading the governance clock or calling the
  repository is one tick, so an approval can expire between two statements of one coroutine.  At an
  \<open>await\<close> on the repository other coroutines may run first: \<open>gs_others n\<close> is what they do to the
  repository before the call of tick \<open>n\<close>.  \<open>gov_services\<close> holds what the module calls but does not
  define: the services of the repository, the two clocks, pydantic's dumps, the RCA gateway and
  the two message texts in Chinese.
\<close>

section \<open>Errors, services and coroutines\<close>

datatype gov_error =
    GovernanceNotFoundError string
  | GovernanceStateError string
  | GovernanceAuthorizationError string
  | GovernanceIdempotencyConflictError string
  | GovernanceClockError
  | Gov_ValueError string
  | Gov_ValidationError string
  | Gov_ContractError contract_error
  | Gov_RepositoryError repo_error
  | Gov_GatewayError

record gov_services =
  gs_services :: services
  gs_clock :: "nat \<Rightarrow> py_datetime"
  gs_repository_clock :: "nat \<Rightarrow> py_datetime"
  gs_dump_base_report :: "rca_report \<Rightarrow> json"
  gs_dump_action :: "remediation_action \<Rightarrow> json"
  gs_analyze :: "contract_message \<Rightarrow> contract_message option"
  gs_others :: "nat \<Rightarrow> repository \<Rightarrow> repository"
  gs_request_summary :: string
  gs_result_summary :: string

record world =
  w_repo :: repository
  w_ticks :: nat

type_synonym 'a gov = "world \<Rightarrow> (gov_error + 'a) \<times> world"

definition gov_return :: "'a \<Rightarrow> 'a gov" where
  "gov_return x = (\<lambda>w. (Inr x, w))"

definition gov_raise :: "gov_error \<Rightarrow> 'a gov" where
  "gov_raise e = (\<lambda>w. (Inl e, w))"

definition gov_bind :: "'a gov \<Rightarrow> ('a \<Rightarrow> 'b gov) \<Rightarrow> 'b gov" where
  "gov_bind m f = (\<lambda>w. case m w of (Inl e, w') \<Rightarrow> (Inl e, w') | (Inr x, w') \<Rightarrow> f x w')"

text \<open>\<open>if condition: raise ...\<close> followed by the rest of the coroutine.\<close>

definition gov_guard :: "bool \<Rightarrow> gov_error \<Rightarrow> 'a gov \<Rightarrow> 'a gov" where
  "gov_guard bad e rest = (if bad then gov_raise e else rest)"

definition gov_lift :: "gov_error + 'a \<Rightarrow> 'a gov" where
  "gov_lift r = (\<lambda>w. (r, w))"

text \<open>A pydantic constructor: the value if its validators accept it.\<close>

definition gov_construct :: "('a \<Rightarrow> string option) \<Rightarrow> 'a \<Rightarrow> 'a gov" where
  "gov_construct validate v = (case validate v of None \<Rightarrow> gov_return v
     | Some e \<Rightarrow> gov_raise (Gov_ValidationError e))"

text \<open>\<open>except\<close>: the handler sees every error and raises again those it does not name.\<close>

definition gov_catch :: "'a gov \<Rightarrow> (gov_error \<Rightarrow> 'a gov) \<Rightarrow> 'a gov" where
  "gov_catch m handler = (\<lambda>w. case m w of (Inl e, w') \<Rightarrow> handler e w' | (Inr x, w') \<Rightarrow> (Inr x, w'))"

text \<open>\<open>d[key] = value\<close> on a dictionary kept in key order.\<close>

definition dict_set :: "string \<Rightarrow> json \<Rightarrow> (string, json) dict \<Rightarrow> (string, json) dict" where
  "dict_set key v d = sort_key fst (AList.update key v d)"

section \<open>Constants\<close>

definition LOCAL_SIMULATION_ACTION_TYPE :: string where
  "LOCAL_SIMULATION_ACTION_TYPE = ''LOCAL_SIMULATION''"

definition LOCAL_SIMULATION_PARAMETERS :: "(string, json) dict" where
  "LOCAL_SIMULATION_PARAMETERS = [(''scenario'', JStr ''local-governance-recovery''), (''version'', JStr ''1.0'')]"

definition LOCAL_SIMULATION_ROLLBACK :: string where
  "LOCAL_SIMULATION_ROLLBACK =
     ''No rollback is required because the local simulation never changes network state.''"

definition MARKER_KEY :: string where "MARKER_KEY = ''local_governance''"

definition EXECUTION_FAILURE_MARKER_KEY :: string where
  "EXECUTION_FAILURE_MARKER_KEY = ''local_governance_execution_failure''"

definition EXECUTION_APPROVAL_EXPIRED_CODE :: string where
  "EXECUTION_APPROVAL_EXPIRED_CODE = ''APPROVAL_NO_LONGER_EFFECTIVE''"

definition EXECUTION_APPROVAL_EXPIRED_REASON :: string where
  "EXECUTION_APPROVAL_EXPIRED_REASON =
     ''Fail local simulation because its approval is no longer effective''"

definition POLICY_VERSION :: string where "POLICY_VERSION = ''1.0''"

section \<open>Identifiers and inputs\<close>

definition gov_digest :: "gov_services \<Rightarrow> json list \<Rightarrow> string" where
  "gov_digest g parts = sha256 (gs_services g) (json_text (JList parts))"

definition is_sha256_digest :: "json option \<Rightarrow> bool" where
  "is_sha256_digest v = (case v of Some (JStr s) \<Rightarrow> contract_digest_ok s | _ \<Rightarrow> False)"

definition stable_id :: "gov_services \<Rightarrow> string \<Rightarrow> json list \<Rightarrow> string" where
  "stable_id g label parts = label @ ''-'' @ take 32 (gov_digest g (JStr label # parts))"

definition step_key :: "gov_services \<Rightarrow> string \<Rightarrow> string \<Rightarrow> json list \<Rightarrow> string" where
  "step_key g root_key step request_parts =
     stable_id g (''local-governance-'' @ step) (JStr (gov_digest g [JStr root_key]) # request_parts)"

definition trusted_now :: "gov_services \<Rightarrow> instant gov" where
  "trusted_now g = (\<lambda>w. (case gs_clock g (w_ticks w) of
       Naive _ \<Rightarrow> Inl GovernanceClockError
     | Aware t \<Rightarrow> Inr t, w\<lparr>w_ticks := w_ticks w + 1\<rparr>))"

definition require_text :: "string \<Rightarrow> string \<Rightarrow> nat \<Rightarrow> string gov" where
  "require_text name value maximum =
     gov_guard (\<not> non_blank value) (Gov_ValueError (name @ '' must be a non-empty string''))
       (gov_guard (length (py_strip value) > maximum) (Gov_ValueError (name @ '' is too long''))
         (gov_return (py_strip value)))"

definition require_action_hash :: "string \<Rightarrow> string gov" where
  "require_action_hash value = gov_guard (\<not> contract_digest_ok value)
     (Gov_ValueError ''expected_action_hash must be a lowercase SHA-256 digest'') (gov_return value)"

text \<open>\<open>timedelta.total_seconds()\<close> as JSON: the shortest decimal of a positive number of microseconds.\<close>

definition trim_zeros :: "string \<Rightarrow> string" where
  "trim_zeros s = rev (dropWhile (\<lambda>c. c = CHR ''0'') (rev s))"

definition pad_micros :: "nat \<Rightarrow> string" where
  "pad_micros n = replicate (6 - length (show_nat n)) (CHR ''0'') @ show_nat n"

definition total_seconds :: "int \<Rightarrow> json" where
  "total_seconds micros = (let n = nat micros; frac = trim_zeros (pad_micros (n mod 1000000)) in JFloat (
     if n < 10 then show_nat n @ ''e-06''
     else if n < 100 then show_nat (n div 10) @
       (if n mod 10 = 0 then [] else ''.'' @ show_nat (n mod 10)) @ ''e-05''
     else show_nat (n div 1000000) @ ''.'' @ (if frac = [] then ''0'' else frac)))"

section \<open>Views of an incident\<close>

definition latest_governed_report :: "incident \<Rightarrow> rca_report option" where
  "latest_governed_report i = max_by version (rca_reports i)"

definition latest_approval :: "incident \<Rightarrow> approval_decision option" where
  "latest_approval i = max_by (\<lambda>d. (requested_at d, request_id d, sequence d)) (approvals i)"

text \<open>The sole recommendation of the latest report (\<open>len(report.recommendations) == 1\<close>).\<close>

definition sole_action :: "rca_report option \<Rightarrow> remediation_action option" where
  "sole_action report = (case report of Some r \<Rightarrow>
       (case report_recommendations r of [a] \<Rightarrow> Some a | _ \<Rightarrow> None) | None \<Rightarrow> None)"

record governance_result =
  gr_incident :: incident
  gr_replayed :: bool

definition result_of :: "incident \<Rightarrow> bool \<Rightarrow> governance_result" where
  "result_of i replayed = \<lparr>gr_incident = i, gr_replayed = replayed\<rparr>"

definition awaiting_approval :: "governance_result \<Rightarrow> bool" where
  "awaiting_approval r \<longleftrightarrow> status (gr_incident r) = AWAITING_APPROVAL \<and>
     (case latest_approval (gr_incident r) of None \<Rightarrow> False | Some d \<Rightarrow> approval_status d = Ap_PENDING)"

section \<open>Repository access\<close>

definition repository_get :: "gov_services \<Rightarrow> string \<Rightarrow> incident gov" where
  "repository_get g iid = (\<lambda>w. let r = gs_others g (w_ticks w) (w_repo w) in
     (case get iid r of None \<Rightarrow> Inl (GovernanceNotFoundError iid) | Some i \<Rightarrow> Inr i,
      \<lparr>w_repo = r, w_ticks = w_ticks w + 1\<rparr>))"

text \<open>\<open>await self.repository.transition(...)\<close> on the incident read before.\<close>

definition repository_transition :: "gov_services \<Rightarrow> string \<Rightarrow> incident \<Rightarrow> incident_status \<Rightarrow> string \<Rightarrow> string
    \<Rightarrow> string \<Rightarrow> field_update list \<Rightarrow> incident gov" where
  "repository_transition g iid current target key actor reason updates = (\<lambda>w.
     case transition (gs_services g) (gs_repository_clock g (w_ticks w)) False iid
       (incident_status_value target) (revision current) updates
       \<lparr>meta_key = key, meta_actor = actor, meta_reason = reason, meta_trace = trace_id current\<rparr>
       (gs_others g (w_ticks w) (w_repo w)) of
     (res, r) \<Rightarrow> (case res of Inl e \<Rightarrow> Inl (Gov_RepositoryError e) | Inr i \<Rightarrow> Inr i,
        \<lparr>w_repo = r, w_ticks = w_ticks w + 1\<rparr>))"

section \<open>The simulation policy\<close>

definition policy_identity :: "gov_services \<Rightarrow> incident \<Rightarrow> rca_report \<Rightarrow> string \<Rightarrow> json" where
  "policy_identity g i report workflow_fingerprint = JObj [
     (''policy'', JStr ''local-simulation-policy''), (''version'', JStr POLICY_VERSION),
     (''workflow_fingerprint'', JStr workflow_fingerprint), (''incident_id'', JStr (incident_id i)),
     (''base_report'', gs_dump_base_report g report),
     (''targets'', JList (map stable_identity (affected_resources i)))]"

definition simulation_action :: "gov_services \<Rightarrow> incident \<Rightarrow> json \<Rightarrow> instant \<Rightarrow> remediation_action" where
  "simulation_action g i identity created = \<lparr>
     action_id = stable_id g ''local-simulation-action'' [identity],
     action_type = LOCAL_SIMULATION_ACTION_TYPE,
     action_description =
       Some ''Simulate a governance recovery locally without contacting or changing any network resource.'',
     target_resources = affected_resources i,
     parameters = LOCAL_SIMULATION_PARAMETERS,
     risk_level = Risk_LOW,
     reversible = True,
     rollback_plan = Some LOCAL_SIMULATION_ROLLBACK,
     expected_outcome = Some ''Local deterministic verification completes.'',
     action_idempotency_key = Some (stable_id g ''local-simulation-action-key'' [identity]),
     action_created_at = created\<rparr>"

definition with_action :: "gov_services \<Rightarrow> rca_report \<Rightarrow> remediation_action \<Rightarrow> rca_report" where
  "with_action g report action = report\<lparr>
     report_id := stable_id g ''local-simulation-report'' [JObj [
       (''base_report'', gs_dump_base_report g report), (''action'', gs_dump_action g action),
       (''policy'', JStr ''local-simulation-policy''), (''policy_version'', JStr POLICY_VERSION)]],
     report_recommendations := [action],
     report_model_metadata := dict_set ''local_simulation_policy'' (JObj [
       (''action_type'', JStr LOCAL_SIMULATION_ACTION_TYPE), (''side_effects'', JBool False),
       (''version'', JStr POLICY_VERSION)]) (report_model_metadata report)\<rparr>"

definition attach_action :: "gov_services \<Rightarrow> incident \<Rightarrow> rca_report \<Rightarrow> string \<Rightarrow> instant \<Rightarrow> rca_report gov" where
  "attach_action g i report workflow_fingerprint created =
     gov_guard (conclusion report \<noteq> CONCLUSIVE)
       (GovernanceStateError ''only a CONCLUSIVE RCA may propose a local simulation'')
     (gov_guard (\<not> non_blank (str_or_empty (report_root_cause report)) \<or> report_evidence_refs report = [])
       (GovernanceStateError ''a conclusive local simulation requires root cause and evidence'')
     (gov_guard (affected_resources i = [])
       (GovernanceStateError ''a local simulation requires at least one affected resource'')
     (gov_guard (report_recommendations report \<noteq> [])
       (GovernanceStateError ''the read-only RCA gateway must not propose network actions'')
     (gov_bind (gov_construct validate_remediation_action
         (simulation_action g i (policy_identity g i report workflow_fingerprint) created))
       (\<lambda>action. gov_construct validate_rca_report (with_action g report action))))))"

section \<open>The approval gateway\<close>

definition pending_from_request :: "gov_services \<Rightarrow> envelope \<Rightarrow> string \<Rightarrow> rca_report \<Rightarrow> remediation_action option
    \<Rightarrow> resource_reference list \<Rightarrow> instant option \<Rightarrow> instant \<Rightarrow> approval_decision gov" where
  "pending_from_request g e rid report action resources expires asked_at =
     (case (action, expires) of
        (Some a, Some x) \<Rightarrow> gov_construct validate_approval \<lparr>
          approval_id = stable_id g ''local-approval-pending'' [JStr rid],
          request_id = rid, sequence = 0, approval_incident_id = env_incident_id e,
          approval_report_id = report_id report, approval_report_version = version report,
          subject_id = action_id a, approval_status = Ap_PENDING, approval_type = NETWORK_ACTION,
          approval_action_hash = Some (compute_action_hash (sha256 (gs_services g)) a),
          scope = resources, requested_by = Some ''local-governance-engine'', decided_by = None,
          approval_reason = None, requested_at = asked_at, decided_at = None, expires_at = Some x,
          approval_idempotency_key = env_idempotency_key e\<rparr>
      | _ \<Rightarrow> gov_raise (GovernanceStateError ''local simulation approval requires action and expiry''))"

definition approval_result :: "gov_services \<Rightarrow> envelope \<Rightarrow> string \<Rightarrow> approval_decision \<Rightarrow> instant \<Rightarrow> contract_message gov" where
  "approval_result g e rid d sent = gov_construct (validate_message (sha256 (gs_services g))) (ApprovalResult \<lparr>
     message_id = stable_id g ''local-approval-result'' [JStr (message_id e), JStr (approval_id d), JInt (sequence d)],
     workflow_id = workflow_id e, env_incident_id = env_incident_id e, env_trace_id = env_trace_id e,
     env_idempotency_key = stable_id g ''local-approval-result-key'' [JStr (env_idempotency_key e), JInt (sequence d)],
     sent_at = sent\<rparr> rid d (gs_result_summary g))"

definition same_binding :: "gov_services \<Rightarrow> envelope \<Rightarrow> rca_report \<Rightarrow> remediation_action option
    \<Rightarrow> resource_reference list \<Rightarrow> instant option \<Rightarrow> approval_decision \<Rightarrow> bool" where
  "same_binding g e report action resources expires pending \<longleftrightarrow>
     env_incident_id e = approval_incident_id pending \<and> report_id report = approval_report_id pending \<and>
     version report = approval_report_version pending \<and>
     map_option action_id action = Some (subject_id pending) \<and>
     map_option (compute_action_hash (sha256 (gs_services g))) action = approval_action_hash pending \<and>
     resources = scope pending \<and> expires = expires_at pending \<and>
     env_idempotency_key e = approval_idempotency_key pending"

text \<open>\<open>min(existing, key=sequence)\<close>: the first of the events with the least sequence.\<close>

definition earliest_event :: "string \<Rightarrow> incident \<Rightarrow> approval_decision option" where
  "earliest_event rid i = max_by (\<lambda>d. - sequence d) (filter (\<lambda>d. request_id d = rid) (approvals i))"

definition request_approval :: "gov_services \<Rightarrow> envelope \<Rightarrow> string \<Rightarrow> approval_type \<Rightarrow> rca_report
    \<Rightarrow> remediation_action option \<Rightarrow> resource_reference list \<Rightarrow> int \<Rightarrow> instant option \<Rightarrow> contract_message gov" where
  "request_approval g e rid ty report action resources based_on expires =
     gov_bind (trusted_now g) (\<lambda>now.
     gov_guard (ty \<noteq> NETWORK_ACTION)
       (GovernanceStateError ''local governance only supports network-action approval records'')
     (gov_guard (case expires of None \<Rightarrow> True | Some x \<Rightarrow> x \<le> now)
       (GovernanceAuthorizationError ''approval expiry must be later than the trusted gateway time'')
     (gov_bind (repository_get g (env_incident_id e)) (\<lambda>current.
     case earliest_event rid current of
       Some pending \<Rightarrow>
         gov_guard (sequence pending \<noteq> 0 \<or> \<not> same_binding g e report action resources expires pending)
           (GovernanceIdempotencyConflictError ''approval request identifier was reused with another binding'')
           (approval_result g e rid pending now)
     | None \<Rightarrow>
         gov_guard (status current \<noteq> RCA_COMPLETE)
           (GovernanceStateError ''approval requests require an RCA_COMPLETE incident'')
         (gov_guard (revision current \<noteq> based_on)
           (GovernanceStateError ''approval request revision does not match the current incident revision'')
         (gov_guard (latest_governed_report current \<noteq> Some report \<or> action \<notin> Some ` set (report_recommendations report))
           (GovernanceAuthorizationError ''approval request does not bind the latest persisted report action'')
         (gov_bind (pending_from_request g e rid report action resources expires now) (\<lambda>pending.
          gov_bind (repository_transition g (env_incident_id e) current AWAITING_APPROVAL (env_idempotency_key e)
            ''local-approval-gateway'' ''Request explicit approval for the local simulation''
            [U_approvals (approvals current @ [pending])]) (\<lambda>committed.
          case latest_approval_decision committed rid of
            None \<Rightarrow> gov_raise (GovernanceStateError ''pending approval was not persisted'')
          | Some d \<Rightarrow> approval_result g e rid d now)))))))))"


section \<open>Deciding and resolving an approval\<close>

text \<open>The terminal decision appended to the pending one (\<open>decide\<close>, from the trusted time on).\<close>

definition decided_status :: "bool \<Rightarrow> instant \<Rightarrow> approval_decision \<Rightarrow> approval_status" where
  "decided_status approve now pending =
     (let expired = (case expires_at pending of None \<Rightarrow> True | Some x \<Rightarrow> x \<le> now) in
      if approve \<and> expired then Ap_EXPIRED else if approve then Ap_APPROVED else Ap_REJECTED)"

definition terminal_decision :: "approval_decision \<Rightarrow> string \<Rightarrow> approval_status \<Rightarrow> string \<Rightarrow> string \<Rightarrow> instant
    \<Rightarrow> string \<Rightarrow> approval_decision" where
  "terminal_decision pending aid st actor reason now event_key = pending\<lparr>
     approval_id := aid, sequence := 1, approval_status := st, decided_by := Some actor,
     decided_at := Some now, approval_reason := Some reason, approval_idempotency_key := event_key\<rparr>"

fun approval_status_value :: "approval_status \<Rightarrow> string" where
  "approval_status_value Ap_PENDING = ''PENDING''"
| "approval_status_value Ap_APPROVED = ''APPROVED''"
| "approval_status_value Ap_REJECTED = ''REJECTED''"
| "approval_status_value Ap_EXPIRED = ''EXPIRED''"
| "approval_status_value Ap_CANCELLED = ''CANCELLED''"

definition decision_key :: "gov_services \<Rightarrow> string \<Rightarrow> string" where
  "decision_key g root_key = step_key g root_key ''approval-decision'' []"

definition decision_fingerprint :: "gov_services \<Rightarrow> bool \<Rightarrow> string \<Rightarrow> int \<Rightarrow> string \<Rightarrow> string \<Rightarrow> string" where
  "decision_fingerprint g approve action_hash expected actor reason = gov_digest g
     [JStr ''approval-decision-v1'', JBool approve, JStr action_hash, JInt expected, JStr actor, JStr reason]"

definition decision_id :: "gov_services \<Rightarrow> string \<Rightarrow> string \<Rightarrow> string" where
  "decision_id g root_key request_fingerprint = stable_id g ''local-approval-decision''
     [JStr (gov_digest g [JStr root_key]), JStr request_fingerprint]"

text \<open>The checks of \<open>decide\<close> on the incident it read, when the request is not a replay.\<close>

definition decidable_approval :: "gov_services \<Rightarrow> incident \<Rightarrow> string \<Rightarrow> int \<Rightarrow> gov_error + approval_decision" where
  "decidable_approval g current action_hash expected =
     (if status current \<noteq> AWAITING_APPROVAL
      then Inl (GovernanceStateError ''an explicit decision requires an AWAITING_APPROVAL incident'')
      else if revision current \<noteq> expected
      then Inl (GovernanceStateError (''approval preview revision '' @ show_int expected @
        '' is stale; current revision is '' @ show_int (revision current)))
      else case latest_governed_report current of
        None \<Rightarrow> Inl (GovernanceStateError ''local governance requires exactly one persisted simulation action'')
      | Some report \<Rightarrow> (case sole_action (Some report) of
          None \<Rightarrow> Inl (GovernanceStateError ''local governance requires exactly one persisted simulation action'')
        | Some action \<Rightarrow>
            if compute_action_hash (sha256 (gs_services g)) action \<noteq> action_hash
            then Inl (GovernanceAuthorizationError
              ''approved action hash does not match the current local simulation'')
            else case latest_approval current of
              None \<Rightarrow> Inl (GovernanceAuthorizationError
                ''the latest pending approval does not cover the simulation action'')
            | Some pending \<Rightarrow>
                if sequence pending \<noteq> 0 \<or> approval_status pending \<noteq> Ap_PENDING \<or>
                  \<not> covers_action (sha256 (gs_services g)) pending action (incident_id current) report
                then Inl (GovernanceAuthorizationError
                  ''the latest pending approval does not cover the simulation action'')
                else Inr pending))"

definition commit_decision :: "gov_services \<Rightarrow> string \<Rightarrow> incident \<Rightarrow> approval_decision \<Rightarrow> string \<Rightarrow> incident gov" where
  "commit_decision g iid current terminal actor =
     gov_bind (gov_construct validate_approval terminal) (\<lambda>terminal.
     repository_transition g iid current
       (if approval_status terminal = Ap_APPROVED then REMEDIATING else REJECTED)
       (approval_idempotency_key terminal) actor
       (''Record explicit local simulation decision: '' @ approval_status_value (approval_status terminal))
       [U_approvals (approvals current @ [terminal])])"

definition gateway_decide :: "gov_services \<Rightarrow> string \<Rightarrow> bool \<Rightarrow> string \<Rightarrow> int \<Rightarrow> string \<Rightarrow> string \<Rightarrow> string
    \<Rightarrow> incident gov" where
  "gateway_decide g iid approve action_hash expected actor reason root_key =
     gov_bind (require_action_hash action_hash) (\<lambda>action_hash.
     gov_guard (expected < 0) (Gov_ValueError ''expected_revision must be a non-negative integer'')
     (gov_bind (trusted_now g) (\<lambda>now.
     gov_bind (require_text ''actor'' actor 256) (\<lambda>actor.
     gov_bind (require_text ''reason'' reason 4096) (\<lambda>reason.
     gov_bind (require_text ''idempotency_key'' root_key 256) (\<lambda>root_key.
     let event_key = decision_key g root_key;
         aid = decision_id g root_key (decision_fingerprint g approve action_hash expected actor reason) in
     gov_bind (repository_get g iid) (\<lambda>current.
     case List.find (\<lambda>d. approval_idempotency_key d = event_key) (approvals current) of
       Some earlier \<Rightarrow> gov_guard (approval_id earlier \<noteq> aid)
         (GovernanceIdempotencyConflictError ''approval decision key was retried with another request'')
         (gov_return current)
     | None \<Rightarrow> gov_bind (gov_lift (decidable_approval g current action_hash expected)) (\<lambda>pending.
         commit_decision g iid current (terminal_decision pending aid (decided_status approve now pending)
           actor reason now event_key) actor))))))))"

definition resolve_for_execution :: "gov_services \<Rightarrow> envelope \<Rightarrow> remediation_action \<Rightarrow> rca_report \<Rightarrow> int
    \<Rightarrow> approval_reference \<Rightarrow> approval_decision gov" where
  "resolve_for_execution g e action report based_on reference =
     gov_bind (repository_get g (env_incident_id e)) (\<lambda>current.
     gov_guard (status current \<noteq> REMEDIATING) (Gov_ContractError (ApprovalAuthorizationError
       ''local action execution requires a REMEDIATING incident''))
     (gov_guard (revision current \<noteq> based_on + 1) (Gov_ContractError (ApprovalAuthorizationError
       ''incident revision changed after the approved preview''))
     (gov_guard (latest_governed_report current \<noteq> Some report \<or> action \<notin> set (recommendations current))
       (Gov_ContractError (ApprovalAuthorizationError
         ''execution request does not match the frozen incident recommendation''))
     (gov_bind (trusted_now g) (\<lambda>now.
      gov_lift (case validate_approval_reference (sha256 (gs_services g)) reference (approvals current)
          action report (Aware now) of Inl e \<Rightarrow> Inl (Gov_ContractError e) | Inr d \<Rightarrow> Inr d))))))"

section \<open>The simulated action and the local verification\<close>

definition fixed_simulation :: "remediation_action \<Rightarrow> bool" where
  "fixed_simulation a \<longleftrightarrow> action_type a = LOCAL_SIMULATION_ACTION_TYPE \<and> parameters a = LOCAL_SIMULATION_PARAMETERS"

definition simulated_run :: "gov_services \<Rightarrow> envelope \<Rightarrow> remediation_action \<Rightarrow> instant \<Rightarrow> action_run" where
  "simulated_run g e a now = \<lparr>
     action_run_id = stable_id g ''local-simulation-run'' [JStr (env_incident_id e),
       JStr (env_idempotency_key e), JStr (compute_action_hash (sha256 (gs_services g)) a)],
     run_incident_id = Some (env_incident_id e), run_action_id = action_id a,
     run_action_hash = Some (compute_action_hash (sha256 (gs_services g)) a),
     run_status = Run_SUCCEEDED, run_idempotency_key = Some (env_idempotency_key e), attempt = 1,
     run_started_at = Some now, run_finished_at = Some now,
     output_summary = Some ''Local simulation completed; no network state was changed.'', run_error = None,
     run_metadata = [(''mode'', JStr ''simulation''), (''side_effects'', JBool False)]\<rparr>"

definition simulate_action :: "gov_services \<Rightarrow> envelope \<Rightarrow> remediation_action \<Rightarrow> rca_report \<Rightarrow> int
    \<Rightarrow> approval_reference \<Rightarrow> action_run gov" where
  "simulate_action g e action report based_on reference =
     gov_guard (\<not> fixed_simulation action \<or> \<not> reversible action \<or>
         rollback_plan action \<noteq> Some LOCAL_SIMULATION_ROLLBACK)
       (GovernanceAuthorizationError ''the local action gateway accepts only the fixed local simulation'')
     (gov_bind (resolve_for_execution g e action report based_on reference) (\<lambda>_.
      gov_bind (trusted_now g) (\<lambda>now. gov_construct validate_action_run (simulated_run g e action now))))"

definition requested_outcome :: "verification_run \<Rightarrow> verification_status option" where
  "requested_outcome v = (case map_of (ver_metadata v) ''requested_outcome'' of
     Some (JStr out) \<Rightarrow> if out = ''PASSED'' then Some Ver_PASSED else if out = ''FAILED'' then Some Ver_FAILED else None
   | _ \<Rightarrow> None)"

definition outcome_value :: "verification_status \<Rightarrow> string" where
  "outcome_value st = (if st = Ver_PASSED then ''PASSED'' else ''FAILED'')"

definition local_evidence :: "gov_services \<Rightarrow> verification_run \<Rightarrow> verification_status \<Rightarrow> instant \<Rightarrow> evidence_reference" where
  "local_evidence g v st now = \<lparr>
     evidence_id = stable_id g ''local-verification-evidence'' [JStr (verification_id v), JStr (outcome_value st)],
     evidence_type = TEST_RESULT,
     evidence_uri = ''local-simulation://verification/'' @ verification_id v,
     evidence_source = Some ''local-verification-gateway'',
     evidence_summary = Some (if st = Ver_PASSED then ''Local simulated health checks passed.''
       else ''Local simulated health checks failed.''),
     collected_at = Some now, content_type = None, checksum_sha256 = None,
     evidence_attributes = [(''mode'', JStr ''simulation''), (''side_effects'', JBool False)]\<rparr>"

definition completed_verification :: "verification_run \<Rightarrow> verification_status \<Rightarrow> evidence_reference \<Rightarrow> instant
    \<Rightarrow> verification_run" where
  "completed_verification v st evidence now = v\<lparr>ver_status := st, ver_evidence_refs := [evidence],
     ver_summary := evidence_summary evidence,
     ver_error := (if st = Ver_FAILED then Some ''Local simulated verification failed'' else None),
     ver_started_at := Some now, ver_finished_at := Some now,
     ver_metadata := dict_set ''side_effects'' (JBool False) (dict_set ''mode'' (JStr ''simulation'') (ver_metadata v))\<rparr>"

definition verify_locally :: "gov_services \<Rightarrow> envelope \<Rightarrow> verification_run \<Rightarrow> contract_message gov" where
  "verify_locally g e pending =
     gov_guard (ver_status pending \<noteq> Ver_PENDING) (GovernanceStateError ''local verification input must be PENDING'')
     (case requested_outcome pending of
        None \<Rightarrow> gov_raise (GovernanceStateError ''local verification requires an explicit deterministic outcome'')
      | Some st \<Rightarrow> gov_bind (trusted_now g) (\<lambda>now.
        gov_bind (gov_construct validate_evidence (local_evidence g pending st now)) (\<lambda>evidence.
        gov_bind (gov_construct validate_verification_run (completed_verification pending st evidence now)) (\<lambda>v.
        gov_construct (validate_message (sha256 (gs_services g))) (VerificationResult \<lparr>
          message_id = stable_id g ''local-verification-result''
            [JStr (message_id e), JStr (verification_id v), JStr (outcome_value (ver_status v))],
          workflow_id = workflow_id e, env_incident_id = env_incident_id e, env_trace_id = env_trace_id e,
          env_idempotency_key = stable_id g ''local-verification-result-key'' [JStr (env_idempotency_key e)],
          sent_at = now\<rparr> v (str_or_empty (evidence_summary evidence)))))))"


section \<open>Preparing an incident\<close>

definition engine_get :: "gov_services \<Rightarrow> string \<Rightarrow> incident gov" where
  "engine_get g iid = gov_bind (require_text ''incident_id'' iid 256) (repository_get g)"

definition prepare_fingerprint :: "gov_services \<Rightarrow> string \<Rightarrow> int \<Rightarrow> string \<Rightarrow> string" where
  "prepare_fingerprint g root_key ttl actor = gov_digest g [JStr ''local-governance-prepare-v1'',
     JStr (gov_digest g [JStr root_key]), total_seconds ttl, JStr actor]"

definition prepare_workflow :: "gov_services \<Rightarrow> string \<Rightarrow> string" where
  "prepare_workflow g root_key = stable_id g ''local-governance-workflow'' [JStr (gov_digest g [JStr root_key])]"

text \<open>\<open>_marker\<close>, in key order.\<close>

definition governance_marker :: "gov_services \<Rightarrow> string \<Rightarrow> int \<Rightarrow> string \<Rightarrow> (string, json) dict" where
  "governance_marker g root_key ttl actor = [
     (''actor'', JStr actor), (''approval_ttl_seconds'', total_seconds ttl), (''mode'', JStr ''simulation''),
     (''policy_version'', JStr POLICY_VERSION),
     (''request_fingerprint'', JStr (prepare_fingerprint g root_key ttl actor)),
     (''root_fingerprint'', JStr (gov_digest g [JStr root_key])),
     (''workflow_id'', JStr (prepare_workflow g root_key))]"

definition marker_error :: "incident \<Rightarrow> (string, json) dict \<Rightarrow> gov_error option" where
  "marker_error i expected = (case map_of (model_metadata i) MARKER_KEY of
     Some (JObj actual) \<Rightarrow> first_error [
       fail_if (map_of actual ''root_fingerprint'' \<noteq> map_of expected ''root_fingerprint'')
         (GovernanceStateError ''incident is already owned by another governance request''),
       fail_if (map_of actual ''request_fingerprint'' \<noteq> map_of expected ''request_fingerprint'')
         (GovernanceIdempotencyConflictError ''prepare idempotency key was retried with another request''),
       fail_if (set actual \<noteq> set expected)
         (GovernanceStateError ''persisted local governance binding is inconsistent'')]
   | _ \<Rightarrow> Some (GovernanceStateError ''incident is already owned by another lifecycle''))"

definition require_marker :: "incident \<Rightarrow> (string, json) dict \<Rightarrow> unit gov" where
  "require_marker i expected = (case marker_error i expected of Some e \<Rightarrow> gov_raise e | None \<Rightarrow> gov_return ())"

text \<open>The request a caller of \<open>prepare\<close> makes, after its checks; each stage returns \<open>current\<close> and
  whether it wrote.\<close>

record prepare_request =
  pr_key :: string
  pr_actor :: string
  pr_ttl :: int

definition pr_marker :: "gov_services \<Rightarrow> prepare_request \<Rightarrow> (string, json) dict" where
  "pr_marker g p = governance_marker g (pr_key p) (pr_ttl p) (pr_actor p)"

definition pr_fingerprint :: "gov_services \<Rightarrow> prepare_request \<Rightarrow> string" where
  "pr_fingerprint g p = prepare_fingerprint g (pr_key p) (pr_ttl p) (pr_actor p)"

definition prepare_triage :: "gov_services \<Rightarrow> prepare_request \<Rightarrow> incident \<Rightarrow> (incident \<times> bool) gov" where
  "prepare_triage g p current =
     (if status current = DETECTED then
        gov_bind (repository_transition g (incident_id current) current TRIAGED
          (step_key g (pr_key p) ''triage'' []) (pr_actor p) ''Triage incident for deterministic local governance''
          [U_model_metadata (dict_set MARKER_KEY (JObj (pr_marker g p)) (model_metadata current))])
          (\<lambda>i. gov_return (i, True))
      else gov_bind (require_marker current (pr_marker g p)) (\<lambda>_. gov_return (current, False)))"

definition prepare_investigate :: "gov_services \<Rightarrow> prepare_request \<Rightarrow> incident \<times> bool \<Rightarrow> (incident \<times> bool) gov" where
  "prepare_investigate g p = (\<lambda>(current, wrote).
     if status current = TRIAGED then
       gov_bind (repository_transition g (incident_id current) current INVESTIGATING
         (step_key g (pr_key p) ''investigate'' []) (pr_actor p) ''Start deterministic local RCA'' [])
         (\<lambda>i. gov_return (i, True))
     else gov_return (current, wrote))"

definition next_report_version :: "incident \<Rightarrow> int" where
  "next_report_version i = (case latest_governed_report i of None \<Rightarrow> 0 | Some r \<Rightarrow> version r) + 1"

definition rca_result_error :: "envelope \<Rightarrow> int \<Rightarrow> int \<Rightarrow> envelope \<Rightarrow> rca_report \<Rightarrow> int \<Rightarrow> int \<Rightarrow> gov_error option" where
  "rca_result_error e based_on report_version re report result_based_on result_version = first_error [
     fail_if (env_incident_id re \<noteq> env_incident_id e \<or> env_trace_id re \<noteq> env_trace_id e \<or>
         result_based_on \<noteq> based_on \<or> result_version \<noteq> report_version \<or>
         report_incident_id report \<noteq> env_incident_id e \<or> version report \<noteq> report_version)
       (GovernanceStateError ''RCA result is not bound to the requested incident revision''),
     fail_if (report_status report \<notin> {Rep_PROPOSED, Rep_APPROVED, Rep_PERSISTED})
       (GovernanceStateError ''RCA result is not eligible for persistence''),
     fail_if (report_evidence_refs report = []) (GovernanceStateError ''RCA result must include local evidence''),
     fail_if (report_recommendations report \<noteq> [])
       (GovernanceStateError ''the read-only local RCA gateway returned an action'')]"

definition validated_rca_report :: "contract_message \<Rightarrow> contract_message option \<Rightarrow> gov_error + rca_report" where
  "validated_rca_report request answer = (case (request, answer) of
     (RcaRequest e i based_on report_version, Some (RcaResult re m report result_based_on result_version s)) \<Rightarrow>
       (case rca_result_error e based_on report_version re report result_based_on result_version of
          Some err \<Rightarrow> Inl err | None \<Rightarrow> Inr report)
   | _ \<Rightarrow> Inl Gov_GatewayError)"

definition rca_request_of :: "gov_services \<Rightarrow> prepare_request \<Rightarrow> incident \<Rightarrow> instant \<Rightarrow> contract_message" where
  "rca_request_of g p current now = RcaRequest \<lparr>
     message_id = stable_id g ''local-rca-request'' [JStr (pr_fingerprint g p), JInt (revision current)],
     workflow_id = prepare_workflow g (pr_key p), env_incident_id = incident_id current,
     env_trace_id = trace_id current, env_idempotency_key = step_key g (pr_key p) ''rca-request'' [],
     sent_at = now\<rparr> current (revision current) (next_report_version current)"

definition rca_updates :: "incident \<Rightarrow> rca_report \<Rightarrow> field_update list" where
  "rca_updates current report = [U_root_cause (report_root_cause report), U_hypotheses (report_hypotheses report),
     U_rca_reports (rca_reports current @ [report]), U_recommendations (report_recommendations report)]"

definition prepare_rca :: "gov_services \<Rightarrow> prepare_request \<Rightarrow> incident \<times> bool \<Rightarrow> (incident \<times> bool) gov" where
  "prepare_rca g p = (\<lambda>(current, wrote).
     if status current = INVESTIGATING then
       gov_bind (trusted_now g) (\<lambda>now.
       gov_bind (gov_construct (validate_message (sha256 (gs_services g))) (rca_request_of g p current now)) (\<lambda>request.
       gov_bind (gov_lift (validated_rca_report request (gs_analyze g request))) (\<lambda>report.
       gov_bind (if conclusion report = CONCLUSIVE
           then attach_action g current report (pr_fingerprint g p) now else gov_return report) (\<lambda>report.
       gov_bind (repository_transition g (incident_id current) current RCA_COMPLETE
         (step_key g (pr_key p) ''rca-complete'' []) (pr_actor p) ''Persist deterministic local RCA result''
         (rca_updates current report)) (\<lambda>i. gov_return (i, True))))))
     else gov_return (current, wrote))"

definition GOVERNED_STATUSES :: "incident_status list" where
  "GOVERNED_STATUSES = [AWAITING_APPROVAL, REMEDIATING, VERIFYING, RESOLVED, REOPENED, REJECTED]"

text \<open>\<open>_execution_failure_binding\<close>, in key order, and the check of the persisted one.\<close>

definition execution_failure_binding :: "string \<Rightarrow> string \<Rightarrow> (string, json) dict" where
  "execution_failure_binding root_fingerprint request_fingerprint = [
     (''code'', JStr EXECUTION_APPROVAL_EXPIRED_CODE), (''request_fingerprint'', JStr request_fingerprint),
     (''root_fingerprint'', JStr root_fingerprint), (''side_effects'', JBool False)]"

definition complete_execution_failure :: "gov_services \<Rightarrow> incident \<Rightarrow> (string, json) dict option" where
  "complete_execution_failure g i = (case map_of (model_metadata i) EXECUTION_FAILURE_MARKER_KEY of
     Some (JObj raw) \<Rightarrow>
       (case (latest_governed_report i, sole_action (latest_governed_report i), latest_approval i) of
          (Some report, Some action, Some d) \<Rightarrow>
            if set (map fst raw) \<noteq> {''code'', ''request_fingerprint'', ''root_fingerprint'', ''side_effects''} \<or>
              map_of raw ''code'' \<noteq> Some (JStr EXECUTION_APPROVAL_EXPIRED_CODE) \<or>
              map_of raw ''side_effects'' \<noteq> Some (JBool False) \<or>
              \<not> is_sha256_digest (map_of raw ''request_fingerprint'') \<or>
              \<not> is_sha256_digest (map_of raw ''root_fingerprint'') \<or>
              action_runs i \<noteq> [] \<or> verification_runs i \<noteq> [] \<or> \<not> fixed_simulation action \<or>
              approval_status d \<noteq> Ap_APPROVED \<or>
              \<not> covers_action (sha256 (gs_services g)) d action (incident_id i) report
            then None else Some raw
        | _ \<Rightarrow> None)
   | _ \<Rightarrow> None)"

definition prepare_outcome :: "gov_services \<Rightarrow> prepare_request \<Rightarrow> incident \<times> bool \<Rightarrow> governance_result gov" where
  "prepare_outcome g p = (\<lambda>(current, wrote).
     if status current = FAILED then
       (case complete_execution_failure g current of
          None \<Rightarrow> gov_raise (GovernanceStateError ''FAILED incident lacks a complete local execution failure binding'')
        | Some _ \<Rightarrow> gov_return (result_of current True))
     else if status current \<in> set GOVERNED_STATUSES then
       gov_bind (require_marker current (pr_marker g p)) (\<lambda>_. gov_return (result_of current (\<not> wrote)))
     else gov_raise (GovernanceStateError
       (''prepare cannot resume incident in '' @ incident_status_value (status current))))"


text \<open>The message \<open>prepare\<close> sends to the approval gateway for the sole action of the report.\<close>

definition approval_request_envelope :: "gov_services \<Rightarrow> prepare_request \<Rightarrow> incident \<Rightarrow> string \<Rightarrow> instant \<Rightarrow> envelope" where
  "approval_request_envelope g p current action_hash now = \<lparr>
     message_id = stable_id g ''local-approval-request-message'' [JStr (pr_fingerprint g p), JStr action_hash],
     workflow_id = prepare_workflow g (pr_key p), env_incident_id = incident_id current,
     env_trace_id = trace_id current, env_idempotency_key = step_key g (pr_key p) ''approval-request'' [],
     sent_at = now\<rparr>"

definition prepare_approval_request :: "gov_services \<Rightarrow> prepare_request \<Rightarrow> incident \<Rightarrow> rca_report
    \<Rightarrow> remediation_action \<Rightarrow> instant \<Rightarrow> contract_message" where
  "prepare_approval_request g p current report action now =
     (let action_hash = compute_action_hash (sha256 (gs_services g)) action in
      ApprovalRequest (approval_request_envelope g p current action_hash now)
        (stable_id g ''local-approval-request''
          [JStr (pr_fingerprint g p), JStr (report_id report), JStr action_hash])
        NETWORK_ACTION report (Some action) (target_resources action) (revision current)
        (Some (now + pr_ttl p)) (gs_request_summary g))"

definition send_approval_request :: "gov_services \<Rightarrow> contract_message \<Rightarrow> contract_message gov" where
  "send_approval_request g m = (case m of
     ApprovalRequest e rid ty report action resources based_on expires summary \<Rightarrow>
       request_approval g e rid ty report action resources based_on expires
   | _ \<Rightarrow> gov_raise Gov_GatewayError)"

definition prepare_approval :: "gov_services \<Rightarrow> prepare_request \<Rightarrow> incident \<times> bool \<Rightarrow> governance_result gov" where
  "prepare_approval g p = (\<lambda>(current, wrote).
     if status current = RCA_COMPLETE then
       (case latest_governed_report current of
          None \<Rightarrow> gov_raise (GovernanceStateError ''RCA_COMPLETE incident has no report'')
        | Some report \<Rightarrow>
            if conclusion report = INCONCLUSIVE then gov_return (result_of current (\<not> wrote))
            else (case sole_action (Some report) of
               None \<Rightarrow> gov_raise (GovernanceStateError ''conclusive local RCA must contain one simulation action'')
             | Some action \<Rightarrow>
                 gov_bind (trusted_now g) (\<lambda>now.
                 gov_bind (gov_construct (validate_message (sha256 (gs_services g)))
                   (prepare_approval_request g p current report action now)) (\<lambda>request.
                 gov_bind (send_approval_request g request) (\<lambda>_.
                 gov_bind (engine_get g (incident_id current)) (\<lambda>i. prepare_outcome g p (i, True)))))))
     else prepare_outcome g p (current, wrote))"

definition MAX_APPROVAL_TTL :: int where "MAX_APPROVAL_TTL = 24 * 3600 * 1000000"

definition prepare :: "gov_services \<Rightarrow> string \<Rightarrow> string \<Rightarrow> string \<Rightarrow> int \<Rightarrow> governance_result gov" where
  "prepare g iid root_key actor ttl =
     gov_bind (require_text ''idempotency_key'' root_key 256) (\<lambda>root_key.
     gov_bind (require_text ''actor'' actor 256) (\<lambda>actor.
     gov_guard (ttl \<le> 0 \<or> ttl > MAX_APPROVAL_TTL)
       (Gov_ValueError ''approval_ttl must be greater than zero and at most 24 hours'')
     (let p = \<lparr>pr_key = root_key, pr_actor = actor, pr_ttl = ttl\<rparr> in
      gov_bind (engine_get g iid) (\<lambda>current.
      gov_bind (prepare_triage g p current) (\<lambda>s1.
      gov_bind (prepare_investigate g p s1) (\<lambda>s2.
      gov_bind (prepare_rca g p s2) (prepare_approval g p)))))))"

definition engine_decide :: "gov_services \<Rightarrow> string \<Rightarrow> bool \<Rightarrow> string \<Rightarrow> int \<Rightarrow> string \<Rightarrow> string \<Rightarrow> string
    \<Rightarrow> governance_result gov" where
  "engine_decide g iid approve action_hash expected actor reason root_key =
     gov_bind (engine_get g iid) (\<lambda>current_before.
     gov_bind (require_text ''idempotency_key'' root_key 256) (\<lambda>stripped_key.
     let had_event = list_ex (\<lambda>d. approval_idempotency_key d = decision_key g stripped_key) (approvals current_before) in
     gov_bind (gateway_decide g iid approve action_hash expected actor reason root_key) (\<lambda>committed.
     gov_return (result_of committed had_event))))"

section \<open>Executing an approved simulation\<close>

text \<open>The local variables \<open>execute\<close> computes before its first branch.\<close>

record execution =
  x_incident :: string
  x_root :: string
  x_actor :: string
  x_passed :: bool
  x_sole_report :: rca_report
  x_sole_action :: remediation_action
  x_approval :: "approval_decision option"
  x_verification_id :: string

definition x_action_hash :: "gov_services \<Rightarrow> execution \<Rightarrow> string" where
  "x_action_hash g x = compute_action_hash (sha256 (gs_services g)) (x_sole_action x)"

definition x_root_fingerprint :: "gov_services \<Rightarrow> execution \<Rightarrow> string" where
  "x_root_fingerprint g x = gov_digest g [JStr (x_root x)]"

definition x_fingerprint :: "gov_services \<Rightarrow> execution \<Rightarrow> string" where
  "x_fingerprint g x = gov_digest g [JStr ''local-governance-execute-v2'', JStr (x_incident x),
     JStr (x_root_fingerprint g x), JStr (x_actor x), JBool (x_passed x), JStr (x_action_hash g x),
     json_opt (map_option approval_id (x_approval x))]"

definition x_action_key :: "gov_services \<Rightarrow> execution \<Rightarrow> string" where
  "x_action_key g x = step_key g (x_root x) ''simulate-action''
     [JStr (x_fingerprint g x), JStr (x_action_hash g x)]"

definition x_run_id :: "gov_services \<Rightarrow> execution \<Rightarrow> string" where
  "x_run_id g x = stable_id g ''local-simulation-run'' [JStr (x_incident x),
     JStr (x_action_key g x), JStr (x_action_hash g x)]"

definition x_workflow :: "gov_services \<Rightarrow> string \<Rightarrow> string" where
  "x_workflow g fp = stable_id g ''local-execution-workflow'' [JStr fp]"

definition fail_expired_execution :: "gov_services \<Rightarrow> execution \<Rightarrow> incident \<Rightarrow> governance_result gov" where
  "fail_expired_execution g x current =
     gov_guard (status current \<noteq> REMEDIATING)
       (GovernanceStateError ''expired execution recovery requires a REMEDIATING incident'')
     (let fp = x_fingerprint g x in
      gov_bind (repository_transition g (incident_id current) current FAILED
        (step_key g (x_root x) ''approval-no-longer-effective'' [JStr fp]) (x_actor x)
        EXECUTION_APPROVAL_EXPIRED_REASON
        [U_model_metadata (dict_set EXECUTION_FAILURE_MARKER_KEY
          (JObj (execution_failure_binding (x_root_fingerprint g x) fp)) (model_metadata current))])
        (\<lambda>i. gov_return (result_of i False)))"

definition failed_replay :: "gov_services \<Rightarrow> execution \<Rightarrow> incident \<Rightarrow> governance_result gov" where
  "failed_replay g x current = (case complete_execution_failure g current of
     None \<Rightarrow> gov_raise (GovernanceStateError ''FAILED incident was not produced by expired execution recovery'')
   | Some binding \<Rightarrow>
       gov_guard (map_of binding ''root_fingerprint'' \<noteq> Some (JStr (x_root_fingerprint g x)))
         (GovernanceStateError ''FAILED incident belongs to another execution request'')
       (gov_guard (map_of binding ''request_fingerprint'' \<noteq> Some (JStr (x_fingerprint g x)))
         (GovernanceIdempotencyConflictError ''execution key was retried with another request'')
       (gov_guard (set binding \<noteq> set (execution_failure_binding (x_root_fingerprint g x) (x_fingerprint g x)))
         (GovernanceStateError ''persisted execution failure binding is inconsistent'')
         (gov_return (result_of current True)))))"


definition approval_reference_of :: "gov_services \<Rightarrow> execution \<Rightarrow> incident \<Rightarrow> approval_decision \<Rightarrow> instant
    \<Rightarrow> approval_reference" where
  "approval_reference_of g x current approval now = \<lparr>
     ref_approval_id = approval_id approval, ref_request_id = request_id approval,
     decision_sequence = sequence approval, ref_incident_id = incident_id current,
     ref_report_id = report_id (x_sole_report x), ref_report_version = version (x_sole_report x),
     ref_subject_id = action_id (x_sole_action x), ref_action_hash = x_action_hash g x,
     ref_based_on_revision = revision current - 1, validated_at = now, validator_id = ''local-governance-engine''\<rparr>"

definition change_envelope :: "gov_services \<Rightarrow> execution \<Rightarrow> incident \<Rightarrow> instant \<Rightarrow> envelope" where
  "change_envelope g x current now = \<lparr>
     message_id = stable_id g ''local-change-request'' [JStr (x_fingerprint g x), JStr (x_action_hash g x)],
     workflow_id = x_workflow g (x_fingerprint g x), env_incident_id = incident_id current,
     env_trace_id = trace_id current, env_idempotency_key = x_action_key g x, sent_at = now\<rparr>"

text \<open>The \<open>try\<close> block of \<open>execute\<close>: the run of the action, or the result of the early return.\<close>

definition attempt_action :: "gov_services \<Rightarrow> execution \<Rightarrow> incident \<Rightarrow> approval_decision \<Rightarrow> envelope
    \<Rightarrow> approval_reference \<Rightarrow> (governance_result + action_run) gov" where
  "attempt_action g x current approval e reference =
     gov_catch
       (gov_bind (simulate_action g e (x_sole_action x) (x_sole_report x) (revision current - 1) reference)
         (\<lambda>run. gov_return (Inr run)))
       (\<lambda>err. case err of
          Gov_ContractError (ApprovalAuthorizationError m) \<Rightarrow>
            gov_bind (trusted_now g) (\<lambda>now.
              if \<not> effective_at approval now
              then gov_bind (fail_expired_execution g x current) (\<lambda>r. gov_return (Inl r))
              else gov_raise (GovernanceAuthorizationError m))
        | _ \<Rightarrow> gov_raise err)"

definition remediate :: "gov_services \<Rightarrow> execution \<Rightarrow> incident \<Rightarrow> (governance_result + incident) gov" where
  "remediate g x current = (case x_approval x of
     None \<Rightarrow> gov_raise (GovernanceAuthorizationError ''latest approval does not cover the simulation action'')
   | Some approval \<Rightarrow>
       gov_guard (approval_status approval \<noteq> Ap_APPROVED \<or>
           \<not> covers_action (sha256 (gs_services g)) approval (x_sole_action x) (incident_id current) (x_sole_report x))
         (GovernanceAuthorizationError ''latest approval does not cover the simulation action'')
       (gov_bind (trusted_now g) (\<lambda>now.
        if \<not> effective_at approval now
        then gov_bind (fail_expired_execution g x current) (\<lambda>r. gov_return (Inl r))
        else
          gov_bind (gov_construct (\<lambda>r. field_check (approval_reference_ok r))
            (approval_reference_of g x current approval now)) (\<lambda>reference.
          let e = change_envelope g x current now in
          gov_bind (gov_construct (validate_message (sha256 (gs_services g)))
            (NetworkChangeRequest e (x_sole_action x) (x_sole_report x) (revision current - 1) reference)) (\<lambda>_.
          gov_bind (attempt_action g x current approval e reference) (\<lambda>out. case out of
             Inl early \<Rightarrow> gov_return (Inl early)
           | Inr run \<Rightarrow> gov_bind (repository_transition g (incident_id current) current VERIFYING
               (x_action_key g x) (x_actor x) ''Record side-effect-free local simulation run''
               [U_action_runs (action_runs current @ [run])]) (\<lambda>i. gov_return (Inr i))))))))"

definition pending_verification :: "gov_services \<Rightarrow> execution \<Rightarrow> incident \<Rightarrow> action_run \<Rightarrow> verification_run" where
  "pending_verification g x current run = \<lparr>
     verification_id = x_verification_id x, ver_incident_id = Some (incident_id current),
     ver_action_run_ids = [action_run_id run], ver_status = Ver_PENDING,
     checks = [''local deterministic post-remediation health check''], observed_kpis = [],
     ver_evidence_refs = [], ver_summary = None, ver_error = None, ver_started_at = None,
     ver_finished_at = None,
     ver_metadata = [(''mode'', JStr ''simulation''), (''request_fingerprint'', JStr (x_fingerprint g x)),
       (''requested_outcome'', JStr (if x_passed x then ''PASSED'' else ''FAILED''))]\<rparr>"

definition verification_envelope :: "gov_services \<Rightarrow> execution \<Rightarrow> incident \<Rightarrow> instant \<Rightarrow> envelope" where
  "verification_envelope g x current now = \<lparr>
     message_id = stable_id g ''local-verification-request''
       [JStr (x_fingerprint g x), JStr (x_verification_id x)],
     workflow_id = x_workflow g (x_fingerprint g x), env_incident_id = incident_id current,
     env_trace_id = trace_id current,
     env_idempotency_key = step_key g (x_root x) ''verify'' [JStr (x_fingerprint g x)], sent_at = now\<rparr>"

definition verified_run :: "contract_message \<Rightarrow> verification_run gov" where
  "verified_run m = (case m of VerificationResult e v s \<Rightarrow> gov_return v | _ \<Rightarrow> gov_raise Gov_GatewayError)"

definition locally_verified :: "gov_services \<Rightarrow> envelope \<Rightarrow> verification_run \<Rightarrow> verification_run gov" where
  "locally_verified g e pending = gov_bind (verify_locally g e pending) verified_run"

definition record_verification :: "gov_services \<Rightarrow> execution \<Rightarrow> incident \<Rightarrow> action_run \<Rightarrow> governance_result gov" where
  "record_verification g x current run =
     gov_bind (trusted_now g) (\<lambda>now.
     gov_bind (gov_construct validate_verification_run (pending_verification g x current run)) (\<lambda>pending.
     let e = verification_envelope g x current now in
     gov_bind (gov_construct (validate_message (sha256 (gs_services g))) (VerificationRequest e run pending)) (\<lambda>_.
     gov_bind (locally_verified g e pending) (\<lambda>v.
     gov_bind (repository_transition g (incident_id current) current
       (if ver_status v = Ver_PASSED then RESOLVED else REOPENED) (env_idempotency_key e) (x_actor x)
       (''Record local simulated verification: '' @ outcome_value (ver_status v))
       [U_verification_runs (verification_runs current @ [v])]) (\<lambda>i. gov_return (result_of i False))))))"

definition finish_execution :: "gov_services \<Rightarrow> execution \<Rightarrow> governance_result + incident \<Rightarrow> governance_result gov" where
  "finish_execution g x out = (case out of
     Inl early \<Rightarrow> gov_return early
   | Inr current \<Rightarrow>
       gov_guard (status current \<noteq> VERIFYING)
         (GovernanceStateError ''local execution requires a REMEDIATING or resumable VERIFYING incident'')
       (case List.find (\<lambda>r. action_run_id r = x_run_id g x) (action_runs current) of
          None \<Rightarrow> gov_raise (if action_runs current \<noteq> []
            then GovernanceIdempotencyConflictError ''another execution request already produced the action run''
            else GovernanceStateError ''simulated action run was not persisted'')
        | Some run \<Rightarrow>
            gov_guard (run_status run \<noteq> Run_SUCCEEDED \<or> run_action_hash run \<noteq> Some (x_action_hash g x))
              (GovernanceStateError ''simulated action run is not successful'')
              (record_verification g x current run)))"

text \<open>The locals of \<open>execute\<close> for the incident it read, and the branches it takes with them.\<close>

definition execution_of :: "gov_services \<Rightarrow> string \<Rightarrow> string \<Rightarrow> string \<Rightarrow> bool \<Rightarrow> incident \<Rightarrow> rca_report
    \<Rightarrow> remediation_action \<Rightarrow> execution" where
  "execution_of g iid root_key actor passed current report action =
     \<lparr>x_incident = incident_id current, x_root = root_key, x_actor = actor, x_passed = passed,
      x_sole_report = report, x_sole_action = action, x_approval = latest_approval current,
      x_verification_id = stable_id g ''local-verification'' [JStr (gov_digest g [JStr root_key]), JStr iid]\<rparr>"

definition earlier_verification :: "execution \<Rightarrow> incident \<Rightarrow> verification_run option" where
  "earlier_verification x current = List.find (\<lambda>v. verification_id v = x_verification_id x) (verification_runs current)"

definition run_execution :: "gov_services \<Rightarrow> incident \<Rightarrow> execution \<Rightarrow> governance_result gov" where
  "run_execution g current x = (case earlier_verification x current of
     Some run \<Rightarrow>
       gov_guard (map_of (ver_metadata run) ''request_fingerprint'' \<noteq> Some (JStr (x_fingerprint g x)))
         (GovernanceIdempotencyConflictError ''execution key was retried with another request'')
         (gov_return (result_of current True))
   | None \<Rightarrow>
       if status current = FAILED then failed_replay g x current
       else if status current = REMEDIATING
       then gov_bind (remediate g x current) (finish_execution g x)
       else finish_execution g x (Inr current))"

definition execute :: "gov_services \<Rightarrow> string \<Rightarrow> string \<Rightarrow> string \<Rightarrow> bool \<Rightarrow> governance_result gov" where
  "execute g iid root_key actor passed =
     gov_bind (require_text ''idempotency_key'' root_key 256) (\<lambda>root_key.
     gov_bind (require_text ''actor'' actor 256) (\<lambda>actor.
     gov_bind (engine_get g iid) (\<lambda>current.
     case (latest_governed_report current, sole_action (latest_governed_report current)) of
       (Some report, Some action) \<Rightarrow>
         run_execution g current (execution_of g iid root_key actor passed current report action)
     | _ \<Rightarrow> gov_raise (GovernanceStateError ''execution requires one frozen local simulation action''))))"

end
