(* ===== verification/Governance_Properties.thy ===== *)
theory Governance_Properties
  imports Governance Repository_Properties
begin

text \<open>
  What the local governance of \<open>telco_local/governance.py\<close> guarantees.  Other coroutines may write
  between any two of its statements, as long as they write through the repository
  (\<open>polite_others\<close>).  The rules of the coroutines are proved once in the locale \<open>world_preorder\<close>;
  every operation then leaves only repository states, decides an approval once, runs the
  simulation under an approval that is effective at a clock reading of the call, and resolves an
  incident only through its own verification.
\<close>

section \<open>Rules of coroutines\<close>

named_theorems guaranteed

definition guarantees :: "(world \<Rightarrow> world \<Rightarrow> bool) \<Rightarrow> 'a gov \<Rightarrow> bool" where
  "guarantees R m \<longleftrightarrow> (\<forall>w. R w (snd (m w)))"

text \<open>A preorder of worlds is kept by every combinator of coroutines.\<close>

locale world_preorder =
  fixes R :: "world \<Rightarrow> world \<Rightarrow> bool"
  assumes refl: "R w w" and trans: "R u v \<Longrightarrow> R v w \<Longrightarrow> R u w"
begin

lemma pure: "guarantees R (gov_return x)" "guarantees R (gov_raise e)" "guarantees R (gov_lift r)"
  "guarantees R (gov_construct validate x)"
  by (simp_all add: guarantees_def gov_return_def gov_raise_def gov_lift_def gov_construct_def refl
      split: option.splits)

lemma bind:
  assumes "guarantees R m" and "\<And>x. guarantees R (f x)"
  shows "guarantees R (gov_bind m f)"
  unfolding guarantees_def
proof
  fix w
  obtain res w' where m: "m w = (res, w')" by fastforce
  with assms(1) have "R w w'" unfolding guarantees_def by (metis snd_conv)
  with m assms(2) show "R w (snd (gov_bind m f w))"
    by (cases res) (auto simp: gov_bind_def guarantees_def intro: trans)
qed

lemma guard: "guarantees R m \<Longrightarrow> guarantees R (gov_guard bad e m)"
  by (simp add: gov_guard_def pure)

lemma catch:
  assumes "guarantees R m" and "\<And>e. guarantees R (handler e)"
  shows "guarantees R (gov_catch m handler)"
  unfolding guarantees_def
proof
  fix w
  obtain res w' where m: "m w = (res, w')" by fastforce
  with assms(1) have "R w w'" unfolding guarantees_def by (metis snd_conv)
  with m assms(2) show "R w (snd (gov_catch m handler w))"
    by (cases res) (auto simp: gov_catch_def guarantees_def intro: trans)
qed

end

lemma guarantees_cases [guaranteed]:
  "(P \<Longrightarrow> guarantees R m) \<Longrightarrow> (\<not> P \<Longrightarrow> guarantees R m') \<Longrightarrow> guarantees R (if P then m else m')"
  "guarantees R m \<Longrightarrow> (\<And>x. guarantees R (f x)) \<Longrightarrow> guarantees R (case v of None \<Rightarrow> m | Some x \<Rightarrow> f x)"
  "(\<And>x. guarantees R (k x)) \<Longrightarrow> (\<And>y. guarantees R (l y)) \<Longrightarrow> guarantees R (case s of Inl x \<Rightarrow> k x | Inr y \<Rightarrow> l y)"
  "(\<And>a b. guarantees R (h a b)) \<Longrightarrow> guarantees R (case q of (a, b) \<Rightarrow> h a b)"
  by (simp_all split: option.splits sum.splits prod.splits)

definition world_later :: "gov_services \<Rightarrow> world \<Rightarrow> world \<Rightarrow> bool" where
  "world_later g w w' \<longleftrightarrow> (repo_step (gs_services g))\<^sup>*\<^sup>* (w_repo w) (w_repo w') \<and> w_ticks w \<le> w_ticks w'"

interpretation governed: world_preorder "world_later g" for g
  by unfold_locales (auto simp: world_later_def)

text \<open>Other coroutines write only through the repository.\<close>

definition polite_others :: "gov_services \<Rightarrow> bool" where
  "polite_others g \<longleftrightarrow> (\<forall>n r. (repo_step (gs_services g))\<^sup>*\<^sup>* r (gs_others g n r))"

lemmas governed_rules [guaranteed] = governed.pure governed.bind governed.guard governed.catch

lemma trusted_now_governed [guaranteed]: "guarantees (world_later g) (trusted_now g)"
  by (simp add: guarantees_def trusted_now_def world_later_def)

lemma repository_get_governed [guaranteed]:
  "polite_others g \<Longrightarrow> guarantees (world_later g) (repository_get g iid)"
  by (simp add: guarantees_def repository_get_def world_later_def polite_others_def Let_def)

lemma repository_transition_governed [guaranteed]:
  assumes "polite_others g"
  shows "guarantees (world_later g) (repository_transition g iid current target key actor reason updates)"
  unfolding guarantees_def
proof
  fix w :: world
  let ?r = "gs_others g (w_ticks w) (w_repo w)"
  obtain res r' where t: "transition (gs_services g) (gs_repository_clock g (w_ticks w)) False iid
    (incident_status_value target) (revision current) updates
    \<lparr>meta_key = key, meta_actor = actor, meta_reason = reason, meta_trace = trace_id current\<rparr> ?r = (res, r')"
    by fastforce
  have "(repo_step (gs_services g))\<^sup>*\<^sup>* (w_repo w) ?r" using assms by (simp add: polite_others_def)
  then have "(repo_step (gs_services g))\<^sup>*\<^sup>* (w_repo w) r'"
    using repo_step.step_transition [OF t] by (rule rtranclp.rtrancl_into_rtrancl)
  with t show "world_later g w (snd (repository_transition g iid current target key actor reason updates w))"
    by (simp add: repository_transition_def world_later_def)
qed

lemma require_text_governed [guaranteed]: "guarantees (world_later g) (require_text name v n)"
  by (simp add: require_text_def guaranteed)

lemma require_action_hash_governed [guaranteed]: "guarantees (world_later g) (require_action_hash v)"
  by (simp add: require_action_hash_def guaranteed)

lemma require_marker_governed [guaranteed]: "guarantees (world_later g) (require_marker i m)"
  by (simp add: require_marker_def guaranteed split: option.splits)


section \<open>Every operation leaves a state of the repository\<close>

lemma attach_action_governed [guaranteed]: "guarantees (world_later g) (attach_action g i report fp t)"
  by (auto simp: attach_action_def intro!: guaranteed)

lemma approval_result_governed [guaranteed]: "guarantees (world_later g) (approval_result g e rid d t)"
  by (auto simp: approval_result_def intro!: guaranteed)

lemma pending_from_request_governed [guaranteed]:
  "guarantees (world_later g) (pending_from_request g e rid report action resources expires t)"
  by (auto simp: pending_from_request_def intro!: guaranteed)

lemma request_approval_governed [guaranteed]:
  "polite_others g \<Longrightarrow> guarantees (world_later g) (request_approval g e rid ty report action resources n expires)"
  unfolding request_approval_def by (intro guaranteed)

lemma gateway_decide_governed [guaranteed]:
  "polite_others g \<Longrightarrow> guarantees (world_later g) (gateway_decide g iid approve hash n actor reason key)"
  unfolding gateway_decide_def commit_decision_def Let_def by (intro guaranteed)

lemma engine_get_governed [guaranteed]: "polite_others g \<Longrightarrow> guarantees (world_later g) (engine_get g iid)"
  unfolding engine_get_def by (intro guaranteed)

lemma engine_decide_governed [guaranteed]:
  "polite_others g \<Longrightarrow> guarantees (world_later g) (engine_decide g iid approve hash n actor reason key)"
  unfolding engine_decide_def Let_def by (intro guaranteed)

lemma resolve_governed [guaranteed]:
  "polite_others g \<Longrightarrow> guarantees (world_later g) (resolve_for_execution g e a report n reference)"
  unfolding resolve_for_execution_def by (intro guaranteed)

lemma simulate_action_governed [guaranteed]:
  "polite_others g \<Longrightarrow> guarantees (world_later g) (simulate_action g e a report n reference)"
  unfolding simulate_action_def by (intro guaranteed)

lemma verify_locally_governed [guaranteed]: "guarantees (world_later g) (verify_locally g e v)"
  unfolding verify_locally_def by (intro guaranteed)

lemma prepare_stages_governed [guaranteed]:
  assumes "polite_others g"
  shows "guarantees (world_later g) (prepare_triage g p i)"
    and "guarantees (world_later g) (prepare_investigate g p s)"
    and "guarantees (world_later g) (prepare_rca g p s)"
    and "guarantees (world_later g) (prepare_outcome g p s)"
    and "guarantees (world_later g) (send_approval_request g m)"
  using assms unfolding prepare_triage_def prepare_investigate_def prepare_rca_def prepare_outcome_def
    send_approval_request_def
  by (auto split: contract_message.splits intro!: guaranteed)

lemma prepare_approval_governed [guaranteed]:
  "polite_others g \<Longrightarrow> guarantees (world_later g) (prepare_approval g p s)"
  unfolding prepare_approval_def by (intro guaranteed)

lemma prepare_governed [guaranteed]:
  "polite_others g \<Longrightarrow> guarantees (world_later g) (prepare g iid key actor ttl)"
  unfolding prepare_def Let_def by (intro guaranteed)

lemma fail_expired_governed [guaranteed]:
  "polite_others g \<Longrightarrow> guarantees (world_later g) (fail_expired_execution g x i)"
  unfolding fail_expired_execution_def Let_def by (intro guaranteed)

lemma failed_replay_governed [guaranteed]: "guarantees (world_later g) (failed_replay g x i)"
  unfolding failed_replay_def by (intro guaranteed)

lemma attempt_action_governed [guaranteed]:
  "polite_others g \<Longrightarrow> guarantees (world_later g) (attempt_action g x i d e reference)"
  unfolding attempt_action_def
  by (auto split: gov_error.splits contract_error.splits intro!: guaranteed)

lemma remediate_governed [guaranteed]:
  "polite_others g \<Longrightarrow> guarantees (world_later g) (remediate g x i)"
  unfolding remediate_def Let_def by (intro guaranteed)

lemma record_verification_governed [guaranteed]:
  "polite_others g \<Longrightarrow> guarantees (world_later g) (record_verification g x i run)"
  unfolding record_verification_def locally_verified_def verified_run_def Let_def
  by (auto split: contract_message.splits intro!: guaranteed)

lemma finish_execution_governed [guaranteed]:
  "polite_others g \<Longrightarrow> guarantees (world_later g) (finish_execution g x out)"
  unfolding finish_execution_def by (intro guaranteed)

lemma run_execution_governed [guaranteed]:
  "polite_others g \<Longrightarrow> guarantees (world_later g) (run_execution g i x)"
  unfolding run_execution_def by (intro guaranteed)

lemma execute_governed [guaranteed]:
  "polite_others g \<Longrightarrow> guarantees (world_later g) (execute g iid key actor passed)"
  unfolding execute_def by (intro guaranteed)

section \<open>What a returned value tells\<close>

named_theorems gov_elims

lemma gov_bindE [gov_elims]:
  assumes "gov_bind m f w = (Inr y, w')"
  obtains x w1 where "m w = (Inr x, w1)" "f x w1 = (Inr y, w')"
  using assms by (auto simp: gov_bind_def split: prod.splits sum.splits)

lemma gov_guardE [gov_elims]:
  assumes "gov_guard bad e m w = (Inr y, w')"
  obtains "\<not> bad" "m w = (Inr y, w')"
  using assms by (auto simp: gov_guard_def gov_raise_def split: if_splits)

lemma gov_returns [simp]:
  "gov_return x w = (Inr y, w') \<longleftrightarrow> y = x \<and> w' = w"
  "gov_raise e w \<noteq> (Inr y, w')"
  "gov_lift r w = (Inr y, w') \<longleftrightarrow> r = Inr y \<and> w' = w"
  "gov_construct validate x w = (Inr y, w') \<longleftrightarrow> validate x = None \<and> y = x \<and> w' = w"
  by (auto simp: gov_return_def gov_raise_def gov_lift_def gov_construct_def split: option.splits)

lemma trusted_now_Inr [simp]: "trusted_now g w = (Inr t, w') \<longleftrightarrow>
    gs_clock g (w_ticks w) = Aware t \<and> w' = w\<lparr>w_ticks := w_ticks w + 1\<rparr>"
  by (auto simp: trusted_now_def split: py_datetime.splits)

lemma require_text_Inr [simp]: "require_text name v n w = (Inr y, w') \<longleftrightarrow>
    non_blank v \<and> length (py_strip v) \<le> n \<and> y = py_strip v \<and> w' = w"
  by (auto simp: require_text_def gov_guard_def gov_return_def gov_raise_def)

lemma require_action_hash_Inr [simp]: "require_action_hash v w = (Inr y, w') \<longleftrightarrow>
    contract_digest_ok v \<and> y = v \<and> w' = w"
  by (auto simp: require_action_hash_def gov_guard_def gov_return_def gov_raise_def)

lemma require_marker_Inr [simp]: "require_marker i m w = (Inr u, w') \<longleftrightarrow> marker_error i m = None \<and> w' = w"
  by (auto simp: require_marker_def split: option.splits)

lemma repository_get_Inr: "repository_get g iid w = (Inr i, w') \<longleftrightarrow>
    get iid (w_repo w') = Some i \<and> w' = \<lparr>w_repo = gs_others g (w_ticks w) (w_repo w), w_ticks = w_ticks w + 1\<rparr>"
  by (auto simp: repository_get_def Let_def split: option.splits)

definition transition_metadata :: "string \<Rightarrow> string \<Rightarrow> string \<Rightarrow> incident \<Rightarrow> write_metadata" where
  "transition_metadata key actor reason i =
     \<lparr>meta_key = key, meta_actor = actor, meta_reason = reason, meta_trace = trace_id i\<rparr>"

lemma repository_transition_Inr:
  "repository_transition g iid current target key actor reason updates w = (Inr j, w') \<longleftrightarrow>
     transition (gs_services g) (gs_repository_clock g (w_ticks w)) False iid (incident_status_value target)
       (revision current) updates (transition_metadata key actor reason current)
       (gs_others g (w_ticks w) (w_repo w)) = (Inr j, w_repo w') \<and> w_ticks w' = w_ticks w + 1"
  by (cases w') (auto simp: repository_transition_def transition_metadata_def split: prod.splits sum.splits)

text \<open>A transition under a key that no earlier transition of the incident used moves the stored incident.\<close>

definition write_unrecorded :: "repository \<Rightarrow> string \<Rightarrow> string \<Rightarrow> bool" where
  "write_unrecorded r iid key \<longleftrightarrow> map_of (idempotency r) (''transition'', iid, key) = None"

lemma transition_moves:
  assumes "transition s clock False iid (incident_status_value target) n updates m r = (Inr j, r')"
    and "write_unrecorded r iid (meta_key m)"
  obtains c now where "get iid r = Some c" "revision c = n" "clock = Aware now"
    "j = successor_of c updates target now" "incident_step (sha256 s) c j"
    "validate_transition_guard (sha256 s) c j target now = None"
    "incident_id c = iid \<Longrightarrow> get iid r' = Some j"
proof -
  obtain sc fp where q: "transition_request s iid (incident_status_value target) n updates m = Inr (sc, fp)"
    using assms(1) by (auto simp: transition_def split: sum.splits)
  moreover have "py_lower (py_strip ''transition'') = ''transition''"
    by (simp add: py_strip_def py_isspace_def py_lower_def py_lower_char_def)
  ultimately have "sc = (''transition'', iid, meta_key m)"
    by (auto simp: transition_request_def request_scope_def split: option.splits sum.splits)
  with assms(2) have rep: "replay r sc fp = Inr None"
    by (simp add: replay_None write_unrecorded_def)
  with assms(1) q obtain c now where c: "map_of (incidents r) iid = Some c"
      "transition_successor s clock False iid (incident_status_value target) n updates m r c = Inr (now, j)"
      "commit_transition s c j sc fp m now r = (None, r')"
    by (auto simp: transition_def require_current_Inr split: sum.splits option.splits prod.splits)
  note t = transition_successor_Inr [OF c(2)]
  have "transition_incident (sha256 s) now False c (incident_status_value target) n (Some (Aware now))
      (Some (Aware now)) updates = Inr j"
    using c(2) by (auto simp: transition_successor_def repository_now_def
        split: option.splits sum.splits py_datetime.splits)
  then obtain tg tt tr where i: "parse_status (incident_status_value target) = Some tg"
      "normalize_transition_time now (Some (Aware now)) (updated_at c) = Inr tt"
      "normalize_trusted_now now (Some (Aware now)) = Inr tr"
      "j = successor_of c updates tg tt" "validate_transition_guard (sha256 s) c j tg tr = None"
    by (rule transition_incident_Inr)
  have eq: "tg = target" "tt = now" "tr = now"
    using i(1-3) by (auto simp: parse_status_value normalize_transition_time_def normalize_trusted_now_def
        split: if_splits)
  show ?thesis
  proof (rule that)
    show "get iid r' = Some j" if "incident_id c = iid"
      using commit_transition_stores [OF c(3)] incident_step_facts(6) [OF t(1)] that by (simp add: get_def)
  qed (use c(1) t i(4,5) eq in \<open>simp_all add: get_def\<close>)
qed

lemma polite_run: "polite_others g \<Longrightarrow> (repo_step (gs_services g))\<^sup>*\<^sup>* r (gs_others g n r)"
  by (simp add: polite_others_def)

lemma reachable_run: "reachable s r \<Longrightarrow> (repo_step s)\<^sup>*\<^sup>* r r' \<Longrightarrow> reachable s r'"
  unfolding reachable_def by (rule rtranclp_trans)

lemma reachable_id: "reachable s r \<Longrightarrow> get k r = Some i \<Longrightarrow> incident_id i = k"
  using reachable_stored [of s r k i] by (simp add: incident_stored_ok_def)

text \<open>A writer whose revision is still the stored one wrote over the very incident it read.\<close>

lemma stored_descends:
  assumes "reachable s r" and "get k r = Some i" and "(repo_step s)\<^sup>*\<^sup>* r r'"
  obtains j where "get k r' = Some j" "(incident_step (sha256 s))\<^sup>*\<^sup>* i j"
  using incident_store.run_keeps [OF assms(3) reachable_repo_inv [OF assms(1)]] assms(2)
  unfolding durable_def get_def by blast

lemma revision_fixes_incident:
  assumes "reachable s r" and "get k r = Some i" and "(repo_step s)\<^sup>*\<^sup>* r r'" and "get k r' = Some j"
    and "revision j = revision i"
  shows "j = i"
proof -
  obtain j' where "get k r' = Some j'" "(incident_step (sha256 s))\<^sup>*\<^sup>* i j'"
    by (rule stored_descends [OF assms(1-3)])
  with assms(4) have "(incident_step (sha256 s))\<^sup>*\<^sup>* i j" by simp
  with assms(5) show ?thesis using incident_versions.run_version_determines_end by (metis order_refl)
qed

text \<open>What a write of the governance does to the incident it read at \<open>r1\<close>.\<close>

lemma governed_write:
  assumes "polite_others g" and "reachable (gs_services g) r1" and "get iid r1 = Some current"
    and "(repo_step (gs_services g))\<^sup>*\<^sup>* r1 (w_repo w)"
    and "repository_transition g iid current target key actor reason updates w = (Inr j, w')"
    and "write_unrecorded (gs_others g (w_ticks w) (w_repo w)) iid key"
  obtains now where "gs_repository_clock g (w_ticks w) = Aware now"
    "j = successor_of current updates target now" "incident_step (sha256 (gs_services g)) current j"
    "get iid (w_repo w') = Some j"
    "validate_transition_guard (sha256 (gs_services g)) current j target now = None"
proof -
  let ?r = "gs_others g (w_ticks w) (w_repo w)"
  have run: "(repo_step (gs_services g))\<^sup>*\<^sup>* r1 ?r"
    using assms(4) polite_run [OF assms(1)] by (rule rtranclp_trans)
  from assms(5,6) obtain c now where c: "get iid ?r = Some c" "revision c = revision current"
    "gs_repository_clock g (w_ticks w) = Aware now" "j = successor_of c updates target now"
    "incident_step (sha256 (gs_services g)) c j"
    "validate_transition_guard (sha256 (gs_services g)) c j target now = None"
    "incident_id c = iid \<Longrightarrow> get iid (w_repo w') = Some j"
    unfolding repository_transition_Inr by (elim conjE transition_moves) (auto simp: transition_metadata_def)
  from revision_fixes_incident [OF assms(2,3) run c(1,2)] have "c = current" .
  with c reachable_id [OF assms(2,3)] that show ?thesis by simp
qed

section \<open>Deciding\<close>

text \<open>The world and the two repository states a decision sees: at its read and at its write.\<close>

definition seen_at_read :: "gov_services \<Rightarrow> world \<Rightarrow> repository" where
  "seen_at_read g w = gs_others g (w_ticks w + 1) (w_repo w)"

definition seen_at_write :: "gov_services \<Rightarrow> world \<Rightarrow> repository" where
  "seen_at_write g w = gs_others g (w_ticks w + 2) (seen_at_read g w)"

lemma decidable_approval_Inr:
  assumes "decidable_approval g current hash n = Inr pending"
  obtains report action where "status current = AWAITING_APPROVAL" "revision current = n"
    "latest_governed_report current = Some report" "report_recommendations report = [action]"
    "compute_action_hash (sha256 (gs_services g)) action = hash" "latest_approval current = Some pending"
    "sequence pending = 0" "approval_status pending = Ap_PENDING"
    "covers_action (sha256 (gs_services g)) pending action (incident_id current) report"
  using assms by (auto simp: decidable_approval_def sole_action_def split: if_splits option.splits list.splits)

text \<open>A decision that returns: its inputs were accepted, and it replayed or committed.\<close>

lemma gateway_decide_Inr:
  assumes "gateway_decide g iid approve hash n actor reason key w = (Inr i, w')"
    and "aid = decision_id g (py_strip key) (decision_fingerprint g approve hash n (py_strip actor) (py_strip reason))"
  obtains (replayed) now d where "gs_clock g (w_ticks w) = Aware now" "get iid (seen_at_read g w) = Some i"
      "List.find (\<lambda>d. approval_idempotency_key d = decision_key g (py_strip key)) (approvals i) = Some d"
      "approval_id d = aid" "w_repo w' = seen_at_read g w"
  | (committed) now current pending where "gs_clock g (w_ticks w) = Aware now"
      "get iid (seen_at_read g w) = Some current"
      "List.find (\<lambda>d. approval_idempotency_key d = decision_key g (py_strip key)) (approvals current) = None"
      "decidable_approval g current hash n = Inr pending"
      "commit_decision g iid current (terminal_decision pending aid (decided_status approve now pending)
           (py_strip actor) (py_strip reason) now (decision_key g (py_strip key))) (py_strip actor)
         \<lparr>w_repo = seen_at_read g w, w_ticks = w_ticks w + 2\<rparr> = (Inr i, w')"
  using assms(1) unfolding gateway_decide_def Let_def
  by (elim gov_elims)
     (auto simp: repository_get_Inr seen_at_read_def assms(2) split: option.splits elim!: gov_elims
       intro: replayed committed)

lemma successor_approvals:
  "approvals (successor_of c [U_approvals ds] target now) = ds"
  "action_runs (successor_of c [U_approvals ds] target now) = action_runs c"
  by (simp_all add: successor_of_def)

definition key_unused :: "gov_services \<Rightarrow> string \<Rightarrow> incident \<Rightarrow> bool" where
  "key_unused g key i \<longleftrightarrow> (\<forall>d\<in>set (approvals i). approval_idempotency_key d \<noteq> decision_key g (py_strip key))"

text \<open>
  C34: A decision that returns, under a key no earlier decision or write of the incident used, appends
  exactly one terminal decision to the approvals of the previewed incident: it was AWAITING_APPROVAL at the previewed revision, its latest approval is the
  pending one with the previewed action hash, and it moves to REMEDIATING exactly if the answer is yes and
  the trusted time lies before the expiry, to REJECTED otherwise, also when other coroutines write in between.
\<close>
theorem decision_is_exact:
  assumes "polite_others g" and "reachable (gs_services g) (w_repo w)"
    and "gateway_decide g iid approve hash n actor reason key w = (Inr i, w')"
    and "\<And>c. get iid (seen_at_read g w) = Some c \<Longrightarrow> key_unused g key c"
    and "write_unrecorded (seen_at_write g w) iid (decision_key g (py_strip key))"
  shows "\<exists>current pending now. get iid (seen_at_read g w) = Some current \<and> gs_clock g (w_ticks w) = Aware now \<and>
    status current = AWAITING_APPROVAL \<and> revision current = n \<and> latest_approval current = Some pending \<and>
    approval_status pending = Ap_PENDING \<and> approval_action_hash pending = Some hash \<and>
    get iid (w_repo w') = Some i \<and> revision i = n + 1 \<and>
    status i = (if approve \<and> (\<exists>x. expires_at pending = Some x \<and> now < x) then REMEDIATING else REJECTED) \<and>
    (\<exists>d. approvals i = approvals current @ [d] \<and> request_id d = request_id pending \<and> sequence d = 1 \<and>
      approval_action_hash d = Some hash \<and> decided_by d = Some (py_strip actor) \<and> decided_at d = Some now)"
proof -
  define aid where "aid = decision_id g (py_strip key) (decision_fingerprint g approve hash n (py_strip actor) (py_strip reason))"
  from assms(3) aid_def show ?thesis
  proof (cases rule: gateway_decide_Inr)
    case (replayed now d)
    with assms(4) [of i] show ?thesis by (auto simp: key_unused_def find_Some_iff)
  next
    case (committed now current pending)
    let ?d = "terminal_decision pending aid (decided_status approve now pending) (py_strip actor) (py_strip reason)
      now (decision_key g (py_strip key))"
    have r1: "reachable (gs_services g) (seen_at_read g w)"
      unfolding seen_at_read_def using reachable_run [OF assms(2) polite_run [OF assms(1)]] .
    from committed(5) have tr: "repository_transition g iid current
        (if approval_status ?d = Ap_APPROVED then REMEDIATING else REJECTED) (approval_idempotency_key ?d) (py_strip actor)
        (''Record explicit local simulation decision: '' @ approval_status_value (approval_status ?d))
        [U_approvals (approvals current @ [?d])] \<lparr>w_repo = seen_at_read g w, w_ticks = w_ticks w + 2\<rparr> = (Inr i, w')"
      unfolding commit_decision_def by (elim gov_elims) simp
    obtain now' where j: "i = successor_of current [U_approvals (approvals current @ [?d])]
        (if approval_status ?d = Ap_APPROVED then REMEDIATING else REJECTED) now'" "get iid (w_repo w') = Some i"
      by (rule governed_write [OF assms(1) r1 committed(2) _ tr])
         (use assms(5) in \<open>simp_all add: seen_at_write_def terminal_decision_def\<close>)
    from committed(4) have p: "status current = AWAITING_APPROVAL" "revision current = n"
      "latest_approval current = Some pending" "approval_status pending = Ap_PENDING"
      "approval_action_hash pending = Some hash"
      by (auto elim!: decidable_approval_Inr simp: covers_action_def)
    have "(approval_status ?d = Ap_APPROVED) = (approve \<and> (\<exists>x. expires_at pending = Some x \<and> now < x))"
      by (auto simp: terminal_decision_def decided_status_def Let_def split: option.splits)
    with committed(1,2) j p show ?thesis
      by (auto simp: successor_approvals terminal_decision_def)
  qed
qed

lemma find_append: "List.find P xs = Some d \<Longrightarrow> List.find P (xs @ ys) = Some d"
  by (induction xs) (auto split: if_splits)

lemma find_prefix: "prefix xs ys \<Longrightarrow> List.find P xs = Some d \<Longrightarrow> List.find P ys = Some d"
  by (auto simp: prefix_def find_append)

text \<open>
  A decision is made once: when the stored incident holds the decision of an idempotency key, every
  later call under that key with the same request returns the incident as it is then stored, a call with
  another request raises the idempotency conflict, and neither writes.
\<close>
theorem decision_is_made_once:
  assumes "polite_others g" and "reachable (gs_services g) (w_repo w)" and "get iid (w_repo w) = Some i"
    and "List.find (\<lambda>d. approval_idempotency_key d = decision_key g (py_strip key)) (approvals i) = Some d"
    and "contract_digest_ok hash" "0 \<le> n" "gs_clock g (w_ticks w) = Aware now"
    and "non_blank actor" "length (py_strip actor) \<le> 256" "non_blank reason" "length (py_strip reason) \<le> 4096"
    and "non_blank key" "length (py_strip key) \<le> 256"
  shows "\<exists>j. (incident_step (sha256 (gs_services g)))\<^sup>*\<^sup>* i j \<and> get iid (seen_at_read g w) = Some j \<and>
    gateway_decide g iid approve hash n actor reason key w =
      (if approval_id d = decision_id g (py_strip key)
         (decision_fingerprint g approve hash n (py_strip actor) (py_strip reason)) then Inr j
       else Inl (GovernanceIdempotencyConflictError ''approval decision key was retried with another request''),
       \<lparr>w_repo = seen_at_read g w, w_ticks = w_ticks w + 2\<rparr>)"
proof -
  obtain j where j: "get iid (seen_at_read g w) = Some j" "(incident_step (sha256 (gs_services g)))\<^sup>*\<^sup>* i j"
    unfolding seen_at_read_def by (rule stored_descends [OF assms(2,3) polite_run [OF assms(1)]])
  then have "prefix (approvals i) (approvals j)"
    using incident_versions.run_extends [OF j(2)] by (simp add: histories_extend_def)
  from find_prefix [OF this assms(4)] assms(5-) j show ?thesis
    by (intro exI [of _ j]) (simp add: gateway_decide_def gov_bind_def gov_guard_def require_action_hash_def
      require_text_def gov_return_def gov_raise_def trusted_now_def repository_get_def seen_at_read_def Let_def)
qed

text \<open>
  Whatever the governance is asked and however it ends, an error included, and whatever other
  coroutines do through the repository in between, the repository is left in a reachable state in which
  everything durable survives: every stored incident has only moved along the state machine, and no
  audit event, association or recorded result is lost.
\<close>
theorem governance_keeps_repository:
  assumes "polite_others g" and "reachable (gs_services g) (w_repo w)"
    and "m \<in> {prepare g iid key actor ttl, engine_decide g iid approve hash n actor reason key,
      execute g iid key actor passed}"
  shows "reachable (gs_services g) (w_repo (snd (m w))) \<and> durable (gs_services g) (w_repo w) (w_repo (snd (m w)))"
proof -
  have "world_later g w (snd (m w))"
    using assms(3) prepare_governed [OF assms(1), of iid key actor ttl]
      engine_decide_governed [OF assms(1), of iid approve hash n actor reason key]
      execute_governed [OF assms(1), of iid key actor passed]
    unfolding guarantees_def by blast
  then have "(repo_step (gs_services g))\<^sup>*\<^sup>* (w_repo w) (w_repo (snd (m w)))" by (simp add: world_later_def)
  with assms(2) show ?thesis
    using reachable_run incident_store.run_keeps reachable_repo_inv by blast
qed

section \<open>Executing\<close>

text \<open>
  C35: The gateway of actions produces a run only for the fixed local simulation, and only after it
  found, in the repository as it is during the call, the incident REMEDIATING at the approved revision
  with that action frozen in its latest report, and the latest decision of the referenced request approved,
  covering the action and in force at a clock reading taken after that; the run then succeeded for exactly
  that action hash, and nothing is written.
\<close>
theorem simulation_runs_only_when_approved:
  assumes "simulate_action g e action report n reference w = (Inr run, w')"
  shows "(\<exists>c d t. get (env_incident_id e) (w_repo w') = Some c \<and> status c = REMEDIATING \<and> revision c = n + 1 \<and>
      latest_governed_report c = Some report \<and> action \<in> set (recommendations c) \<and>
      gs_clock g (w_ticks w + 1) = Aware t \<and> latest_approval_decision c (ref_request_id reference) = Some d \<and>
      reference_binds reference d \<and> covers_action (sha256 (gs_services g)) d action (ref_incident_id reference) report \<and>
      effective_at d t) \<and>
    action_type action = ''LOCAL_SIMULATION'' \<and> reversible action \<and>
    parameters action = [(''scenario'', JStr ''local-governance-recovery''), (''version'', JStr ''1.0'')] \<and>
    run_status run = Run_SUCCEEDED \<and> run_action_id run = action_id action \<and>
    run_action_hash run = Some (compute_action_hash (sha256 (gs_services g)) action) \<and>
    w_repo w' = gs_others g (w_ticks w) (w_repo w)"
proof -
  from assms obtain d w1 t' where fixed: "fixed_simulation action" "reversible action"
    and res: "resolve_for_execution g e action report n reference w = (Inr d, w1)"
    and run: "run = simulated_run g e action t'" "w_repo w' = w_repo w1"
    unfolding simulate_action_def by (elim gov_elims) auto
  from res obtain c t where c: "get (env_incident_id e) (w_repo w1) = Some c" "status c = REMEDIATING"
      "revision c = n + 1" "latest_governed_report c = Some report" "action \<in> set (recommendations c)"
      "gs_clock g (w_ticks w + 1) = Aware t" "w_repo w1 = gs_others g (w_ticks w) (w_repo w)"
      "validate_approval_reference (sha256 (gs_services g)) reference (approvals c) action report (Aware t) = Inr d"
    unfolding resolve_for_execution_def
    by (elim gov_elims) (auto simp: repository_get_Inr split: sum.splits)
  from c(8) have "latest_approval_decision c (ref_request_id reference) = Some d" "reference_binds reference d"
    "covers_action (sha256 (gs_services g)) d action (ref_incident_id reference) report" "effective_at d t"
    by (simp_all add: validate_approval_reference_Inr Let_def latest_approval_decision_def)
  with c fixed run show ?thesis
    by (auto simp: fixed_simulation_def simulated_run_def LOCAL_SIMULATION_ACTION_TYPE_def LOCAL_SIMULATION_PARAMETERS_def)
qed

lemma execute_Inr:
  assumes "execute g iid key actor passed w = (Inr r, w')"
  obtains current report action where "get (py_strip iid) (gs_others g (w_ticks w) (w_repo w)) = Some current"
    "latest_governed_report current = Some report" "report_recommendations report = [action]"
    "run_execution g current (execution_of g iid (py_strip key) (py_strip actor) passed current report action)
       \<lparr>w_repo = gs_others g (w_ticks w) (w_repo w), w_ticks = w_ticks w + 1\<rparr> = (Inr r, w')"
  using assms unfolding execute_def engine_get_def
  by (elim gov_elims) (auto simp: repository_get_Inr sole_action_def split: option.splits list.splits)

text \<open>The state of the repository at the read of \<open>execute\<close>, and at its first write when it resumes or fails.\<close>

definition execute_reads :: "gov_services \<Rightarrow> world \<Rightarrow> repository" where
  "execute_reads g w = gs_others g (w_ticks w) (w_repo w)"

lemma execution_of_simps [simp]:
  "x_root (execution_of g iid key actor passed c report action) = key"
  "x_passed (execution_of g iid key actor passed c report action) = passed"
  "x_approval (execution_of g iid key actor passed c report action) = latest_approval c"
  "x_sole_action (execution_of g iid key actor passed c report action) = action"
  "x_sole_report (execution_of g iid key actor passed c report action) = report"
  "x_actor (execution_of g iid key actor passed c report action) = actor"
  by (simp_all add: execution_of_def)

lemma successor_others:
  "approvals (successor_of c [U_model_metadata m] target now) = approvals c"
  "action_runs (successor_of c [U_model_metadata m] target now) = action_runs c"
  "verification_runs (successor_of c [U_model_metadata m] target now) = verification_runs c"
  "model_metadata (successor_of c [U_model_metadata m] target now) = m"
  "action_runs (successor_of c [U_verification_runs vs] target now) = action_runs c"
  "verification_runs (successor_of c [U_verification_runs vs] target now) = vs"
  by (simp_all add: successor_of_def)

lemma map_of_filter: "map_of xs k = (case filter (\<lambda>p. fst p = k) xs of [] \<Rightarrow> None | p # _ \<Rightarrow> Some (snd p))"
  by (induction xs) auto

lemma dict_set_lookup: "map_of (dict_set key v d) k = (if k = key then Some v else map_of d k)"
proof -
  have "map_of (dict_set key v d) k = map_of (AList.update key v d) k"
    unfolding dict_set_def map_of_filter by (simp only: sort_key_stable)
  then show ?thesis by (simp add: update_conv')
qed

lemma fail_expired_Inr:
  assumes "fail_expired_execution g x c w = (Inr r, w')"
  obtains i where "r = result_of i False"
    "repository_transition g (incident_id c) c FAILED
       (step_key g (x_root x) ''approval-no-longer-effective'' [JStr (x_fingerprint g x)]) (x_actor x)
       EXECUTION_APPROVAL_EXPIRED_REASON
       [U_model_metadata (dict_set EXECUTION_FAILURE_MARKER_KEY
         (JObj (execution_failure_binding (x_root_fingerprint g x) (x_fingerprint g x))) (model_metadata c))] w = (Inr i, w')"
  using assms unfolding fail_expired_execution_def Let_def by (elim gov_elims) auto

text \<open>
  C36: An execution that starts after its approval stopped being in force runs nothing: if the incident it
  reads is REMEDIATING and the first clock reading is not within the approval's validity, a call that returns
  and is not a replay, under a key no earlier write of the incident used, has moved that very incident to FAILED with the binding of
  this request in its metadata, no action run and no verification added.
\<close>
theorem expired_execution_fails_closed:
  assumes "polite_others g" and "reachable (gs_services g) (w_repo w)"
    and "get (py_strip iid) (execute_reads g w) = Some c" and "status c = REMEDIATING"
    and "latest_approval c = Some d" and "gs_clock g (w_ticks w + 1) = Aware t" and "\<not> effective_at d t"
    and "execute g iid key actor passed w = (Inr r, w')" and "\<not> gr_replayed r"
    and "\<And>fp. write_unrecorded (gs_others g (w_ticks w + 2) (execute_reads g w)) (py_strip iid)
      (step_key g (py_strip key) ''approval-no-longer-effective'' [JStr fp])"
  shows "get (py_strip iid) (w_repo w') = Some (gr_incident r) \<and> status (gr_incident r) = FAILED \<and>
    revision (gr_incident r) = revision c + 1 \<and> action_runs (gr_incident r) = action_runs c \<and>
    verification_runs (gr_incident r) = verification_runs c \<and> approvals (gr_incident r) = approvals c \<and>
    (\<exists>fp. map_of (model_metadata (gr_incident r)) ''local_governance_execution_failure'' =
      Some (JObj (execution_failure_binding (gov_digest g [JStr (py_strip key)]) fp)))"
proof -
  let ?w1 = "\<lparr>w_repo = execute_reads g w, w_ticks = w_ticks w + 1\<rparr>"
  from assms(8,3) obtain report action where run: "run_execution g c
      (execution_of g iid (py_strip key) (py_strip actor) passed c report action) ?w1 = (Inr r, w')"
    unfolding execute_reads_def by (auto elim: execute_Inr)
  from run assms(4,9) obtain out w2 where out: "remediate g
      (execution_of g iid (py_strip key) (py_strip actor) passed c report action) c ?w1 = (Inr out, w2)"
    "finish_execution g (execution_of g iid (py_strip key) (py_strip actor) passed c report action) out w2 = (Inr r, w')"
    unfolding run_execution_def by (auto simp: result_of_def split: option.splits elim!: gov_elims)
  from out(1) assms(5-7) obtain r0 where "fail_expired_execution g
      (execution_of g iid (py_strip key) (py_strip actor) passed c report action) c
      \<lparr>w_repo = execute_reads g w, w_ticks = w_ticks w + 2\<rparr> = (Inr r0, w2)" "out = Inl r0"
    unfolding remediate_def by (auto elim!: gov_elims)
  with out(2) have fail: "fail_expired_execution g
      (execution_of g iid (py_strip key) (py_strip actor) passed c report action) c
      \<lparr>w_repo = execute_reads g w, w_ticks = w_ticks w + 2\<rparr> = (Inr r, w')"
    by (simp add: finish_execution_def)
  have r1: "reachable (gs_services g) (execute_reads g w)"
    unfolding execute_reads_def using reachable_run [OF assms(2) polite_run [OF assms(1)]] .
  have id: "incident_id c = py_strip iid" by (rule reachable_id [OF r1 assms(3)])
  let ?x = "execution_of g iid (py_strip key) (py_strip actor) passed c report action"
  let ?m = "dict_set EXECUTION_FAILURE_MARKER_KEY
    (JObj (execution_failure_binding (x_root_fingerprint g ?x) (x_fingerprint g ?x))) (model_metadata c)"
  from fail obtain i where i: "r = result_of i False"
    and tr: "repository_transition g (py_strip iid) c FAILED
       (step_key g (py_strip key) ''approval-no-longer-effective'' [JStr (x_fingerprint g ?x)])
       (py_strip actor) EXECUTION_APPROVAL_EXPIRED_REASON [U_model_metadata ?m]
       \<lparr>w_repo = execute_reads g w, w_ticks = w_ticks w + 2\<rparr> = (Inr i, w')"
    by (auto elim!: fail_expired_Inr simp: id)
  obtain now where "i = successor_of c [U_model_metadata ?m] FAILED now" "get (py_strip iid) (w_repo w') = Some i"
    by (rule governed_write [OF assms(1) r1 assms(3) _ tr])
       (use assms(10) i in \<open>simp_all add: result_of_def\<close>)
  with i show ?thesis
    by (auto simp: result_of_def successor_others dict_set_lookup EXECUTION_FAILURE_MARKER_KEY_def
        x_root_fingerprint_def)
qed

text \<open>
  An incident under the control of one governance request is closed to every other: once it has left
  DETECTED, a \<open>prepare\<close> whose marker differs from the persisted one (another root key, or the same key with
  another actor or validity, or no marker at all) raises the error the difference deserves and writes nothing.
\<close>
theorem foreign_prepare_is_refused:
  assumes "get (py_strip iid) (gs_others g (w_ticks w) (w_repo w)) = Some c" and "status c \<noteq> DETECTED"
    and "marker_error c (governance_marker g (py_strip key) ttl (py_strip actor)) = Some e"
    and "non_blank iid" "length (py_strip iid) \<le> 256" "non_blank key" "length (py_strip key) \<le> 256"
    and "non_blank actor" "length (py_strip actor) \<le> 256" "0 < ttl" "ttl \<le> 24 * 3600 * 1000000"
  shows "prepare g iid key actor ttl w =
    (Inl e, \<lparr>w_repo = gs_others g (w_ticks w) (w_repo w), w_ticks = w_ticks w + 1\<rparr>)"
  using assms
  by (simp add: prepare_def gov_bind_def gov_guard_def require_text_def gov_return_def gov_raise_def MAX_APPROVAL_TTL_def
      engine_get_def repository_get_def prepare_triage_def require_marker_def pr_marker_def Let_def)

lemma requested_outcome_pending [simp]:
  "requested_outcome (pending_verification g x c run) = Some (if x_passed x then Ver_PASSED else Ver_FAILED)"
  by (simp add: requested_outcome_def pending_verification_def)

lemma pending_verification_simps [simp]:
  "verification_id (pending_verification g x c run) = x_verification_id x"
  "ver_action_run_ids (pending_verification g x c run) = [action_run_id run]"
  "map_of (ver_metadata (pending_verification g x c run)) ''request_fingerprint'' = Some (JStr (x_fingerprint g x))"
  by (simp_all add: pending_verification_def)

lemma completed_verification_simps [simp]:
  "verification_id (completed_verification v st evidence now) = verification_id v"
  "ver_action_run_ids (completed_verification v st evidence now) = ver_action_run_ids v"
  "ver_status (completed_verification v st evidence now) = st"
  "map_of (ver_metadata (completed_verification v st evidence now)) ''request_fingerprint'' =
     map_of (ver_metadata v) ''request_fingerprint''"
  by (simp_all add: completed_verification_def dict_set_lookup)

lemma locally_verified_Inr:
  assumes "locally_verified g e (pending_verification g x c run) w = (Inr v, w')"
  shows "w' = w\<lparr>w_ticks := w_ticks w + 1\<rparr>" "ver_status v = (if x_passed x then Ver_PASSED else Ver_FAILED)"
    "ver_action_run_ids v = [action_run_id run]" "verification_id v = x_verification_id x"
    "map_of (ver_metadata v) ''request_fingerprint'' = Some (JStr (x_fingerprint g x))"
proof -
  have "\<exists>evidence now. v = completed_verification (pending_verification g x c run)
      (if x_passed x then Ver_PASSED else Ver_FAILED) evidence now \<and> w' = w\<lparr>w_ticks := w_ticks w + 1\<rparr>"
    using assms unfolding locally_verified_def verify_locally_def
    by (auto simp: verified_run_def elim!: gov_elims) (rule exI, rule exI, rule refl)+
  then show "w' = w\<lparr>w_ticks := w_ticks w + 1\<rparr>" "ver_status v = (if x_passed x then Ver_PASSED else Ver_FAILED)"
    "ver_action_run_ids v = [action_run_id run]" "verification_id v = x_verification_id x"
    "map_of (ver_metadata v) ''request_fingerprint'' = Some (JStr (x_fingerprint g x))" by auto
qed

lemma verification_envelope_key:
  "env_idempotency_key (verification_envelope g x c t) = step_key g (x_root x) ''verify'' [JStr (x_fingerprint g x)]"
  by (simp add: verification_envelope_def)

lemma record_verification_Inr:
  assumes "record_verification g x c run w = (Inr r, w')"
  obtains i v reason where "r = result_of i False"
    "ver_status v = (if x_passed x then Ver_PASSED else Ver_FAILED)" "ver_action_run_ids v = [action_run_id run]"
    "verification_id v = x_verification_id x"
    "map_of (ver_metadata v) ''request_fingerprint'' = Some (JStr (x_fingerprint g x))"
    "repository_transition g (incident_id c) c (if x_passed x then RESOLVED else REOPENED)
       (step_key g (x_root x) ''verify'' [JStr (x_fingerprint g x)]) (x_actor x) reason
       [U_verification_runs (verification_runs c @ [v])] (w\<lparr>w_ticks := w_ticks w + 2\<rparr>) = (Inr i, w')"
proof -
  have "\<exists>i v e reason w2. r = result_of i False \<and>
      locally_verified g e (pending_verification g x c run) (w\<lparr>w_ticks := w_ticks w + 1\<rparr>) = (Inr v, w2) \<and>
      repository_transition g (incident_id c) c (if ver_status v = Ver_PASSED then RESOLVED else REOPENED)
        (step_key g (x_root x) ''verify'' [JStr (x_fingerprint g x)]) (x_actor x) reason [U_verification_runs (verification_runs c @ [v])] w2 = (Inr i, w')"
    using assms unfolding record_verification_def Let_def
    by (elim gov_elims, simp only: gov_returns trusted_now_Inr verification_envelope_key) blast
  then obtain i v e reason w2 where s: "r = result_of i False"
      "locally_verified g e (pending_verification g x c run) (w\<lparr>w_ticks := w_ticks w + 1\<rparr>) = (Inr v, w2)"
      "repository_transition g (incident_id c) c (if ver_status v = Ver_PASSED then RESOLVED else REOPENED)
        (step_key g (x_root x) ''verify'' [JStr (x_fingerprint g x)]) (x_actor x) reason [U_verification_runs (verification_runs c @ [v])] w2 = (Inr i, w')"
    by blast
  note v = locally_verified_Inr [OF s(2)]
  from s(3) v(1,2) have "repository_transition g (incident_id c) c (if x_passed x then RESOLVED else REOPENED)
      (step_key g (x_root x) ''verify'' [JStr (x_fingerprint g x)]) (x_actor x) reason [U_verification_runs (verification_runs c @ [v])] (w\<lparr>w_ticks := w_ticks w + 2\<rparr>) = (Inr i, w')"
    by (simp split: if_splits)
  from that [OF s(1) v(2-5) this] show ?thesis .
qed

lemma find_in: "List.find P xs = Some x \<Longrightarrow> x \<in> set xs"
  by (auto simp: find_Some_iff)

text \<open>
  The last step of an execution decides as its verification did: for an incident read as VERIFYING, a
  call that returns and is no retry, under a key no earlier write of the incident used, found the succeeded run of its own request for the proposed action,
  appended exactly one verification of that run, under the identifier and fingerprint a retry looks for, and
  moved that very incident to RESOLVED if the check passed and to REOPENED if it failed.
\<close>
theorem resumed_execution_settles:
  assumes "polite_others g" and "reachable (gs_services g) (w_repo w)"
    and "get (py_strip iid) (execute_reads g w) = Some c" and "status c = VERIFYING"
    and "execute g iid key actor passed w = (Inr r, w')" and "\<not> gr_replayed r"
    and "\<And>fp. write_unrecorded (gs_others g (w_ticks w + 3) (execute_reads g w)) (py_strip iid)
      (step_key g (py_strip key) ''verify'' [JStr fp])"
  shows "\<exists>action run v. latest_governed_report c \<noteq> None \<and> sole_action (latest_governed_report c) = Some action \<and>
    run \<in> set (action_runs c) \<and> run_status run = Run_SUCCEEDED \<and>
    run_action_hash run = Some (compute_action_hash (sha256 (gs_services g)) action) \<and>
    ver_action_run_ids v = [action_run_id run] \<and> ver_status v = (if passed then Ver_PASSED else Ver_FAILED) \<and>
    get (py_strip iid) (w_repo w') = Some (gr_incident r) \<and>
    verification_runs (gr_incident r) = verification_runs c @ [v] \<and>
    action_runs (gr_incident r) = action_runs c \<and> revision (gr_incident r) = revision c + 1 \<and>
    status (gr_incident r) = (if passed then RESOLVED else REOPENED)"
proof -
  let ?w1 = "\<lparr>w_repo = execute_reads g w, w_ticks = w_ticks w + 1\<rparr>"
  from assms(5,3) obtain report action where a: "latest_governed_report c = Some report" "report_recommendations report = [action]"
    and run: "run_execution g c (execution_of g iid (py_strip key) (py_strip actor) passed c report action) ?w1 = (Inr r, w')"
    unfolding execute_reads_def by (auto elim: execute_Inr)
  let ?x = "execution_of g iid (py_strip key) (py_strip actor) passed c report action"
  from run assms(4,6) have "finish_execution g ?x (Inr c) ?w1 = (Inr r, w')"
    unfolding run_execution_def by (auto simp: result_of_def split: option.splits elim!: gov_elims)
  then obtain ar where ar: "ar \<in> set (action_runs c)" "run_status ar = Run_SUCCEEDED"
      "run_action_hash ar = Some (x_action_hash g ?x)" "record_verification g ?x c ar ?w1 = (Inr r, w')"
    unfolding finish_execution_def
    by (auto split: option.splits elim!: gov_elims dest: find_in)
  have r1: "reachable (gs_services g) (execute_reads g w)"
    unfolding execute_reads_def using reachable_run [OF assms(2) polite_run [OF assms(1)]] .
  have id: "incident_id c = py_strip iid" by (rule reachable_id [OF r1 assms(3)])
  from ar(4) obtain i v reason where v: "r = result_of i False"
    "ver_status v = (if passed then Ver_PASSED else Ver_FAILED)" "ver_action_run_ids v = [action_run_id ar]"
    and tr: "repository_transition g (py_strip iid) c (if passed then RESOLVED else REOPENED)
       (step_key g (py_strip key) ''verify'' [JStr (x_fingerprint g ?x)]) (py_strip actor) reason
       [U_verification_runs (verification_runs c @ [v])] \<lparr>w_repo = execute_reads g w, w_ticks = w_ticks w + 3\<rparr> = (Inr i, w')"
    by (rule record_verification_Inr) (simp add: id eval_nat_numeral)
  obtain now where "i = successor_of c [U_verification_runs (verification_runs c @ [v])]
      (if passed then RESOLVED else REOPENED) now" "get (py_strip iid) (w_repo w') = Some i"
    by (rule governed_write [OF assms(1) r1 assms(3) _ tr])
       (use assms(7) v(1) in \<open>simp_all add: result_of_def\<close>)
  with v a ar show ?thesis
    by (auto simp: result_of_def successor_others sole_action_def x_action_hash_def)
qed

end
