(* ===== verification/Governance_Examples.thy ===== *)
theory Governance_Examples
  imports Governance_Properties Payloads
begin

text \<open>
  A concrete world for the governance: the write metadata it uses, which the repository's checks
  accept, the incident of the fixtures driven through the repository to each status the governance
  starts from, and a service record whose clocks are given per tick and whose other coroutines rest.
\<close>

section \<open>Write metadata the repository accepts\<close>

definition plain_text :: "string \<Rightarrow> bool" where
  "plain_text s \<longleftrightarrow> no_label s \<and> list_all one_byte s \<and> non_blank s"

lemma metadata_ok:
  assumes "plain_text key" "plain_text actor" "plain_text reason" "plain_text trace"
    and "length key \<le> 256" "length actor \<le> 256" "length reason \<le> 1024" "length trace \<le> 256"
  shows "require_write_metadata \<lparr>meta_key = key, meta_actor = actor, meta_reason = reason, meta_trace = trace\<rparr> = None"
proof -
  let ?v = "JObj [(''idempotency_key'', JStr key), (''actor'', JStr actor), (''reason'', JStr reason),
    (''trace_id'', JStr trace)]"
  have keys: "plain_key ''idempotency_key''" "plain_key ''actor''" "plain_key ''reason''" "plain_key ''trace_id''"
    by (simp_all add: plain_key_eval)
  have "identifier_free ?v"
    using assms(1-4) keys by (intro identifier_free_obj) (simp_all add: plain_text_def no_label_clean)
  moreover have "json_bytes ?v \<le> 256000"
    using assms(1-8) by (simp add: plain_text_def utf8_length_quote one_byte_def)
  then have "utf8_length (json_text ?v) \<le> 256000"
    using json_bytes_bound [of ?v] by (rule order_trans [rotated])
  ultimately have "unsafe_error ?v ''<audit-metadata>'' = None"
    unfolding unsafe_error_None find_paths_iff
    by (simp add: MAX_CONTRACT_DEPTH_def MAX_CONTRACT_SERIALIZED_BYTES_def del: json_text.simps identifier_free.simps)
  with assms show ?thesis
    by (simp add: require_write_metadata_def require_non_empty_def fail_if_def plain_text_def)
qed

lemmas plain_text_eval = plain_text_def no_label_eval one_byte_def non_blank_iff py_isspace_def

lemma governance_keys_plain:
  "plain_text ''local-governance-approval-decision-aaaaaaaaaaaaaaaaaaaaaaaaaaaaaaaa''"
  "plain_text ''local-governance-approval-no-longer-effective-aaaaaaaaaaaaaaaaaaaaaaaaaaaaaaaa''"
  "plain_text ''local-governance-verify-aaaaaaaaaaaaaaaaaaaaaaaaaaaaaaaa''"
  "plain_text ''operator''" "plain_text ''trace1''"
  by (simp_all add: plain_text_eval)

lemma governance_reasons_unlabelled:
  "no_label ''Record explicit local simulation decision: APPROVED''"
  "no_label ''Record local simulated verification: PASSED''"
  "no_label EXECUTION_APPROVAL_EXPIRED_REASON"
  by code_simp+

lemma governance_reasons_plain:
  "plain_text ''Record explicit local simulation decision: APPROVED''"
  "plain_text ''Record local simulated verification: PASSED''"
  "plain_text EXECUTION_APPROVAL_EXPIRED_REASON"
  by (simp_all add: plain_text_def governance_reasons_unlabelled)
    (simp_all add: one_byte_def non_blank_iff py_isspace_def EXECUTION_APPROVAL_EXPIRED_REASON_def)

lemma length_dropWhile_le: "length (dropWhile P xs) \<le> length xs"
  by (induction xs) auto

lemma governance_meta_fits:
  assumes "plain_text key" "plain_text actor" "plain_text reason"
    and "length key \<le> 256" "length actor \<le> 256" "length reason \<le> 1024"
  shows "meta_fits \<lparr>meta_key = key, meta_actor = actor, meta_reason = reason, meta_trace = ''trace1''\<rparr>"
proof -
  have ne: "1 \<le> length (py_strip s)" if "plain_text s" for s
    using that by (cases "py_strip s") (auto simp: plain_text_def non_blank_def)
  have "require_write_metadata \<lparr>meta_key = key, meta_actor = actor, meta_reason = reason, meta_trace = ''trace1''\<rparr> = None"
    using assms governance_keys_plain(5) by (intro metadata_ok) simp_all
  then show ?thesis
    using assms ne [OF assms(1)] ne [OF assms(2)] ne [OF assms(3)]
      length_py_strip [of key] length_py_strip [of actor] length_py_strip [of reason]
    by (simp add: meta_fits_def identifier_ok_def non_empty_str_ok_def)
qed

section \<open>Services and clocks\<close>

definition ex_gov :: "(nat \<Rightarrow> instant) \<Rightarrow> gov_services" where
  "ex_gov tm = \<lparr>gs_services = ex_services, gs_clock = (\<lambda>k. Aware (tm k)),
     gs_repository_clock = (\<lambda>k. Aware (tm k)), gs_dump_base_report = (\<lambda>_. JNull), gs_dump_action = (\<lambda>_. JNull),
     gs_analyze = (\<lambda>_. None), gs_others = (\<lambda>_ r. r), gs_request_summary = [], gs_result_summary = []\<rparr>"

lemma ex_gov_simps [simp]:
  "gs_services (ex_gov tm) = ex_services" "gs_clock (ex_gov tm) k = Aware (tm k)"
  "gs_repository_clock (ex_gov tm) k = Aware (tm k)" "gs_others (ex_gov tm) k r = r"
  by (simp_all add: ex_gov_def)

lemma ex_gov_polite: "polite_others (ex_gov tm)"
  by (simp add: polite_others_def)

definition id_suffix :: string where "id_suffix = ''aaaaaaaaaaaaaaaaaaaaaaaaaaaaaaaa''"

lemma id_suffix_replicate: "replicate 32 (CHR ''a'') = id_suffix"
  by (simp add: id_suffix_def eval_nat_numeral)

lemma ex_gov_ids [simp]:
  "gov_digest (ex_gov tm) parts = digest []"
  "stable_id (ex_gov tm) label parts = label @ ''-'' @ id_suffix"
  "step_key (ex_gov tm) key step parts = ''local-governance-'' @ step @ ''-'' @ id_suffix"
  by (simp_all add: gov_digest_def stable_id_def step_key_def digest_def id_suffix_replicate)

lemma ex_gov_write:
  assumes "ex_at c used r" and "ex_step target (tm k) changes c = Inr j"
    and "meta_fits \<lparr>meta_key = key, meta_actor = actor, meta_reason = reason, meta_trace = ''trace1''\<rparr>"
    and "key \<notin> used" and "incident_id c = ''inc-1''" "trace_id c = ''trace1''" "0 \<le> revision c"
    and "source_event_ids j = [''se-1'']" and "status c \<notin> set SETTLED_STATUSES"
  shows "\<exists>r'. repository_transition (ex_gov tm) ''inc-1'' c target key actor reason changes
    \<lparr>w_repo = r, w_ticks = k\<rparr> = (Inr j, \<lparr>w_repo = r', w_ticks = k + 1\<rparr>) \<and> ex_at j (insert key used) r'"
proof -
  from ex_write [OF assms(1,2,3)] assms(4-) obtain r' where
    "transition ex_services (Aware (tm k)) False ''inc-1'' (incident_status_value target) (revision c) changes
      \<lparr>meta_key = key, meta_actor = actor, meta_reason = reason, meta_trace = ''trace1''\<rparr> r = (Inr j, r')"
    "ex_at j (insert key used) r'" by auto
  then show ?thesis using assms(6) by (simp add: repository_transition_Inr transition_metadata_def)
qed

lemma ex_at_get: "ex_at c used r \<Longrightarrow> get ''inc-1'' r = Some c"
  by (simp add: ex_at_def get_def)

lemma ex_at_unrecorded: "ex_at c used r \<Longrightarrow> key \<notin> used \<Longrightarrow> write_unrecorded r ''inc-1'' key"
  by (simp add: ex_at_def write_unrecorded_def)

section \<open>A decision\<close>

definition gov_approved :: approval_decision where
  "gov_approved = terminal_decision ex_pending (''local-approval-decision-'' @ id_suffix) Ap_APPROVED ''operator''
     ''ok'' 120 (''local-governance-approval-decision-'' @ id_suffix)"

definition gov_remediating :: incident where
  "gov_remediating = ex_awaiting\<lparr>status := REMEDIATING, revision := 5, updated_at := 120,
     approvals := [ex_pending, gov_approved]\<rparr>"

lemma gov_approved_ok: "validate_approval gov_approved = None"
  by (simp add: gov_approved_def terminal_decision_def ex_pending_def validate_approval_def approval_fields_ok_def
      ex_cell_ok ex_field_defs id_suffix_def)

lemma gov_remediating_valid: "incident_valid digest gov_remediating"
  by (simp add: gov_remediating_def ex_incident_defs ex_validate_defs ex_parts_ok gov_approved_ok)
     (simp add: gov_approved_def terminal_decision_def id_suffix_def ex_data_defs)

lemma gov_remediating_guard: "validate_transition_guard digest ex_awaiting gov_remediating REMEDIATING 120 = None"
  by (simp add: gov_remediating_def ex_incident_defs ex_guard_defs covers_action_def Let_def)
     (simp add: gov_approved_def terminal_decision_def ex_data_defs)

lemma gov_step_remediating:
  "ex_step REMEDIATING 120 [U_approvals [ex_pending, gov_approved]] ex_awaiting = Inr gov_remediating"
  by (rule ex_stepI [OF _ _ _ _ _ gov_remediating_valid gov_remediating_guard])
     (simp_all add: gov_remediating_def ex_incident_defs ex_request_defs ex_guard_defs)

lemma digest_hex [simp]: "contract_digest_ok (digest s)"
  by (simp add: contract_digest_ok_def digest_def list_all_iff)

lemma ex_awaiting_views [simp]:
  "latest_governed_report ex_awaiting = Some ex_report" "latest_approval ex_awaiting = Some ex_pending"
  "status ex_awaiting = AWAITING_APPROVAL" "revision ex_awaiting = 4" "incident_id ex_awaiting = ''inc-1''"
  "approvals ex_awaiting = [ex_pending]" "report_recommendations ex_report = [ex_action]"
  by (simp_all add: latest_governed_report_def latest_approval_def ex_incident_defs) (simp add: ex_report_def)

lemma ex_pending_covers: "covers_action digest ex_pending ex_action ''inc-1'' ex_report"
  by (simp add: covers_action_def) (simp add: ex_data_defs)

lemma ex_awaiting_decidable:
  "decidable_approval (ex_gov tm) ex_awaiting (digest []) 4 = Inr ex_pending"
  by (simp add: decidable_approval_def sole_action_def ex_pending_covers) (simp add: ex_pending_def)

lemma gov_remediating_status [simp]: "status gov_remediating = REMEDIATING"
  by (simp add: gov_remediating_def)

lemma ex_strip_ids: "py_strip ''k'' = ''k''" "py_strip ''operator'' = ''operator''" "py_strip ''ok'' = ''ok''"
  "non_blank ''k''" "non_blank ''operator''" "non_blank ''ok''"
  by (simp_all add: py_strip_def py_isspace_def non_blank_iff)

lemma ex_decided:
  assumes "ex_at ex_awaiting used r" and "''local-governance-approval-decision-'' @ id_suffix \<notin> used"
  shows "\<exists>w'. gateway_decide (ex_gov (\<lambda>_. 120)) ''inc-1'' True (digest []) 4 ''operator'' ''ok'' ''k''
      \<lparr>w_repo = r, w_ticks = 0\<rparr> = (Inr gov_remediating, w') \<and>
    ex_at gov_remediating (insert (''local-governance-approval-decision-'' @ id_suffix) used) (w_repo w')"
proof -
  let ?g = "ex_gov (\<lambda>_. 120)" and ?key = "''local-governance-approval-decision-'' @ id_suffix"
  have fits: "meta_fits \<lparr>meta_key = ?key, meta_actor = ''operator'',
      meta_reason = ''Record explicit local simulation decision: APPROVED'', meta_trace = ''trace1''\<rparr>"
    using governance_keys_plain(1,4) governance_reasons_plain(1)
    by (intro governance_meta_fits) (simp_all add: id_suffix_def)
  have step: "ex_step REMEDIATING ((\<lambda>_::nat. 120) 2) [U_approvals [ex_pending, gov_approved]] ex_awaiting = Inr gov_remediating"
    by (rule gov_step_remediating)
  have side: "trace_id ex_awaiting = ''trace1''" "source_event_ids gov_remediating = [''se-1'']"
    by (simp_all add: gov_remediating_def ex_incident_defs)
  have "\<exists>r'. repository_transition ?g ''inc-1'' ex_awaiting REMEDIATING ?key ''operator''
      ''Record explicit local simulation decision: APPROVED'' [U_approvals [ex_pending, gov_approved]]
      \<lparr>w_repo = r, w_ticks = 2\<rparr> = (Inr gov_remediating, \<lparr>w_repo = r', w_ticks = 2 + 1\<rparr>) \<and>
      ex_at gov_remediating (insert ?key used) r'"
    using ex_gov_write [where k = 2, OF assms(1) step fits assms(2)] side by (simp add: ex_settled)
  then obtain r' where r': "repository_transition ?g ''inc-1'' ex_awaiting REMEDIATING ?key ''operator''
      ''Record explicit local simulation decision: APPROVED'' [U_approvals [ex_pending, gov_approved]]
      \<lparr>w_repo = r, w_ticks = 2\<rparr> = (Inr gov_remediating, \<lparr>w_repo = r', w_ticks = 3\<rparr>)"
      "ex_at gov_remediating (insert ?key used) r'" by auto
  have st: "decided_status True 120 ex_pending = Ap_APPROVED" by (simp add: decided_status_def ex_pending_def)
  have kp: "approval_idempotency_key ex_pending \<noteq> ?key" by (simp add: ex_pending_def)
  have d: "approval_status gov_approved = Ap_APPROVED" "approval_idempotency_key gov_approved = ?key"
    by (simp_all add: gov_approved_def terminal_decision_def)
  have c: "commit_decision ?g ''inc-1'' ex_awaiting gov_approved ''operator'' \<lparr>w_repo = r, w_ticks = 2\<rparr> =
      (Inr gov_remediating, \<lparr>w_repo = r', w_ticks = 3\<rparr>)"
    using r'(1) by (simp add: commit_decision_def gov_bind_def gov_construct_def gov_approved_ok gov_return_def d)
  have "gateway_decide ?g ''inc-1'' True (digest []) 4 ''operator'' ''ok'' ''k'' \<lparr>w_repo = r, w_ticks = 0\<rparr> =
      (Inr gov_remediating, \<lparr>w_repo = r', w_ticks = 3\<rparr>)"
    using c [unfolded gov_approved_def] ex_at_get [OF assms(1)] kp
    by (simp add: gateway_decide_def gov_bind_def gov_guard_def gov_return_def require_action_hash_def require_text_def
        trusted_now_def repository_get_def Let_def ex_strip_ids decision_key_def decision_id_def
        ex_awaiting_decidable gov_lift_def st numeral_2_eq_2)
  with r'(2) show ?thesis by auto
qed

theorem decision_is_exact_witness:
  "\<exists>w::world. get ''inc-1'' (w_repo w) = Some gov_remediating \<and> status gov_remediating = REMEDIATING"
proof -
  obtain r where r: "reachable ex_services r" "ex_at ex_awaiting {''k4'', ''k3'', ''k2'', ''k1''} r"
    using ex_run_states(4) by blast
  let ?g = "ex_gov (\<lambda>_. 120)" and ?w = "\<lparr>w_repo = r, w_ticks = 0\<rparr>"
  from ex_decided [OF r(2)] obtain w' where w': "gateway_decide ?g ''inc-1'' True (digest []) 4 ''operator'' ''ok'' ''k''
      ?w = (Inr gov_remediating, w')" by (auto simp: id_suffix_def)
  have "\<exists>current pending now. get ''inc-1'' (seen_at_read ?g ?w) = Some current \<and> gs_clock ?g (w_ticks ?w) = Aware now \<and>
    status current = AWAITING_APPROVAL \<and> revision current = 4 \<and> latest_approval current = Some pending \<and>
    approval_status pending = Ap_PENDING \<and> approval_action_hash pending = Some (digest []) \<and>
    get ''inc-1'' (w_repo w') = Some gov_remediating \<and> revision gov_remediating = 4 + 1 \<and>
    status gov_remediating = (if True \<and> (\<exists>x. expires_at pending = Some x \<and> now < x) then REMEDIATING else REJECTED) \<and>
    (\<exists>d. approvals gov_remediating = approvals current @ [d] \<and> request_id d = request_id pending \<and> sequence d = 1 \<and>
      approval_action_hash d = Some (digest []) \<and> decided_by d = Some (py_strip ''operator'') \<and> decided_at d = Some now)"
  proof (rule decision_is_exact [OF ex_gov_polite _ w'])
    show "reachable (gs_services ?g) (w_repo ?w)" using r(1) by simp
    show "key_unused ?g ''k'' c" if "get ''inc-1'' (seen_at_read ?g ?w) = Some c" for c
      using that ex_at_get [OF r(2)]
      by (auto simp: seen_at_read_def key_unused_def decision_key_def ex_strip_ids ex_pending_def)
    show "write_unrecorded (seen_at_write ?g ?w) ''inc-1'' (decision_key ?g (py_strip ''k''))"
      using ex_at_unrecorded [OF r(2)] by (simp add: seen_at_write_def seen_at_read_def decision_key_def)
  qed
  then have "get ''inc-1'' (w_repo w') = Some gov_remediating" by blast
  then show ?thesis using gov_remediating_status by blast
qed

theorem decision_is_made_once_witness:
  "\<exists>(w::world) j. gateway_decide (ex_gov (\<lambda>_. 200)) ''inc-1'' True (digest []) 4 ''operator'' ''ok'' ''k'' w =
     (Inr j, \<lparr>w_repo = w_repo w, w_ticks = w_ticks w + 2\<rparr>) \<and> get ''inc-1'' (w_repo w) = Some j"
proof -
  obtain r where r: "reachable ex_services r" "ex_at ex_awaiting {''k4'', ''k3'', ''k2'', ''k1''} r"
    using ex_run_states(4) by blast
  let ?w0 = "\<lparr>w_repo = r, w_ticks = 0\<rparr>"
  from ex_decided [OF r(2)] obtain w' where w': "gateway_decide (ex_gov (\<lambda>_. 120)) ''inc-1'' True (digest []) 4
      ''operator'' ''ok'' ''k'' ?w0 = (Inr gov_remediating, w')"
    "get ''inc-1'' (w_repo w') = Some gov_remediating"
    by (auto simp: id_suffix_def dest: ex_at_get)
  have "world_later (ex_gov (\<lambda>_. 120)) ?w0 w'"
    using gateway_decide_governed [OF ex_gov_polite] w'(1) unfolding guarantees_def by (metis snd_conv)
  then have reach: "reachable ex_services (w_repo w')"
    using reachable_run [OF r(1)] by (simp add: world_later_def)
  have found: "List.find (\<lambda>d. approval_idempotency_key d = decision_key (ex_gov (\<lambda>_. 200)) (py_strip ''k''))
      (approvals gov_remediating) = Some gov_approved"
    by (simp add: gov_remediating_def gov_approved_def terminal_decision_def decision_key_def ex_pending_def)
  obtain j where "get ''inc-1'' (w_repo w') = Some j" "gateway_decide (ex_gov (\<lambda>_. 200)) ''inc-1'' True (digest []) 4
      ''operator'' ''ok'' ''k'' w' = (Inr j, \<lparr>w_repo = w_repo w', w_ticks = w_ticks w' + 2\<rparr>)"
    using decision_is_made_once [OF ex_gov_polite [of "\<lambda>_. 200"] _ w'(2) found, of "digest []" 4 200 "''operator''" "''ok''" True]
      reach w'(2)
    by (auto simp: ex_strip_ids seen_at_read_def gov_approved_def terminal_decision_def decision_id_def)
  then show ?thesis by blast
qed


theorem governance_keeps_repository_witness:
  "reachable ex_services (w_repo (snd (prepare (ex_gov (\<lambda>_. 120)) ''inc-1'' ''k'' ''operator'' 1
     \<lparr>w_repo = ex_repository, w_ticks = 0\<rparr>)))"
proof -
  have "reachable (gs_services (ex_gov (\<lambda>_. 120))) (w_repo \<lparr>w_repo = ex_repository, w_ticks = 0\<rparr>)"
    using ex_reachable by simp
  from governance_keeps_repository [OF ex_gov_polite this, of "prepare (ex_gov (\<lambda>_. 120)) ''inc-1'' ''k'' ''operator'' 1"
      "''inc-1''" "''k''" "''operator''" 1]
  show ?thesis by simp
qed

section \<open>A refused preparation\<close>

definition ex_foreign :: world where
  "ex_foreign = \<lparr>w_repo = ex_repository\<lparr>incidents := [(''inc-1'', ex_triaged)]\<rparr>, w_ticks = 0\<rparr>"

theorem foreign_prepare_is_refused_witness:
  "prepare (ex_gov (\<lambda>_. 120)) ''inc-1'' ''k'' ''operator'' 1 ex_foreign =
     (Inl (GovernanceStateError ''incident is already owned by another lifecycle''), ex_foreign\<lparr>w_ticks := 1\<rparr>)"
proof -
  have c: "get (py_strip ''inc-1'') (gs_others (ex_gov (\<lambda>_. 120)) (w_ticks ex_foreign) (w_repo ex_foreign)) = Some ex_triaged"
    by (simp add: ex_foreign_def get_def py_strip_def py_isspace_def)
  have s: "status ex_triaged \<noteq> DETECTED" by (simp add: ex_triaged_def)
  have e: "marker_error ex_triaged (governance_marker (ex_gov (\<lambda>_. 120)) (py_strip ''k'') 1 (py_strip ''operator'')) =
      Some (GovernanceStateError ''incident is already owned by another lifecycle'')"
    by (simp add: marker_error_def ex_incident_defs)
  show ?thesis
    using foreign_prepare_is_refused [OF c s e] ex_strip_ids
    by (simp add: non_blank_def py_strip_def py_isspace_def) (simp add: ex_foreign_def)
qed

section \<open>A simulated run\<close>

definition sim_action :: remediation_action where
  "sim_action = ex_action\<lparr>action_type := LOCAL_SIMULATION_ACTION_TYPE, parameters := LOCAL_SIMULATION_PARAMETERS,
     reversible := True, rollback_plan := Some LOCAL_SIMULATION_ROLLBACK\<rparr>"

definition sim_report :: rca_report where
  "sim_report = ex_report\<lparr>report_recommendations := [sim_action]\<rparr>"

definition sim_remediating :: incident where
  "sim_remediating = ex_remediating\<lparr>rca_reports := [sim_report], recommendations := [sim_action]\<rparr>"

definition sim_world :: world where
  "sim_world = \<lparr>w_repo = ex_repository\<lparr>incidents := [(''inc-1'', sim_remediating)]\<rparr>, w_ticks = 0\<rparr>"

lemma sim_remediating_views:
  "status sim_remediating = REMEDIATING" "revision sim_remediating = 5" "approvals sim_remediating = [ex_pending, ex_approved]"
  "recommendations sim_remediating = [sim_action]" "latest_governed_report sim_remediating = Some sim_report"
  by (simp_all add: sim_remediating_def ex_incident_defs latest_governed_report_def)

lemma sim_reference_resolves:
  "validate_approval_reference digest ex_reference [ex_pending, ex_approved] sim_action sim_report (Aware 130) = Inr ex_approved"
  unfolding validate_approval_reference_Inr
  by (simp add: ex_reference_def ex_approved_def ex_pending_def reference_binds_def effective_at_def covers_action_def)
     (simp add: sim_action_def sim_report_def ex_data_defs)

lemma sim_run_ok: "validate_action_run (simulated_run (ex_gov tm) ex_envelope sim_action t) = None"
  by (simp add: validate_action_run_def simulated_run_def finished_before_started_def ex_envelope_def sim_action_def
      ex_action_def ex_field_defs id_suffix_def)

theorem simulation_runs_only_when_approved_witness:
  "\<exists>run w'. simulate_action (ex_gov (\<lambda>_. 130)) ex_envelope sim_action sim_report 4 ex_reference sim_world = (Inr run, w') \<and>
     run_status run = Run_SUCCEEDED"
proof -
  let ?g = "ex_gov (\<lambda>_. 130)"
  have "get ''inc-1'' (w_repo sim_world) = Some sim_remediating" "w_ticks sim_world = 0"
    by (simp_all add: sim_world_def get_def)
  moreover have "env_incident_id ex_envelope = ''inc-1''" by (simp add: ex_envelope_def)
  moreover have "fixed_simulation sim_action" "reversible sim_action" "rollback_plan sim_action = Some LOCAL_SIMULATION_ROLLBACK"
    by (simp_all add: sim_action_def fixed_simulation_def)
  moreover have "\<lparr>w_repo = w_repo sim_world, w_ticks = 3\<rparr> = sim_world\<lparr>w_ticks := 3\<rparr>" by (simp add: sim_world_def)
  ultimately have "simulate_action ?g ex_envelope sim_action sim_report 4 ex_reference sim_world =
      (Inr (simulated_run ?g ex_envelope sim_action 130), sim_world\<lparr>w_ticks := 3\<rparr>)"
    by (simp add: simulate_action_def resolve_for_execution_def gov_guard_def gov_bind_def gov_lift_def repository_get_def
        trusted_now_def sim_remediating_views sim_reference_resolves gov_construct_def sim_run_ok gov_return_def
        Let_def numeral_3_eq_3)
  from simulation_runs_only_when_approved [OF this] this show ?thesis by blast
qed


section \<open>An execution whose approval has expired\<close>

lemma ex_remediating_views [simp]:
  "latest_governed_report ex_remediating = Some ex_report" "latest_approval ex_remediating = Some ex_approved"
  "status ex_remediating = REMEDIATING" "revision ex_remediating = 5" "incident_id ex_remediating = ''inc-1''"
  "trace_id ex_remediating = ''trace1''" "verification_runs ex_remediating = []" "action_runs ex_remediating = []"
  by (simp_all add: latest_governed_report_def latest_approval_def ex_incident_defs)
     (simp add: ex_approved_def ex_pending_def)

lemma ex_approved_covers: "covers_action digest ex_approved ex_action ''inc-1'' ex_report"
  by (simp add: covers_action_def) (simp add: ex_data_defs)

definition gov_failed :: incident where
  "gov_failed = ex_remediating\<lparr>status := FAILED, revision := 6, updated_at := 600, model_metadata :=
     dict_set EXECUTION_FAILURE_MARKER_KEY (JObj (execution_failure_binding (digest []) (digest []))) []\<rparr>"

lemma gov_failed_valid: "incident_valid digest gov_failed"
  by (simp add: gov_failed_def ex_incident_defs ex_validate_defs ex_parts_ok) (simp add: ex_data_defs)

lemma gov_failed_guard: "validate_transition_guard digest ex_remediating gov_failed FAILED 600 = None"
  by (simp add: gov_failed_def ex_incident_defs ex_guard_defs covers_action_def Let_def)

lemma gov_step_failed: "ex_step FAILED 600 [U_model_metadata (dict_set EXECUTION_FAILURE_MARKER_KEY
    (JObj (execution_failure_binding (digest []) (digest []))) [])] ex_remediating = Inr gov_failed"
  by (rule ex_stepI [OF _ _ _ _ _ gov_failed_valid gov_failed_guard])
     (simp_all add: gov_failed_def ex_incident_defs ex_request_defs ex_guard_defs)

lemma ex_inc_strip: "py_strip ''inc-1'' = ''inc-1''" "non_blank ''inc-1''"
  by (simp_all add: py_strip_def py_isspace_def non_blank_iff)

lemma ex_engine_get:
  assumes "get ''inc-1'' r = Some c"
  shows "engine_get (ex_gov tm) ''inc-1'' \<lparr>w_repo = r, w_ticks = k\<rparr> = (Inr c, \<lparr>w_repo = r, w_ticks = k + 1\<rparr>)"
  using assms by (simp add: engine_get_def gov_bind_def require_text_def gov_guard_def gov_return_def repository_get_def
      ex_inc_strip Let_def)

lemma ex_execute:
  assumes "get ''inc-1'' r = Some c" and "latest_governed_report c = Some ex_report"
  shows "execute (ex_gov tm) ''inc-1'' ''k'' ''operator'' passed \<lparr>w_repo = r, w_ticks = 0\<rparr> =
    run_execution (ex_gov tm) c (execution_of (ex_gov tm) ''inc-1'' ''k'' ''operator'' passed c ex_report ex_action)
      \<lparr>w_repo = r, w_ticks = 1\<rparr>"
  using ex_engine_get [OF assms(1), of tm 0] assms(2)
  by (simp add: execute_def gov_bind_def require_text_def gov_guard_def gov_return_def ex_strip_ids sole_action_def)

theorem expired_execution_fails_closed_witness:
  "\<exists>(w::world) r w'. execute (ex_gov (\<lambda>_. 600)) ''inc-1'' ''k'' ''operator'' True w = (Inr r, w') \<and>
     status (gr_incident r) = FAILED \<and> action_runs (gr_incident r) = []"
proof -
  obtain r where r: "reachable ex_services r" "ex_at ex_remediating {''k5'', ''k4'', ''k3'', ''k2'', ''k1''} r"
    using ex_run_states(5) by blast
  let ?g = "ex_gov (\<lambda>_. 600)" and ?w = "\<lparr>w_repo = r, w_ticks = 0\<rparr>"
  let ?key = "''local-governance-approval-no-longer-effective-'' @ id_suffix"
  let ?x = "execution_of ?g ''inc-1'' ''k'' ''operator'' True ex_remediating ex_report ex_action"
  have fits: "meta_fits \<lparr>meta_key = ?key, meta_actor = ''operator'', meta_reason = EXECUTION_APPROVAL_EXPIRED_REASON,
      meta_trace = ''trace1''\<rparr>"
    using governance_keys_plain(2,4) governance_reasons_plain(3)
    by (intro governance_meta_fits) (simp_all add: id_suffix_def EXECUTION_APPROVAL_EXPIRED_REASON_def)
  have side: "model_metadata ex_remediating = []" "source_event_ids gov_failed = [''se-1'']"
    by (simp_all add: gov_failed_def ex_incident_defs)
  have step: "ex_step FAILED ((\<lambda>_::nat. 600) 2) [U_model_metadata (dict_set EXECUTION_FAILURE_MARKER_KEY
      (JObj (execution_failure_binding (digest []) (digest []))) [])] ex_remediating = Inr gov_failed"
    by (rule gov_step_failed)
  have unused: "?key \<notin> {''k5'', ''k4'', ''k3'', ''k2'', ''k1''}" by simp
  obtain w' where written: "repository_transition ?g ''inc-1'' ex_remediating FAILED ?key ''operator''
      EXECUTION_APPROVAL_EXPIRED_REASON [U_model_metadata (dict_set EXECUTION_FAILURE_MARKER_KEY
      (JObj (execution_failure_binding (digest []) (digest []))) [])] \<lparr>w_repo = r, w_ticks = 2\<rparr> = (Inr gov_failed, w')"
    using ex_gov_write [where k = 2, OF r(2) step fits unused] side by (auto simp: ex_settled)
  have late: "\<not> effective_at ex_approved 600" "approval_status ex_approved = Ap_APPROVED"
    by (simp_all add: effective_at_def ex_approved_def ex_pending_def)
  have "fail_expired_execution ?g ?x ex_remediating \<lparr>w_repo = r, w_ticks = 2\<rparr> = (Inr (result_of gov_failed False), w')"
    using written side by (simp add: fail_expired_execution_def gov_guard_def gov_bind_def gov_return_def
        x_root_fingerprint_def x_fingerprint_def)
  then have "remediate ?g ?x ex_remediating \<lparr>w_repo = r, w_ticks = 1\<rparr> = (Inr (Inl (result_of gov_failed False)), w')"
    using late ex_approved_covers
    by (simp add: remediate_def gov_guard_def gov_bind_def trusted_now_def gov_return_def numeral_2_eq_2)
  then have "execute ?g ''inc-1'' ''k'' ''operator'' True ?w = (Inr (result_of gov_failed False), w')"
    using ex_execute [OF ex_at_get [OF r(2)], of "\<lambda>_. 600" True]
    by (simp add: run_execution_def earlier_verification_def gov_bind_def finish_execution_def gov_return_def)
  note run = this
  have "status (gr_incident (result_of gov_failed False)) = FAILED \<and>
      action_runs (gr_incident (result_of gov_failed False)) = action_runs ex_remediating"
    using expired_execution_fails_closed [OF ex_gov_polite _ _ _ _ _ late(1) run] r ex_at_get [OF r(2)]
      ex_at_unrecorded [OF r(2) unused]
    by (simp add: execute_reads_def ex_inc_strip result_of_def)
  with run show ?thesis by auto
qed


section \<open>An execution resumed at its verification\<close>

definition gov_run :: action_run where
  "gov_run = ex_run\<lparr>action_run_id := ''local-simulation-run-'' @ id_suffix\<rparr>"

definition gov_verifying :: incident where
  "gov_verifying = ex_remediating\<lparr>status := VERIFYING, revision := 6, updated_at := 155, action_runs := [gov_run]\<rparr>"

lemma gov_run_ok: "validate_action_run gov_run = None"
  by (simp add: gov_run_def ex_run_def validate_action_run_def finished_before_started_def ex_field_defs id_suffix_def)

lemma gov_verifying_valid: "incident_valid digest gov_verifying"
  by (simp add: gov_verifying_def ex_incident_defs ex_validate_defs ex_parts_ok gov_run_ok)
     (simp add: gov_run_def ex_data_defs id_suffix_def)

lemma gov_verifying_guard: "validate_transition_guard digest ex_remediating gov_verifying VERIFYING 155 = None"
  by (simp add: gov_verifying_def ex_incident_defs ex_guard_defs covers_action_def Let_def)
     (simp add: gov_run_def ex_data_defs)

lemma gov_step_verifying: "ex_step VERIFYING 155 [U_action_runs [gov_run]] ex_remediating = Inr gov_verifying"
  by (rule ex_stepI [OF _ _ _ _ _ gov_verifying_valid gov_verifying_guard])
     (simp_all add: gov_verifying_def ex_incident_defs ex_request_defs ex_guard_defs)

lemma ex_verifying_reached:
  "\<exists>r. reachable ex_services r \<and> ex_at gov_verifying {''k6'', ''k5'', ''k4'', ''k3'', ''k2'', ''k1''} r"
proof -
  obtain r where "reachable ex_services r" "ex_at ex_remediating {''k5'', ''k4'', ''k3'', ''k2'', ''k1''} r"
    using ex_run_states(5) by blast
  then show ?thesis
    using ex_advance_reachable [OF _ _ gov_step_verifying, of r "{''k5'', ''k4'', ''k3'', ''k2'', ''k1''}" "CHR ''6''"]
    by (auto simp: gov_verifying_def ex_incident_defs ex_settled)
qed

text \<open>The execution, its verification and the incident it resolves.\<close>

abbreviation gov_x :: execution where
  "gov_x \<equiv> execution_of (ex_gov (\<lambda>_. 165)) ''inc-1'' ''k'' ''operator'' True gov_verifying ex_report ex_action"

definition gov_verification :: verification_run where
  "gov_verification = completed_verification (pending_verification (ex_gov (\<lambda>_. 165)) gov_x gov_verifying gov_run) Ver_PASSED
     (local_evidence (ex_gov (\<lambda>_. 165)) (pending_verification (ex_gov (\<lambda>_. 165)) gov_x gov_verifying gov_run) Ver_PASSED 165) 165"

definition gov_resolved :: incident where
  "gov_resolved = gov_verifying\<lparr>status := RESOLVED, revision := 7, updated_at := 165,
     verification_runs := [gov_verification]\<rparr>"

lemma gov_x_simps [simp]:
  "x_verification_id gov_x = ''local-verification-'' @ id_suffix" "x_run_id (ex_gov tm) gov_x = ''local-simulation-run-'' @ id_suffix"
  "x_action_hash (ex_gov tm) gov_x = digest []" "x_fingerprint (ex_gov tm) gov_x = digest []"
  by (simp_all add: execution_of_def x_run_id_def x_action_hash_def x_fingerprint_def)

lemma gov_verifying_views [simp]:
  "latest_governed_report gov_verifying = Some ex_report" "status gov_verifying = VERIFYING" "revision gov_verifying = 6"
  "incident_id gov_verifying = ''inc-1''" "trace_id gov_verifying = ''trace1''" "verification_runs gov_verifying = []"
  "action_runs gov_verifying = [gov_run]" "source_event_ids gov_verifying = [''se-1'']"
  by (simp_all add: latest_governed_report_def gov_verifying_def ex_incident_defs)

lemma gov_pending_ok: "validate_verification_run (pending_verification (ex_gov tm) gov_x gov_verifying gov_run) = None"
  by (simp add: pending_verification_def validate_verification_run_def finished_before_started_def ex_field_defs gov_run_def
      id_suffix_def)

lemma gov_evidence_ok: "validate_evidence (local_evidence (ex_gov tm) (pending_verification (ex_gov tm) gov_x gov_verifying gov_run)
    Ver_PASSED t) = None"
  by (simp add: local_evidence_def validate_evidence_def ex_field_defs outcome_value_def id_suffix_def)

lemma gov_verification_ok: "validate_verification_run gov_verification = None"
  by (simp add: gov_verification_def completed_verification_def validate_verification_run_def finished_before_started_def
      gov_evidence_ok)
     (simp add: pending_verification_def ex_field_defs gov_run_def id_suffix_def non_blank_iff py_isspace_def)

lemma gov_verification_fields:
  "ver_incident_id gov_verification = Some ''inc-1''" "ver_action_run_ids gov_verification = [''local-simulation-run-'' @ id_suffix]"
  "ver_status gov_verification = Ver_PASSED" "ver_finished_at gov_verification = Some 165" "ver_started_at gov_verification = Some 165"
  "verification_id gov_verification = ''local-verification-'' @ id_suffix"
  "list_ex non_blank (checks gov_verification)" "ver_evidence_refs gov_verification \<noteq> []"
  by (simp_all add: gov_verification_def completed_verification_def)
     (simp_all add: pending_verification_def gov_run_def non_blank_iff py_isspace_def)

lemma gov_resolved_valid: "incident_valid digest gov_resolved"
  by (simp add: gov_resolved_def gov_verifying_def ex_incident_defs ex_validate_defs ex_parts_ok gov_run_ok
      gov_verification_ok gov_verification_fields)
     (simp add: gov_run_def ex_data_defs)

lemma gov_resolved_guard: "validate_transition_guard digest gov_verifying gov_resolved RESOLVED 165 = None"
  by (simp add: gov_resolved_def gov_verifying_def ex_incident_defs ex_guard_defs covers_action_def Let_def
      gov_verification_fields)
     (simp add: gov_run_def ex_data_defs)

lemma gov_step_resolved: "ex_step RESOLVED 165 [U_verification_runs [gov_verification]] gov_verifying = Inr gov_resolved"
  by (rule ex_stepI [OF _ _ _ _ _ gov_resolved_valid gov_resolved_guard])
     (simp_all add: gov_resolved_def gov_verifying_def ex_incident_defs ex_request_defs ex_guard_defs)


lemma gov_result_message_ok: "validate_message digest (VerificationResult \<lparr>message_id = ''local-verification-result-'' @ id_suffix,
    workflow_id = ''local-execution-workflow-'' @ id_suffix, env_incident_id = ''inc-1'', env_trace_id = ''trace1'',
    env_idempotency_key = ''local-verification-result-key-'' @ id_suffix, sent_at = 165\<rparr> gov_verification
    ''Local simulated health checks passed.'') = None"
  by (simp add: validate_verification_result_def gov_verification_ok gov_verification_fields field_check_def envelope_ok_def
      short_text_ok_def identifier_ok_def id_suffix_def)

lemma gov_request_message_ok: "validate_message digest (VerificationRequest (verification_envelope (ex_gov tm) gov_x gov_verifying t)
    gov_run (pending_verification (ex_gov tm) gov_x gov_verifying gov_run)) = None"
  by (simp add: validate_verification_request_def gov_run_ok gov_pending_ok field_check_def)
     (simp add: verification_envelope_def envelope_ok_def identifier_ok_def id_suffix_def gov_run_def ex_run_def
        x_workflow_def pending_verification_def)

lemma gov_locally_verified:
  "locally_verified (ex_gov (\<lambda>_. 165)) (verification_envelope (ex_gov (\<lambda>_. 165)) gov_x gov_verifying 165)
     (pending_verification (ex_gov (\<lambda>_. 165)) gov_x gov_verifying gov_run) w =
   (Inr gov_verification, w\<lparr>w_ticks := w_ticks w + 1\<rparr>)"
proof -
  let ?e = "verification_envelope (ex_gov (\<lambda>_. 165)) gov_x gov_verifying 165"
  let ?p = "pending_verification (ex_gov (\<lambda>_. 165)) gov_x gov_verifying gov_run"
  have p: "requested_outcome ?p = Some Ver_PASSED" "ver_status ?p = Ver_PENDING"
    using requested_outcome_pending [of "ex_gov (\<lambda>_. 165)" gov_x gov_verifying gov_run]
    by (simp_all add: pending_verification_def)
  have m: "workflow_id ?e = ''local-execution-workflow-'' @ id_suffix" "env_incident_id ?e = ''inc-1''" "env_trace_id ?e = ''trace1''"
    by (simp_all add: verification_envelope_def x_workflow_def)
  have s: "str_or_empty (evidence_summary (local_evidence (ex_gov (\<lambda>_. 165)) ?p Ver_PASSED 165)) =
      ''Local simulated health checks passed.''"
    by (simp add: local_evidence_def str_or_empty_def)
  show ?thesis
    using gov_result_message_ok gov_verification_ok
    by (simp add: locally_verified_def verify_locally_def gov_guard_def gov_bind_def p trusted_now_def gov_construct_def
        gov_evidence_ok gov_verification_def [symmetric] m s gov_return_def verified_run_def)
qed

theorem resumed_execution_settles_witness:
  "\<exists>(w::world) r w'. execute (ex_gov (\<lambda>_. 165)) ''inc-1'' ''k'' ''operator'' True w = (Inr r, w') \<and>
     status (gr_incident r) = RESOLVED"
proof -
  obtain r where r: "reachable ex_services r" "ex_at gov_verifying {''k6'', ''k5'', ''k4'', ''k3'', ''k2'', ''k1''} r"
    using ex_verifying_reached by blast
  let ?g = "ex_gov (\<lambda>_. 165)" and ?w = "\<lparr>w_repo = r, w_ticks = 0\<rparr>" and ?key = "''local-governance-verify-'' @ id_suffix"
  have fits: "meta_fits \<lparr>meta_key = ?key, meta_actor = ''operator'',
      meta_reason = ''Record local simulated verification: PASSED'', meta_trace = ''trace1''\<rparr>"
    using governance_keys_plain(3,4) governance_reasons_plain(2)
    by (intro governance_meta_fits) (simp_all add: id_suffix_def)
  have step: "ex_step RESOLVED ((\<lambda>_::nat. 165) 3) [U_verification_runs [gov_verification]] gov_verifying = Inr gov_resolved"
    by (rule gov_step_resolved)
  have unused: "?key \<notin> {''k6'', ''k5'', ''k4'', ''k3'', ''k2'', ''k1''}" by simp
  have side: "source_event_ids gov_resolved = [''se-1'']" by (simp add: gov_resolved_def)
  obtain w' where written: "repository_transition ?g ''inc-1'' gov_verifying RESOLVED ?key ''operator''
      ''Record local simulated verification: PASSED'' [U_verification_runs [gov_verification]]
      \<lparr>w_repo = r, w_ticks = 3\<rparr> = (Inr gov_resolved, w')"
    using ex_gov_write [where k = 3, OF r(2) step fits unused] side by (auto simp: ex_settled)
  have rec: "record_verification ?g gov_x gov_verifying gov_run \<lparr>w_repo = r, w_ticks = 1\<rparr> = (Inr (result_of gov_resolved False), w')"
    using written gov_locally_verified [of "\<lparr>w_repo = r, w_ticks = 2\<rparr>"]
    by (simp add: record_verification_def gov_bind_def trusted_now_def gov_construct_def gov_pending_ok
        gov_request_message_ok [unfolded validate_message.simps] gov_return_def gov_verification_fields
        outcome_value_def verification_envelope_key Let_def
        numeral_2_eq_2 numeral_3_eq_3)
  have "run_status gov_run = Run_SUCCEEDED" "run_action_hash gov_run = Some (digest [])"
    "action_run_id gov_run = ''local-simulation-run-'' @ id_suffix" by (simp_all add: gov_run_def ex_run_def)
  with rec have "execute ?g ''inc-1'' ''k'' ''operator'' True ?w = (Inr (result_of gov_resolved False), w')"
    using ex_execute [OF ex_at_get [OF r(2)], of "\<lambda>_. 165" True]
    by (simp add: run_execution_def earlier_verification_def finish_execution_def gov_guard_def)
  note run = this
  have "status (gr_incident (result_of gov_resolved False)) = RESOLVED"
    using resumed_execution_settles [OF ex_gov_polite _ _ _ run] r ex_at_get [OF r(2)] ex_at_unrecorded [OF r(2) unused]
    by (auto simp: execute_reads_def ex_inc_strip result_of_def)
  with run show ?thesis by auto
qed


end
