(* ===== verification/Binary64.thy ===== *)
theory Binary64
  imports Json "HOL-Library.Log_Nat"
begin

text \<open>
  Python's \<open>float\<close>: the finite binary64 numbers as rationals.  \<open>fl x\<close> is the number an arithmetic
  operation with the exact result \<open>x\<close> returns, the multiple of the last binary place nearest to \<open>x\<close>
  with ties to the even significand.  The exponent is not bounded and zero has no sign, so overflow,
  subnormal numbers and negative zero are not modelled; every quantity modelled with it (seconds of the calendar, shares between 0 and 1) is
  far inside the normal range.  \<open>py_sum\<close> is the compensated \<open>sum\<close> of CPython 3.12 and 3.13,
  \<open>py_round\<close> is \<open>round(value, digits)\<close> and \<open>float_repr\<close> the shortest text that reads back.
\<close>

section \<open>Rounding to an integer\<close>

definition round_half_even :: "rat \<Rightarrow> int" where
  "round_half_even x = (let n = \<lfloor>x\<rfloor>; r = x - of_int n in
     if r < 1 / 2 then n else if r > 1 / 2 then n + 1 else if even n then n else n + 1)"

lemma round_half_even_of_int [simp]: "round_half_even (of_int n) = n"
  by (simp add: round_half_even_def)

lemma round_half_even_cases: "round_half_even x = \<lfloor>x\<rfloor> \<or> round_half_even x = \<lfloor>x\<rfloor> + 1"
  by (simp add: round_half_even_def Let_def)

lemma round_half_even_mono: "x \<le> y \<Longrightarrow> round_half_even x \<le> round_half_even y"
proof -
  assume le: "x \<le> y"
  then have f: "\<lfloor>x\<rfloor> \<le> \<lfloor>y\<rfloor>" by (rule floor_mono)
  show ?thesis
  proof (cases "\<lfloor>x\<rfloor> = \<lfloor>y\<rfloor>")
    case True
    with le show ?thesis by (auto simp: round_half_even_def Let_def)
  next
    case False
    with f have "\<lfloor>x\<rfloor> + 1 \<le> \<lfloor>y\<rfloor>" by linarith
    with round_half_even_cases [of x] round_half_even_cases [of y] show ?thesis by linarith
  qed
qed

lemma round_half_even_bounds:
  "of_int n \<le> x \<Longrightarrow> n \<le> round_half_even x" "x \<le> of_int n \<Longrightarrow> round_half_even x \<le> n"
  using round_half_even_mono [of "of_int n" x] round_half_even_mono [of x "of_int n"] by simp_all

section \<open>Rounding to 53 significant bits\<close>

text \<open>The exponent of the leading bit.\<close>

definition binary_exponent :: "rat \<Rightarrow> int" where
  "binary_exponent x = (case quotient_of \<bar>x\<bar> of (a, b) \<Rightarrow>
     let k = bitlen a - bitlen b in if 2 powi k \<le> \<bar>x\<bar> then k else k - 1)"

lemma powi_less_iff [simp]: "2 powi i < (2 powi j :: rat) \<longleftrightarrow> i < j"
  by (meson not_less one_less_numeral_iff power_int_increasing power_int_strict_increasing semiring_norm(76)
      one_le_numeral)

lemma powi_le_iff [simp]: "2 powi i \<le> (2 powi j :: rat) \<longleftrightarrow> i \<le> j"
  by (simp flip: not_less)

lemma powi_pos [simp]: "0 < (2 powi i :: rat)"
  by simp

lemma binary_exponent_bounds:
  assumes "x \<noteq> 0"
  shows "2 powi (binary_exponent x) \<le> \<bar>x\<bar>" and "\<bar>x\<bar> < 2 powi (binary_exponent x + 1)"
proof -
  obtain a b where q: "quotient_of \<bar>x\<bar> = (a, b)" by (cases "quotient_of \<bar>x\<bar>")
  then have b: "0 < b" by (rule quotient_of_denom_pos)
  have x: "\<bar>x\<bar> = of_int a / of_int b" using q by (rule quotient_of_div)
  have "0 < \<bar>x\<bar>" using assms by simp
  with b have a: "0 < a" by (simp add: x zero_less_divide_iff)
  have pow: "of_int ((2::int) ^ nat n) = (2 powi n :: rat)" if "0 \<le> n" for n
    using that by (simp add: power_int_def)
  have "2 ^ nat (bitlen a - 1) \<le> a" "a < 2 ^ nat (bitlen a)"
    "2 ^ nat (bitlen b - 1) \<le> b" "b < 2 ^ nat (bitlen b)"
    using bitlen_bounds [OF a] bitlen_bounds [OF b] by auto
  moreover have "0 \<le> bitlen a - 1" "0 \<le> bitlen b - 1" using a b bitlen_eq_zero_iff [of a] bitlen_eq_zero_iff [of b] bitlen_nonneg [of a] bitlen_nonneg [of b]
    by linarith+
  ultimately have r: "2 powi (bitlen a - 1) \<le> (of_int a :: rat)" "(of_int a :: rat) < 2 powi (bitlen a)"
    "2 powi (bitlen b - 1) \<le> (of_int b :: rat)" "(of_int b :: rat) < 2 powi (bitlen b)"
    using pow [of "bitlen a - 1"] pow [of "bitlen a"] pow [of "bitlen b - 1"] pow [of "bitlen b"]
    by (metis of_int_le_iff of_int_less_iff add_nonneg_nonneg diff_add_cancel zero_le_one)+
  let ?k = "bitlen a - bitlen b"
  have "2 powi (?k - 1) * (of_int b :: rat) \<le> 2 powi (?k - 1) * 2 powi (bitlen b)"
    using r(4) by (simp add: less_imp_le)
  also have "\<dots> = 2 powi (bitlen a - 1)" by (simp flip: power_int_add)
  also have "\<dots> \<le> of_int a" by (rule r(1))
  finally have lo: "2 powi (?k - 1) \<le> \<bar>x\<bar>" using b by (simp add: x pos_le_divide_eq)
  have "(of_int a :: rat) < 2 powi (bitlen a)" by (rule r(2))
  also have "\<dots> = 2 powi (?k + 1) * 2 powi (bitlen b - 1)" by (simp flip: power_int_add)
  also have "\<dots> \<le> 2 powi (?k + 1) * of_int b" using r(3) by simp
  finally have hi: "\<bar>x\<bar> < 2 powi (?k + 1)" using b by (simp add: x pos_divide_less_eq)
  from lo hi show "2 powi (binary_exponent x) \<le> \<bar>x\<bar>" "\<bar>x\<bar> < 2 powi (binary_exponent x + 1)"
    by (auto simp: binary_exponent_def q Let_def)
qed

lemma binary_exponent_unique:
  assumes "2 powi e \<le> \<bar>x\<bar>" and "\<bar>x\<bar> < 2 powi (e + 1)"
  shows "binary_exponent x = e"
proof -
  have x: "x \<noteq> 0" using assms(1) powi_pos [of e] by (auto simp: not_le [symmetric] simp del: powi_pos)
  have "2 powi e < (2 powi (binary_exponent x + 1) :: rat)"
    using assms(1) binary_exponent_bounds(2) [OF x] by (rule le_less_trans)
  moreover have "2 powi (binary_exponent x) < (2 powi (e + 1) :: rat)"
    using binary_exponent_bounds(1) [OF x] assms(2) by (rule le_less_trans)
  ultimately show ?thesis by simp
qed

text \<open>The unit in the last place of numbers of a magnitude.\<close>

definition ulp_of :: "rat \<Rightarrow> rat" where
  "ulp_of x = 2 powi (binary_exponent x - 52)"

definition fl :: "rat \<Rightarrow> rat" where
  "fl x = (if x = 0 then 0 else of_int (round_half_even (x / ulp_of x)) * ulp_of x)"

lemma ulp_pos [simp]: "0 < ulp_of x" "ulp_of x \<noteq> 0" "0 \<le> ulp_of x"
  by (simp_all add: ulp_of_def)

lemma fl_0 [simp]: "fl 0 = 0"
  by (simp add: fl_def)

lemma fl_integral:
  assumes "x / ulp_of x = of_int n"
  shows "fl x = x"
proof -
  have "x = of_int n * ulp_of x" using assms by (simp add: field_simps)
  with assms show ?thesis by (simp add: fl_def)
qed

text \<open>The numbers with at most 53 significant bits are the floats.\<close>

lemma fl_exact:
  assumes "\<bar>m\<bar> \<le> 2 ^ 53"
  shows "fl (of_int m * 2 powi e) = of_int m * 2 powi e"
proof (cases "m = 0")
  case True
  then show ?thesis by simp
next
  case False
  let ?x = "of_int m * 2 powi e :: rat" and ?k = "binary_exponent (of_int m * 2 powi e)"
  have x: "?x \<noteq> 0" using False by simp
  have ax: "\<bar>?x\<bar> = of_int \<bar>m\<bar> * 2 powi e" by (simp add: abs_mult)
  have "of_int \<bar>m\<bar> \<le> (2 ^ 53 :: rat)" using assms by (metis of_int_le_iff of_int_numeral of_int_power)
  then have "2 powi ?k \<le> (2 powi (e + 53) :: rat)"
    using binary_exponent_bounds(1) [OF x] unfolding ax
    by (auto simp: power_int_add elim!: order_trans)
  then have k: "?k \<le> e + 53" by simp
  show ?thesis
  proof (cases "?k \<le> e + 52")
    case True
    then have "of_int (2 ^ nat (e - (?k - 52))) = (2 powi (e - (?k - 52)) :: rat)"
      by (simp add: power_int_def)
    then have "?x / ulp_of ?x = of_int (m * 2 ^ nat (e - (?k - 52)))"
      by (simp add: ulp_of_def power_int_diff)
    then show ?thesis by (rule fl_integral)
  next
    case False
    with k have k: "?k = e + 53" by simp
    have "2 powi (e + 53) \<le> of_int \<bar>m\<bar> * (2 powi e :: rat)"
      using binary_exponent_bounds(1) [OF x] unfolding ax k by simp
    then have "(2 ^ 53 :: rat) \<le> of_int \<bar>m\<bar>" by (simp add: power_int_add)
    then have "2 ^ 53 \<le> \<bar>m\<bar>" by (metis of_int_le_iff of_int_numeral of_int_power)
    with assms have m: "\<bar>m\<bar> = 2 ^ 53" by simp
    then have "m = sgn m * 2 ^ 53" by (metis mult_sgn_abs)
    moreover have "ulp_of ?x = 2 * 2 powi e" by (simp add: ulp_of_def k power_int_add power_int_diff)
    ultimately have "?x / ulp_of ?x = of_int (sgn m * 2 ^ 53) / 2" by simp
    then have "?x / ulp_of ?x = of_int (sgn m * 2 ^ 52)" by simp
    then show ?thesis by (rule fl_integral)
  qed
qed

lemma fl_of_int: "\<bar>n\<bar> \<le> 2 ^ 53 \<Longrightarrow> fl (of_int n) = of_int n"
  using fl_exact [of n 0] by simp

lemma fl_1 [simp]: "fl 1 = 1"
  using fl_of_int [of 1] by simp

lemma fl_powi [simp]: "fl (2 powi e) = 2 powi e"
  using fl_exact [of 1 e] by simp

lemma significand_bounds:
  assumes "0 < x"
  shows "of_int (2 ^ 52) \<le> x / ulp_of x" and "x / ulp_of x \<le> of_int (2 ^ 53)"
    and "of_int (2 ^ 52) * ulp_of x = 2 powi (binary_exponent x)"
    and "of_int (2 ^ 53) * ulp_of x = 2 powi (binary_exponent x + 1)"
proof -
  show *: "of_int (2 ^ 52) * ulp_of x = 2 powi (binary_exponent x)"
    "of_int (2 ^ 53) * ulp_of x = 2 powi (binary_exponent x + 1)"
    by (simp_all add: ulp_of_def power_int_add power_int_diff)
  show "of_int (2 ^ 52) \<le> x / ulp_of x" "x / ulp_of x \<le> of_int (2 ^ 53)"
    using binary_exponent_bounds [of x] assms * by (simp_all add: pos_le_divide_eq pos_divide_le_eq)
qed

lemma exponent_le:
  "0 < x \<Longrightarrow> x < 2 powi e \<Longrightarrow> binary_exponent x + 1 \<le> e"
  "0 < x \<Longrightarrow> 2 powi e \<le> x \<Longrightarrow> e \<le> binary_exponent x"
proof -
  assume x: "0 < x"
  show "x < 2 powi e \<Longrightarrow> binary_exponent x + 1 \<le> e"
    using le_less_trans [OF binary_exponent_bounds(1), of x "2 powi e"] x by simp
  show "2 powi e \<le> x \<Longrightarrow> e \<le> binary_exponent x"
    using le_less_trans [OF _ binary_exponent_bounds(2), of "2 powi e" x] x by simp
qed

lemma fl_sign: "0 \<le> x \<Longrightarrow> 0 \<le> fl x" "0 < x \<Longrightarrow> 0 < fl x"
proof -
  show pos: "0 < fl x" if "0 < x" for x
  proof -
    have "of_int (2 ^ 52) \<le> x / ulp_of x" using that by (rule significand_bounds)
    then have "2 ^ 52 \<le> round_half_even (x / ulp_of x)" by (rule round_half_even_bounds)
    with that show ?thesis by (simp add: fl_def)
  qed
  show "0 \<le> fl x" if "0 \<le> x" for x
    using pos [of x] that by (cases "x = 0") auto
qed

text \<open>Within a binade rounding is monotone, and the powers of two between binades are floats.\<close>

lemma fl_below_powi: "0 < x \<Longrightarrow> x \<le> 2 powi e \<Longrightarrow> fl x \<le> 2 powi e"
proof (cases "x = 2 powi e")
  case False
  assume x: "0 < x" "x \<le> 2 powi e"
  have "round_half_even (x / ulp_of x) \<le> 2 ^ 53"
    by (rule round_half_even_bounds, rule significand_bounds) fact
  then have "of_int (round_half_even (x / ulp_of x)) \<le> (of_int (2 ^ 53) :: rat)" by (simp only: of_int_le_iff)
  then have "fl x \<le> of_int (2 ^ 53) * ulp_of x" using x by (simp add: fl_def mult_right_mono del: of_int_power)
  also have "\<dots> = 2 powi (binary_exponent x + 1)" using x(1) by (rule significand_bounds)
  also have "\<dots> \<le> 2 powi e" using exponent_le(1) [OF x(1), of e] x(2) False by simp
  finally show ?thesis .
qed simp

lemma fl_above_powi: "2 powi e \<le> x \<Longrightarrow> 2 powi e \<le> fl x"
proof -
  assume x: "2 powi e \<le> x"
  with powi_pos have pos: "0 < x" by (rule less_le_trans)
  have "2 ^ 52 \<le> round_half_even (x / ulp_of x)"
    by (rule round_half_even_bounds, rule significand_bounds) fact
  then have "(of_int (2 ^ 52) :: rat) \<le> of_int (round_half_even (x / ulp_of x))" by (simp only: of_int_le_iff)
  then have "of_int (2 ^ 52) * ulp_of x \<le> fl x" using pos by (simp add: fl_def mult_right_mono del: of_int_power)
  moreover have "2 powi e \<le> (2 powi (binary_exponent x) :: rat)" using exponent_le(2) [OF pos x] by simp
  ultimately show ?thesis unfolding significand_bounds(3) [OF pos] by (rule order_trans [rotated])
qed

lemma fl_mono:
  assumes "0 \<le> x" and "x \<le> y"
  shows "fl x \<le> fl y"
proof (cases "x = 0")
  case True
  then show ?thesis using assms fl_sign(1) [of y] by simp
next
  case False
  with assms have x: "0 < x" and y: "0 < y" by simp_all
  have "binary_exponent x + 1 \<le> binary_exponent y + 1"
    using binary_exponent_bounds(2) [of y] y assms(2) by (intro exponent_le(1) [OF x]) simp
  then consider (same) "binary_exponent x = binary_exponent y" | (less) "binary_exponent x + 1 \<le> binary_exponent y"
    by linarith
  then show ?thesis
  proof cases
    case same
    then have u: "ulp_of x = ulp_of y" by (simp add: ulp_of_def)
    have "round_half_even (x / ulp_of x) \<le> round_half_even (y / ulp_of y)"
      unfolding u using assms(2) by (intro round_half_even_mono divide_right_mono) simp_all
    then show ?thesis using x y by (simp add: fl_def u mult_right_mono)
  next
    case less
    have "fl x \<le> 2 powi (binary_exponent x + 1)"
      using binary_exponent_bounds(2) [of x] x by (intro fl_below_powi) simp_all
    also have "\<dots> \<le> 2 powi (binary_exponent y)" using less by simp
    also have "\<dots> \<le> fl y" using binary_exponent_bounds(1) [of y] y by (intro fl_above_powi) simp
    finally show ?thesis .
  qed
qed

lemma fl_le_1: "0 \<le> x \<Longrightarrow> x \<le> 1 \<Longrightarrow> fl x \<le> 1"
  using fl_mono [of x 1] by simp

lemma fl_double: "fl (2 * x) = 2 * fl x"
proof (cases "x = 0")
  case False
  have "binary_exponent (2 * x) = binary_exponent x + 1"
    using binary_exponent_bounds [OF False]
    by (intro binary_exponent_unique) (simp_all add: power_int_add abs_mult)
  then have "ulp_of (2 * x) = 2 * ulp_of x" by (simp add: ulp_of_def power_int_diff power_int_add)
  with False show ?thesis by (simp add: fl_def)
qed simp

section \<open>Library functions\<close>

text \<open>\<open>sum(values)\<close> of floats: the running sum with the compensation that the loop adds at its end.\<close>

fun sum_loop :: "rat \<Rightarrow> rat \<Rightarrow> rat list \<Rightarrow> rat \<times> rat" where
  "sum_loop f c [] = (f, c)"
| "sum_loop f c (x # xs) = (let t = fl (f + x) in
     sum_loop t (fl (c + (if \<bar>x\<bar> \<le> \<bar>f\<bar> then fl (fl (f - t) + x) else fl (fl (x - t) + f)))) xs)"

definition py_sum :: "rat list \<Rightarrow> rat" where
  "py_sum xs = (case xs of [] \<Rightarrow> 0
     | x # xs \<Rightarrow> (case sum_loop x 0 xs of (f, c) \<Rightarrow> if c = 0 then f else fl (f + c)))"

definition py_round :: "nat \<Rightarrow> rat \<Rightarrow> rat" where
  "py_round digits x = fl (of_int (round_half_even (x * 10 ^ digits)) / 10 ^ digits)"

text \<open>Whole numbers are added exactly, with no compensation.\<close>

lemma sum_loop_exact:
  assumes "list_all (\<lambda>n. 0 \<le> n) ns" and "0 \<le> s" and "s + sum_list ns \<le> 2 ^ 53"
  shows "sum_loop (of_int s) 0 (map of_int ns) = (of_int (s + sum_list ns), 0)"
  using assms
proof (induction ns arbitrary: s)
  case (Cons n ns)
  then have "0 \<le> sum_list ns" by (intro sum_list_nonneg) (simp add: list_all_iff)
  with Cons.prems have t: "fl (of_int s + of_int n) = of_int (s + n)"
    using fl_of_int [of "s + n"] by simp
  have d: "fl (of_int s - of_int (s + n)) = of_int (- n)" "fl (of_int n - of_int (s + n)) = of_int (- s)"
    using fl_of_int [of "- n"] fl_of_int [of "- s"] Cons.prems \<open>0 \<le> sum_list ns\<close> by simp_all
  have "sum_loop (of_int (s + n)) 0 (map of_int ns) = (of_int (s + n + sum_list ns), 0)"
    using Cons.prems by (intro Cons.IH) simp_all
  then show ?case by (simp add: t d Let_def add.assoc del: of_int_add)
qed simp

lemma py_sum_exact:
  assumes "list_all (\<lambda>n. 0 \<le> n) ns" and "sum_list ns \<le> 2 ^ 53"
  shows "py_sum (map of_int ns) = of_int (sum_list ns)"
  using assms by (cases ns) (simp_all add: py_sum_def sum_loop_exact)

lemma py_round_share: "0 \<le> x \<Longrightarrow> x \<le> 1 \<Longrightarrow> 0 \<le> py_round d x \<and> py_round d x \<le> 1"
proof -
  assume x: "0 \<le> x" "x \<le> 1"
  have "0 \<le> round_half_even (x * 10 ^ d)" "round_half_even (x * 10 ^ d) \<le> 10 ^ d"
    using x by (auto intro!: round_half_even_bounds)
  then have "0 \<le> (of_int (round_half_even (x * 10 ^ d)) / 10 ^ d :: rat)"
    "(of_int (round_half_even (x * 10 ^ d)) / 10 ^ d :: rat) \<le> 1"
    by (simp_all add: divide_le_eq)
  then show ?thesis unfolding py_round_def by (simp add: fl_sign fl_le_1)
qed

text \<open>\<open>repr(value)\<close>: the shortest decimal that reads back as the number, the
  nearest of those, in positional notation from 0.0001 to below 10 to the 16th.\<close>

definition decimal_exponent :: "rat \<Rightarrow> int" where
  "decimal_exponent x = (case quotient_of x of (a, b) \<Rightarrow>
     let k = int (length (show_nat (nat a))) - int (length (show_nat (nat b))) in
     if 10 powi k \<le> x then k else k - 1)"

definition shortest_decimal :: "rat \<Rightarrow> int \<times> int" where
  "shortest_decimal x = (let e = decimal_exponent x;
       place = (\<lambda>n::nat. 10 powi (e - int n + 1)) in
     case List.find (\<lambda>(n, m). fl (of_int m * place n) = x)
       (concat (map (\<lambda>n. let m = round_half_even (x / place n) in [(n, m), (n, m - 1), (n, m + 1)]) [1..<18])) of
       None \<Rightarrow> (0, 0)
     | Some (n, m) \<Rightarrow> (m, e - int n + 1))"

definition positional :: "string \<Rightarrow> int \<Rightarrow> string" where
  "positional ds point = (if point \<le> 0 then ''0.'' @ replicate (nat (- point)) (CHR ''0'') @ ds
     else if int (length ds) \<le> point
     then ds @ replicate (nat (point - int (length ds))) (CHR ''0'') @ ''.0''
     else take (nat point) ds @ ''.'' @ drop (nat point) ds)"

definition scientific :: "string \<Rightarrow> int \<Rightarrow> string" where
  "scientific ds e = (case ds of [] \<Rightarrow> [] | d # rest \<Rightarrow> d # (if rest = [] then [] else CHR ''.'' # rest)) @
     ''e'' @ (if e < 0 then ''-'' else ''+'') @ (if \<bar>e\<bar> < 10 then ''0'' else []) @ show_nat (nat \<bar>e\<bar>)"

definition magnitude_repr :: "rat \<Rightarrow> string" where
  "magnitude_repr x = (case shortest_decimal x of (m, place) \<Rightarrow>
     let digits = show_nat (nat m);
         ds = rev (dropWhile (\<lambda>c. c = CHR ''0'') (rev digits));
         point = int (length digits) + place in
     if - 4 < point \<and> point \<le> 16 then positional ds point else scientific ds (point - 1))"

definition float_repr :: "rat \<Rightarrow> string" where
  "float_repr x = (if x = 0 then ''0.0'' else if x < 0 then ''-'' @ magnitude_repr (- x) else magnitude_repr x)"

end
