(* ===== verification/Json_Values.thy ===== *)
theory Json_Values
  imports Models Binary64
begin

text \<open>
  How Python values enter JSON in more than one component: instants as ISO text in UTC, floats by their
  shortest \<open>repr\<close>, lists of texts.
\<close>

text \<open>\<open>datetime.isoformat()\<close> in UTC: the proleptic Gregorian date of a day number, and the text.\<close>

definition civil_date :: "int \<Rightarrow> int \<times> int \<times> int" where
  "civil_date days = (let z = days + 719468; era = z div 146097; doe = z mod 146097;
     yoe = (doe - doe div 1460 + doe div 36524 - doe div 146096) div 365;
     doy = doe - (365 * yoe + yoe div 4 - yoe div 100);
     mp = (5 * doy + 2) div 153;
     month = (if mp < 10 then mp + 3 else mp - 9) in
     (yoe + era * 400 + (if month \<le> 2 then 1 else 0), month, doy - (153 * mp + 2) div 5 + 1))"

definition zero_padded :: "nat \<Rightarrow> int \<Rightarrow> string" where
  "zero_padded width n = (let s = show_int n in replicate (width - length s) (CHR ''0'') @ s)"

definition iso_utc :: "instant \<Rightarrow> string" where
  "iso_utc t = (case civil_date (t div 86400000000) of (y, m, d) \<Rightarrow>
     let s = (t div 1000000) mod 86400; micros = t mod 1000000 in
     zero_padded 4 y @ ''-'' @ zero_padded 2 m @ ''-'' @ zero_padded 2 d @ ''T'' @
     zero_padded 2 (s div 3600) @ '':'' @ zero_padded 2 (s div 60 mod 60) @ '':'' @ zero_padded 2 (s mod 60) @
     (if micros = 0 then [] else ''.'' @ zero_padded 6 micros) @ ''+00:00'')"

text \<open>How a dump shows a \<open>datetime\<close>: an object that is no text to the privacy check, its ISO text
  (\<open>_json_value\<close>) in canonical JSON.\<close>

definition python_time :: "instant \<Rightarrow> json" where "python_time t = JOpaque"
definition json_time :: "instant \<Rightarrow> json" where "json_time t = JStr (iso_utc t)"

definition json_float :: "rat \<Rightarrow> json" where "json_float x = JFloat (float_repr x)"

definition json_strs :: "string list \<Rightarrow> json" where "json_strs ss = JList (map JStr ss)"

end
