(* ===== verification/Lab_Schema.thy ===== *)
theory Lab_Schema
  imports Rca_Models Json_Values
begin

text \<open>
  \<open>telco_lab/schema.py\<close>: the versioned contracts of local dataset tests.  Detector inputs
  (\<open>lab_observation\<close>), ground truth (\<open>lab_episode\<close>) and detector output (\<open>predicted_episode\<close>) are
  distinct types; a manifest and its bundle bind them by content digests.  Field values are those
  after pydantic's coercion (stripped text, lower-case digests, UTC instants); a validator returns the
  message of the \<open>ValueError\<close> it raises, a violated field constraint the name of the field.  A
  \<open>datetime\<close> is the number of microseconds since 1970-01-01T00:00:00Z, a \<open>float\<close> a rational of
  \<open>Binary64\<close>, SHA-256 (\<open>hexdigest\<close> of the encoded text) the parameter \<open>h\<close>.
\<close>

section \<open>Constants and field types\<close>

definition LAB_SCHEMA_VERSION :: string where "LAB_SCHEMA_VERSION = ''1.0''"
definition LAB_BUNDLE_HASH_ALGORITHM :: string where
  "LAB_BUNDLE_HASH_ALGORITHM = ''sha256-canonical-json-lines-v1''"

definition MAX_METRICS_PER_OBSERVATION :: nat where "MAX_METRICS_PER_OBSERVATION = 64"
definition MAX_QUALITY_FLAGS :: nat where "MAX_QUALITY_FLAGS = 8"
definition MAX_EPISODE_FEATURES :: nat where "MAX_EPISODE_FEATURES = 32"
definition MAX_BUNDLE_OBSERVATIONS :: nat where "MAX_BUNDLE_OBSERVATIONS = 50000"
definition MAX_BUNDLE_EPISODES :: nat where "MAX_BUNDLE_EPISODES = 10000"
definition MAX_BUNDLE_RESOURCES :: nat where "MAX_BUNDLE_RESOURCES = 1000"
definition MAX_OBSERVATION_SERIALIZED_BYTES :: nat where "MAX_OBSERVATION_SERIALIZED_BYTES = 32 * 1024"
definition MAX_EPISODE_SERIALIZED_BYTES :: nat where "MAX_EPISODE_SERIALIZED_BYTES = 16 * 1024"
definition MAX_MANIFEST_SERIALIZED_BYTES :: nat where "MAX_MANIFEST_SERIALIZED_BYTES = 64 * 1024"
definition MAX_BUNDLE_SERIALIZED_BYTES :: nat where "MAX_BUNDLE_SERIALIZED_BYTES = 64 * 1024 * 1024"

definition EPISODE_LABEL :: string where "EPISODE_LABEL = ''persistent_interference''"

definition upper_char :: "char \<Rightarrow> bool" where
  "upper_char c = (let n = (of_char c :: nat) in 65 \<le> n \<and> n \<le> 90)"

definition alnum_char :: "char \<Rightarrow> bool" where
  "alnum_char c \<longleftrightarrow> lower_char c \<or> upper_char c \<or> digit_char c"

definition content_id_ok :: "string \<Rightarrow> bool" where
  "content_id_ok s \<longleftrightarrow> list_ex (\<lambda>kind. let p = ''lab'' @ kind @ ''-'' in
     take (length p) s = p \<and> length s = length p + 64 \<and> list_all lower_hex (drop (length p) s))
     [''obs'', ''truth'', ''pred'', ''bundle'', ''eval'']"

definition safe_name_ok :: "string \<Rightarrow> bool" where
  "safe_name_ok s \<longleftrightarrow> length s \<le> 128 \<and> (case s of [] \<Rightarrow> False | c # cs \<Rightarrow> alnum_char c \<and>
     list_all (\<lambda>c. alnum_char c \<or> c \<in> set ''._:-'') cs)"

text \<open>\<open>[a-z0-9]*(?:[._][a-z0-9]+)*\<close>; the flag says that a separator was just read.\<close>

fun metric_tail :: "bool \<Rightarrow> string \<Rightarrow> bool" where
  "metric_tail separated [] = (\<not> separated)"
| "metric_tail separated (c # cs) =
     (if lower_char c \<or> digit_char c then metric_tail False cs
      else c \<in> set ''._'' \<and> \<not> separated \<and> metric_tail True cs)"

definition metric_name_ok :: "string \<Rightarrow> bool" where
  "metric_name_ok s \<longleftrightarrow> length s \<le> 128 \<and>
     (case s of [] \<Rightarrow> False | c # cs \<Rightarrow> lower_char c \<and> metric_tail False cs)"

definition metric_unit_ok :: "string \<Rightarrow> bool" where
  "metric_unit_ok s \<longleftrightarrow> length s \<le> 32 \<and> (case s of [] \<Rightarrow> False | c # cs \<Rightarrow> (lower_char c \<or> upper_char c) \<and>
     list_all (\<lambda>c. alnum_char c \<or> c \<in> set ''._/-'') cs)"

definition lab_resource_ok :: "string \<Rightarrow> bool" where
  "lab_resource_ok s \<longleftrightarrow> list_ex (\<lambda>(t, r). let p = ''lab:'' @ t @ '':'' @ r @ '':'' in
     take (length p) s = p \<and> length s = length p + 24 \<and> list_all lower_hex (drop (length p) s))
     (List.product [''lte'', ''5g-nsa'', ''5g-sa''] [''enodeb'', ''gnb'', ''cell''])"

section \<open>Canonical JSON\<close>

definition stable_content_id :: "(string \<Rightarrow> string) \<Rightarrow> string \<Rightarrow> json \<Rightarrow> string" where
  "stable_content_id h kind value = ''lab'' @ kind @ ''-'' @
     h (''telco-lab:'' @ LAB_SCHEMA_VERSION @ '':'' @ kind @ [CHR 0x00] @ canonical_json_bytes value)"

definition lab_field :: "bool \<Rightarrow> string \<Rightarrow> string option" where
  "lab_field ok name = fail_if (\<not> ok) name"

section \<open>Observations\<close>

record lab_observation =
  lo_observation_id :: string
  lo_dataset_id :: string
  lo_dataset_version :: string
  lo_source_artifact_sha256 :: string
  lo_source_row_number :: int
  observed_at :: instant
  lo_resource_id :: string
  lo_technology :: technology
  metrics :: "(string, rat) dict"
  units :: "(string, string) dict"
  quality_flags :: "string list"

definition observation_identity :: "(instant \<Rightarrow> json) \<Rightarrow> lab_observation \<Rightarrow> (string \<times> json) list" where
  "observation_identity time obs = [
     (''dataset_id'', JStr (lo_dataset_id obs)), (''dataset_version'', JStr (lo_dataset_version obs)),
     (''source_artifact_sha256'', JStr (lo_source_artifact_sha256 obs)),
     (''source_row_number'', JInt (lo_source_row_number obs)), (''observed_at'', time (observed_at obs)),
     (''resource_id'', JStr (lo_resource_id obs)), (''technology'', JStr (technology_value (lo_technology obs))),
     (''metrics'', JObj (map (\<lambda>(k, v). (k, json_float v)) (metrics obs))),
     (''units'', JObj (map (\<lambda>(k, v). (k, JStr v)) (units obs))), (''quality_flags'', json_strs (quality_flags obs))]"

definition observation_dump :: "(instant \<Rightarrow> json) \<Rightarrow> lab_observation \<Rightarrow> json" where
  "observation_dump time obs = JObj ((''schema_version'', JStr LAB_SCHEMA_VERSION) #
     (''observation_id'', JStr (lo_observation_id obs)) # observation_identity time obs)"

definition validate_observation :: "(string \<Rightarrow> string) \<Rightarrow> lab_observation \<Rightarrow> string option" where
  "validate_observation h obs = first_error [
     lab_field (content_id_ok (lo_observation_id obs)) ''observation_id'',
     lab_field (safe_name_ok (lo_dataset_id obs)) ''dataset_id'',
     lab_field (safe_name_ok (lo_dataset_version obs)) ''dataset_version'',
     lab_field (rca_digest_ok (lo_source_artifact_sha256 obs)) ''source_artifact_sha256'',
     lab_field (2 \<le> lo_source_row_number obs \<and> lo_source_row_number obs \<le> 10000001) ''source_row_number'',
     lab_field (lab_resource_ok (lo_resource_id obs)) ''resource_id'',
     lab_field (1 \<le> length (metrics obs) \<and> length (metrics obs) \<le> MAX_METRICS_PER_OBSERVATION \<and>
       list_all (metric_name_ok \<circ> fst) (metrics obs)) ''metrics'',
     lab_field (1 \<le> length (units obs) \<and> length (units obs) \<le> MAX_METRICS_PER_OBSERVATION \<and>
       list_all (\<lambda>(k, v). metric_name_ok k \<and> metric_unit_ok v) (units obs)) ''units'',
     lab_field (length (quality_flags obs) \<le> MAX_QUALITY_FLAGS \<and> list_all safe_name_ok (quality_flags obs))
       ''quality_flags'',
     assert_model_safe (observation_dump python_time obs),
     fail_if (fst ` set (metrics obs) \<noteq> fst ` set (units obs)) ''metric values and units must have identical names'',
     fail_if (quality_flags obs \<noteq> sorted_set (quality_flags obs)) ''quality_flags must be unique and sorted'',
     fail_if (utf8_length (canonical_json_bytes (observation_dump json_time obs)) > MAX_OBSERVATION_SERIALIZED_BYTES)
       ''lab observation exceeds its serialized size budget'',
     fail_if (stable_content_id h ''obs'' (JObj (observation_identity json_time obs)) \<noteq> lo_observation_id obs)
       ''observation content identifier does not match content'']"

section \<open>Episodes\<close>

record lab_episode =
  episode_id :: string
  ep_dataset_id :: string
  ep_dataset_version :: string
  ep_source_artifact_sha256 :: string
  ep_resource_id :: string
  ep_label :: string
  ep_window_start :: instant
  ep_window_end :: instant
  ep_sample_count :: int
  first_observation_id :: string
  last_observation_id :: string

definition episode_identity :: "(instant \<Rightarrow> json) \<Rightarrow> lab_episode \<Rightarrow> (string \<times> json) list" where
  "episode_identity time e = [
     (''dataset_id'', JStr (ep_dataset_id e)), (''dataset_version'', JStr (ep_dataset_version e)),
     (''source_artifact_sha256'', JStr (ep_source_artifact_sha256 e)), (''resource_id'', JStr (ep_resource_id e)),
     (''label'', JStr (ep_label e)), (''window_start'', time (ep_window_start e)),
     (''window_end'', time (ep_window_end e)), (''sample_count'', JInt (ep_sample_count e)),
     (''first_observation_id'', JStr (first_observation_id e)),
     (''last_observation_id'', JStr (last_observation_id e))]"

definition episode_dump :: "(instant \<Rightarrow> json) \<Rightarrow> lab_episode \<Rightarrow> json" where
  "episode_dump time e = JObj ((''schema_version'', JStr LAB_SCHEMA_VERSION) #
     (''episode_id'', JStr (episode_id e)) # (''origin'', JStr ''GROUND_TRUTH'') # episode_identity time e)"

text \<open>\<open>int(delta.total_seconds())\<close>: the quotient of the microseconds as a float, truncated.\<close>

definition whole_seconds :: "int \<Rightarrow> int" where
  "whole_seconds micros = \<lfloor>fl (of_int micros / 1000000)\<rfloor>"

definition validate_episode :: "(string \<Rightarrow> string) \<Rightarrow> lab_episode \<Rightarrow> string option" where
  "validate_episode h e = first_error [
     lab_field (content_id_ok (episode_id e)) ''episode_id'',
     lab_field (safe_name_ok (ep_dataset_id e)) ''dataset_id'',
     lab_field (safe_name_ok (ep_dataset_version e)) ''dataset_version'',
     lab_field (rca_digest_ok (ep_source_artifact_sha256 e)) ''source_artifact_sha256'',
     lab_field (lab_resource_ok (ep_resource_id e)) ''resource_id'',
     lab_field (ep_label e = EPISODE_LABEL) ''label'',
     lab_field (1 \<le> ep_sample_count e \<and> ep_sample_count e \<le> int MAX_BUNDLE_OBSERVATIONS) ''sample_count'',
     lab_field (content_id_ok (first_observation_id e)) ''first_observation_id'',
     lab_field (content_id_ok (last_observation_id e)) ''last_observation_id'',
     assert_model_safe (episode_dump python_time e),
     fail_if (ep_window_end e < ep_window_start e) ''episode window_end must not precede window_start'',
     fail_if (whole_seconds (ep_window_end e - ep_window_start e) + 1 \<noteq> ep_sample_count e)
       ''ground-truth episode samples must be one-second contiguous'',
     fail_if (utf8_length (canonical_json_bytes (episode_dump json_time e)) > MAX_EPISODE_SERIALIZED_BYTES)
       ''lab episode exceeds its serialized size budget'',
     fail_if (stable_content_id h ''truth'' (JObj (episode_identity json_time e)) \<noteq> episode_id e)
       ''episode content identifier does not match content'']"

record predicted_episode =
  prediction_id :: string
  pe_dataset_id :: string
  pe_dataset_version :: string
  pe_source_artifact_sha256 :: string
  source_item_number :: int
  pe_resource_id :: string
  pe_label :: string
  pe_window_start :: instant
  pe_window_end :: instant
  detected_at :: instant
  detector_id :: string
  score :: rat
  features :: "string list"

definition prediction_identity :: "(instant \<Rightarrow> json) \<Rightarrow> predicted_episode \<Rightarrow> (string \<times> json) list" where
  "prediction_identity time p = [
     (''dataset_id'', JStr (pe_dataset_id p)), (''dataset_version'', JStr (pe_dataset_version p)),
     (''source_artifact_sha256'', JStr (pe_source_artifact_sha256 p)),
     (''source_item_number'', JInt (source_item_number p)), (''resource_id'', JStr (pe_resource_id p)),
     (''label'', JStr (pe_label p)), (''window_start'', time (pe_window_start p)),
     (''window_end'', time (pe_window_end p)), (''detected_at'', time (detected_at p)),
     (''detector_id'', JStr (detector_id p)), (''score'', json_float (score p)),
     (''features'', json_strs (features p))]"

definition prediction_dump :: "(instant \<Rightarrow> json) \<Rightarrow> predicted_episode \<Rightarrow> json" where
  "prediction_dump time p = JObj ((''schema_version'', JStr LAB_SCHEMA_VERSION) #
     (''prediction_id'', JStr (prediction_id p)) # (''origin'', JStr ''PREDICTION'') # prediction_identity time p)"

definition validate_prediction :: "(string \<Rightarrow> string) \<Rightarrow> predicted_episode \<Rightarrow> string option" where
  "validate_prediction h p = first_error [
     lab_field (content_id_ok (prediction_id p)) ''prediction_id'',
     lab_field (safe_name_ok (pe_dataset_id p)) ''dataset_id'',
     lab_field (safe_name_ok (pe_dataset_version p)) ''dataset_version'',
     lab_field (rca_digest_ok (pe_source_artifact_sha256 p)) ''source_artifact_sha256'',
     lab_field (1 \<le> source_item_number p \<and> source_item_number p \<le> 1000000) ''source_item_number'',
     lab_field (lab_resource_ok (pe_resource_id p)) ''resource_id'',
     lab_field (pe_label p = EPISODE_LABEL) ''label'',
     lab_field (safe_name_ok (detector_id p)) ''detector_id'',
     lab_field (0 \<le> score p) ''score'',
     lab_field (length (features p) \<le> MAX_EPISODE_FEATURES \<and> list_all metric_name_ok (features p)) ''features'',
     assert_model_safe (prediction_dump python_time p),
     fail_if (pe_window_end p < pe_window_start p) ''prediction window_end must not precede window_start'',
     fail_if (detected_at p < pe_window_end p) ''prediction detected_at must not precede window_end'',
     fail_if (features p \<noteq> sorted_set (features p)) ''prediction features must be unique and sorted'',
     fail_if (utf8_length (canonical_json_bytes (prediction_dump json_time p)) > MAX_EPISODE_SERIALIZED_BYTES)
       ''predicted episode exceeds its serialized size budget'',
     fail_if (stable_content_id h ''pred'' (JObj (prediction_identity json_time p)) \<noteq> prediction_id p)
       ''prediction content identifier does not match content'']"

section \<open>Bundles\<close>

record lab_manifest =
  bundle_id :: string
  mf_dataset_id :: string
  mf_dataset_version :: string
  mf_source_artifact_sha256 :: string
  source_license :: string
  adapter_id :: string
  adapter_version :: string
  content_sha256 :: string
  observation_count :: int
  ground_truth_episode_count :: int
  mf_window_start :: instant
  mf_window_end :: instant
  resource_ids :: "string list"
  metric_names :: "string list"

definition manifest_identity :: "(instant \<Rightarrow> json) \<Rightarrow> lab_manifest \<Rightarrow> (string \<times> json) list" where
  "manifest_identity time m = [
     (''dataset_id'', JStr (mf_dataset_id m)), (''dataset_version'', JStr (mf_dataset_version m)),
     (''source_artifact_sha256'', JStr (mf_source_artifact_sha256 m)),
     (''source_license'', JStr (source_license m)), (''adapter_id'', JStr (adapter_id m)),
     (''adapter_version'', JStr (adapter_version m)),
     (''content_hash_algorithm'', JStr LAB_BUNDLE_HASH_ALGORITHM), (''content_sha256'', JStr (content_sha256 m)),
     (''observation_count'', JInt (observation_count m)),
     (''ground_truth_episode_count'', JInt (ground_truth_episode_count m)),
     (''window_start'', time (mf_window_start m)), (''window_end'', time (mf_window_end m)),
     (''resource_ids'', json_strs (resource_ids m)), (''metric_names'', json_strs (metric_names m))]"

definition manifest_dump :: "(instant \<Rightarrow> json) \<Rightarrow> lab_manifest \<Rightarrow> json" where
  "manifest_dump time m = JObj ((''schema_version'', JStr LAB_SCHEMA_VERSION) #
     (''bundle_id'', JStr (bundle_id m)) # manifest_identity time m)"

definition validate_manifest :: "lab_manifest \<Rightarrow> string option" where
  "validate_manifest m = first_error [
     lab_field (content_id_ok (bundle_id m)) ''bundle_id'',
     lab_field (safe_name_ok (mf_dataset_id m)) ''dataset_id'',
     lab_field (safe_name_ok (mf_dataset_version m)) ''dataset_version'',
     lab_field (rca_digest_ok (mf_source_artifact_sha256 m)) ''source_artifact_sha256'',
     lab_field (safe_name_ok (source_license m)) ''source_license'',
     lab_field (safe_name_ok (adapter_id m)) ''adapter_id'',
     lab_field (safe_name_ok (adapter_version m)) ''adapter_version'',
     lab_field (rca_digest_ok (content_sha256 m)) ''content_sha256'',
     lab_field (1 \<le> observation_count m \<and> observation_count m \<le> int MAX_BUNDLE_OBSERVATIONS) ''observation_count'',
     lab_field (0 \<le> ground_truth_episode_count m \<and> ground_truth_episode_count m \<le> int MAX_BUNDLE_EPISODES)
       ''ground_truth_episode_count'',
     lab_field (1 \<le> length (resource_ids m) \<and> length (resource_ids m) \<le> MAX_BUNDLE_RESOURCES \<and>
       list_all lab_resource_ok (resource_ids m)) ''resource_ids'',
     lab_field (1 \<le> length (metric_names m) \<and> length (metric_names m) \<le> MAX_METRICS_PER_OBSERVATION \<and>
       list_all metric_name_ok (metric_names m)) ''metric_names'',
     assert_model_safe (manifest_dump python_time m),
     fail_if (mf_window_end m < mf_window_start m) ''manifest window_end must not precede window_start'',
     fail_if (resource_ids m \<noteq> sorted_set (resource_ids m)) ''manifest resource_ids must be unique and sorted'',
     fail_if (metric_names m \<noteq> sorted_set (metric_names m)) ''manifest metric_names must be unique and sorted'',
     fail_if (utf8_length (canonical_json_bytes (manifest_dump json_time m)) > MAX_MANIFEST_SERIALIZED_BYTES)
       ''lab manifest exceeds its serialized size budget'']"

text \<open>The text hashed item by item by \<open>compute_bundle_content_sha256\<close>.\<close>

definition content_line :: "string \<Rightarrow> json \<Rightarrow> string" where
  "content_line kind value = kind @ [CHR 0x00] @ canonical_json_bytes value @ [CHR 0x0A]"

definition compute_bundle_content_sha256 :: "(string \<Rightarrow> string) \<Rightarrow> lab_observation list \<Rightarrow> lab_episode list
    \<Rightarrow> string" where
  "compute_bundle_content_sha256 h os es = h (''telco-lab:'' @ LAB_SCHEMA_VERSION @ '':bundle-content'' @ [CHR 0x00] @
     concat (map (content_line ''observation'' \<circ> observation_dump json_time) os) @
     concat (map (content_line ''ground-truth'' \<circ> episode_dump json_time) es))"

record lab_bundle =
  manifest :: lab_manifest
  observations :: "lab_observation list"
  ground_truth_episodes :: "lab_episode list"

definition bundle_dump :: "(instant \<Rightarrow> json) \<Rightarrow> lab_bundle \<Rightarrow> json" where
  "bundle_dump time b = JObj [(''schema_version'', JStr LAB_SCHEMA_VERSION),
     (''manifest'', manifest_dump time (manifest b)),
     (''observations'', JList (map (observation_dump time) (observations b))),
     (''ground_truth_episodes'', JList (map (episode_dump time) (ground_truth_episodes b)))]"

text \<open>The loop over \<open>zip(ordered_episodes, ordered_episodes[1:])\<close>.\<close>

definition touching :: "lab_episode \<Rightarrow> lab_episode \<Rightarrow> bool" where
  "touching previous current \<longleftrightarrow> ep_resource_id previous = ep_resource_id current \<and>
     ep_label previous = ep_label current \<and> ep_window_start current \<le> ep_window_end previous + 1000000"

definition ordered_episodes :: "lab_episode list \<Rightarrow> lab_episode list" where
  "ordered_episodes = sort_key (\<lambda>e. (ep_resource_id e, ep_label e, ep_window_start e))"

definition bundle_bytes :: "lab_bundle \<Rightarrow> nat" where
  "bundle_bytes b = utf8_length (canonical_json_bytes (manifest_dump json_time (manifest b))) +
     sum_list (map (\<lambda>obs. utf8_length (canonical_json_bytes (observation_dump json_time obs))) (observations b)) +
     sum_list (map (\<lambda>e. utf8_length (canonical_json_bytes (episode_dump json_time e))) (ground_truth_episodes b))"

definition provenance_ok :: "lab_bundle \<Rightarrow> bool" where
  "provenance_ok b = (let m = manifest b; scope = (mf_dataset_id m, mf_dataset_version m, mf_source_artifact_sha256 m) in
     list_all (\<lambda>obs. (lo_dataset_id obs, lo_dataset_version obs, lo_source_artifact_sha256 obs) = scope) (observations b) \<and>
     list_all (\<lambda>e. (ep_dataset_id e, ep_dataset_version e, ep_source_artifact_sha256 e) = scope)
       (ground_truth_episodes b))"

definition validate_bundle :: "(string \<Rightarrow> string) \<Rightarrow> lab_bundle \<Rightarrow> string option" where
  "validate_bundle h b = (let m = manifest b; os = observations b; es = ground_truth_episodes b in first_error ([
     validate_manifest m,
     lab_field (1 \<le> length os \<and> length os \<le> MAX_BUNDLE_OBSERVATIONS) ''observations''] @
     map (validate_observation h) os @
     [lab_field (length es \<le> MAX_BUNDLE_EPISODES) ''ground_truth_episodes''] @
     map (validate_episode h) es @
     [assert_model_safe (bundle_dump python_time b),
     fail_if (observation_count m \<noteq> int (length os)) ''manifest observation count does not match bundle'',
     fail_if (ground_truth_episode_count m \<noteq> int (length es)) ''manifest episode count does not match bundle'',
     fail_if (\<not> distinct (map lo_observation_id os)) ''bundle observations must have unique content identifiers'',
     fail_if (\<not> distinct (map episode_id es)) ''bundle episodes must have unique content identifiers'',
     fail_if (\<not> provenance_ok b) ''bundle items must match manifest provenance'',
     fail_if (sorted_set (map lo_resource_id os) \<noteq> resource_ids m \<or>
       sorted_set (concat (map (map fst \<circ> metrics) os)) \<noteq> metric_names m)
       ''bundle projection does not match manifest scope'',
     fail_if (Min (set (map observed_at os)) \<noteq> mf_window_start m) ''bundle start does not match manifest'',
     fail_if (Max (set (map observed_at os)) \<noteq> mf_window_end m) ''bundle end does not match manifest'',
     fail_if (compute_bundle_content_sha256 h os es \<noteq> content_sha256 m)
       ''bundle content checksum does not match manifest'',
     fail_if (stable_content_id h ''bundle'' (JObj (manifest_identity json_time m)) \<noteq> bundle_id m)
       ''bundle content identifier does not match manifest'',
     fail_if (\<not> successively (\<lambda>p c. \<not> touching p c) (ordered_episodes es))
       ''ground-truth episodes must be maximally contiguous'',
     fail_if (bundle_bytes b > MAX_BUNDLE_SERIALIZED_BYTES) ''lab bundle exceeds its cumulative size budget'']))"

section \<open>Evaluations\<close>

record episode_match =
  ground_truth_episode_id :: string
  match_prediction_id :: string
  match_iou :: rat

definition match_dump :: "episode_match \<Rightarrow> json" where
  "match_dump m = JObj [(''schema_version'', JStr LAB_SCHEMA_VERSION),
     (''ground_truth_episode_id'', JStr (ground_truth_episode_id m)),
     (''prediction_id'', JStr (match_prediction_id m)), (''temporal_iou'', json_float (match_iou m))]"

definition share_ok :: "rat \<Rightarrow> bool" where
  "share_ok x \<longleftrightarrow> 0 \<le> x \<and> x \<le> 1"

definition validate_match :: "episode_match \<Rightarrow> string option" where
  "validate_match m = first_error [
     lab_field (content_id_ok (ground_truth_episode_id m)) ''ground_truth_episode_id'',
     lab_field (content_id_ok (match_prediction_id m)) ''prediction_id'',
     lab_field (share_ok (match_iou m)) ''temporal_iou'',
     assert_model_safe (match_dump m)]"

record episode_evaluation =
  evaluation_id :: string
  overlap_threshold :: rat
  ground_truth_count :: int
  prediction_count :: int
  true_positives :: int
  false_positives :: int
  false_negatives :: int
  precision :: rat
  recall :: rat
  f1 :: rat
  duration_precision :: rat
  duration_recall :: rat
  duration_f1 :: rat
  mean_matched_iou :: rat
  matches :: "episode_match list"

text \<open>The fields of a report in the order of \<open>report_payload\<close>, the matches last.\<close>

definition EVALUATION_ALGORITHM :: string where "EVALUATION_ALGORITHM = ''temporal-iou-one-to-one-v1''"

definition report_payload :: "episode_evaluation \<Rightarrow> (string \<times> json) list" where
  "report_payload r = [(''algorithm'', JStr EVALUATION_ALGORITHM),
     (''overlap_threshold'', json_float (overlap_threshold r)),
     (''ground_truth_count'', JInt (ground_truth_count r)), (''prediction_count'', JInt (prediction_count r)),
     (''true_positives'', JInt (true_positives r)), (''false_positives'', JInt (false_positives r)),
     (''false_negatives'', JInt (false_negatives r)), (''precision'', json_float (precision r)),
     (''recall'', json_float (recall r)), (''f1'', json_float (f1 r)),
     (''duration_precision'', json_float (duration_precision r)),
     (''duration_recall'', json_float (duration_recall r)), (''duration_f1'', json_float (duration_f1 r)),
     (''mean_matched_iou'', json_float (mean_matched_iou r)), (''matches'', JList (map match_dump (matches r)))]"

definition evaluation_dump :: "episode_evaluation \<Rightarrow> json" where
  "evaluation_dump r = JObj ((''schema_version'', JStr LAB_SCHEMA_VERSION) #
     (''evaluation_id'', JStr (evaluation_id r)) # report_payload r)"

definition validate_evaluation :: "episode_evaluation \<Rightarrow> string option" where
  "validate_evaluation r = first_error ([
     lab_field (content_id_ok (evaluation_id r)) ''evaluation_id'',
     lab_field (0 < overlap_threshold r \<and> overlap_threshold r \<le> 1) ''overlap_threshold'',
     lab_field (0 \<le> ground_truth_count r \<and> ground_truth_count r \<le> int MAX_BUNDLE_EPISODES) ''ground_truth_count'',
     lab_field (0 \<le> prediction_count r \<and> prediction_count r \<le> int MAX_BUNDLE_EPISODES) ''prediction_count'',
     lab_field (0 \<le> true_positives r) ''true_positives'', lab_field (0 \<le> false_positives r) ''false_positives'',
     lab_field (0 \<le> false_negatives r) ''false_negatives'', lab_field (share_ok (precision r)) ''precision'',
     lab_field (share_ok (recall r)) ''recall'', lab_field (share_ok (f1 r)) ''f1'',
     lab_field (share_ok (duration_precision r)) ''duration_precision'',
     lab_field (share_ok (duration_recall r)) ''duration_recall'',
     lab_field (share_ok (duration_f1 r)) ''duration_f1'',
     lab_field (share_ok (mean_matched_iou r)) ''mean_matched_iou'',
     lab_field (length (matches r) \<le> MAX_BUNDLE_EPISODES) ''matches''] @
     map validate_match (matches r) @
     [assert_model_safe (evaluation_dump r),
     fail_if (true_positives r + false_negatives r \<noteq> ground_truth_count r)
       ''evaluation ground-truth counts are inconsistent'',
     fail_if (true_positives r + false_positives r \<noteq> prediction_count r)
       ''evaluation prediction counts are inconsistent'',
     fail_if (int (length (matches r)) \<noteq> true_positives r) ''evaluation matches do not equal true positives'',
     fail_if (\<not> distinct (map ground_truth_episode_id (matches r)) \<or> \<not> distinct (map match_prediction_id (matches r)))
       ''evaluation matches must be one-to-one''])"

end
