(* ===== verification/Episode_Evaluation.thy ===== *)
theory Episode_Evaluation
  imports Lab_Schema Rca_Ranking "HOL-Library.While_Combinator"
begin

text \<open>
  \<open>telco_lab/evaluation.py\<close>: deterministic evaluation of explicit detector predictions against
  labels.  Overlapping pairs are enumerated by a sweep over the start and end events of every resource
  and label, the best pairs are selected greedily, and durations are compared on merged intervals.  A
  supplied sequence is what its \<open>len\<close> and its item access return (\<open>None\<close> for an exception); the two
  index loops over merged intervals is a \<open>while_option\<close>, whose \<open>None\<close> is a loop that never ends.
\<close>

definition MAX_EVALUATION_CANDIDATES :: nat where "MAX_EVALUATION_CANDIDATES = 100000"

section \<open>Supplied values\<close>

record 'a py_sequence =
  seq_len :: "nat option"
  seq_item :: "nat \<Rightarrow> 'a py_object option"

datatype 'a sequence_arg = Sequence_arg "'a py_sequence" | Not_sequence

text \<open>\<open>seq_len\<close> is the length, or \<open>None\<close> when \<open>len\<close> raises one of the three errors that are caught; a
  sequence whose \<open>len\<close> raises anything else is outside the model.\<close>

definition bounded_sequence :: "'a sequence_arg \<Rightarrow> evaluation_error + 'a list" where
  "bounded_sequence value = (case value of
     Not_sequence \<Rightarrow> Inl evaluation_invalid_input
   | Sequence_arg s \<Rightarrow> (case seq_len s of
       None \<Rightarrow> Inl evaluation_invalid_input
     | Some item_count \<Rightarrow>
         if item_count > MAX_BUNDLE_EPISODES then Inl evaluation_limit_exceeded
         else let items = map (seq_item s) [0..<item_count] in
           if list_ex (\<lambda>x. x = None) items then Inl evaluation_invalid_input
           else if list_ex (\<lambda>x. x = Some Other_type) items then Inl evaluation_type_confusion
           else Inr (List.map_filter (\<lambda>x. case x of Some (Exact v) \<Rightarrow> Some v | _ \<Rightarrow> None) items)))"

text \<open>The threshold: an \<open>int\<close>, a finite \<open>float\<close>, another \<open>float\<close>, or a value of another type (\<open>bool\<close>
  among them).  \<open>float(n)\<close> of an integer that rounds to \<open>2 ** 1024\<close> or beyond is an \<open>OverflowError\<close>.\<close>

datatype threshold_arg = Int_threshold int | Float_threshold rat | Infinite_threshold | Other_threshold

definition validated_threshold :: "threshold_arg \<Rightarrow> rca_failure + rat" where
  "validated_threshold value = (case (case value of
       Int_threshold n \<Rightarrow> (if 2 powi 1024 \<le> \<bar>fl (of_int n)\<bar> then Inl Other_exception else Inr (Some (fl (of_int n))))
     | Float_threshold x \<Rightarrow> Inr (Some x)
     | Infinite_threshold \<Rightarrow> Inr None
     | Other_threshold \<Rightarrow> Inr None) of
     Inl e \<Rightarrow> Inl e
   | Inr None \<Rightarrow> Inl (Evaluation_error evaluation_invalid_input)
   | Inr (Some threshold) \<Rightarrow>
       if \<not> (0 < threshold \<and> threshold \<le> 1) then Inl (Evaluation_error evaluation_invalid_input)
       else Inr threshold)"

section \<open>Intervals\<close>

type_synonym interval = "instant \<times> instant"
type_synonym group = "string \<times> string"

text \<open>\<open>timedelta(...).total_seconds()\<close>.\<close>

definition seconds :: "int \<Rightarrow> rat" where
  "seconds micros = fl (of_int micros / 1000000)"

definition inclusive_interval :: "instant \<Rightarrow> instant \<Rightarrow> interval" where
  "inclusive_interval start stop = (start, stop + 1000000)"

definition truth_interval :: "lab_episode \<Rightarrow> interval" where
  "truth_interval e = inclusive_interval (ep_window_start e) (ep_window_end e)"

definition prediction_interval :: "predicted_episode \<Rightarrow> interval" where
  "prediction_interval p = inclusive_interval (pe_window_start p) (pe_window_end p)"

definition truth_group :: "lab_episode \<Rightarrow> group" where
  "truth_group e = (ep_resource_id e, ep_label e)"

definition prediction_group :: "predicted_episode \<Rightarrow> group" where
  "prediction_group p = (pe_resource_id p, pe_label p)"

definition overlap_seconds :: "interval \<Rightarrow> interval \<Rightarrow> rat" where
  "overlap_seconds i j = max 0 (seconds (min (snd i) (snd j) - max (fst i) (fst j)))"

definition temporal_iou :: "lab_episode \<Rightarrow> predicted_episode \<Rightarrow> rat" where
  "temporal_iou truth prediction =
     (if truth_group truth \<noteq> prediction_group prediction then 0
      else let i = truth_interval truth; j = prediction_interval prediction;
               intersection_seconds = overlap_seconds i j in
        if intersection_seconds = 0 then 0
        else let union_seconds = seconds (max (snd i) (snd j) - min (fst i) (fst j)) in
          fl (intersection_seconds / union_seconds))"

definition metric :: "rat \<Rightarrow> rat \<Rightarrow> bool \<Rightarrow> rat" where
  "metric numerator denominator both_empty =
     (if denominator = 0 then if both_empty then 1 else 0 else fl (numerator / denominator))"

definition f1_score :: "rat \<Rightarrow> rat \<Rightarrow> rat" where
  "f1_score p r = (if fl (p + r) = 0 then 0 else fl (fl (fl (2 * p) * r) / fl (p + r)))"

definition rounded :: "rat \<Rightarrow> rat" where
  "rounded value = py_round 12 value"

text \<open>\<open>defaultdict(list)\<close>: \<open>d[k].append(v)\<close>.\<close>

definition append_to :: "'k \<Rightarrow> 'v \<Rightarrow> ('k, 'v list) dict \<Rightarrow> ('k, 'v list) dict" where
  "append_to k v d = AList.update k (get_or_empty k d @ [v]) d"

definition grouped :: "('a \<Rightarrow> 'k) \<Rightarrow> ('a \<Rightarrow> 'v) \<Rightarrow> 'a list \<Rightarrow> ('k, 'v list) dict" where
  "grouped key val items = foldl (\<lambda>d x. append_to (key x) (val x) d) [] items"

definition merge_interval :: "interval list \<Rightarrow> interval \<Rightarrow> interval list" where
  "merge_interval merged i =
     (if merged = [] \<or> fst i > snd (last merged) then merged @ [i]
      else butlast merged @ [(fst (last merged), max (snd (last merged)) (snd i))])"

definition merge_intervals :: "interval list \<Rightarrow> interval list" where
  "merge_intervals intervals = foldl merge_interval [] (sort intervals)"

definition merged_intervals :: "('a \<Rightarrow> group) \<Rightarrow> ('a \<Rightarrow> interval) \<Rightarrow> 'a list \<Rightarrow> (group, interval list) dict" where
  "merged_intervals key interval_of episodes =
     map (\<lambda>(k, intervals). (k, merge_intervals intervals)) (grouped key interval_of episodes)"

definition total_seconds_of :: "(group, interval list) dict \<Rightarrow> rat" where
  "total_seconds_of groups =
     py_sum (concat (map (\<lambda>(k, intervals). map (\<lambda>(start, stop). seconds (stop - start)) intervals) groups))"

text \<open>The loop over two lists of merged intervals: the two indices and the seconds found so far.\<close>

definition overlap_continues :: "interval list \<Rightarrow> interval list \<Rightarrow> nat \<times> nat \<times> rat \<Rightarrow> bool" where
  "overlap_continues ts ps = (\<lambda>(i, j, result). i < length ts \<and> j < length ps)"

definition overlap_step :: "interval list \<Rightarrow> interval list \<Rightarrow> nat \<times> nat \<times> rat \<Rightarrow> nat \<times> nat \<times> rat" where
  "overlap_step ts ps = (\<lambda>(i, j, result).
     let result = fl (result + overlap_seconds (ts ! i) (ps ! j)) in
     if snd (ts ! i) \<le> snd (ps ! j) then (i + 1, j, result) else (i, j + 1, result))"

definition overlap_loop :: "interval list \<Rightarrow> interval list \<Rightarrow> rat \<Rightarrow> rat option" where
  "overlap_loop ts ps result =
     map_option (snd \<circ> snd) (while_option (overlap_continues ts ps) (overlap_step ts ps) (0, 0, result))"

fun overlap_groups :: "(group, interval list) dict \<Rightarrow> (group, interval list) dict \<Rightarrow> group list \<Rightarrow> rat
    \<Rightarrow> rat option" where
  "overlap_groups truth predictions [] result = Some result"
| "overlap_groups truth predictions (k # ks) result =
     (case overlap_loop (get_or_empty k truth) (get_or_empty k predictions) result of
        None \<Rightarrow> None
      | Some result \<Rightarrow> overlap_groups truth predictions ks result)"

definition intersection_seconds :: "(group, interval list) dict \<Rightarrow> (group, interval list) dict \<Rightarrow> rat option" where
  "intersection_seconds truth predictions =
     overlap_groups truth predictions (sorted_list_of_set (fst ` set truth \<inter> fst ` set predictions)) 0"

section \<open>The sweep\<close>

datatype sweep_item = Truth lab_episode | Prediction predicted_episode

type_synonym sweep_event = "instant \<times> nat \<times> string \<times> sweep_item"

text \<open>\<open>groups[...]["truth"].append(truth)\<close>, then the predictions.\<close>

definition group_entry :: "group \<Rightarrow> (group, 'a list \<times> 'b list) dict \<Rightarrow> 'a list \<times> 'b list" where
  "group_entry k d = (case map_of d k of None \<Rightarrow> ([], []) | Some v \<Rightarrow> v)"

definition add_truth :: "(group, lab_episode list \<times> predicted_episode list) dict \<Rightarrow> lab_episode
    \<Rightarrow> (group, lab_episode list \<times> predicted_episode list) dict" where
  "add_truth d t = (case group_entry (truth_group t) d of (ts, ps) \<Rightarrow> AList.update (truth_group t) (ts @ [t], ps) d)"

definition add_prediction :: "(group, lab_episode list \<times> predicted_episode list) dict \<Rightarrow> predicted_episode
    \<Rightarrow> (group, lab_episode list \<times> predicted_episode list) dict" where
  "add_prediction d p =
     (case group_entry (prediction_group p) d of (ts, ps) \<Rightarrow> AList.update (prediction_group p) (ts, ps @ [p]) d)"

definition episode_groups :: "lab_episode list \<Rightarrow> predicted_episode list
    \<Rightarrow> (group, lab_episode list \<times> predicted_episode list) dict" where
  "episode_groups truths predictions = foldl add_prediction (foldl add_truth [] truths) predictions"

definition truth_events :: "lab_episode \<Rightarrow> sweep_event list" where
  "truth_events t = [(snd (truth_interval t), 0, episode_id t, Truth t),
     (fst (truth_interval t), 1, episode_id t, Truth t)]"

definition prediction_events :: "predicted_episode \<Rightarrow> sweep_event list" where
  "prediction_events p = [(snd (prediction_interval p), 0, prediction_id p, Prediction p),
     (fst (prediction_interval p), 2, prediction_id p, Prediction p)]"

definition event_key :: "sweep_event \<Rightarrow> instant \<times> nat \<times> string" where
  "event_key e = (case e of (t, phase, i, item) \<Rightarrow> (t, phase, i))"

definition group_events :: "lab_episode list \<Rightarrow> predicted_episode list \<Rightarrow> sweep_event list" where
  "group_events truths predictions = sort_key event_key
     (concat (map truth_events truths) @ concat (map prediction_events predictions))"

type_synonym candidate = "rat \<times> string \<times> string \<times> lab_episode \<times> predicted_episode"

record sweep_state =
  active_truth :: "(string, lab_episode) dict"
  active_predictions :: "(string, predicted_episode) dict"
  evaluated_pairs :: nat
  sweep_candidates :: "candidate list"

definition consider_pair :: "rat \<Rightarrow> lab_episode \<times> predicted_episode \<Rightarrow> sweep_state \<Rightarrow> evaluation_error + sweep_state" where
  "consider_pair threshold pair s = (case pair of (truth, prediction) \<Rightarrow>
     if evaluated_pairs s \<ge> MAX_EVALUATION_CANDIDATES then Inl evaluation_limit_exceeded
     else let overlap = temporal_iou truth prediction;
              s = s\<lparr>evaluated_pairs := evaluated_pairs s + 1\<rparr> in
       Inr (if overlap \<ge> threshold
         then s\<lparr>sweep_candidates := sweep_candidates s @
           [(overlap, episode_id truth, prediction_id prediction, truth, prediction)]\<rparr>
         else s))"

fun consider_all :: "rat \<Rightarrow> (lab_episode \<times> predicted_episode) list \<Rightarrow> sweep_state \<Rightarrow> evaluation_error + sweep_state" where
  "consider_all threshold [] s = Inr s"
| "consider_all threshold (pair # pairs) s =
     (case consider_pair threshold pair s of Inl e \<Rightarrow> Inl e | Inr s \<Rightarrow> consider_all threshold pairs s)"

text \<open>\<open>sorted(d)\<close> and the values at those keys.\<close>

definition values_in_order :: "(string, 'v) dict \<Rightarrow> 'v list" where
  "values_in_order d = map (\<lambda>k. the (map_of d k)) (sort (map fst d))"

definition sweep_step :: "rat \<Rightarrow> sweep_event \<Rightarrow> sweep_state \<Rightarrow> evaluation_error + sweep_state" where
  "sweep_step threshold event s = (case event of (t, phase, item_id, item) \<Rightarrow>
     if phase = 0 then Inr (case item of
         Truth _ \<Rightarrow> s\<lparr>active_truth := AList.delete item_id (active_truth s)\<rparr>
       | Prediction _ \<Rightarrow> s\<lparr>active_predictions := AList.delete item_id (active_predictions s)\<rparr>)
     else if phase = 1 then (case item of
         Prediction _ \<Rightarrow> Inl evaluation_invalid_input
       | Truth truth \<Rightarrow>
           (case consider_all threshold (map (\<lambda>p. (truth, p)) (values_in_order (active_predictions s))) s of
              Inl e \<Rightarrow> Inl e
            | Inr s \<Rightarrow> Inr (s\<lparr>active_truth := AList.update item_id truth (active_truth s)\<rparr>)))
     else (case item of
         Truth _ \<Rightarrow> Inl evaluation_invalid_input
       | Prediction prediction \<Rightarrow>
           (case consider_all threshold (map (\<lambda>t. (t, prediction)) (values_in_order (active_truth s))) s of
              Inl e \<Rightarrow> Inl e
            | Inr s \<Rightarrow> Inr (s\<lparr>active_predictions :=
                AList.update item_id prediction (active_predictions s)\<rparr>))))"

fun sweep_events :: "rat \<Rightarrow> sweep_event list \<Rightarrow> sweep_state \<Rightarrow> evaluation_error + sweep_state" where
  "sweep_events threshold [] s = Inr s"
| "sweep_events threshold (e # es) s =
     (case sweep_step threshold e s of Inl err \<Rightarrow> Inl err | Inr s \<Rightarrow> sweep_events threshold es s)"

text \<open>The loop over the sorted groups; both dictionaries start empty in every group.\<close>

fun sweep_groups :: "rat \<Rightarrow> (group, lab_episode list \<times> predicted_episode list) dict \<Rightarrow> group list \<Rightarrow> sweep_state
    \<Rightarrow> evaluation_error + sweep_state" where
  "sweep_groups threshold groups [] s = Inr s"
| "sweep_groups threshold groups (k # ks) s = (case the (map_of groups k) of (truths, predictions) \<Rightarrow>
     (case sweep_events threshold (group_events truths predictions)
         (s\<lparr>active_truth := [], active_predictions := []\<rparr>) of
        Inl e \<Rightarrow> Inl e
      | Inr s \<Rightarrow> sweep_groups threshold groups ks s))"

definition empty_sweep :: sweep_state where
  "empty_sweep = \<lparr>active_truth = [], active_predictions = [], evaluated_pairs = 0, sweep_candidates = []\<rparr>"

definition candidate_matches :: "lab_episode list \<Rightarrow> predicted_episode list \<Rightarrow> rat
    \<Rightarrow> evaluation_error + candidate list" where
  "candidate_matches truths predictions threshold = (let groups = episode_groups truths predictions in
     case sweep_groups threshold groups (sort (map fst groups)) empty_sweep of
       Inl e \<Rightarrow> Inl e
     | Inr s \<Rightarrow> Inr (sweep_candidates s))"

section \<open>The evaluation\<close>

definition candidate_rank :: "candidate \<Rightarrow> rat \<times> string \<times> string" where
  "candidate_rank c = (case c of (overlap, truth_id, pid, truth, prediction) \<Rightarrow> (- overlap, truth_id, pid))"

text \<open>The greedy selection; \<open>EpisodeMatch(...)\<close> raises when its validation fails.\<close>

fun select_matches :: "string list \<Rightarrow> string list \<Rightarrow> candidate list \<Rightarrow> rca_failure + episode_match list" where
  "select_matches matched_truth matched_predictions [] = Inr []"
| "select_matches matched_truth matched_predictions ((overlap, truth_id, pid, truth, prediction) # cs) =
     (if truth_id \<in> set matched_truth \<or> pid \<in> set matched_predictions
      then select_matches matched_truth matched_predictions cs
      else let m = \<lparr>ground_truth_episode_id = truth_id, match_prediction_id = pid, match_iou = rounded overlap\<rparr> in
        if validate_match m \<noteq> None then Inl Other_exception
        else (case select_matches (truth_id # matched_truth) (pid # matched_predictions) cs of
          Inl e \<Rightarrow> Inl e
        | Inr ms \<Rightarrow> Inr (m # ms)))"

definition order_matches :: "episode_match list \<Rightarrow> episode_match list" where
  "order_matches = sort_key (\<lambda>m. (ground_truth_episode_id m, match_prediction_id m))"

text \<open>The counts and the duration shares of the report, before the rounding of its payload.\<close>

definition build_evaluation :: "(string \<Rightarrow> string) \<Rightarrow> lab_episode list \<Rightarrow> predicted_episode list \<Rightarrow> rat
    \<Rightarrow> episode_match list \<Rightarrow> rat \<Rightarrow> episode_evaluation" where
  "build_evaluation h truths predictions threshold ms overlap =
     (let tp = int (length ms); fp = int (length predictions) - tp; fn = int (length truths) - tp;
          both_empty = (truths = [] \<and> predictions = []);
          p = metric (of_int tp) (of_int (tp + fp)) both_empty;
          r = metric (of_int tp) (of_int (tp + fn)) both_empty;
          truth_seconds = total_seconds_of (merged_intervals truth_group truth_interval truths);
          prediction_seconds = total_seconds_of (merged_intervals prediction_group prediction_interval predictions);
          dp = metric overlap prediction_seconds both_empty;
          dr = metric overlap truth_seconds both_empty;
          mean_iou = (if ms \<noteq> [] then fl (py_sum (map match_iou ms) / of_nat (length ms))
            else if both_empty then 1 else 0);
          report = \<lparr>evaluation_id = [], overlap_threshold = rounded threshold,
            ground_truth_count = int (length truths), prediction_count = int (length predictions),
            true_positives = tp, false_positives = fp, false_negatives = fn,
            precision = rounded p, recall = rounded r, f1 = rounded (f1_score p r),
            duration_precision = rounded dp, duration_recall = rounded dr,
            duration_f1 = rounded (f1_score dp dr), mean_matched_iou = rounded mean_iou, matches = ms\<rparr>;
          identity = report_payload report @ [
            (''ground_truth_ids'', json_strs (sort (map episode_id truths))),
            (''prediction_ids'', json_strs (sort (map prediction_id predictions)))]
      in report\<lparr>evaluation_id := stable_content_id h ''eval'' (JObj identity)\<rparr>)"

text \<open>\<open>None\<close> stands for a run that never returns.\<close>

definition evaluate_items :: "(string \<Rightarrow> string) \<Rightarrow> lab_episode list \<Rightarrow> predicted_episode list \<Rightarrow> rat
    \<Rightarrow> (rca_failure + episode_evaluation) option" where
  "evaluate_items h truths predictions threshold =
     (if \<not> distinct (map episode_id truths) \<or> \<not> distinct (map prediction_id predictions)
      then Some (Inl (Evaluation_error evaluation_invalid_input))
      else case candidate_matches (sort_key episode_id truths) (sort_key prediction_id predictions) threshold of
        Inl e \<Rightarrow> Some (Inl (Evaluation_error e))
      | Inr found \<Rightarrow> (case select_matches [] [] (sort_key candidate_rank found) of
          Inl e \<Rightarrow> Some (Inl e)
        | Inr ms \<Rightarrow> (case intersection_seconds (merged_intervals truth_group truth_interval truths)
              (merged_intervals prediction_group prediction_interval predictions) of
            None \<Rightarrow> None
          | Some overlap \<Rightarrow> let r = build_evaluation h truths predictions threshold (order_matches ms) overlap in
              Some (if validate_evaluation r \<noteq> None then Inl Other_exception else Inr r))))"

definition evaluate_episodes :: "(string \<Rightarrow> string) \<Rightarrow> lab_episode sequence_arg \<Rightarrow> predicted_episode sequence_arg
    \<Rightarrow> threshold_arg \<Rightarrow> (rca_failure + episode_evaluation) option" where
  "evaluate_episodes h ground_truth predictions required_overlap =
     (case validated_threshold required_overlap of
        Inl e \<Rightarrow> Some (Inl e)
      | Inr threshold \<Rightarrow> (case bounded_sequence ground_truth of
          Inl e \<Rightarrow> Some (Inl (Evaluation_error e))
        | Inr truth_items \<Rightarrow> (case bounded_sequence predictions of
            Inl e \<Rightarrow> Some (Inl (Evaluation_error e))
          | Inr prediction_items \<Rightarrow> evaluate_items h truth_items prediction_items threshold)))"

end
