(* ===== verification/Episode_Matching.thy ===== *)
theory Episode_Matching
  imports Episode_Evaluation
begin

text \<open>
  What the sweep of \<open>candidate_matches\<close> enumerates: the pairs it considers are, each once, the pairs
  of one resource and label whose intervals overlap, whatever the order of the events of equal instants;
  and what the greedy selection keeps: the set of candidates that no better kept candidate excludes.
\<close>

section \<open>Dictionaries\<close>

lemma set_update_new: "k \<notin> fst ` set d \<Longrightarrow> set (AList.update k v d) = insert (k, v) (set d)"
  by (induction d) auto

lemma set_delete: "set (AList.delete k d) = {e \<in> set d. fst e \<noteq> k}"
  by (induction d) auto

lemma distinct_delete: "distinct (map fst d) \<Longrightarrow> distinct (map fst (AList.delete k d))"
  by (rule distinct_delete)

lemma mset_values_in_order: "distinct (map fst d) \<Longrightarrow> mset (values_in_order d) = mset (map snd d)"
proof -
  assume d: "distinct (map fst d)"
  have "mset (values_in_order d) = image_mset (\<lambda>k. the (map_of d k)) (mset (map fst d))"
    by (simp add: values_in_order_def)
  also have "\<dots> = image_mset (\<lambda>e. the (map_of d (fst e))) (mset d)" by (simp add: image_mset.compositionality comp_def)
  also have "\<dots> = image_mset snd (mset d)"
    using d by (intro image_mset_cong) auto
  finally show ?thesis by simp
qed

section \<open>The pairs a sweep considers\<close>

text \<open>The sweep without its budget.\<close>

definition event_ok :: "sweep_event \<Rightarrow> bool" where
  "event_ok e \<longleftrightarrow> (case e of (t, phase, i, item) \<Rightarrow> phase = 0 \<or>
     (case item of Truth _ \<Rightarrow> phase = 1 | Prediction _ \<Rightarrow> phase = 2))"

fun considered :: "(string, lab_episode) dict \<Rightarrow> (string, predicted_episode) dict \<Rightarrow> sweep_event list
    \<Rightarrow> (lab_episode \<times> predicted_episode) list" where
  "considered at_truth at_pred [] = []"
| "considered at_truth at_pred ((t, phase, i, Truth x) # es) =
     (if phase = 0 then considered (AList.delete i at_truth) at_pred es
      else map (\<lambda>p. (x, p)) (values_in_order at_pred) @ considered (AList.update i x at_truth) at_pred es)"
| "considered at_truth at_pred ((t, phase, i, Prediction y) # es) =
     (if phase = 0 then considered at_truth (AList.delete i at_pred) es
      else map (\<lambda>t. (t, y)) (values_in_order at_truth) @ considered at_truth (AList.update i y at_pred) es)"

definition candidate_of :: "lab_episode \<times> predicted_episode \<Rightarrow> candidate" where
  "candidate_of pair = (case pair of (t, p) \<Rightarrow> (temporal_iou t p, episode_id t, prediction_id p, t, p))"

definition kept :: "rat \<Rightarrow> (lab_episode \<times> predicted_episode) list \<Rightarrow> candidate list" where
  "kept threshold pairs = map candidate_of (filter (\<lambda>(t, p). threshold \<le> temporal_iou t p) pairs)"

lemma kept_append [simp]: "kept th (xs @ ys) = kept th xs @ kept th ys" "kept th [] = []"
  by (simp_all add: kept_def)

text \<open>A run of the loop that spends the budget on some pairs.\<close>

definition spends :: "rat \<Rightarrow> (lab_episode \<times> predicted_episode) list \<Rightarrow> sweep_state
    \<Rightarrow> evaluation_error + sweep_state \<Rightarrow> bool" where
  "spends th pairs s res \<longleftrightarrow> (if evaluated_pairs s + length pairs \<le> MAX_EVALUATION_CANDIDATES
     then (\<exists>s'. res = Inr s' \<and> evaluated_pairs s' = evaluated_pairs s + length pairs \<and>
       sweep_candidates s' = sweep_candidates s @ kept th pairs)
     else res = Inl evaluation_limit_exceeded)"

lemma spends_bind:
  assumes "spends th xs s r" and "\<And>s'. r = Inr s' \<Longrightarrow> spends th ys s' (f s')"
  shows "spends th (xs @ ys) s (case r of Inl e \<Rightarrow> Inl e | Inr s' \<Rightarrow> f s')"
proof (cases "evaluated_pairs s + length xs \<le> MAX_EVALUATION_CANDIDATES")
  case True
  with assms(1) obtain s' where "r = Inr s'" "evaluated_pairs s' = evaluated_pairs s + length xs"
    "sweep_candidates s' = sweep_candidates s @ kept th xs"
    by (auto simp: spends_def)
  with assms(2) [of s'] show ?thesis by (auto simp: spends_def add.assoc split: if_splits)
next
  case False
  with assms(1) show ?thesis by (simp add: spends_def)
qed

lemma spends_pair: "evaluated_pairs s \<le> MAX_EVALUATION_CANDIDATES \<Longrightarrow> spends th [pair] s (consider_pair th pair s)"
  by (cases pair) (auto simp: spends_def consider_pair_def kept_def candidate_of_def Let_def)

lemma spends_le: "spends th xs s (Inr s') \<Longrightarrow> evaluated_pairs s' \<le> MAX_EVALUATION_CANDIDATES"
  by (auto simp: spends_def split: if_splits)

lemma spends_Nil: "evaluated_pairs s \<le> MAX_EVALUATION_CANDIDATES \<Longrightarrow> spends th [] s (Inr s)"
  by (simp add: spends_def)

lemma consider_all_spends:
  "evaluated_pairs s \<le> MAX_EVALUATION_CANDIDATES \<Longrightarrow> spends th pairs s (consider_all th pairs s)"
proof (induction pairs arbitrary: s)
  case (Cons pair pairs)
  have "spends th ([pair] @ pairs) s
      (case consider_pair th pair s of Inl e \<Rightarrow> Inl e | Inr s \<Rightarrow> consider_all th pairs s)"
    using spends_pair [OF Cons.prems, of th pair] by (intro spends_bind Cons.IH) (auto dest: spends_le)
  then show ?case by simp
qed (simp add: spends_Nil)

lemma consider_all_active:
  "consider_all th pairs s = Inr s' \<Longrightarrow> active_truth s' = active_truth s \<and> active_predictions s' = active_predictions s"
  by (induction pairs arbitrary: s)
    (fastforce simp: consider_pair_def Let_def split: sum.splits prod.splits if_splits)+

text \<open>A step that spends the budget and then only changes what is active.\<close>

lemma spends_active:
  assumes "spends th xs s r"
  shows "spends th xs s (case r of Inl e \<Rightarrow> Inl e | Inr s' \<Rightarrow> Inr (s'\<lparr>active_truth := a s'\<rparr>))"
    and "spends th xs s (case r of Inl e \<Rightarrow> Inl e | Inr s' \<Rightarrow> Inr (s'\<lparr>active_predictions := b s'\<rparr>))"
  using assms by (auto simp: spends_def split: if_splits)

lemma sweep_events_spends:
  assumes "list_all event_ok es" and "evaluated_pairs s \<le> MAX_EVALUATION_CANDIDATES"
  shows "spends th (considered (active_truth s) (active_predictions s) es) s (sweep_events th es s)"
  using assms
proof (induction es arbitrary: s)
  case Nil
  then show ?case by (simp add: spends_Nil)
next
  case (Cons e es)
  obtain t phase i item where e: "e = (t, phase, i, item)" by (cases e)
  let ?xs = "case item of Truth x \<Rightarrow> if phase = 0 then [] else map (\<lambda>p. (x, p)) (values_in_order (active_predictions s))
    | Prediction y \<Rightarrow> if phase = 0 then [] else map (\<lambda>t. (t, y)) (values_in_order (active_truth s))"
  let ?at = "case item of Prediction _ \<Rightarrow> active_truth s
    | Truth x \<Rightarrow> if phase = 0 then AList.delete i (active_truth s) else AList.update i x (active_truth s)"
  let ?ap = "case item of Truth _ \<Rightarrow> active_predictions s
    | Prediction y \<Rightarrow> if phase = 0 then AList.delete i (active_predictions s) else AList.update i y (active_predictions s)"
  have step: "spends th ?xs s (sweep_step th e s)"
    using Cons.prems by (cases item; cases "phase = 0")
      (auto simp: e sweep_step_def event_ok_def spends_def [of _ "[]"] intro!: spends_active consider_all_spends)
  have active: "active_truth s' = ?at \<and> active_predictions s' = ?ap" if "sweep_step th e s = Inr s'" for s'
    using that Cons.prems by (cases item; cases "phase = 0")
      (auto simp: e sweep_step_def event_ok_def split: sum.splits dest: consider_all_active)
  have "spends th (?xs @ considered ?at ?ap es) s
      (case sweep_step th e s of Inl err \<Rightarrow> Inl err | Inr s \<Rightarrow> sweep_events th es s)"
  proof (rule spends_bind [OF step])
    fix s' assume s': "sweep_step th e s = Inr s'"
    have "spends th (considered (active_truth s') (active_predictions s') es) s' (sweep_events th es s')"
      using Cons.prems(1) spends_le [of th ?xs s s'] step s' by (intro Cons.IH) simp_all
    with active [OF s'] show "spends th (considered ?at ?ap es) s' (sweep_events th es s')" by simp
  qed
  moreover have "considered (active_truth s) (active_predictions s) (e # es) = ?xs @ considered ?at ?ap es"
    by (cases item; cases "phase = 0") (simp_all add: e)
  ultimately show ?case by simp
qed

section \<open>Who is active at an event\<close>

definition truth_start :: "lab_episode \<Rightarrow> sweep_event" where
  "truth_start t = (fst (truth_interval t), 1, episode_id t, Truth t)"
definition truth_end :: "lab_episode \<Rightarrow> sweep_event" where
  "truth_end t = (snd (truth_interval t), 0, episode_id t, Truth t)"
definition prediction_start :: "predicted_episode \<Rightarrow> sweep_event" where
  "prediction_start p = (fst (prediction_interval p), 2, prediction_id p, Prediction p)"
definition prediction_end :: "predicted_episode \<Rightarrow> sweep_event" where
  "prediction_end p = (snd (prediction_interval p), 0, prediction_id p, Prediction p)"

lemmas event_defs = truth_start_def truth_end_def prediction_start_def prediction_end_def

lemma event_simps [simp]:
  "truth_start t = truth_start t' \<longleftrightarrow> t = t'" "truth_end t = truth_end t' \<longleftrightarrow> t = t'"
  "prediction_start p = prediction_start p' \<longleftrightarrow> p = p'" "prediction_end p = prediction_end p' \<longleftrightarrow> p = p'"
  "truth_start t \<noteq> truth_end t'" "truth_end t' \<noteq> truth_start t" "truth_start t \<noteq> prediction_start p"
  "truth_start t \<noteq> prediction_end p" "truth_end t \<noteq> prediction_start p" "truth_end t \<noteq> prediction_end p"
  "prediction_start p \<noteq> prediction_end p'" "prediction_end p' \<noteq> prediction_start p"
  "prediction_start p \<noteq> truth_start t" "prediction_end p \<noteq> truth_start t"
  "prediction_start p \<noteq> truth_end t" "prediction_end p \<noteq> truth_end t"
  by (auto simp: event_defs)

lemma key_simps [simp]:
  "event_key (truth_start t) = (fst (truth_interval t), 1, episode_id t)"
  "event_key (truth_end t) = (snd (truth_interval t), 0, episode_id t)"
  "event_key (prediction_start p) = (fst (prediction_interval p), 2, prediction_id p)"
  "event_key (prediction_end p) = (snd (prediction_interval p), 0, prediction_id p)"
  by (simp_all add: event_defs event_key_def)

lemma considered_simps [simp]:
  "considered a b (truth_start t # es) =
     map (\<lambda>p. (t, p)) (values_in_order b) @ considered (AList.update (episode_id t) t a) b es"
  "considered a b (truth_end t # es) = considered (AList.delete (episode_id t) a) b es"
  "considered a b (prediction_start p # es) =
     map (\<lambda>t. (t, p)) (values_in_order a) @ considered a (AList.update (prediction_id p) p b) es"
  "considered a b (prediction_end p # es) = considered a (AList.delete (prediction_id p) b) es"
  by (simp_all add: event_defs)

text \<open>A dictionary of the items that have started and not ended among the events seen so far.\<close>

definition active_items :: "('a \<Rightarrow> sweep_event) \<Rightarrow> ('a \<Rightarrow> sweep_event) \<Rightarrow> 'a set \<Rightarrow> sweep_event list \<Rightarrow> 'a set" where
  "active_items start stop items seen = {x \<in> items. start x \<in> set seen \<and> stop x \<notin> set seen}"

definition active_dict :: "('a \<Rightarrow> string) \<Rightarrow> 'a set \<Rightarrow> (string, 'a) dict \<Rightarrow> bool" where
  "active_dict ident items d \<longleftrightarrow> distinct (map fst d) \<and> set d = (\<lambda>x. (ident x, x)) ` items"

lemma active_dict_Nil: "active_dict ident {} []"
  by (simp add: active_dict_def)

lemma active_dict_update:
  assumes "active_dict ident A d" and "inj_on ident (insert x A)" and "x \<notin> A"
  shows "active_dict ident (insert x A) (AList.update (ident x) x d)"
proof -
  have "ident x \<notin> fst ` set d" using assms by (auto simp: active_dict_def inj_on_def)
  with assms(1) show ?thesis
    by (simp add: active_dict_def set_update_new distinct_update)
qed

lemma active_dict_delete:
  assumes "active_dict ident A d" and "inj_on ident (insert x A)"
  shows "active_dict ident (A - {x}) (AList.delete (ident x) d)"
  using assms by (auto simp: active_dict_def set_delete distinct_delete inj_on_def)

lemma active_dict_values:
  assumes "active_dict ident A d"
  shows "mset (values_in_order d) = mset_set A"
proof -
  have "distinct d" using assms by (simp add: active_dict_def distinct_map)
  then have "mset d = mset_set (set d)" by (simp add: mset_set_set)
  then have "mset (map snd d) = image_mset snd (mset_set ((\<lambda>x. (ident x, x)) ` A))"
    using assms by (simp add: active_dict_def)
  also have "\<dots> = mset_set (snd ` (\<lambda>x. (ident x, x)) ` A)"
    by (rule image_mset_mset_set) (auto simp: inj_on_def)
  finally show ?thesis
    using assms mset_values_in_order [of d] by (simp add: active_dict_def image_image)
qed

lemma seen_before:
  assumes "sorted (map event_key (seen @ e # rest))" and "x \<in> set (seen @ e # rest)"
  shows "event_key x < event_key e \<Longrightarrow> x \<in> set seen" and "x \<in> set seen \<Longrightarrow> event_key x \<le> event_key e"
  using assms by (auto simp: sorted_append not_less [symmetric])

section \<open>The pairs considered are the overlapping ones\<close>

definition well_formed :: "interval \<Rightarrow> bool" where
  "well_formed i \<longleftrightarrow> fst i < snd i"

definition overlapping :: "lab_episode \<Rightarrow> predicted_episode \<Rightarrow> bool" where
  "overlapping t p \<longleftrightarrow> fst (truth_interval t) < snd (prediction_interval p) \<and>
     fst (prediction_interval p) < snd (truth_interval t)"

text \<open>The pairs whose later start is the event.\<close>

definition partners :: "lab_episode set \<Rightarrow> predicted_episode set \<Rightarrow> sweep_event \<Rightarrow> (lab_episode \<times> predicted_episode) set" where
  "partners T P e = {(t, p) \<in> T \<times> P. overlapping t p \<and>
     (e = truth_start t \<and> fst (prediction_interval p) < fst (truth_interval t) \<or>
      e = prediction_start p \<and> fst (truth_interval t) \<le> fst (prediction_interval p))}"

definition sweep_input :: "lab_episode set \<Rightarrow> predicted_episode set \<Rightarrow> sweep_event list \<Rightarrow> bool" where
  "sweep_input T P es \<longleftrightarrow> sorted (map event_key es) \<and> distinct es \<and>
     set es = truth_start ` T \<union> truth_end ` T \<union> prediction_start ` P \<union> prediction_end ` P \<and>
     inj_on episode_id T \<and> inj_on prediction_id P \<and>
     (\<forall>t\<in>T. well_formed (truth_interval t)) \<and> (\<forall>p\<in>P. well_formed (prediction_interval p))"

lemma sweep_input_finite: "sweep_input T P es \<Longrightarrow> finite T \<and> finite P"
proof -
  assume "sweep_input T P es"
  then have "truth_start ` T \<subseteq> set es" "prediction_start ` P \<subseteq> set es" by (auto simp: sweep_input_def)
  then have "finite (truth_start ` T)" "finite (prediction_start ` P)" by (auto intro: finite_subset)
  then show ?thesis by (auto dest!: finite_imageD simp: inj_on_def)
qed

text \<open>At the start of a prediction the active episodes are those that started no later and have not
  ended; at the start of an episode the active predictions are those that started strictly before it.\<close>

lemma active_at_start:
  assumes "sweep_input T P (seen @ e # rest)"
  shows "p \<in> P \<Longrightarrow> e = prediction_start p \<Longrightarrow>
      (\<lambda>t. (t, p)) ` active_items truth_start truth_end T seen = partners T P e"
    and "t \<in> T \<Longrightarrow> e = truth_start t \<Longrightarrow>
      (\<lambda>p. (t, p)) ` active_items prediction_start prediction_end P seen = partners T P e"
proof -
  have sorted: "sorted (map event_key (seen @ e # rest))" using assms by (simp add: sweep_input_def)
  have mem: "\<And>t. t \<in> T \<Longrightarrow> truth_start t \<in> set (seen @ e # rest) \<and> truth_end t \<in> set (seen @ e # rest)"
    "\<And>p. p \<in> P \<Longrightarrow> prediction_start p \<in> set (seen @ e # rest) \<and> prediction_end p \<in> set (seen @ e # rest)"
    using assms unfolding sweep_input_def by blast+
  have wf: "\<And>t. t \<in> T \<Longrightarrow> fst (truth_interval t) < snd (truth_interval t)"
    "\<And>p. p \<in> P \<Longrightarrow> fst (prediction_interval p) < snd (prediction_interval p)"
    using assms by (auto simp: sweep_input_def well_formed_def)
  {
    assume p: "p \<in> P" and e: "e = prediction_start p"
    have "truth_start t \<in> set seen \<longleftrightarrow> fst (truth_interval t) \<le> fst (prediction_interval p)"
      "truth_end t \<in> set seen \<longleftrightarrow> snd (truth_interval t) \<le> fst (prediction_interval p)" if "t \<in> T" for t
      using seen_before [OF sorted, of "truth_start t"] seen_before [OF sorted, of "truth_end t"] mem(1) [OF that]
      by (auto simp: e)
    then show "(\<lambda>t. (t, p)) ` active_items truth_start truth_end T seen = partners T P e"
      using p wf by (fastforce simp: active_items_def partners_def overlapping_def e)
  }
  {
    assume t: "t \<in> T" and e: "e = truth_start t"
    have "prediction_start p \<in> set seen \<longleftrightarrow> fst (prediction_interval p) < fst (truth_interval t)"
      "prediction_end p \<in> set seen \<longleftrightarrow> snd (prediction_interval p) \<le> fst (truth_interval t)" if "p \<in> P" for p
      using seen_before [OF sorted, of "prediction_start p"] seen_before [OF sorted, of "prediction_end p"]
        mem(2) [OF that] by (auto simp: e)
    then show "(\<lambda>p. (t, p)) ` active_items prediction_start prediction_end P seen = partners T P e"
      using t wf by (fastforce simp: active_items_def partners_def overlapping_def e)
  }
qed

lemma partners_ends [simp]: "partners T P (truth_end t) = {}" "partners T P (prediction_end p) = {}"
  by (auto simp: partners_def)

text \<open>How an event changes what is active.\<close>

lemma active_items_snoc:
  assumes "x \<in> A" and "\<And>y z. start y \<noteq> stop z" and "\<And>y. start y = start x \<longleftrightarrow> y = x" and "\<And>y. stop y = stop x \<longleftrightarrow> y = x"
  shows "stop x \<notin> set seen \<Longrightarrow> active_items start stop A (seen @ [start x]) = insert x (active_items start stop A seen)"
    and "active_items start stop A (seen @ [stop x]) = active_items start stop A seen - {x}"
    and "(\<And>y. y \<in> A \<Longrightarrow> start y \<noteq> e \<and> stop y \<noteq> e) \<Longrightarrow>
      active_items start stop A (seen @ [e]) = active_items start stop A seen"
  using assms(1,3,4) assms(2) [symmetric] assms(2) by (auto simp: active_items_def)

lemma active_items_other:
  "(\<And>y. y \<in> A \<Longrightarrow> start y \<noteq> e \<and> stop y \<noteq> e) \<Longrightarrow>
     active_items start stop A (seen @ [e]) = active_items start stop A seen"
  by (auto simp: active_items_def)

lemma considered_partners:
  assumes "sweep_input T P (seen @ rest)"
    and "active_dict episode_id (active_items truth_start truth_end T seen) a"
    and "active_dict prediction_id (active_items prediction_start prediction_end P seen) b"
  shows "mset (considered a b rest) = sum_list (map (\<lambda>e. mset_set (partners T P e)) rest)"
  using assms
proof (induction rest arbitrary: seen a b)
  case Nil
  then show ?case by simp
next
  case (Cons e rest)
  let ?T = "active_items truth_start truth_end T" and ?P = "active_items prediction_start prediction_end P"
  have input: "sweep_input T P ((seen @ [e]) @ rest)" using Cons.prems(1) by simp
  have new: "e \<notin> set seen" using Cons.prems(1) by (simp add: sweep_input_def)
  have inj: "inj_on episode_id T" "inj_on prediction_id P" using Cons.prems(1) by (simp_all add: sweep_input_def)
  have sub: "?T s \<subseteq> T" "?P s \<subseteq> P" for s by (auto simp: active_items_def)
  have sorted: "sorted (map event_key (seen @ e # rest))" using Cons.prems(1) by (simp add: sweep_input_def)
  have "e \<in> truth_start ` T \<union> truth_end ` T \<union> prediction_start ` P \<union> prediction_end ` P"
    using Cons.prems(1) by (auto simp: sweep_input_def)
  then consider (ts) t where "t \<in> T" "e = truth_start t" | (te) t where "t \<in> T" "e = truth_end t"
    | (ps) p where "p \<in> P" "e = prediction_start p" | (pe) p where "p \<in> P" "e = prediction_end p"
    by blast
  then show ?case
  proof cases
    case ts
    have "truth_end t \<notin> set seen"
      using seen_before(2) [OF sorted, of "truth_end t"] ts Cons.prems(1) by (auto simp: sweep_input_def well_formed_def)
    then have "?T (seen @ [e]) = insert t (?T seen)" "t \<notin> ?T seen"
      using ts new active_items_snoc(1) [of t T truth_start truth_end seen] by (simp_all add: active_items_def)
    then have a: "active_dict episode_id (?T (seen @ [e])) (AList.update (episode_id t) t a)"
      using active_dict_update [OF Cons.prems(2), of t] inj_on_subset [OF inj(1), of "insert t (?T seen)"] sub ts by simp
    have b: "?P (seen @ [e]) = ?P seen" using ts by (intro active_items_other) auto
    have "mset (map (\<lambda>p. (t, p)) (values_in_order b)) = mset_set (partners T P e)"
      using active_at_start(2) [OF Cons.prems(1) ts]
      by (simp add: active_dict_values [OF Cons.prems(3)] image_mset_mset_set inj_on_def)
    then show ?thesis using Cons.IH [OF input a] Cons.prems(3) b ts by simp
  next
    case te
    have "?T (seen @ [e]) = ?T seen - {t}"
      using te active_items_snoc(2) [of t T truth_start truth_end seen] by simp
    then have a: "active_dict episode_id (?T (seen @ [e])) (AList.delete (episode_id t) a)"
      using active_dict_delete [OF Cons.prems(2), of t] inj_on_subset [OF inj(1), of "insert t (?T seen)"] sub te by simp
    have "?P (seen @ [e]) = ?P seen" using te by (intro active_items_other) auto
    then show ?thesis using Cons.IH [OF input a] Cons.prems(3) te by simp
  next
    case ps
    have "prediction_end p \<notin> set seen"
      using seen_before(2) [OF sorted, of "prediction_end p"] ps Cons.prems(1) by (auto simp: sweep_input_def well_formed_def)
    then have "?P (seen @ [e]) = insert p (?P seen)" "p \<notin> ?P seen"
      using ps new active_items_snoc(1) [of p P prediction_start prediction_end seen] by (simp_all add: active_items_def)
    then have b: "active_dict prediction_id (?P (seen @ [e])) (AList.update (prediction_id p) p b)"
      using active_dict_update [OF Cons.prems(3), of p] inj_on_subset [OF inj(2), of "insert p (?P seen)"] sub ps by simp
    have a: "?T (seen @ [e]) = ?T seen" using ps by (intro active_items_other) auto
    have "mset (map (\<lambda>t. (t, p)) (values_in_order a)) = mset_set (partners T P e)"
      using active_at_start(1) [OF Cons.prems(1) ps]
      by (simp add: active_dict_values [OF Cons.prems(2)] image_mset_mset_set inj_on_def)
    then show ?thesis using Cons.IH [OF input _ b] Cons.prems(2) a ps by simp
  next
    case pe
    have "?P (seen @ [e]) = ?P seen - {p}"
      using pe active_items_snoc(2) [of p P prediction_start prediction_end seen] by simp
    then have b: "active_dict prediction_id (?P (seen @ [e])) (AList.delete (prediction_id p) b)"
      using active_dict_delete [OF Cons.prems(3), of p] inj_on_subset [OF inj(2), of "insert p (?P seen)"] sub pe by simp
    have "?T (seen @ [e]) = ?T seen" using pe by (intro active_items_other) auto
    then show ?thesis using Cons.IH [OF input _ b] Cons.prems(2) pe by simp
  qed
qed

lemma mset_set_UN:
  assumes "finite E" and "\<And>e. e \<in> E \<Longrightarrow> finite (f e)" and "\<And>e e'. e \<in> E \<Longrightarrow> e' \<in> E \<Longrightarrow> e \<noteq> e' \<Longrightarrow> f e \<inter> f e' = {}"
  shows "mset_set (\<Union>e\<in>E. f e) = (\<Sum>e\<in>E. mset_set (f e))"
  using assms
proof (induction E rule: finite_induct)
  case (insert x E)
  then have "f x \<inter> (\<Union>e\<in>E. f e) = {}" by blast
  with insert show ?case by (simp add: mset_set_Union)
qed simp

definition overlapping_pairs :: "lab_episode set \<Rightarrow> predicted_episode set \<Rightarrow> (lab_episode \<times> predicted_episode) set" where
  "overlapping_pairs T P = {(t, p) \<in> T \<times> P. overlapping t p}"

lemma considered_overlapping:
  assumes "sweep_input T P es"
  shows "mset (considered [] [] es) = mset_set (overlapping_pairs T P)"
proof -
  have fin: "finite T" "finite P" using sweep_input_finite [OF assms] by simp_all
  have d: "distinct es" and set_es: "set es = truth_start ` T \<union> truth_end ` T \<union> prediction_start ` P \<union> prediction_end ` P"
    using assms by (simp_all add: sweep_input_def)
  have "mset (considered [] [] es) = sum_list (map (\<lambda>e. mset_set (partners T P e)) es)"
    using assms by (intro considered_partners [of T P "[]"]) (simp_all add: active_items_def active_dict_Nil)
  also have "\<dots> = (\<Sum>e\<in>set es. mset_set (partners T P e))"
    using d by (simp add: sum.distinct_set_conv_list)
  also have "\<dots> = mset_set (\<Union>e\<in>set es. partners T P e)"
  proof (rule mset_set_UN [symmetric])
    show "finite (partners T P e)" for e
      using fin by (auto simp: partners_def intro: finite_subset [of _ "T \<times> P"])
    show "partners T P e \<inter> partners T P e' = {}" if "e \<noteq> e'" for e e'
      using that by (auto simp: partners_def)
  qed simp
  also have "(\<Union>e\<in>set es. partners T P e) = overlapping_pairs T P"
    unfolding set_es by (auto simp: partners_def overlapping_pairs_def not_le)
  finally show ?thesis .
qed

lemma group_events_input:
  assumes "distinct (map episode_id ts)" and "distinct (map prediction_id ps)"
    and "\<forall>t\<in>set ts. well_formed (truth_interval t)" and "\<forall>p\<in>set ps. well_formed (prediction_interval p)"
  shows "sweep_input (set ts) (set ps) (group_events ts ps)" and "list_all event_ok (group_events ts ps)"
proof -
  let ?es = "concat (map truth_events ts) @ concat (map prediction_events ps)"
  have te: "truth_events t = [truth_end t, truth_start t]" for t by (simp add: truth_events_def event_defs)
  have pe: "prediction_events p = [prediction_end p, prediction_start p]" for p by (simp add: prediction_events_def event_defs)
  have "distinct (concat (map truth_events ts))" using assms(1) by (induction ts) (auto simp: te)
  moreover have "distinct (concat (map prediction_events ps))" using assms(2) by (induction ps) (auto simp: pe)
  ultimately have d: "distinct ?es" by (auto simp: te pe)
  have s: "set (group_events ts ps) = truth_start ` set ts \<union> truth_end ` set ts \<union>
      prediction_start ` set ps \<union> prediction_end ` set ps"
    by (auto simp: group_events_def te pe)
  show "sweep_input (set ts) (set ps) (group_events ts ps)"
    unfolding sweep_input_def s using assms d by (simp add: group_events_def distinct_map)
  show "list_all event_ok (group_events ts ps)"
    unfolding list_all_iff s by (auto simp: event_ok_def event_defs)
qed

section \<open>The groups\<close>

lemma keys_fold_update:
  "fst ` set (foldl (\<lambda>d x. AList.update (key x) (f d x) d) d xs) = fst ` set d \<union> key ` set xs"
  "distinct (map fst d) \<Longrightarrow> distinct (map fst (foldl (\<lambda>d x. AList.update (key x) (f d x) d) d xs))"
  by (induction xs arbitrary: d) (auto simp: keys_update distinct_update)

lemma group_entry_Nil [simp]: "group_entry k [] = ([], [])"
  by (simp add: group_entry_def)

lemma add_truth_entry:
  "group_entry k (foldl add_truth d ts) =
     (fst (group_entry k d) @ filter (\<lambda>t. truth_group t = k) ts, snd (group_entry k d))"
proof (induction ts arbitrary: d)
  case (Cons t ts)
  show ?case unfolding foldl_Cons Cons.IH
    by (cases "group_entry (truth_group t) d") (auto simp: group_entry_def add_truth_def split: prod.splits)
qed simp

lemma add_prediction_entry:
  "group_entry k (foldl add_prediction d ps) =
     (fst (group_entry k d), snd (group_entry k d) @ filter (\<lambda>p. prediction_group p = k) ps)"
proof (induction ps arbitrary: d)
  case (Cons p ps)
  show ?case unfolding foldl_Cons Cons.IH
    by (cases "group_entry (prediction_group p) d") (auto simp: group_entry_def add_prediction_def split: prod.splits)
qed simp

lemma episode_groups_entry:
  "group_entry k (episode_groups ts ps) =
     (filter (\<lambda>t. truth_group t = k) ts, filter (\<lambda>p. prediction_group p = k) ps)"
  by (simp add: episode_groups_def add_truth_entry add_prediction_entry)

lemma episode_groups_keys:
  "fst ` set (episode_groups ts ps) = truth_group ` set ts \<union> prediction_group ` set ps"
  "distinct (map fst (episode_groups ts ps))"
proof -
  have t: "add_truth = (\<lambda>d t. AList.update (truth_group t)
      (case group_entry (truth_group t) d of (ts, ps) \<Rightarrow> (ts @ [t], ps)) d)"
    by (auto simp: add_truth_def fun_eq_iff split: prod.splits)
  have p: "add_prediction = (\<lambda>d p. AList.update (prediction_group p)
      (case group_entry (prediction_group p) d of (ts, ps) \<Rightarrow> (ts, ps @ [p])) d)"
    by (auto simp: add_prediction_def fun_eq_iff split: prod.splits)
  show "fst ` set (episode_groups ts ps) = truth_group ` set ts \<union> prediction_group ` set ps"
    by (simp add: episode_groups_def t p keys_fold_update)
  show "distinct (map fst (episode_groups ts ps))"
    unfolding episode_groups_def t p by (intro keys_fold_update) simp
qed

definition group_pairs :: "(group, lab_episode list \<times> predicted_episode list) dict \<Rightarrow> group
    \<Rightarrow> (lab_episode \<times> predicted_episode) list" where
  "group_pairs groups k = (case the (map_of groups k) of (ts, ps) \<Rightarrow> considered [] [] (group_events ts ps))"

lemma sweep_groups_spends:
  assumes "\<forall>k\<in>set ks. case the (map_of groups k) of (ts, ps) \<Rightarrow> list_all event_ok (group_events ts ps)"
    and "evaluated_pairs s \<le> MAX_EVALUATION_CANDIDATES"
  shows "spends th (concat (map (group_pairs groups) ks)) s (sweep_groups th groups ks s)"
  using assms
proof (induction ks arbitrary: s)
  case Nil
  then show ?case by (simp add: spends_Nil)
next
  case (Cons k ks)
  obtain ts ps where g: "the (map_of groups k) = (ts, ps)" by fastforce
  let ?s = "s\<lparr>active_truth := [], active_predictions := []\<rparr>"
  have ok: "list_all event_ok (group_events ts ps)" using Cons.prems(1) g by auto
  have step: "spends th (group_pairs groups k) s (sweep_events th (group_events ts ps) ?s)"
    using sweep_events_spends [OF ok, of ?s th] Cons.prems(2)
    by (auto simp: group_pairs_def g spends_def split: if_splits)
  have "spends th (group_pairs groups k @ concat (map (group_pairs groups) ks)) s
      (case sweep_events th (group_events ts ps) ?s of Inl e \<Rightarrow> Inl e | Inr s \<Rightarrow> sweep_groups th groups ks s)"
    using step Cons.prems(1) by (intro spends_bind [OF step] Cons.IH) (auto dest: spends_le)
  then show ?case by (simp add: g)
qed

text \<open>The pairs of one resource and label whose intervals overlap: what the sweep enumerates.\<close>

definition comparable_pairs :: "lab_episode set \<Rightarrow> predicted_episode set \<Rightarrow> (lab_episode \<times> predicted_episode) set" where
  "comparable_pairs T P = {(t, p) \<in> T \<times> P. truth_group t = prediction_group p \<and> overlapping t p}"

definition episodes_ok :: "lab_episode list \<Rightarrow> predicted_episode list \<Rightarrow> bool" where
  "episodes_ok ts ps \<longleftrightarrow> distinct (map episode_id ts) \<and> distinct (map prediction_id ps) \<and>
     (\<forall>t\<in>set ts. well_formed (truth_interval t)) \<and> (\<forall>p\<in>set ps. well_formed (prediction_interval p))"

lemma candidate_matches_exact:
  assumes "episodes_ok ts ps"
  shows "if card (comparable_pairs (set ts) (set ps)) \<le> MAX_EVALUATION_CANDIDATES
    then \<exists>pairs. candidate_matches ts ps th = Inr (kept th pairs) \<and>
      mset pairs = mset_set (comparable_pairs (set ts) (set ps))
    else candidate_matches ts ps th = Inl evaluation_limit_exceeded"
proof -
  let ?g = "episode_groups ts ps" and ?S = "comparable_pairs (set ts) (set ps)"
  let ?ks = "sort (map fst ?g)" and ?T = "\<lambda>k. {t \<in> set ts. truth_group t = k}" and ?P = "\<lambda>k. {p \<in> set ps. prediction_group p = k}"
  have entry: "the (map_of ?g k) = (filter (\<lambda>t. truth_group t = k) ts, filter (\<lambda>p. prediction_group p = k) ps)"
    if "k \<in> set ?ks" for k
  proof -
    from that obtain v where "map_of ?g k = Some v" by (metis map_of_eq_None_iff not_Some_eq set_map set_sort)
    then show ?thesis using episode_groups_entry [of k ts ps] by (simp add: group_entry_def)
  qed
  have input: "sweep_input (?T k) (?P k) (group_events (filter (\<lambda>t. truth_group t = k) ts) (filter (\<lambda>p. prediction_group p = k) ps))"
    "list_all event_ok (group_events (filter (\<lambda>t. truth_group t = k) ts) (filter (\<lambda>p. prediction_group p = k) ps))" for k
    using group_events_input [of "filter (\<lambda>t. truth_group t = k) ts" "filter (\<lambda>p. prediction_group p = k) ps"] assms
    by (simp_all add: episodes_ok_def distinct_map_filter)
  have group: "mset (group_pairs ?g k) = mset_set (overlapping_pairs (?T k) (?P k))" if "k \<in> set ?ks" for k
    using considered_overlapping [OF input(1)] entry [OF that] by (simp add: group_pairs_def)
  have "mset (concat (map (group_pairs ?g) ?ks)) = sum_list (map (\<lambda>k. mset_set (overlapping_pairs (?T k) (?P k))) ?ks)"
    unfolding mset_concat map_map comp_def using group by (intro arg_cong [of _ _ sum_list] map_cong) auto
  also have "\<dots> = (\<Sum>k\<in>set ?ks. mset_set (overlapping_pairs (?T k) (?P k)))"
    using episode_groups_keys(2) [of ts ps] by (simp add: sum.distinct_set_conv_list del: set_sort)
  also have "\<dots> = mset_set (\<Union>k\<in>set ?ks. overlapping_pairs (?T k) (?P k))"
    by (rule mset_set_UN [symmetric]) (auto simp: overlapping_pairs_def intro: finite_subset [of _ "set ts \<times> set ps"])
  also have "(\<Union>k\<in>set ?ks. overlapping_pairs (?T k) (?P k)) = ?S"
    using episode_groups_keys(1) [of ts ps] by (auto simp: overlapping_pairs_def comparable_pairs_def)
  finally have pairs: "mset (concat (map (group_pairs ?g) ?ks)) = mset_set ?S" .
  then have len: "length (concat (map (group_pairs ?g) ?ks)) = card ?S" by (metis size_mset size_mset_set)
  have "spends th (concat (map (group_pairs ?g) ?ks)) empty_sweep (sweep_groups th ?g ?ks empty_sweep)"
    using input(2) by (intro sweep_groups_spends) (auto simp: entry empty_sweep_def simp del: set_sort)
  then show ?thesis using pairs
    by (auto simp: spends_def len empty_sweep_def candidate_matches_def Let_def split: if_splits simp del: size_mset)
qed

section \<open>The greedy selection\<close>

definition cand_truth :: "candidate \<Rightarrow> string" where "cand_truth c = fst (snd c)"
definition cand_pred :: "candidate \<Rightarrow> string" where "cand_pred c = fst (snd (snd c))"

definition conflict :: "candidate \<Rightarrow> candidate \<Rightarrow> bool" where
  "conflict c c' \<longleftrightarrow> cand_truth c = cand_truth c' \<or> cand_pred c = cand_pred c'"

definition match_of :: "candidate \<Rightarrow> episode_match" where
  "match_of c = \<lparr>ground_truth_episode_id = cand_truth c, match_prediction_id = cand_pred c,
     match_iou = rounded (fst c)\<rparr>"

text \<open>The selection without the construction of its results.\<close>

fun greedy :: "string list \<Rightarrow> string list \<Rightarrow> candidate list \<Rightarrow> candidate list" where
  "greedy used_truth used_pred [] = []"
| "greedy used_truth used_pred (c # cs) =
     (if cand_truth c \<in> set used_truth \<or> cand_pred c \<in> set used_pred then greedy used_truth used_pred cs
      else c # greedy (cand_truth c # used_truth) (cand_pred c # used_pred) cs)"

lemma select_matches_greedy:
  "\<forall>c\<in>set cs. validate_match (match_of c) = None \<Longrightarrow>
     select_matches ut up cs = Inr (map match_of (greedy ut up cs))"
  by (induction ut up cs rule: select_matches.induct) (auto simp: match_of_def cand_truth_def cand_pred_def)

lemma select_matches_result:
  "select_matches ut up cs = Inr ms \<Longrightarrow> ms = map match_of (greedy ut up cs)"
proof (induction ut up cs arbitrary: ms rule: select_matches.induct)
  case (2 ut up overlap tid pid t p cs)
  then show ?case
    by (auto simp: match_of_def cand_truth_def cand_pred_def Let_def split: if_splits sum.splits)
qed simp

lemma greedy_subset: "set (greedy ut up cs) \<subseteq> set cs"
  by (induction ut up cs rule: greedy.induct) auto

lemma greedy_one_to_one:
  "distinct (map cand_truth (greedy ut up cs)) \<and> distinct (map cand_pred (greedy ut up cs)) \<and>
   (\<forall>c\<in>set (greedy ut up cs). cand_truth c \<notin> set ut \<and> cand_pred c \<notin> set up)"
proof (induction ut up cs rule: greedy.induct)
  case (2 ut up d cs)
  show ?case
  proof (cases "cand_truth d \<in> set ut \<or> cand_pred d \<in> set up")
    case True
    with 2 show ?thesis by auto
  next
    case False
    from "2.IH"(2) [OF False] False show ?thesis by auto
  qed
qed simp

lemma greedy_blocked:
  assumes "sorted (map rank cs)" and "c \<in> set cs" and "c \<notin> set (greedy ut up cs)"
  shows "cand_truth c \<in> set ut \<or> cand_pred c \<in> set up \<or>
    (\<exists>c'\<in>set (greedy ut up cs). conflict c' c \<and> rank c' \<le> rank c)"
  using assms
proof (induction ut up cs rule: greedy.induct)
  case (2 ut up d cs)
  show ?case
  proof (cases "cand_truth d \<in> set ut \<or> cand_pred d \<in> set up")
    case True
    with 2 show ?thesis by auto
  next
    case False
    with "2.prems" have c: "c \<in> set cs" "c \<notin> set (greedy (cand_truth d # ut) (cand_pred d # up) cs)"
      "rank d \<le> rank c" "sorted (map rank cs)" by auto
    from "2.IH"(2) [OF False c(4,1,2)] c(3) False show ?thesis by (auto simp: conflict_def)
  qed
qed simp

lemma greedy_stable:
  fixes rank :: "candidate \<Rightarrow> 'k::linorder"
  assumes "sorted (map rank cs)" and "inj_on rank (set cs)" and "c \<in> set cs"
  shows "c \<in> set (greedy [] [] cs) \<longleftrightarrow>
    \<not> (\<exists>c'\<in>set (greedy [] [] cs). c' \<noteq> c \<and> conflict c' c \<and> rank c' < rank c)"
proof
  assume "c \<in> set (greedy [] [] cs)"
  then show "\<not> (\<exists>c'\<in>set (greedy [] [] cs). c' \<noteq> c \<and> conflict c' c \<and> rank c' < rank c)"
    using greedy_one_to_one [of "[]" "[]" cs] by (auto simp: conflict_def distinct_map dest: inj_onD)
next
  assume free: "\<not> (\<exists>c'\<in>set (greedy [] [] cs). c' \<noteq> c \<and> conflict c' c \<and> rank c' < rank c)"
  show "c \<in> set (greedy [] [] cs)"
  proof (rule ccontr)
    assume out: "c \<notin> set (greedy [] [] cs)"
    with greedy_blocked [OF assms(1,3)] obtain c' where c': "c' \<in> set (greedy [] [] cs)" "conflict c' c" "rank c' \<le> rank c"
      by force
    with out have "c' \<noteq> c" by blast
    moreover have "rank c' \<noteq> rank c"
      using assms(2,3) c'(1) \<open>c' \<noteq> c\<close> greedy_subset [of "[]" "[]" cs] by (auto dest: inj_onD)
    ultimately show False using free c' by auto
  qed
qed

section \<open>The pairs that reach the threshold\<close>

lemma seconds_pos: "0 < micros \<Longrightarrow> 0 < seconds micros"
  by (simp add: seconds_def fl_sign)

lemma seconds_nonneg: "0 \<le> micros \<Longrightarrow> 0 \<le> seconds micros"
  by (simp add: seconds_def fl_sign)

lemma seconds_mono: "0 \<le> a \<Longrightarrow> a \<le> b \<Longrightarrow> seconds a \<le> seconds b"
  by (auto simp: seconds_def intro!: fl_mono divide_right_mono)

lemma seconds_neg: "micros \<le> 0 \<Longrightarrow> max 0 (seconds micros) = 0"
proof -
  assume "micros \<le> 0"
  then have "of_int micros / 1000000 \<le> (0 :: rat)" by (simp add: divide_le_0_iff)
  then have "round_half_even (of_int micros / 1000000 / ulp_of (of_int micros / 1000000)) \<le> 0"
    by (intro round_half_even_bounds) (simp add: divide_le_0_iff)
  then show ?thesis by (simp add: seconds_def fl_def mult_le_0_iff)
qed

lemma overlap_seconds_pos: "0 < overlap_seconds i j \<longleftrightarrow> max (fst i) (fst j) < min (snd i) (snd j)"
  using seconds_pos [of "min (snd i) (snd j) - max (fst i) (fst j)"]
    seconds_neg [of "min (snd i) (snd j) - max (fst i) (fst j)"]
  by (cases "max (fst i) (fst j) < min (snd i) (snd j)") (auto simp: overlap_seconds_def)

lemma temporal_iou_share: "0 \<le> temporal_iou t p" "temporal_iou t p \<le> 1"
proof -
  let ?i = "truth_interval t" and ?j = "prediction_interval p"
  let ?u = "max (snd ?i) (snd ?j) - min (fst ?i) (fst ?j)" and ?o = "min (snd ?i) (snd ?j) - max (fst ?i) (fst ?j)"
  have "0 \<le> temporal_iou t p \<and> temporal_iou t p \<le> 1"
  proof (cases "truth_group t \<noteq> prediction_group p \<or> overlap_seconds ?i ?j = 0")
    case True
    then show ?thesis by (auto simp: temporal_iou_def Let_def)
  next
    case False
    moreover have "0 \<le> overlap_seconds ?i ?j" by (simp add: overlap_seconds_def)
    ultimately have o: "0 < ?o" using overlap_seconds_pos [of ?i ?j] by auto
    then have "overlap_seconds ?i ?j = seconds ?o" using seconds_pos [OF o] by (simp add: overlap_seconds_def)
    moreover have "seconds ?o \<le> seconds ?u" using o by (intro seconds_mono) auto
    ultimately have "0 \<le> overlap_seconds ?i ?j / seconds ?u" "overlap_seconds ?i ?j / seconds ?u \<le> 1"
      using seconds_pos [OF o] by (simp_all add: divide_le_eq_1)
    with False show ?thesis by (simp add: temporal_iou_def Let_def fl_sign fl_le_1)
  qed
  then show "0 \<le> temporal_iou t p" "temporal_iou t p \<le> 1" by simp_all
qed

lemma temporal_iou_comparable: "0 < temporal_iou t p \<Longrightarrow> truth_group t = prediction_group p \<and> overlapping t p"
  using overlap_seconds_pos [of "truth_interval t" "prediction_interval p"]
  by (auto simp: temporal_iou_def Let_def overlapping_def overlap_seconds_def split: if_splits)

end
