(* ===== verification/Episode_Durations.thy ===== *)
theory Episode_Durations
  imports Episode_Matching
begin

text \<open>
  What the duration metrics measure: merging leaves the instants its intervals cover and separates
  them, the loop over two lists of merged intervals always ends, and on windows aligned to whole
  seconds its sum, like the totals, is the exact number of instants covered, in seconds.
\<close>

section \<open>Merging\<close>

definition covered :: "interval list \<Rightarrow> instant set" where
  "covered is = (\<Union>i\<in>set is. {fst i..<snd i})"

definition separated :: "interval list \<Rightarrow> bool" where
  "separated is \<longleftrightarrow> sorted_wrt (\<lambda>i j. snd i < fst j) is \<and> (\<forall>i\<in>set is. fst i < snd i)"

lemma covered_simps [simp]:
  "covered [] = {}" "covered (i # is) = {fst i..<snd i} \<union> covered is"
  "covered (xs @ ys) = covered xs \<union> covered ys" "finite (covered is)"
  by (auto simp: covered_def)

lemma separated_append:
  "separated (xs @ ys) \<longleftrightarrow> separated xs \<and> separated ys \<and> (\<forall>x\<in>set xs. \<forall>y\<in>set ys. snd x < fst y)"
  by (auto simp: separated_def sorted_wrt_append)

lemma merge_interval_step:
  assumes "separated m" and "fst i < snd i" and "m \<noteq> [] \<Longrightarrow> fst (last m) \<le> fst i"
  shows "separated (merge_interval m i)" and "covered (merge_interval m i) = covered m \<union> {fst i..<snd i}"
    and "merge_interval m i \<noteq> []" and "fst (last (merge_interval m i)) \<le> fst i"
    and "\<forall>x\<in>set (merge_interval m i). fst x \<in> fst ` set (i # m) \<and> snd x \<in> snd ` set (i # m)"
proof -
  consider (new) "m = [] \<or> fst i > snd (last m)" | (old) n l where "m = n @ [l]" "fst i \<le> snd l"
    by (metis append_butlast_last_id not_le)
  then have "separated (merge_interval m i) \<and> covered (merge_interval m i) = covered m \<union> {fst i..<snd i} \<and>
    merge_interval m i \<noteq> [] \<and> fst (last (merge_interval m i)) \<le> fst i \<and>
    (\<forall>x\<in>set (merge_interval m i). fst x \<in> fst ` set (i # m) \<and> snd x \<in> snd ` set (i # m))"
  proof cases
    case new
    have "snd x < fst i" if "x \<in> set m" for x
    proof -
      from that obtain n l where m: "m = n @ [l]" by (metis append_butlast_last_id empty_iff empty_set)
      have "snd l < fst i" "fst l < snd l" "x \<in> set n \<Longrightarrow> snd x < fst l"
        using new assms(1) unfolding m separated_append by (auto simp: separated_def)
      with that show ?thesis unfolding m by force
    qed
    with new assms(1,2) show ?thesis
      by (auto simp: merge_interval_def separated_append separated_def [of "[i]"])
  next
    case old
    have step: "merge_interval m i = n @ [(fst l, max (snd l) (snd i))]"
      using old by (simp add: merge_interval_def)
    have l: "fst l \<le> fst i" "fst l < snd l" using assms(1,3) old by (auto simp: separated_append separated_def)
    then have "{fst l..<snd l} \<union> {fst i..<snd i} = {fst l..<max (snd l) (snd i)}" using old by auto
    then have "covered (n @ [(fst l, max (snd l) (snd i))]) = covered m \<union> {fst i..<snd i}"
      by (simp add: old(1) Un_assoc)
    moreover have "separated (n @ [(fst l, max (snd l) (snd i))])"
      using assms(1) l unfolding old(1) separated_append by (auto simp: separated_def)
    moreover have "\<forall>x\<in>set (n @ [(fst l, max (snd l) (snd i))]). fst x \<in> fst ` set (i # m) \<and> snd x \<in> snd ` set (i # m)"
      unfolding old(1) by (auto simp: max_def image_iff)
    ultimately show ?thesis using l(1) unfolding step by (intro conjI) simp_all
  qed
  then show "separated (merge_interval m i)" and "covered (merge_interval m i) = covered m \<union> {fst i..<snd i}"
    and "merge_interval m i \<noteq> []" and "fst (last (merge_interval m i)) \<le> fst i"
    and "\<forall>x\<in>set (merge_interval m i). fst x \<in> fst ` set (i # m) \<and> snd x \<in> snd ` set (i # m)" by auto
qed

lemma merge_fold:
  assumes "separated m" and "\<forall>i\<in>set is. fst i < snd i" and "sorted is"
    and "m \<noteq> [] \<Longrightarrow> \<forall>i\<in>set is. fst (last m) \<le> fst i"
  shows "separated (foldl merge_interval m is) \<and> covered (foldl merge_interval m is) = covered m \<union> covered is \<and>
    (\<forall>x\<in>set (foldl merge_interval m is). fst x \<in> fst ` set (is @ m) \<and> snd x \<in> snd ` set (is @ m))"
  using assms
proof (induction "is" arbitrary: m)
  case (Cons i "is")
  have i: "fst i < snd i" "m \<noteq> [] \<Longrightarrow> fst (last m) \<le> fst i" using Cons.prems by auto
  note step = merge_interval_step [OF Cons.prems(1) i]
  have "fst (last (merge_interval m i)) \<le> fst j" if "j \<in> set is" for j
    using step(4) Cons.prems(3) that by (cases i; cases j) (fastforce simp: less_eq_prod_def)
  then have "separated (foldl merge_interval (merge_interval m i) is) \<and>
    covered (foldl merge_interval (merge_interval m i) is) = covered (merge_interval m i) \<union> covered is \<and>
    (\<forall>x\<in>set (foldl merge_interval (merge_interval m i) is). fst x \<in> fst ` set (is @ merge_interval m i) \<and>
      snd x \<in> snd ` set (is @ merge_interval m i))"
    using Cons.prems by (intro Cons.IH step) auto
  then have IH: "separated (foldl merge_interval m (i # is))"
    "covered (foldl merge_interval m (i # is)) = covered m \<union> covered (i # is)"
    and ends: "\<And>x. x \<in> set (foldl merge_interval m (i # is)) \<Longrightarrow>
      fst x \<in> fst ` set is \<union> fst ` set (merge_interval m i) \<and> snd x \<in> snd ` set is \<union> snd ` set (merge_interval m i)"
    by (simp_all add: step(2) Un_assoc image_Un)
  have sub: "fst ` set (merge_interval m i) \<subseteq> fst ` set (i # m)" "snd ` set (merge_interval m i) \<subseteq> snd ` set (i # m)"
    using step(5) by blast+
  have "fst x \<in> fst ` set ((i # is) @ m) \<and> snd x \<in> snd ` set ((i # is) @ m)"
    if "x \<in> set (foldl merge_interval m (i # is))" for x
    using ends [OF that] sub by (simp add: image_Un) blast
  with IH show ?case by blast
qed (auto simp: image_iff)

lemma merge_intervals_exact:
  assumes "\<forall>i\<in>set is. fst i < snd i"
  shows "separated (merge_intervals is)" and "covered (merge_intervals is) = covered is"
    and "\<forall>x\<in>set (merge_intervals is). fst x \<in> fst ` set is \<and> snd x \<in> snd ` set is"
  using merge_fold [of "[]" "sort is"] assms by (auto simp: merge_intervals_def separated_def covered_def)

text \<open>The length of separated intervals is the number of instants they cover.\<close>

lemma separated_card:
  "separated is \<Longrightarrow> int (card (covered is)) = sum_list (map (\<lambda>i. snd i - fst i) is)"
proof (induction "is")
  case (Cons i "is")
  then have "separated is" "{fst i..<snd i} \<inter> covered is = {}" "fst i < snd i"
    by (fastforce simp: separated_def covered_def)+
  with Cons show ?case by (simp add: card_Un_disjoint)
qed simp

section \<open>The loop over two lists\<close>

definition shared :: "interval list \<Rightarrow> interval list \<Rightarrow> int" where
  "shared ts ps = int (card (covered ts \<inter> covered ps))"

definition overlap_length :: "interval \<Rightarrow> interval \<Rightarrow> int" where
  "overlap_length i j = max 0 (min (snd i) (snd j) - max (fst i) (fst j))"

lemma overlap_length_card: "overlap_length i j = int (card ({fst i..<snd i} \<inter> {fst j..<snd j}))"
proof -
  have "int (nat z) = max 0 z" for z by (simp add: max_def)
  moreover have "{fst i..<snd i} \<inter> {fst j..<snd j} = {max (fst i) (fst j)..<min (snd i) (snd j)}" by auto
  ultimately show ?thesis by (simp only: overlap_length_def card_atLeastLessThan_int)
qed

lemma shared_commute: "shared ts ps = shared ps ts"
  by (simp add: shared_def Int_commute)

lemma shared_Nil [simp]: "shared [] ps = 0" "shared ts [] = 0"
  by (simp_all add: shared_def)

lemma shared_step:
  assumes "separated (t # ts)" and "separated (p # ps)" and "snd t \<le> snd p"
  shows "shared (t # ts) (p # ps) = overlap_length t p + shared ts (p # ps)"
proof -
  have "{fst t..<snd t} \<inter> covered ps = {}" "{fst t..<snd t} \<inter> covered ts = {}"
    using assms by (fastforce simp: separated_def covered_def)+
  then have "covered (t # ts) \<inter> covered (p # ps) =
      ({fst t..<snd t} \<inter> {fst p..<snd p}) \<union> (covered ts \<inter> covered (p # ps))"
    "({fst t..<snd t} \<inter> {fst p..<snd p}) \<inter> (covered ts \<inter> covered (p # ps)) = {}" by auto
  then show ?thesis unfolding shared_def overlap_length_card by (simp add: card_Un_disjoint)
qed

lemma shared_step':
  "separated (t # ts) \<Longrightarrow> separated (p # ps) \<Longrightarrow> snd p \<le> snd t \<Longrightarrow>
     shared (t # ts) (p # ps) = overlap_length t p + shared (t # ts) ps"
  using shared_step [of p ps t ts]
  by (simp add: shared_commute [of "t # ts"] overlap_length_def min.commute max.commute)

text \<open>The loop always ends: every step moves one of the two indices.\<close>

lemma overlap_while_ends: "\<exists>s. while_option (overlap_continues ts ps) (overlap_step ts ps) (i, j, r) = Some s"
  by (rule measure_while_option_Some [where P = "\<lambda>_. True" and
      f = "\<lambda>(i, j, r). (length ts - i) + (length ps - j)"])
    (auto simp: overlap_continues_def overlap_step_def Let_def)

lemma overlap_loop_ends: "\<exists>r'. overlap_loop ts ps r = Some r'"
  using overlap_while_ends [of ts ps 0 0 r] by (auto simp: overlap_loop_def)

lemma overlap_groups_ends: "\<exists>r'. overlap_groups truth predictions ks r = Some r'"
proof (induction ks arbitrary: r)
  case (Cons k ks)
  obtain r1 where "overlap_loop (get_or_empty k truth) (get_or_empty k predictions) r = Some r1"
    using overlap_loop_ends by blast
  with Cons.IH [of r1] show ?case by simp
qed simp

lemma intersection_seconds_ends: "\<exists>r. intersection_seconds truth predictions = Some r"
  unfolding intersection_seconds_def by (rule overlap_groups_ends)

section \<open>Whole seconds\<close>

definition aligned :: "interval list \<Rightarrow> bool" where
  "aligned is \<longleftrightarrow> (\<forall>i\<in>set is. 1000000 dvd fst i \<and> 1000000 dvd snd i)"

lemma aligned_Cons: "aligned (i # is) \<longleftrightarrow> 1000000 dvd fst i \<and> 1000000 dvd snd i \<and> aligned is"
  by (auto simp: aligned_def)

lemma seconds_exact: "1000000 dvd micros \<Longrightarrow> \<bar>micros div 1000000\<bar> \<le> 2 ^ 53 \<Longrightarrow> seconds micros = of_int (micros div 1000000)"
  by (auto simp: seconds_def fl_of_int)

lemma overlap_length_dvd: "aligned [i, j] \<Longrightarrow> 1000000 dvd overlap_length i j"
  by (auto simp: overlap_length_def aligned_def max_def min_def)

lemma overlap_length_nonneg: "0 \<le> overlap_length i j"
  by (simp add: overlap_length_def)

lemma overlap_seconds_length:
  assumes "aligned [i, j]" and "overlap_length i j div 1000000 \<le> 2 ^ 53"
  shows "overlap_seconds i j = of_int (overlap_length i j div 1000000)"
proof (cases "min (snd i) (snd j) - max (fst i) (fst j) \<le> 0")
  case True
  then show ?thesis using seconds_neg by (simp add: overlap_seconds_def overlap_length_def)
next
  case False
  then have "overlap_length i j = min (snd i) (snd j) - max (fst i) (fst j)" by (simp add: overlap_length_def)
  then have "overlap_seconds i j = max 0 (seconds (overlap_length i j))" by (simp add: overlap_seconds_def)
  moreover have "0 \<le> overlap_length i j div 1000000"
    using overlap_length_nonneg [of i j] by (simp add: pos_imp_zdiv_nonneg_iff)
  ultimately show ?thesis
    using seconds_exact [OF overlap_length_dvd [OF assms(1)]] assms(2) by (simp add: max_absorb2)
qed

lemma shared_nonneg: "0 \<le> shared ts ps"
  by (simp add: shared_def)

lemma shared_dvd:
  "separated ts \<Longrightarrow> separated ps \<Longrightarrow> aligned ts \<Longrightarrow> aligned ps \<Longrightarrow> 1000000 dvd shared ts ps"
proof (induction "length ts + length ps" arbitrary: ts ps rule: less_induct)
  case less
  show ?case
  proof (cases "ts = [] \<or> ps = []")
    case False
    then obtain t ts' p ps' where e: "ts = t # ts'" "ps = p # ps'" by (cases ts; cases ps) auto
    have sep: "separated ts'" "separated ps'" using less.prems by (auto simp: e separated_def)
    have "1000000 dvd overlap_length t p" using less.prems by (intro overlap_length_dvd) (simp add: e aligned_def)
    moreover have "1000000 dvd shared ts' ps" "1000000 dvd shared ts ps'"
      using less.prems sep by (auto intro!: less.hyps simp: e aligned_def)
    ultimately show ?thesis
      using shared_step [of t ts' p ps'] shared_step' [of t ts' p ps'] less.prems
      by (cases "snd t \<le> snd p") (simp_all add: e)
  qed auto
qed

text \<open>The loop adds the exact number of shared seconds.\<close>

lemma overlap_while_exact:
  assumes "separated ts" "separated ps" "aligned ts" "aligned ps" "0 \<le> r"
    and "r + shared (drop i ts) (drop j ps) div 1000000 \<le> 2 ^ 53"
  shows "\<exists>i' j'. while_option (overlap_continues ts ps) (overlap_step ts ps) (i, j, of_int r) =
    Some (i', j', of_int (r + shared (drop i ts) (drop j ps) div 1000000))"
  using assms(5,6)
proof (induction "(length ts - i) + (length ps - j)" arbitrary: i j r rule: less_induct)
  case less
  have sep: "separated (drop n xs)" "aligned (drop n xs)" if "separated xs" "aligned xs" for n xs
    using that by (auto simp: separated_def aligned_def sorted_wrt_drop dest: in_set_dropD)
  show ?case
  proof (cases "i < length ts \<and> j < length ps")
    case False
    then show ?thesis by (subst while_option_unfold) (auto simp: overlap_continues_def)
  next
    case True
    let ?t = "ts ! i" and ?p = "ps ! j" and ?n = "overlap_length (ts ! i) (ps ! j) div 1000000"
    have d: "drop i ts = ?t # drop (Suc i) ts" "drop j ps = ?p # drop (Suc j) ps"
      using True by (simp_all add: Cons_nth_drop_Suc)
    have s: "separated (drop i ts)" "separated (drop j ps)" "aligned [?t, ?p]"
      using sep [OF assms(1,3), of i] sep [OF assms(2,4), of j] unfolding d by (auto simp: aligned_def)
    have dvd: "1000000 dvd overlap_length ?t ?p" using s(3) by (rule overlap_length_dvd)
    define i2 j2 where "i2 = (if snd ?t \<le> snd ?p then i + 1 else i)" and "j2 = (if snd ?t \<le> snd ?p then j else j + 1)"
    have total: "shared (drop i ts) (drop j ps) = overlap_length ?t ?p + shared (drop i2 ts) (drop j2 ps)"
      using shared_step [of ?t "drop (Suc i) ts" ?p "drop (Suc j) ps"]
        shared_step' [of ?t "drop (Suc i) ts" ?p "drop (Suc j) ps"] s by (auto simp: d [symmetric] i2_def j2_def)
    then have div: "shared (drop i ts) (drop j ps) div 1000000 = ?n + shared (drop i2 ts) (drop j2 ps) div 1000000"
      using dvd by (simp add: div_plus_div_distrib_dvd_left)
    have n: "0 \<le> ?n" "0 \<le> shared (drop i2 ts) (drop j2 ps) div 1000000"
      using overlap_length_nonneg shared_nonneg by (simp_all add: pos_imp_zdiv_nonneg_iff)
    then have "overlap_seconds ?t ?p = of_int ?n"
      using less.prems by (intro overlap_seconds_length s) (simp add: div)
    then have step: "overlap_step ts ps (i, j, of_int r) = (i2, j2, of_int (r + ?n))"
      using fl_of_int [of "r + ?n"] less.prems n by (simp add: overlap_step_def Let_def i2_def j2_def div)
    have "\<exists>i' j'. while_option (overlap_continues ts ps) (overlap_step ts ps) (i2, j2, of_int (r + ?n)) =
        Some (i', j', of_int (r + ?n + shared (drop i2 ts) (drop j2 ps) div 1000000))"
      using True n less.prems by (intro less.hyps) (auto simp: i2_def j2_def div)
    moreover have "overlap_continues ts ps (i, j, of_int r)" using True by (simp add: overlap_continues_def)
    ultimately show ?thesis by (subst while_option_unfold) (simp add: step div add.assoc)
  qed
qed

lemma overlap_loop_exact:
  assumes "separated ts" "separated ps" "aligned ts" "aligned ps" "0 \<le> r"
    and "r + shared ts ps div 1000000 \<le> 2 ^ 53"
  shows "overlap_loop ts ps (of_int r) = Some (of_int (r + shared ts ps div 1000000))"
  using overlap_while_exact [OF assms(1-5), of 0 0] assms(6) by (auto simp: overlap_loop_def)

section \<open>The dictionaries of merged intervals\<close>

lemma grouped_fold:
  "get_or_empty k (foldl (\<lambda>d x. append_to (key x) (val x) d) d xs) =
     get_or_empty k d @ map val (filter (\<lambda>x. key x = k) xs)"
  "fst ` set (foldl (\<lambda>d x. append_to (key x) (val x) d) d xs) = fst ` set d \<union> key ` set xs"
  "distinct (map fst d) \<Longrightarrow> distinct (map fst (foldl (\<lambda>d x. append_to (key x) (val x) d) d xs))"
  by (induction xs arbitrary: d)
    (auto simp: append_to_def get_or_empty_update keys_update distinct_update)

lemma merged_intervals_keys:
  "fst ` set (merged_intervals key iv xs) = key ` set xs" "distinct (map fst (merged_intervals key iv xs))"
  using grouped_fold(2,3) [where key = key and val = iv and d = "[]" and xs = xs]
  by (simp_all add: merged_intervals_def grouped_def image_image case_prod_unfold comp_def)

lemma merged_intervals_entry:
  "(k, is) \<in> set (merged_intervals key iv xs) \<Longrightarrow> is = merge_intervals (map iv (filter (\<lambda>x. key x = k) xs))"
  "get_or_empty k (merged_intervals key iv xs) = merge_intervals (map iv (filter (\<lambda>x. key x = k) xs))"
proof -
  let ?g = "grouped key iv xs"
  have entry: "get_or_empty k ?g = map iv (filter (\<lambda>x. key x = k) xs)" for k
    using grouped_fold(1) [of k key iv "[]" xs] by (simp add: grouped_def)
  have d: "distinct (map fst ?g)" using grouped_fold(3) [of "[]" key iv xs] by (simp add: grouped_def)
  show *: "is = merge_intervals (map iv (filter (\<lambda>x. key x = k) xs))" if "(k, is) \<in> set (merged_intervals key iv xs)" for k "is"
    using that get_or_empty_in [OF d] entry by (fastforce simp: merged_intervals_def)
  show "get_or_empty k (merged_intervals key iv xs) = merge_intervals (map iv (filter (\<lambda>x. key x = k) xs))"
  proof (cases "get_or_empty k (merged_intervals key iv xs) = []")
    case True
    have "filter (\<lambda>x. key x = k) xs = []" if "map_of (merged_intervals key iv xs) k = None"
      using that merged_intervals_keys(1) [of key iv xs] by (auto simp: map_of_eq_None_iff filter_empty_conv)
    moreover have "merge_intervals (map iv (filter (\<lambda>x. key x = k) xs)) = []" if "map_of (merged_intervals key iv xs) k = Some []"
      using * [OF map_of_SomeD [OF that]] by simp
    ultimately show ?thesis using True
      by (cases "map_of (merged_intervals key iv xs) k") (auto simp: get_or_empty_def merge_intervals_def)
  next
    case False
    with * get_or_empty_dom show ?thesis by metis
  qed
qed

text \<open>The labelled instants of a list of episodes or predictions.\<close>

definition labelled :: "('a \<Rightarrow> group) \<Rightarrow> ('a \<Rightarrow> interval) \<Rightarrow> 'a set \<Rightarrow> (group \<times> instant) set" where
  "labelled key iv X = {(k, m). \<exists>x\<in>X. key x = k \<and> fst (iv x) \<le> m \<and> m < snd (iv x)}"

definition intervals_ok :: "('a \<Rightarrow> interval) \<Rightarrow> 'a set \<Rightarrow> bool" where
  "intervals_ok iv X \<longleftrightarrow> (\<forall>x\<in>X. well_formed (iv x) \<and> 1000000 dvd fst (iv x) \<and> 1000000 dvd snd (iv x))"

lemma merged_group:
  assumes "intervals_ok iv (set xs)"
  shows "separated (merge_intervals (map iv (filter (\<lambda>x. key x = k) xs)))"
    and "aligned (merge_intervals (map iv (filter (\<lambda>x. key x = k) xs)))"
    and "covered (merge_intervals (map iv (filter (\<lambda>x. key x = k) xs))) = {m. (k, m) \<in> labelled key iv (set xs)}"
proof -
  have wf: "\<forall>i\<in>set (map iv (filter (\<lambda>x. key x = k) xs)). fst i < snd i"
    using assms by (auto simp: intervals_ok_def well_formed_def)
  note m = merge_intervals_exact [OF wf]
  show "separated (merge_intervals (map iv (filter (\<lambda>x. key x = k) xs)))" by (rule m)
  show "aligned (merge_intervals (map iv (filter (\<lambda>x. key x = k) xs)))"
    unfolding aligned_def using m(3) assms by (fastforce simp: intervals_ok_def)
  show "covered (merge_intervals (map iv (filter (\<lambda>x. key x = k) xs))) = {m. (k, m) \<in> labelled key iv (set xs)}"
    unfolding m(2) by (auto simp: covered_def labelled_def)
qed

lemma labelled_finite: "finite X \<Longrightarrow> finite (labelled key iv X)"
  by (rule finite_subset [of _ "\<Union>x\<in>X. {key x} \<times> {fst (iv x)..<snd (iv x)}"]) (auto simp: labelled_def)

lemma labelled_card:
  assumes "intervals_ok iv (set xs)"
  shows "int (card (labelled key iv (set xs))) =
    sum_list (map (\<lambda>(k, is). sum_list (map (\<lambda>i. snd i - fst i) is)) (merged_intervals key iv xs))"
proof -
  let ?D = "merged_intervals key iv xs" and ?L = "labelled key iv (set xs)"
  have d: "distinct (map fst ?D)" by (rule merged_intervals_keys)
  have "?L = (\<Union>e\<in>set ?D. {fst e} \<times> covered (snd e))"
  proof -
    have "(k, m) \<in> ?L \<longleftrightarrow> (\<exists>e\<in>set ?D. k = fst e \<and> m \<in> covered (snd e))" for k m
    proof
      assume "(k, m) \<in> ?L"
      then have "k \<in> fst ` set ?D" by (auto simp: merged_intervals_keys labelled_def)
      then obtain "is" where "(k, is) \<in> set ?D" by auto
      with merged_intervals_entry(1) [OF this] merged_group(3) [OF assms, of key k] \<open>(k, m) \<in> ?L\<close>
      show "\<exists>e\<in>set ?D. k = fst e \<and> m \<in> covered (snd e)" by force
    next
      assume "\<exists>e\<in>set ?D. k = fst e \<and> m \<in> covered (snd e)"
      then obtain "is" where "(k, is) \<in> set ?D" "m \<in> covered is" by auto
      with merged_intervals_entry(1) [OF this(1)] merged_group(3) [OF assms, of key k] show "(k, m) \<in> ?L" by auto
    qed
    then show ?thesis by auto
  qed
  then have "card ?L = (\<Sum>e\<in>set ?D. card ({fst e} \<times> covered (snd e)))"
    by (simp only:) (rule card_UN_disjoint, auto dest: eq_key_imp_eq_value [OF d])
  then have "int (card ?L) = (\<Sum>e\<in>set ?D. int (card (covered (snd e))))" by simp
  also have "\<dots> = (\<Sum>e\<in>set ?D. sum_list (map (\<lambda>i. snd i - fst i) (snd e)))"
  proof (intro sum.cong separated_card)
    fix e assume "e \<in> set ?D"
    then have "(fst e, snd e) \<in> set ?D" by simp
    from merged_intervals_entry(1) [OF this] merged_group(1) [OF assms] show "separated (snd e)" by simp
  qed simp
  also have "\<dots> = sum_list (map (\<lambda>e. sum_list (map (\<lambda>i. snd i - fst i) (snd e))) ?D)"
    using d by (simp add: sum.distinct_set_conv_list distinct_map)
  finally show ?thesis by (simp add: case_prod_unfold)
qed

lemma sum_list_div:
  "\<forall>x\<in>set xs. m dvd x \<Longrightarrow> sum_list (map (\<lambda>x. x div m) xs) = sum_list xs div (m :: int)"
  by (induction xs) (auto simp: div_plus_div_distrib_dvd_left)

lemma sum_list_pairs: "sum_list (map (\<lambda>(k, xs). sum_list (map f xs)) d) = sum_list (map f (concat (map snd d)))"
  by (induction d) auto

lemma total_seconds_exact:
  assumes "intervals_ok iv (set xs)" and "int (card (labelled key iv (set xs))) div 1000000 \<le> 2 ^ 53"
  shows "total_seconds_of (merged_intervals key iv xs) = of_int (int (card (labelled key iv (set xs))) div 1000000)"
proof -
  let ?D = "merged_intervals key iv xs"
  define ls where "ls = map (\<lambda>i. snd i - fst i) (concat (map snd ?D))"
  have ls: "0 \<le> x \<and> 1000000 dvd x" if "x \<in> set ls" for x
  proof -
    from that obtain k "is" i where D: "(k, is) \<in> set ?D" and i: "i \<in> set is" "x = snd i - fst i" by (auto simp: ls_def)
    from merged_intervals_entry(1) [OF D] merged_group(1,2) [OF assms(1), of key k]
    have "fst i < snd i" "1000000 dvd fst i" "1000000 dvd snd i" using i(1) by (auto simp: separated_def aligned_def)
    with i(2) show ?thesis by auto
  qed
  have sum: "int (card (labelled key iv (set xs))) = sum_list ls"
    unfolding labelled_card [OF assms(1)] ls_def by (rule sum_list_pairs)
  have "seconds x = of_int (x div 1000000)" if "x \<in> set ls" for x
  proof (rule seconds_exact)
    have "0 \<le> x div 1000000" using ls [OF that] by (simp add: pos_imp_zdiv_nonneg_iff)
    moreover have "x \<le> sum_list ls" using ls that by (intro member_le_sum_list) auto
    then have "x div 1000000 \<le> sum_list ls div 1000000" by (rule zdiv_mono1) simp
    ultimately show "\<bar>x div 1000000\<bar> \<le> 2 ^ 53" using assms(2) unfolding sum by linarith
  qed (use ls that in blast)
  then have eq: "map seconds ls = map of_int (map (\<lambda>x. x div 1000000) ls)" by simp
  have total: "total_seconds_of ?D = py_sum (map seconds ls)"
    by (simp add: total_seconds_of_def ls_def map_concat comp_def case_prod_unfold)
  have sums: "py_sum (map of_int (map (\<lambda>x. x div 1000000) ls)) = of_int (sum_list (map (\<lambda>x. x div 1000000) ls))"
    using ls assms(2) unfolding sum
    by (intro py_sum_exact) (simp_all add: sum_list_div list_all_iff pos_imp_zdiv_nonneg_iff)
  show ?thesis unfolding total eq sums using ls by (simp add: sum sum_list_div)
qed

lemma overlap_groups_exact:
  assumes "intervals_ok it (set ts)" and "intervals_ok ip (set ps)" and "distinct ks" and "0 \<le> r"
    and "r + (\<Sum>k\<in>set ks. int (card {m. (k, m) \<in> labelled kt it (set ts) \<inter> labelled kp ip (set ps)}) div 1000000) \<le> 2 ^ 53"
  shows "overlap_groups (merged_intervals kt it ts) (merged_intervals kp ip ps) ks (of_int r) =
    Some (of_int (r + (\<Sum>k\<in>set ks. int (card {m. (k, m) \<in> labelled kt it (set ts) \<inter> labelled kp ip (set ps)}) div 1000000)))"
  using assms(3-5)
proof (induction ks arbitrary: r)
  case (Cons k ks)
  let ?n = "\<lambda>k. int (card {m. (k, m) \<in> labelled kt it (set ts) \<inter> labelled kp ip (set ps)}) div 1000000"
  let ?ts = "merge_intervals (map it (filter (\<lambda>x. kt x = k) ts))" and ?ps = "merge_intervals (map ip (filter (\<lambda>x. kp x = k) ps))"
  have n: "0 \<le> ?n k" "0 \<le> sum ?n (set ks)" by (auto intro!: sum_nonneg simp: pos_imp_zdiv_nonneg_iff)
  have sum: "sum ?n (set (k # ks)) = ?n k + sum ?n (set ks)" using Cons.prems(1) by simp
  have shared: "shared ?ts ?ps div 1000000 = ?n k"
    by (simp add: shared_def merged_group(3) [OF assms(1)] merged_group(3) [OF assms(2)] Collect_conj_eq)
  have "overlap_loop ?ts ?ps (of_int r) = Some (of_int (r + ?n k))"
    unfolding shared [symmetric]
    using n Cons.prems by (intro overlap_loop_exact merged_group assms(1,2)) (simp_all add: shared sum)
  moreover have "overlap_groups (merged_intervals kt it ts) (merged_intervals kp ip ps) ks (of_int (r + ?n k)) =
      Some (of_int (r + ?n k + sum ?n (set ks)))"
    using n Cons.prems by (intro Cons.IH) (simp_all add: sum)
  ultimately show ?case using Cons.prems(1) by (simp add: merged_intervals_entry(2) add.assoc)
qed simp

section \<open>The duration sums are exact\<close>

lemma labelled_pairs_dvd:
  assumes "intervals_ok it (set ts)" and "intervals_ok ip (set ps)"
  shows "1000000 dvd int (card {m. (k, m) \<in> labelled kt it (set ts) \<inter> labelled kp ip (set ps)})"
  using shared_dvd [OF merged_group(1) [OF assms(1), of kt k] merged_group(1) [OF assms(2), of kp k]
      merged_group(2) [OF assms(1)] merged_group(2) [OF assms(2)]]
  by (simp add: shared_def merged_group(3) [OF assms(1)] merged_group(3) [OF assms(2)] Collect_conj_eq)

lemma sum_div_dvd: "finite A \<Longrightarrow> \<forall>a\<in>A. m dvd f a \<Longrightarrow> (\<Sum>a\<in>A. f a div m) = sum f A div (m :: int)"
  by (induction A rule: finite_induct) (auto simp: div_plus_div_distrib_dvd_left)

lemma card_slices:
  assumes "finite S" and "finite K" and "\<And>k m. (k, m) \<in> S \<Longrightarrow> k \<in> K"
  shows "card S = (\<Sum>k\<in>K. card {m. (k, m) \<in> S})"
proof -
  have S: "S = (\<Union>k\<in>K. {k} \<times> {m. (k, m) \<in> S})" using assms(3) by auto
  have "finite {m. (k, m) \<in> S}" for k
    by (rule finite_subset [OF _ finite_imageI [OF assms(1), of snd]]) force
  then have "card (\<Union>k\<in>K. {k} \<times> {m. (k, m) \<in> S}) = (\<Sum>k\<in>K. card {m. (k, m) \<in> S})"
    using assms(2) by (subst card_UN_disjoint) (auto simp: card_cartesian_product_singleton)
  with S show ?thesis by simp
qed

lemma intersection_seconds_exact:
  assumes "intervals_ok it (set ts)" and "intervals_ok ip (set ps)"
    and "int (card (labelled kt it (set ts) \<inter> labelled kp ip (set ps))) div 1000000 \<le> 2 ^ 53"
  shows "intersection_seconds (merged_intervals kt it ts) (merged_intervals kp ip ps) =
    Some (of_int (int (card (labelled kt it (set ts) \<inter> labelled kp ip (set ps))) div 1000000))"
proof -
  let ?S = "labelled kt it (set ts) \<inter> labelled kp ip (set ps)"
  let ?ks = "sorted_list_of_set (kt ` set ts \<inter> kp ` set ps)" and ?c = "\<lambda>k. card {m. (k, m) \<in> ?S}"
  have fin: "finite ?S" by (simp add: labelled_finite)
  have "k \<in> set ?ks" if "(k, m) \<in> ?S" for k m
  proof -
    from that obtain x y where "x \<in> set ts" "kt x = k" "y \<in> set ps" "kp y = k" unfolding labelled_def by blast
    then have "k \<in> kt ` set ts \<inter> kp ` set ps" by (metis IntI imageI)
    then show ?thesis by simp
  qed
  then have card: "int (card ?S) = (\<Sum>k\<in>set ?ks. int (?c k))"
    using card_slices [OF fin, of "set ?ks"] by simp
  then have sum: "(\<Sum>k\<in>set ?ks. int (?c k) div 1000000) = int (card ?S) div 1000000"
    using labelled_pairs_dvd [OF assms(1,2), of _ kt kp] by (simp add: sum_div_dvd)
  have bound: "0 + (\<Sum>k\<in>set ?ks. int (?c k) div 1000000) \<le> 2 ^ 53" unfolding sum using assms(3) by simp
  show ?thesis
    unfolding intersection_seconds_def merged_intervals_keys(1)
    using overlap_groups_exact [OF assms(1,2) distinct_sorted_list_of_set order_refl bound] unfolding sum by simp
qed

end
