(* ===== verification/Episode_Properties.thy ===== *)
theory Episode_Properties
  imports Episode_Durations
begin

text \<open>
  What an episode evaluation of \<open>telco_lab/evaluation.py\<close> reports: its matches are the stable selection
  among all pairs that reach the threshold, its durations are shares of labelled instants, it always
  returns, and on validated episodes it returns a valid report unless the pair budget is exceeded.
\<close>

section \<open>Supplied sequences\<close>

text \<open>An ordinary list or tuple of instances.\<close>

definition sequence_of :: "'a list \<Rightarrow> 'a sequence_arg" where
  "sequence_of xs = Sequence_arg \<lparr>seq_len = Some (length xs), seq_item = (\<lambda>i. if i < length xs then Some (Exact (xs ! i)) else None)\<rparr>"

lemma bounded_sequence_of: "length xs \<le> MAX_BUNDLE_EPISODES \<Longrightarrow> bounded_sequence (sequence_of xs) = Inr xs"
proof -
  assume len: "length xs \<le> MAX_BUNDLE_EPISODES"
  let ?it = "\<lambda>i. if i < length xs then Some (Exact (xs ! i)) else None"
  have items: "map ?it [0..<length xs] = map (Some \<circ> Exact) xs"
    by (rule nth_equalityI) auto
  have "List.map_filter (\<lambda>x. case x of Some (Exact v) \<Rightarrow> Some v | _ \<Rightarrow> None) (map (Some \<circ> Exact) ys) = ys" for ys :: "'a list"
    by (induction ys) (auto simp: map_filter_simps)
  with len show ?thesis
    unfolding sequence_of_def bounded_sequence_def
    by (auto simp: Let_def items list_ex_iff simp del: map_map)
qed

lemma validated_threshold_float:
  "0 < th \<Longrightarrow> th \<le> 1 \<Longrightarrow> validated_threshold (Float_threshold th) = Inr th"
  by (simp add: validated_threshold_def)

section \<open>Termination\<close>

text \<open>
  C40: Whatever is supplied, \<open>evaluate_episodes\<close> returns: its index loop over merged intervals ends, so
  the result is a report or an error.
\<close>
theorem evaluation_returns:
  "\<exists>result. evaluate_episodes h ground_truth predictions threshold = Some result"
proof -
  have "\<exists>result. evaluate_items h ts ps th = Some result" for ts ps th
    using intersection_seconds_ends [of "merged_intervals truth_group truth_interval ts"
        "merged_intervals prediction_group prediction_interval ps"]
    by (auto simp: evaluate_items_def Let_def split: sum.splits)
  then show ?thesis
    by (auto simp: evaluate_episodes_def split: sum.splits)
qed

section \<open>Matches\<close>

text \<open>The order in which pairs are preferred: larger overlap, then the identifiers.\<close>

definition pair_rank :: "lab_episode \<times> predicted_episode \<Rightarrow> rat \<times> string \<times> string" where
  "pair_rank x = (case x of (t, p) \<Rightarrow> (- temporal_iou t p, episode_id t, prediction_id p))"

definition pair_match :: "lab_episode \<times> predicted_episode \<Rightarrow> episode_match" where
  "pair_match x = (case x of (t, p) \<Rightarrow> \<lparr>ground_truth_episode_id = episode_id t,
     match_prediction_id = prediction_id p, match_iou = rounded (temporal_iou t p)\<rparr>)"

definition eligible :: "lab_episode list \<Rightarrow> predicted_episode list \<Rightarrow> rat \<Rightarrow> (lab_episode \<times> predicted_episode) set" where
  "eligible ts ps th = {(t, p) \<in> set ts \<times> set ps. th \<le> temporal_iou t p}"

text \<open>A selection that keeps exactly the eligible pairs no better kept pair shares an item with.\<close>

definition stable_selection :: "(lab_episode \<times> predicted_episode) set \<Rightarrow> (lab_episode \<times> predicted_episode) set \<Rightarrow> bool" where
  "stable_selection E M \<longleftrightarrow> M \<subseteq> E \<and> (\<forall>x\<in>E. x \<in> M \<longleftrightarrow>
     \<not> (\<exists>y\<in>M. y \<noteq> x \<and> (fst y = fst x \<or> snd y = snd x) \<and> pair_rank y < pair_rank x))"

lemma episodes_ok_perm:
  assumes "episodes_ok ts ps"
  shows "episodes_ok (sort_key episode_id ts) (sort_key prediction_id ps)"
  using assms by (auto simp: episodes_ok_def distinct_map)

lemma kept_eligible:
  assumes "mset pairs = mset_set (comparable_pairs (set ts) (set ps))" and "0 < th"
  shows "set (kept th pairs) = candidate_of ` eligible ts ps th" and "distinct (kept th pairs)"
proof -
  have fin: "finite (comparable_pairs (set ts) (set ps))"
    by (rule finite_subset [of _ "set ts \<times> set ps"]) (auto simp: comparable_pairs_def)
  have s: "set pairs = comparable_pairs (set ts) (set ps)"
    using assms(1) fin by (metis finite_set_mset_mset_set set_mset_mset)
  have "distinct pairs" using assms(1) fin by (metis count_mset_set(1) count_mset_set(3) distinct_count_atmost_1
    count_mset set_mset_mset finite_set_mset_mset_set in_multiset_in_set s count_eq_zero_iff)
  moreover have "inj candidate_of" by (auto simp: inj_def candidate_of_def)
  ultimately show "distinct (kept th pairs)"
    by (simp add: kept_def distinct_map inj_on_subset [of candidate_of UNIV])
  show "set (kept th pairs) = candidate_of ` eligible ts ps th"
    using assms(2) temporal_iou_comparable
    by (auto simp: kept_def s eligible_def comparable_pairs_def image_iff)
qed

lemma stable_selection_unique:
  assumes "finite E" and "stable_selection E M" and "stable_selection E M'"
  shows "M = M'"
proof -
  have "x \<in> M \<longleftrightarrow> x \<in> M'" if "x \<in> E" for x
    using that
  proof (induction "card {y \<in> E. pair_rank y < pair_rank x}" arbitrary: x rule: less_induct)
    case less
    have "y \<in> M \<longleftrightarrow> y \<in> M'" if "y \<in> E" "pair_rank y < pair_rank x" for y
    proof (rule less.hyps [OF _ that(1)])
      have "{z \<in> E. pair_rank z < pair_rank y} \<subset> {z \<in> E. pair_rank z < pair_rank x}"
        using that by (auto intro: less_trans)
      then show "card {z \<in> E. pair_rank z < pair_rank y} < card {z \<in> E. pair_rank z < pair_rank x}"
        using assms(1) by (intro psubset_card_mono) auto
    qed
    moreover have "M \<subseteq> E" "M' \<subseteq> E" using assms(2,3) by (simp_all add: stable_selection_def)
    ultimately show ?case
      using assms(2,3) less.prems unfolding stable_selection_def by (metis subsetD)
  qed
  moreover have "M \<subseteq> E" "M' \<subseteq> E" using assms(2,3) by (simp_all add: stable_selection_def)
  ultimately show ?thesis by blast
qed

lemma candidate_of_simps:
  "candidate_rank (candidate_of x) = pair_rank x" "cand_truth (candidate_of x) = episode_id (fst x)"
  "cand_pred (candidate_of x) = prediction_id (snd x)" "match_of (candidate_of x) = pair_match x"
  "candidate_of x = candidate_of y \<longleftrightarrow> x = y"
  by (auto simp: candidate_rank_def candidate_of_def pair_rank_def cand_truth_def cand_pred_def match_of_def
      pair_match_def split: prod.splits)

lemma pair_rank_inj:
  assumes "distinct (map episode_id ts)" and "distinct (map prediction_id ps)"
  shows "inj_on pair_rank (eligible ts ps th)"
  using assms by (auto simp: inj_on_def eligible_def pair_rank_def distinct_map)

text \<open>The selection among the candidates of a sweep is the stable one.\<close>

lemma greedy_selection:
  assumes "distinct (map episode_id ts)" and "distinct (map prediction_id ps)"
    and "set cs = candidate_of ` eligible ts ps th" and "distinct cs" and "sorted (map candidate_rank cs)"
  obtains M where "stable_selection (eligible ts ps th) M" and "finite M"
    and "mset (map match_of (greedy [] [] cs)) = image_mset pair_match (mset_set M)"
    and "inj_on fst M" and "inj_on snd M"
proof -
  let ?E = "eligible ts ps th"
  define M where "M = {x. candidate_of x \<in> set (greedy [] [] cs)}"
  have fin: "finite ?E" by (rule finite_subset [of _ "set ts \<times> set ps"]) (auto simp: eligible_def)
  have sub: "M \<subseteq> ?E" using greedy_subset [of "[]" "[]" cs] by (auto simp: M_def assms(3) candidate_of_simps)
  then have finM: "finite M" using fin by (rule finite_subset)
  have g: "set (greedy [] [] cs) = candidate_of ` M"
    using greedy_subset [of "[]" "[]" cs] by (auto simp: M_def assms(3))
  have inj: "inj_on candidate_rank (set cs)"
    using pair_rank_inj [OF assms(1,2), of th] by (auto simp: assms(3) inj_on_def candidate_of_simps)
  have share: "conflict (candidate_of y) (candidate_of x) \<longleftrightarrow> fst y = fst x \<or> snd y = snd x" if "x \<in> ?E" "y \<in> ?E" for x y
    using that assms(1,2) by (auto simp: conflict_def candidate_of_simps eligible_def distinct_map dest: inj_onD)
  have "x \<in> M \<longleftrightarrow> \<not> (\<exists>y\<in>M. y \<noteq> x \<and> (fst y = fst x \<or> snd y = snd x) \<and> pair_rank y < pair_rank x)" if x: "x \<in> ?E" for x
  proof -
    have "candidate_of x \<in> set cs" using x by (simp add: assms(3))
    note st = greedy_stable [OF assms(5) inj this]
    have "(\<exists>c\<in>set (greedy [] [] cs). c \<noteq> candidate_of x \<and> conflict c (candidate_of x) \<and>
        candidate_rank c < candidate_rank (candidate_of x)) \<longleftrightarrow>
      (\<exists>y\<in>M. y \<noteq> x \<and> (fst y = fst x \<or> snd y = snd x) \<and> pair_rank y < pair_rank x)"
      unfolding g bex_simps(7) using share [OF x] sub by (intro bex_cong refl) (auto simp: candidate_of_simps)
    with st show ?thesis by (simp add: M_def)
  qed
  then have stable: "stable_selection ?E M" using sub by (auto simp: stable_selection_def)
  note one = greedy_one_to_one [of "[]" "[]" cs]
  have "distinct (greedy [] [] cs)" using one by (auto simp: distinct_map)
  then have "mset (greedy [] [] cs) = mset_set (candidate_of ` M)" by (simp add: g [symmetric] mset_set_set)
  also have "\<dots> = image_mset candidate_of (mset_set M)"
    by (rule image_mset_mset_set [symmetric]) (simp add: inj_on_def candidate_of_simps)
  finally have matches: "mset (map match_of (greedy [] [] cs)) = image_mset pair_match (mset_set M)"
    by (simp add: image_mset.compositionality comp_def candidate_of_simps)
  have ids: "inj_on cand_truth (candidate_of ` M)" "inj_on cand_pred (candidate_of ` M)"
    using one by (simp_all add: distinct_map g)
  have "inj_on fst M" "inj_on snd M"
    using ids unfolding inj_on_def by (metis candidate_of_simps(2,3,5) imageI)+
  with stable finM matches show ?thesis by (intro that)
qed

section \<open>The parts of an evaluation\<close>

definition windows_ordered :: "lab_episode list \<Rightarrow> predicted_episode list \<Rightarrow> bool" where
  "windows_ordered ts ps \<longleftrightarrow> (\<forall>t\<in>set ts. ep_window_start t \<le> ep_window_end t) \<and>
     (\<forall>p\<in>set ps. pe_window_start p \<le> pe_window_end p)"

lemma windows_well_formed:
  "windows_ordered ts ps \<Longrightarrow> t \<in> set ts \<Longrightarrow> well_formed (truth_interval t)"
  "windows_ordered ts ps \<Longrightarrow> p \<in> set ps \<Longrightarrow> well_formed (prediction_interval p)"
  by (auto simp: windows_ordered_def well_formed_def truth_interval_def prediction_interval_def
      inclusive_interval_def)

lemma evaluate_sequences:
  assumes "length ts \<le> MAX_BUNDLE_EPISODES" "length ps \<le> MAX_BUNDLE_EPISODES" "0 < th" "th \<le> 1"
  shows "evaluate_episodes h (sequence_of ts) (sequence_of ps) (Float_threshold th) = evaluate_items h ts ps th"
  using assms by (simp add: evaluate_episodes_def validated_threshold_float bounded_sequence_of)

text \<open>The ordered candidates of a sweep within its budget.\<close>

lemma swept_candidates:
  assumes "distinct (map episode_id ts)" "distinct (map prediction_id ps)" "windows_ordered ts ps" "0 < th"
    and "candidate_matches (sort_key episode_id ts) (sort_key prediction_id ps) th = Inr found"
  shows "set (sort_key candidate_rank found) = candidate_of ` eligible ts ps th"
    and "distinct (sort_key candidate_rank found)"
    and "card (comparable_pairs (set ts) (set ps)) \<le> MAX_EVALUATION_CANDIDATES"
proof -
  have "episodes_ok ts ps" using assms(1-3) windows_well_formed by (simp add: episodes_ok_def)
  from candidate_matches_exact [OF episodes_ok_perm [OF this], of th] assms(5)
  obtain pairs where "found = kept th pairs" "mset pairs = mset_set (comparable_pairs (set ts) (set ps))"
    and n: "card (comparable_pairs (set ts) (set ps)) \<le> MAX_EVALUATION_CANDIDATES"
    by (auto split: if_splits)
  with kept_eligible [OF this(2) assms(4)]
  show "set (sort_key candidate_rank found) = candidate_of ` eligible ts ps th"
    and "distinct (sort_key candidate_rank found)" by simp_all
  from n show "card (comparable_pairs (set ts) (set ps)) \<le> MAX_EVALUATION_CANDIDATES" .
qed

lemma evaluation_parts:
  assumes "evaluate_items h ts ps th = Some (Inr r)" and "0 < th" and "windows_ordered ts ps"
  obtains M ms overlap where "stable_selection (eligible ts ps th) M" and "finite M"
    and "mset ms = image_mset pair_match (mset_set M)" and "inj_on fst M" and "inj_on snd M"
    and "intersection_seconds (merged_intervals truth_group truth_interval ts)
      (merged_intervals prediction_group prediction_interval ps) = Some overlap"
    and "r = build_evaluation h ts ps th (order_matches ms) overlap" and "validate_evaluation r = None"
proof -
  from assms(1) obtain found ms overlap where d: "distinct (map episode_id ts)" "distinct (map prediction_id ps)"
    and found: "candidate_matches (sort_key episode_id ts) (sort_key prediction_id ps) th = Inr found"
    and ms: "select_matches [] [] (sort_key candidate_rank found) = Inr ms"
    and rest: "intersection_seconds (merged_intervals truth_group truth_interval ts)
      (merged_intervals prediction_group prediction_interval ps) = Some overlap"
      "r = build_evaluation h ts ps th (order_matches ms) overlap" "validate_evaluation r = None"
    by (auto simp: evaluate_items_def Let_def split: if_splits sum.splits option.splits)
  note c = swept_candidates [OF d assms(3,2) found]
  from greedy_selection [OF d c(1,2)] obtain M where "stable_selection (eligible ts ps th) M" "finite M"
    "mset (map match_of (greedy [] [] (sort_key candidate_rank found))) = image_mset pair_match (mset_set M)"
    "inj_on fst M" "inj_on snd M" by auto
  with that rest select_matches_result [OF ms] show thesis by blast
qed

lemma build_evaluation_matches [simp]: "matches (build_evaluation h ts ps th ms overlap) = ms"
  by (simp add: build_evaluation_def Let_def)

text \<open>
  C37: The matches of a report are the one stable selection: a pair of an episode and a prediction of
  the same resource and label is matched exactly when its overlap reaches the threshold and no better
  matched pair (larger overlap, then smaller identifiers) uses its episode or its prediction.  The
  selection is determined by this, no item is matched twice, and the report lists it in the order of
  the identifiers, although the sweep never looks at most of the pairs.
\<close>
theorem matches_are_stable:
  assumes "evaluate_episodes h (sequence_of ts) (sequence_of ps) (Float_threshold th) = Some (Inr r)"
    and "length ts \<le> MAX_BUNDLE_EPISODES" "length ps \<le> MAX_BUNDLE_EPISODES" "0 < th" "th \<le> 1"
    and "windows_ordered ts ps"
  shows "\<exists>M. stable_selection (eligible ts ps th) M \<and> (\<forall>M'. stable_selection (eligible ts ps th) M' \<longrightarrow> M' = M) \<and>
    inj_on fst M \<and> inj_on snd M \<and> mset (matches r) = image_mset pair_match (mset_set M) \<and>
    sorted (map (\<lambda>m. (ground_truth_episode_id m, match_prediction_id m)) (matches r))"
proof -
  have items: "evaluate_items h ts ps th = Some (Inr r)" using assms(1) evaluate_sequences [OF assms(2-5), of h] by simp
  from evaluation_parts [OF items assms(4,6)] obtain M ms overlap where "stable_selection (eligible ts ps th) M"
    and rest: "inj_on fst M" "inj_on snd M" "mset ms = image_mset pair_match (mset_set M)"
      "r = build_evaluation h ts ps th (order_matches ms) overlap" by metis
  moreover have "finite (eligible ts ps th)"
    by (rule finite_subset [of _ "set ts \<times> set ps"]) (auto simp: eligible_def)
  ultimately show ?thesis using stable_selection_unique by (auto simp: order_matches_def)
qed

section \<open>Durations\<close>

text \<open>Windows on whole seconds of the years 1 to 9999.\<close>

definition whole_second_window :: "instant \<Rightarrow> instant \<Rightarrow> bool" where
  "whole_second_window a b \<longleftrightarrow> - 62135596800000000 \<le> a \<and> a \<le> b \<and> b < 253402300799000000 \<and>
     1000000 dvd a \<and> 1000000 dvd b"

definition whole_second_windows :: "lab_episode list \<Rightarrow> predicted_episode list \<Rightarrow> bool" where
  "whole_second_windows ts ps \<longleftrightarrow> (\<forall>t\<in>set ts. whole_second_window (ep_window_start t) (ep_window_end t)) \<and>
     (\<forall>p\<in>set ps. whole_second_window (pe_window_start p) (pe_window_end p))"

lemma whole_second_intervals:
  assumes "whole_second_windows ts ps"
  shows "intervals_ok truth_interval (set ts)" and "intervals_ok prediction_interval (set ps)"
    and "windows_ordered ts ps"
    and "t \<in> set ts \<Longrightarrow> snd (truth_interval t) - fst (truth_interval t) \<le> 315537897601000000"
    and "p \<in> set ps \<Longrightarrow> snd (prediction_interval p) - fst (prediction_interval p) \<le> 315537897601000000"
  using assms by (auto simp: whole_second_windows_def whole_second_window_def intervals_ok_def well_formed_def
      truth_interval_def prediction_interval_def inclusive_interval_def windows_ordered_def dvd_add)

lemma labelled_bound:
  assumes "\<And>x. x \<in> set xs \<Longrightarrow> snd (iv x) - fst (iv x) \<le> n" and "0 \<le> n"
  shows "int (card (labelled key iv (set xs))) \<le> int (length xs) * n"
  using assms
proof (induction xs)
  case Nil
  then show ?case by (simp add: labelled_def)
next
  case (Cons x xs)
  have "labelled key iv (set (x # xs)) = {key x} \<times> {fst (iv x)..<snd (iv x)} \<union> labelled key iv (set xs)"
    by (auto simp: labelled_def)
  then have "card (labelled key iv (set (x # xs))) \<le>
      card ({key x} \<times> {fst (iv x)..<snd (iv x)}) + card (labelled key iv (set xs))"
    by (simp only: card_Un_le)
  also have "card ({key x} \<times> {fst (iv x)..<snd (iv x)}) = nat (snd (iv x) - fst (iv x))"
    by (simp add: card_cartesian_product_singleton)
  finally have "card (labelled key iv (set (x # xs))) \<le> nat (snd (iv x) - fst (iv x)) + card (labelled key iv (set xs))" .
  moreover have "int (nat (snd (iv x) - fst (iv x))) \<le> n" using Cons.prems(1) [of x] Cons.prems(2) by simp
  moreover have "int (card (labelled key iv (set xs))) \<le> int (length xs) * n" using Cons.prems by (intro Cons.IH) auto
  ultimately show ?case by (simp add: algebra_simps del: int_nat_eq)
qed


lemma slices_dvd:
  assumes "intervals_ok it (set ts)" and "intervals_ok ip (set ps)"
  shows "1000000 dvd int (card (labelled kt it (set ts) \<inter> labelled kp ip (set ps)))"
proof -
  let ?S = "labelled kt it (set ts) \<inter> labelled kp ip (set ps)"
  have "k \<in> kt ` set ts" if "(k, m) \<in> ?S" for k m using that by (auto simp: labelled_def)
  then have "card ?S = (\<Sum>k\<in>kt ` set ts. card {m. (k, m) \<in> ?S})"
    by (intro card_slices) (simp_all add: labelled_finite)
  then have "int (card ?S) = (\<Sum>k\<in>kt ` set ts. int (card {m. (k, m) \<in> ?S}))" by simp
  then show ?thesis using labelled_pairs_dvd [OF assms, of _ kt kp] by (simp add: dvd_sum)
qed

lemma labelled_dvd: "intervals_ok iv (set xs) \<Longrightarrow> 1000000 dvd int (card (labelled key iv (set xs)))"
  using slices_dvd [of iv xs iv xs key key] by simp

lemma metric_micros:
  assumes "1000000 dvd int a" and "1000000 dvd int b"
  shows "metric (of_int (int a div 1000000)) (of_int (int b div 1000000)) e = metric (of_nat a) (of_nat b) e"
proof -
  from assms obtain x y where xy: "int a = 1000000 * x" "int b = 1000000 * y" by (auto elim!: dvdE)
  then have "int a div 1000000 = x" "int b div 1000000 = y" by simp_all
  moreover have "(of_nat a :: rat) = 1000000 * of_int x" "(of_nat b :: rat) = 1000000 * of_int y"
    using xy by (metis of_int_mult of_int_numeral of_int_of_nat_eq)+
  ultimately show ?thesis by (simp only: metric_def) simp
qed

definition truth_instants :: "lab_episode list \<Rightarrow> (group \<times> instant) set" where
  "truth_instants ts = labelled truth_group truth_interval (set ts)"

definition predicted_instants :: "predicted_episode list \<Rightarrow> (group \<times> instant) set" where
  "predicted_instants ps = labelled prediction_group prediction_interval (set ps)"

text \<open>The seconds of a bounded number of whole-second windows are exact in a float.\<close>

lemma calendar_bound:
  assumes "\<And>x. x \<in> set xs \<Longrightarrow> snd (iv x) - fst (iv x) \<le> 315537897601000000"
    and "length xs \<le> MAX_BUNDLE_EPISODES" and "S \<subseteq> labelled key iv (set xs)"
  shows "int (card S) div 1000000 \<le> 2 ^ 53"
proof -
  have "int (card S) \<le> int (card (labelled key iv (set xs)))"
    using assms(3) by (simp add: card_mono labelled_finite)
  also have "\<dots> \<le> int (length xs) * 315537897601000000" by (intro labelled_bound assms(1)) simp_all
  also have "\<dots> \<le> 10000 * 315537897601000000"
    using assms(2) by (intro mult_right_mono) (simp_all add: MAX_BUNDLE_EPISODES_def)
  finally have "int (card S) div 1000000 \<le> 10000 * 315537897601000000 div 1000000" by (rule zdiv_mono1) simp
  then show ?thesis by simp
qed

lemma window_durations:
  assumes "whole_second_windows ts ps" and "length ts \<le> MAX_BUNDLE_EPISODES" "length ps \<le> MAX_BUNDLE_EPISODES"
  shows "total_seconds_of (merged_intervals truth_group truth_interval ts) = of_int (int (card (truth_instants ts)) div 1000000)"
    and "total_seconds_of (merged_intervals prediction_group prediction_interval ps) =
      of_int (int (card (predicted_instants ps)) div 1000000)"
    and "intersection_seconds (merged_intervals truth_group truth_interval ts)
      (merged_intervals prediction_group prediction_interval ps) =
      Some (of_int (int (card (truth_instants ts \<inter> predicted_instants ps)) div 1000000))"
    and "1000000 dvd int (card (truth_instants ts))" "1000000 dvd int (card (predicted_instants ps))"
    and "1000000 dvd int (card (truth_instants ts \<inter> predicted_instants ps))"
proof -
  note ok = whole_second_intervals(1,2) [OF assms(1)]
  have b: "int (card S) div 1000000 \<le> 2 ^ 53" if "S \<subseteq> truth_instants ts \<or> S \<subseteq> predicted_instants ps" for S
    using that
  proof
    assume "S \<subseteq> truth_instants ts"
    then show ?thesis unfolding truth_instants_def
      by (rule calendar_bound [where iv = truth_interval, rotated 2]) (use whole_second_intervals(4) [OF assms(1)] assms(2) in simp_all)
  next
    assume "S \<subseteq> predicted_instants ps"
    then show ?thesis unfolding predicted_instants_def
      by (rule calendar_bound [where iv = prediction_interval, rotated 2]) (use whole_second_intervals(5) [OF assms(1)] assms(3) in simp_all)
  qed
  note defs = truth_instants_def predicted_instants_def
  show "total_seconds_of (merged_intervals truth_group truth_interval ts) = of_int (int (card (truth_instants ts)) div 1000000)"
    unfolding defs by (rule total_seconds_exact [OF ok(1) b [unfolded defs]]) simp
  show "total_seconds_of (merged_intervals prediction_group prediction_interval ps) =
      of_int (int (card (predicted_instants ps)) div 1000000)"
    unfolding defs by (rule total_seconds_exact [OF ok(2) b [unfolded defs]]) simp
  show "intersection_seconds (merged_intervals truth_group truth_interval ts)
      (merged_intervals prediction_group prediction_interval ps) =
      Some (of_int (int (card (truth_instants ts \<inter> predicted_instants ps)) div 1000000))"
    unfolding defs by (rule intersection_seconds_exact [OF ok b [unfolded defs]]) simp
  show "1000000 dvd int (card (truth_instants ts))" "1000000 dvd int (card (predicted_instants ps))"
    "1000000 dvd int (card (truth_instants ts \<inter> predicted_instants ps))"
    unfolding defs by (rule labelled_dvd slices_dvd ok)+
qed

lemma build_evaluation_durations:
  "duration_precision (build_evaluation h ts ps th ms overlap) = rounded (metric overlap
     (total_seconds_of (merged_intervals prediction_group prediction_interval ps)) (ts = [] \<and> ps = []))"
  "duration_recall (build_evaluation h ts ps th ms overlap) = rounded (metric overlap
     (total_seconds_of (merged_intervals truth_group truth_interval ts)) (ts = [] \<and> ps = []))"
  "duration_f1 (build_evaluation h ts ps th ms overlap) = rounded (f1_score
     (metric overlap (total_seconds_of (merged_intervals prediction_group prediction_interval ps)) (ts = [] \<and> ps = []))
     (metric overlap (total_seconds_of (merged_intervals truth_group truth_interval ts)) (ts = [] \<and> ps = [])))"
  by (simp_all add: build_evaluation_def Let_def)


end
