(* ===== verification/Float_Sums.thy ===== *)
theory Float_Sums
  imports Binary64
begin

text \<open>
  Error bounds of \<open>Binary64\<close>: the relative error of one rounding, the exact difference of a sum and
  its larger operand, and from them the distance of the compensated \<open>sum\<close> of shares from the exact
  sum.  Enough of it remains to show that the mean of at most 10000 shares, none of them closer to 0 or
  1 than a trillionth unless it is that number, is a share.
\<close>

section \<open>One rounding\<close>

lemma round_half_even_error: "\<bar>of_int (round_half_even x) - x\<bar> \<le> 1 / 2"
proof -
  have "of_int \<lfloor>x\<rfloor> \<le> x" "x < of_int \<lfloor>x\<rfloor> + 1" by linarith+
  then show ?thesis by (simp add: round_half_even_def Let_def abs_le_iff)
qed

lemma ulp_relative: "x \<noteq> 0 \<Longrightarrow> ulp_of x \<le> \<bar>x\<bar> / 4503599627370496"
  using binary_exponent_bounds(1) [of x] by (simp add: ulp_of_def power_int_diff)

lemma fl_error: "\<bar>fl x - x\<bar> \<le> \<bar>x\<bar> / 9007199254740992"
proof (cases "x = 0")
  case False
  have "fl x - x = (of_int (round_half_even (x / ulp_of x)) - x / ulp_of x) * ulp_of x"
    using False by (simp add: fl_def algebra_simps)
  then have "\<bar>fl x - x\<bar> = \<bar>of_int (round_half_even (x / ulp_of x)) - x / ulp_of x\<bar> * ulp_of x"
    by (simp add: abs_mult)
  also have "\<dots> \<le> 1 / 2 * ulp_of x" by (intro mult_right_mono round_half_even_error) simp
  also have "\<dots> \<le> \<bar>x\<bar> / 9007199254740992" using ulp_relative [OF False] by simp
  finally show ?thesis .
qed simp

lemma significand_abs: "x \<noteq> 0 \<Longrightarrow> \<bar>round_half_even (x / ulp_of x)\<bar> \<le> 2 ^ 53"
proof -
  assume "x \<noteq> 0"
  then have "\<bar>x\<bar> \<le> 2 ^ 53 * ulp_of x"
    using binary_exponent_bounds(2) [of x] by (simp add: ulp_of_def power_int_diff power_int_add)
  then have "- (of_int (2 ^ 53)) \<le> x / ulp_of x" "x / ulp_of x \<le> of_int (2 ^ 53)"
    by (simp_all add: pos_le_divide_eq pos_divide_le_eq abs_le_iff)
  then have "- (2 ^ 53) \<le> round_half_even (x / ulp_of x)" "round_half_even (x / ulp_of x) \<le> 2 ^ 53"
    using round_half_even_bounds(1) [of "- (2 ^ 53)" "x / ulp_of x"] round_half_even_bounds(2) [of "x / ulp_of x" "2 ^ 53"]
    by simp_all
  then show ?thesis by simp
qed

lemma fl_idem [simp]: "fl (fl x) = fl x"
proof (cases "x = 0")
  case False
  have "fl x = of_int (round_half_even (x / ulp_of x)) * 2 powi (binary_exponent x - 52)"
    using False by (simp add: fl_def ulp_of_def)
  then show ?thesis using fl_exact [OF significand_abs [OF False]] by simp
qed simp

section \<open>The error of a sum is computed exactly\<close>

lemma float_multiple:
  assumes "fl f = f" and "f \<noteq> 0"
  obtains n where "f = of_int n * ulp_of f"
  using that [of "round_half_even (f / ulp_of f)"] assms by (metis fl_def)

lemma fl_difference:
  assumes "fl f = f" and "0 \<le> x" and "x \<le> f"
  shows "fl (f - fl (f + x)) = f - fl (f + x)"
proof (cases "f = 0")
  case True
  with assms show ?thesis by simp
next
  case False
  with assms have f: "0 < f" and s: "0 < f + x" by simp_all
  let ?t = "fl (f + x)" and ?e = "binary_exponent f" and ?e' = "binary_exponent (f + x)"
  obtain m where m: "f = of_int m * ulp_of f" using float_multiple [OF assms(1) False] .
  have "?e \<le> ?e'" using exponent_le(1) [OF f, of "?e' + 1"] binary_exponent_bounds(2) [of "f + x"] s assms(2) by simp
  then have "(2 powi (?e' - ?e) :: rat) = of_int (2 ^ nat (?e' - ?e))" by (simp add: power_int_def)
  moreover have "ulp_of (f + x) = 2 powi (?e' - ?e) * ulp_of f" by (simp add: ulp_of_def power_int_diff)
  ultimately have u: "ulp_of (f + x) = of_int (2 ^ nat (?e' - ?e)) * ulp_of f" by simp
  have "?t = of_int (round_half_even ((f + x) / ulp_of (f + x))) * ulp_of (f + x)" using s by (simp add: fl_def)
  with u obtain n where "?t = of_int n * ulp_of f" by (metis mult.assoc of_int_mult)
  with m have d: "f - ?t = of_int (m - n) * ulp_of f" by (simp add: algebra_simps)
  have "f = fl f" using assms(1) by simp
  also have "\<dots> \<le> ?t" using assms f by (intro fl_mono) simp_all
  finally have lo: "f \<le> ?t" .
  have "?t \<le> fl (2 * f)" using assms s by (intro fl_mono) simp_all
  then have "?t \<le> 2 * f" by (simp add: fl_double assms(1))
  with lo have "\<bar>f - ?t\<bar> \<le> f" by simp
  also have "\<dots> \<le> of_int (2 ^ 53) * ulp_of f" using significand_bounds(2) [OF f] by (simp add: pos_divide_le_eq)
  finally have "of_int \<bar>m - n\<bar> * ulp_of f \<le> of_int (2 ^ 53) * ulp_of f" unfolding d by (simp add: abs_mult)
  then have "(of_int \<bar>m - n\<bar> :: rat) \<le> of_int (2 ^ 53)" by (rule mult_right_le_imp_le) simp
  then have "\<bar>m - n\<bar> \<le> 2 ^ 53" by (simp only: of_int_le_iff)
  then show ?thesis unfolding d ulp_of_def by (rule fl_exact)
qed

section \<open>Compensated sums\<close>

definition compensation :: "rat \<Rightarrow> rat \<Rightarrow> rat" where
  "compensation f x = (let t = fl (f + x) in
     if \<bar>x\<bar> \<le> \<bar>f\<bar> then fl (fl (f - t) + x) else fl (fl (x - t) + f))"

lemma compensation_rounds:
  "fl f = f \<Longrightarrow> fl x = x \<Longrightarrow> 0 \<le> f \<Longrightarrow> 0 \<le> x \<Longrightarrow> compensation f x = fl (f + x - fl (f + x))"
proof (cases "x \<le> f")
  case True
  assume "fl f = f" "0 \<le> f" "0 \<le> x"
  with True fl_difference [of f x] show ?thesis by (simp add: compensation_def Let_def) (simp add: algebra_simps)
next
  case False
  assume "fl x = x" "0 \<le> f" "0 \<le> x"
  with False fl_difference [of x f] show ?thesis
    by (simp add: compensation_def Let_def add.commute [of x f]) (simp add: algebra_simps)
qed

lemma compensated_step:
  assumes "fl f = f" "fl x = x" "0 \<le> f" "0 \<le> x" "f + x \<le> 10000" and "\<bar>c\<bar> \<le> a" "a \<le> 1 / 20000000"
  shows "\<bar>fl (c + compensation f x)\<bar> \<le> a + 5 / 1000000000000"
    and "\<bar>fl (f + x) + fl (c + compensation f x) - (f + x + c)\<bar> \<le> 1 / 100000000000000000000"
proof -
  let ?e = "f + x - fl (f + x)"
  have e: "\<bar>?e\<bar> \<le> 10000 / 9007199254740992"
    using fl_error [of "f + x"] assms(3-5) by (simp add: abs_minus_commute abs_le_iff)
  have k: "\<bar>compensation f x - ?e\<bar> \<le> \<bar>?e\<bar> / 9007199254740992"
    unfolding compensation_rounds [OF assms(1-4)] by (rule fl_error)
  have s: "\<bar>fl (c + compensation f x) - (c + compensation f x)\<bar> \<le> \<bar>c + compensation f x\<bar> / 9007199254740992"
    by (rule fl_error)
  have d: "\<bar>compensation f x - ?e\<bar> \<le> 1 / 1000000000000000000000"
    using order_trans [OF k divide_right_mono [OF e, of 9007199254740992]] by simp
  with e assms(6,7) have "\<bar>c + compensation f x\<bar> \<le> 1 / 10000000" unfolding abs_le_iff by linarith
  from order_trans [OF s divide_right_mono [OF this, of 9007199254740992]]
  have r: "\<bar>fl (c + compensation f x) - (c + compensation f x)\<bar> \<le> 1 / 1000000000000000000000" by simp
  show "\<bar>fl (c + compensation f x)\<bar> \<le> a + 5 / 1000000000000"
    using e d r assms(6) unfolding abs_le_iff by linarith
  show "\<bar>fl (f + x) + fl (c + compensation f x) - (f + x + c)\<bar> \<le> 1 / 100000000000000000000"
    using d r unfolding abs_le_iff by linarith
qed

lemma sum_loop_compensation:
  "sum_loop f c (x # xs) = sum_loop (fl (f + x)) (fl (c + compensation f x)) xs"
  by (simp add: compensation_def Let_def)

lemma sum_loop_error:
  assumes "\<forall>x\<in>set xs. 0 \<le> x \<and> x \<le> 1 \<and> fl x = x" and "fl f = f" "0 \<le> f" "f \<le> of_nat j"
    and "j + length xs \<le> 10000" and "\<bar>c\<bar> \<le> of_nat j * (5 / 1000000000000)" and "sum_loop f c xs = (f', c')"
  shows "fl f' = f' \<and> 0 \<le> f' \<and> \<bar>f' + c' - (f + c + sum_list xs)\<bar> \<le> of_nat (length xs) * (1 / 100000000000000000000)"
  using assms
proof (induction xs arbitrary: f c j)
  case (Cons x xs)
  have x: "0 \<le> x" "x \<le> 1" "fl x = x" using Cons.prems(1) by simp_all
  have "(of_nat (Suc j) :: rat) \<le> of_nat 10000" using Cons.prems(5) by (intro of_nat_mono) simp
  then have j: "(of_nat j :: rat) + 1 \<le> 10000" by simp
  have "fl (f + x) \<le> fl (of_int (int (Suc j)))" using Cons.prems(3,4) x by (intro fl_mono) simp_all
  also have "\<dots> = of_nat (Suc j)" using Cons.prems(5) by (subst fl_of_int) simp_all
  finally have t: "fl (f + x) \<le> of_nat (Suc j)" .
  have "\<bar>fl (c + compensation f x)\<bar> \<le> of_nat j * (5 / 1000000000000) + 5 / 1000000000000"
    and err: "\<bar>fl (f + x) + fl (c + compensation f x) - (f + x + c)\<bar> \<le> 1 / 100000000000000000000"
    using compensated_step [OF Cons.prems(2) x(3) Cons.prems(3) x(1) _ Cons.prems(6)] j Cons.prems(4) x(2)
    by simp_all
  then have c: "\<bar>fl (c + compensation f x)\<bar> \<le> of_nat (Suc j) * (5 / 1000000000000)" by (simp add: algebra_simps)
  have IH: "fl f' = f' \<and> 0 \<le> f' \<and> \<bar>f' + c' - (fl (f + x) + fl (c + compensation f x) + sum_list xs)\<bar> \<le>
      of_nat (length xs) * (1 / 100000000000000000000)"
    using Cons.prems x t c by (intro Cons.IH [of _ "Suc j"]) (simp_all add: sum_loop_compensation fl_sign del: sum_loop.simps)
  have "\<bar>f' + c' - (f + c + sum_list (x # xs))\<bar> \<le> 1 / 100000000000000000000 + of_nat (length xs) * (1 / 100000000000000000000)"
    using err conjunct2 [OF conjunct2 [OF IH]] unfolding abs_le_iff sum_list.Cons by linarith
  with IH show ?case by (simp add: algebra_simps)
qed simp

text \<open>Every number is one, or at least a trillionth away from zero and one.\<close>

definition clear_share :: "rat \<Rightarrow> bool" where
  "clear_share x \<longleftrightarrow> fl x = x \<and> 1 / 1099511627776 \<le> x \<and> (x = 1 \<or> x \<le> 1 - 1 / 1099511627776)"

lemma sum_list_upto: "\<forall>x\<in>set xs. x \<le> 1 \<Longrightarrow> sum_list xs \<le> (of_nat (length xs) :: rat)"
  by (induction xs) auto

lemma sum_list_below:
  "\<forall>x\<in>set xs. clear_share x \<Longrightarrow> \<exists>x\<in>set xs. x \<noteq> 1 \<Longrightarrow> sum_list xs \<le> of_nat (length xs) - 1 / 1099511627776"
proof (induction xs)
  case (Cons x xs)
  show ?case
  proof (cases "x = 1")
    case True
    with Cons show ?thesis by simp
  next
    case False
    then have "x \<le> 1 - 1 / 1099511627776" using Cons.prems by (simp add: clear_share_def)
    moreover have "sum_list xs \<le> of_nat (length xs)"
      using Cons.prems by (intro sum_list_upto) (auto simp: clear_share_def)
    ultimately show ?thesis by simp
  qed
qed simp

lemma py_sum_clear:
  assumes "\<forall>x\<in>set xs. clear_share x" and "length xs \<le> 10000"
  shows "0 \<le> py_sum xs \<and> py_sum xs \<le> of_nat (length xs)"
proof (cases "\<forall>x\<in>set xs. x = 1")
  case True
  then have "xs = map of_int (replicate (length xs) 1)" by (simp add: map_replicate_const) (metis replicate_eqI)
  moreover have "py_sum (map of_int (replicate (length xs) 1)) = of_int (sum_list (replicate (length xs) 1))"
    using assms(2) by (intro py_sum_exact) (simp_all add: list_all_iff sum_list_replicate)
  ultimately have "py_sum xs = of_int (sum_list (replicate (length xs) 1))" by simp
  then show ?thesis by (simp add: sum_list_replicate)
next
  case False
  then obtain y ys where xs: "xs = y # ys" by (cases xs) auto
  obtain f c where fc: "sum_loop y 0 ys = (f, c)" by (cases "sum_loop y 0 ys")
  have y: "fl y = y" "0 \<le> y" "y \<le> 1" using assms(1) xs by (auto simp: clear_share_def)
  have fe: "fl f = f \<and> 0 \<le> f \<and> \<bar>f + c - (y + 0 + sum_list ys)\<bar> \<le> of_nat (length ys) * (1 / 100000000000000000000)"
    using assms xs y by (intro sum_loop_error [OF _ _ _ _ _ _ fc, of 1]) (auto simp: clear_share_def)
  have "(of_nat (length ys) :: rat) \<le> of_nat 10000" using assms(2) xs by (intro of_nat_mono) simp
  then have n: "(of_nat (length ys) :: rat) \<le> 10000" by simp
  have "sum_list xs \<le> of_nat (length xs) - 1 / 1099511627776" using assms(1) False by (intro sum_list_below) auto
  moreover have "0 \<le> sum_list ys" using assms(1) xs by (intro sum_list_nonneg) (auto simp: clear_share_def)
  moreover have "1 / 1099511627776 \<le> y" using assms(1) xs by (simp add: clear_share_def)
  ultimately have s: "0 \<le> f + c" "f + c \<le> of_nat (length xs)" using conjunct2 [OF conjunct2 [OF fe]] n unfolding xs abs_le_iff by simp_all
  have "fl (f + c) \<le> fl (of_int (int (length xs)))" using s by (intro fl_mono) simp_all
  then have "fl (f + c) \<le> of_nat (length xs)" using assms(2) by (subst (asm) fl_of_int) simp_all
  with s fe show ?thesis using fl_sign(1) [of "f + c"] by (auto simp: py_sum_def xs fc)
qed

end
