(* ===== verification/Episode_Reports.thy ===== *)
theory Episode_Reports
  imports Episode_Properties Float_Sums
begin

text \<open>
  Every report that \<open>evaluate_episodes\<close> builds from whole-second windows passes the validation of
  \<open>EpisodeEvaluation\<close>: its metrics are shares of the calendar seconds, its mean overlap survives the
  float sum, its counts agree, and no text of it looks like a subscriber identifier.
\<close>

section \<open>Content identifiers are no subscriber identifiers\<close>

lemma label_free_without_i: "CHR ''i'' \<notin> set s \<Longrightarrow> label_free s"
proof (induction s)
  case (Cons c cs)
  have "take (length l) (c # cs) \<noteq> l" if "l \<in> set identifier_labels" for l
  proof
    assume t: "take (length l) (c # cs) = l"
    have "CHR ''i'' \<in> set l" using that by (auto simp: identifier_labels_def)
    then have "CHR ''i'' \<in> set (take (length l) (c # cs))" using t by simp
    with Cons.prems show False by (meson in_set_takeD)
  qed
  with Cons show ?case by (simp add: list_all_iff)
qed simp

lemma hex_lower: "lower_hex c \<Longrightarrow> CHR ''i'' \<noteq> py_lower_char c"
  by (auto simp: lower_hex_def py_lower_char_def)

lemma content_id_clean: "content_id_ok s \<Longrightarrow> \<not> labeled_identifier s"
proof -
  assume "content_id_ok s"
  then obtain kind where kind: "kind \<in> set [''obs'', ''truth'', ''pred'', ''bundle'', ''eval'']"
    and p: "take (length (''lab'' @ kind @ ''-'')) s = ''lab'' @ kind @ ''-''"
    and hex: "list_all lower_hex (drop (length (''lab'' @ kind @ ''-'')) s)"
    unfolding content_id_ok_def Let_def list_ex_iff by blast
  have "CHR ''i'' \<notin> py_lower_char ` set (''lab'' @ kind @ ''-'')"
    using kind by (auto simp: py_lower_char_def)
  moreover have "CHR ''i'' \<notin> py_lower_char ` set (drop (length (''lab'' @ kind @ ''-'')) s)"
    using hex hex_lower unfolding list_all_iff by blast
  moreover have "set s = set (''lab'' @ kind @ ''-'') \<union> set (drop (length (''lab'' @ kind @ ''-'')) s)"
    using p by (metis append_take_drop_id set_append)
  ultimately have "CHR ''i'' \<notin> set (py_lower s)" by (simp add: py_lower_def image_Un)
  then show ?thesis by (intro no_label_clean) (simp add: no_label_def label_free_without_i)
qed

lemma evaluation_keys_plain [simp]:
  "plain_key ''evaluation_id''" "plain_key ''overlap_threshold''" "plain_key ''ground_truth_count''"
  "plain_key ''prediction_count''" "plain_key ''true_positives''" "plain_key ''false_positives''"
  "plain_key ''false_negatives''" "plain_key ''precision''" "plain_key ''recall''" "plain_key ''f1''"
  "plain_key ''duration_precision''" "plain_key ''duration_recall''" "plain_key ''duration_f1''"
  "plain_key ''mean_matched_iou''" "plain_key ''matches''" "plain_key ''ground_truth_episode_id''"
  "plain_key ''prediction_id''" "plain_key ''temporal_iou''"
  by (simp_all add: plain_key_eval)

lemma evaluation_literals_clean [simp]:
  "\<not> labeled_identifier LAB_SCHEMA_VERSION" "\<not> labeled_identifier EVALUATION_ALGORITHM"
  by (rule no_label_clean, simp add: no_label_eval LAB_SCHEMA_VERSION_def EVALUATION_ALGORITHM_def)+

lemma match_dump_clean: "content_id_ok (ground_truth_episode_id m) \<Longrightarrow> content_id_ok (match_prediction_id m) \<Longrightarrow>
    identifier_free (match_dump m)"
  unfolding match_dump_def by (intro identifier_free_obj) (simp_all add: content_id_clean json_float_def)

lemma validate_match_None:
  "validate_match m = None \<longleftrightarrow> content_id_ok (ground_truth_episode_id m) \<and> content_id_ok (match_prediction_id m) \<and>
     share_ok (match_iou m)"
  using match_dump_clean [of m] by (auto simp: validate_match_def lab_field_def assert_model_safe_iff)

section \<open>Metrics are shares\<close>

lemma rounded_share: "share_ok x \<Longrightarrow> share_ok (rounded x)"
  using py_round_share [of x 12] by (simp add: share_ok_def rounded_def)

lemma metric_share: "0 \<le> a \<Longrightarrow> a \<le> b \<Longrightarrow> share_ok (metric a b e)"
  by (auto simp: share_ok_def metric_def fl_sign intro!: fl_le_1)

lemma metric_float: "fl (metric a b e) = metric a b e"
  by (simp add: metric_def)

lemma f1_share:
  assumes "share_ok p" "share_ok r" "fl p = p"
  shows "share_ok (f1_score p r)"
proof (cases "fl (p + r) = 0")
  case False
  have p: "0 \<le> p" "p \<le> 1" and r: "0 \<le> r" "r \<le> 1" using assms by (simp_all add: share_ok_def)
  have "p * r \<le> p" "p * r \<le> r" using p r by (simp_all add: mult_left_le mult_left_le_one_le)
  then have "2 * p * r \<le> p + r" by simp
  then have "fl (fl (2 * p) * r) \<le> fl (p + r)"
    unfolding fl_double assms(3) using p r by (intro fl_mono) simp_all
  moreover have "0 \<le> fl (fl (2 * p) * r)" using p r by (simp add: fl_sign)
  moreover have "0 < fl (p + r)" using False p r fl_sign(1) [of "p + r"] by simp
  ultimately show ?thesis using False by (simp add: f1_score_def share_ok_def fl_sign fl_le_1)
qed (simp add: f1_score_def share_ok_def)

lemma rounded_clear:
  assumes "1 / 2000000000000 < x" and "x \<le> 1"
  shows "clear_share (rounded x)"
proof -
  let ?n = "round_half_even (x * 10 ^ 12)"
  have "(0::rat) < of_int ?n" using conjunct2 [OF round_half_even_error [of "x * 10 ^ 12", unfolded abs_le_iff]] assms(1) by simp
  then have n: "1 \<le> ?n" by simp
  have "?n \<le> 10 ^ 12" using assms(2) by (intro round_half_even_bounds(2)) simp
  then consider "?n = 10 ^ 12" | "?n \<le> 10 ^ 12 - 1" by linarith
  then show ?thesis
  proof cases
    case 1
    then show ?thesis by (simp add: rounded_def py_round_def clear_share_def)
  next
    case 2
    let ?q = "of_int ?n / 10 ^ 12 :: rat"
    have "(of_int ?n :: rat) \<le> of_int (10 ^ 12 - 1)" "of_int 1 \<le> (of_int ?n :: rat)"
      using 2 n unfolding of_int_le_iff by simp_all
    then have q: "1 / 1099511627776 \<le> ?q" "?q \<le> 1099511627775 / 1099511627776" by simp_all
    have e: "fl (1 / 1099511627776) = 1 / 1099511627776" "fl (1099511627775 / 1099511627776) = 1099511627775 / 1099511627776"
      using fl_powi [of "- 40"] fl_exact [of "2 ^ 40 - 1" "- 40"] by (simp_all add: power_int_minus)
    have "fl (1 / 1099511627776) \<le> fl ?q" using q by (intro fl_mono) simp_all
    moreover have "fl ?q \<le> fl (1099511627775 / 1099511627776)" using q n by (intro fl_mono) simp_all
    ultimately have "1 / 1099511627776 \<le> fl ?q" "fl ?q \<le> 1099511627775 / 1099511627776" unfolding e .
    then show ?thesis by (simp add: rounded_def py_round_def clear_share_def power_int_minus)
  qed
qed

section \<open>A report is valid\<close>

lemma mean_share:
  assumes "\<forall>m\<in>set ms. clear_share (match_iou m)" and "length ms \<le> MAX_BUNDLE_EPISODES" and "ms \<noteq> []"
  shows "share_ok (fl (py_sum (map match_iou ms) / of_nat (length ms)))"
proof -
  have "0 \<le> py_sum (map match_iou ms) \<and> py_sum (map match_iou ms) \<le> of_nat (length (map match_iou ms))"
    using assms(1,2) by (intro py_sum_clear) (simp_all add: MAX_BUNDLE_EPISODES_def)
  with assms(3) show ?thesis by (simp add: share_ok_def fl_sign fl_le_1)
qed

lemma content_id_digest:
  assumes "rca_digest_ok (h text)" and "kind \<in> set [''obs'', ''truth'', ''pred'', ''bundle'', ''eval'']"
  shows "content_id_ok (''lab'' @ kind @ ''-'' @ h text)"
  unfolding content_id_ok_def Let_def list_ex_iff
  by (rule bexI [OF _ assms(2)]) (use assms(1) in \<open>simp add: rca_digest_ok_def\<close>)

lemma report_valid:
  assumes "length ts \<le> MAX_BUNDLE_EPISODES" "length ps \<le> MAX_BUNDLE_EPISODES"
    and "1 / 2000000000000 < th" "th \<le> 1" and "\<And>text. rca_digest_ok (h text)"
    and ms: "\<forall>m\<in>set ms. validate_match m = None \<and> clear_share (match_iou m)"
      "distinct (map ground_truth_episode_id ms)" "distinct (map match_prediction_id ms)"
      "length ms \<le> length ts" "length ms \<le> length ps"
    and overlap: "0 \<le> overlap" "overlap \<le> total_seconds_of (merged_intervals truth_group truth_interval ts)"
      "overlap \<le> total_seconds_of (merged_intervals prediction_group prediction_interval ps)"
  shows "validate_evaluation (build_evaluation h ts ps th ms overlap) = None"
proof -
  let ?r = "build_evaluation h ts ps th ms overlap" and ?n = "length ms"
  have id: "content_id_ok (evaluation_id ?r)"
    unfolding build_evaluation_def Let_def stable_content_id_def using assms(5)
    by (simp only: episode_evaluation.simps) (rule content_id_digest, simp_all)
  have counts: "ground_truth_count ?r = int (length ts)" "prediction_count ?r = int (length ps)"
    "true_positives ?r = int ?n" "false_positives ?r = int (length ps) - int ?n"
    "false_negatives ?r = int (length ts) - int ?n" "overlap_threshold ?r = rounded th"
    by (simp_all add: build_evaluation_def Let_def)
  have th: "0 < rounded th" "rounded th \<le> 1"
    using rounded_clear [OF assms(3,4)] by (auto simp: clear_share_def)
  have p: "share_ok (metric (of_int (int ?n)) (of_int (int ?n + (int m - int ?n))) e)" if "?n \<le> m" for m e
    using that by (intro metric_share) simp_all
  have shares: "share_ok (precision ?r)" "share_ok (recall ?r)" "share_ok (f1 ?r)"
    using p [OF ms(5)] p [OF ms(4)]
    by (simp_all add: build_evaluation_def Let_def rounded_share f1_share metric_float del: of_int_add of_int_diff of_int_of_nat_eq)
  have durations: "share_ok (duration_precision ?r)" "share_ok (duration_recall ?r)" "share_ok (duration_f1 ?r)"
    unfolding build_evaluation_durations
    by (intro rounded_share f1_share metric_share metric_float overlap)+
  have mean: "share_ok (mean_matched_iou ?r)"
    using mean_share [of ms] ms(1,4) assms(1)
    by (auto simp: build_evaluation_def Let_def share_ok_def intro!: rounded_share [unfolded share_ok_def])
  have matches: "matches ?r = ms" by simp
  have "identifier_free (evaluation_dump ?r)"
    unfolding evaluation_dump_def report_payload_def matches
    using ms(1) match_dump_clean content_id_clean [OF id]
    by (intro identifier_free_obj) (auto simp: json_float_def list_all_iff validate_match_None)
  with id th shares durations mean ms assms(1,2) show ?thesis
    unfolding validate_evaluation_def matches counts
    by (simp add: lab_field_def assert_model_safe_iff fail_if_def ball_Un)
qed

text \<open>The matches selected among eligible pairs are valid and clear of zero.\<close>

lemma selection_valid:
  assumes "distinct (map episode_id ts)" "distinct (map prediction_id ps)"
    and "\<forall>t\<in>set ts. content_id_ok (episode_id t)" "\<forall>p\<in>set ps. content_id_ok (prediction_id p)"
    and "1 / 2000000000000 < th" and "set cs = candidate_of ` eligible ts ps th" and "distinct cs"
    and "sorted (map candidate_rank cs)"
  obtains ms where "select_matches [] [] cs = Inr ms"
    and "\<forall>m\<in>set ms. validate_match m = None \<and> clear_share (match_iou m)"
    and "distinct (map ground_truth_episode_id ms)" "distinct (map match_prediction_id ms)"
    and "length ms \<le> length ts" "length ms \<le> length ps"
proof -
  let ?ms = "map match_of (greedy [] [] cs)"
  have valid: "validate_match (pair_match x) = None \<and> clear_share (match_iou (pair_match x))" if x: "x \<in> eligible ts ps th" for x
  proof -
    have c: "clear_share (match_iou (pair_match x))"
      using x assms(5) temporal_iou_share by (auto simp: eligible_def pair_match_def intro!: rounded_clear)
    moreover have "share_ok (match_iou (pair_match x))"
      unfolding pair_match_def by (cases x) (simp add: rounded_share share_ok_def [of "temporal_iou _ _"] temporal_iou_share)
    ultimately show ?thesis using x assms(3,4) by (auto simp: validate_match_None eligible_def pair_match_def)
  qed
  have sub: "set (greedy [] [] cs) \<subseteq> candidate_of ` eligible ts ps th" using greedy_subset [of "[]" "[]" cs] assms(6) by simp
  have sel: "select_matches [] [] cs = Inr ?ms"
    using valid assms(6) by (intro select_matches_greedy) (auto simp: candidate_of_simps)
  have ok: "\<forall>m\<in>set ?ms. validate_match m = None \<and> clear_share (match_iou m)"
    using valid sub by (auto simp: candidate_of_simps dest!: subsetD)
  have names: "map ground_truth_episode_id ?ms = map cand_truth (greedy [] [] cs)"
    "map match_prediction_id ?ms = map cand_pred (greedy [] [] cs)"
    by (simp_all add: match_of_def)
  note one = greedy_one_to_one [of "[]" "[]" cs]
  have "set (map cand_truth (greedy [] [] cs)) \<subseteq> set (map episode_id ts)"
    "set (map cand_pred (greedy [] [] cs)) \<subseteq> set (map prediction_id ps)"
    using sub by (auto simp: candidate_of_simps eligible_def dest!: subsetD)
  then have "length ?ms \<le> length ts" "length ?ms \<le> length ps"
    using one assms(1,2) by (metis card_mono distinct_card finite_set length_map)+
  with sel ok show ?thesis using one names by (intro that [of ?ms]) (simp_all only:)
qed

lemma distinct_order: "distinct (map f ms) \<Longrightarrow> distinct (map f (order_matches ms))"
  by (simp add: order_matches_def distinct_map)

text \<open>The outcome of an evaluation of whole-second windows.\<close>

lemma evaluation_outcome:
  assumes "length ts \<le> MAX_BUNDLE_EPISODES" "length ps \<le> MAX_BUNDLE_EPISODES"
    and "1 / 2000000000000 < th" "th \<le> 1" and "whole_second_windows ts ps"
    and "distinct (map episode_id ts)" "distinct (map prediction_id ps)"
    and "\<forall>t\<in>set ts. content_id_ok (episode_id t)" "\<forall>p\<in>set ps. content_id_ok (prediction_id p)"
    and "\<forall>text. rca_digest_ok (h text)"
  shows "if card (comparable_pairs (set ts) (set ps)) \<le> MAX_EVALUATION_CANDIDATES
    then \<exists>r. evaluate_episodes h (sequence_of ts) (sequence_of ps) (Float_threshold th) = Some (Inr r) \<and>
      validate_evaluation r = None
    else evaluate_episodes h (sequence_of ts) (sequence_of ps) (Float_threshold th) =
      Some (Inl (Evaluation_error evaluation_limit_exceeded))"
proof -
  have th: "0 < th" using assms(3) by simp
  note run = evaluate_sequences [OF assms(1,2) th assms(4), of h]
  note ordered = whole_second_intervals(3) [OF assms(5)]
  let ?found = "candidate_matches (sort_key episode_id ts) (sort_key prediction_id ps) th"
  have "episodes_ok ts ps" using assms(6,7) windows_well_formed [OF ordered] by (simp add: episodes_ok_def)
  note sweep = candidate_matches_exact [OF episodes_ok_perm [OF this], of th]
  show ?thesis
  proof (cases "card (comparable_pairs (set ts) (set ps)) \<le> MAX_EVALUATION_CANDIDATES")
    case True
    with sweep obtain found where found: "?found = Inr found" by auto
    from selection_valid [OF assms(6,7,8,9,3) swept_candidates(1,2) [OF assms(6,7) ordered th found]]
    obtain ms where ms: "select_matches [] [] (sort_key candidate_rank found) = Inr ms"
      "\<forall>m\<in>set ms. validate_match m = None \<and> clear_share (match_iou m)"
      "distinct (map ground_truth_episode_id ms)" "distinct (map match_prediction_id ms)"
      "length ms \<le> length ts" "length ms \<le> length ps" by auto
    note w = window_durations [OF assms(5,1,2)]
    let ?overlap = "of_int (int (card (truth_instants ts \<inter> predicted_instants ps)) div 1000000) :: rat"
    let ?r = "build_evaluation h ts ps th (order_matches ms) ?overlap"
    have fin: "finite (truth_instants ts)" "finite (predicted_instants ps)"
      by (simp_all add: truth_instants_def predicted_instants_def labelled_finite)
    have "?overlap \<le> of_int (int (card (truth_instants ts)) div 1000000)"
      "?overlap \<le> of_int (int (card (predicted_instants ps)) div 1000000)"
      unfolding of_int_le_iff using fin by (intro zdiv_mono1; simp add: card_mono)+
    moreover have "0 \<le> ?overlap" by (simp add: pos_imp_zdiv_nonneg_iff del: of_int_of_nat_eq)
    ultimately have valid: "validate_evaluation ?r = None"
      using ms assms(10)
      by (intro report_valid [OF assms(1-4)]) (simp_all add: w distinct_order del: of_int_of_nat_eq, simp_all add: order_matches_def)
    have "evaluate_items h ts ps th = Some (Inr ?r)"
      using assms(6,7) found ms(1) w(3) valid by (simp add: evaluate_items_def Let_def)
    with True run valid show ?thesis by auto
  next
    case False
    with sweep have "?found = Inl evaluation_limit_exceeded" by auto
    with False assms(6,7) run show ?thesis by (simp add: evaluate_items_def)
  qed
qed

text \<open>
  C39: On at most 10000 episodes and 10000 predictions with distinct content identifiers and
  whole-second windows, and a threshold above half a trillionth, an evaluation has exactly two outcomes:
  when more than 100000 pairs of one resource and label overlap it is the limit error, and otherwise a
  report that passes the validation of \<open>EpisodeEvaluation\<close> (every metric a share, the counts
  consistent, matches one to one, no text that looks like a subscriber identifier).  No other error or
  exception occurs.
\<close>
theorem evaluation_is_valid:
  assumes "length ts \<le> MAX_BUNDLE_EPISODES" "length ps \<le> MAX_BUNDLE_EPISODES"
    and "1 / 2000000000000 < th" "th \<le> 1" and "whole_second_windows ts ps"
    and "distinct (map episode_id ts)" "distinct (map prediction_id ps)"
    and "\<forall>t\<in>set ts. content_id_ok (episode_id t)" "\<forall>p\<in>set ps. content_id_ok (prediction_id p)"
    and "\<forall>text. rca_digest_ok (h text)"
  shows "if card (comparable_pairs (set ts) (set ps)) \<le> MAX_EVALUATION_CANDIDATES
    then \<exists>r. evaluate_episodes h (sequence_of ts) (sequence_of ps) (Float_threshold th) = Some (Inr r) \<and>
      validate_evaluation r = None
    else evaluate_episodes h (sequence_of ts) (sequence_of ps) (Float_threshold th) =
      Some (Inl (Evaluation_error evaluation_limit_exceeded))"
  using assms by (rule evaluation_outcome)

text \<open>Below that threshold no report can be built: the rounded threshold is not positive.\<close>

lemma tiny_threshold_fails:
  assumes "0 < th" and "th \<le> 1 / 2000000000000"
  shows "evaluate_episodes h (sequence_of []) (sequence_of []) (Float_threshold th) = Some (Inl Other_exception)"
proof -
  have "round_half_even (th * 10 ^ 12) \<le> round_half_even (1 / 2)"
    using assms(2) by (intro round_half_even_mono) simp
  also have "round_half_even (1 / 2) = 0"
  proof -
    have "\<lfloor>1 / 2 :: rat\<rfloor> = 0" by (rule floor_unique) simp_all
    then show ?thesis by (simp add: round_half_even_def Let_def)
  qed
  finally have "round_half_even (th * 10 ^ 12) \<le> 0" .
  moreover have "0 \<le> round_half_even (th * 10 ^ 12)" using assms(1) by (intro round_half_even_bounds(1)) simp
  ultimately have "rounded th = 0" by (simp add: rounded_def py_round_def)
  then have "validate_evaluation (build_evaluation h [] [] th ms overlap) \<noteq> None" for ms overlap
    by (auto simp: validate_evaluation_def build_evaluation_def Let_def lab_field_def)
  moreover have "evaluate_items h [] [] th \<noteq> None"
    using evaluation_returns [of h "sequence_of []" "sequence_of []" "Float_threshold th"]
      evaluate_sequences [of "[]" "[]" th h] assms by simp
  moreover have "candidate_matches [] [] th = Inr []"
    by (simp add: candidate_matches_def episode_groups_def empty_sweep_def Let_def)
  ultimately have "evaluate_items h [] [] th = Some (Inl Other_exception)"
    by (auto simp: evaluate_items_def Let_def order_matches_def split: option.splits)
  then show ?thesis using evaluate_sequences [of "[]" "[]" th h] assms by simp
qed

end
