(* ===== verification/Episode_Examples.thy ===== *)
theory Episode_Examples
  imports Episode_Reports
begin

text \<open>
  A labelled window of ten seconds, a prediction of its second half and a prediction of the whole of
  it: concrete runs of the evaluation to which its properties apply.
\<close>

definition ex_hash :: "string \<Rightarrow> string" where
  "ex_hash text = replicate 64 (CHR ''a'')"

definition ex_resource :: string where
  "ex_resource = ''lab:lte:cell:0123456789abcdef01234567''"

definition ex_episode :: lab_episode where
  "ex_episode = \<lparr>episode_id = ''labtruth-'' @ replicate 64 (CHR ''a''), ep_dataset_id = ''data'',
     ep_dataset_version = ''v1'', ep_source_artifact_sha256 = replicate 64 (CHR ''0''), ep_resource_id = ex_resource,
     ep_label = EPISODE_LABEL, ep_window_start = 0, ep_window_end = 9000000, ep_sample_count = 10,
     first_observation_id = ''labobs-'' @ replicate 64 (CHR ''a''),
     last_observation_id = ''labobs-'' @ replicate 64 (CHR ''b'')\<rparr>"

definition ex_prediction :: "char \<Rightarrow> instant \<Rightarrow> predicted_episode" where
  "ex_prediction c start = \<lparr>prediction_id = ''labpred-'' @ replicate 64 c, pe_dataset_id = ''data'',
     pe_dataset_version = ''v1'', pe_source_artifact_sha256 = replicate 64 (CHR ''0''), source_item_number = 1,
     pe_resource_id = ex_resource, pe_label = EPISODE_LABEL, pe_window_start = start, pe_window_end = 9000000,
     detected_at = 9000000, detector_id = ''detector'', score = 1, features = []\<rparr>"

abbreviation "ex_half \<equiv> ex_prediction (CHR ''a'') 5000000"
abbreviation "ex_whole \<equiv> ex_prediction (CHR ''b'') 0"

lemma ex_fields [simp]:
  "episode_id ex_episode = ''labtruth-'' @ replicate 64 (CHR ''a'')"
  "truth_interval ex_episode = (0, 10000000)" "truth_group ex_episode = (ex_resource, EPISODE_LABEL)"
  "prediction_id (ex_prediction c n) = ''labpred-'' @ replicate 64 c"
  "prediction_interval (ex_prediction c n) = (n, 10000000)"
  "prediction_group (ex_prediction c n) = (ex_resource, EPISODE_LABEL)"
  by (simp_all add: ex_episode_def ex_prediction_def truth_interval_def prediction_interval_def inclusive_interval_def
      truth_group_def prediction_group_def)

lemma ex_ids:
  "content_id_ok (''labtruth-'' @ replicate 64 (CHR ''a''))" "content_id_ok (''labpred-'' @ replicate 64 (CHR ''a''))"
  "content_id_ok (''labpred-'' @ replicate 64 (CHR ''b''))" "rca_digest_ok (ex_hash text)"
  by (simp_all add: content_id_ok_def rca_digest_ok_def ex_hash_def lower_hex_def list_all_iff Let_def)

lemma ex_windows: "whole_second_windows [ex_episode] [ex_half]" "whole_second_windows [ex_episode] [ex_half, ex_whole]"
  by (simp_all add: whole_second_windows_def whole_second_window_def ex_episode_def ex_prediction_def)

lemma ex_ids_distinct: "ex_half \<noteq> ex_whole" "replicate 64 (CHR ''a'') \<noteq> replicate 64 (CHR ''b'')"
  by (simp_all add: ex_prediction_def replicate_eq_replicate)

lemma ex_pairs: "length ps \<le> 2 \<Longrightarrow> card (comparable_pairs (set [ex_episode]) (set ps)) \<le> MAX_EVALUATION_CANDIDATES"
proof -
  assume len: "length ps \<le> 2"
  have "card (comparable_pairs (set [ex_episode]) (set ps)) \<le> card ({ex_episode} \<times> set ps)"
    by (rule card_mono) (auto simp: comparable_pairs_def)
  also have "\<dots> \<le> 2" using card_length [of ps] len by (simp add: card_cartesian_product)
  finally show ?thesis by (simp add: MAX_EVALUATION_CANDIDATES_def)
qed

lemma ex_runs:
  "\<exists>r. evaluate_episodes ex_hash (sequence_of [ex_episode]) (sequence_of [ex_half]) (Float_threshold (1 / 4)) = Some (Inr r)"
  "\<exists>r. evaluate_episodes ex_hash (sequence_of [ex_episode]) (sequence_of [ex_half, ex_whole]) (Float_threshold (1 / 4)) =
    Some (Inr r)"
  using evaluation_outcome [of "[ex_episode]" "[ex_half]" "1 / 4" ex_hash] ex_pairs [of "[ex_half]"]
    evaluation_outcome [of "[ex_episode]" "[ex_half, ex_whole]" "1 / 4" ex_hash] ex_pairs [of "[ex_half, ex_whole]"]
  by (simp_all add: ex_windows ex_ids [simplified] ex_ids_distinct MAX_BUNDLE_EPISODES_def) blast+

lemma float_half [simp]: "fl (1 / 2) = 1 / 2"
  using fl_powi [of "- 1"] by (simp add: power_int_minus)


lemma evaluation_is_valid_witness:
  "\<exists>r. evaluate_episodes ex_hash (sequence_of [ex_episode]) (sequence_of [ex_half, ex_whole]) (Float_threshold (1 / 4)) =
     Some (Inr r) \<and> validate_evaluation r = None"
  using evaluation_is_valid [of "[ex_episode]" "[ex_half, ex_whole]" "1 / 4" ex_hash] ex_pairs [of "[ex_half, ex_whole]"]
  by (simp add: ex_windows ex_ids [simplified] ex_ids_distinct MAX_BUNDLE_EPISODES_def)

lemma ex_overlaps: "temporal_iou ex_episode ex_half = 1 / 2" "temporal_iou ex_episode ex_whole = 1"
  using fl_of_int [of 5] fl_of_int [of 10]
  by (simp_all add: temporal_iou_def overlap_seconds_def seconds_def Let_def)

lemma ex_selection:
  "eligible [ex_episode] [ex_half, ex_whole] (1 / 4) = {(ex_episode, ex_half), (ex_episode, ex_whole)}"
  "stable_selection {(ex_episode, ex_half), (ex_episode, ex_whole)} {(ex_episode, ex_whole)}"
  using ex_ids_distinct(1)
  by (auto simp: eligible_def stable_selection_def ex_overlaps pair_rank_def less_prod_def)

lemma matches_are_stable_witness:
  "\<exists>r. evaluate_episodes ex_hash (sequence_of [ex_episode]) (sequence_of [ex_half, ex_whole]) (Float_threshold (1 / 4)) =
     Some (Inr r) \<and> mset (matches r) = {#pair_match (ex_episode, ex_whole)#}"
proof -
  obtain r where r: "evaluate_episodes ex_hash (sequence_of [ex_episode]) (sequence_of [ex_half, ex_whole])
    (Float_threshold (1 / 4)) = Some (Inr r)" using ex_runs(2) by blast
  from matches_are_stable [OF r _ _ _ _ whole_second_intervals(3) [OF ex_windows(2)]] ex_selection(2)
  have "mset (matches r) = image_mset pair_match (mset_set {(ex_episode, ex_whole)})"
    unfolding ex_selection(1) by (auto simp: MAX_BUNDLE_EPISODES_def)
  with r show ?thesis by auto
qed

end
