(* ===== verification/A2a_Canonical.thy ===== *)
theory A2a_Canonical
  imports Rca_Models Binary64
begin

text \<open>
  The canonical payloads of the Supervisor's A2A boundary (\<open>agent/a2a_parts.py\<close>): the field sets of
  every message and nested record, the field checks, the validators of candidates, incidents and their
  parts, and \<open>_canonical_data\<close>, which accepts one structured payload or raises.  A payload is a JSON
  value whose objects have distinct keys; \<open>json.loads(json.dumps(v, sort_keys=True))\<close> is the same value
  with sorted keys.  \<open>datetime.fromisoformat\<close> is the parameter \<open>from_iso\<close>: the UTC instant and the offset
  of a text in microseconds, \<open>None\<close> when it raises or the result has no zone.  Integers of more than
  4300 digits, which \<open>json.dumps\<close> refuses, are not modelled.
\<close>

section \<open>Bounds, fields and errors\<close>

definition MAX_CANONICAL_BYTES :: nat where "MAX_CANONICAL_BYTES = 256000"
definition MAX_CANONICAL_DEPTH :: nat where "MAX_CANONICAL_DEPTH = 24"
definition MAX_TEXT_CHARS :: nat where "MAX_TEXT_CHARS = 4096"
definition MAX_ID_CHARS :: nat where "MAX_ID_CHARS = 256"

definition A2A_COMMON_FIELDS :: "string list" where
  "A2A_COMMON_FIELDS = [''schema_version'', ''message_type'', ''message_id'', ''workflow_id'', ''trace_id'',
     ''idempotency_key'', ''sent_at'']"

definition A2A_ASSURANCE_MESSAGE_TYPES :: "string list" where
  "A2A_ASSURANCE_MESSAGE_TYPES = [''assurance_scan_request'', ''assurance_candidate_page'',
     ''assurance_confirmation_request'', ''assurance_confirmation_result'', ''assurance_analyze_request'',
     ''assurance_error'']"

definition A2A_CANDIDATE_FIELDS :: "string list" where
  "A2A_CANDIDATE_FIELDS = [''candidate_id'', ''title'', ''technology'', ''window_start'', ''window_end'',
     ''affected_resources'', ''violated_kpis'', ''summary_zh'']"

definition A2A_CANDIDATE_RESOURCE_FIELDS :: "string list" where
  "A2A_CANDIDATE_RESOURCE_FIELDS = [''resource_id'', ''resource_type'', ''technology'']"

definition A2A_CANDIDATE_KPI_FIELDS :: "string list" where
  "A2A_CANDIDATE_KPI_FIELDS = [''kpi_name'', ''observed_value'', ''threshold_value'', ''comparator'', ''unit'',
     ''sample_count'']"

definition A2A_INCIDENT_FIELDS :: "string list" where
  "A2A_INCIDENT_FIELDS = [''schema_version'', ''incident_id'', ''correlation_key'', ''source_event_ids'',
     ''technology'', ''vendor_profile'', ''status'', ''severity'', ''title'', ''description'',
     ''affected_resources'', ''detected_at'', ''window_start'', ''window_end'', ''violated_kpis'',
     ''evidence_refs'', ''hypotheses'', ''root_cause'', ''rca_reports'', ''recommendations'', ''approvals'',
     ''action_runs'', ''verification_runs'', ''model_metadata'', ''rule_versions'', ''trace_id'',
     ''duplicate_of'', ''created_at'', ''updated_at'', ''revision'']"

definition A2A_RESOURCE_REFERENCE_FIELDS :: "string list" where
  "A2A_RESOURCE_REFERENCE_FIELDS = [''schema_version'', ''resource_id'', ''resource_type'', ''name'',
     ''technology'', ''vendor_profile'', ''parent_resource_id'', ''location_id'', ''external_ids'',
     ''attributes'']"

definition A2A_KPI_VIOLATION_FIELDS :: "string list" where
  "A2A_KPI_VIOLATION_FIELDS = [''schema_version'', ''violation_id'', ''kpi_name'', ''observed_value'',
     ''threshold_value'', ''comparator'', ''unit'', ''window_start'', ''window_end'', ''rule_id'',
     ''rule_version'', ''resource_ids'', ''dimensions'']"

definition A2A_EVIDENCE_REFERENCE_FIELDS :: "string list" where
  "A2A_EVIDENCE_REFERENCE_FIELDS = [''schema_version'', ''evidence_id'', ''evidence_type'', ''uri'', ''source'',
     ''summary'', ''collected_at'', ''content_type'', ''checksum_sha256'', ''attributes'']"

definition A2A_RCA_REPORT_FIELDS :: "string list" where
  "A2A_RCA_REPORT_FIELDS = [''schema_version'', ''report_id'', ''incident_id'', ''version'', ''status'',
     ''title'', ''summary'', ''hypotheses'', ''root_cause'', ''conclusion'', ''confidence'', ''evidence_refs'',
     ''recommendations'', ''generated_by'', ''model_metadata'', ''created_at'']"

definition A2A_REMEDIATION_FIELDS :: "string list" where
  "A2A_REMEDIATION_FIELDS = [''schema_version'', ''action_id'', ''action_type'', ''description'',
     ''target_resources'', ''parameters'', ''risk_level'', ''requires_approval'', ''reversible'',
     ''rollback_plan'', ''expected_outcome'', ''idempotency_key'', ''created_at'']"

definition A2A_APPROVAL_FIELDS :: "string list" where
  "A2A_APPROVAL_FIELDS = [''schema_version'', ''approval_id'', ''request_id'', ''sequence'', ''incident_id'',
     ''report_id'', ''report_version'', ''subject_id'', ''status'', ''approval_type'', ''action_hash'',
     ''scope'', ''requested_by'', ''decided_by'', ''reason'', ''requested_at'', ''decided_at'', ''expires_at'',
     ''idempotency_key'']"

definition A2A_ACTION_RUN_FIELDS :: "string list" where
  "A2A_ACTION_RUN_FIELDS = [''schema_version'', ''action_run_id'', ''incident_id'', ''action_id'',
     ''action_hash'', ''status'', ''idempotency_key'', ''attempt'', ''started_at'', ''finished_at'',
     ''output_summary'', ''error'', ''metadata'']"

definition A2A_VERIFICATION_RUN_FIELDS :: "string list" where
  "A2A_VERIFICATION_RUN_FIELDS = [''schema_version'', ''verification_id'', ''incident_id'', ''action_run_ids'',
     ''status'', ''checks'', ''observed_kpis'', ''evidence_refs'', ''summary'', ''error'', ''started_at'',
     ''finished_at'', ''metadata'']"

definition A2A_MESSAGE_FIELDS :: "string \<Rightarrow> string list" where
  "A2A_MESSAGE_FIELDS message_type =
     (if message_type = ''assurance_scan_request'' then A2A_COMMON_FIELDS @
       [''window_start'', ''window_end'', ''resource_ids'', ''page_size'', ''page_offset'']
     else if message_type = ''assurance_candidate_page'' then A2A_COMMON_FIELDS @
       [''request_message_id'', ''candidates'', ''page_size'', ''page_offset'', ''total_candidates'',
        ''has_more'', ''challenge_id'', ''snapshot_sha256'', ''challenge_expires_at'',
        ''effective_window_start'', ''effective_window_end'', ''summary_zh'']
     else if message_type = ''assurance_confirmation_request'' then A2A_COMMON_FIELDS @
       [''preview_message_id'', ''candidate_id'', ''challenge_id'', ''snapshot_sha256'', ''decision'',
        ''reason'']
     else if message_type = ''assurance_confirmation_result'' then A2A_COMMON_FIELDS @
       [''request_message_id'', ''preview_message_id'', ''candidate_id'', ''decision'', ''actor'',
        ''outcome'', ''incident'', ''summary_zh'']
     else if message_type = ''assurance_analyze_request'' then A2A_COMMON_FIELDS @
       [''incident_id'', ''requested_report_version'']
     else if message_type = ''assurance_error'' then
       [''schema_version'', ''message_type'', ''message_id'', ''error_code'', ''summary_zh'', ''sent_at'']
     else [])"

text \<open>\<open>A2AContentError\<close> with its message, and the \<open>TypeError\<close> of \<open>value in {...}\<close> for a list or an object.\<close>

datatype content_error = Content_error string | Unhashable_error

definition invalid :: "string \<Rightarrow> content_error" where
  "invalid label = Content_error (label @ '' is invalid'')"

type_synonym json_object = "(string, json) dict"

text \<open>The entries of an object, the items of a list.\<close>

definition entries_of_json :: "json \<Rightarrow> json_object" where
  "entries_of_json v = (case v of JObj kvs \<Rightarrow> kvs | _ \<Rightarrow> [])"

definition items_of_json :: "json \<Rightarrow> json list" where
  "items_of_json v = (case v of JList vs \<Rightarrow> vs | _ \<Rightarrow> [])"

definition is_object :: "json \<Rightarrow> bool" where
  "is_object v = (case v of JObj _ \<Rightarrow> True | _ \<Rightarrow> False)"

text \<open>\<open>d.get(key)\<close>, and the same after \<open>d.setdefault(key, default)\<close>.\<close>

definition entry_or :: "json \<Rightarrow> string \<Rightarrow> json_object \<Rightarrow> json" where
  "entry_or absent key d = (case map_of d key of None \<Rightarrow> absent | Some v \<Rightarrow> v)"

definition entry :: "string \<Rightarrow> json_object \<Rightarrow> json" where
  "entry = entry_or JNull"

section \<open>Field checks\<close>

definition strict_object :: "string list \<Rightarrow> string \<Rightarrow> json \<Rightarrow> content_error option" where
  "strict_object expected label v = fail_if (\<not> is_object v \<or> fst ` set (entries_of_json v) \<noteq> set expected)
     (Content_error (label @ '' has invalid fields''))"

definition allowed_object :: "string list \<Rightarrow> string list \<Rightarrow> string \<Rightarrow> json \<Rightarrow> content_error option" where
  "allowed_object allowed required label v = fail_if (\<not> is_object v \<or>
     \<not> fst ` set (entries_of_json v) \<subseteq> set allowed \<or> \<not> set required \<subseteq> fst ` set (entries_of_json v))
     (Content_error (label @ '' has invalid fields''))"

definition versioned_object :: "string list \<Rightarrow> string list \<Rightarrow> string \<Rightarrow> json \<Rightarrow> content_error option" where
  "versioned_object allowed required label v = first_error [
     allowed_object allowed required label v,
     fail_if (entry_or (JStr ''1.0'') ''schema_version'' (entries_of_json v) \<noteq> JStr ''1.0'')
       (Content_error (label @ '' has invalid schema_version''))]"

definition a2a_identifier :: "string \<Rightarrow> json \<Rightarrow> content_error option" where
  "a2a_identifier label v = (case v of JStr s \<Rightarrow> fail_if (s = [] \<or> length s > MAX_ID_CHARS) (invalid label)
     | _ \<Rightarrow> Some (invalid label))"

text \<open>A check of a value that may be \<open>None\<close>.\<close>

definition optional :: "(json \<Rightarrow> 'e option) \<Rightarrow> json \<Rightarrow> 'e option" where
  "optional check v = (if v = JNull then None else check v)"

definition a2a_text :: "string \<Rightarrow> nat \<Rightarrow> bool \<Rightarrow> json \<Rightarrow> content_error option" where
  "a2a_text label maximum allow_empty v = (case v of
     JStr s \<Rightarrow> fail_if (length s > maximum \<or> (\<not> allow_empty \<and> s = [])) (invalid label)
   | _ \<Rightarrow> Some (invalid label))"

definition a2a_list :: "string \<Rightarrow> nat option \<Rightarrow> json \<Rightarrow> content_error option" where
  "a2a_list label maximum v = (case v of
     JList vs \<Rightarrow> fail_if (case maximum of None \<Rightarrow> False | Some n \<Rightarrow> length vs > n) (invalid label)
   | _ \<Rightarrow> Some (invalid label))"

definition a2a_integer :: "string \<Rightarrow> int \<Rightarrow> int option \<Rightarrow> json \<Rightarrow> content_error option" where
  "a2a_integer label minimum maximum v = (case v of
     JInt i \<Rightarrow> fail_if (i < minimum \<or> (case maximum of None \<Rightarrow> False | Some n \<Rightarrow> i > n)) (invalid label)
   | _ \<Rightarrow> Some (invalid label))"

text \<open>The number a float's text denotes.\<close>

definition digits_value :: "string \<Rightarrow> nat" where
  "digits_value s = foldl (\<lambda>n c. 10 * n + (of_char c - 48)) 0 s"

definition float_of_repr :: "string \<Rightarrow> rat" where
  "float_of_repr s = (let negative = take 1 s = ''-''; t = (if negative then tl s else s);
     mantissa = takeWhile (\<lambda>c. c \<noteq> CHR ''e'') t; e = drop (Suc (length mantissa)) t;
     whole = takeWhile (\<lambda>c. c \<noteq> CHR ''.'') mantissa; fraction = drop (Suc (length whole)) mantissa;
     place = (case e of [] \<Rightarrow> 0
       | c # ds \<Rightarrow> if c = CHR ''-'' then - int (digits_value ds) else if c = CHR ''+'' then int (digits_value ds)
           else int (digits_value e));
     magnitude = fl (of_nat (digits_value (whole @ fraction)) * 10 powi (place - int (length fraction)))
   in if negative then - magnitude else magnitude)"

definition number_of_json :: "json \<Rightarrow> rat option" where
  "number_of_json v = (case v of JInt i \<Rightarrow> Some (of_int i) | JFloat r \<Rightarrow> Some (float_of_repr r) | _ \<Rightarrow> None)"

definition a2a_number :: "string \<Rightarrow> json \<Rightarrow> content_error option" where
  "a2a_number label v = fail_if (number_of_json v = None) (invalid label)"

definition lower_hex_digest :: "string \<Rightarrow> bool" where
  "lower_hex_digest s \<longleftrightarrow> length s = 64 \<and> list_all (\<lambda>c. c \<in> set ''0123456789abcdef'') s"

definition a2a_sha256 :: "string \<Rightarrow> json \<Rightarrow> content_error option" where
  "a2a_sha256 label v = (case v of JStr s \<Rightarrow> fail_if (\<not> lower_hex_digest s) (invalid label)
     | _ \<Rightarrow> Some (invalid label))"

definition a2a_string_list :: "string \<Rightarrow> nat option \<Rightarrow> bool \<Rightarrow> json \<Rightarrow> content_error option" where
  "a2a_string_list label maximum identifiers v = first_error ([a2a_list label maximum v] @
     map (if identifiers then a2a_identifier label else a2a_text label MAX_TEXT_CHARS True) (items_of_json v) @
     [fail_if (\<not> distinct (items_of_json v)) (Content_error (label @ '' contains duplicates''))])"

definition a2a_string_mapping :: "string \<Rightarrow> json \<Rightarrow> content_error option" where
  "a2a_string_mapping label v = first_error (fail_if (\<not> is_object v) (invalid label) #
     concat (map (\<lambda>(k, nested). [a2a_text (label @ '' key'') MAX_ID_CHARS True (JStr k),
       a2a_text (label @ '' value'') MAX_TEXT_CHARS True nested]) (entries_of_json v)))"

definition a2a_json_mapping :: "string \<Rightarrow> json \<Rightarrow> content_error option" where
  "a2a_json_mapping label v = fail_if (\<not> is_object v) (invalid label)"

text \<open>\<open>value in {...}\<close> for a set of texts.\<close>

definition in_names :: "string list \<Rightarrow> json \<Rightarrow> content_error + bool" where
  "in_names names v = (case v of JStr s \<Rightarrow> Inr (s \<in> set names)
     | JList _ \<Rightarrow> Inl Unhashable_error | JObj _ \<Rightarrow> Inl Unhashable_error | _ \<Rightarrow> Inr False)"

definition a2a_choice :: "string list \<Rightarrow> content_error \<Rightarrow> json \<Rightarrow> content_error option" where
  "a2a_choice names error v = (case in_names names v of Inl e \<Rightarrow> Some e | Inr known \<Rightarrow> fail_if (\<not> known) error)"

section \<open>Privacy and string sizes\<close>

text \<open>
  The stack loop of \<open>_reject_sensitive_or_oversized_strings\<close>; the top of the stack is the head.  The
  pattern is the one of the privacy guards, and a key is a text.
\<close>

definition reject_key :: "string \<times> json \<Rightarrow> content_error option" where
  "reject_key = (\<lambda>(key, nested). first_error [
     fail_if (length key > MAX_ID_CHARS) (Content_error ''canonical payload has invalid field name''),
     fail_if (labeled_identifier key \<or> (is_sensitive_key key \<and> \<not> is_empty_value nested))
       (Content_error ''sensitive subscriber data is not allowed'')])"

definition reject_text :: "string \<Rightarrow> content_error option" where
  "reject_text s = first_error [
     fail_if (length s > MAX_TEXT_CHARS) (Content_error ''canonical string exceeds the limit''),
     fail_if (labeled_identifier s) (Content_error ''sensitive subscriber data is not allowed'')]"

lemma sizes_of_fields: "sum_list (map (size \<circ> snd) kvs) < size (JObj kvs)"
  by (induction kvs) auto

lemma sizes_of_items: "sum_list (map size vs) < size (JList vs)"
  by (induction vs) auto

function (sequential) reject_loop :: "json list \<Rightarrow> content_error option" where
  "reject_loop [] = None"
| "reject_loop (JObj kvs # stack) = (case first_error (map reject_key kvs) of
     Some e \<Rightarrow> Some e
   | None \<Rightarrow> reject_loop (rev (map snd kvs) @ stack))"
| "reject_loop (JList vs # stack) = reject_loop (rev vs @ stack)"
| "reject_loop (JStr s # stack) = (case reject_text s of Some e \<Rightarrow> Some e | None \<Rightarrow> reject_loop stack)"
| "reject_loop (v # stack) = reject_loop stack"
  by pat_completeness auto
termination
  by (relation "measures [\<lambda>st. sum_list (map size st), length]")
    (use sizes_of_fields sizes_of_items in \<open>auto simp: sum_list_rev rev_map [symmetric] simp del: json.size\<close>)

definition reject_sensitive_or_oversized_strings :: "json \<Rightarrow> content_error option" where
  "reject_sensitive_or_oversized_strings v = reject_loop [v]"

section \<open>Times\<close>

type_synonym iso_parser = "string \<Rightarrow> (instant \<times> int) option"

definition spelled_zone :: "string \<Rightarrow> string" where
  "spelled_zone s = concat (map (\<lambda>c. if c = CHR ''Z'' then ''+00:00'' else [c]) s)"

definition parse_utc_iso :: "iso_parser \<Rightarrow> string \<Rightarrow> json \<Rightarrow> content_error + instant" where
  "parse_utc_iso from_iso field_name v = (case v of
     JStr s \<Rightarrow> if s = [] \<or> length s > MAX_ID_CHARS then Inl (Content_error (field_name @ '' must be a UTC timestamp''))
       else (case from_iso (spelled_zone s) of
         Some (t, offset) \<Rightarrow> if offset = 0 then Inr t
           else Inl (Content_error (field_name @ '' must be a UTC timestamp''))
       | None \<Rightarrow> Inl (Content_error (field_name @ '' must be a UTC timestamp'')))
   | _ \<Rightarrow> Inl (Content_error (field_name @ '' must be a UTC timestamp'')))"

definition a2a_timestamp :: "iso_parser \<Rightarrow> string \<Rightarrow> json \<Rightarrow> content_error option" where
  "a2a_timestamp from_iso field_name v = (case parse_utc_iso from_iso field_name v of Inl e \<Rightarrow> Some e | Inr _ \<Rightarrow> None)"

definition utc_pair :: "iso_parser \<Rightarrow> string \<Rightarrow> int option \<Rightarrow> json \<Rightarrow> json \<Rightarrow> content_error option" where
  "utc_pair from_iso label maximum_days start_value end_value =
     (if (start_value = JNull) \<noteq> (end_value = JNull)
      then Some (Content_error (label @ '' window must be provided together''))
      else if start_value = JNull then None
      else case parse_utc_iso from_iso (label @ ''_start'') start_value of
        Inl e \<Rightarrow> Some e
      | Inr start \<Rightarrow> (case parse_utc_iso from_iso (label @ ''_end'') end_value of
          Inl e \<Rightarrow> Some e
        | Inr stop \<Rightarrow> first_error [
            fail_if (stop < start) (Content_error (label @ '' window has invalid order'')),
            fail_if (case maximum_days of None \<Rightarrow> False | Some n \<Rightarrow> stop - start > n * 86400000000)
              (Content_error (label @ '' window exceeds the limit''))]))"


section \<open>Candidates\<close>

definition validate_candidate_resource :: "json \<Rightarrow> content_error option" where
  "validate_candidate_resource v = (let d = entries_of_json v in first_error [
     allowed_object A2A_CANDIDATE_RESOURCE_FIELDS [''resource_id'', ''resource_type''] ''candidate resource'' v,
     a2a_identifier ''candidate resource_id'' (entry ''resource_id'' d),
     a2a_text ''candidate resource_type'' 64 False (entry ''resource_type'' d),
     optional (a2a_text ''candidate resource technology'' 64 False) (entry ''technology'' d)])"

definition validate_candidate_kpi :: "json \<Rightarrow> content_error option" where
  "validate_candidate_kpi v = (let d = entries_of_json v in first_error [
     allowed_object A2A_CANDIDATE_KPI_FIELDS
       [''kpi_name'', ''observed_value'', ''threshold_value'', ''comparator'', ''sample_count''] ''candidate KPI'' v,
     a2a_text ''candidate KPI name'' 1024 True (entry ''kpi_name'' d),
     a2a_number ''candidate observed_value'' (entry ''observed_value'' d),
     a2a_number ''candidate threshold_value'' (entry ''threshold_value'' d),
     a2a_text ''candidate comparator'' 64 True (entry ''comparator'' d),
     optional (a2a_text ''candidate unit'' 256 True) (entry ''unit'' d),
     a2a_integer ''candidate sample_count'' 0 None (entry ''sample_count'' d)])"

definition validate_candidate :: "iso_parser \<Rightarrow> json \<Rightarrow> content_error option" where
  "validate_candidate from_iso v = (let d = entries_of_json v;
     resources = entry_or (JList []) ''affected_resources'' d; kpis = entry_or (JList []) ''violated_kpis'' d
   in first_error [
     allowed_object A2A_CANDIDATE_FIELDS [''candidate_id'', ''technology'', ''window_start'', ''window_end''] ''candidate'' v,
     a2a_identifier ''candidate_id'' (entry ''candidate_id'' d),
     a2a_text ''candidate title'' 1024 True (entry_or (JStr []) ''title'' d),
     a2a_text ''candidate technology'' 64 False (entry ''technology'' d),
     utc_pair from_iso ''candidate'' (Some 31) (entry ''window_start'' d) (entry ''window_end'' d),
     a2a_list ''candidate affected_resources'' (Some 100) resources,
     first_error (map validate_candidate_resource (items_of_json resources)),
     a2a_list ''candidate violated_kpis'' (Some 32) kpis,
     first_error (map validate_candidate_kpi (items_of_json kpis)),
     a2a_text ''candidate summary_zh'' MAX_TEXT_CHARS True (entry_or (JStr []) ''summary_zh'' d)])"

section \<open>Incidents and their parts\<close>

definition validate_a2a_resource :: "json \<Rightarrow> content_error option" where
  "validate_a2a_resource v = (let d = entries_of_json v in first_error ([
     versioned_object A2A_RESOURCE_REFERENCE_FIELDS [''resource_id'', ''resource_type''] ''resource'' v,
     a2a_identifier ''resource_id'' (entry ''resource_id'' d),
     a2a_text ''resource_type'' 64 True (entry ''resource_type'' d)] @
     map (\<lambda>f. optional (a2a_text (''resource '' @ f) 1024 True) (entry f d))
       [''name'', ''technology'', ''vendor_profile'', ''parent_resource_id'', ''location_id''] @
     [a2a_string_mapping ''resource external_ids'' (entry_or (JObj []) ''external_ids'' d),
     a2a_json_mapping ''resource attributes'' (entry_or (JObj []) ''attributes'' d)]))"

definition validate_a2a_kpi :: "iso_parser \<Rightarrow> json \<Rightarrow> content_error option" where
  "validate_a2a_kpi from_iso v = (let d = entries_of_json v in first_error [
     versioned_object A2A_KPI_VIOLATION_FIELDS [''kpi_name'', ''observed_value'', ''threshold_value'', ''comparator'']
       ''KPI violation'' v,
     optional (a2a_identifier ''violation_id'') (entry ''violation_id'' d),
     a2a_text ''KPI name'' 1024 False (entry ''kpi_name'' d),
     a2a_number ''KPI observed_value'' (entry ''observed_value'' d),
     a2a_number ''KPI threshold_value'' (entry ''threshold_value'' d),
     a2a_choice [''LT'', ''LTE'', ''GT'', ''GTE'', ''EQ'', ''NE''] (invalid ''KPI comparator'') (entry ''comparator'' d),
     optional (a2a_text ''KPI unit'' 256 True) (entry ''unit'' d),
     utc_pair from_iso ''KPI'' None (entry ''window_start'' d) (entry ''window_end'' d),
     optional (a2a_identifier ''KPI rule_id'') (entry ''rule_id'' d),
     optional (a2a_text ''KPI rule_version'' 1024 True) (entry ''rule_version'' d),
     a2a_string_list ''KPI resource_ids'' None True (entry_or (JList []) ''resource_ids'' d),
     a2a_string_mapping ''KPI dimensions'' (entry_or (JObj []) ''dimensions'' d)])"

definition validate_a2a_evidence :: "iso_parser \<Rightarrow> json \<Rightarrow> content_error option" where
  "validate_a2a_evidence from_iso v = (let d = entries_of_json v in first_error ([
     versioned_object A2A_EVIDENCE_REFERENCE_FIELDS [''evidence_id'', ''evidence_type'', ''uri''] ''evidence reference'' v,
     a2a_identifier ''evidence_id'' (entry ''evidence_id'' d),
     a2a_text ''evidence_type'' 64 True (entry ''evidence_type'' d),
     a2a_text ''evidence uri'' 1024 False (entry ''uri'' d)] @
     map (\<lambda>f. optional (a2a_text (''evidence '' @ f) 1024 True) (entry f d)) [''source'', ''summary'', ''content_type''] @
     [optional (a2a_timestamp from_iso ''evidence collected_at'') (entry ''collected_at'' d),
     optional (a2a_sha256 ''evidence checksum'') (entry ''checksum_sha256'' d),
     a2a_json_mapping ''evidence attributes'' (entry_or (JObj []) ''attributes'' d)]))"

text \<open>A timestamp that is checked when its key is present, \<open>None\<close> included.\<close>

definition if_present :: "string \<Rightarrow> (json \<Rightarrow> 'e option) \<Rightarrow> json_object \<Rightarrow> 'e option" where
  "if_present key check d = (case map_of d key of None \<Rightarrow> None | Some v \<Rightarrow> check v)"

definition validate_a2a_remediation :: "iso_parser \<Rightarrow> json \<Rightarrow> content_error option" where
  "validate_a2a_remediation from_iso v = (let d = entries_of_json v; targets = entry ''target_resources'' d
   in first_error ([
     versioned_object A2A_REMEDIATION_FIELDS [''action_id'', ''target_resources''] ''remediation'' v,
     a2a_identifier ''remediation action_id'' (entry ''action_id'' d),
     a2a_text ''remediation action_type'' 1024 False (entry_or (JStr ''CUSTOM'') ''action_type'' d)] @
     map (\<lambda>f. optional (a2a_text (''remediation '' @ f) MAX_TEXT_CHARS True) (entry f d))
       [''description'', ''rollback_plan'', ''expected_outcome''] @
     [a2a_list ''remediation targets'' None targets,
     fail_if (items_of_json targets = []) (Content_error ''remediation targets are invalid''),
     first_error (map validate_a2a_resource (items_of_json targets)),
     a2a_json_mapping ''remediation parameters'' (entry_or (JObj []) ''parameters'' d),
     a2a_choice [''LOW'', ''MEDIUM'', ''HIGH'', ''CRITICAL''] (invalid ''remediation risk_level'')
       (entry_or (JStr ''MEDIUM'') ''risk_level'' d),
     fail_if (entry_or (JBool True) ''requires_approval'' d \<noteq> JBool True \<or>
       (case entry_or (JBool False) ''reversible'' d of JBool _ \<Rightarrow> False | _ \<Rightarrow> True))
       (Content_error ''remediation approval fields are invalid''),
     optional (a2a_identifier ''remediation idempotency_key'') (entry ''idempotency_key'' d),
     if_present ''created_at'' (a2a_timestamp from_iso ''remediation created_at'') d]))"

definition validate_a2a_report :: "iso_parser \<Rightarrow> json \<Rightarrow> content_error option" where
  "validate_a2a_report from_iso v = (let d = entries_of_json v;
     evidence = entry_or (JList []) ''evidence_refs'' d; actions = entry_or (JList []) ''recommendations'' d
   in first_error [
     versioned_object A2A_RCA_REPORT_FIELDS [''report_id'', ''incident_id''] ''RCA report'' v,
     a2a_identifier ''RCA report_id'' (entry ''report_id'' d),
     a2a_identifier ''RCA incident_id'' (entry ''incident_id'' d),
     a2a_integer ''RCA version'' 1 None (entry_or (JInt 1) ''version'' d),
     a2a_text ''RCA status'' 64 True (entry_or (JStr ''DRAFT'') ''status'' d),
     optional (a2a_text ''RCA title'' MAX_TEXT_CHARS True) (entry ''title'' d),
     a2a_text ''RCA summary'' MAX_TEXT_CHARS True (entry_or (JStr []) ''summary'' d),
     a2a_string_list ''RCA hypotheses'' None False (entry_or (JList []) ''hypotheses'' d),
     optional (a2a_text ''RCA root_cause'' MAX_TEXT_CHARS True) (entry ''root_cause'' d),
     a2a_text ''RCA conclusion'' 64 True (entry_or (JStr ''CONCLUSIVE'') ''conclusion'' d),
     optional (\<lambda>c. case number_of_json c of None \<Rightarrow> Some (invalid ''RCA confidence'')
       | Some x \<Rightarrow> fail_if (\<not> (0 \<le> x \<and> x \<le> 1)) (invalid ''RCA confidence'')) (entry ''confidence'' d),
     a2a_list ''RCA evidence_refs'' None evidence,
     first_error (map (validate_a2a_evidence from_iso) (items_of_json evidence)),
     a2a_list ''RCA recommendations'' None actions,
     first_error (map (validate_a2a_remediation from_iso) (items_of_json actions)),
     optional (a2a_text ''RCA generated_by'' MAX_TEXT_CHARS True) (entry ''generated_by'' d),
     a2a_json_mapping ''RCA model_metadata'' (entry_or (JObj []) ''model_metadata'' d),
     if_present ''created_at'' (a2a_timestamp from_iso ''RCA created_at'') d])"

definition validate_a2a_approval :: "iso_parser \<Rightarrow> json \<Rightarrow> content_error option" where
  "validate_a2a_approval from_iso v = (let d = entries_of_json v; scope = entry_or (JList []) ''scope'' d
   in first_error ([
     versioned_object A2A_APPROVAL_FIELDS [''approval_id'', ''request_id'', ''sequence'', ''incident_id'', ''report_id'',
       ''report_version'', ''subject_id'', ''idempotency_key''] ''approval'' v] @
     map (\<lambda>f. a2a_identifier (''approval '' @ f) (entry f d))
       [''approval_id'', ''request_id'', ''incident_id'', ''report_id'', ''subject_id'', ''idempotency_key''] @
     [a2a_integer ''approval sequence'' 0 None (entry ''sequence'' d),
     a2a_integer ''approval report_version'' 1 None (entry ''report_version'' d),
     a2a_text ''approval status'' 64 True (entry_or (JStr ''PENDING'') ''status'' d),
     a2a_text ''approval type'' 64 True (entry_or (JStr ''NETWORK_ACTION'') ''approval_type'' d),
     optional (a2a_sha256 ''approval action_hash'') (entry ''action_hash'' d),
     a2a_list ''approval scope'' None scope,
     first_error (map validate_a2a_resource (items_of_json scope))] @
     map (\<lambda>f. optional (a2a_identifier (''approval '' @ f)) (entry f d)) [''requested_by'', ''decided_by''] @
     [optional (a2a_text ''approval reason'' MAX_TEXT_CHARS True) (entry ''reason'' d),
     if_present ''requested_at'' (a2a_timestamp from_iso ''approval requested_at'') d] @
     map (\<lambda>f. optional (a2a_timestamp from_iso (''approval '' @ f)) (entry f d)) [''decided_at'', ''expires_at'']))"

definition validate_a2a_action_run :: "iso_parser \<Rightarrow> json \<Rightarrow> content_error option" where
  "validate_a2a_action_run from_iso v = (let d = entries_of_json v in first_error ([
     versioned_object A2A_ACTION_RUN_FIELDS [''action_run_id'', ''action_id''] ''action run'' v,
     a2a_identifier ''action_run_id'' (entry ''action_run_id'' d),
     optional (a2a_identifier ''action run incident_id'') (entry ''incident_id'' d),
     a2a_identifier ''action run action_id'' (entry ''action_id'' d),
     optional (a2a_sha256 ''action run action_hash'') (entry ''action_hash'' d),
     a2a_text ''action run status'' 64 True (entry_or (JStr ''PENDING'') ''status'' d),
     optional (a2a_identifier ''action run idempotency_key'') (entry ''idempotency_key'' d),
     a2a_integer ''action run attempt'' 1 None (entry_or (JInt 1) ''attempt'' d)] @
     map (\<lambda>f. optional (a2a_timestamp from_iso (''action run '' @ f)) (entry f d)) [''started_at'', ''finished_at''] @
     map (\<lambda>f. optional (a2a_text (''action run '' @ f) MAX_TEXT_CHARS True) (entry f d)) [''output_summary'', ''error''] @
     [a2a_json_mapping ''action run metadata'' (entry_or (JObj []) ''metadata'' d)]))"

definition validate_a2a_verification_run :: "iso_parser \<Rightarrow> json \<Rightarrow> content_error option" where
  "validate_a2a_verification_run from_iso v = (let d = entries_of_json v;
     kpis = entry_or (JList []) ''observed_kpis'' d; evidence = entry_or (JList []) ''evidence_refs'' d
   in first_error ([
     versioned_object A2A_VERIFICATION_RUN_FIELDS [''verification_id''] ''verification run'' v,
     a2a_identifier ''verification_id'' (entry ''verification_id'' d),
     optional (a2a_identifier ''verification incident_id'') (entry ''incident_id'' d),
     a2a_string_list ''verification action_run_ids'' None True (entry_or (JList []) ''action_run_ids'' d),
     a2a_text ''verification status'' 64 True (entry_or (JStr ''PENDING'') ''status'' d),
     a2a_string_list ''verification checks'' None False (entry_or (JList []) ''checks'' d),
     a2a_list ''verification observed_kpis'' None kpis,
     first_error (map (validate_a2a_kpi from_iso) (items_of_json kpis)),
     a2a_list ''verification evidence_refs'' None evidence,
     first_error (map (validate_a2a_evidence from_iso) (items_of_json evidence))] @
     map (\<lambda>f. optional (a2a_text (''verification '' @ f) MAX_TEXT_CHARS True) (entry f d)) [''summary'', ''error''] @
     map (\<lambda>f. optional (a2a_timestamp from_iso (''verification '' @ f)) (entry f d)) [''started_at'', ''finished_at''] @
     [a2a_json_mapping ''verification metadata'' (entry_or (JObj []) ''metadata'' d)]))"


text \<open>The instant of a timestamp that was checked before.\<close>

definition instant_at :: "iso_parser \<Rightarrow> string \<Rightarrow> json_object \<Rightarrow> instant option" where
  "instant_at from_iso key d = (case map_of d key of None \<Rightarrow> None
     | Some v \<Rightarrow> (case parse_utc_iso from_iso key v of Inl _ \<Rightarrow> None | Inr t \<Rightarrow> Some t))"

definition later :: "instant option \<Rightarrow> instant option \<Rightarrow> bool" where
  "later a b \<longleftrightarrow> (case (a, b) of (Some x, Some y) \<Rightarrow> x > y | _ \<Rightarrow> False)"

text \<open>The checks of a list field and of each of its items.\<close>

definition each_item :: "string \<Rightarrow> (json \<Rightarrow> content_error option) \<Rightarrow> json \<Rightarrow> content_error option" where
  "each_item label check v = first_error (a2a_list label None v # map check (items_of_json v))"

definition validate_a2a_incident :: "iso_parser \<Rightarrow> json \<Rightarrow> content_error option" where
  "validate_a2a_incident from_iso v = (let d = entries_of_json v; list = (\<lambda>key. entry_or (JList []) key d);
     text = (\<lambda>key preset. entry_or (JStr preset) key d) in first_error [
     versioned_object A2A_INCIDENT_FIELDS [''incident_id'', ''trace_id''] ''incident'' v,
     a2a_identifier ''incident_id'' (entry ''incident_id'' d),
     optional (a2a_identifier ''incident correlation_key'') (entry ''correlation_key'' d),
     a2a_string_list ''incident source_event_ids'' None True (list ''source_event_ids''),
     a2a_text ''incident technology'' 64 True (text ''technology'' ''UNKNOWN''),
     optional (a2a_text ''incident vendor_profile'' 1024 True) (entry ''vendor_profile'' d),
     a2a_text ''incident status'' 64 True (text ''status'' ''DETECTED''),
     a2a_text ''incident severity'' 64 True (text ''severity'' ''UNKNOWN''),
     a2a_text ''incident title'' MAX_TEXT_CHARS True (text ''title'' []),
     a2a_text ''incident description'' MAX_TEXT_CHARS True (text ''description'' []),
     each_item ''incident resources'' validate_a2a_resource (list ''affected_resources''),
     if_present ''detected_at'' (a2a_timestamp from_iso ''incident detected_at'') d,
     utc_pair from_iso ''incident'' None (entry ''window_start'' d) (entry ''window_end'' d),
     fail_if (later (instant_at from_iso ''window_end'' d) (instant_at from_iso ''detected_at'' d))
       (Content_error ''incident window_end is invalid''),
     each_item ''incident violated_kpis'' (validate_a2a_kpi from_iso) (list ''violated_kpis''),
     each_item ''incident evidence_refs'' (validate_a2a_evidence from_iso) (list ''evidence_refs''),
     a2a_string_list ''incident hypotheses'' None False (list ''hypotheses''),
     optional (a2a_text ''incident root_cause'' MAX_TEXT_CHARS True) (entry ''root_cause'' d),
     each_item ''incident rca_reports'' (validate_a2a_report from_iso) (list ''rca_reports''),
     each_item ''incident recommendations'' (validate_a2a_remediation from_iso) (list ''recommendations''),
     each_item ''incident approvals'' (validate_a2a_approval from_iso) (list ''approvals''),
     each_item ''incident action_runs'' (validate_a2a_action_run from_iso) (list ''action_runs''),
     each_item ''incident verification_runs'' (validate_a2a_verification_run from_iso) (list ''verification_runs''),
     a2a_json_mapping ''incident model_metadata'' (entry_or (JObj []) ''model_metadata'' d),
     a2a_string_mapping ''incident rule_versions'' (entry_or (JObj []) ''rule_versions'' d),
     a2a_identifier ''incident trace_id'' (entry ''trace_id'' d),
     optional (a2a_identifier ''incident duplicate_of'') (entry ''duplicate_of'' d),
     if_present ''created_at'' (a2a_timestamp from_iso ''incident created_at'') d,
     if_present ''updated_at'' (a2a_timestamp from_iso ''incident updated_at'') d,
     fail_if (later (instant_at from_iso ''created_at'' d) (instant_at from_iso ''updated_at'' d))
       (Content_error ''incident timeline is invalid''),
     a2a_integer ''incident revision'' 0 None (entry_or (JInt 0) ''revision'' d)])"

section \<open>Messages\<close>

definition py_split :: "char \<Rightarrow> string \<Rightarrow> string list" where
  "py_split sep s = foldr (\<lambda>c parts. if c = sep then [] # parts else (c # hd parts) # tl parts) s [[]]"

text \<open>\<open>isdecimal()\<close>: below code point 256 the ASCII digits are the only decimal characters.\<close>

definition canonical_component :: "string \<Rightarrow> bool" where
  "canonical_component s \<longleftrightarrow> s \<noteq> [] \<and> list_all digit_char s \<and> \<not> (length s > 1 \<and> hd s = CHR ''0'') \<and>
     digits_value s \<le> 268435455"

definition canonical_resource_id :: "string \<Rightarrow> content_error option" where
  "canonical_resource_id s = (let segments = py_split (CHR '':'') s in first_error [
     fail_if (length segments \<notin> {3, 5} \<or> take 2 segments \<noteq> [''lte'', ''enodeb''] \<or>
       (length segments = 5 \<and> segments ! 3 \<noteq> ''cell''))
       (Content_error ''scan resource_id is not canonical''),
     fail_if (\<not> list_all canonical_component (segments ! 2 # take 1 (drop 4 segments)))
       (Content_error ''scan resource_id is not canonical'')])"

definition text_of_json :: "json \<Rightarrow> string" where
  "text_of_json v = (case v of JStr s \<Rightarrow> s | _ \<Rightarrow> [])"

definition validate_scan_request :: "iso_parser \<Rightarrow> json_object \<Rightarrow> content_error option" where
  "validate_scan_request from_iso d = first_error ([
     utc_pair from_iso ''scan'' (Some 31) (entry ''window_start'' d) (entry ''window_end'' d),
     a2a_string_list ''scan resource_ids'' (Some 100) True (entry ''resource_ids'' d)] @
     map (canonical_resource_id \<circ> text_of_json) (items_of_json (entry ''resource_ids'' d)) @
     [a2a_integer ''scan page_size'' 1 (Some 20) (entry ''page_size'' d),
     a2a_integer ''scan page_offset'' 0 (Some 100) (entry ''page_offset'' d)])"

definition validate_candidate_page :: "iso_parser \<Rightarrow> json_object \<Rightarrow> content_error option" where
  "validate_candidate_page from_iso d = (let candidates = entry ''candidates'' d; challenge = entry ''challenge_id'' d;
     expires = entry ''challenge_expires_at'' d; present = (items_of_json candidates \<noteq> []) in first_error [
     a2a_identifier ''candidate request_message_id'' (entry ''request_message_id'' d),
     a2a_list ''candidates'' (Some 20) candidates,
     first_error (map (validate_candidate from_iso) (items_of_json candidates)),
     a2a_integer ''candidate page_size'' 1 (Some 20) (entry ''page_size'' d),
     a2a_integer ''candidate page_offset'' 0 (Some 100) (entry ''page_offset'' d),
     a2a_integer ''candidate total_candidates'' 0 (Some 100) (entry ''total_candidates'' d),
     (case entry ''has_more'' d of JBool _ \<Rightarrow> None | _ \<Rightarrow> Some (Content_error ''candidate has_more is invalid'')),
     optional (\<lambda>c. case c of JStr s \<Rightarrow> fail_if (\<not> (32 \<le> length s \<and> length s \<le> MAX_ID_CHARS))
         (Content_error ''candidate challenge_id is invalid'')
       | _ \<Rightarrow> Some (Content_error ''candidate challenge_id is invalid'')) challenge,
     a2a_sha256 ''candidate snapshot_sha256'' (entry ''snapshot_sha256'' d),
     optional (a2a_timestamp from_iso ''challenge_expires_at'') expires,
     fail_if (present \<noteq> (challenge \<noteq> JNull) \<or> present \<noteq> (expires \<noteq> JNull))
       (Content_error ''candidate challenge presence is invalid''),
     utc_pair from_iso ''effective_window'' (Some 31) (entry ''effective_window_start'' d) (entry ''effective_window_end'' d),
     a2a_text ''candidate page summary_zh'' MAX_TEXT_CHARS True (entry ''summary_zh'' d)])"

definition validate_confirmation_request :: "json_object \<Rightarrow> content_error option" where
  "validate_confirmation_request d = first_error [
     a2a_identifier ''preview_message_id'' (entry ''preview_message_id'' d),
     a2a_identifier ''candidate_id'' (entry ''candidate_id'' d),
     a2a_identifier ''challenge_id'' (entry ''challenge_id'' d),
     a2a_sha256 ''snapshot_sha256'' (entry ''snapshot_sha256'' d),
     fail_if (\<not> distinct (map (\<lambda>key. entry key d) [''preview_message_id'', ''candidate_id'', ''challenge_id'',
         ''snapshot_sha256'', ''message_id'', ''workflow_id'', ''trace_id'', ''idempotency_key'']))
       (Content_error ''confirmation identifiers must remain independent''),
     a2a_choice [''CONFIRM'', ''REJECT''] (Content_error ''confirmation decision is invalid'') (entry ''decision'' d),
     a2a_text ''confirmation reason'' MAX_TEXT_CHARS False (entry ''reason'' d)]"

definition validate_confirmation_result :: "iso_parser \<Rightarrow> json_object \<Rightarrow> content_error option" where
  "validate_confirmation_result from_iso d = (let outcome = entry ''outcome'' d; incident = entry ''incident'' d;
     error = Content_error ''confirmation result outcome is invalid'' in first_error (
     map (\<lambda>f. a2a_identifier (''confirmation result '' @ f) (entry f d))
       [''request_message_id'', ''preview_message_id'', ''candidate_id'', ''actor''] @
     [a2a_choice [''CONFIRM'', ''REJECT''] error (entry ''decision'' d),
     a2a_choice [''created'', ''correlated'', ''replayed'', ''rejected''] error outcome,
     (if entry ''decision'' d = JStr ''REJECT''
      then fail_if (outcome \<noteq> JStr ''rejected'' \<or> incident \<noteq> JNull)
        (Content_error ''rejected confirmation result is invalid'')
      else first_error [
        fail_if (outcome = JStr ''rejected'' \<or> incident = JNull)
          (Content_error ''confirmed confirmation result is invalid''),
        validate_a2a_incident from_iso incident]),
     a2a_text ''confirmation result summary_zh'' MAX_TEXT_CHARS True (entry ''summary_zh'' d)]))"

definition validate_analyze_request :: "json_object \<Rightarrow> content_error option" where
  "validate_analyze_request d = first_error [
     a2a_identifier ''analyze incident_id'' (entry ''incident_id'' d),
     a2a_integer ''requested_report_version'' 1 (Some 1000) (entry ''requested_report_version'' d)]"

definition validate_assurance_payload :: "iso_parser \<Rightarrow> json_object \<Rightarrow> content_error option" where
  "validate_assurance_payload from_iso d = (let ty = entry ''message_type'' d in
     if ty = JStr ''assurance_scan_request'' then validate_scan_request from_iso d
     else if ty = JStr ''assurance_candidate_page'' then validate_candidate_page from_iso d
     else if ty = JStr ''assurance_confirmation_request'' then validate_confirmation_request d
     else if ty = JStr ''assurance_confirmation_result'' then validate_confirmation_result from_iso d
     else if ty = JStr ''assurance_analyze_request'' then validate_analyze_request d
     else None)"


text \<open>\<open>json.loads(json.dumps(value, sort_keys=True))\<close>.\<close>

fun loaded :: "json \<Rightarrow> json" where
  "loaded (JObj kvs) = JObj (sort_key fst (map (\<lambda>(k, v). (k, loaded v)) kvs))"
| "loaded (JList vs) = JList (map loaded vs)"
| "loaded v = v"

text \<open>\<open>_payload_depth\<close>: a container met twice counts as a cycle, whether or not it is one.\<close>

function (sequential) strict_depth_loop :: "('i pynode \<times> nat) list \<Rightarrow> 'i list \<Rightarrow> nat \<Rightarrow> content_error + nat" where
  "strict_depth_loop [] seen maximum = Inr maximum"
| "strict_depth_loop ((current, depth) # stack) seen maximum =
     (let maximum = max maximum depth in
      if depth > MAX_CANONICAL_DEPTH then Inr depth
      else case node_children current of
        None \<Rightarrow> strict_depth_loop stack seen maximum
      | Some (i, nested) \<Rightarrow>
          if i \<in> set seen then Inl (Content_error ''canonical payload contains a cycle'')
          else strict_depth_loop (map (\<lambda>v. (v, depth + 1)) (rev nested) @ stack) (i # seen) maximum)"
  by pat_completeness auto
termination
proof (relation "measure (\<lambda>(st, seen, m). size_list (\<lambda>(v, d). size v) st)", goal_cases)
  case (3 current depth stack seen maximum maximum' p i nested)
  then have "node_children current = Some (i, nested)" by simp
  then have "size_list size nested < size current" by (rule node_children_size)
  moreover have "size_list (\<lambda>(v, d). size v) (map (\<lambda>v. (v, n)) (rev vs) @ st) =
      size_list size vs + size_list (\<lambda>(v, d). size v) st" for vs :: "'a pynode list" and n :: nat and st
    by (induction vs arbitrary: st) simp_all
  ultimately show ?case by simp
qed simp_all

definition a2a_payload_depth :: "json \<Rightarrow> content_error + nat" where
  "a2a_payload_depth v = strict_depth_loop [(node_of [] v, 1)] [] 1"

text \<open>\<open>str.isupper\<close> of one character below 256.\<close>

definition py_isupper :: "char \<Rightarrow> bool" where
  "py_isupper c = (let n = (of_char c :: nat) in (65 \<le> n \<and> n \<le> 90) \<or> (192 \<le> n \<and> n \<le> 222 \<and> n \<noteq> 215))"

definition error_code_ok :: "string \<Rightarrow> bool" where
  "error_code_ok s \<longleftrightarrow> 3 \<le> length s \<and> length s \<le> 64 \<and> py_isupper (hd s) \<and>
     list_all (\<lambda>c. c \<in> set ''ABCDEFGHIJKLMNOPQRSTUVWXYZ0123456789_'') s"

definition validate_error_message :: "json_object \<Rightarrow> content_error option" where
  "validate_error_message d = first_error [
     (case entry ''error_code'' d of JStr s \<Rightarrow> fail_if (\<not> error_code_ok s)
         (Content_error ''assurance_error has invalid error_code'')
       | _ \<Rightarrow> Some (Content_error ''assurance_error has invalid error_code'')),
     a2a_text ''assurance_error summary_zh'' 512 True (entry ''summary_zh'' d)]"

definition validate_required_text :: "json_object \<Rightarrow> string \<Rightarrow> content_error option" where
  "validate_required_text d name = (case entry name d of
     JStr s \<Rightarrow> first_error [
       fail_if (s = []) (Content_error (''canonical payload has invalid '' @ name)),
       fail_if (length s > (if name = ''sent_at'' then MAX_TEXT_CHARS else MAX_ID_CHARS))
         (Content_error (''canonical payload has oversized '' @ name))]
   | _ \<Rightarrow> Some (Content_error (''canonical payload has invalid '' @ name)))"

text \<open>The checks of a decoded object of a known message type.\<close>

definition validate_decoded :: "iso_parser \<Rightarrow> string \<Rightarrow> json_object \<Rightarrow> content_error option" where
  "validate_decoded from_iso ty d = (let is_error = (ty = ''assurance_error'') in first_error ([
     strict_object (A2A_MESSAGE_FIELDS ty) ty (JObj d),
     reject_sensitive_or_oversized_strings (JObj d),
     (if is_error then validate_error_message d else None)] @
     map (validate_required_text d)
       (if is_error then [''schema_version'', ''message_type'', ''message_id'', ''sent_at''] else A2A_COMMON_FIELDS) @
     [fail_if (entry ''schema_version'' d \<noteq> JStr ''1.0'') (Content_error ''unsupported schema_version''),
     a2a_timestamp from_iso ''sent_at'' (entry ''sent_at'' d)] @
     (if is_error then [] else [
       fail_if (\<not> distinct (map (\<lambda>key. entry key d) [''message_id'', ''workflow_id'', ''trace_id'', ''idempotency_key'']))
         (Content_error ''canonical correlation identifiers must remain independent''),
       validate_assurance_payload from_iso d])))"

definition canonical_data :: "iso_parser \<Rightarrow> json \<Rightarrow> content_error + json_object \<times> string" where
  "canonical_data from_iso value =
     (if \<not> is_object value then Inl (Content_error ''DataPart data must be an object'')
      else case a2a_payload_depth value of Inl e \<Rightarrow> Inl e
    | Inr depth \<Rightarrow>
     if depth > MAX_CANONICAL_DEPTH then Inl (Content_error ''canonical payload depth exceeds the limit'')
     else case json_dumps value of
       None \<Rightarrow> Inl (Content_error ''canonical payload is not JSON-safe'')
     | Some encoded \<Rightarrow>
       if utf8_length encoded > MAX_CANONICAL_BYTES
       then Inl (Content_error ''canonical payload size exceeds the limit'')
       else let d = entries_of_json (loaded value) in
         (case in_names A2A_ASSURANCE_MESSAGE_TYPES (entry ''message_type'' d) of
            Inl e \<Rightarrow> Inl e
          | Inr known \<Rightarrow>
            if \<not> known then Inl (Content_error ''unsupported assurance message_type'')
            else (case validate_decoded from_iso (text_of_json (entry ''message_type'' d)) d of
              Some e \<Rightarrow> Inl e
            | None \<Rightarrow> Inr (d, encoded))))"

end
