(* ===== verification/A2a_Parts.thy ===== *)
theory A2a_Parts
  imports A2a_Canonical Lab_Schema
begin

text \<open>
  What the Supervisor does with canonical payloads (\<open>agent/a2a_parts.py\<close>): decoding the parts of a
  message or artifact, and building the requests it sends itself, whose confirmations come from the
  server-held candidate page only.  The content of a message is its wire form, a JSON value; an SDK
  object is read by the same names.  The parameters are \<open>fresh\<close>, the hexadecimal text of the
  \<open>uuid4\<close> a call draws for each prefix, \<open>now\<close>, the instant of \<open>datetime.now(UTC)\<close>, \<open>json_loads\<close>,
  which is \<open>None\<close> when \<open>json.loads\<close> raises \<open>JSONDecodeError\<close> or \<open>RecursionError\<close>, and \<open>reason_text\<close>, the
  two Chinese sentences of a trusted decision, which are no texts of characters below 256.
\<close>

section \<open>Reading fields\<close>

fun first_present :: "string list \<Rightarrow> json_object \<Rightarrow> json option" where
  "first_present [] d = None"
| "first_present (n # ns) d = (case map_of d n of Some v \<Rightarrow> Some v | None \<Rightarrow> first_present ns d)"

definition a2a_field :: "string list \<Rightarrow> json \<Rightarrow> content_error + json" where
  "a2a_field names v = (case first_present names (entries_of_json v) of
     Some x \<Rightarrow> Inr x | None \<Rightarrow> Inl (Content_error (''missing required field '' @ hd names)))"

definition a2a_field_or :: "json \<Rightarrow> string list \<Rightarrow> json \<Rightarrow> json" where
  "a2a_field_or absent names v = (case first_present names (entries_of_json v) of Some x \<Rightarrow> x | None \<Rightarrow> absent)"

definition optional_string :: "string list \<Rightarrow> json \<Rightarrow> content_error + string option" where
  "optional_string names v = (case a2a_field_or JNull names v of
     JNull \<Rightarrow> Inr None
   | JStr s \<Rightarrow> if s = [] \<or> length s > MAX_ID_CHARS then Inl (Content_error (''invalid '' @ hd names)) else Inr (Some s)
   | _ \<Rightarrow> Inl (Content_error (''invalid '' @ hd names)))"

definition parts_of_content :: "json \<Rightarrow> content_error + json list" where
  "parts_of_content v = (case v of JList vs \<Rightarrow> Inr vs | _ \<Rightarrow> (case a2a_field [''parts''] v of
     Inl e \<Rightarrow> Inl e
   | Inr raw \<Rightarrow> (case raw of JList vs \<Rightarrow> Inr vs | _ \<Rightarrow> Inl (Content_error ''parts must be a sequence''))))"

definition part_root :: "json \<Rightarrow> json" where
  "part_root part = a2a_field_or part [''root''] part"

definition dashes_to_underscores :: "string \<Rightarrow> string" where
  "dashes_to_underscores = map (\<lambda>c. if c = CHR ''-'' then CHR ''_'' else c)"

definition part_kind :: "json \<Rightarrow> content_error + string" where
  "part_kind inner = (case a2a_field_or JNull [''kind'', ''type''] inner of
     JStr s \<Rightarrow> if s = [] then Inl (Content_error ''part kind is missing'') else Inr (dashes_to_underscores (py_lower s))
   | _ \<Rightarrow> Inl (Content_error ''part kind is missing''))"

definition bounded_text :: "json \<Rightarrow> content_error + string" where
  "bounded_text v = (case v of
     JStr s \<Rightarrow> if s = [] \<or> length s > MAX_TEXT_CHARS then Inl (Content_error ''TextPart length exceeds the limit'')
       else (case reject_sensitive_or_oversized_strings v of Some e \<Rightarrow> Inl e | None \<Rightarrow> Inr s)
   | _ \<Rightarrow> Inl (Content_error ''TextPart text must be a string''))"

definition bounded_text_part :: "json \<Rightarrow> content_error + string" where
  "bounded_text_part inner = (case a2a_field [''text''] inner of Inl e \<Rightarrow> Inl e | Inr v \<Rightarrow> bounded_text v)"

section \<open>Decoding parts\<close>

text \<open>A transport identifier that is present must be the expected one, when one is expected.\<close>

definition bound_identifier :: "string \<Rightarrow> string list \<Rightarrow> string option \<Rightarrow> json \<Rightarrow> content_error option" where
  "bound_identifier name names expected content = (case optional_string names content of
     Inl e \<Rightarrow> Some e
   | Inr transport \<Rightarrow> fail_if (expected \<noteq> None \<and> transport \<noteq> None \<and> transport \<noteq> expected)
       (Content_error (name @ '' identifier mismatch'')))"

definition assert_container_ids :: "json \<Rightarrow> string \<Rightarrow> string option \<Rightarrow> string option \<Rightarrow> string option \<Rightarrow> content_error option" where
  "assert_container_ids content data_message_id expected_message expected_task expected_context =
     (case optional_string [''message_id'', ''messageId''] content of Inl e \<Rightarrow> Some e
      | Inr transport \<Rightarrow> first_error [
          fail_if (transport \<noteq> None \<and> transport \<noteq> Some data_message_id) (Content_error ''message identifier mismatch''),
          fail_if (expected_message \<noteq> None \<and> expected_message \<noteq> Some data_message_id)
            (Content_error ''message identifier mismatch''),
          bound_identifier ''task'' [''task_id'', ''taskId''] expected_task content,
          bound_identifier ''context'' [''context_id'', ''contextId''] expected_context content])"

record canonical_content =
  content_data :: json_object
  content_text :: "string option"
  content_message_id :: string

text \<open>The loop over the parts collects the structured values and the texts, in order.\<close>

fun collect_parts :: "json list \<Rightarrow> json list \<times> string list \<Rightarrow> content_error + json list \<times> string list" where
  "collect_parts [] found = Inr found"
| "collect_parts (part # parts) (datas, texts) = (case part_kind (part_root part) of Inl e \<Rightarrow> Inl e
   | Inr kind \<Rightarrow>
       if kind = ''data'' then (case a2a_field [''data''] (part_root part) of Inl e \<Rightarrow> Inl e
         | Inr v \<Rightarrow> collect_parts parts (datas @ [v], texts))
       else if kind = ''text'' then (case bounded_text_part (part_root part) of Inl e \<Rightarrow> Inl e
         | Inr t \<Rightarrow> collect_parts parts (datas, texts @ [t]))
       else Inl (Content_error (''unsupported part kind: '' @ kind)))"

definition decode_canonical_parts :: "iso_parser \<Rightarrow> string option \<Rightarrow> string option \<Rightarrow> string option \<Rightarrow> json
    \<Rightarrow> content_error + canonical_content" where
  "decode_canonical_parts from_iso expected_message expected_task expected_context content =
     (case parts_of_content content of Inl e \<Rightarrow> Inl e
      | Inr raw \<Rightarrow>
      if length raw = 0 \<or> length raw > 2 then Inl (Content_error ''canonical content must contain one or two parts'')
      else case collect_parts raw ([], []) of Inl e \<Rightarrow> Inl e
      | Inr (datas, texts) \<Rightarrow>
      if length datas \<noteq> 1 \<or> length texts > 1
      then Inl (Content_error ''canonical content requires exactly one DataPart and at most one TextPart'')
      else case canonical_data from_iso (hd datas) of Inl e \<Rightarrow> Inl e
      | Inr (d, encoded) \<Rightarrow> (let message_id = text_of_json (entry ''message_id'' d) in
          case assert_container_ids content message_id expected_message expected_task expected_context of
            Some e \<Rightarrow> Inl e
          | None \<Rightarrow> Inr \<lparr>content_data = d, content_text = (case texts of [] \<Rightarrow> None | t # _ \<Rightarrow> Some t),
              content_message_id = message_id\<rparr>))"

definition decode_display_parts :: "string option \<Rightarrow> string option \<Rightarrow> json \<Rightarrow> content_error + string" where
  "decode_display_parts expected_task expected_context content = (case parts_of_content content of Inl e \<Rightarrow> Inl e
     | Inr raw \<Rightarrow>
     if length raw \<noteq> 1 then Inl (Content_error ''display content must contain exactly one TextPart'')
     else case part_kind (part_root (hd raw)) of Inl e \<Rightarrow> Inl e
     | Inr kind \<Rightarrow>
     if kind \<noteq> ''text'' then Inl (Content_error ''display content must be TextPart-only'')
     else case first_error [bound_identifier ''task'' [''task_id'', ''taskId''] expected_task content,
         bound_identifier ''context'' [''context_id'', ''contextId''] expected_context content] of
       Some e \<Rightarrow> Inl e
     | None \<Rightarrow> bounded_text_part (part_root (hd raw)))"

section \<open>Building requests\<close>

datatype build_error = Build_value string | Build_content content_error | Build_type string
  | Build_runtime string | Build_permission string

definition content_guard :: "content_error option \<Rightarrow> build_error option" where
  "content_guard = map_option Build_content"

definition content_unless :: "bool \<Rightarrow> string \<Rightarrow> build_error option" where
  "content_unless ok message = fail_if (\<not> ok) (Build_content (Content_error message))"

definition new_id :: "(string \<Rightarrow> string) \<Rightarrow> string \<Rightarrow> string" where
  "new_id fresh kind = kind @ ''-'' @ fresh kind"

text \<open>A time argument: \<open>None\<close>, a \<open>datetime\<close> without a zone, or an instant.\<close>

datatype time_arg = No_time | Naive_time | Aware_time instant

function (sequential) spell_z :: "string \<Rightarrow> string" where
  "spell_z [] = []"
| "spell_z (c # s) = (if take 6 (c # s) = ''+00:00'' then CHR ''Z'' # spell_z (drop 5 s) else c # spell_z s)"
  by pat_completeness auto
termination by (relation "measure length") auto

definition utc_text :: "instant \<Rightarrow> time_arg \<Rightarrow> build_error + string" where
  "utc_text now v = (case v of No_time \<Rightarrow> Inr (spell_z (iso_utc now))
     | Naive_time \<Rightarrow> Inl (Build_value ''timestamp must be timezone-aware'')
     | Aware_time t \<Rightarrow> Inr (spell_z (iso_utc t)))"

definition a2a_validate_window :: "iso_parser \<Rightarrow> json \<Rightarrow> json \<Rightarrow> string \<Rightarrow> content_error option" where
  "a2a_validate_window from_iso start_text end_text label =
     (case parse_utc_iso from_iso (label @ ''_window_start'') start_text of Inl e \<Rightarrow> Some e
      | Inr start \<Rightarrow> (case parse_utc_iso from_iso (label @ ''_window_end'') end_text of Inl e \<Rightarrow> Some e
      | Inr stop \<Rightarrow> first_error [
          fail_if (stop < start) (Content_error (label @ '' effective_window has invalid order'')),
          fail_if (stop - start > 31 * 86400000000) (Content_error (label @ '' window must not exceed 31 days''))]))"

text \<open>\<open>except A2AContentError as exc: raise ValueError(str(exc))\<close>.\<close>

definition as_value_error :: "content_error \<Rightarrow> build_error" where
  "as_value_error e = (case e of Content_error s \<Rightarrow> Build_value s | Unhashable_error \<Rightarrow> Build_content e)"

definition json_of_option :: "string option \<Rightarrow> json" where
  "json_of_option v = (case v of None \<Rightarrow> JNull | Some s \<Rightarrow> JStr s)"

record scan_request =
  scan_data :: json_object
  a2a_context_id :: string

definition scan_request_data :: "(string \<Rightarrow> string) \<Rightarrow> string \<Rightarrow> string option \<Rightarrow> string option \<Rightarrow> json_object" where
  "scan_request_data fresh sent start_text end_text = [
     (''schema_version'', JStr ''1.0''),
     (''message_type'', JStr ''assurance_scan_request''),
     (''message_id'', JStr (new_id fresh ''message'')),
     (''workflow_id'', JStr (new_id fresh ''workflow'')),
     (''trace_id'', JStr (new_id fresh ''trace'')),
     (''idempotency_key'', JStr (new_id fresh ''scan'')),
     (''sent_at'', JStr sent),
     (''window_start'', json_of_option start_text),
     (''window_end'', json_of_option end_text),
     (''resource_ids'', JList []),
     (''page_size'', JInt 1),
     (''page_offset'', JInt 0)]"

definition build_assurance_scan_request :: "iso_parser \<Rightarrow> (string \<Rightarrow> string) \<Rightarrow> instant \<Rightarrow> time_arg \<Rightarrow> string option
    \<Rightarrow> string option \<Rightarrow> build_error + scan_request" where
  "build_assurance_scan_request from_iso fresh now sent_at start_text end_text =
     (case first_error [
        fail_if ((start_text = None) \<noteq> (end_text = None))
          (Build_value ''window_start and window_end must both be null or both set''),
        (if start_text = None then None else map_option as_value_error
          (a2a_validate_window from_iso (json_of_option start_text) (json_of_option end_text) ''scan''))] of
        Some e \<Rightarrow> Inl e
      | None \<Rightarrow> (case utc_text now sent_at of Inl e \<Rightarrow> Inl e
        | Inr sent \<Rightarrow>
          if \<not> distinct (map (new_id fresh) [''message'', ''workflow'', ''trace'', ''scan'', ''context''])
          then Inl (Build_runtime ''generated identifiers are not independent'')
          else Inr \<lparr>scan_data = scan_request_data fresh sent start_text end_text,
                 a2a_context_id = new_id fresh ''context''\<rparr>))"

section \<open>Confirmations\<close>

text \<open>The identifiers a confirmation takes from the page, each a text of at most \<open>MAX_ID_CHARS\<close> characters.\<close>

definition page_identifier :: "string \<Rightarrow> json \<Rightarrow> build_error option" where
  "page_identifier name v = (case v of
     JStr s \<Rightarrow> content_unless (s \<noteq> [] \<and> length s \<le> MAX_ID_CHARS) (''pending candidate page has invalid '' @ name)
   | _ \<Rightarrow> content_unless False (''pending candidate page has invalid '' @ name))"

definition required_of_page :: "json_object \<Rightarrow> json_object \<Rightarrow> json_object" where
  "required_of_page pg candidate =
     map (\<lambda>key. (key, entry key pg)) [''message_id'', ''request_message_id'', ''workflow_id'', ''trace_id'',
       ''challenge_id'', ''snapshot_sha256''] @
     [(''candidate_id'', entry ''candidate_id'' candidate)] @
     map (\<lambda>key. (key, entry key pg)) [''effective_window_start'', ''effective_window_end'', ''challenge_expires_at'']"

definition is_int_instance :: "json \<Rightarrow> bool" where
  "is_int_instance v = (case v of JInt _ \<Rightarrow> True | JBool _ \<Rightarrow> True | _ \<Rightarrow> False)"

definition is_bool :: "json \<Rightarrow> bool" where
  "is_bool v = (case v of JBool _ \<Rightarrow> True | _ \<Rightarrow> False)"

text \<open>The number a bool or an integer is.\<close>

definition int_of_json :: "json \<Rightarrow> int" where
  "int_of_json v = (case v of JInt i \<Rightarrow> i | JBool b \<Rightarrow> if b then 1 else 0 | _ \<Rightarrow> 0)"

text \<open>\<open>bool(value)\<close>, and \<open>value or _new_id(prefix)\<close>.\<close>

definition falsy :: "json \<Rightarrow> bool" where
  "falsy v \<longleftrightarrow> v \<in> {JNull, JBool False, JStr [], JList [], JObj []} \<or> number_of_json v = Some 0"

definition given_or_new :: "(string \<Rightarrow> string) \<Rightarrow> string \<Rightarrow> json \<Rightarrow> json" where
  "given_or_new fresh kind v = (if falsy v then JStr (new_id fresh kind) else v)"

definition hashable :: "json \<Rightarrow> bool" where
  "hashable v = (case v of JList _ \<Rightarrow> False | JObj _ \<Rightarrow> False | _ \<Rightarrow> True)"

definition check_expiry :: "iso_parser \<Rightarrow> json_object \<Rightarrow> content_error option" where
  "check_expiry from_iso pg =
     (case parse_utc_iso from_iso ''challenge_expires_at'' (entry ''challenge_expires_at'' pg) of Inl e \<Rightarrow> Some e
      | Inr expires \<Rightarrow> (case parse_utc_iso from_iso ''sent_at'' (entry ''sent_at'' pg) of Inl e \<Rightarrow> Some e
      | Inr sent \<Rightarrow> fail_if (expires \<le> sent) (Content_error ''pending candidate challenge is already expired'')))"

definition confirmation_of :: "json_object \<Rightarrow> bool \<Rightarrow> string \<Rightarrow> json \<Rightarrow> json \<Rightarrow> string \<Rightarrow> json_object" where
  "confirmation_of required approved reason message_id key sent = [
     (''schema_version'', JStr ''1.0''),
     (''message_type'', JStr ''assurance_confirmation_request''),
     (''message_id'', message_id),
     (''workflow_id'', entry ''workflow_id'' required),
     (''trace_id'', entry ''trace_id'' required),
     (''idempotency_key'', key),
     (''sent_at'', JStr sent),
     (''preview_message_id'', entry ''message_id'' required),
     (''candidate_id'', entry ''candidate_id'' required),
     (''challenge_id'', entry ''challenge_id'' required),
     (''snapshot_sha256'', entry ''snapshot_sha256'' required),
     (''decision'', JStr (if approved then ''CONFIRM'' else ''REJECT'')),
     (''reason'', JStr (py_strip reason))]"

text \<open>The checks of the server-held page before a confirmation is built from it.\<close>

definition check_pending_page :: "iso_parser \<Rightarrow> json_object \<Rightarrow> build_error option" where
  "check_pending_page from_iso pg = (let candidates = items_of_json (entry ''candidates'' pg);
     required = required_of_page pg (entries_of_json (hd candidates)) in first_error ([
     content_unless (entry ''message_type'' pg = JStr ''assurance_candidate_page'')
       ''pending content is not an assurance candidate page'',
     content_unless (length candidates = 1) ''pending candidate page must contain exactly one candidate'',
     content_unless (is_object (hd candidates)) ''pending candidate is invalid''] @
     map (\<lambda>(name, v). page_identifier name v) required @
     [content_unless (lower_hex_digest (text_of_json (entry ''snapshot_sha256'' required)))
       ''pending candidate page has invalid snapshot_sha256'',
     content_unless (length (text_of_json (entry ''challenge_id'' required)) \<ge> 32)
       ''pending candidate page has invalid challenge_id'',
     content_guard (a2a_validate_window from_iso (entry ''effective_window_start'' required)
       (entry ''effective_window_end'' required) ''effective''),
     content_guard (check_expiry from_iso pg),
     content_unless (entry ''page_size'' pg = JInt 1 \<and> is_int_instance (entry ''page_offset'' pg) \<and>
         is_int_instance (entry ''total_candidates'' pg) \<and> int_of_json (entry ''total_candidates'' pg) \<ge> 1 \<and>
         is_bool (entry ''has_more'' pg)) ''pending candidate page metadata is invalid'']))"

definition check_confirmation :: "json_object \<Rightarrow> json_object \<Rightarrow> build_error option" where
  "check_confirmation pg result = first_error [
     content_unless (entry ''message_id'' result \<noteq> entry ''message_id'' pg)
       ''confirmation message_id must differ from preview'',
     content_unless (entry ''idempotency_key'' result \<noteq> entry ''idempotency_key'' pg)
       ''confirmation idempotency key must differ from preview'',
     fail_if (\<not> hashable (entry ''message_id'' result) \<or> \<not> hashable (entry ''idempotency_key'' result))
       (Build_type ''unhashable type''),
     content_unless (distinct (map (\<lambda>key. entry key result) [''message_id'', ''workflow_id'', ''trace_id'', ''idempotency_key'']))
       ''confirmation correlation identifiers must remain independent'']"

definition build_assurance_confirmation_request :: "iso_parser \<Rightarrow> (string \<Rightarrow> string) \<Rightarrow> instant \<Rightarrow> json \<Rightarrow> json \<Rightarrow> json
    \<Rightarrow> time_arg \<Rightarrow> json \<Rightarrow> json \<Rightarrow> build_error + json_object" where
  "build_assurance_confirmation_request from_iso fresh now candidate_page approved reason sent_at message_id key =
     (case (approved, reason) of
        (JBool approved, JStr reason) \<Rightarrow>
          if py_strip reason = [] \<or> length reason > 1024
          then Inl (Build_content (Content_error ''confirmation reason is invalid''))
          else (case canonical_data from_iso candidate_page of Inl e \<Rightarrow> Inl (Build_content e)
          | Inr (pg, _) \<Rightarrow> (case check_pending_page from_iso pg of Some e \<Rightarrow> Inl e
          | None \<Rightarrow> (case utc_text now sent_at of Inl e \<Rightarrow> Inl e
          | Inr sent \<Rightarrow> (let candidate = entries_of_json (hd (items_of_json (entry ''candidates'' pg)));
              result = confirmation_of (required_of_page pg candidate) approved reason
                (given_or_new fresh ''message'' message_id) (given_or_new fresh ''confirm'' key) sent in
            case check_confirmation pg result of Some e \<Rightarrow> Inl e
          | None \<Rightarrow> (case canonical_data from_iso (JObj result) of Inl e \<Rightarrow> Inl (Build_content e)
            | Inr (d, _) \<Rightarrow> Inr d)))))
      | (JBool _, _) \<Rightarrow> Inl (Build_content (Content_error ''confirmation reason is invalid''))
      | _ \<Rightarrow> Inl (Build_type ''approved must be a boolean''))"

definition validate_empty_assurance_candidate_page :: "iso_parser \<Rightarrow> json \<Rightarrow> content_error + json_object" where
  "validate_empty_assurance_candidate_page from_iso candidate_page =
     (case canonical_data from_iso candidate_page of Inl e \<Rightarrow> Inl e
      | Inr (d, _) \<Rightarrow> (case first_error [
          fail_if (entry ''message_type'' d \<noteq> JStr ''assurance_candidate_page'')
            (Content_error ''completed scan artifact is not a candidate page''),
          (case entry ''request_message_id'' d of
             JStr s \<Rightarrow> fail_if (s = [] \<or> length s > MAX_ID_CHARS)
               (Content_error ''empty candidate page has invalid request_message_id'')
           | _ \<Rightarrow> Some (Content_error ''empty candidate page has invalid request_message_id'')),
          fail_if (entry ''candidates'' d \<noteq> JList [] \<or> entry ''challenge_id'' d \<noteq> JNull \<or>
              entry ''challenge_expires_at'' d \<noteq> JNull)
            (Content_error ''empty candidate page must not contain a challenge''),
          fail_if (entry ''page_size'' d \<noteq> JInt 1 \<or> entry ''page_offset'' d \<noteq> JInt 0 \<or>
              entry ''total_candidates'' d \<noteq> JInt 0 \<or> entry ''has_more'' d \<noteq> JBool False)
            (Content_error ''empty candidate page metadata is invalid''),
          (case entry ''snapshot_sha256'' d of
             JStr s \<Rightarrow> fail_if (\<not> lower_hex_digest s)
               (Content_error ''empty candidate page has invalid snapshot_sha256'')
           | _ \<Rightarrow> Some (Content_error ''empty candidate page has invalid snapshot_sha256'')),
          a2a_validate_window from_iso (entry ''effective_window_start'' d) (entry ''effective_window_end'' d) ''effective''] of
        Some e \<Rightarrow> Inl e | None \<Rightarrow> Inr d))"

section \<open>Trusted decisions\<close>

definition parse_trusted_approval :: "(string \<Rightarrow> json option) \<Rightarrow> json \<Rightarrow> content_error + bool" where
  "parse_trusted_approval json_loads content = (let invalid_result = Content_error ''approval result is invalid'' in
     case content of
     JStr s \<Rightarrow> if utf8_length s > 16384 then Inl invalid_result
       else (case json_loads s of None \<Rightarrow> Inl invalid_result
       | Some payload \<Rightarrow> (let d = entries_of_json payload; tasks = entry ''tasks'' d in
         if \<not> is_object payload \<or> fst ` set d \<noteq> {''approved'', ''timestamp'', ''tasks''}
         then Inl (Content_error ''approval result shape is invalid'')
         else (case entry ''approved'' d of
           JBool approved \<Rightarrow> (case first_error [
               (case entry ''timestamp'' d of
                  JStr t \<Rightarrow> fail_if (t = [] \<or> length t > 128) (Content_error ''approval timestamp is invalid'')
                | _ \<Rightarrow> Some (Content_error ''approval timestamp is invalid'')),
               (case tasks of
                  JList vs \<Rightarrow> fail_if (length vs > 20 \<or> \<not> list_all is_object vs)
                    (Content_error ''approval task list is invalid'')
                | _ \<Rightarrow> Some (Content_error ''approval task list is invalid''))] of
             Some e \<Rightarrow> Inl e | None \<Rightarrow> Inr approved)
         | _ \<Rightarrow> Inl (Content_error ''approval decision must be a boolean''))))
   | _ \<Rightarrow> Inl invalid_result)"

record trusted_decision =
  decision_tool_call_id :: string
  decision_approved :: bool
  confirmation_data :: json_object

definition build_trusted_assurance_decision :: "iso_parser \<Rightarrow> (string \<Rightarrow> json option) \<Rightarrow> (bool \<Rightarrow> string)
    \<Rightarrow> (string \<Rightarrow> string) \<Rightarrow> instant \<Rightarrow> json \<Rightarrow> json \<Rightarrow> json \<Rightarrow> json \<Rightarrow> build_error + trusted_decision" where
  "build_trusted_assurance_decision from_iso json_loads reason_text fresh now candidate_page tool_call_id tool_name content =
     (if tool_name \<noteq> JStr ''requestTaskApproval''
      then Inl (Build_permission ''Assurance decision is not from the approval tool'')
      else case a2a_text [] (MAX_ID_CHARS * 2 + 2) False tool_call_id of
        Some _ \<Rightarrow> Inl (Build_permission ''approval tool call identifier is invalid'')
      | None \<Rightarrow> (case parse_trusted_approval json_loads content of Inl e \<Rightarrow> Inl (Build_content e)
      | Inr approved \<Rightarrow> (case build_assurance_confirmation_request from_iso fresh now candidate_page (JBool approved)
            (JStr (reason_text approved)) No_time JNull JNull of Inl e \<Rightarrow> Inl e
      | Inr confirmation \<Rightarrow> Inr \<lparr>decision_tool_call_id = text_of_json tool_call_id, decision_approved = approved,
          confirmation_data = confirmation\<rparr>)))"

text \<open>\<open>text.count("::")\<close> and \<open>text.split("::", 1)\<close>.\<close>

fun count_separators :: "string \<Rightarrow> nat" where
  "count_separators (a # b # s) = (if a = CHR '':'' \<and> b = CHR '':'' then Suc (count_separators s)
     else count_separators (b # s))"
| "count_separators _ = 0"

fun split_separator :: "string \<Rightarrow> string \<times> string" where
  "split_separator (a # b # s) = (if a = CHR '':'' \<and> b = CHR '':'' then ([], s)
     else (case split_separator (b # s) of (before, after) \<Rightarrow> (a # before, after)))"
| "split_separator s = (s, [])"

definition tool_call_thread_id :: "json \<Rightarrow> string \<Rightarrow> build_error + string" where
  "tool_call_thread_id tool_call_id expected_thread_id = (case tool_call_id of
     JStr s \<Rightarrow> if length s > MAX_ID_CHARS * 2 + 2 \<or> count_separators s \<noteq> 1
       then Inl (Build_permission ''tool call is not bound to exactly one thread'')
       else (case split_separator s of (original_id, thread_id) \<Rightarrow>
         if original_id = [] \<or> thread_id = [] \<or> thread_id \<noteq> expected_thread_id
         then Inl (Build_permission ''tool call is bound to another thread'') else Inr thread_id)
   | _ \<Rightarrow> Inl (Build_permission ''tool call is not bound to exactly one thread''))"

end
