(* ===== verification/A2a_Stream.thy ===== *)
theory A2a_Stream
  imports A2a_Parts Rca_Ranking
begin

text \<open>
  The two stateful objects of the Supervisor's A2A boundary (\<open>agent/a2a_parts.py\<close>):
  \<open>RemoteStreamStateMachine\<close>, which follows the events of one remote task, and \<open>UiThreadOwnership\<close>,
  which binds UI threads to socket sessions.  Every method returns the exception it raises, if any, and
  the object as it leaves it, changed before the exception or not.  An argument of any type is a JSON
  value; the lock of the ownership object makes every method atomic.
\<close>

section \<open>The stream machine\<close>

definition TERMINAL_STREAM_STATES :: "string list" where
  "TERMINAL_STREAM_STATES = [''input_required'', ''completed'', ''failed'', ''canceled'', ''rejected'']"

definition KNOWN_STREAM_STATES :: "string list" where
  "KNOWN_STREAM_STATES = TERMINAL_STREAM_STATES @ [''submitted'', ''working'']"

datatype stream_error = Stream_error string

text \<open>A state argument: a text or an enumeration member with a text as value, or anything else.\<close>

datatype state_arg = State_text string | State_other

definition spelled_state :: "string \<Rightarrow> string" where
  "spelled_state s = dashes_to_underscores (py_lower s)"

definition normalized_state :: "state_arg \<Rightarrow> stream_error + string" where
  "normalized_state v = (case v of
     State_other \<Rightarrow> Inl (Stream_error ''unknown task state'')
   | State_text raw \<Rightarrow> let n = spelled_state raw;
         n = (if take 10 n = ''taskstate.'' then drop 10 n else n) in
       if n \<in> set KNOWN_STREAM_STATES then Inr n else Inl (Stream_error ''unknown task state''))"

definition stream_id :: "string \<Rightarrow> json \<Rightarrow> stream_error + string" where
  "stream_id name v = (case v of
     JStr s \<Rightarrow> if s = [] \<or> length s > MAX_ID_CHARS then Inl (Stream_error (''invalid '' @ name @ '' identifier'')) else Inr s
   | _ \<Rightarrow> Inl (Stream_error (''invalid '' @ name @ '' identifier'')))"

record 'c stream_machine =
  sm_task_id :: "string option"
  sm_context_id :: "string option"
  sm_state :: "string option"
  sm_content :: "'c option"
  sm_finished :: bool

text \<open>The constructor; an empty or absent starting state is none.\<close>

definition optional_id :: "string \<Rightarrow> json option \<Rightarrow> stream_error + string option" where
  "optional_id name v = (case v of None \<Rightarrow> Inr None
     | Some x \<Rightarrow> (case stream_id name x of Inl e \<Rightarrow> Inl e | Inr s \<Rightarrow> Inr (Some s)))"

definition new_stream_machine :: "json option \<Rightarrow> json option \<Rightarrow> state_arg option \<Rightarrow> stream_error + 'c stream_machine" where
  "new_stream_machine expected_task expected_context starting =
     (case optional_id ''task'' expected_task of Inl e \<Rightarrow> Inl e
      | Inr task \<Rightarrow> (case optional_id ''context'' expected_context of Inl e \<Rightarrow> Inl e
      | Inr ctx \<Rightarrow> (case starting of
          None \<Rightarrow> Inr \<lparr>sm_task_id = task, sm_context_id = ctx, sm_state = None, sm_content = None, sm_finished = False\<rparr>
        | Some st \<Rightarrow> if st = State_text [] then Inr \<lparr>sm_task_id = task, sm_context_id = ctx, sm_state = None,
              sm_content = None, sm_finished = False\<rparr>
            else (case normalized_state st of Inl e \<Rightarrow> Inl e
              | Inr n \<Rightarrow> Inr \<lparr>sm_task_id = task, sm_context_id = ctx, sm_state = Some n, sm_content = None,
                  sm_finished = False\<rparr>))))"

definition bind_stream :: "json \<Rightarrow> json \<Rightarrow> 'c stream_machine \<Rightarrow> stream_error option \<times> 'c stream_machine" where
  "bind_stream task_id context_id m =
     (case stream_id ''task'' task_id of Inl e \<Rightarrow> (Some e, m)
      | Inr task \<Rightarrow> (case stream_id ''context'' context_id of Inl e \<Rightarrow> (Some e, m)
      | Inr ctx \<Rightarrow>
          if sm_task_id m \<noteq> None \<and> sm_task_id m \<noteq> Some task then (Some (Stream_error ''task identifier mismatch''), m)
          else if sm_context_id m \<noteq> None \<and> sm_context_id m \<noteq> Some ctx
          then (Some (Stream_error ''context identifier mismatch''), m)
          else (None, m\<lparr>sm_task_id := Some task, sm_context_id := Some ctx\<rparr>)))"

definition observe_task :: "json \<Rightarrow> json \<Rightarrow> state_arg \<Rightarrow> 'c stream_machine \<Rightarrow> stream_error option \<times> 'c stream_machine" where
  "observe_task task_id context_id state m =
     (if sm_finished m \<or> sm_state m \<noteq> None then (Some (Stream_error ''duplicate or out-of-order Task''), m)
      else case bind_stream task_id context_id m of (Some e, m) \<Rightarrow> (Some e, m)
      | (None, m) \<Rightarrow> (case normalized_state state of Inl e \<Rightarrow> (Some e, m)
        | Inr n \<Rightarrow> if n \<noteq> ''submitted'' then (Some (Stream_error ''initial Task must be submitted''), m)
            else (None, m\<lparr>sm_state := Some n\<rparr>)))"

definition keep_content :: "'c option \<Rightarrow> 'c stream_machine \<Rightarrow> 'c stream_machine" where
  "keep_content content m = (case content of None \<Rightarrow> m | Some c \<Rightarrow> m\<lparr>sm_content := Some c\<rparr>)"

definition observe_artifact :: "json \<Rightarrow> json \<Rightarrow> 'c option \<Rightarrow> 'c stream_machine \<Rightarrow> stream_error option \<times> 'c stream_machine" where
  "observe_artifact task_id context_id content m =
     (if sm_finished m \<or> sm_state m = None then (Some (Stream_error ''artifact arrived outside an active task''), m)
      else case bind_stream task_id context_id m of (Some e, m) \<Rightarrow> (Some e, m)
      | (None, m) \<Rightarrow>
          if the (sm_state m) \<notin> {''working'', ''input_required''}
          then (Some (Stream_error ''artifact arrived in an invalid task state''), m)
          else (None, keep_content content m))"

definition observe_status :: "json \<Rightarrow> json \<Rightarrow> state_arg \<Rightarrow> bool \<Rightarrow> 'c option \<Rightarrow> 'c stream_machine
    \<Rightarrow> stream_error option \<times> 'c stream_machine" where
  "observe_status task_id context_id state final content m =
     (if sm_finished m \<or> sm_state m = None then (Some (Stream_error ''status arrived outside an active task''), m)
      else case bind_stream task_id context_id m of (Some e, m) \<Rightarrow> (Some e, m)
      | (None, m) \<Rightarrow> (case normalized_state state of Inl e \<Rightarrow> (Some e, m)
        | Inr n \<Rightarrow> let open = the (sm_state m) \<in> {''submitted'', ''working'', ''input_required''} in
            if n = ''submitted'' then (Some (Stream_error ''duplicate submitted status''), m)
            else if n = ''working'' then
              (if final \<or> \<not> open then (Some (Stream_error ''invalid working status transition''), m)
               else (None, keep_content content m\<lparr>sm_state := Some n\<rparr>))
            else if n \<in> set TERMINAL_STREAM_STATES then
              (if \<not> final then (Some (Stream_error ''terminal or interrupt status must be final''), m)
               else if \<not> open then (Some (Stream_error ''invalid terminal status transition''), m)
               else (None, keep_content content (m\<lparr>sm_finished := True\<rparr>)\<lparr>sm_state := Some n\<rparr>))
            else (None, keep_content content m\<lparr>sm_state := Some n\<rparr>)))"

record 'c stream_outcome =
  out_state :: string
  out_task_id :: string
  out_context_id :: string
  out_content :: "'c option"
  out_text :: "string option"

definition finish_stream :: "string option \<Rightarrow> 'c stream_machine \<Rightarrow> stream_error + 'c stream_outcome" where
  "finish_stream text m = (case (sm_state m, sm_task_id m, sm_context_id m) of
     (Some st, Some task, Some ctx) \<Rightarrow>
       if \<not> sm_finished m \<or> st \<notin> set TERMINAL_STREAM_STATES
       then Inl (Stream_error ''unexpected EOF before an explicit final status'')
       else Inr \<lparr>out_state = st, out_task_id = task, out_context_id = ctx, out_content = sm_content m, out_text = text\<rparr>
   | _ \<Rightarrow> Inl (Stream_error ''unexpected EOF before an explicit final status''))"

section \<open>Runs of a stream\<close>

datatype 'c stream_event =
    Task_event json json state_arg
  | Artifact_event json json "'c option"
  | Status_event json json state_arg bool "'c option"

fun observe :: "'c stream_event \<Rightarrow> 'c stream_machine \<Rightarrow> stream_error option \<times> 'c stream_machine" where
  "observe (Task_event t c s) m = observe_task t c s m"
| "observe (Artifact_event t c x) m = observe_artifact t c x m"
| "observe (Status_event t c s final x) m = observe_status t c s final x m"

fun observe_all :: "'c stream_event list \<Rightarrow> 'c stream_machine \<Rightarrow> stream_error option \<times> 'c stream_machine" where
  "observe_all [] m = (None, m)"
| "observe_all (e # es) m = (case observe e m of (Some x, m) \<Rightarrow> (Some x, m) | (None, m) \<Rightarrow> observe_all es m)"

section \<open>Thread ownership\<close>

datatype permission_error = Permission_error string

record ui_threads =
  thread_to_sid :: "(string, string) dict"
  sid_to_threads :: "(string, string list) dict"

definition empty_ui_threads :: ui_threads where
  "empty_ui_threads = \<lparr>thread_to_sid = [], sid_to_threads = []\<rparr>"

definition ui_identifier :: "string \<Rightarrow> json \<Rightarrow> permission_error + string" where
  "ui_identifier name v = (case v of
     JStr s \<Rightarrow> if s = [] \<or> length s > MAX_ID_CHARS then Inl (Permission_error (''invalid '' @ name)) else Inr s
   | _ \<Rightarrow> Inl (Permission_error (''invalid '' @ name)))"

text \<open>Both identifiers of a call, the thread's first.\<close>

definition ui_identifiers :: "json \<Rightarrow> json \<Rightarrow> permission_error + string \<times> string" where
  "ui_identifiers thread_id sid = (case ui_identifier ''thread_id'' thread_id of Inl e \<Rightarrow> Inl e
     | Inr thread \<Rightarrow> (case ui_identifier ''socket session'' sid of Inl e \<Rightarrow> Inl e | Inr s \<Rightarrow> Inr (thread, s)))"

definition ui_bind :: "json \<Rightarrow> json \<Rightarrow> ui_threads \<Rightarrow> permission_error option \<times> ui_threads" where
  "ui_bind thread_id sid u = (case ui_identifiers thread_id sid of Inl e \<Rightarrow> (Some e, u)
     | Inr (thread, s) \<Rightarrow>
         if map_of (thread_to_sid u) thread \<noteq> None \<and> map_of (thread_to_sid u) thread \<noteq> Some s
         then (Some (Permission_error ''thread is owned by another socket session''), u)
         else (None, u\<lparr>thread_to_sid := AList.update thread s (thread_to_sid u),
           sid_to_threads := AList.update s (List.insert thread (get_or_empty s (sid_to_threads u))) (sid_to_threads u)\<rparr>))"

definition ui_require_owner :: "json \<Rightarrow> json \<Rightarrow> ui_threads \<Rightarrow> permission_error option" where
  "ui_require_owner thread_id sid u = (case ui_identifiers thread_id sid of Inl e \<Rightarrow> Some e
     | Inr (thread, s) \<Rightarrow> fail_if (map_of (thread_to_sid u) thread \<noteq> Some s)
         (Permission_error ''socket session does not own the thread''))"

definition ui_sid_for :: "json \<Rightarrow> ui_threads \<Rightarrow> permission_error + string" where
  "ui_sid_for thread_id u = (case ui_identifier ''thread_id'' thread_id of Inl e \<Rightarrow> Inl e
     | Inr thread \<Rightarrow> (case map_of (thread_to_sid u) thread of
         None \<Rightarrow> Inl (Permission_error ''thread has no socket owner'') | Some s \<Rightarrow> Inr s))"

text \<open>The loop deletes the threads of a session that are still its own.\<close>

definition ui_release :: "string \<Rightarrow> (string, string) dict \<Rightarrow> string \<Rightarrow> (string, string) dict" where
  "ui_release s d thread = (if map_of d thread = Some s then AList.delete thread d else d)"

definition ui_remove_sid :: "json \<Rightarrow> ui_threads \<Rightarrow> (permission_error + string list) \<times> ui_threads" where
  "ui_remove_sid sid u = (case ui_identifier ''socket session'' sid of Inl e \<Rightarrow> (Inl e, u)
     | Inr s \<Rightarrow> let threads = sort (get_or_empty s (sid_to_threads u)) in
         (Inr threads, u\<lparr>thread_to_sid := foldl (ui_release s) (thread_to_sid u) threads,
           sid_to_threads := AList.delete s (sid_to_threads u)\<rparr>))"

end
