(* ===== verification/A2a_Ownership.thy ===== *)
theory A2a_Ownership
  imports A2a_Stream
begin

text \<open>
  \<open>UiThreadOwnership\<close> implements one partial map from threads to socket sessions: whatever calls are made
  in whatever order, its two dictionaries answer as the map does.
\<close>

section \<open>Objects that implement a specification\<close>

text \<open>An object, its specification over another state, and an invariant under which they answer alike.\<close>

fun answers :: "('c \<Rightarrow> 's \<Rightarrow> 'a \<times> 's) \<Rightarrow> 'c list \<Rightarrow> 's \<Rightarrow> 'a list \<times> 's" where
  "answers step [] s = ([], s)"
| "answers step (c # cs) s = (case step c s of (a, s') \<Rightarrow> (case answers step cs s' of (as, t) \<Rightarrow> (a # as, t)))"

locale implements =
  fixes step :: "'c \<Rightarrow> 's \<Rightarrow> 'a \<times> 's" and spec :: "'c \<Rightarrow> 'm \<Rightarrow> 'a \<times> 'm"
    and inv :: "'s \<Rightarrow> bool" and abstract :: "'s \<Rightarrow> 'm"
  assumes step_inv: "inv s \<Longrightarrow> inv (snd (step c s))"
    and step_spec: "inv s \<Longrightarrow> map_prod id abstract (step c s) = spec c (abstract s)"
begin

lemma answers_inv: "inv s \<Longrightarrow> inv (snd (answers step cs s))"
proof (induction cs arbitrary: s)
  case (Cons c cs)
  obtain a s' where "step c s = (a, s')" by fastforce
  then show ?case using Cons.IH [of s'] step_inv [OF Cons.prems, of c] by (auto split: prod.splits)
qed simp

lemma answers_spec: "inv s \<Longrightarrow> map_prod id abstract (answers step cs s) = answers spec cs (abstract s)"
proof (induction cs arbitrary: s)
  case (Cons c cs)
  obtain a s' where "step c s = (a, s')" by fastforce
  then show ?case
    using Cons.IH [of s'] step_inv [OF Cons.prems, of c] step_spec [OF Cons.prems, of c]
    by (auto split: prod.splits)
qed simp

end

section \<open>The map\<close>

datatype ui_call = Bind json json | Require_owner json json | Sid_for json | Remove_sid json

datatype ui_answer = Denied permission_error | Granted | Owned_by string | Released "string list"

definition permitted :: "permission_error option \<Rightarrow> ui_answer" where
  "permitted e = (case e of None \<Rightarrow> Granted | Some x \<Rightarrow> Denied x)"

fun ui_step :: "ui_call \<Rightarrow> ui_threads \<Rightarrow> ui_answer \<times> ui_threads" where
  "ui_step (Bind thread sid) u = (case ui_bind thread sid u of (e, u') \<Rightarrow> (permitted e, u'))"
| "ui_step (Require_owner thread sid) u = (permitted (ui_require_owner thread sid u), u)"
| "ui_step (Sid_for thread) u = (case ui_sid_for thread u of Inl e \<Rightarrow> (Denied e, u) | Inr s \<Rightarrow> (Owned_by s, u))"
| "ui_step (Remove_sid sid) u = (case ui_remove_sid sid u of (Inl e, u') \<Rightarrow> (Denied e, u') | (Inr ts, u') \<Rightarrow> (Released ts, u'))"

text \<open>The specification: an owner per thread.  Removing a session releases exactly its threads, in order.\<close>

definition threads_of :: "(string \<rightharpoonup> string) \<Rightarrow> string \<Rightarrow> string set" where
  "threads_of owner s = {t. owner t = Some s}"

fun owner_step :: "ui_call \<Rightarrow> (string \<rightharpoonup> string) \<Rightarrow> ui_answer \<times> (string \<rightharpoonup> string)" where
  "owner_step (Bind thread sid) owner = (case ui_identifiers thread sid of Inl e \<Rightarrow> (Denied e, owner)
     | Inr (t, s) \<Rightarrow> if owner t \<in> {None, Some s} then (Granted, owner(t \<mapsto> s))
         else (Denied (Permission_error ''thread is owned by another socket session''), owner))"
| "owner_step (Require_owner thread sid) owner = (case ui_identifiers thread sid of Inl e \<Rightarrow> (Denied e, owner)
     | Inr (t, s) \<Rightarrow> (if owner t = Some s then Granted
         else Denied (Permission_error ''socket session does not own the thread''), owner))"
| "owner_step (Sid_for thread) owner = (case ui_identifier ''thread_id'' thread of Inl e \<Rightarrow> (Denied e, owner)
     | Inr t \<Rightarrow> (case owner t of None \<Rightarrow> Denied (Permission_error ''thread has no socket owner'') | Some s \<Rightarrow> Owned_by s, owner))"
| "owner_step (Remove_sid sid) owner = (case ui_identifier ''socket session'' sid of Inl e \<Rightarrow> (Denied e, owner)
     | Inr s \<Rightarrow> (Released (sorted_list_of_set (threads_of owner s)), owner |` (- threads_of owner s)))"

definition owner_map :: "ui_threads \<Rightarrow> string \<rightharpoonup> string" where
  "owner_map u = map_of (thread_to_sid u)"

text \<open>The second dictionary is the inverse of the first.\<close>

definition ui_inv :: "ui_threads \<Rightarrow> bool" where
  "ui_inv u \<longleftrightarrow> (\<forall>s. set (get_or_empty s (sid_to_threads u)) = threads_of (owner_map u) s \<and>
     distinct (get_or_empty s (sid_to_threads u)))"

lemma released_threads:
  "map_of (foldl (ui_release s) d ts) = (\<lambda>t. if t \<in> set ts \<and> map_of d t = Some s then None else map_of d t)"
proof (induction ts arbitrary: d)
  case (Cons t ts)
  have "map_of (ui_release s d t) = (\<lambda>x. if x = t \<and> map_of d t = Some s then None else map_of d x)"
    by (auto simp: ui_release_def delete_conv)
  then show ?case using Cons.IH by (auto simp: fun_eq_iff)
qed simp

lemma get_or_empty_delete: "get_or_empty k (AList.delete k' d) = (if k = k' then [] else get_or_empty k d)"
  by (simp add: get_or_empty_def delete_conv)

lemma ui_invD:
  assumes "ui_inv u"
  shows "set (get_or_empty s (sid_to_threads u)) = {t. map_of (thread_to_sid u) t = Some s}"
    and "distinct (get_or_empty s (sid_to_threads u))"
  using assms by (simp_all add: ui_inv_def threads_of_def owner_map_def)

lemma bind_refines:
  assumes "ui_inv u"
  shows "map_prod id owner_map (ui_step (Bind thread sid) u) = owner_step (Bind thread sid) (owner_map u) \<and>
    ui_inv (snd (ui_step (Bind thread sid) u))"
proof (cases "ui_identifiers thread sid")
  case (Inl e)
  then show ?thesis using assms by (simp add: ui_bind_def permitted_def)
next
  case (Inr p)
  obtain t s where p: "p = (t, s)" by fastforce
  show ?thesis
  proof (cases "owner_map u t \<in> {None, Some s}")
    case False
    then show ?thesis using assms Inr p by (auto simp: ui_bind_def permitted_def owner_map_def)
  next
    case True
    let ?u = "u\<lparr>thread_to_sid := AList.update t s (thread_to_sid u),
      sid_to_threads := AList.update s (List.insert t (get_or_empty s (sid_to_threads u))) (sid_to_threads u)\<rparr>"
    have bound: "ui_bind thread sid u = (None, ?u)"
      using True Inr p by (auto simp: ui_bind_def owner_map_def)
    have owner: "owner_map ?u = (owner_map u)(t \<mapsto> s)"
      by (simp add: owner_map_def update_conv)
    have "set (get_or_empty s' (sid_to_threads ?u)) = threads_of (owner_map ?u) s'" for s'
      using True ui_invD(1) [OF assms] unfolding owner
      by (auto simp: get_or_empty_update threads_of_def owner_map_def split: if_splits)
    then have "ui_inv ?u"
      using ui_invD(2) [OF assms] by (auto simp: ui_inv_def get_or_empty_update)
    with bound owner True Inr p show ?thesis by (simp add: permitted_def)
  qed
qed

lemma remove_refines:
  assumes "ui_inv u"
  shows "map_prod id owner_map (ui_step (Remove_sid sid) u) = owner_step (Remove_sid sid) (owner_map u) \<and>
    ui_inv (snd (ui_step (Remove_sid sid) u))"
proof (cases "ui_identifier ''socket session'' sid")
  case (Inl e)
  then show ?thesis using assms by (simp add: ui_remove_sid_def)
next
  case (Inr s)
  let ?ts = "get_or_empty s (sid_to_threads u)"
  let ?u = "u\<lparr>thread_to_sid := foldl (ui_release s) (thread_to_sid u) (sort ?ts),
    sid_to_threads := AList.delete s (sid_to_threads u)\<rparr>"
  have removed: "ui_remove_sid sid u = (Inr (sort ?ts), ?u)"
    using Inr by (simp add: ui_remove_sid_def Let_def)
  have owner: "owner_map ?u = owner_map u |` (- threads_of (owner_map u) s)"
    using ui_invD(1) [OF assms, of s]
    by (auto simp: owner_map_def released_threads fun_eq_iff restrict_map_def threads_of_def)
  have "set (get_or_empty s' (sid_to_threads ?u)) = threads_of (owner_map ?u) s'" for s'
    using ui_invD(1) [OF assms] unfolding owner
    by (auto simp: get_or_empty_delete threads_of_def owner_map_def restrict_map_def split: if_splits)
  then have "ui_inv ?u"
    using ui_invD(2) [OF assms] by (auto simp: ui_inv_def get_or_empty_delete)
  moreover have "sort ?ts = sorted_list_of_set (threads_of (owner_map u) s)"
    using ui_invD [OF assms, of s] sorted_list_of_set_sort_remdups [of ?ts]
    by (simp add: threads_of_def owner_map_def distinct_remdups_id)
  ultimately show ?thesis using removed owner Inr by simp
qed

interpretation thread_owners: implements ui_step owner_step ui_inv owner_map
proof unfold_locales
  fix u c
  assume inv: "ui_inv u"
  have "map_prod id owner_map (ui_step c u) = owner_step c (owner_map u) \<and> ui_inv (snd (ui_step c u))"
  proof (cases c)
    case (Bind t s)
    then show ?thesis using bind_refines [OF inv] by simp
  next
    case (Require_owner t s)
    then show ?thesis using inv
      by (auto simp: ui_require_owner_def permitted_def owner_map_def fail_if_def split: sum.splits)
  next
    case (Sid_for t)
    then show ?thesis using inv by (auto simp: ui_sid_for_def owner_map_def split: sum.splits option.splits)
  next
    case (Remove_sid s)
    then show ?thesis using remove_refines [OF inv] by simp
  qed
  then show "ui_inv (snd (ui_step c u))" "map_prod id owner_map (ui_step c u) = owner_step c (owner_map u)" by simp_all
qed

lemma empty_ui_inv: "ui_inv empty_ui_threads" "owner_map empty_ui_threads = Map.empty"
  by (simp_all add: ui_inv_def empty_ui_threads_def threads_of_def owner_map_def)

text \<open>
  C16: Whatever calls a \<open>UiThreadOwnership\<close> gets, in whatever order and with whatever arguments, it
  answers them as one partial map from threads to sessions does, and ends as that map: a thread has one
  owner until its session is removed, and removing a session releases exactly its threads, sorted.
\<close>
theorem ownership_is_a_map:
  "fst (answers ui_step calls empty_ui_threads) = fst (answers owner_step calls Map.empty) \<and>
   owner_map (snd (answers ui_step calls empty_ui_threads)) = snd (answers owner_step calls Map.empty)"
  using thread_owners.answers_spec [OF empty_ui_inv(1), of calls]
  by (cases "answers ui_step calls empty_ui_threads") (simp add: empty_ui_inv(2) prod_eq_iff)

end
