(* ===== verification/A2a_Client.thy ===== *)
theory A2a_Client
  imports A2a_Stream
begin

text \<open>
  The client of one remote agent (\<open>agent/remote_agent_connection.py\<close>): how \<open>send_streaming_task\<close> reads
  the events of a stream, decodes what they carry, drives the stream machine and ends in an outcome or an
  error.  A \<open>wire_event\<close> is one chunk of the stream as the SDK types it, or the exception its iteration
  raises; an absent attribute or message is \<open>JNull\<close>.  What the method does to its surroundings is the list
  of its effects in order: the state the host agent keeps, the texts and the errors shown in the socket
  room of the caller, all of which are taken to succeed.
\<close>

definition MAX_STREAM_EVENTS :: nat where "MAX_STREAM_EVENTS = 256"

datatype wire_event =
    Wire_task json json state_arg
  | Wire_artifact json json json
  | Wire_status json json state_arg bool json
  | Wire_unsupported
  | Wire_error_response
  | Wire_http_error
  | Wire_exception

datatype stream_failure = Bad_content content_error | Bad_protocol stream_error | Http_failure | Other_failure

datatype client_effect = Update_state json json | Display string | Error_shown string

datatype client_error = Remote_agent_error string | Unwrapped_protocol_error stream_error

text \<open>The connection and the keyword arguments of one call.\<close>

record stream_call =
  call_connected :: bool
  call_streaming :: bool
  call_assurance :: bool
  call_task_id :: "string option"
  call_context_id :: "string option"
  call_starting :: "state_arg option"

type_synonym client_step = "client_effect list \<times> (stream_failure + canonical_content stream_machine)"

definition state_name :: "state_arg \<Rightarrow> stream_error + string" where
  "state_name v = (case v of
     State_other \<Rightarrow> Inl (Stream_error ''unknown task state'')
   | State_text raw \<Rightarrow> let n = dashes_to_underscores (py_lower raw) in
       Inr (if take 10 n = ''taskstate.'' then drop 10 n else n))"

definition canonical_type :: "string list \<Rightarrow> canonical_content \<Rightarrow> content_error + canonical_content" where
  "canonical_type expected content =
     (if entry ''message_type'' (content_data content) \<in> JStr ` set expected then Inr content
      else Inl (Content_error ''unexpected assurance payload type''))"

definition typed_content :: "iso_parser \<Rightarrow> string option \<Rightarrow> string option \<Rightarrow> string list \<Rightarrow> json
    \<Rightarrow> content_error + canonical_content" where
  "typed_content from_iso task_id context_id expected content =
     (case decode_canonical_parts from_iso None task_id context_id content of Inl e \<Rightarrow> Inl e
      | Inr c \<Rightarrow> canonical_type expected c)"

definition shown_content :: "string option \<Rightarrow> string option \<Rightarrow> json \<Rightarrow> content_error + string option \<times> canonical_content option" where
  "shown_content task_id context_id content = (case decode_display_parts task_id context_id content of
     Inl e \<Rightarrow> Inl e | Inr t \<Rightarrow> Inr (Some t, None))"

text \<open>\<open>_status_content\<close>; an error status that carries no canonical error falls back to its text.\<close>

definition status_content :: "iso_parser \<Rightarrow> bool \<Rightarrow> string \<Rightarrow> json \<Rightarrow> string \<Rightarrow> string
    \<Rightarrow> content_error + string option \<times> canonical_content option" where
  "status_content from_iso assurance state message task_id context_id =
     (if message = JNull
      then if assurance \<and> state = ''input_required''
        then Inl (Content_error ''assurance input_required is missing its DataPart'') else Inr (None, None)
      else if assurance \<and> state = ''input_required''
      then (case typed_content from_iso (Some task_id) (Some context_id) [''assurance_candidate_page''] message of
        Inl e \<Rightarrow> Inl e | Inr c \<Rightarrow> Inr (content_text c, Some c))
      else if assurance \<and> state \<in> {''failed'', ''rejected''}
      then (case typed_content from_iso (Some task_id) (Some context_id) [''assurance_error''] message of
        Inl (Content_error _) \<Rightarrow> shown_content (Some task_id) (Some context_id) message
      | Inl Unhashable_error \<Rightarrow> Inl Unhashable_error
      | Inr c \<Rightarrow> Inr (content_text c, Some c))
      else shown_content (Some task_id) (Some context_id) message)"

definition display_effects :: "string option \<Rightarrow> stream_failure + client_effect list" where
  "display_effects text = (case text of None \<Rightarrow> Inr [] | Some t \<Rightarrow>
     if t = [] then Inr [] else if length t > 4096 then Inl (Bad_content (Content_error ''display text exceeds the limit''))
     else Inr [Display t])"

text \<open>What is left to do once the machine has changed: show the text, then go on with it.\<close>

definition then_display :: "string option \<Rightarrow> stream_error option \<times> canonical_content stream_machine \<Rightarrow> client_step" where
  "then_display text r = (case r of
     (Some e, m) \<Rightarrow> ([], Inl (Bad_protocol e))
   | (None, m) \<Rightarrow> (case display_effects text of Inl e \<Rightarrow> ([], Inl e) | Inr fx \<Rightarrow> (fx, Inr m)))"

definition client_task :: "stream_call \<Rightarrow> json \<Rightarrow> json \<Rightarrow> state_arg \<Rightarrow> canonical_content stream_machine \<Rightarrow> client_step" where
  "client_task call task_id context_id state m = (case state_name state of
     Inl e \<Rightarrow> ([], Inl (Bad_protocol e))
   | Inr name \<Rightarrow> (case call_task_id call of
       None \<Rightarrow> (case observe_task task_id context_id (State_text name) m of
         (Some e, _) \<Rightarrow> ([], Inl (Bad_protocol e)) | (None, m) \<Rightarrow> ([Update_state task_id context_id], Inr m))
     | Some expected \<Rightarrow>
         if task_id \<noteq> JStr expected then ([], Inl (Bad_protocol (Stream_error ''task identifier mismatch'')))
         else if context_id \<noteq> json_of_option (call_context_id call)
         then ([], Inl (Bad_protocol (Stream_error ''context identifier mismatch'')))
         else ([Update_state task_id context_id], Inr m)))"

definition client_artifact :: "iso_parser \<Rightarrow> stream_call \<Rightarrow> json \<Rightarrow> json \<Rightarrow> json \<Rightarrow> canonical_content stream_machine \<Rightarrow> client_step" where
  "client_artifact from_iso call task_id context_id artifact m =
     (case (if call_assurance call
        then (case typed_content from_iso None None [''assurance_candidate_page'', ''assurance_confirmation_result'',
            ''assurance_error''] artifact of Inl e \<Rightarrow> Inl e | Inr c \<Rightarrow> Inr (content_text c, Some c))
        else shown_content None None artifact) of
      Inl e \<Rightarrow> ([], Inl (Bad_content e))
    | Inr (text, canonical) \<Rightarrow> then_display text (observe_artifact task_id context_id canonical m))"

text \<open>A status: the loop returns \<open>finish(text)\<close> on a terminal state, and continues otherwise.\<close>

definition client_status :: "iso_parser \<Rightarrow> stream_call \<Rightarrow> json \<Rightarrow> json \<Rightarrow> state_arg \<Rightarrow> bool \<Rightarrow> json
    \<Rightarrow> canonical_content stream_machine
    \<Rightarrow> client_effect list \<times> (stream_failure + canonical_content stream_machine + canonical_content stream_outcome)" where
  "client_status from_iso call task_id context_id state final message m =
     (case (task_id, context_id) of
        (JStr task, JStr ctx) \<Rightarrow> (case state_name state of
          Inl e \<Rightarrow> ([], Inl (Bad_protocol e))
        | Inr name \<Rightarrow> (case status_content from_iso (call_assurance call) name message task ctx of
            Inl e \<Rightarrow> ([], Inl (Bad_content e))
          | Inr (text, canonical) \<Rightarrow>
             (case observe_status task_id context_id (State_text name) final canonical m of
                (Some e, _) \<Rightarrow> ([], Inl (Bad_protocol e))
              | (None, m) \<Rightarrow>
                  (case (if name = ''working'' then display_effects text else Inr []) of
                     Inl e \<Rightarrow> ([], Inl e)
                   | Inr fx \<Rightarrow> if name \<in> set TERMINAL_STREAM_STATES
                       then (case finish_stream text m of Inl e \<Rightarrow> (fx, Inl (Bad_protocol e))
                         | Inr out \<Rightarrow> (fx, Inr (Inr out)))
                       else (fx, Inr (Inl m))))))
      | _ \<Rightarrow> ([], Inl (Bad_protocol (Stream_error ''status identifiers are missing''))))"

definition continue_with :: "client_step \<Rightarrow> client_effect list \<times> (stream_failure + canonical_content stream_machine + canonical_content stream_outcome)" where
  "continue_with r = (fst r, map_sum id Inl (snd r))"

fun client_event :: "iso_parser \<Rightarrow> stream_call \<Rightarrow> wire_event \<Rightarrow> canonical_content stream_machine
    \<Rightarrow> client_effect list \<times> (stream_failure + canonical_content stream_machine + canonical_content stream_outcome)" where
  "client_event from_iso call (Wire_task t c s) m = continue_with (client_task call t c s m)"
| "client_event from_iso call (Wire_artifact t c a) m = continue_with (client_artifact from_iso call t c a m)"
| "client_event from_iso call (Wire_status t c s final message) m = client_status from_iso call t c s final message m"
| "client_event from_iso call Wire_unsupported m =
     ([], Inl (Bad_protocol (Stream_error ''unsupported remote stream event'')))"
| "client_event from_iso call Wire_error_response m =
     ([], Inl (Bad_protocol (Stream_error ''remote stream returned an error response'')))"
| "client_event from_iso call Wire_http_error m = ([], Inl Http_failure)"
| "client_event from_iso call Wire_exception m = ([], Inl Other_failure)"

text \<open>An exception of the iteration itself comes before the event is counted.\<close>

definition iteration_fails :: "wire_event \<Rightarrow> bool" where
  "iteration_fails e \<longleftrightarrow> e \<in> {Wire_http_error, Wire_exception}"

fun client_loop :: "iso_parser \<Rightarrow> stream_call \<Rightarrow> nat \<Rightarrow> wire_event list \<Rightarrow> canonical_content stream_machine
    \<Rightarrow> client_effect list \<times> (stream_failure + canonical_content stream_outcome)" where
  "client_loop from_iso call event_count [] m = (case finish_stream None m of
     Inl e \<Rightarrow> ([], Inl (Bad_protocol e)) | Inr out \<Rightarrow> ([], Inr out))"
| "client_loop from_iso call event_count (e # es) m =
     (if event_count + 1 > MAX_STREAM_EVENTS \<and> \<not> iteration_fails e
      then ([], Inl (Bad_protocol (Stream_error ''remote stream event limit exceeded'')))
      else case client_event from_iso call e m of
        (fx, Inl failure) \<Rightarrow> (fx, Inl failure)
      | (fx, Inr (Inl m)) \<Rightarrow> (case client_loop from_iso call (event_count + 1) es m of (fx', r) \<Rightarrow> (fx @ fx', r))
      | (fx, Inr (Inr out)) \<Rightarrow> (fx, Inr out))"

text \<open>The \<open>except\<close> clauses: a \<open>TypeError\<close> of the decoders is no \<open>A2AContentError\<close>.\<close>

definition failure_message :: "stream_failure \<Rightarrow> string" where
  "failure_message e = (if e \<in> {Bad_content Unhashable_error, Other_failure} then ''Remote agent stream failed''
     else ''Remote agent stream failed validation'')"

definition shown_error :: "string \<Rightarrow> client_effect list \<times> (client_error + canonical_content stream_outcome)" where
  "shown_error message = ([Error_shown message], Inl (Remote_agent_error message))"

definition send_streaming_task :: "iso_parser \<Rightarrow> stream_call \<Rightarrow> wire_event list
    \<Rightarrow> client_effect list \<times> (client_error + canonical_content stream_outcome)" where
  "send_streaming_task from_iso call events =
     (if \<not> call_connected call then shown_error ''Remote agent client is unavailable''
      else if \<not> call_streaming call then shown_error ''Remote agent does not support streaming''
      else case new_stream_machine (map_option JStr (call_task_id call)) (map_option JStr (call_context_id call))
          (call_starting call) of
        Inl e \<Rightarrow> ([], Inl (Unwrapped_protocol_error e))
      | Inr m \<Rightarrow> (case client_loop from_iso call 0 events m of
          (fx, Inl failure) \<Rightarrow> (fx @ fst (shown_error (failure_message failure)),
            snd (shown_error (failure_message failure)))
        | (fx, Inr out) \<Rightarrow> (fx, Inr out)))"

end
