(* ===== verification/Supervisor_Session.thy ===== *)
theory Supervisor_Session
  imports A2a_Client
begin

text \<open>
  The Supervisor's own part in a conversation with a remote agent (\<open>agent/host_agent.py\<close>): which socket
  may act on which thread, how the result of the approval tool becomes a trusted decision, and how
  \<open>send_task\<close> starts a scan, submits a decision and settles the session on the outcome of the stream.  The
  session is the dictionary of fields the server keeps for a thread; the store is taken to accept its
  writes, and \<open>tool_context.state\<close>, the runtime's copy, is left out.  Every exception of \<open>send_task\<close> ends
  in the same response, so its errors are told apart only by their text.
\<close>

section \<open>Sockets\<close>

text \<open>A Socket.IO server is named by a number.\<close>

record host_sockets =
  sio_sessions :: "(string, nat) dict"
  thread_ownership :: ui_threads
  tool_result_locks :: "string list"

definition permission :: "permission_error \<Rightarrow> build_error" where
  "permission e = (case e of Permission_error s \<Rightarrow> Build_permission s)"

definition register_socket :: "json \<Rightarrow> nat \<Rightarrow> host_sockets \<Rightarrow> build_error option \<times> host_sockets" where
  "register_socket sid sio h = (case sid of
     JStr s \<Rightarrow> if s = [] then (Some (Build_permission ''invalid socket session''), h)
       else (None, h\<lparr>sio_sessions := AList.update s sio (sio_sessions h)\<rparr>)
   | _ \<Rightarrow> (Some (Build_permission ''invalid socket session''), h))"

definition bind_ui_thread :: "json \<Rightarrow> string \<Rightarrow> nat \<Rightarrow> host_sockets \<Rightarrow> build_error option \<times> host_sockets" where
  "bind_ui_thread thread_id sid sio h =
     (if map_of (sio_sessions h) sid \<noteq> Some sio then (Some (Build_permission ''socket session is not registered''), h)
      else case ui_bind thread_id (JStr sid) (thread_ownership h) of
        (e, u) \<Rightarrow> (map_option permission e, h\<lparr>thread_ownership := u\<rparr>))"

definition remove_socket :: "string \<Rightarrow> host_sockets \<Rightarrow> build_error option \<times> host_sockets" where
  "remove_socket sid h = (case ui_remove_sid (JStr sid) (thread_ownership h) of
     (Inl e, u) \<Rightarrow> (Some (permission e), h\<lparr>thread_ownership := u\<rparr>)
   | (Inr threads, u) \<Rightarrow> (None, h\<lparr>thread_ownership := u,
       tool_result_locks := filter (\<lambda>t. t \<notin> set threads) (tool_result_locks h),
       sio_sessions := AList.delete sid (sio_sessions h)\<rparr>))"

definition socket_target :: "json \<Rightarrow> host_sockets \<Rightarrow> build_error + string \<times> nat" where
  "socket_target thread_id h = (case ui_sid_for thread_id (thread_ownership h) of Inl e \<Rightarrow> Inl (permission e)
     | Inr sid \<Rightarrow> (case map_of (sio_sessions h) sid of
         None \<Rightarrow> Inl (Build_permission ''thread owner is disconnected'') | Some sio \<Rightarrow> Inr (sid, sio)))"

section \<open>Messages\<close>

definition optional_entry :: "string \<Rightarrow> string option \<Rightarrow> json_object" where
  "optional_entry key v = (case v of None \<Rightarrow> [] | Some s \<Rightarrow> [(key, JStr s)])"

definition text_part :: "string \<Rightarrow> json" where
  "text_part t = JObj [(''kind'', JStr ''text''), (''text'', JStr t)]"

definition user_message :: "json list \<Rightarrow> string \<Rightarrow> string option \<Rightarrow> string option \<Rightarrow> json" where
  "user_message parts message_id task_id context_id = JObj ([(''role'', JStr ''user''), (''parts'', JList parts),
     (''messageId'', JStr message_id)] @ optional_entry ''taskId'' task_id @ optional_entry ''contextId'' context_id)"

definition create_send_message_payload :: "(string \<Rightarrow> string) \<Rightarrow> string \<Rightarrow> string option \<Rightarrow> string option \<Rightarrow> json" where
  "create_send_message_payload fresh text task_id context_id =
     JObj [(''message'', user_message [text_part text] (fresh ''send'') task_id context_id)]"

definition create_data_message_payload :: "iso_parser \<Rightarrow> json_object \<Rightarrow> string option \<Rightarrow> string option \<Rightarrow> string option
    \<Rightarrow> content_error + json" where
  "create_data_message_payload from_iso data task_id context_id display_text =
     (let message_id = text_of_json (entry ''message_id'' data);
        parts = JObj [(''kind'', JStr ''data''), (''data'', JObj data)] #
          (case display_text of None \<Rightarrow> [] | Some t \<Rightarrow> [text_part t]);
        message = user_message parts message_id task_id context_id in
      if message_id = [] then Inl (Content_error ''canonical message_id is missing'')
      else case decode_canonical_parts from_iso None task_id context_id message of
        Inl e \<Rightarrow> Inl e | Inr _ \<Rightarrow> Inr (JObj [(''message'', message)]))"

section \<open>The session\<close>

text \<open>\<open>updateState\<close> writes the fields it is given, one after the other.\<close>

definition write_field :: "json_object \<Rightarrow> string \<times> json \<Rightarrow> json_object" where
  "write_field s kv = AList.update (fst kv) (snd kv) s"

definition update_state :: "json_object \<Rightarrow> (string \<times> json) list \<Rightarrow> json_object" where
  "update_state = foldl write_field"

text \<open>
  What the handlers take from outside: the parsers, \<open>str(value)\<close> of a value that is no text, and the
  sentences in Chinese.
\<close>

record supervisor_env =
  env_from_iso :: iso_parser
  env_json_loads :: "string \<Rightarrow> json option"
  env_str :: "json \<Rightarrow> string"
  env_reason :: "bool \<Rightarrow> string"
  env_preview_reason :: string
  env_scan_text :: string
  env_confirm_text :: string

definition ASSURANCE_AGENT_NAME :: string where "ASSURANCE_AGENT_NAME = ''Local Assurance Agent''"

text \<open>Equality of two dictionaries of plain values.\<close>

definition same_dict :: "json_object \<Rightarrow> json_object \<Rightarrow> bool" where
  "same_dict c d \<longleftrightarrow> sort_key fst c = sort_key fst d"

definition json_of_decision :: "trusted_decision \<Rightarrow> json" where
  "json_of_decision t = JObj [(''tool_call_id'', JStr (decision_tool_call_id t)),
     (''approved'', JBool (decision_approved t)), (''confirmation_data'', JObj (confirmation_data t))]"

text \<open>\<open>datetime.fromisoformat(sent_at.replace("Z", "+00:00"))\<close>; a time without a zone is refused as an
  unreadable one is.\<close>

definition replayed_sent_at :: "iso_parser \<Rightarrow> string \<Rightarrow> time_arg option" where
  "replayed_sent_at from_iso s = (case from_iso (spelled_zone s) of None \<Rightarrow> None | Some (t, offset) \<Rightarrow> Some (Aware_time t))"

text \<open>A decision that is already persisted is accepted again when it is the one this call would make.\<close>

definition existing_decision :: "supervisor_env \<Rightarrow> (string \<Rightarrow> string) \<Rightarrow> instant \<Rightarrow> string \<Rightarrow> bool \<Rightarrow> json \<Rightarrow> json
    \<Rightarrow> build_error + trusted_decision" where
  "existing_decision env fresh now tool_call_id approved pending existing =
     (let d = entries_of_json existing; confirmation = entry ''confirmation_data'' d; c = entries_of_json confirmation in
      if \<not> is_object existing \<or> fst ` set d \<noteq> {''tool_call_id'', ''approved'', ''confirmation_data''}
      then Inl (Build_permission ''Persisted Assurance decision is invalid'')
      else if entry ''tool_call_id'' d \<noteq> JStr tool_call_id \<or> entry ''approved'' d \<noteq> JBool approved \<or> \<not> is_object confirmation
      then Inl (Build_permission ''Persisted Assurance decision does not match'')
      else case entry ''sent_at'' c of
        JStr sent_at \<Rightarrow> (case replayed_sent_at (env_from_iso env) sent_at of
          None \<Rightarrow> Inl (Build_permission ''Persisted Assurance decision is invalid'')
        | Some t \<Rightarrow> (case build_assurance_confirmation_request (env_from_iso env) fresh now pending (JBool approved)
              (JStr (env_reason env approved)) t (entry ''message_id'' c) (entry ''idempotency_key'' c) of
            Inl e \<Rightarrow> Inl (Build_permission ''Persisted Assurance decision is invalid'')
          | Inr expected \<Rightarrow> if \<not> same_dict c expected
              then Inl (Build_permission ''Persisted Assurance decision does not match'')
              else Inr \<lparr>decision_tool_call_id = tool_call_id, decision_approved = approved, confirmation_data = c\<rparr>))
      | _ \<Rightarrow> Inl (Build_permission ''Persisted Assurance decision is invalid''))"

text \<open>\<open>_build_trusted_assurance_decision\<close>; there is none for another agent's task.\<close>

definition tool_decision :: "supervisor_env \<Rightarrow> (string \<Rightarrow> string) \<Rightarrow> instant \<Rightarrow> string \<Rightarrow> json \<Rightarrow> json \<Rightarrow> json_object
    \<Rightarrow> build_error + trusted_decision option" where
  "tool_decision env fresh now tool_call_id tool_name content state =
     (if entry ''agent'' state \<noteq> JStr ASSURANCE_AGENT_NAME then Inr None
      else if entry ''task_status'' state \<noteq> JStr ''input_needed''
      then Inl (Build_permission ''Assurance task is not awaiting a decision'')
      else let pending = entry ''pending_assurance'' state; existing = entry ''trusted_assurance_decision'' state in
      if \<not> is_object pending then Inl (Build_permission ''Assurance candidate challenge is missing'')
      else case parse_trusted_approval (env_json_loads env) content of Inl e \<Rightarrow> Inl (Build_content e)
      | Inr approved \<Rightarrow> map_sum id Some
          (if existing \<noteq> JNull then existing_decision env fresh now tool_call_id approved pending existing
           else build_trusted_assurance_decision (env_from_iso env) (env_json_loads env) (env_reason env) fresh now
             pending (JStr tool_call_id) tool_name content))"

text \<open>
  \<open>handleToolResult\<close> up to the continuation of the runtime.  \<open>tool_pending\<close> and \<open>tool_name\<close> are what the
  runtime knows of the call; the asynchronous lock of the thread covers the whole handler.
\<close>

definition handle_tool_result :: "supervisor_env \<Rightarrow> (string \<Rightarrow> string) \<Rightarrow> instant \<Rightarrow> host_sockets \<Rightarrow> string \<Rightarrow> json \<Rightarrow> string
    \<Rightarrow> json \<Rightarrow> bool \<Rightarrow> json \<Rightarrow> json_object \<Rightarrow> build_error option \<times> json_object" where
  "handle_tool_result env fresh now h session_id sid tool_call_id content tool_pending tool_name session =
     (case ui_require_owner (JStr session_id) sid (thread_ownership h) of Some e \<Rightarrow> (Some (permission e), session)
      | None \<Rightarrow> (case tool_call_thread_id (JStr tool_call_id) session_id of Inl e \<Rightarrow> (Some e, session)
      | Inr _ \<Rightarrow> if \<not> tool_pending
          then (Some (Build_permission ''tool call is not pending for this thread''), session)
          else (case tool_decision env fresh now tool_call_id tool_name content session of
            Inl e \<Rightarrow> (Some e, session)
          | Inr None \<Rightarrow> (None, session)
          | Inr (Some t) \<Rightarrow> (None, update_state session [(''trusted_assurance_decision'', json_of_decision t)]))))"

section \<open>Tasks\<close>

text \<open>What \<open>send_task\<close> has decided before it streams: the message, the fields it writes and what it expects.\<close>

record prepared_task =
  prepared_payload :: json
  prepared_writes :: "(string \<times> json) list"
  prepared_task_id :: "string option"
  prepared_context_id :: "string option"
  prepared_starting :: "state_arg option"
  expected_scan_message :: json
  expected_workflow :: json
  expected_trace :: json

definition text_or_none :: "json \<Rightarrow> string option" where
  "text_or_none v = (case v of JStr (c # s) \<Rightarrow> Some (c # s) | _ \<Rightarrow> None)"

definition starting_state :: "json_object \<Rightarrow> state_arg option" where
  "starting_state persisted = (if text_or_none (entry ''task_id'' persisted) \<noteq> None \<and>
     entry ''task_status'' persisted = JStr ''input_needed'' then Some (State_text ''input_required'') else None)"

definition prepare_scan :: "supervisor_env \<Rightarrow> (string \<Rightarrow> string) \<Rightarrow> instant \<Rightarrow> string \<Rightarrow> build_error + prepared_task" where
  "prepare_scan env fresh now agent_name =
     (case build_assurance_scan_request (env_from_iso env) fresh now No_time None None of Inl e \<Rightarrow> Inl e
      | Inr scan \<Rightarrow> (let d = scan_data scan; ctx = a2a_context_id scan in
        case create_data_message_payload (env_from_iso env) d None (Some ctx) (Some (env_scan_text env)) of
          Inl e \<Rightarrow> Inl (Build_content e)
        | Inr payload \<Rightarrow> Inr \<lparr>prepared_payload = payload, prepared_writes = [
            (''agent'', JStr agent_name), (''task_status'', JStr ''running''), (''task_id'', JNull),
            (''a2a_context_id'', JStr ctx), (''assurance_workflow_id'', entry ''workflow_id'' d),
            (''assurance_trace_id'', entry ''trace_id'' d), (''assurance_scan_message_id'', entry ''message_id'' d),
            (''assurance_scan_idempotency_key'', entry ''idempotency_key'' d), (''pending_assurance'', JNull),
            (''trusted_assurance_decision'', JNull)], prepared_task_id = None, prepared_context_id = Some ctx,
            prepared_starting = None, expected_scan_message = entry ''message_id'' d,
            expected_workflow = entry ''workflow_id'' d, expected_trace = entry ''trace_id'' d\<rparr>))"

definition str_of :: "supervisor_env \<Rightarrow> json \<Rightarrow> string" where
  "str_of env v = (case v of JStr s \<Rightarrow> s | _ \<Rightarrow> env_str env v)"

definition persisted_confirmation :: "json_object \<Rightarrow> json" where
  "persisted_confirmation persisted =
     entry ''confirmation_data'' (entries_of_json (entry ''trusted_assurance_decision'' persisted))"

definition rebuilt_confirmation :: "supervisor_env \<Rightarrow> (string \<Rightarrow> string) \<Rightarrow> instant \<Rightarrow> json_object \<Rightarrow> build_error + json_object" where
  "rebuilt_confirmation env fresh now persisted =
     (let c = entries_of_json (persisted_confirmation persisted);
        said = (\<lambda>key. JStr (str_of env (entry_or (JStr []) key c))) in
      build_assurance_confirmation_request (env_from_iso env) fresh now (entry ''pending_assurance'' persisted)
        (entry ''approved'' (entries_of_json (entry ''trusted_assurance_decision'' persisted)))
        (said ''reason'') No_time (said ''message_id'') (said ''idempotency_key''))"

definition same_but_time :: "json_object \<Rightarrow> json_object \<Rightarrow> bool" where
  "same_but_time c expected \<longleftrightarrow> list_all (\<lambda>key. key = ''sent_at'' \<or> entry key c = entry key expected) (map fst expected)"

text \<open>The confirmation that is sent is the persisted one, when rebuilding it from the pending page gives
  the same fields, its time apart.\<close>

definition checked_confirmation :: "supervisor_env \<Rightarrow> (string \<Rightarrow> string) \<Rightarrow> instant \<Rightarrow> json_object \<Rightarrow> build_error + json_object" where
  "checked_confirmation env fresh now persisted =
     (let confirmation = persisted_confirmation persisted; c = entries_of_json confirmation in
      if starting_state persisted = None \<or> \<not> is_object (entry ''pending_assurance'' persisted) \<or>
        \<not> is_object (entry ''trusted_assurance_decision'' persisted) \<or>
        text_or_none (entry ''a2a_context_id'' persisted) = None
      then Inl (Build_permission ''trusted Assurance decision is missing'')
      else if \<not> is_object confirmation then Inl (Build_permission ''trusted Assurance decision is invalid'')
      else case rebuilt_confirmation env fresh now persisted of Inl e \<Rightarrow> Inl e
      | Inr expected \<Rightarrow> if \<not> same_but_time c expected
          then Inl (Build_permission ''trusted Assurance decision was modified'') else Inr c)"

definition prepare_confirmation :: "supervisor_env \<Rightarrow> (string \<Rightarrow> string) \<Rightarrow> instant \<Rightarrow> json_object \<Rightarrow> build_error + prepared_task" where
  "prepare_confirmation env fresh now persisted =
     (let task_id = text_or_none (entry ''task_id'' persisted); ctx = text_or_none (entry ''a2a_context_id'' persisted) in
      case checked_confirmation env fresh now persisted of Inl e \<Rightarrow> Inl e
      | Inr c \<Rightarrow> (case create_data_message_payload (env_from_iso env) c task_id ctx (Some (env_confirm_text env)) of
          Inl e \<Rightarrow> Inl (Build_content e)
        | Inr payload \<Rightarrow> Inr \<lparr>prepared_payload = payload, prepared_writes = [(''task_status'', JStr ''running'')],
            prepared_task_id = task_id, prepared_context_id = ctx, prepared_starting = starting_state persisted,
            expected_scan_message = entry ''assurance_scan_message_id'' persisted,
            expected_workflow = entry ''assurance_workflow_id'' persisted,
            expected_trace = entry ''assurance_trace_id'' persisted\<rparr>))"

definition prepare_text :: "(string \<Rightarrow> string) \<Rightarrow> string \<Rightarrow> string \<Rightarrow> json_object \<Rightarrow> prepared_task" where
  "prepare_text fresh agent_name message persisted =
     (let task_id = text_or_none (entry ''task_id'' persisted);
        ctx = (case text_or_none (entry ''a2a_context_id'' persisted) of None \<Rightarrow> new_id fresh ''context'' | Some c \<Rightarrow> c) in
      \<lparr>prepared_payload = create_send_message_payload fresh message task_id (Some ctx),
       prepared_writes = [(''agent'', JStr agent_name), (''task_status'', JStr ''running''), (''a2a_context_id'', JStr ctx)],
       prepared_task_id = task_id, prepared_context_id = Some ctx, prepared_starting = starting_state persisted,
       expected_scan_message = entry ''assurance_scan_message_id'' persisted,
       expected_workflow = entry ''assurance_workflow_id'' persisted,
       expected_trace = entry ''assurance_trace_id'' persisted\<rparr>)"

definition prepare_task :: "supervisor_env \<Rightarrow> (string \<Rightarrow> string) \<Rightarrow> instant \<Rightarrow> bool \<Rightarrow> string \<Rightarrow> string \<Rightarrow> json_object
    \<Rightarrow> build_error + prepared_task" where
  "prepare_task env fresh now assurance agent_name message persisted =
     (let task_id = text_or_none (entry ''task_id'' persisted) in
      if task_id \<noteq> None \<and> entry ''agent'' persisted \<notin> {JNull, JStr agent_name}
      then Inl (Build_permission ''active task belongs to another agent'')
      else if \<not> assurance then Inr (prepare_text fresh agent_name message persisted)
      else if task_id = None then prepare_scan env fresh now agent_name
      else prepare_confirmation env fresh now persisted)"

section \<open>Outcomes\<close>

datatype task_response = Task_error | Input_required "string option" | Task_completed "string option" | Task_failed "string option"

text \<open>\<open>text or default\<close>: \<open>None\<close> stands for the default sentence.\<close>

definition given_text :: "string option \<Rightarrow> string option" where
  "given_text t = (if t = Some [] then None else t)"

definition correlated_page :: "prepared_task \<Rightarrow> json_object \<Rightarrow> bool" where
  "correlated_page p pg \<longleftrightarrow> entry ''request_message_id'' pg = expected_scan_message p \<and>
     entry ''workflow_id'' pg = expected_workflow p \<and> entry ''trace_id'' pg = expected_trace p"

text \<open>The fields that name the remote task which waits for input.\<close>

definition waiting_writes :: "string \<Rightarrow> canonical_content stream_outcome \<Rightarrow> (string \<times> json) list" where
  "waiting_writes agent_name out = [(''agent'', JStr agent_name), (''task_status'', JStr ''input_needed''),
     (''task_id'', JStr (out_task_id out)), (''a2a_context_id'', JStr (out_context_id out))]"

definition cleared_writes :: "(string \<times> json) list" where
  "cleared_writes = map (\<lambda>key. (key, JNull)) [''agent'', ''task_status'', ''task_id'', ''a2a_context_id'',
     ''assurance_workflow_id'', ''assurance_trace_id'', ''assurance_scan_message_id'',
     ''assurance_scan_idempotency_key'', ''pending_assurance'', ''trusted_assurance_decision'']"

definition settle_waiting :: "supervisor_env \<Rightarrow> (string \<Rightarrow> string) \<Rightarrow> instant \<Rightarrow> bool \<Rightarrow> string \<Rightarrow> prepared_task
    \<Rightarrow> canonical_content stream_outcome \<Rightarrow> build_error + task_response \<times> (string \<times> json) list" where
  "settle_waiting env fresh now assurance agent_name p out =
     (if \<not> assurance then Inr (Input_required (given_text (out_text out)), waiting_writes agent_name out)
      else case out_content out of None \<Rightarrow> Inl (Build_content (Content_error ''Assurance candidate page is missing''))
      | Some content \<Rightarrow> (let pg = content_data content in
          if entry ''message_type'' pg \<noteq> JStr ''assurance_candidate_page''
          then Inl (Build_content (Content_error ''Assurance candidate page is missing''))
          else if \<not> correlated_page p pg
          then Inl (Build_content (Content_error ''Assurance candidate correlation mismatch''))
          else case build_assurance_confirmation_request (env_from_iso env) fresh now (JObj pg) (JBool False)
              (JStr (env_preview_reason env)) No_time JNull JNull of Inl e \<Rightarrow> Inl e
          | Inr _ \<Rightarrow> Inr (Input_required (given_text (content_text content)), waiting_writes agent_name out @
              [(''pending_assurance'', JObj pg), (''trusted_assurance_decision'', JNull)])))"

text \<open>The result of a confirmation answers the decision that was sent.\<close>

definition answers_decision :: "json_object \<Rightarrow> json_object \<Rightarrow> bool" where
  "answers_decision result c \<longleftrightarrow> entry ''message_type'' result = JStr ''assurance_confirmation_result'' \<and>
     entry ''request_message_id'' result = entry ''message_id'' c \<and>
     entry ''preview_message_id'' result = entry ''preview_message_id'' c \<and>
     entry ''candidate_id'' result = entry ''candidate_id'' c \<and> entry ''decision'' result = entry ''decision'' c \<and>
     entry ''workflow_id'' result = entry ''workflow_id'' c \<and> entry ''trace_id'' result = entry ''trace_id'' c \<and>
     entry ''outcome'' result \<in> JStr ` {''created'', ''correlated'', ''replayed'', ''rejected''}"

definition outcome_mismatch :: "json_object \<Rightarrow> json_object \<Rightarrow> bool" where
  "outcome_mismatch result c \<longleftrightarrow>
     (entry ''decision'' c = JStr ''REJECT'' \<and>
       (entry ''outcome'' result \<noteq> JStr ''rejected'' \<or> entry ''incident'' result \<noteq> JNull)) \<or>
     (entry ''decision'' c = JStr ''CONFIRM'' \<and>
       (entry ''outcome'' result = JStr ''rejected'' \<or> \<not> is_object (entry ''incident'' result)))"

definition check_completed :: "supervisor_env \<Rightarrow> prepared_task \<Rightarrow> json_object \<Rightarrow> canonical_content stream_outcome
    \<Rightarrow> content_error option" where
  "check_completed env p persisted out = (case prepared_task_id p of
     None \<Rightarrow> (case out_content out of
         None \<Rightarrow> Some (Content_error ''empty Assurance scan artifact is missing'')
       | Some content \<Rightarrow> (case validate_empty_assurance_candidate_page (env_from_iso env) (JObj (content_data content)) of
           Inl e \<Rightarrow> Some e
         | Inr pg \<Rightarrow> fail_if (\<not> correlated_page p pg) (Content_error ''empty Assurance scan correlation mismatch'')))
   | Some _ \<Rightarrow> (let confirmation = persisted_confirmation persisted; c = entries_of_json confirmation in
       case out_content out of
         None \<Rightarrow> Some (Content_error ''Assurance confirmation result mismatch'')
       | Some content \<Rightarrow> first_error [
           fail_if (\<not> is_object confirmation \<or> \<not> answers_decision (content_data content) c)
             (Content_error ''Assurance confirmation result mismatch''),
           fail_if (outcome_mismatch (content_data content) c) (Content_error ''Assurance confirmation outcome mismatch'')]))"

definition settle_task :: "supervisor_env \<Rightarrow> (string \<Rightarrow> string) \<Rightarrow> instant \<Rightarrow> bool \<Rightarrow> string \<Rightarrow> prepared_task \<Rightarrow> json_object
    \<Rightarrow> canonical_content stream_outcome \<Rightarrow> build_error + task_response \<times> (string \<times> json) list" where
  "settle_task env fresh now assurance agent_name p persisted out =
     (if out_state out = ''input_required'' then settle_waiting env fresh now assurance agent_name p out
      else if out_state out = ''completed'' then
        (case (if assurance then check_completed env p persisted out else None) of
           Some e \<Rightarrow> Inl (Build_content e)
         | None \<Rightarrow> Inr (Task_completed (given_text (out_text out)), cleared_writes))
      else Inr (Task_failed (given_text (out_text out)), [(''task_status'', JStr (out_state out))]))"

text \<open>The fields the client has the host write while it streams.\<close>

definition stream_writes :: "string \<Rightarrow> client_effect list \<Rightarrow> (string \<times> json) list" where
  "stream_writes agent_name effects = concat (map (\<lambda>e. case e of
     Update_state t c \<Rightarrow> [(''agent'', JStr agent_name), (''task_status'', JStr ''submitted''), (''task_id'', t),
       (''a2a_context_id'', c)] | _ \<Rightarrow> []) effects)"

definition call_of :: "stream_call \<Rightarrow> prepared_task \<Rightarrow> stream_call" where
  "call_of connection p = connection\<lparr>call_task_id := prepared_task_id p, call_context_id := prepared_context_id p,
     call_starting := prepared_starting p\<rparr>"

text \<open>
  \<open>send_task\<close> of one session, with the connection of the agent it names and the events its stream would
  yield: the response, the message handed to the connection, if any, and the session it leaves.  \<open>fresh'\<close>
  and \<open>now'\<close> are the identifiers and the time drawn after the stream.
\<close>

definition send_task :: "supervisor_env \<Rightarrow> (string \<Rightarrow> string) \<Rightarrow> instant \<Rightarrow> (string \<Rightarrow> string) \<Rightarrow> instant \<Rightarrow> host_sockets
    \<Rightarrow> json \<Rightarrow> stream_call option \<Rightarrow> string \<Rightarrow> string \<Rightarrow> wire_event list \<Rightarrow> json_object
    \<Rightarrow> task_response \<times> json option \<times> json_object" where
  "send_task env fresh now fresh' now' h session_id client agent_name message events persisted =
     (case (text_or_none session_id, socket_target session_id h, client) of
        (Some _, Inr _, Some connection) \<Rightarrow>
          (case prepare_task env fresh now (call_assurance connection) agent_name message persisted of
             Inl e \<Rightarrow> (Task_error, None, persisted)
           | Inr p \<Rightarrow> (case send_streaming_task (env_from_iso env) (call_of connection p) events of (effects, r) \<Rightarrow>
               (let session = update_state persisted (prepared_writes p @ stream_writes agent_name effects);
                  sent = Some (prepared_payload p) in
                case r of Inl e \<Rightarrow> (Task_error, sent, session)
                | Inr out \<Rightarrow> (case settle_task env fresh' now' (call_assurance connection) agent_name p persisted out of
                    Inl e \<Rightarrow> (Task_error, sent, session)
                  | Inr (response, ws) \<Rightarrow> (response, sent, update_state session ws)))))
      | _ \<Rightarrow> (Task_error, None, persisted))"

end
