(* ===== verification/A2a_Payloads.thy ===== *)
theory A2a_Payloads
  imports A2a_Client Contracts
begin

text \<open>
  What \<open>_canonical_data\<close> accepts: a payload of bounded depth, size and texts without subscriber
  identifiers, in the normal form the second pass through the same checks returns unchanged.  The
  Supervisor's own guards are at least as strict as those of telco-domain.
\<close>

section \<open>Depth\<close>

lemma strict_depth_distinct:
  assumes "distinct (stack_ids st)" and "set (stack_ids st) \<inter> set seen = {}"
  shows "strict_depth_loop st seen m = Inr (depth_loop st seen m)"
  using assms
proof (induction st seen m rule: strict_depth_loop.induct)
  case (2 v d st seen m)
  show ?case
  proof (cases "d > MAX_CANONICAL_DEPTH")
    case True
    then show ?thesis by (simp add: MAX_CANONICAL_DEPTH_def MAX_CONTRACT_DEPTH_def Let_def)
  next
    case False
    note small = False [unfolded MAX_CANONICAL_DEPTH_def] and IH = "2.IH" [OF refl False]
    show ?thesis
    proof (cases "node_children v")
      case None
      then show ?thesis
        using IH(1) [OF None] "2.prems" small node_children_None [OF None]
        by (simp add: MAX_CANONICAL_DEPTH_def MAX_CONTRACT_DEPTH_def Let_def)
    next
      case (Some p)
      obtain i vs where p: "p = (i, vs)" by fastforce
      have fresh: "i \<notin> set seen"
        using "2.prems"(2) node_children_ids [OF Some [unfolded p]] by auto
      have "strict_depth_loop (map (\<lambda>v. (v, d + 1)) (rev vs) @ st) (i # seen) (max m d) =
          Inr (depth_loop (map (\<lambda>v. (v, d + 1)) (rev vs) @ st) (i # seen) (max m d))"
        using node_children_ids [OF Some [unfolded p]] "2.prems"
        by (intro IH(2) [OF Some p [symmetric] fresh]) (auto simp: stack_ids_children)
      then show ?thesis using Some p fresh small
        by (simp add: MAX_CANONICAL_DEPTH_def MAX_CONTRACT_DEPTH_def Let_def)
    qed
  qed
qed simp

lemma a2a_payload_depth_exact: "a2a_payload_depth v = Inr (min (Suc MAX_CANONICAL_DEPTH) (json_depth v))"
  using strict_depth_distinct [of "[(node_of [] v, 1)]" "[]" 1] payload_depth_json [of v] node_ids_node_of(1) [of "[]" v]
  by (simp add: a2a_payload_depth_def payload_depth_def MAX_CANONICAL_DEPTH_def MAX_CONTRACT_DEPTH_def)

section \<open>Texts\<close>

text \<open>Keys and texts of bounded length.\<close>

fun bounded_texts :: "json \<Rightarrow> bool" where
  "bounded_texts (JObj kvs) = list_all (\<lambda>(k, v). length k \<le> MAX_ID_CHARS \<and> bounded_texts v) kvs"
| "bounded_texts (JList vs) = list_all bounded_texts vs"
| "bounded_texts (JStr s) = (length s \<le> MAX_TEXT_CHARS)"
| "bounded_texts _ = True"

definition clean_texts :: "json \<Rightarrow> bool" where
  "clean_texts v \<longleftrightarrow> bounded_texts v \<and> identifier_free v"

lemma clean_empty_value: "is_empty_value v \<Longrightarrow> clean_texts v"
  using find_empty_value [of v] by (auto simp: clean_texts_def is_empty_value_def MAX_TEXT_CHARS_def)

lemma clean_texts_simps:
  "clean_texts (JObj kvs) \<longleftrightarrow> (\<forall>(k, v)\<in>set kvs. reject_key (k, v) = None) \<and> list_all clean_texts (map snd kvs)"
  "clean_texts (JList vs) \<longleftrightarrow> list_all clean_texts vs"
  "clean_texts (JStr s) \<longleftrightarrow> reject_text s = None"
  using clean_empty_value
  by (fastforce simp: clean_texts_def list_all_iff reject_key_def split: if_splits)
    (auto simp: clean_texts_def list_all_iff reject_text_def)

lemma reject_loop_None: "reject_loop st = None \<longleftrightarrow> list_all clean_texts st"
proof (induction st rule: reject_loop.induct)
  case (2 kvs st)
  show ?case
  proof (cases "first_error (map reject_key kvs)")
    case None
    then have "reject_loop (JObj kvs # st) = reject_loop (rev (map snd kvs) @ st)"
      by (simp only: reject_loop.simps option.case)
    moreover have "\<forall>kv\<in>set kvs. reject_key kv = None" using None by simp
    ultimately show ?thesis using "2.IH" [OF None] by (auto simp: clean_texts_simps list_all_iff)
  next
    case (Some e)
    then have "Some e \<in> reject_key ` set kvs" using first_error_Some [OF Some] by simp
    then have "\<exists>kv\<in>set kvs. reject_key kv \<noteq> None" by (metis imageE option.distinct(1))
    with Some show ?thesis by (auto simp: clean_texts_simps)
  qed
next
  case (4 s st)
  then show ?case by (cases "reject_text s") (simp_all add: clean_texts_simps)
qed (auto simp: clean_texts_simps list_all_iff clean_texts_def)

lemma reject_None: "reject_sensitive_or_oversized_strings v = None \<longleftrightarrow> clean_texts v"
  by (simp add: reject_sensitive_or_oversized_strings_def reject_loop_None)

section \<open>The normal form\<close>

lemma sort_key_twice: "sort_key f (sort_key f xs) = sort_key f xs"
  by (rule sort_key_id_if_sorted) simp

lemma fst_mapped: "fst \<circ> (\<lambda>(k, v). (k, f v)) = fst"
  by auto

lemma loaded_obj: "loaded (JObj kvs) = JObj (map (\<lambda>(k, v). (k, loaded v)) (sort_key fst kvs))"
  by (simp add: sort_key_map_commute fst_mapped)

lemma json_text_obj: "json_text (JObj kvs) = ''{'' @ join '','' (map (\<lambda>(k, v). json_quote k @ '':'' @ json_text v)
    (sort_key fst kvs)) @ ''}''"
  by (simp add: sort_key_map_commute fst_mapped case_prod_unfold comp_def)

lemma sorted_loaded: "sort_key fst (map (\<lambda>(k, v). (k, f v)) (sort_key fst kvs)) = map (\<lambda>(k, v). (k, f v)) (sort_key fst kvs)"
  by (simp add: sort_key_map_commute fst_mapped sort_key_twice)

lemma json_text_loaded: "json_text (loaded v) = json_text v"
proof (induction v rule: loaded.induct)
  case (1 kvs)
  then have "map (\<lambda>(k, v). json_quote k @ '':'' @ json_text v) (map (\<lambda>(k, v). (k, loaded v)) (sort_key fst kvs)) =
      map (\<lambda>(k, v). json_quote k @ '':'' @ json_text v) (sort_key fst kvs)"
    by auto
  then show ?case unfolding loaded_obj json_text_obj sorted_loaded by (rule arg_cong)
next
  case (2 vs)
  then show ?case by (simp cong: map_cong)
qed simp_all

lemma loaded_loaded: "loaded (loaded v) = loaded v"
proof (induction v rule: loaded.induct)
  case (1 kvs)
  then have "map (\<lambda>(k, v). (k, loaded v)) (map (\<lambda>(k, v). (k, loaded v)) (sort_key fst kvs)) =
      map (\<lambda>(k, v). (k, loaded v)) (sort_key fst kvs)"
    by auto
  then show ?case unfolding loaded_obj sorted_loaded by (rule arg_cong)
next
  case (2 vs)
  then show ?case by (simp cong: map_cong)
qed simp_all

lemma serializable_loaded: "json_serializable (loaded v) = json_serializable v"
  by (induction v rule: loaded.induct) (fastforce simp: loaded_obj list_all_iff set_sort simp del: loaded.simps(1))+

lemma foldr_max_mset: "mset xs = mset ys \<Longrightarrow> foldr max xs (0 :: nat) = foldr max ys 0"
proof -
  have fold: "foldr max zs (0 :: nat) = Max (insert 0 (set zs))" for zs
  proof (induction zs)
    case (Cons z zs)
    have "Max (insert z (insert 0 (set zs))) = max z (Max (insert 0 (set zs)))" by (rule Max_insert) simp_all
    then show ?case using Cons by (simp add: insert_commute)
  qed simp
  assume "mset xs = mset ys"
  then show ?thesis unfolding fold using mset_eq_setD by metis
qed

lemma depth_loaded: "json_depth (loaded v) = json_depth v"
proof (induction v rule: loaded.induct)
  case (1 kvs)
  then have "map (\<lambda>(k, v). json_depth v) (map (\<lambda>(k, v). (k, loaded v)) kvs) = map (\<lambda>(k, v). json_depth v) kvs"
    by auto
  moreover have "mset (map (\<lambda>(k, v). json_depth v) (map (\<lambda>(k, v). (k, loaded v)) (sort_key fst kvs))) =
      mset (map (\<lambda>(k, v). json_depth v) (map (\<lambda>(k, v). (k, loaded v)) kvs))"
    by (simp only: mset_map mset_sort)
  ultimately show ?case unfolding loaded_obj json_depth.simps using foldr_max_mset by metis
next
  case (2 vs)
  then show ?case by (simp cong: map_cong)
qed simp_all

lemma loaded_object: "is_object v \<Longrightarrow> loaded v = JObj (entries_of_json (loaded v))"
  by (cases v) (simp_all add: is_object_def entries_of_json_def)

text \<open>The checks see a payload only through its normal form.\<close>

lemma canonical_data_loaded:
  assumes "is_object v"
  shows "canonical_data from_iso (loaded v) = canonical_data from_iso v"
proof -
  have "is_object (loaded v)" by (subst loaded_object [OF assms]) (simp add: is_object_def)
  with assms show ?thesis
    by (simp add: canonical_data_def a2a_payload_depth_exact depth_loaded json_dumps_def serializable_loaded
        json_text_loaded loaded_loaded)
qed

section \<open>What is accepted\<close>

lemma in_names_True: "in_names names v = Inr True \<longleftrightarrow> (\<exists>s\<in>set names. v = JStr s)"
  by (cases v) (auto simp: in_names_def)

lemma canonical_data_Inr:
  "canonical_data from_iso v = Inr (d, encoded) \<longleftrightarrow> is_object v \<and> json_depth v \<le> MAX_CANONICAL_DEPTH \<and>
     json_serializable v \<and> encoded = json_text v \<and> utf8_length encoded \<le> MAX_CANONICAL_BYTES \<and>
     d = entries_of_json (loaded v) \<and> (\<exists>ty\<in>set A2A_ASSURANCE_MESSAGE_TYPES. entry ''message_type'' d = JStr ty \<and>
       validate_decoded from_iso ty d = None)"
proof -
  have names: "(case in_names ns w of Inl e \<Rightarrow> Inl e | Inr known \<Rightarrow> if \<not> known then Inl x else f) = Inr r \<longleftrightarrow>
      (\<exists>s\<in>set ns. w = JStr s) \<and> f = Inr r" for ns w x f and r :: "json_object \<times> string"
    by (auto simp: in_names_True [symmetric] split: sum.splits)
  have decided: "(case e of Some x \<Rightarrow> Inl x | None \<Rightarrow> Inr r) = Inr r' \<longleftrightarrow> e = None \<and> r = r'"
    for e :: "content_error option" and r r' :: "json_object \<times> string"
    by (auto split: option.splits)
  show ?thesis
    unfolding canonical_data_def a2a_payload_depth_exact json_dumps_def Let_def
    by (simp add: names decided) (auto simp: text_of_json_def)
qed

lemma validate_decoded_parts:
  assumes "validate_decoded from_iso ty d = None"
  shows "fst ` set d = set (A2A_MESSAGE_FIELDS ty)" and "clean_texts (JObj d)"
    and "a2a_timestamp from_iso ''sent_at'' (entry ''sent_at'' d) = None"
  using assms by (auto simp: validate_decoded_def Let_def strict_object_def reject_None entries_of_json_def)

lemma accepted_normal_form:
  assumes "canonical_data from_iso v = Inr (d, encoded)"
  shows "loaded v = JObj d" and "is_object v"
  using assms loaded_object [of v] by (auto simp: canonical_data_Inr)

section \<open>Accepting a payload\<close>

text \<open>A criterion that computes fast: keys and texts in which no subscriber label begins.\<close>

fun plain_payload :: "json \<Rightarrow> bool" where
  "plain_payload (JObj kvs) = list_all (\<lambda>(k, v). plain_key k \<and> length k \<le> MAX_ID_CHARS \<and> plain_payload v) kvs"
| "plain_payload (JList vs) = list_all plain_payload vs"
| "plain_payload (JStr s) = (no_label s \<and> length s \<le> MAX_TEXT_CHARS)"
| "plain_payload _ = True"

lemma plain_payload_clean: "plain_payload v \<Longrightarrow> clean_texts v"
  unfolding clean_texts_def
  by (induction v rule: plain_payload.induct)
    (fastforce simp: list_all_iff no_label_clean plain_key_def)+

lemma validate_decodedI:
  assumes "strict_object (A2A_MESSAGE_FIELDS ty) ty (JObj d) = None" and "plain_payload (JObj d)"
    and "list_all (\<lambda>name. validate_required_text d name = None) A2A_COMMON_FIELDS"
    and "entry ''schema_version'' d = JStr ''1.0''" and "a2a_timestamp from_iso ''sent_at'' (entry ''sent_at'' d) = None"
    and "distinct (map (\<lambda>key. entry key d) [''message_id'', ''workflow_id'', ''trace_id'', ''idempotency_key''])"
    and "validate_assurance_payload from_iso d = None" and "ty \<noteq> ''assurance_error''"
  shows "validate_decoded from_iso ty d = None"
  using assms reject_None plain_payload_clean [OF assms(2)]
  by (simp add: validate_decoded_def Let_def list_all_iff)

lemma canonical_dataI:
  assumes "loaded (JObj d) = JObj d" and "json_depth (JObj d) \<le> MAX_CANONICAL_DEPTH" and "json_serializable (JObj d)"
    and "json_bytes (JObj d) \<le> MAX_CANONICAL_BYTES" and "ty \<in> set A2A_ASSURANCE_MESSAGE_TYPES"
    and "entry ''message_type'' d = JStr ty" and "validate_decoded from_iso ty d = None"
  shows "canonical_data from_iso (JObj d) = Inr (d, json_text (JObj d))"
  using assms json_bytes_bound [of "JObj d"]
  by (auto simp: canonical_data_Inr is_object_def entries_of_json_def)

text \<open>
  C26: What \<open>_canonical_data\<close> accepts lies within the bounds the domain sets for its own messages and
  discloses no subscriber identifier: the domain's budget and privacy guards accept it too, its keys and
  texts are bounded, and it has exactly the fields of its message type.
\<close>
theorem canonical_payload_is_guarded:
  assumes "canonical_data from_iso v = Inr (d, encoded)"
  shows "assert_payload_budget (JObj d) = None \<and> assert_model_safe (JObj d) = None \<and> bounded_texts (JObj d) \<and>
    json_dumps (JObj d) = Some encoded \<and> utf8_length encoded \<le> MAX_CANONICAL_BYTES \<and>
    (\<exists>ty\<in>set A2A_ASSURANCE_MESSAGE_TYPES. entry ''message_type'' d = JStr ty \<and> fst ` set d = set (A2A_MESSAGE_FIELDS ty))"
proof -
  note form = accepted_normal_form [OF assms]
  have "json_text (JObj d) = json_text v" "json_depth (JObj d) = json_depth v" "json_serializable (JObj d) = json_serializable v"
    using json_text_loaded [of v] depth_loaded [of v] serializable_loaded [of v] unfolding form(1) by simp_all
  moreover obtain ty where ty: "ty \<in> set A2A_ASSURANCE_MESSAGE_TYPES" "entry ''message_type'' d = JStr ty"
      "validate_decoded from_iso ty d = None"
    using assms by (auto simp: canonical_data_Inr)
  moreover have "encoded = json_text v" "utf8_length encoded \<le> MAX_CANONICAL_BYTES" "json_serializable v"
      "json_depth v \<le> MAX_CANONICAL_DEPTH"
    using assms unfolding canonical_data_Inr by blast+
  moreover have "clean_texts (JObj d)" "fst ` set d = set (A2A_MESSAGE_FIELDS ty)"
    using validate_decoded_parts [OF ty(3)] by simp_all
  ultimately show ?thesis
    unfolding assert_payload_budget_None assert_model_safe_iff clean_texts_def json_dumps_def
      MAX_CANONICAL_DEPTH_def MAX_CONTRACT_DEPTH_def MAX_CANONICAL_BYTES_def MAX_CONTRACT_SERIALIZED_BYTES_def
    by auto
qed

lemma accepted_again:
  assumes "canonical_data from_iso v = Inr (d, encoded)"
  shows "canonical_data from_iso (JObj d) = Inr (d, encoded)"
  using canonical_data_loaded [OF accepted_normal_form(2) [OF assms]] accepted_normal_form(1) [OF assms] assms by metis

text \<open>
  C27: Canonical data is a normal form: accepted data is accepted again, unchanged and with the same
  bytes, and so is every payload that differs from an accepted one in the order of its keys only.
\<close>
theorem canonical_data_is_stable:
  assumes "canonical_data from_iso v = Inr (d, encoded)" and "is_object w" and "loaded w = loaded v"
  shows "canonical_data from_iso w = Inr (d, encoded) \<and> canonical_data from_iso (JObj d) = Inr (d, encoded)"
  using canonical_data_loaded [OF assms(2)] canonical_data_loaded [OF accepted_normal_form(2) [OF assms(1)]]
    assms(1,3) accepted_again [OF assms(1)] by metis

end
