(* ===== verification/Supervisor_Properties.thy ===== *)
theory Supervisor_Properties
  imports Supervisor_Session A2a_Payloads
begin

text \<open>
  What the Supervisor may tell the assurance agent.  A confirmation is bound to the candidate page it was
  built from, and whatever handlers run on a session, interleaved at every field they write, it only ever
  sends a decision that a user made with the approval tool.
\<close>

section \<open>Fields of the normal form\<close>

lemma map_of_sorted: "map_of (sort_key fst d) = map_of d"
proof
  fix k
  have first: "map_of xs k = map_of (filter (\<lambda>p. fst p = k) xs) k" for xs :: "('a \<times> 'b) list"
    by (induction xs) auto
  show "map_of (sort_key fst d) k = map_of d k"
    using first [of "sort_key fst d"] first [of d] by (simp add: sort_key_stable)
qed

lemma entry_loaded: "entry key (entries_of_json (loaded (JObj kvs))) = loaded (entry key kvs)"
proof -
  have "map_of (map (\<lambda>(k, v). (k, loaded v)) kvs) key = map_option loaded (map_of kvs key)"
    by (induction kvs) auto
  then show ?thesis
    unfolding loaded_obj entry_def entry_or_def
    by (auto simp: entries_of_json_def map_of_map map_of_sorted split: option.splits)
qed

lemma same_dict_entry: "same_dict c d \<Longrightarrow> entry key c = entry key d"
  using map_of_sorted by (metis same_dict_def entry_def entry_or_def)

section \<open>Confirmations\<close>

text \<open>A confirmation of a page: its identifiers are the page's, its decision is the user's.\<close>

definition the_candidate :: "json_object \<Rightarrow> json_object" where
  "the_candidate pg = entries_of_json (hd (items_of_json (entry ''candidates'' pg)))"

definition confirms :: "json_object \<Rightarrow> bool \<Rightarrow> json_object \<Rightarrow> bool" where
  "confirms pg approved c \<longleftrightarrow> entry ''message_type'' c = JStr ''assurance_confirmation_request'' \<and>
     entry ''decision'' c = JStr (if approved then ''CONFIRM'' else ''REJECT'') \<and>
     entry ''preview_message_id'' c = entry ''message_id'' pg \<and>
     entry ''candidate_id'' c = entry ''candidate_id'' (the_candidate pg) \<and>
     entry ''challenge_id'' c = entry ''challenge_id'' pg \<and> entry ''snapshot_sha256'' c = entry ''snapshot_sha256'' pg \<and>
     entry ''workflow_id'' c = entry ''workflow_id'' pg \<and> entry ''trace_id'' c = entry ''trace_id'' pg"

lemma page_identifier_text: "page_identifier name v = None \<Longrightarrow> \<exists>s. v = JStr s"
  by (cases v) (simp_all add: page_identifier_def content_unless_def)

lemma pending_page_texts:
  assumes "check_pending_page from_iso pg = None"
  shows "\<forall>(name, v)\<in>set (required_of_page pg (the_candidate pg)). \<exists>s. v = JStr s"
    and "entry ''message_type'' pg = JStr ''assurance_candidate_page''"
    and "length (items_of_json (entry ''candidates'' pg)) = 1"
  using assms page_identifier_text
  by (fastforce simp: check_pending_page_def Let_def the_candidate_def content_unless_def)+

lemma build_confirmation_Inr:
  assumes "build_assurance_confirmation_request from_iso fresh now candidate_page ok why tm mid key = Inr d"
  obtains pg encoded b said sent encoded' where "canonical_data from_iso candidate_page = Inr (pg, encoded)"
    and "ok = JBool b" and "why = JStr said" and "check_pending_page from_iso pg = None"
    and "check_confirmation pg (confirmation_of (required_of_page pg (the_candidate pg)) b said
      (given_or_new fresh ''message'' mid) (given_or_new fresh ''confirm'' key) sent) = None"
    and "canonical_data from_iso (JObj (confirmation_of (required_of_page pg (the_candidate pg)) b said
      (given_or_new fresh ''message'' mid) (given_or_new fresh ''confirm'' key) sent)) = Inr (d, encoded')"
  using assms
  by (auto simp: build_assurance_confirmation_request_def the_candidate_def Let_def
      split: json.splits sum.splits option.splits if_splits)

lemma confirmation_of_entries:
  "entry ''message_type'' (confirmation_of r b said m k sent) = JStr ''assurance_confirmation_request''"
  "entry ''message_id'' (confirmation_of r b said m k sent) = m"
  "entry ''idempotency_key'' (confirmation_of r b said m k sent) = k"
  "entry ''decision'' (confirmation_of r b said m k sent) = JStr (if b then ''CONFIRM'' else ''REJECT'')"
  "entry ''preview_message_id'' (confirmation_of r b said m k sent) = entry ''message_id'' r"
  "entry ''candidate_id'' (confirmation_of r b said m k sent) = entry ''candidate_id'' r"
  "entry ''challenge_id'' (confirmation_of r b said m k sent) = entry ''challenge_id'' r"
  "entry ''snapshot_sha256'' (confirmation_of r b said m k sent) = entry ''snapshot_sha256'' r"
  "entry ''workflow_id'' (confirmation_of r b said m k sent) = entry ''workflow_id'' r"
  "entry ''trace_id'' (confirmation_of r b said m k sent) = entry ''trace_id'' r"
  by (simp_all add: confirmation_of_def entry_def entry_or_def)

lemma required_entries:
  "entry ''candidate_id'' (required_of_page pg c) = entry ''candidate_id'' c"
  "entry ''message_id'' (required_of_page pg c) = entry ''message_id'' pg"
  "entry ''challenge_id'' (required_of_page pg c) = entry ''challenge_id'' pg"
  "entry ''snapshot_sha256'' (required_of_page pg c) = entry ''snapshot_sha256'' pg"
  "entry ''workflow_id'' (required_of_page pg c) = entry ''workflow_id'' pg"
  "entry ''trace_id'' (required_of_page pg c) = entry ''trace_id'' pg"
  by (simp_all add: required_of_page_def entry_def entry_or_def)

lemma confirmation_entries:
  assumes "check_pending_page from_iso pg = None"
    and "d = entries_of_json (loaded (JObj (confirmation_of (required_of_page pg (the_candidate pg)) b said m k sent)))"
  shows "confirms pg b d" and "entry ''message_id'' d = loaded m" and "entry ''idempotency_key'' d = loaded k"
proof -
  have "\<forall>v\<in>snd ` set (required_of_page pg (the_candidate pg)). loaded v = v"
    using pending_page_texts(1) [OF assms(1)] by fastforce
  then have stays: "loaded (entry ''candidate_id'' (the_candidate pg)) = entry ''candidate_id'' (the_candidate pg)"
    "loaded (entry ''message_id'' pg) = entry ''message_id'' pg"
    "loaded (entry ''challenge_id'' pg) = entry ''challenge_id'' pg"
    "loaded (entry ''snapshot_sha256'' pg) = entry ''snapshot_sha256'' pg"
    "loaded (entry ''workflow_id'' pg) = entry ''workflow_id'' pg"
    "loaded (entry ''trace_id'' pg) = entry ''trace_id'' pg"
    by (simp_all add: required_of_page_def)
  show "confirms pg b d" "entry ''message_id'' d = loaded m" "entry ''idempotency_key'' d = loaded k"
    unfolding confirms_def assms(2) entry_loaded confirmation_of_entries required_entries stays by simp_all
qed

lemma confirmation_is_bound_core:
  assumes "build_assurance_confirmation_request from_iso fresh now candidate_page ok why tm mid key = Inr d"
  shows "\<exists>pg encoded b encoded'. canonical_data from_iso candidate_page = Inr (pg, encoded) \<and>
    entry ''message_type'' pg = JStr ''assurance_candidate_page'' \<and> length (items_of_json (entry ''candidates'' pg)) = 1 \<and>
    ok = JBool b \<and> confirms pg b d \<and> canonical_data from_iso (JObj d) = Inr (d, encoded') \<and>
    entry ''message_id'' d \<noteq> entry ''message_id'' pg \<and> entry ''idempotency_key'' d \<noteq> entry ''idempotency_key'' pg"
proof -
  obtain pg encoded b said sent encoded' where pg: "canonical_data from_iso candidate_page = Inr (pg, encoded)"
      "ok = JBool b" "check_pending_page from_iso pg = None" and
    result: "check_confirmation pg (confirmation_of (required_of_page pg (the_candidate pg)) b said
        (given_or_new fresh ''message'' mid) (given_or_new fresh ''confirm'' key) sent) = None"
      "canonical_data from_iso (JObj (confirmation_of (required_of_page pg (the_candidate pg)) b said
        (given_or_new fresh ''message'' mid) (given_or_new fresh ''confirm'' key) sent)) = Inr (d, encoded')"
    by (rule build_confirmation_Inr [OF assms])
  have d: "d = entries_of_json (loaded (JObj (confirmation_of (required_of_page pg (the_candidate pg)) b said
        (given_or_new fresh ''message'' mid) (given_or_new fresh ''confirm'' key) sent)))"
    using result(2) by (simp add: canonical_data_Inr)
  note entries = confirmation_entries [OF pg(3) d]
  have hashed: "loaded v = v" if "hashable v" for v
    using that by (cases v) (simp_all add: hashable_def)
  have "entry ''message_id'' d \<noteq> entry ''message_id'' pg" "entry ''idempotency_key'' d \<noteq> entry ''idempotency_key'' pg"
    using result(1) hashed unfolding entries(2,3)
    by (auto simp: check_confirmation_def confirmation_of_entries content_unless_def)
  moreover have "canonical_data from_iso (JObj d) = Inr (d, encoded')"
    using accepted_again [OF result(2)] .
  ultimately show ?thesis
    using pg entries(1) pending_page_texts(2,3) [OF pg(3)] by blast
qed

text \<open>
  C8: A confirmation the Supervisor builds is bound to the candidate page it holds: the page is a
  canonical candidate page with exactly one candidate, the confirmation names that candidate, the
  challenge, the snapshot and the workflow of the page, its decision is the boolean it was given, its own
  message and idempotency key are new, and it is canonical itself.
\<close>
theorem confirmation_is_bound:
  assumes "build_assurance_confirmation_request from_iso fresh now candidate_page ok why tm mid key = Inr d"
  shows "\<exists>pg encoded b encoded'. canonical_data from_iso candidate_page = Inr (pg, encoded) \<and>
    entry ''message_type'' pg = JStr ''assurance_candidate_page'' \<and> length (items_of_json (entry ''candidates'' pg)) = 1 \<and>
    ok = JBool b \<and> confirms pg b d \<and> canonical_data from_iso (JObj d) = Inr (d, encoded') \<and>
    entry ''message_id'' d \<noteq> entry ''message_id'' pg \<and> entry ''idempotency_key'' d \<noteq> entry ''idempotency_key'' pg"
  using confirmation_is_bound_core [OF assms] .

section \<open>Decisions on a session\<close>

text \<open>
  A session with what its handlers did: \<open>sv_read\<close> are the states a handler may have read, the present one
  and all before, since a handler waits between its reads and its writes; \<open>sv_clicks\<close> are the pages and
  the approval results of the tool calls that became trusted decisions; \<open>sv_sent\<close> are the messages handed
  to connections, and whether to the assurance agent.
\<close>

record supervised =
  sv_session :: json_object
  sv_read :: "json_object list"
  sv_clicks :: "(json \<times> json) list"
  sv_sent :: "(bool \<times> json) list"

definition wrote :: "supervised \<Rightarrow> string \<times> json \<Rightarrow> supervised" where
  "wrote v kv = v\<lparr>sv_session := write_field (sv_session v) kv, sv_read := write_field (sv_session v) kv # sv_read v\<rparr>"

definition fresh_session :: supervised where
  "fresh_session = \<lparr>sv_session = [], sv_read = [[]], sv_clicks = [], sv_sent = []\<rparr>"

text \<open>
  One write of one field, or one message handed over.  A handler may act on any state it has read and may
  stop after any of its writes, so the steps cover every interleaving of \<open>handleToolResult\<close> and \<open>send_task\<close>.
\<close>

inductive host_step :: "supervisor_env \<Rightarrow> supervised \<Rightarrow> supervised \<Rightarrow> bool" for env where
  trust: "s \<in> set (sv_read v) \<Longrightarrow> tool_decision env fresh now call_id tool_name content s = Inr (Some t) \<Longrightarrow>
    host_step env v ((wrote v (''trusted_assurance_decision'', json_of_decision t))
      \<lparr>sv_clicks := (entry ''pending_assurance'' s, content) # sv_clicks v\<rparr>)"
| prepare: "s \<in> set (sv_read v) \<Longrightarrow> prepare_task env fresh now assurance agent_name message s = Inr p \<Longrightarrow>
    kv \<in> set (prepared_writes p) \<Longrightarrow> host_step env v (wrote v kv)"
| hand_over: "s \<in> set (sv_read v) \<Longrightarrow> prepare_task env fresh now assurance agent_name message s = Inr p \<Longrightarrow>
    host_step env v (v\<lparr>sv_sent := (assurance, prepared_payload p) # sv_sent v\<rparr>)"
| stream: "kv \<in> set (stream_writes agent_name effects) \<Longrightarrow> host_step env v (wrote v kv)"
| settle: "s \<in> set (sv_read v) \<Longrightarrow> settle_task env fresh now assurance agent_name p s out = Inr (response, ws) \<Longrightarrow>
    kv \<in> set ws \<Longrightarrow> host_step env v (wrote v kv)"

text \<open>A click on a page, and the confirmation it stands for.\<close>

definition click_confirms :: "supervisor_env \<Rightarrow> json \<times> json \<Rightarrow> bool \<Rightarrow> json_object \<Rightarrow> bool" where
  "click_confirms env click approved c \<longleftrightarrow> parse_trusted_approval (env_json_loads env) (snd click) = Inr approved \<and>
     (\<exists>pg encoded. canonical_data (env_from_iso env) (fst click) = Inr (pg, encoded) \<and> confirms pg approved c)"

definition decision_clicked :: "supervisor_env \<Rightarrow> (json \<times> json) list \<Rightarrow> json_object \<Rightarrow> bool" where
  "decision_clicked env clicks s \<longleftrightarrow> entry ''trusted_assurance_decision'' s = JNull \<or>
     (\<exists>t. entry ''trusted_assurance_decision'' s = json_of_decision t \<and>
       (\<exists>click\<in>set clicks. click_confirms env click (decision_approved t) (confirmation_data t)))"

lemma confirms_same: "(\<And>key. entry key c = entry key d) \<Longrightarrow> confirms pg b c = confirms pg b d"
  by (simp add: confirms_def)

lemma existing_decision_clicked:
  assumes "existing_decision env fresh now call_id approved pending existing = Inr t"
  shows "decision_approved t = approved \<and> (\<exists>pg encoded. canonical_data (env_from_iso env) pending = Inr (pg, encoded) \<and>
    confirms pg approved (confirmation_data t))"
proof -
  let ?c = "entries_of_json (entry ''confirmation_data'' (entries_of_json existing))"
  obtain tm d where built: "build_assurance_confirmation_request (env_from_iso env) fresh now pending (JBool approved)
        (JStr (env_reason env approved)) tm (entry ''message_id'' ?c) (entry ''idempotency_key'' ?c) = Inr d"
      "same_dict ?c d" "confirmation_data t = ?c" "decision_approved t = approved"
    using assms by (auto simp: existing_decision_def Let_def split: if_splits json.splits option.splits sum.splits)
  show ?thesis
    using confirmation_is_bound_core [OF built(1)] confirms_same [OF same_dict_entry [OF built(2)]] built(3,4) by auto
qed

lemma tool_decision_clicked:
  assumes "tool_decision env fresh now call_id tool_name content s = Inr (Some t)"
  shows "click_confirms env (entry ''pending_assurance'' s, content) (decision_approved t) (confirmation_data t)"
proof -
  obtain approved where approved: "parse_trusted_approval (env_json_loads env) content = Inr approved"
    "(if entry ''trusted_assurance_decision'' s \<noteq> JNull
       then existing_decision env fresh now call_id approved (entry ''pending_assurance'' s) (entry ''trusted_assurance_decision'' s)
       else build_trusted_assurance_decision (env_from_iso env) (env_json_loads env) (env_reason env) fresh now
         (entry ''pending_assurance'' s) (JStr call_id) tool_name content) = Inr t"
    using assms by (auto simp: tool_decision_def Let_def map_sum_def split: if_splits sum.splits)
  show ?thesis
  proof (cases "entry ''trusted_assurance_decision'' s = JNull")
    case True
    then obtain d where "build_assurance_confirmation_request (env_from_iso env) fresh now (entry ''pending_assurance'' s)
        (JBool approved) (JStr (env_reason env approved)) No_time JNull JNull = Inr d"
        "confirmation_data t = d" "decision_approved t = approved"
      using approved by (auto simp: build_trusted_assurance_decision_def split: if_splits option.splits sum.splits)
    then show ?thesis using confirmation_is_bound_core approved(1) by (fastforce simp: click_confirms_def)
  next
    case False
    then show ?thesis using approved existing_decision_clicked by (fastforce simp: click_confirms_def)
  qed
qed

text \<open>The structured data of a message the Supervisor hands over.\<close>

definition sent_data :: "json \<Rightarrow> json_object" where
  "sent_data payload = entries_of_json (entry ''data'' (entries_of_json (hd (items_of_json (entry ''parts''
     (entries_of_json (entry ''message'' (entries_of_json payload))))))))"

lemma data_message_sent:
  "create_data_message_payload from_iso data task_id context_id shown = Inr payload \<Longrightarrow> sent_data payload = data"
  by (auto simp: create_data_message_payload_def Let_def sent_data_def user_message_def entry_def entry_or_def
      entries_of_json_def items_of_json_def split: if_splits sum.splits)

lemma json_of_decision_entries:
  "entries_of_json (entry ''confirmation_data'' (entries_of_json (json_of_decision t))) = confirmation_data t"
  "entry ''approved'' (entries_of_json (json_of_decision t)) = JBool (decision_approved t)"
  by (simp_all add: json_of_decision_def entry_def entry_or_def entries_of_json_def)

lemma confirmation_fields:
  assumes "canonical_data from_iso (JObj d) = Inr (d, encoded)" and "confirms pg b d"
  shows "fst ` set d = set (A2A_MESSAGE_FIELDS ''assurance_confirmation_request'')"
proof -
  obtain ty where "entry ''message_type'' d = JStr ty" "validate_decoded from_iso ty d = None"
    using assms(1) unfolding canonical_data_Inr by blast
  then show ?thesis using assms(2) validate_decoded_parts(1) by (auto simp: confirms_def)
qed

lemma checked_confirmation_Inr:
  assumes "checked_confirmation env fresh now s = Inr c" and "decision_clicked env clicks s"
  shows "\<exists>b. (\<exists>click\<in>set clicks. click_confirms env click b c) \<and>
    (\<exists>pg encoded. canonical_data (env_from_iso env) (entry ''pending_assurance'' s) = Inr (pg, encoded) \<and> confirms pg b c)"
proof -
  let ?t = "entry ''trusted_assurance_decision'' s"
  have c: "c = entries_of_json (persisted_confirmation s)" "is_object ?t"
    using assms(1) by (auto simp: checked_confirmation_def Let_def split: if_splits sum.splits)
  obtain expected where rebuilt: "rebuilt_confirmation env fresh now s = Inr expected" and same: "same_but_time c expected"
    using assms(1) by (auto simp: checked_confirmation_def Let_def split: if_splits sum.splits)
  obtain said m k where
    built: "build_assurance_confirmation_request (env_from_iso env) fresh now (entry ''pending_assurance'' s)
        (entry ''approved'' (entries_of_json ?t)) said No_time m k = Inr expected"
    using rebuilt unfolding rebuilt_confirmation_def Let_def by blast
  from c(2) have "?t \<noteq> JNull" by (auto simp: is_object_def)
  then obtain t click where t: "?t = json_of_decision t" "click \<in> set clicks"
      "click_confirms env click (decision_approved t) (confirmation_data t)"
    using assms(2) by (auto simp: decision_clicked_def)
  have "c = confirmation_data t" "entry ''approved'' (entries_of_json ?t) = JBool (decision_approved t)"
    unfolding c(1) persisted_confirmation_def t(1) json_of_decision_entries by simp_all
  moreover obtain pg encoded encoded' where pg: "canonical_data (env_from_iso env) (entry ''pending_assurance'' s) = Inr (pg, encoded)"
      "confirms pg (decision_approved t) expected" "canonical_data (env_from_iso env) (JObj expected) = Inr (expected, encoded')"
    using confirmation_is_bound_core [OF built] calculation(2) by auto
  moreover have "confirms pg (decision_approved t) c"
  proof -
    have "entry key c = entry key expected" if "key \<in> set (A2A_MESSAGE_FIELDS ''assurance_confirmation_request'')"
        "key \<noteq> ''sent_at''" for key
      using same that confirmation_fields [OF pg(3,2)] by (auto simp: same_but_time_def list_all_iff)
    then show ?thesis using pg(2) by (simp add: confirms_def A2A_MESSAGE_FIELDS_def A2A_COMMON_FIELDS_def)
  qed
  ultimately show ?thesis using t(2,3) by blast
qed

lemma prepared_message:
  assumes "prepare_task env fresh now True agent_name message s = Inr p" and "decision_clicked env clicks s"
  shows "entry ''message_type'' (sent_data (prepared_payload p)) = JStr ''assurance_scan_request'' \<or>
    (\<exists>b. (\<exists>click\<in>set clicks. click_confirms env click b (sent_data (prepared_payload p))) \<and>
      (\<exists>pg encoded. canonical_data (env_from_iso env) (entry ''pending_assurance'' s) = Inr (pg, encoded) \<and>
        confirms pg b (sent_data (prepared_payload p))))"
proof (cases "text_or_none (entry ''task_id'' s) = None")
  case True
  then obtain scan where "build_assurance_scan_request (env_from_iso env) fresh now No_time None None = Inr scan"
      "sent_data (prepared_payload p) = scan_data scan"
    using assms(1) by (auto simp: prepare_task_def prepare_scan_def Let_def data_message_sent split: sum.splits)
  then have "entry ''message_type'' (sent_data (prepared_payload p)) = JStr ''assurance_scan_request''"
    by (auto simp: build_assurance_scan_request_def scan_request_data_def entry_def entry_or_def
        split: option.splits sum.splits if_splits)
  then show ?thesis ..
next
  case False
  then obtain c where "checked_confirmation env fresh now s = Inr c" "sent_data (prepared_payload p) = c"
    using assms(1) by (auto simp: prepare_task_def prepare_confirmation_def Let_def data_message_sent
        split: sum.splits if_splits)
  then show ?thesis using checked_confirmation_Inr [OF _ assms(2)] by blast
qed

lemma decision_fields_cleared:
  "prepare_task env fresh now assurance agent_name message s = Inr p \<Longrightarrow> kv \<in> set (prepared_writes p) \<Longrightarrow>
     fst kv = ''trusted_assurance_decision'' \<Longrightarrow> snd kv = JNull"
  "kv \<in> set (stream_writes agent_name effects) \<Longrightarrow> fst kv \<noteq> ''trusted_assurance_decision''"
  "settle_task env fresh now assurance agent_name p s out = Inr (response, ws) \<Longrightarrow> kv \<in> set ws \<Longrightarrow>
     fst kv = ''trusted_assurance_decision'' \<Longrightarrow> snd kv = JNull"
  by (auto simp: prepare_task_def prepare_text_def prepare_scan_def prepare_confirmation_def Let_def
      split: if_splits sum.splits)
    (auto simp: stream_writes_def settle_task_def settle_waiting_def waiting_writes_def cleared_writes_def Let_def
      split: client_effect.splits if_splits sum.splits option.splits)

lemma write_field_entry: "entry key (write_field s kv) = (if key = fst kv then snd kv else entry key s)"
  by (simp add: write_field_def entry_def entry_or_def update_conv)

text \<open>What a message to the assurance agent may be.\<close>

definition message_allowed :: "supervisor_env \<Rightarrow> supervised \<Rightarrow> json \<Rightarrow> bool" where
  "message_allowed env v payload \<longleftrightarrow> entry ''message_type'' (sent_data payload) = JStr ''assurance_scan_request'' \<or>
     (\<exists>b. (\<exists>click\<in>set (sv_clicks v). click_confirms env click b (sent_data payload)) \<and>
       (\<exists>s\<in>set (sv_read v). \<exists>pg encoded. canonical_data (env_from_iso env) (entry ''pending_assurance'' s) = Inr (pg, encoded) \<and>
         confirms pg b (sent_data payload)))"

definition host_inv :: "supervisor_env \<Rightarrow> supervised \<Rightarrow> bool" where
  "host_inv env v \<longleftrightarrow> sv_session v \<in> set (sv_read v) \<and> (\<forall>s\<in>set (sv_read v). decision_clicked env (sv_clicks v) s) \<and>
     (\<forall>payload. (True, payload) \<in> set (sv_sent v) \<longrightarrow> message_allowed env v payload)"

lemma message_allowed_mono:
  assumes "message_allowed env v payload" and "set (sv_clicks v) \<subseteq> set (sv_clicks w)" and "set (sv_read v) \<subseteq> set (sv_read w)"
  shows "message_allowed env w payload"
  using assms unfolding message_allowed_def by blast

lemma decision_clicked_mono:
  "decision_clicked env clicks s \<Longrightarrow> set clicks \<subseteq> set clicks' \<Longrightarrow> decision_clicked env clicks' s"
  unfolding decision_clicked_def by blast

lemma inv_wrote:
  assumes "host_inv env v" and "fst kv = ''trusted_assurance_decision'' \<Longrightarrow> snd kv = JNull"
  shows "host_inv env (wrote v kv)"
proof -
  have "decision_clicked env (sv_clicks v) (write_field (sv_session v) kv)"
    using assms unfolding host_inv_def decision_clicked_def write_field_entry by (auto split: if_splits)
  then show ?thesis
    using assms(1) message_allowed_mono [of env v _ "wrote v kv"] unfolding host_inv_def
    by (auto simp: wrote_def)
qed

lemma host_step_inv: "host_step env v w \<Longrightarrow> host_inv env v \<Longrightarrow> host_inv env w"
proof (induction rule: host_step.induct)
  case (trust s v fresh now call_id tool_name content t)
  let ?click = "(entry ''pending_assurance'' s, content)"
  let ?s = "write_field (sv_session v) (''trusted_assurance_decision'', json_of_decision t)"
  have "decision_clicked env (?click # sv_clicks v) ?s"
    using tool_decision_clicked [OF trust.hyps(2)] unfolding decision_clicked_def write_field_entry by auto
  then show ?case
    using trust.prems decision_clicked_mono [of env "sv_clicks v" _ "?click # sv_clicks v"]
      message_allowed_mono [of env v _ "wrote v (''trusted_assurance_decision'', json_of_decision t)
        \<lparr>sv_clicks := ?click # sv_clicks v\<rparr>"]
    unfolding host_inv_def by (auto simp: wrote_def)
next
  case (hand_over s v fresh now assurance agent_name message p)
  have "message_allowed env (v\<lparr>sv_sent := (assurance, prepared_payload p) # sv_sent v\<rparr>) (prepared_payload p)" if "assurance"
  proof -
    have "prepare_task env fresh now True agent_name message s = Inr p" using hand_over.hyps(2) that by simp
    moreover have "decision_clicked env (sv_clicks v) s" using hand_over.hyps(1) hand_over.prems unfolding host_inv_def by blast
    ultimately have "message_allowed env v (prepared_payload p)"
      using prepared_message hand_over.hyps(1) unfolding message_allowed_def by blast
    then show ?thesis by (rule message_allowed_mono) simp_all
  qed
  then show ?case
    using hand_over.prems message_allowed_mono [of env v _ "v\<lparr>sv_sent := (assurance, prepared_payload p) # sv_sent v\<rparr>"]
    unfolding host_inv_def by auto
next
  case (prepare s v fresh now assurance agent_name message p kv)
  then show ?case using inv_wrote decision_fields_cleared(1) by blast
next
  case (stream kv agent_name effects v)
  then show ?case using inv_wrote decision_fields_cleared(2) by blast
next
  case (settle s v fresh now assurance agent_name p out response ws kv)
  then show ?case using inv_wrote decision_fields_cleared(3) by blast
qed

lemma reachable_host_inv: "(host_step env)\<^sup>*\<^sup>* fresh_session v \<Longrightarrow> host_inv env v"
proof (induction rule: rtranclp_induct)
  case base
  show ?case by (simp add: host_inv_def fresh_session_def decision_clicked_def entry_def entry_or_def)
next
  case (step v w)
  then show ?case using host_step_inv by blast
qed

text \<open>
  C7: Whatever handlers ran on a session, interleaved at each of their writes and stopped anywhere, a
  message the Supervisor handed to the assurance agent is a scan request or carries a decision a user
  made: there is an approval result of the approval tool with that boolean for a page the confirmation
  names by its candidate, challenge and snapshot, and the confirmation also names the page that was
  pending when the message was prepared.
\<close>
theorem only_clicked_decisions_are_sent:
  assumes "(host_step env)\<^sup>*\<^sup>* fresh_session v" and "(True, payload) \<in> set (sv_sent v)"
  shows "message_allowed env v payload"
  using reachable_host_inv [OF assms(1)] assms(2) unfolding host_inv_def by blast

end
