(* ===== verification/A2a_Properties.thy ===== *)
theory A2a_Properties
  imports A2a_Client
begin

text \<open>
  What the Supervisor's A2A boundary guarantees: which event sequences end in an outcome and in which one,
  that thread ownership is one partial map, and what a canonical payload, a confirmation and a remote
  outcome can be.
\<close>

section \<open>Streams\<close>

fun event_ids :: "'c stream_event \<Rightarrow> json \<times> json" where
  "event_ids (Task_event t c s) = (t, c)"
| "event_ids (Artifact_event t c x) = (t, c)"
| "event_ids (Status_event t c s final x) = (t, c)"

fun event_content :: "'c stream_event \<Rightarrow> 'c option" where
  "event_content (Task_event t c s) = None"
| "event_content (Artifact_event t c x) = x"
| "event_content (Status_event t c s final x) = x"

text \<open>The first event of a stream, the working statuses and the artifacts between, and the last event.\<close>

fun starts_stream :: "'c stream_event \<Rightarrow> bool" where
  "starts_stream (Task_event t c s) \<longleftrightarrow> normalized_state s = Inr ''submitted''"
| "starts_stream _ \<longleftrightarrow> False"

fun is_working :: "'c stream_event \<Rightarrow> bool" where
  "is_working (Status_event t c s final x) \<longleftrightarrow> normalized_state s = Inr ''working'' \<and> \<not> final"
| "is_working _ \<longleftrightarrow> False"

fun is_artifact :: "'c stream_event \<Rightarrow> bool" where
  "is_artifact (Artifact_event t c x) \<longleftrightarrow> True"
| "is_artifact _ \<longleftrightarrow> False"

fun ends_stream :: "string \<Rightarrow> 'c stream_event \<Rightarrow> bool" where
  "ends_stream n (Status_event t c s final x) \<longleftrightarrow> normalized_state s = Inr n \<and> n \<in> set TERMINAL_STREAM_STATES \<and> final"
| "ends_stream n _ \<longleftrightarrow> False"

definition last_content :: "'c option \<Rightarrow> 'c stream_event list \<Rightarrow> 'c option" where
  "last_content = foldl (\<lambda>kept e. case event_content e of None \<Rightarrow> kept | Some c \<Rightarrow> Some c)"

definition stream_name :: "string \<Rightarrow> bool" where
  "stream_name s \<longleftrightarrow> s \<noteq> [] \<and> length s \<le> MAX_ID_CHARS"

definition complete_stream :: "'c stream_event list \<Rightarrow> string \<Rightarrow> string \<Rightarrow> string \<Rightarrow> bool" where
  "complete_stream es task ctx final_state \<longleftrightarrow> stream_name task \<and> stream_name ctx \<and>
     (\<exists>first mid stop. es = first # mid @ [stop] \<and> starts_stream first \<and> ends_stream final_state stop \<and>
        list_all (\<lambda>e. is_working e \<or> is_artifact e) mid \<and> (mid = [] \<or> is_working (hd mid)) \<and>
        list_all (\<lambda>e. event_ids e = (JStr task, JStr ctx)) es)"

text \<open>A run of the machine from its constructor without arguments to \<open>finish\<close>.\<close>

definition run_stream :: "string option \<Rightarrow> 'c stream_event list \<Rightarrow> stream_error + 'c stream_outcome" where
  "run_stream text es = (case new_stream_machine None None None of Inl e \<Rightarrow> Inl e
     | Inr m \<Rightarrow> (case observe_all es m of (Some e, _) \<Rightarrow> Inl e | (None, m) \<Rightarrow> finish_stream text m))"

text \<open>The machine between two events: bound to a task and a context, in a state, with the last content.\<close>

definition machine_at :: "string \<Rightarrow> string \<Rightarrow> string \<Rightarrow> 'c option \<Rightarrow> bool \<Rightarrow> 'c stream_machine" where
  "machine_at task ctx st content finished = \<lparr>sm_task_id = Some task, sm_context_id = Some ctx, sm_state = Some st,
     sm_content = content, sm_finished = finished\<rparr>"

lemma stream_id_Inr: "stream_id label v = Inr s \<longleftrightarrow> v = JStr s \<and> stream_name s"
  by (auto simp: stream_id_def stream_name_def split: json.splits)

lemma stream_id_text: "stream_id label (JStr s) =
    (if stream_name s then Inr s else Inl (Stream_error (''invalid '' @ label @ '' identifier'')))"
  by (simp add: stream_id_def stream_name_def)

lemma machine_at_simps [simp]:
  "sm_state (machine_at task ctx st content finished) = Some st"
  "sm_finished (machine_at task ctx st content finished) = finished"
  "sm_content (machine_at task ctx st content finished) = content"
  "machine_at task ctx st content finished\<lparr>sm_state := Some st'\<rparr> = machine_at task ctx st' content finished"
  "machine_at task ctx st content finished\<lparr>sm_finished := finished'\<rparr> = machine_at task ctx st content finished'"
  "keep_content x (machine_at task ctx st content finished) =
     machine_at task ctx st (case x of None \<Rightarrow> content | Some c \<Rightarrow> Some c) finished"
  by (simp_all add: machine_at_def keep_content_def split: option.splits)

lemma bind_stream_own:
  assumes "stream_name task" and "stream_name ctx"
  shows "bind_stream (JStr task) (JStr ctx) (machine_at task ctx st content finished) =
    (None, machine_at task ctx st content finished)"
  using assms by (simp add: bind_stream_def machine_at_def stream_id_def stream_name_def)

lemma bind_stream_other:
  assumes "(t, c) \<noteq> (JStr task, JStr ctx)"
  obtains e where "bind_stream t c (machine_at task ctx st content finished) =
    (Some e, machine_at task ctx st content finished)"
proof (cases "stream_id ''task'' t")
  case (Inr task')
  show ?thesis
  proof (cases "stream_id ''context'' c")
    case (Inr ctx')
    with \<open>stream_id ''task'' t = Inr task'\<close> have "task' \<noteq> task \<or> ctx' \<noteq> ctx"
      using assms by (auto simp: stream_id_Inr)
    with Inr \<open>stream_id ''task'' t = Inr task'\<close> show ?thesis
      using that by (cases "task' = task") (auto simp: bind_stream_def machine_at_def)
  qed (use Inr that in \<open>simp add: bind_stream_def\<close>)
qed (use that in \<open>simp add: bind_stream_def\<close>)

lemma normalized_state_known: "normalized_state s = Inr n \<Longrightarrow> n \<in> set KNOWN_STREAM_STATES"
  by (auto simp: normalized_state_def Let_def split: state_arg.splits if_splits)

lemma observe_finished: "observe e (machine_at task ctx st content True) \<noteq> (None, m)"
  by (cases e) (simp_all add: observe_task_def observe_artifact_def observe_status_def)

lemma status_states:
  assumes "normalized_state s = Inr n" and "n \<noteq> ''submitted''" and "n \<noteq> ''working''"
  shows "n \<in> set TERMINAL_STREAM_STATES"
  using normalized_state_known [OF assms(1)] assms(2,3) by (auto simp: KNOWN_STREAM_STATES_def)

lemma terminal_states: "n \<in> set TERMINAL_STREAM_STATES \<Longrightarrow> n \<noteq> ''submitted'' \<and> n \<noteq> ''working''"
  by (auto simp: TERMINAL_STREAM_STATES_def)

lemma observe_foreign:
  assumes "event_ids e \<noteq> (JStr task, JStr ctx)"
  shows "observe e (machine_at task ctx st content False) \<noteq> (None, m)"
proof -
  obtain t c where ids: "event_ids e = (t, c)" by fastforce
  obtain err where "bind_stream t c (machine_at task ctx st content False) =
      (Some err, machine_at task ctx st content False)"
    using bind_stream_other assms ids by metis
  with ids show ?thesis
    by (cases e) (auto simp: observe_task_def observe_artifact_def observe_status_def)
qed

lemma observe_status_own:
  assumes "st \<in> {''submitted'', ''working''}" and "stream_name task" and "stream_name ctx"
  shows "observe_status (JStr task) (JStr ctx) s final x (machine_at task ctx st content False) = (None, m) \<longleftrightarrow>
    (normalized_state s = Inr ''working'' \<and> \<not> final \<and>
       m = machine_at task ctx ''working'' (case x of None \<Rightarrow> content | Some c \<Rightarrow> Some c) False) \<or>
    (\<exists>n. normalized_state s = Inr n \<and> n \<in> set TERMINAL_STREAM_STATES \<and> final \<and>
       m = machine_at task ctx n (case x of None \<Rightarrow> content | Some c \<Rightarrow> Some c) True)"
proof (cases "normalized_state s")
  case (Inl err)
  then show ?thesis using assms by (simp add: observe_status_def bind_stream_own)
next
  case (Inr n)
  have st: "st \<in> {''submitted'', ''working'', ''input_required''}" using assms(1) by blast
  consider "n = ''submitted''" | "n = ''working''" | "n \<in> set TERMINAL_STREAM_STATES" "n \<noteq> ''submitted''" "n \<noteq> ''working''"
    using status_states [OF Inr] by blast
  then show ?thesis
  proof cases
    case 1
    then show ?thesis using Inr assms(2,3) by (auto simp: observe_status_def bind_stream_own dest: terminal_states)
  next
    case 2
    then show ?thesis using Inr assms(2,3) st by (auto simp: observe_status_def bind_stream_own dest: terminal_states)
  next
    case 3
    then show ?thesis using Inr assms(2,3) st by (auto simp: observe_status_def bind_stream_own)
  qed
qed

lemma observe_open:
  assumes "st \<in> {''submitted'', ''working''}" and "stream_name task" and "stream_name ctx"
  shows "observe e (machine_at task ctx st content False) = (None, m) \<longleftrightarrow>
    event_ids e = (JStr task, JStr ctx) \<and>
    ((is_working e \<or> is_artifact e \<and> st = ''working'') \<and> m = machine_at task ctx ''working'' (last_content content [e]) False \<or>
     (\<exists>n. ends_stream n e \<and> m = machine_at task ctx n (last_content content [e]) True))"
proof (cases "event_ids e = (JStr task, JStr ctx)")
  case False
  then show ?thesis using observe_foreign by metis
next
  case True
  show ?thesis
  proof (cases e)
    case (Task_event t c s)
    then show ?thesis by (simp add: observe_task_def)
  next
    case (Artifact_event t c x)
    then show ?thesis
      using True assms by (auto simp: observe_artifact_def bind_stream_own last_content_def)
  next
    case (Status_event t c s final x)
    then show ?thesis
      using True observe_status_own [OF assms] by (simp add: last_content_def)
  qed
qed

definition finish_after :: "string option \<Rightarrow> 'c stream_event list \<Rightarrow> 'c stream_machine \<Rightarrow> stream_error + 'c stream_outcome" where
  "finish_after text es m = (case observe_all es m of (Some e, _) \<Rightarrow> Inl e | (None, m) \<Rightarrow> finish_stream text m)"

lemma finish_after_Cons:
  "finish_after text (e # es) m = Inr out \<longleftrightarrow> (\<exists>m'. observe e m = (None, m') \<and> finish_after text es m' = Inr out)"
  by (auto simp: finish_after_def split: prod.splits option.splits)

lemma finish_after_closed:
  assumes "n \<in> set TERMINAL_STREAM_STATES"
  shows "finish_after text es (machine_at task ctx n content True) = Inr out \<longleftrightarrow>
    es = [] \<and> out = \<lparr>out_state = n, out_task_id = task, out_context_id = ctx, out_content = content, out_text = text\<rparr>"
proof (cases es)
  case Nil
  then show ?thesis using assms by (auto simp: finish_after_def finish_stream_def machine_at_def)
next
  case (Cons e es')
  then show ?thesis by (simp add: finish_after_Cons observe_finished)
qed

lemma last_content_Cons: "last_content content (e # es) = last_content (last_content content [e]) es"
  by (simp add: last_content_def)

text \<open>What the events from an open machine on must be for an outcome: the rest of a complete stream.\<close>

definition rest_of_stream :: "string \<Rightarrow> string \<Rightarrow> string \<Rightarrow> 'c stream_event list \<Rightarrow> string \<Rightarrow> bool" where
  "rest_of_stream task ctx st es final_state \<longleftrightarrow> (\<exists>mid stop. es = mid @ [stop] \<and> ends_stream final_state stop \<and>
     list_all (\<lambda>e. is_working e \<or> is_artifact e) mid \<and> (st = ''working'' \<or> mid = [] \<or> is_working (hd mid)) \<and>
     list_all (\<lambda>e. event_ids e = (JStr task, JStr ctx)) es)"

lemma rest_of_stream_Nil: "\<not> rest_of_stream task ctx st [] n"
  by (simp add: rest_of_stream_def)

lemma rest_of_stream_Cons:
  "rest_of_stream task ctx st (e # es) n \<longleftrightarrow> event_ids e = (JStr task, JStr ctx) \<and>
     (es = [] \<and> ends_stream n e \<or>
      (is_working e \<or> is_artifact e \<and> st = ''working'') \<and> rest_of_stream task ctx ''working'' es n)"
proof
  assume "rest_of_stream task ctx st (e # es) n"
  then obtain mid stop where *: "e # es = mid @ [stop]" "ends_stream n stop"
    "list_all (\<lambda>e. is_working e \<or> is_artifact e) mid" "st = ''working'' \<or> mid = [] \<or> is_working (hd mid)"
    "list_all (\<lambda>e. event_ids e = (JStr task, JStr ctx)) (e # es)"
    unfolding rest_of_stream_def by blast
  show "event_ids e = (JStr task, JStr ctx) \<and> (es = [] \<and> ends_stream n e \<or>
      (is_working e \<or> is_artifact e \<and> st = ''working'') \<and> rest_of_stream task ctx ''working'' es n)"
  proof (cases mid)
    case Nil
    with * show ?thesis by simp
  next
    case (Cons e' mid')
    with * have "es = mid' @ [stop]" "e' = e" by simp_all
    with Cons * show ?thesis by (auto simp: rest_of_stream_def)
  qed
next
  assume r: "event_ids e = (JStr task, JStr ctx) \<and> (es = [] \<and> ends_stream n e \<or>
      (is_working e \<or> is_artifact e \<and> st = ''working'') \<and> rest_of_stream task ctx ''working'' es n)"
  show "rest_of_stream task ctx st (e # es) n"
  proof (cases "es = [] \<and> ends_stream n e")
    case True
    then show ?thesis using r unfolding rest_of_stream_def by (intro exI [of _ "[]"] exI [of _ e]) simp
  next
    case False
    with r obtain mid stop where *: "es = mid @ [stop]" "ends_stream n stop"
      "list_all (\<lambda>e. is_working e \<or> is_artifact e) mid" "list_all (\<lambda>e. event_ids e = (JStr task, JStr ctx)) es"
      by (auto simp: rest_of_stream_def)
    with r False show ?thesis unfolding rest_of_stream_def
      by (intro exI [of _ "e # mid"] exI [of _ stop]) auto
  qed
qed

lemma finish_after_open:
  assumes "st \<in> {''submitted'', ''working''}" and "stream_name task" and "stream_name ctx"
  shows "finish_after text es (machine_at task ctx st content False) = Inr out \<longleftrightarrow>
    (\<exists>n. rest_of_stream task ctx st es n \<and> out = \<lparr>out_state = n, out_task_id = task, out_context_id = ctx,
       out_content = last_content content es, out_text = text\<rparr>)"
  using assms(1)
proof (induction es arbitrary: st content)
  case Nil
  then show ?case by (simp add: finish_after_def finish_stream_def rest_of_stream_Nil split: option.splits)
next
  case (Cons e es)
  have working: "''working'' \<in> {''submitted'', ''working''}" by simp
  have closed: "finish_after text es (machine_at task ctx n content' True) = Inr out \<longleftrightarrow>
      es = [] \<and> out = \<lparr>out_state = n, out_task_id = task, out_context_id = ctx, out_content = content', out_text = text\<rparr>"
    if "ends_stream n e" for n content'
    using that by (intro finish_after_closed) (cases e; simp)
  show ?case
    unfolding finish_after_Cons observe_open [OF Cons.prems assms(2,3)] rest_of_stream_Cons
      last_content_Cons [of content e es]
    using Cons.IH [OF working, of "last_content content [e]"] closed
    by (auto simp: last_content_def)
qed

lemma observe_first:
  "observe e \<lparr>sm_task_id = None, sm_context_id = None, sm_state = None, sm_content = None, sm_finished = False\<rparr> = (None, m)
    \<longleftrightarrow> (\<exists>task ctx. stream_name task \<and> stream_name ctx \<and> event_ids e = (JStr task, JStr ctx) \<and> starts_stream e \<and>
      m = machine_at task ctx ''submitted'' None False)"
  by (cases e) (auto simp: observe_task_def observe_artifact_def observe_status_def bind_stream_def stream_id_Inr stream_id_text
      machine_at_def split: sum.splits)

lemma complete_stream_Cons:
  "complete_stream (e # es) task ctx n \<longleftrightarrow> stream_name task \<and> stream_name ctx \<and> starts_stream e \<and>
     event_ids e = (JStr task, JStr ctx) \<and> rest_of_stream task ctx ''submitted'' es n"
  unfolding complete_stream_def rest_of_stream_def by auto

text \<open>
  C15: The stream machine, from its constructor to \<open>finish\<close>, has an outcome for exactly the complete
  streams: a submitted task, then working statuses and artifacts of which a working status comes first,
  then one final status in a terminal or interrupted state, all under one valid task and context
  identifier.  The outcome is that state with the identifiers and the last content that arrived.
\<close>
theorem stream_outcome_exact:
  "run_stream text es = Inr out \<longleftrightarrow> (\<exists>task ctx n. complete_stream es task ctx n \<and>
     out = \<lparr>out_state = n, out_task_id = task, out_context_id = ctx, out_content = last_content None es, out_text = text\<rparr>)"
proof (cases es)
  case Nil
  then show ?thesis
    by (auto simp: run_stream_def new_stream_machine_def optional_id_def finish_stream_def complete_stream_def)
next
  case (Cons e es')
  let ?m = "\<lparr>sm_task_id = None, sm_context_id = None, sm_state = None, sm_content = None, sm_finished = False\<rparr>"
  have "run_stream text es = finish_after text es ?m"
    by (simp add: run_stream_def new_stream_machine_def optional_id_def finish_after_def)
  moreover have "last_content None [e] = None" if "starts_stream e" using that by (cases e) (simp_all add: last_content_def)
  ultimately show ?thesis
    using finish_after_open [of "''submitted''"] last_content_Cons [of None e es']
    unfolding Cons by (auto simp: finish_after_Cons observe_first complete_stream_Cons) blast+
qed

end
