(* ===== verification/A2a_Outcomes.thy ===== *)
theory A2a_Outcomes
  imports A2a_Payloads A2a_Properties
begin

text \<open>
  What \<open>send_streaming_task\<close> returns: an outcome in a terminal or interrupted state, under the identifiers
  the caller expected, whose content passed the checks of canonical data; and which fields the host has
  written by then.
\<close>

section \<open>Contents\<close>

definition content_accepted :: "iso_parser \<Rightarrow> canonical_content \<Rightarrow> bool" where
  "content_accepted from_iso c \<longleftrightarrow> (\<exists>encoded. canonical_data from_iso (JObj (content_data c)) = Inr (content_data c, encoded))"

lemma decoded_content:
  assumes "decode_canonical_parts from_iso mid task ctx content = Inr c"
  shows "content_accepted from_iso c"
proof -
  obtain v encoded where "canonical_data from_iso v = Inr (content_data c, encoded)"
    using assms by (auto simp: decode_canonical_parts_def Let_def split: sum.splits if_splits option.splits)
  then show ?thesis using accepted_again by (auto simp: content_accepted_def)
qed

lemma typed_content_Inr:
  assumes "typed_content from_iso task ctx expected v = Inr c"
  shows "content_accepted from_iso c" and "entry ''message_type'' (content_data c) \<in> JStr ` set expected"
  using assms decoded_content by (auto simp: typed_content_def canonical_type_def split: sum.splits if_splits)

lemma shown_content_Inr: "shown_content task ctx v = Inr (t, c) \<Longrightarrow> c = None"
  by (auto simp: shown_content_def split: sum.splits)

text \<open>What a step may leave as content: nothing new, or checked content of the assurance agent.\<close>

definition content_fits :: "iso_parser \<Rightarrow> bool \<Rightarrow> canonical_content option \<Rightarrow> bool" where
  "content_fits from_iso assurance x \<longleftrightarrow> (case x of None \<Rightarrow> True | Some c \<Rightarrow> assurance \<and> content_accepted from_iso c)"

lemma status_content_Inr:
  assumes "status_content from_iso assurance state message task ctx = Inr (t, x)"
  shows "content_fits from_iso assurance x"
    and "assurance \<and> state = ''input_required'' \<Longrightarrow>
      \<exists>c. x = Some c \<and> entry ''message_type'' (content_data c) = JStr ''assurance_candidate_page''"
proof -
  show "content_fits from_iso assurance x"
    using assms unfolding status_content_def content_fits_def
    by (auto split: if_splits sum.splits content_error.splits dest: typed_content_Inr(1) shown_content_Inr)
  show "\<exists>c. x = Some c \<and> entry ''message_type'' (content_data c) = JStr ''assurance_candidate_page''"
    if "assurance \<and> state = ''input_required''"
    using assms that unfolding status_content_def
    by (auto split: if_splits sum.splits dest: typed_content_Inr(2))
qed

section \<open>The loop\<close>

text \<open>The machine of a call: bound to what was expected, with contents that were checked.\<close>

definition machine_fits :: "iso_parser \<Rightarrow> stream_call \<Rightarrow> canonical_content stream_machine \<Rightarrow> bool" where
  "machine_fits from_iso call m \<longleftrightarrow> content_fits from_iso (call_assurance call) (sm_content m) \<and>
     (call_task_id call \<noteq> None \<longrightarrow> sm_task_id m = call_task_id call) \<and>
     (call_context_id call \<noteq> None \<longrightarrow> sm_context_id m = call_context_id call) \<and> \<not> sm_finished m"

lemma bind_stream_keeps:
  assumes "bind_stream t c m = (None, m')"
  shows "sm_content m' = sm_content m" and "sm_state m' = sm_state m" and "sm_finished m' = sm_finished m"
    and "sm_task_id m \<noteq> None \<Longrightarrow> sm_task_id m' = sm_task_id m"
    and "sm_context_id m \<noteq> None \<Longrightarrow> sm_context_id m' = sm_context_id m"
  using assms by (auto simp: bind_stream_def split: sum.splits if_splits)

lemma keep_content_simps [simp]:
  "sm_task_id (keep_content x m) = sm_task_id m" "sm_context_id (keep_content x m) = sm_context_id m"
  "sm_state (keep_content x m) = sm_state m" "sm_finished (keep_content x m) = sm_finished m"
  "sm_content (keep_content x m) = (case x of None \<Rightarrow> sm_content m | Some c \<Rightarrow> Some c)"
  by (simp_all add: keep_content_def split: option.splits)

lemma observe_keeps:
  assumes "observe e m = (None, m')"
  shows "sm_task_id m \<noteq> None \<Longrightarrow> sm_task_id m' = sm_task_id m"
    and "sm_context_id m \<noteq> None \<Longrightarrow> sm_context_id m' = sm_context_id m"
    and "sm_content m' = (case event_content e of None \<Rightarrow> sm_content m | Some c \<Rightarrow> Some c)"
proof -
  have "\<exists>b. bind_stream (fst (event_ids e)) (snd (event_ids e)) m = (None, b) \<and> sm_task_id m' = sm_task_id b \<and>
      sm_context_id m' = sm_context_id b \<and> sm_content m' = (case event_content e of None \<Rightarrow> sm_content b | Some c \<Rightarrow> Some c)"
    using assms
    by (cases e) (auto simp: observe_task_def observe_artifact_def observe_status_def Let_def
        split: prod.splits option.splits sum.splits if_splits)
  then obtain b where b: "bind_stream (fst (event_ids e)) (snd (event_ids e)) m = (None, b)"
    "sm_task_id m' = sm_task_id b" "sm_context_id m' = sm_context_id b"
    "sm_content m' = (case event_content e of None \<Rightarrow> sm_content b | Some c \<Rightarrow> Some c)" by blast
  then show "sm_task_id m \<noteq> None \<Longrightarrow> sm_task_id m' = sm_task_id m"
    "sm_context_id m \<noteq> None \<Longrightarrow> sm_context_id m' = sm_context_id m"
    "sm_content m' = (case event_content e of None \<Rightarrow> sm_content m | Some c \<Rightarrow> Some c)"
    using bind_stream_keeps [OF b(1)] by (simp_all, cases "event_content e", simp_all)
qed

text \<open>The values of the SDK's \<open>TaskState\<close>.  The client and the machine each strip a \<open>taskstate.\<close> prefix, so
  that on other texts they could read two different states.\<close>

definition TASK_STATES :: "string list" where
  "TASK_STATES = [''submitted'', ''working'', ''input-required'', ''completed'', ''canceled'', ''failed'', ''rejected'',
     ''auth-required'', ''unknown'']"

fun sdk_event :: "wire_event \<Rightarrow> bool" where
  "sdk_event (Wire_status t c s final message) \<longleftrightarrow> s \<in> State_text ` set TASK_STATES"
| "sdk_event _ \<longleftrightarrow> True"

lemma sdk_states:
  assumes "s \<in> State_text ` set TASK_STATES" and "state_name s = Inr name"
    and "normalized_state (State_text name) = Inr n"
  shows "n = name"
  using assms
  by (auto simp: TASK_STATES_def state_name_def normalized_state_def spelled_state_def dashes_to_underscores_def
      py_lower_def py_lower_char_def Let_def split: if_splits)

definition outcome_fits :: "iso_parser \<Rightarrow> stream_call \<Rightarrow> canonical_content stream_outcome \<Rightarrow> bool" where
  "outcome_fits from_iso call out \<longleftrightarrow> out_state out \<in> set TERMINAL_STREAM_STATES \<and>
     content_fits from_iso (call_assurance call) (out_content out) \<and>
     (call_task_id call = None \<or> call_task_id call = Some (out_task_id out)) \<and>
     (call_context_id call = None \<or> call_context_id call = Some (out_context_id out)) \<and>
     (call_assurance call \<and> out_state out = ''input_required'' \<longrightarrow>
       (\<exists>c. out_content out = Some c \<and> entry ''message_type'' (content_data c) = JStr ''assurance_candidate_page''))"

lemma machine_fits_observed:
  assumes "machine_fits from_iso call m" and "observe e m = (None, m')"
    and "content_fits from_iso (call_assurance call) (event_content e)"
  shows "content_fits from_iso (call_assurance call) (sm_content m') \<and>
     (call_task_id call \<noteq> None \<longrightarrow> sm_task_id m' = call_task_id call) \<and>
     (call_context_id call \<noteq> None \<longrightarrow> sm_context_id m' = call_context_id call)"
  using assms observe_keeps [OF assms(2)] by (auto simp: machine_fits_def split: option.splits)

lemma client_task_fits:
  assumes "client_task call t c s m = (fx, Inr m')" and "machine_fits from_iso call m"
  shows "machine_fits from_iso call m'"
proof (cases "call_task_id call")
  case None
  then obtain name where name: "observe (Task_event t c (State_text name)) m = (None, m')"
    using assms(1) by (auto simp: client_task_def split: sum.splits prod.splits option.splits)
  then have "sm_finished m' = sm_finished m"
    by (auto simp: observe_task_def split: if_splits prod.splits option.splits sum.splits dest: bind_stream_keeps(3))
  then show ?thesis
    using machine_fits_observed [OF assms(2) name] assms(2) by (simp add: machine_fits_def content_fits_def)
next
  case (Some expected)
  then show ?thesis using assms by (auto simp: client_task_def split: sum.splits if_splits)
qed

lemma client_artifact_fits:
  assumes "client_artifact from_iso call t c a m = (fx, Inr m')" and "machine_fits from_iso call m"
  shows "machine_fits from_iso call m'"
proof -
  obtain text_shown x where x: "observe (Artifact_event t c x) m = (None, m')"
      "content_fits from_iso (call_assurance call) x"
    using assms(1) typed_content_Inr(1) shown_content_Inr
    by (fastforce simp: client_artifact_def then_display_def content_fits_def
        split: sum.splits if_splits prod.splits option.splits)
  then have "sm_finished m' = sm_finished m"
    by (auto simp: observe_artifact_def split: if_splits prod.splits option.splits dest: bind_stream_keeps(3))
  then show ?thesis
    using machine_fits_observed [OF assms(2) x(1)] x(2) assms(2) by (simp add: machine_fits_def)
qed

lemma observe_status_finish:
  assumes "observe_status t c s final x m = (None, m')" and "\<not> sm_finished m"
  shows "\<exists>n. normalized_state s = Inr n \<and> sm_state m' = Some n \<and> sm_finished m' = (n \<in> set TERMINAL_STREAM_STATES)"
proof -
  obtain n where n: "normalized_state s = Inr n"
    using assms(1) by (auto simp: observe_status_def split: if_splits prod.splits option.splits sum.splits)
  then show ?thesis
    using assms status_states [OF n] terminal_states [of n]
    by (auto simp: observe_status_def Let_def split: if_splits prod.splits option.splits dest: bind_stream_keeps(3))
qed

lemma finish_stream_Inr:
  "finish_stream t m = Inr out \<Longrightarrow> sm_state m = Some (out_state out) \<and> sm_task_id m = Some (out_task_id out) \<and>
     sm_context_id m = Some (out_context_id out) \<and> sm_content m = out_content out \<and> sm_finished m \<and>
     out_state out \<in> set TERMINAL_STREAM_STATES"
  by (auto simp: finish_stream_def split: option.splits if_splits)

lemma client_status_fits:
  assumes "client_status from_iso call t c s final message m = (fx, Inr r)" and "machine_fits from_iso call m"
    and "s \<in> State_text ` set TASK_STATES"
  shows "case r of Inl m' \<Rightarrow> machine_fits from_iso call m' | Inr out \<Rightarrow> outcome_fits from_iso call out"
proof -
  obtain task ctx name shown x m' where *: "t = JStr task" "c = JStr ctx" "state_name s = Inr name"
      "status_content from_iso (call_assurance call) name message task ctx = Inr (shown, x)"
      "observe_status t c (State_text name) final x m = (None, m')"
      "r = Inl m' \<and> name \<notin> set TERMINAL_STREAM_STATES \<or> (\<exists>out. r = Inr out \<and> finish_stream shown m' = Inr out)"
    using assms(1) by (auto simp: client_status_def split: json.splits sum.splits prod.splits option.splits if_splits)
  have fits: "content_fits from_iso (call_assurance call) (sm_content m')"
      "call_task_id call \<noteq> None \<longrightarrow> sm_task_id m' = call_task_id call"
      "call_context_id call \<noteq> None \<longrightarrow> sm_context_id m' = call_context_id call"
      "sm_content m' = (case x of None \<Rightarrow> sm_content m | Some c \<Rightarrow> Some c)"
    using machine_fits_observed [OF assms(2), of "Status_event t c (State_text name) final x"] *(5)
      status_content_Inr(1) [OF *(4)] observe_keeps(3) [of "Status_event t c (State_text name) final x" m m'] by simp_all
  obtain n where n: "normalized_state (State_text name) = Inr n" "sm_state m' = Some n"
      "sm_finished m' = (n \<in> set TERMINAL_STREAM_STATES)"
    using observe_status_finish [OF *(5)] assms(2) by (auto simp: machine_fits_def)
  have "n = name" by (rule sdk_states [OF assms(3) *(3) n(1)])
  show ?thesis
  proof (cases r)
    case (Inl m1)
    then show ?thesis using *(6) fits n \<open>n = name\<close> by (auto simp: machine_fits_def)
  next
    case (Inr out)
    then have out: "finish_stream shown m' = Inr out" using *(6) by auto
    have "\<exists>c. out_content out = Some c \<and> entry ''message_type'' (content_data c) = JStr ''assurance_candidate_page''"
      if "call_assurance call" "name = ''input_required''"
      using status_content_Inr(2) [OF *(4)] that fits(4) finish_stream_Inr [OF out] by auto
    then show ?thesis using Inr fits n \<open>n = name\<close> finish_stream_Inr [OF out] by (auto simp: outcome_fits_def)
  qed
qed

lemma continue_with_Inr: "continue_with st = (fx, Inr r) \<longleftrightarrow> (\<exists>m. st = (fx, Inr m) \<and> r = Inl m)"
  by (cases st; cases "snd st") (auto simp: continue_with_def)

lemma client_event_fits:
  assumes "client_event from_iso call e m = (fx, Inr r)" and "machine_fits from_iso call m" and "sdk_event e"
  shows "case r of Inl m' \<Rightarrow> machine_fits from_iso call m' | Inr out \<Rightarrow> outcome_fits from_iso call out"
proof (cases e)
  case (Wire_task t c s)
  then show ?thesis using assms client_task_fits by (auto simp: continue_with_Inr)
next
  case (Wire_artifact t c a)
  then show ?thesis using assms client_artifact_fits by (auto simp: continue_with_Inr)
next
  case (Wire_status t c s final message)
  then show ?thesis using assms client_status_fits by simp
qed (use assms in simp_all)

lemma client_loop_fits:
  assumes "client_loop from_iso call k es m = (fx, Inr out)" and "machine_fits from_iso call m" and "list_all sdk_event es"
  shows "outcome_fits from_iso call out"
  using assms
proof (induction es arbitrary: k m fx)
  case Nil
  then show ?case by (auto simp: machine_fits_def split: sum.splits dest: finish_stream_Inr)
next
  case (Cons e es)
  obtain fx1 r where r: "client_event from_iso call e m = (fx1, Inr r)"
    using Cons.prems(1) by (auto split: if_splits prod.splits sum.splits)
  show ?case
  proof (cases r)
    case (Inl m')
    then have "machine_fits from_iso call m'" using client_event_fits [OF r Cons.prems(2)] Cons.prems(3) by simp
    moreover obtain fx2 where "client_loop from_iso call (k + 1) es m' = (fx2, Inr out)"
      using Cons.prems(1) r Inl by (auto split: if_splits prod.splits)
    ultimately show ?thesis using Cons.IH Cons.prems(3) by simp
  next
    case (Inr out')
    then show ?thesis using client_event_fits [OF r Cons.prems(2)] Cons.prems(1,3) r by (auto split: if_splits)
  qed
qed

text \<open>
  C14: Whatever a remote agent streams, an outcome of \<open>send_streaming_task\<close> is in a terminal or
  interrupted state, under the task and context the caller expected; its content, if any, came from the
  assurance agent and is canonical data, and when that agent asks for input it is a candidate page.
\<close>
theorem remote_outcome_is_checked:
  assumes "send_streaming_task from_iso call events = (effects, Inr out)" and "list_all sdk_event events"
  shows "outcome_fits from_iso call out"
proof -
  obtain m where m: "new_stream_machine (map_option JStr (call_task_id call)) (map_option JStr (call_context_id call))
      (call_starting call) = Inr m" "client_loop from_iso call 0 events m = (effects, Inr out)"
    using assms(1) by (auto simp: send_streaming_task_def shown_error_def split: if_splits sum.splits prod.splits)
  have "optional_id label (map_option JStr v) = Inr w \<Longrightarrow> w = v" for label v w
    by (cases v) (auto simp: optional_id_def stream_id_Inr split: sum.splits)
  then have "machine_fits from_iso call m"
    using m(1) by (auto simp: new_stream_machine_def machine_fits_def content_fits_def split: sum.splits option.splits if_splits)
  then show ?thesis using client_loop_fits [OF m(2)] assms(2) by blast
qed

end
