(* ===== verification/Supervisor_Runs.thy ===== *)
theory Supervisor_Runs
  imports Supervisor_Properties A2a_Outcomes
begin

text \<open>
  The handlers \<open>handleToolResult\<close> and \<open>send_task\<close> as a whole: each is a run of the steps of
  \<open>Supervisor_Properties\<close>, and what a remote task that failed leaves behind.
\<close>

section \<open>Handlers as runs\<close>

lemma update_state_simps [simp]:
  "update_state s [] = s" "update_state s (kv # ws) = update_state (write_field s kv) ws"
  "update_state s (ws @ ws') = update_state (update_state s ws) ws'"
  by (simp_all add: update_state_def)

definition carries_on :: "supervisor_env \<Rightarrow> supervised \<Rightarrow> supervised \<Rightarrow> bool" where
  "carries_on env v w \<longleftrightarrow> (host_step env)\<^sup>*\<^sup>* v w \<and> set (sv_read v) \<subseteq> set (sv_read w) \<and> sv_clicks w = sv_clicks v"

lemma carries_on_trans: "carries_on env u v \<Longrightarrow> carries_on env v w \<Longrightarrow> carries_on env u w"
  by (auto simp: carries_on_def)

lemma writes_run:
  assumes "\<And>u kv. set (sv_read v) \<subseteq> set (sv_read u) \<Longrightarrow> kv \<in> set ws \<Longrightarrow> host_step env u (wrote u kv)"
  shows "\<exists>w. carries_on env v w \<and> sv_session w = update_state (sv_session v) ws \<and> sv_sent w = sv_sent v"
  using assms
proof (induction ws arbitrary: v)
  case Nil
  show ?case by (intro exI [of _ v]) (simp add: carries_on_def)
next
  case (Cons kv ws)
  have "host_step env v (wrote v kv)" by (rule Cons.prems) simp_all
  then have one: "carries_on env v (wrote v kv)" by (auto simp: carries_on_def wrote_def)
  obtain w where "carries_on env (wrote v kv) w" "sv_session w = update_state (sv_session (wrote v kv)) ws"
      "sv_sent w = sv_sent (wrote v kv)"
    using Cons.IH [of "wrote v kv"] Cons.prems by (auto simp: wrote_def)
  then show ?case using carries_on_trans [OF one] by (intro exI [of _ w]) (auto simp: wrote_def)
qed

text \<open>A call of \<open>handleToolResult\<close> is a run of steps, of none or of one write.\<close>

lemma tool_result_is_run:
  assumes "sv_session v \<in> set (sv_read v)"
    and "handle_tool_result env fresh now h session_id sid call_id content tool_pending tool_name (sv_session v) = (e, s')"
  shows "\<exists>w. (host_step env)\<^sup>*\<^sup>* v w \<and> sv_session w = s' \<and> sv_sent w = sv_sent v"
proof (cases "s' = sv_session v")
  case True
  then show ?thesis by blast
next
  case False
  then obtain t where t: "tool_decision env fresh now call_id tool_name content (sv_session v) = Inr (Some t)"
      "s' = write_field (sv_session v) (''trusted_assurance_decision'', json_of_decision t)"
    using assms(2) by (auto simp: handle_tool_result_def split: option.splits sum.splits if_splits)
  then show ?thesis using host_step.trust [OF assms(1) t(1)] by (auto simp: wrote_def)
qed

text \<open>A call of \<open>send_task\<close> is a run of steps that hands over the message it returns.\<close>

lemma send_task_is_run:
  assumes "sv_session v \<in> set (sv_read v)"
    and "send_task env fresh now fresh' now' h session_id (Some connection) agent_name message events (sv_session v) =
      (response, sent, s')"
  shows "\<exists>w. (host_step env)\<^sup>*\<^sup>* v w \<and> sv_session w = s' \<and>
    sv_sent w = (case sent of None \<Rightarrow> sv_sent v | Some m \<Rightarrow> (call_assurance connection, m) # sv_sent v)"
proof (cases "sent")
  case None
  then have "s' = sv_session v"
    using assms(2) by (auto simp: send_task_def Let_def split: option.splits sum.splits prod.splits)
  then show ?thesis using None by (intro exI [of _ v]) simp
next
  case (Some m)
  let ?s = "sv_session v"
  obtain p effects r where p: "prepare_task env fresh now (call_assurance connection) agent_name message ?s = Inr p"
      "send_streaming_task (env_from_iso env) (call_of connection p) events = (effects, r)" "m = prepared_payload p"
      "s' = update_state ?s (prepared_writes p @ stream_writes agent_name effects) \<or>
       (\<exists>out resp ws. settle_task env fresh' now' (call_assurance connection) agent_name p ?s out = Inr (resp, ws) \<and>
         s' = update_state (update_state ?s (prepared_writes p @ stream_writes agent_name effects)) ws)"
    using assms(2) Some by (auto simp: send_task_def Let_def split: option.splits sum.splits prod.splits) blast+
  obtain v1 where v1: "carries_on env v v1" "sv_session v1 = update_state ?s (prepared_writes p)" "sv_sent v1 = sv_sent v"
    using writes_run [of v "prepared_writes p" env] host_step.prepare [OF _ p(1)] assms(1) by blast
  let ?v2 = "v1\<lparr>sv_sent := (call_assurance connection, m) # sv_sent v1\<rparr>"
  have "?s \<in> set (sv_read v1)" using v1(1) assms(1) by (auto simp: carries_on_def)
  then have "carries_on env v1 ?v2" using host_step.hand_over [OF _ p(1)] p(3) by (auto simp: carries_on_def)
  moreover obtain v3 where v3: "carries_on env ?v2 v3" "sv_sent v3 = sv_sent ?v2"
      "sv_session v3 = update_state (sv_session ?v2) (stream_writes agent_name effects)"
    using writes_run [of ?v2 "stream_writes agent_name effects" env] host_step.stream by blast
  ultimately have run: "carries_on env v v3" using v1(1) carries_on_trans by blast
  have session: "sv_session v3 = update_state ?s (prepared_writes p @ stream_writes agent_name effects)"
    using v3(3) v1(2) by simp
  from p(4) show ?thesis
  proof
    assume "s' = update_state ?s (prepared_writes p @ stream_writes agent_name effects)"
    then show ?thesis using run session v3(2) v1(3) Some by (intro exI [of _ v3]) (simp add: carries_on_def)
  next
    assume "\<exists>out resp ws. settle_task env fresh' now' (call_assurance connection) agent_name p ?s out = Inr (resp, ws) \<and>
        s' = update_state (update_state ?s (prepared_writes p @ stream_writes agent_name effects)) ws"
    then obtain out resp ws where ws: "settle_task env fresh' now' (call_assurance connection) agent_name p ?s out = Inr (resp, ws)"
        "s' = update_state (sv_session v3) ws" using session by auto
    have "\<And>u. set (sv_read v3) \<subseteq> set (sv_read u) \<Longrightarrow> ?s \<in> set (sv_read u)"
      using run assms(1) by (auto simp: carries_on_def)
    then obtain w where "carries_on env v3 w" "sv_session w = s'" "sv_sent w = sv_sent v3"
      using writes_run [of v3 ws env] host_step.settle [OF _ ws(1)] ws(2) by blast
    then show ?thesis using carries_on_trans [OF run] v3(2) v1(3) Some
      by (intro exI [of _ w]) (auto simp: carries_on_def)
  qed
qed

section \<open>After a failure\<close>

definition has_task :: "json_object \<Rightarrow> bool" where
  "has_task s \<longleftrightarrow> text_or_none (entry ''task_id'' s) \<noteq> None"

lemma update_state_has_task:
  assumes "has_task s \<or> (\<exists>kv\<in>set ws. fst kv = ''task_id'')"
    and "\<forall>kv\<in>set ws. fst kv = ''task_id'' \<longrightarrow> text_or_none (snd kv) \<noteq> None"
  shows "has_task (update_state s ws)"
  using assms
proof (induction ws arbitrary: s)
  case (Cons kv ws)
  show ?case
  proof (cases "fst kv = ''task_id''")
    case True
    then show ?thesis using Cons by (simp add: has_task_def write_field_entry)
  next
    case False
    then have "has_task (write_field s kv) = has_task s" by (simp add: has_task_def write_field_entry)
    then show ?thesis using Cons False by auto
  qed
qed simp

text \<open>The host is told a task identifier by every stream that has an outcome.\<close>

definition updates_named :: "client_effect list \<Rightarrow> bool" where
  "updates_named fx \<longleftrightarrow> (\<forall>t c. Update_state t c \<in> set fx \<longrightarrow> text_or_none t \<noteq> None)"

definition updated :: "client_effect list \<Rightarrow> bool" where
  "updated fx \<longleftrightarrow> (\<exists>t c. Update_state t c \<in> set fx)"

lemma observe_task_named:
  assumes "observe_task t c s m = (None, m')"
  shows "text_or_none t \<noteq> None" and "sm_state m' \<noteq> None"
proof -
  show "sm_state m' \<noteq> None"
    using assms by (auto simp: observe_task_def split: if_splits prod.splits option.splits sum.splits)
  obtain m1 where "bind_stream t c m = (None, m1)"
    using assms by (auto simp: observe_task_def split: if_splits prod.splits option.splits)
  then obtain s where "t = JStr s" "stream_name s"
    by (auto simp: bind_stream_def stream_id_Inr split: sum.splits if_splits)
  then show "text_or_none t \<noteq> None" by (cases s) (simp_all add: text_or_none_def stream_name_def)
qed

lemma display_effects_updates: "display_effects t = Inr fx \<Longrightarrow> Update_state x y \<notin> set fx"
  by (auto simp: display_effects_def split: option.splits if_splits)

lemma client_event_updates:
  assumes "client_event from_iso call e m = (fx, Inr r)" and "call_task_id call \<noteq> Some []"
  shows "updates_named fx" and "call_task_id call = None \<Longrightarrow> sm_state m = None \<Longrightarrow> updated fx"
proof -
  have "updates_named fx \<and> (call_task_id call = None \<and> sm_state m = None \<longrightarrow> updated fx)"
  proof (cases e)
    case (Wire_task t c s)
    then show ?thesis
      using assms observe_task_named(1)
      by (auto simp: continue_with_Inr client_task_def updates_named_def updated_def text_or_none_def
          split: sum.splits option.splits prod.splits if_splits list.splits)
  next
    case (Wire_artifact t c a)
    then show ?thesis
      using assms display_effects_updates
      by (auto simp: continue_with_Inr client_artifact_def then_display_def observe_artifact_def updates_named_def
          split: sum.splits option.splits prod.splits if_splits)
  next
    case (Wire_status t c s final message)
    then show ?thesis
      using assms display_effects_updates
      by (auto simp: client_status_def observe_status_def updates_named_def
          split: json.splits sum.splits option.splits prod.splits if_splits)
  qed (use assms in simp_all)
  then show "updates_named fx" "call_task_id call = None \<Longrightarrow> sm_state m = None \<Longrightarrow> updated fx" by blast+
qed

lemma client_event_finish:
  "client_event from_iso call e m = (fx, Inr (Inr out)) \<Longrightarrow> \<exists>t m'. finish_stream t m' = Inr out"
  by (cases e) (auto simp: continue_with_Inr client_status_def
      split: json.splits sum.splits option.splits prod.splits if_splits)

lemma client_loop_updates:
  assumes "client_loop from_iso call k es m = (fx, Inr out)" and "call_task_id call \<noteq> Some []"
  shows "updates_named fx \<and> (call_task_id call = None \<and> sm_state m = None \<longrightarrow> updated fx) \<and>
    out_state out \<in> set TERMINAL_STREAM_STATES"
  using assms(1)
proof (induction es arbitrary: k m fx)
  case Nil
  then have "finish_stream None m = Inr out" "fx = []" by (auto split: sum.splits)
  then show ?case using finish_stream_Inr [of None m out] by (auto simp: updates_named_def)
next
  case (Cons e es)
  obtain fx1 r where r: "client_event from_iso call e m = (fx1, Inr r)"
    using Cons.prems by (auto split: if_splits prod.splits sum.splits)
  note first = client_event_updates [OF r assms(2)]
  show ?case
  proof (cases r)
    case (Inl m')
    then obtain fx2 where "client_loop from_iso call (k + 1) es m' = (fx2, Inr out)" "fx = fx1 @ fx2"
      using Cons.prems r by (auto split: if_splits prod.splits)
    then show ?thesis using Cons.IH first by (fastforce simp: updates_named_def updated_def)
  next
    case (Inr out')
    then have "fx = fx1" "out' = out" using Cons.prems r by (auto split: if_splits)
    then show ?thesis using first client_event_finish [of from_iso call e m fx1 out] r Inr finish_stream_Inr by blast
  qed
qed

lemma stream_writes_task:
  assumes "updates_named fx"
  shows "\<forall>kv\<in>set (stream_writes agent_name fx). fst kv = ''task_id'' \<longrightarrow> text_or_none (snd kv) \<noteq> None"
    and "updated fx \<Longrightarrow> \<exists>kv\<in>set (stream_writes agent_name fx). fst kv = ''task_id''"
  using assms by (fastforce simp: stream_writes_def updates_named_def updated_def split: client_effect.splits)+

lemma outcome_writes:
  assumes "send_streaming_task from_iso call events = (fx, Inr out)" and "call_task_id call \<noteq> Some []"
    and "call_starting call = None \<or> call_task_id call \<noteq> None"
  shows "updates_named fx" and "call_task_id call = None \<Longrightarrow> updated fx" and "out_state out \<in> set TERMINAL_STREAM_STATES"
proof -
  obtain m where m: "new_stream_machine (map_option JStr (call_task_id call)) (map_option JStr (call_context_id call))
      (call_starting call) = Inr m" "client_loop from_iso call 0 events m = (fx, Inr out)"
    using assms(1) by (auto simp: send_streaming_task_def shown_error_def split: if_splits sum.splits prod.splits)
  have "sm_state m = None" if "call_starting call = None"
    using m(1) that by (auto simp: new_stream_machine_def split: sum.splits)
  then show "updates_named fx" "call_task_id call = None \<Longrightarrow> updated fx" "out_state out \<in> set TERMINAL_STREAM_STATES"
    using client_loop_updates [OF m(2) assms(2)] assms(3) by auto
qed

lemma text_or_none_nonempty: "text_or_none v \<noteq> Some []"
  by (simp add: text_or_none_def split: json.splits list.splits)

text \<open>The call a prepared task makes: a scan is a new task, a confirmation continues the session's.\<close>

lemma prepared_call:
  assumes "prepare_task env fresh now True agent_name message s = Inr p"
  shows "call_task_id (call_of connection p) \<noteq> Some []"
    and "call_starting (call_of connection p) = None \<or> call_task_id (call_of connection p) \<noteq> None"
    and "call_task_id (call_of connection p) \<noteq> None \<Longrightarrow> has_task (update_state s (prepared_writes p))"
proof -
  have "call_task_id (call_of connection p) \<noteq> Some [] \<and>
      (call_starting (call_of connection p) = None \<or> call_task_id (call_of connection p) \<noteq> None) \<and>
      (call_task_id (call_of connection p) \<noteq> None \<longrightarrow> has_task (update_state s (prepared_writes p)))"
  proof (cases "text_or_none (entry ''task_id'' s)")
    case None
    then show ?thesis
      using assms by (auto simp: prepare_task_def prepare_scan_def call_of_def Let_def split: sum.splits)
  next
    case (Some task)
    then show ?thesis
      using assms text_or_none_nonempty [of "entry ''task_id'' s"]
      by (auto simp: prepare_task_def prepare_confirmation_def call_of_def has_task_def write_field_entry Let_def
          split: sum.splits if_splits)
  qed
  then show "call_task_id (call_of connection p) \<noteq> Some []"
    "call_starting (call_of connection p) = None \<or> call_task_id (call_of connection p) \<noteq> None"
    "call_task_id (call_of connection p) \<noteq> None \<Longrightarrow> has_task (update_state s (prepared_writes p))" by blast+
qed

lemma blocked_session:
  assumes "has_task s" and "entry ''task_status'' s \<noteq> JStr ''input_needed''" and "call_assurance connection"
  shows "send_task env fresh now fresh' now' h sid (Some connection) agent_name message events s = (Task_error, None, s)"
proof -
  have "\<exists>e. prepare_task env fresh now True agent_name message s = Inl e"
    using assms(1,2)
    by (auto simp: prepare_task_def prepare_confirmation_def checked_confirmation_def starting_state_def has_task_def Let_def)
  then show ?thesis using assms(3) by (auto simp: send_task_def split: option.splits sum.splits)
qed

text \<open>
  C28: Once a task of the assurance agent ended without completing - failed, canceled or rejected - the
  session is stuck: its task identifier is kept and its status is not the one a confirmation continues
  from, so every later call of \<open>send_task\<close> to the assurance agent is an error that sends nothing and
  changes nothing.
\<close>
theorem failed_task_blocks_session:
  assumes "send_task env fresh now fresh' now' h sid (Some connection) agent_name message events s = (Task_failed shown, sent, s')"
    and "call_assurance connection" and "call_assurance connection'"
  shows "send_task env' fresh1 now1 fresh2 now2 h' sid' (Some connection') agent_name' message' events' s' =
    (Task_error, None, s')"
proof -
  obtain p fx out ws where p: "prepare_task env fresh now True agent_name message s = Inr p"
      "send_streaming_task (env_from_iso env) (call_of connection p) events = (fx, Inr out)"
      "settle_task env fresh' now' True agent_name p s out = Inr (Task_failed shown, ws)"
      "s' = update_state (update_state s (prepared_writes p @ stream_writes agent_name fx)) ws"
    using assms(1,2) by (auto simp: send_task_def Let_def split: option.splits sum.splits prod.splits)
  have ws: "ws = [(''task_status'', JStr (out_state out))]"
    using p(3) by (auto simp: settle_task_def settle_waiting_def Let_def split: if_splits option.splits sum.splits)
  note call = prepared_call [OF p(1), of connection]
  note outcome = outcome_writes [OF p(2) call(1,2)]
  have "has_task (update_state s (prepared_writes p @ stream_writes agent_name fx))"
    using update_state_has_task stream_writes_task [OF outcome(1)] outcome(2) call(3) by simp blast
  then have "has_task s'" by (simp add: p(4) ws has_task_def write_field_entry)
  moreover have "entry ''task_status'' s' = JStr (out_state out)" by (simp add: p(4) ws write_field_entry)
  moreover have "out_state out \<noteq> ''input_needed''" using outcome(3) by (auto simp: TERMINAL_STREAM_STATES_def)
  ultimately show ?thesis using blocked_session assms(3) by simp
qed

end
