(* ===== verification/Supervisor_Examples.thy ===== *)
theory Supervisor_Examples
  imports Supervisor_Runs
begin

text \<open>
  A candidate page, the confirmation of it and a conversation about it: concrete runs to which the
  properties of the Supervisor apply.  The time parser reads the two instants the example uses.
\<close>

section \<open>Sizes\<close>

text \<open>A bound on the encoded size that needs the lengths of the texts only.\<close>

fun json_weight :: "json \<Rightarrow> nat" where
  "json_weight (JObj kvs) = 2 + sum_list (map (\<lambda>(k, v). 12 * length k + json_weight v + 8) kvs)"
| "json_weight (JList vs) = 2 + sum_list (map (\<lambda>v. json_weight v + 1) vs)"
| "json_weight (JStr s) = 12 * length s + 4"
| "json_weight v = utf8_length (json_text v)"

lemma quote_weight: "utf8_length (json_quote s) \<le> 12 * length s + 4"
proof -
  have double: "utf8_length s \<le> 2 * length s" for s by (induction s) simp_all
  have short: "length (json_escape c) \<le> 6" for c by (simp add: json_escape_def Let_def)
  have one: "utf8_length (json_escape c) \<le> 12" for c
  proof -
    have "utf8_length (json_escape c) \<le> 2 * 6" using double [of "json_escape c"] short [of c] by linarith
    then show ?thesis by simp
  qed
  have "utf8_length (concat (map json_escape s)) \<le> 12 * length s"
  proof (induction s)
    case (Cons c s)
    then show ?case using one [of c] by simp
  qed simp
  then show ?thesis by (simp add: json_quote_def)
qed

lemma json_weight_bound: "json_bytes v \<le> json_weight v"
proof (induction v rule: json_bytes.induct)
  case (1 kvs)
  have "utf8_length (json_quote k) + json_bytes v + 2 \<le> 12 * length k + json_weight v + 8" if "(k, v) \<in> set kvs" for k v
    using quote_weight [of k] 1 [OF that refl] by simp
  then have "sum_list (map (\<lambda>(k, v). utf8_length (json_quote k) + json_bytes v + 2) kvs)
      \<le> sum_list (map (\<lambda>(k, v). 12 * length k + json_weight v + 8) kvs)"
    by (intro sum_list_mono) auto
  then show ?case by simp
next
  case (2 vs)
  then show ?case by (auto intro!: sum_list_mono)
qed (use quote_weight in auto)

section \<open>A page and its confirmation\<close>

definition ex_instant :: instant where "ex_instant = 1767225600000000"

definition ex_iso :: iso_parser where
  "ex_iso = map_of [(''2026-01-01T00:00:00+00:00'', (ex_instant, 0)),
     (''2026-01-01T00:15:00+00:00'', (ex_instant + 900000000, 0))]"

definition ex_fresh :: "string \<Rightarrow> string" where "ex_fresh kind = ''1''"

definition ex_start :: json where "ex_start = JStr ''2026-01-01T00:00:00Z''"

definition ex_candidate :: json_object where
  "ex_candidate = [(''candidate_id'', JStr ''candidate-1''), (''technology'', JStr ''LTE''), (''window_end'', JNull),
     (''window_start'', JNull)]"

definition ex_page :: json_object where
  "ex_page = [(''candidates'', JList [JObj ex_candidate]), (''challenge_expires_at'', JStr ''2026-01-01T00:15:00Z''),
     (''challenge_id'', JStr (replicate 32 (CHR ''c''))), (''effective_window_end'', ex_start),
     (''effective_window_start'', ex_start), (''has_more'', JBool False), (''idempotency_key'', JStr ''page-key''),
     (''message_id'', JStr ''page-1''), (''message_type'', JStr ''assurance_candidate_page''), (''page_offset'', JInt 0),
     (''page_size'', JInt 1), (''request_message_id'', JStr ''message-1''), (''schema_version'', JStr ''1.0''),
     (''sent_at'', ex_start), (''snapshot_sha256'', JStr (replicate 64 (CHR ''a''))), (''summary_zh'', JStr ''one''),
     (''total_candidates'', JInt 1), (''trace_id'', JStr ''trace-1''), (''workflow_id'', JStr ''workflow-1'')]"

lemma a2a_keys_plain [simp]:
  "plain_key ''schema_version''" "plain_key ''message_type''" "plain_key ''message_id''" "plain_key ''workflow_id''"
  "plain_key ''trace_id''" "plain_key ''idempotency_key''" "plain_key ''sent_at''" "plain_key ''candidates''"
  "plain_key ''challenge_expires_at''" "plain_key ''challenge_id''" "plain_key ''effective_window_end''"
  "plain_key ''effective_window_start''" "plain_key ''has_more''" "plain_key ''page_offset''" "plain_key ''page_size''"
  "plain_key ''request_message_id''" "plain_key ''snapshot_sha256''" "plain_key ''summary_zh''" "plain_key ''total_candidates''"
  "plain_key ''technology''" "plain_key ''window_end''" "plain_key ''window_start''"
  "plain_key ''preview_message_id''" "plain_key ''decision''" "plain_key ''reason''" "plain_key ''resource_ids''"
  by (simp_all add: plain_key_eval)

lemma replicate_no_label:
  "no_label (replicate n (CHR ''c''))" "no_label (replicate n (CHR ''a''))"
proof -
  have "label_free (replicate n (CHR ''c''))" "label_free (replicate n (CHR ''a''))"
    by (induction n) (simp_all add: identifier_labels_def)
  then show "no_label (replicate n (CHR ''c''))" "no_label (replicate n (CHR ''a''))"
    by (simp_all add: no_label_def py_lower_def py_lower_char_def)
qed

lemma ex_page_plain: "plain_payload (JObj ex_page)"
  unfolding ex_page_def ex_candidate_def ex_start_def
  by (simp add: replicate_no_label MAX_ID_CHARS_def MAX_TEXT_CHARS_def) (simp add: no_label_eval)

lemma small_numbers: "utf8_length (show_int 0) = 1" "utf8_length (show_int 1) = 1"
  by code_simp+

lemmas page_eval = ex_page_def ex_candidate_def ex_start_def

text \<open>Accepting a payload, whatever the order of its keys.\<close>

lemma acceptedI:
  assumes "loaded (JObj kvs) = JObj d" and "json_serializable (JObj d)" and "json_depth (JObj d) \<le> MAX_CANONICAL_DEPTH"
    and "json_weight (JObj d) \<le> MAX_CANONICAL_BYTES" and "entry ''message_type'' d = JStr ty"
    and "ty \<in> set A2A_ASSURANCE_MESSAGE_TYPES" and "validate_decoded from_iso ty d = None"
  shows "canonical_data from_iso (JObj kvs) = Inr (d, json_text (JObj d))"
proof -
  have "loaded (JObj d) = JObj d" using loaded_loaded [of "JObj kvs"] assms(1) by simp
  then have "canonical_data from_iso (JObj d) = Inr (d, json_text (JObj d))"
    using assms(2-) json_weight_bound [of "JObj d"] by (intro canonical_dataI) (simp_all del: json_weight.simps)
  then show ?thesis using canonical_data_loaded [of "JObj kvs" from_iso] assms(1) by (simp add: is_object_def)
qed

lemma ex_page_decoded: "validate_decoded ex_iso ''assurance_candidate_page'' ex_page = None"
proof (rule validate_decodedI)
  show "strict_object (A2A_MESSAGE_FIELDS ''assurance_candidate_page'') ''assurance_candidate_page'' (JObj ex_page) = None"
    by code_simp
  show "plain_payload (JObj ex_page)" by (rule ex_page_plain)
  show "list_all (\<lambda>name. validate_required_text ex_page name = None) A2A_COMMON_FIELDS" by code_simp
  show "entry ''schema_version'' ex_page = JStr ''1.0''" by code_simp
  show "a2a_timestamp ex_iso ''sent_at'' (entry ''sent_at'' ex_page) = None" by code_simp
  show "distinct (map (\<lambda>key. entry key ex_page) [''message_id'', ''workflow_id'', ''trace_id'', ''idempotency_key''])"
    by code_simp
  show "validate_assurance_payload ex_iso ex_page = None" by code_simp
qed simp

lemma ex_page_accepted: "canonical_data ex_iso (JObj ex_page) = Inr (ex_page, json_text (JObj ex_page))"
proof (rule acceptedI [OF _ _ _ _ _ _ ex_page_decoded])
  show "loaded (JObj ex_page) = JObj ex_page" by code_simp
  show "json_serializable (JObj ex_page)" by code_simp
  show "json_depth (JObj ex_page) \<le> MAX_CANONICAL_DEPTH" by code_simp
  show "json_weight (JObj ex_page) \<le> MAX_CANONICAL_BYTES"
    by (simp add: page_eval MAX_CANONICAL_BYTES_def small_numbers)
  show "entry ''message_type'' ex_page = JStr ''assurance_candidate_page''" by code_simp
qed (simp add: A2A_ASSURANCE_MESSAGE_TYPES_def)

definition ex_confirmation :: "bool \<Rightarrow> json_object" where
  "ex_confirmation approved = [(''candidate_id'', JStr ''candidate-1''), (''challenge_id'', JStr (replicate 32 (CHR ''c''))),
     (''decision'', JStr (if approved then ''CONFIRM'' else ''REJECT'')), (''idempotency_key'', JStr ''confirm-1''), (''message_id'', JStr ''message-1''),
     (''message_type'', JStr ''assurance_confirmation_request''), (''preview_message_id'', JStr ''page-1''),
     (''reason'', JStr ''ok''), (''schema_version'', JStr ''1.0''), (''sent_at'', ex_start),
     (''snapshot_sha256'', JStr (replicate 64 (CHR ''a''))), (''trace_id'', JStr ''trace-1''),
     (''workflow_id'', JStr ''workflow-1'')]"

lemma decision_plain: "no_label ''CONFIRM''" "no_label ''REJECT''"
  by code_simp+

lemma ex_confirmation_plain: "plain_payload (JObj (ex_confirmation b))"
  unfolding ex_confirmation_def ex_start_def
  by (simp add: replicate_no_label decision_plain MAX_ID_CHARS_def MAX_TEXT_CHARS_def) (simp add: no_label_eval)

lemma ex_confirmation_decoded: "validate_decoded ex_iso ''assurance_confirmation_request'' (ex_confirmation b) = None"
proof (rule validate_decodedI)
  show "strict_object (A2A_MESSAGE_FIELDS ''assurance_confirmation_request'') ''assurance_confirmation_request''
      (JObj (ex_confirmation b)) = None"
    by (induct b) code_simp+
  show "plain_payload (JObj (ex_confirmation b))" by (rule ex_confirmation_plain)
  show "list_all (\<lambda>name. validate_required_text (ex_confirmation b) name = None) A2A_COMMON_FIELDS" by (induct b) code_simp+
  show "entry ''schema_version'' (ex_confirmation b) = JStr ''1.0''" by (induct b) code_simp+
  show "a2a_timestamp ex_iso ''sent_at'' (entry ''sent_at'' (ex_confirmation b)) = None" by (induct b) code_simp+
  show "distinct (map (\<lambda>key. entry key (ex_confirmation b)) [''message_id'', ''workflow_id'', ''trace_id'', ''idempotency_key''])"
    by (induct b) code_simp+
  show "validate_assurance_payload ex_iso (ex_confirmation b) = None" by (induct b) code_simp+
qed simp

lemma ex_confirmation_accepted:
  assumes "loaded (JObj kvs) = JObj (ex_confirmation b)"
  shows "canonical_data ex_iso (JObj kvs) = Inr ((ex_confirmation b), json_text (JObj (ex_confirmation b)))"
proof (rule acceptedI [OF assms _ _ _ _ _ ex_confirmation_decoded])
  show "json_serializable (JObj (ex_confirmation b))" by (induct b) code_simp+
  show "json_depth (JObj (ex_confirmation b)) \<le> MAX_CANONICAL_DEPTH" by (induct b) code_simp+
  show "json_weight (JObj (ex_confirmation b)) \<le> MAX_CANONICAL_BYTES"
    by (simp add: ex_confirmation_def ex_start_def MAX_CANONICAL_BYTES_def)
  show "entry ''message_type'' (ex_confirmation b) = JStr ''assurance_confirmation_request''" by (induct b) code_simp+
qed (simp add: A2A_ASSURANCE_MESSAGE_TYPES_def)

lemma ex_confirmed:
  assumes "mid \<in> {JNull, JStr ''message-1''}" and "key \<in> {JNull, JStr ''confirm-1''}"
  shows "build_assurance_confirmation_request ex_iso ex_fresh ex_instant (JObj ex_page) (JBool b) (JStr ''ok'') No_time
    mid key = Inr (ex_confirmation b)"
proof -
  let ?made = "confirmation_of (required_of_page ex_page ex_candidate) b ''ok'' (JStr ''message-1'')
    (JStr ''confirm-1'') ''2026-01-01T00:00:00Z''"
  have "check_pending_page ex_iso ex_page = None" by code_simp
  moreover have "utc_text ex_instant No_time = Inr ''2026-01-01T00:00:00Z''" by code_simp
  moreover have "py_strip ''ok'' = ''ok''" by code_simp
  moreover have "given_or_new ex_fresh ''message'' mid = JStr ''message-1''"
    "given_or_new ex_fresh ''confirm'' key = JStr ''confirm-1''"
    using assms by (auto simp: given_or_new_def falsy_def number_of_json_def new_id_def ex_fresh_def)
  moreover have "entries_of_json (hd (items_of_json (entry ''candidates'' ex_page))) = ex_candidate" by code_simp
  moreover have "check_confirmation ex_page ?made = None" by (induct b) code_simp+
  moreover have "loaded (JObj ?made) = JObj (ex_confirmation b)" by (induct b) code_simp+
  ultimately show ?thesis
    using ex_confirmation_accepted [of ?made b] ex_page_accepted
    by (simp add: build_assurance_confirmation_request_def Let_def del: loaded.simps)
qed

theorem canonical_payload_is_guarded_witness:
  "canonical_data ex_iso (JObj ex_page) = Inr (ex_page, json_text (JObj ex_page)) \<and>
     assert_payload_budget (JObj ex_page) = None \<and> assert_model_safe (JObj ex_page) = None"
  using canonical_payload_is_guarded [OF ex_page_accepted] ex_page_accepted by blast

theorem canonical_data_is_stable_witness:
  "loaded (JObj (rev ex_page)) = loaded (JObj ex_page) \<and>
     canonical_data ex_iso (JObj (rev ex_page)) = Inr (ex_page, json_text (JObj ex_page))"
proof -
  have same: "loaded (JObj (rev ex_page)) = loaded (JObj ex_page)" by code_simp
  then show ?thesis
    using canonical_data_is_stable [OF ex_page_accepted _ same] by (simp add: is_object_def)
qed

theorem confirmation_is_bound_witness:
  "build_assurance_confirmation_request ex_iso ex_fresh ex_instant (JObj ex_page) (JBool True) (JStr ''ok'') No_time
     JNull JNull = Inr (ex_confirmation True) \<and>
   (\<exists>pg encoded. canonical_data ex_iso (JObj ex_page) = Inr (pg, encoded) \<and> confirms pg True (ex_confirmation True))"
proof -
  have built: "build_assurance_confirmation_request ex_iso ex_fresh ex_instant (JObj ex_page) (JBool True) (JStr ''ok'')
      No_time JNull JNull = Inr (ex_confirmation True)"
    by (rule ex_confirmed) simp_all
  then show ?thesis using confirmation_is_bound [OF built] by auto
qed

section \<open>A conversation\<close>

text \<open>A stream asked for input with the page, the user approved with the tool, and the Supervisor confirms.\<close>

definition ex_result :: json_object where
  "ex_result = [(''approved'', JBool True), (''tasks'', JList []), (''timestamp'', JStr ''now'')]"

definition ex_env :: supervisor_env where
  "ex_env = \<lparr>env_from_iso = ex_iso, env_json_loads = map_of [(''approval'', JObj ex_result)], env_str = (\<lambda>v. []),
     env_reason = (\<lambda>approved. ''ok''), env_preview_reason = ''ok'', env_scan_text = ''scan'', env_confirm_text = ''yes''\<rparr>"

definition ex_asked :: "canonical_content stream_outcome" where
  "ex_asked = \<lparr>out_state = ''input_required'', out_task_id = ''task-1'', out_context_id = ''context-1'',
     out_content = Some \<lparr>content_data = ex_page, content_text = None, content_message_id = ''page-1''\<rparr>, out_text = None\<rparr>"

definition ex_scan_task :: prepared_task where
  "ex_scan_task = \<lparr>prepared_payload = JNull, prepared_writes = [], prepared_task_id = None,
     prepared_context_id = Some ''context-1'', prepared_starting = None, expected_scan_message = JStr ''message-1'',
     expected_workflow = JStr ''workflow-1'', expected_trace = JStr ''trace-1''\<rparr>"

definition ex_waiting :: "(string \<times> json) list" where
  "ex_waiting = [(''agent'', JStr ASSURANCE_AGENT_NAME), (''task_status'', JStr ''input_needed''), (''task_id'', JStr ''task-1''),
     (''a2a_context_id'', JStr ''context-1''), (''pending_assurance'', JObj ex_page), (''trusted_assurance_decision'', JNull)]"

definition ex_decision :: trusted_decision where
  "ex_decision = \<lparr>decision_tool_call_id = ''call::thread'', decision_approved = True,
     confirmation_data = ex_confirmation True\<rparr>"

definition ex_decided :: json_object where
  "ex_decided = update_state [] (ex_waiting @ [(''trusted_assurance_decision'', json_of_decision ex_decision)])"

lemma ex_scan_settled:
  "settle_task ex_env ex_fresh ex_instant True ASSURANCE_AGENT_NAME ex_scan_task [] ex_asked = Inr (Input_required None, ex_waiting)"
proof -
  have "entry ''message_type'' ex_page = JStr ''assurance_candidate_page''" by code_simp
  moreover have "correlated_page ex_scan_task ex_page" by code_simp
  ultimately show ?thesis
    using ex_confirmed [of JNull JNull False]
    by (simp add: settle_task_def settle_waiting_def ex_asked_def ex_env_def waiting_writes_def ex_waiting_def given_text_def Let_def)
qed

lemma ex_approval: "parse_trusted_approval (env_json_loads ex_env) (JStr ''approval'') = Inr True"
  by code_simp

lemma ex_clicked:
  "tool_decision ex_env ex_fresh ex_instant ''call::thread'' (JStr ''requestTaskApproval'') (JStr ''approval'')
     (update_state [] ex_waiting) = Inr (Some ex_decision)"
proof -
  have "entry ''agent'' (update_state [] ex_waiting) = JStr ASSURANCE_AGENT_NAME" by code_simp
  moreover have "entry ''task_status'' (update_state [] ex_waiting) = JStr ''input_needed''" by code_simp
  moreover have "entry ''pending_assurance'' (update_state [] ex_waiting) = JObj ex_page" by code_simp
  moreover have "entry ''trusted_assurance_decision'' (update_state [] ex_waiting) = JNull" by code_simp
  moreover have "a2a_text [] (MAX_ID_CHARS * 2 + 2) False (JStr ''call::thread'') = None" by code_simp
  ultimately show ?thesis
    using ex_confirmed [of JNull JNull True] ex_approval
    by (simp add: tool_decision_def build_trusted_assurance_decision_def Let_def is_object_def ex_decision_def
        text_of_json_def ex_env_def del: update_state_simps)
qed

definition ex_message_sent :: json where
  "ex_message_sent = JObj [(''message'', user_message [JObj [(''kind'', JStr ''data''), (''data'', JObj (ex_confirmation True))],
     text_part ''yes''] ''message-1'' (Some ''task-1'') (Some ''context-1''))]"

lemma ex_data_message:
  "create_data_message_payload ex_iso (ex_confirmation True) (Some ''task-1'') (Some ''context-1'') (Some ''yes'') = Inr ex_message_sent"
proof -
  let ?parts = "[JObj [(''kind'', JStr ''data''), (''data'', JObj (ex_confirmation True))], text_part ''yes'']"
  let ?message = "user_message ?parts ''message-1'' (Some ''task-1'') (Some ''context-1'')"
  have "text_of_json (entry ''message_id'' (ex_confirmation True)) = ''message-1''" by code_simp
  moreover have "parts_of_content ?message = Inr ?parts" by code_simp
  moreover have "collect_parts ?parts ([], []) = Inr ([JObj (ex_confirmation True)], [''yes''])" by code_simp
  moreover have "assert_container_ids ?message ''message-1'' None (Some ''task-1'') (Some ''context-1'') = None" by code_simp
  moreover have "loaded (JObj (ex_confirmation True)) = JObj (ex_confirmation True)" by code_simp
  ultimately show ?thesis
    using ex_confirmation_accepted [of "ex_confirmation True" True]
    by (simp add: create_data_message_payload_def decode_canonical_parts_def ex_message_sent_def Let_def del: loaded.simps)
qed

lemma ex_prepared:
  "\<exists>p. prepare_task ex_env ex_fresh ex_instant True ASSURANCE_AGENT_NAME ''yes'' ex_decided = Inr p \<and> prepared_payload p = ex_message_sent"
proof -
  have "text_or_none (entry ''task_id'' ex_decided) = Some ''task-1''" by code_simp
  moreover have "entry ''agent'' ex_decided = JStr ASSURANCE_AGENT_NAME" by code_simp
  moreover have "starting_state ex_decided = Some (State_text ''input_required'')" by code_simp
  moreover have pending: "entry ''pending_assurance'' ex_decided = JObj ex_page" by code_simp
  moreover have "is_object (entry ''trusted_assurance_decision'' ex_decided)" by code_simp
  moreover have "text_or_none (entry ''a2a_context_id'' ex_decided) = Some ''context-1''" by code_simp
  moreover have persisted: "persisted_confirmation ex_decided = JObj (ex_confirmation True)" by code_simp
  moreover have "rebuilt_confirmation ex_env ex_fresh ex_instant ex_decided = Inr (ex_confirmation True)"
  proof -
    have "entry ''approved'' (entries_of_json (entry ''trusted_assurance_decision'' ex_decided)) = JBool True" by code_simp
    moreover have "str_of ex_env (entry_or (JStr []) ''reason'' (ex_confirmation True)) = ''ok''" by code_simp
    moreover have "str_of ex_env (entry_or (JStr []) ''message_id'' (ex_confirmation True)) = ''message-1''" by code_simp
    moreover have "str_of ex_env (entry_or (JStr []) ''idempotency_key'' (ex_confirmation True)) = ''confirm-1''" by code_simp
    ultimately show ?thesis
      using ex_confirmed [of "JStr ''message-1''" "JStr ''confirm-1''" True] pending persisted
      by (simp add: rebuilt_confirmation_def entries_of_json_def Let_def ex_env_def)
  qed
  moreover have "same_but_time (ex_confirmation True) (ex_confirmation True)" by (simp add: same_but_time_def list_all_iff)
  ultimately show ?thesis
    using ex_data_message
    by (simp add: prepare_task_def prepare_confirmation_def checked_confirmation_def Let_def is_object_def
        entries_of_json_def ex_env_def)
qed

theorem only_clicked_decisions_are_sent_witness:
  "\<exists>v. (host_step ex_env)\<^sup>*\<^sup>* fresh_session v \<and> (True, ex_message_sent) \<in> set (sv_sent v) \<and> message_allowed ex_env v ex_message_sent"
proof -
  obtain v where v: "carries_on ex_env fresh_session v" "sv_session v = update_state [] ex_waiting"
    using writes_run [of fresh_session ex_waiting ex_env] host_step.settle [OF _ ex_scan_settled]
    by (auto simp: fresh_session_def simp del: update_state_simps)
  have "(host_step ex_env)\<^sup>*\<^sup>* fresh_session v" using v(1) by (simp add: carries_on_def)
  then have "update_state [] ex_waiting \<in> set (sv_read v)" using reachable_host_inv v(2) by (fastforce simp: host_inv_def)
  note trusted = host_step.trust [OF this ex_clicked]
  let ?w = "(wrote v (''trusted_assurance_decision'', json_of_decision ex_decision))
      \<lparr>sv_clicks := (entry ''pending_assurance'' (update_state [] ex_waiting), JStr ''approval'') # sv_clicks v\<rparr>"
  obtain p where p: "prepare_task ex_env ex_fresh ex_instant True ASSURANCE_AGENT_NAME ''yes'' ex_decided = Inr p"
      "prepared_payload p = ex_message_sent"
    using ex_prepared by blast
  have "ex_decided \<in> set (sv_read ?w)" using v(2) by (simp add: ex_decided_def wrote_def)
  then have "host_step ex_env ?w (?w\<lparr>sv_sent := (True, ex_message_sent) # sv_sent ?w\<rparr>)"
    by (rule host_step.hand_over [OF _ p(1), unfolded p(2)])
  note handed = this
  let ?v = "?w\<lparr>sv_sent := (True, ex_message_sent) # sv_sent ?w\<rparr>"
  have run: "(host_step ex_env)\<^sup>*\<^sup>* fresh_session ?v"
    using handed trusted v(1) unfolding carries_on_def by (meson rtranclp.rtrancl_into_rtrancl)
  have sent: "(True, ex_message_sent) \<in> set (sv_sent ?v)" by simp
  show ?thesis using run sent only_clicked_decisions_are_sent [OF run sent] by blast
qed

section \<open>A scan that fails\<close>

definition ex_scan :: json_object where
  "ex_scan = [(''idempotency_key'', JStr ''scan-1''), (''message_id'', JStr ''message-1''),
     (''message_type'', JStr ''assurance_scan_request''), (''page_offset'', JInt 0), (''page_size'', JInt 1),
     (''resource_ids'', JList []), (''schema_version'', JStr ''1.0''), (''sent_at'', ex_start), (''trace_id'', JStr ''trace-1''),
     (''window_end'', JNull), (''window_start'', JNull), (''workflow_id'', JStr ''workflow-1'')]"

lemma ex_scan_plain: "plain_payload (JObj ex_scan)"
  unfolding ex_scan_def ex_start_def
  by (simp add: MAX_ID_CHARS_def MAX_TEXT_CHARS_def) (simp add: no_label_eval)

lemma ex_scan_decoded: "validate_decoded ex_iso ''assurance_scan_request'' ex_scan = None"
proof (rule validate_decodedI)
  show "strict_object (A2A_MESSAGE_FIELDS ''assurance_scan_request'') ''assurance_scan_request'' (JObj ex_scan) = None"
    by code_simp
  show "plain_payload (JObj ex_scan)" by (rule ex_scan_plain)
  show "list_all (\<lambda>name. validate_required_text ex_scan name = None) A2A_COMMON_FIELDS" by code_simp
  show "entry ''schema_version'' ex_scan = JStr ''1.0''" by code_simp
  show "a2a_timestamp ex_iso ''sent_at'' (entry ''sent_at'' ex_scan) = None" by code_simp
  show "distinct (map (\<lambda>key. entry key ex_scan) [''message_id'', ''workflow_id'', ''trace_id'', ''idempotency_key''])"
    by code_simp
  show "validate_assurance_payload ex_iso ex_scan = None" by code_simp
qed simp

lemma ex_scan_accepted:
  assumes "loaded (JObj kvs) = JObj ex_scan"
  shows "canonical_data ex_iso (JObj kvs) = Inr (ex_scan, json_text (JObj ex_scan))"
proof (rule acceptedI [OF assms _ _ _ _ _ ex_scan_decoded])
  show "json_serializable (JObj ex_scan)" by code_simp
  show "json_depth (JObj ex_scan) \<le> MAX_CANONICAL_DEPTH" by code_simp
  show "json_weight (JObj ex_scan) \<le> MAX_CANONICAL_BYTES"
    by (simp add: ex_scan_def ex_start_def MAX_CANONICAL_BYTES_def small_numbers)
  show "entry ''message_type'' ex_scan = JStr ''assurance_scan_request''" by code_simp
qed (simp add: A2A_ASSURANCE_MESSAGE_TYPES_def)

definition ex_scan_data :: json_object where
  "ex_scan_data = scan_request_data ex_fresh ''2026-01-01T00:00:00Z'' None None"

lemma ex_scan_request:
  "build_assurance_scan_request ex_iso ex_fresh ex_instant No_time None None =
     Inr \<lparr>scan_data = ex_scan_data, a2a_context_id = ''context-1''\<rparr>"
proof -
  have "utc_text ex_instant No_time = Inr ''2026-01-01T00:00:00Z''" by code_simp
  then show ?thesis
    by (simp add: build_assurance_scan_request_def ex_scan_data_def new_id_def ex_fresh_def fail_if_def)
qed

lemma ex_scan_message:
  "\<exists>payload. create_data_message_payload ex_iso ex_scan_data None (Some ''context-1'') (Some ''scan'') = Inr payload"
proof -
  let ?parts = "[JObj [(''kind'', JStr ''data''), (''data'', JObj ex_scan_data)], text_part ''scan'']"
  let ?message = "user_message ?parts ''message-1'' None (Some ''context-1'')"
  have "text_of_json (entry ''message_id'' ex_scan_data) = ''message-1''" "text_of_json (entry ''message_id'' ex_scan) = ''message-1''"
    by code_simp+
  moreover have "parts_of_content ?message = Inr ?parts" by code_simp
  moreover have "collect_parts ?parts ([], []) = Inr ([JObj ex_scan_data], [''scan''])" by code_simp
  moreover have "assert_container_ids ?message ''message-1'' None None (Some ''context-1'') = None" by code_simp
  moreover have "loaded (JObj ex_scan_data) = JObj ex_scan" by code_simp
  ultimately show ?thesis
    using ex_scan_accepted [of ex_scan_data]
    by (simp add: create_data_message_payload_def decode_canonical_parts_def Let_def del: loaded.simps)
qed

definition ex_connection :: stream_call where
  "ex_connection = \<lparr>call_connected = True, call_streaming = True, call_assurance = True, call_task_id = None,
     call_context_id = Some ''context-1'', call_starting = None\<rparr>"

definition ex_failing :: "wire_event list" where
  "ex_failing = [Wire_task (JStr ''task-1'') (JStr ''context-1'') (State_text ''submitted''),
     Wire_status (JStr ''task-1'') (JStr ''context-1'') (State_text ''failed'') True JNull]"

definition ex_failed :: "canonical_content stream_outcome" where
  "ex_failed = \<lparr>out_state = ''failed'', out_task_id = ''task-1'', out_context_id = ''context-1'', out_content = None,
     out_text = None\<rparr>"

lemma ex_failing_stream:
  "send_streaming_task ex_iso ex_connection ex_failing =
     ([Update_state (JStr ''task-1'') (JStr ''context-1'')], Inr ex_failed)"
  by code_simp

theorem remote_outcome_is_checked_witness:
  "send_streaming_task ex_iso ex_connection ex_failing =
     ([Update_state (JStr ''task-1'') (JStr ''context-1'')], Inr ex_failed) \<and> outcome_fits ex_iso ex_connection ex_failed"
proof -
  have "list_all sdk_event ex_failing" by (simp add: ex_failing_def TASK_STATES_def)
  then show ?thesis using remote_outcome_is_checked [OF ex_failing_stream] ex_failing_stream by blast
qed

definition ex_sockets :: host_sockets where
  "ex_sockets = snd (bind_ui_thread (JStr ''thread'') ''sid'' 1 (snd (register_socket (JStr ''sid'') 1
     \<lparr>sio_sessions = [], thread_ownership = empty_ui_threads, tool_result_locks = []\<rparr>)))"

theorem failed_task_blocks_session_witness:
  "\<exists>sent s'. send_task ex_env ex_fresh ex_instant ex_fresh ex_instant ex_sockets (JStr ''thread'') (Some ex_connection)
       ASSURANCE_AGENT_NAME ''scan'' ex_failing [] = (Task_failed None, sent, s') \<and>
     send_task ex_env ex_fresh ex_instant ex_fresh ex_instant ex_sockets (JStr ''thread'') (Some ex_connection)
       ASSURANCE_AGENT_NAME ''scan'' ex_failing s' = (Task_error, None, s')"
proof -
  have env: "env_from_iso ex_env = ex_iso" "env_scan_text ex_env = ''scan''" by (simp_all add: ex_env_def)
  obtain payload where "create_data_message_payload ex_iso ex_scan_data None (Some ''context-1'') (Some ''scan'') = Inr payload"
    using ex_scan_message by blast
  moreover have "text_or_none (entry ''task_id'' []) = None" by code_simp
  ultimately obtain p where p: "prepare_task ex_env ex_fresh ex_instant True ASSURANCE_AGENT_NAME ''scan'' [] = Inr p"
      "call_of ex_connection p = ex_connection"
    using ex_scan_request by (simp add: prepare_task_def prepare_scan_def call_of_def ex_connection_def env Let_def)
  have target: "text_or_none (JStr ''thread'') = Some ''thread''" "socket_target (JStr ''thread'') ex_sockets = Inr (''sid'', 1)"
    by code_simp+
  have "\<exists>sent s'. send_task ex_env ex_fresh ex_instant ex_fresh ex_instant ex_sockets (JStr ''thread'') (Some ex_connection)
       ASSURANCE_AGENT_NAME ''scan'' ex_failing [] = (Task_failed None, sent, s')"
    using p ex_failing_stream target
    by (simp add: send_task_def ex_connection_def env settle_task_def ex_failed_def given_text_def Let_def)
  then obtain sent s' where first: "send_task ex_env ex_fresh ex_instant ex_fresh ex_instant ex_sockets (JStr ''thread'')
      (Some ex_connection) ASSURANCE_AGENT_NAME ''scan'' ex_failing [] = (Task_failed None, sent, s')" by blast
  have "call_assurance ex_connection" by (simp add: ex_connection_def)
  then show ?thesis using first failed_task_blocks_session [OF first] by blast
qed

end
