(* ===== verification/Rules.thy ===== *)
theory Rules
  imports Models "HOL-Library.Product_Lexorder"
begin

text \<open>
  The versioned rules of the local profile (\<open>telco_local/rules.py\<close>): their values, the comparison of
  scalars, the identity checks of a rule set, and \<open>resolve_rules_for_incident\<close>, which accepts for an
  incident only the rules that its violations name and whose content it recorded.  A rule is the parsed
  model; \<open>h\<close> is SHA-256 and \<open>dump\<close> is \<open>rule.model_dump(mode="json", round_trip=True)\<close>.
\<close>

section \<open>Rules\<close>

text \<open>A scalar of Python's types \<open>bool\<close>, \<open>int\<close>, \<open>float\<close> (finite) and \<open>str\<close>.\<close>

datatype fact_value = Fact_bool bool | Fact_int int | Fact_float rat | Fact_str string

record rule_detection =
  det_kpi_name :: string
  det_comparator :: kpi_comparator
  det_threshold :: rat
  det_unit :: "string option"
  max_gap_minutes :: int

record fact_predicate =
  pred_fact :: string
  pred_comparator :: kpi_comparator
  pred_value :: fact_value

datatype group_operator = Group_ALL | Group_ANY

record predicate_group =
  group_operator :: group_operator
  group_predicates :: "fact_predicate list"

record rule_analysis =
  analysis_evidence_types :: "evidence_type list"
  analysis_when :: predicate_group
  hypothesis_zh :: string
  root_cause_zh :: string

record severity_case =
  case_when :: predicate_group
  case_severity :: incident_severity

record rule_severity =
  severity_cases :: "severity_case list"
  severity_default :: incident_severity

record rca_rule =
  rule_id :: string
  rule_version :: string
  rule_technology :: string
  is_current :: bool
  description_zh :: string
  detection :: rule_detection
  analysis :: rule_analysis
  rule_sev :: rule_severity

definition rule_identity :: "rca_rule \<Rightarrow> string \<times> string" where
  "rule_identity r = (rule_id r, rule_version r)"

text \<open>Python's \<open>==\<close> of two rules: equal fields, where numbers and booleans compare by value.\<close>

definition plain_value :: "fact_value \<Rightarrow> fact_value" where
  "plain_value v = (case v of Fact_bool b \<Rightarrow> Fact_float (if b then 1 else 0) | Fact_int i \<Rightarrow> Fact_float (of_int i) | _ \<Rightarrow> v)"

definition plain_group :: "predicate_group \<Rightarrow> predicate_group" where
  "plain_group g = g\<lparr>group_predicates := map (\<lambda>p. p\<lparr>pred_value := plain_value (pred_value p)\<rparr>) (group_predicates g)\<rparr>"

definition plain_rule :: "rca_rule \<Rightarrow> rca_rule" where
  "plain_rule r = r\<lparr>analysis := (analysis r)\<lparr>analysis_when := plain_group (analysis_when (analysis r))\<rparr>,
     rule_sev := (rule_sev r)\<lparr>severity_cases := map (\<lambda>c. c\<lparr>case_when := plain_group (case_when c)\<rparr>)
       (severity_cases (rule_sev r))\<rparr>\<rparr>"

definition same_rule :: "rca_rule \<Rightarrow> rca_rule \<Rightarrow> bool" where
  "same_rule r s \<longleftrightarrow> plain_rule r = plain_rule s"

section \<open>Comparisons\<close>

datatype rule_error = Overflow_error | Rule_validation_error | Rule_load_error string

text \<open>\<open>float(i)\<close> raises \<open>OverflowError\<close> when \<open>i\<close> rounds beyond the largest double.\<close>

definition float_overflows :: "fact_value \<Rightarrow> bool" where
  "float_overflows v = (case v of Fact_int i \<Rightarrow> \<bar>i\<bar> \<ge> 2 ^ 1024 - 2 ^ 970 | _ \<Rightarrow> False)"

definition fact_number :: "fact_value \<Rightarrow> rat option" where
  "fact_number v = (case v of Fact_int i \<Rightarrow> Some (of_int i) | Fact_float x \<Rightarrow> Some x | _ \<Rightarrow> None)"

definition same_type :: "fact_value \<Rightarrow> fact_value \<Rightarrow> bool" where
  "same_type v w = (case (v, w) of (Fact_bool _, Fact_bool _) \<Rightarrow> True | (Fact_int _, Fact_int _) \<Rightarrow> True
     | (Fact_float _, Fact_float _) \<Rightarrow> True | (Fact_str _, Fact_str _) \<Rightarrow> True | _ \<Rightarrow> False)"

definition ordered_by :: "kpi_comparator \<Rightarrow> rat \<Rightarrow> rat \<Rightarrow> bool" where
  "ordered_by c x y = (case c of LESS_THAN \<Rightarrow> x < y | LESS_THAN_OR_EQUAL \<Rightarrow> x \<le> y | GREATER_THAN \<Rightarrow> x > y | _ \<Rightarrow> x \<ge> y)"

definition compare_values :: "fact_value \<Rightarrow> kpi_comparator \<Rightarrow> fact_value \<Rightarrow> rule_error + bool" where
  "compare_values left c right =
     (if c \<in> {LESS_THAN, LESS_THAN_OR_EQUAL, GREATER_THAN, GREATER_THAN_OR_EQUAL} then
        (case (fact_number left, fact_number right) of
           (Some x, Some y) \<Rightarrow> if float_overflows left \<or> float_overflows right then Inl Overflow_error
             else Inr (ordered_by c x y)
         | _ \<Rightarrow> Inr False)
      else if \<not> same_type left right then Inr False
      else if c = EQUAL then Inr (left = right) else Inr (left \<noteq> right))"

text \<open>Whether an observed value is past a threshold, both floats.\<close>

definition past_threshold :: "rat \<Rightarrow> kpi_comparator \<Rightarrow> rat \<Rightarrow> bool" where
  "past_threshold x c y = (compare_values (Fact_float x) c (Fact_float y) = Inr True)"

definition detection_matches :: "rca_rule \<Rightarrow> kpi_violation \<Rightarrow> bool" where
  "detection_matches r v \<longleftrightarrow> kpi_rule_id v = Some (rule_id r) \<and> kpi_rule_version v = Some (rule_version r) \<and>
     kpi_name v = det_kpi_name (detection r) \<and> kpi_unit v = det_unit (detection r) \<and>
     threshold_value v = det_threshold (detection r) \<and> comparator v = det_comparator (detection r) \<and>
     past_threshold (observed_value v) (det_comparator (detection r)) (det_threshold (detection r))"

section \<open>Resolution\<close>

definition BUBBLERAN_REPLAY_DETECTOR_ALGORITHM :: string where
  "BUBBLERAN_REPLAY_DETECTOR_ALGORITHM = ''deterministic-bubbleran-replay-threshold-v1''"

definition BUBBLERAN_REPLAY_RULE_ID :: string where
  "BUBBLERAN_REPLAY_RULE_ID = ''5g-sa.bubbleran.persistent-interference.ul-bler''"

datatype resolution_status = Rule_EXACT | Rule_PARTIAL | Rule_LEGACY_UNVERSIONED | Rule_CONFLICT
  | Rule_NOT_APPLICABLE | Rule_NO_VIOLATIONS

datatype issue_code = LEGACY_UNVERSIONED | PARTIAL_PROVENANCE | INCIDENT_VERSION_MISSING | INCIDENT_VERSION_CONFLICT
  | RULE_VERSION_NOT_FOUND | DUPLICATE_RULE_VERSION | DETECTOR_ALGORITHM_MISMATCH | KPI_MISMATCH | UNIT_MISMATCH
  | THRESHOLD_MISMATCH | COMPARATOR_MISMATCH | RULE_CONTENT_HASH_MISSING | RULE_CONTENT_HASH_INVALID
  | RULE_CONTENT_HASH_AMBIGUOUS | RULE_CONTENT_MISMATCH | UNREFERENCED_RULE_CONTENT_HASH
  | OBSERVATION_NOT_VIOLATION | UNREFERENCED_INCIDENT_RULE

fun issue_code_value :: "issue_code \<Rightarrow> string" where
  "issue_code_value LEGACY_UNVERSIONED = ''LEGACY_UNVERSIONED''"
| "issue_code_value PARTIAL_PROVENANCE = ''PARTIAL_PROVENANCE''"
| "issue_code_value INCIDENT_VERSION_MISSING = ''INCIDENT_VERSION_MISSING''"
| "issue_code_value INCIDENT_VERSION_CONFLICT = ''INCIDENT_VERSION_CONFLICT''"
| "issue_code_value RULE_VERSION_NOT_FOUND = ''RULE_VERSION_NOT_FOUND''"
| "issue_code_value DUPLICATE_RULE_VERSION = ''DUPLICATE_RULE_VERSION''"
| "issue_code_value DETECTOR_ALGORITHM_MISMATCH = ''DETECTOR_ALGORITHM_MISMATCH''"
| "issue_code_value KPI_MISMATCH = ''KPI_MISMATCH''"
| "issue_code_value UNIT_MISMATCH = ''UNIT_MISMATCH''"
| "issue_code_value THRESHOLD_MISMATCH = ''THRESHOLD_MISMATCH''"
| "issue_code_value COMPARATOR_MISMATCH = ''COMPARATOR_MISMATCH''"
| "issue_code_value RULE_CONTENT_HASH_MISSING = ''RULE_CONTENT_HASH_MISSING''"
| "issue_code_value RULE_CONTENT_HASH_INVALID = ''RULE_CONTENT_HASH_INVALID''"
| "issue_code_value RULE_CONTENT_HASH_AMBIGUOUS = ''RULE_CONTENT_HASH_AMBIGUOUS''"
| "issue_code_value RULE_CONTENT_MISMATCH = ''RULE_CONTENT_MISMATCH''"
| "issue_code_value UNREFERENCED_RULE_CONTENT_HASH = ''UNREFERENCED_RULE_CONTENT_HASH''"
| "issue_code_value OBSERVATION_NOT_VIOLATION = ''OBSERVATION_NOT_VIOLATION''"
| "issue_code_value UNREFERENCED_INCIDENT_RULE = ''UNREFERENCED_INCIDENT_RULE''"

record resolution_issue =
  violation_key :: string
  issue_code :: issue_code
  issue_rule_id :: "string option"
  issue_rule_version :: "string option"

record rule_resolution =
  resolution_status :: resolution_status
  resolution_rules :: "rca_rule list"
  resolution_issues :: "resolution_issue list"

definition rule_content_sha256 :: "(string \<Rightarrow> string) \<Rightarrow> (rca_rule \<Rightarrow> json) \<Rightarrow> rca_rule \<Rightarrow> string" where
  "rule_content_sha256 h dump r = h (json_text (JList [JStr ''rca-rule-content-v1'', dump r]))"

text \<open>\<open>by_identity\<close> and \<open>duplicate_identities\<close>: the first rule of an identity is kept, others are noted.\<close>

type_synonym rule_index = "(string \<times> string, rca_rule) dict \<times> (string \<times> string) list"

definition index_rule :: "rule_index \<Rightarrow> rca_rule \<Rightarrow> rule_index" where
  "index_rule index r = (case index of (by_identity, duplicates) \<Rightarrow>
     (case map_of by_identity (rule_identity r) of
        Some previous \<Rightarrow> if \<not> same_rule previous r then (by_identity, rule_identity r # duplicates)
          else (AList.update (rule_identity r) r by_identity, duplicates)
      | None \<Rightarrow> (AList.update (rule_identity r) r by_identity, duplicates)))"

definition index_rules :: "string \<Rightarrow> rca_rule list \<Rightarrow> rule_index" where
  "index_rules tech rules = foldl index_rule ([], []) (filter (\<lambda>r. rule_technology r = tech) rules)"

definition metadata_entry :: "string \<Rightarrow> incident \<Rightarrow> json" where
  "metadata_entry key i = (case map_of (model_metadata i) key of None \<Rightarrow> JNull | Some v \<Rightarrow> v)"

definition object_entries :: "json \<Rightarrow> (string, json) dict option" where
  "object_entries v = (case v of JObj kvs \<Rightarrow> Some kvs | _ \<Rightarrow> None)"

definition claimed_rule_ids :: "incident \<Rightarrow> string list" where
  "claimed_rule_ids i = remdups (List.map_filter (\<lambda>v. case (kpi_rule_id v, kpi_rule_version v) of
     (Some rid, Some _) \<Rightarrow> Some rid | _ \<Rightarrow> None) (violated_kpis i))"

text \<open>\<open>content_hashes\<close> and \<open>content_hashes_issue\<close>.\<close>

definition content_hashes :: "incident \<Rightarrow> issue_code + (string, json) dict" where
  "content_hashes i = (let raw = metadata_entry ''rule_content_hashes'' i; legacy = metadata_entry ''rule_content_sha256'' i in
     if raw \<noteq> JNull then
       (case object_entries raw of
          Some kvs \<Rightarrow> if legacy \<noteq> JNull then Inl RULE_CONTENT_HASH_INVALID else Inr kvs
        | None \<Rightarrow> Inl RULE_CONTENT_HASH_INVALID)
     else if legacy \<noteq> JNull then
       (case claimed_rule_ids i of [rid] \<Rightarrow> Inr [(rid, legacy)] | _ \<Rightarrow> Inl RULE_CONTENT_HASH_AMBIGUOUS)
     else Inr [])"

definition digest_text_ok :: "string \<Rightarrow> bool" where
  "digest_text_ok s \<longleftrightarrow> length s = 64 \<and> list_all (\<lambda>c. c \<in> set ''0123456789abcdef'') s"

definition requires_content_digest :: "incident \<Rightarrow> bool" where
  "requires_content_digest i \<longleftrightarrow> metadata_entry ''detector_algorithm'' i = JStr ''deterministic-threshold-episodes-v3''"

definition content_issue :: "(string \<Rightarrow> string) \<Rightarrow> (rca_rule \<Rightarrow> json) \<Rightarrow> incident \<Rightarrow> rca_rule \<Rightarrow> issue_code option" where
  "content_issue h dump i r = (let replayed = (rule_id r = BUBBLERAN_REPLAY_RULE_ID) in
     if replayed \<and> metadata_entry ''rule_content_sha256'' i \<noteq> JNull then Some RULE_CONTENT_HASH_INVALID
     else case content_hashes i of Inl code \<Rightarrow> Some code
     | Inr hashes \<Rightarrow> (case map_of hashes (rule_id r) of
         Some (JStr s) \<Rightarrow> if \<not> digest_text_ok (py_lower s) then Some RULE_CONTENT_HASH_INVALID
           else if rule_content_sha256 h dump r \<noteq> py_lower s then Some RULE_CONTENT_MISMATCH else None
       | claimed \<Rightarrow> if claimed = None \<or> claimed = Some JNull
           then (if requires_content_digest i \<or> replayed \<or> metadata_entry ''rule_content_hashes'' i \<noteq> JNull
             then Some RULE_CONTENT_HASH_MISSING else None)
           else Some RULE_CONTENT_HASH_INVALID))"

text \<open>One turn of the loop over the violations: the issue it adds, or the rule it resolves.\<close>

definition resolve_violation :: "(string \<Rightarrow> string) \<Rightarrow> (rca_rule \<Rightarrow> json) \<Rightarrow> incident \<Rightarrow> rule_index \<Rightarrow> kpi_violation
    \<Rightarrow> issue_code + rca_rule" where
  "resolve_violation h dump i index v = (case (kpi_rule_id v, kpi_rule_version v) of
     (None, None) \<Rightarrow> Inl LEGACY_UNVERSIONED
   | (Some rid, Some ver) \<Rightarrow>
      (case map_of (rule_versions i) rid of None \<Rightarrow> Inl INCIDENT_VERSION_MISSING
       | Some incident_version \<Rightarrow>
         if incident_version \<noteq> ver then Inl INCIDENT_VERSION_CONFLICT
         else if rid = BUBBLERAN_REPLAY_RULE_ID \<and>
           metadata_entry ''detector_algorithm'' i \<noteq> JStr BUBBLERAN_REPLAY_DETECTOR_ALGORITHM
         then Inl DETECTOR_ALGORITHM_MISMATCH
         else if (rid, ver) \<in> set (snd index) then Inl DUPLICATE_RULE_VERSION
         else case map_of (fst index) (rid, ver) of None \<Rightarrow> Inl RULE_VERSION_NOT_FOUND
         | Some r \<Rightarrow>
           if kpi_name v \<noteq> det_kpi_name (detection r) then Inl KPI_MISMATCH
           else if kpi_unit v \<noteq> det_unit (detection r) then Inl UNIT_MISMATCH
           else if threshold_value v \<noteq> det_threshold (detection r) then Inl THRESHOLD_MISMATCH
           else if comparator v \<noteq> det_comparator (detection r) then Inl COMPARATOR_MISMATCH
           else case content_issue h dump i r of Some code \<Rightarrow> Inl code
           | None \<Rightarrow> if \<not> detection_matches r v then Inl OBSERVATION_NOT_VIOLATION else Inr r)
   | _ \<Rightarrow> Inl PARTIAL_PROVENANCE)"

text \<open>\<open>RuleResolutionIssue\<close> strips its texts and bounds them; a longer one raises \<open>ValidationError\<close>.\<close>

definition issue_at :: "nat \<Rightarrow> issue_code \<Rightarrow> string option \<Rightarrow> string option \<Rightarrow> resolution_issue" where
  "issue_at index code rid ver = \<lparr>violation_key = ''violation-index-'' @ show_nat index, issue_code = code,
     issue_rule_id = map_option py_strip rid, issue_rule_version = map_option py_strip ver\<rparr>"

definition issue_valid :: "resolution_issue \<Rightarrow> bool" where
  "issue_valid e \<longleftrightarrow> opt_ok (\<lambda>s. length s \<le> 128) (issue_rule_id e) \<and> opt_ok (\<lambda>s. length s \<le> 64) (issue_rule_version e)"

definition violation_issues :: "(string \<Rightarrow> string) \<Rightarrow> (rca_rule \<Rightarrow> json) \<Rightarrow> incident \<Rightarrow> rule_index \<Rightarrow> resolution_issue list" where
  "violation_issues h dump i index = concat (map (\<lambda>(k, v). case resolve_violation h dump i index v of
     Inl code \<Rightarrow> [issue_at k code (kpi_rule_id v) (kpi_rule_version v)] | Inr _ \<Rightarrow> [])
     (zip [0..<length (violated_kpis i)] (violated_kpis i)))"

definition unreferenced_rules :: "incident \<Rightarrow> resolution_issue list" where
  "unreferenced_rules i = (let items = sort (rule_versions i); first = length (violated_kpis i) in
     map (\<lambda>(k, rid, ver). issue_at k UNREFERENCED_INCIDENT_RULE (Some rid) (Some ver))
       (filter (\<lambda>(k, rid, ver). Some rid \<notin> kpi_rule_id ` set (violated_kpis i))
         (zip [first..<first + length items] items)))"

definition unreferenced_hashes :: "incident \<Rightarrow> resolution_issue list" where
  "unreferenced_hashes i = (case object_entries (metadata_entry ''rule_content_hashes'' i) of None \<Rightarrow> []
     | Some kvs \<Rightarrow> (let ids = sort (filter (\<lambda>k. k \<notin> set (claimed_rule_ids i)) (remdups (map fst kvs)));
         first = length (violated_kpis i) + length (rule_versions i) in
         map (\<lambda>(k, rid). issue_at k UNREFERENCED_RULE_CONTENT_HASH (Some rid) (map_of (rule_versions i) rid))
           (zip [first..<first + length ids] ids)))"

definition resolved_rules :: "(string \<Rightarrow> string) \<Rightarrow> (rca_rule \<Rightarrow> json) \<Rightarrow> incident \<Rightarrow> rule_index \<Rightarrow> rca_rule list" where
  "resolved_rules h dump i index = (let resolved = foldl (\<lambda>d v. case resolve_violation h dump i index v of
       Inl _ \<Rightarrow> d | Inr r \<Rightarrow> AList.update (rule_identity r) r d) [] (violated_kpis i) in
     map snd (sort_key fst resolved))"

definition order_issues :: "resolution_issue list \<Rightarrow> resolution_issue list" where
  "order_issues = sort_key (\<lambda>e. (violation_key e, issue_code_value (issue_code e), str_or_empty (issue_rule_id e),
     str_or_empty (issue_rule_version e)))"

definition status_of :: "incident \<Rightarrow> rca_rule list \<Rightarrow> resolution_issue list \<Rightarrow> resolution_status" where
  "status_of i rules issues =
     (if issues \<noteq> [] then
        (if rules \<noteq> [] then Rule_PARTIAL
         else if list_all (\<lambda>e. issue_code e = LEGACY_UNVERSIONED) issues then Rule_LEGACY_UNVERSIONED
         else Rule_CONFLICT)
      else if violated_kpis i \<noteq> [] then Rule_EXACT else Rule_NO_VIOLATIONS)"

definition resolve_rules_for_incident :: "(string \<Rightarrow> string) \<Rightarrow> (rca_rule \<Rightarrow> json) \<Rightarrow> incident \<Rightarrow> rca_rule list
    \<Rightarrow> rule_error + rule_resolution" where
  "resolve_rules_for_incident h dump i available =
     (if technology i \<notin> {LTE, FIVE_G_SA}
      then Inr \<lparr>resolution_status = Rule_NOT_APPLICABLE, resolution_rules = [], resolution_issues = []\<rparr>
      else let index = index_rules (technology_value (technology i)) available;
        issues = violation_issues h dump i index @ unreferenced_rules i @ unreferenced_hashes i;
        rules = resolved_rules h dump i index in
      if \<not> list_all issue_valid issues then Inl Rule_validation_error
      else Inr \<lparr>resolution_status = status_of i rules (order_issues issues), resolution_rules = rules,
        resolution_issues = order_issues issues\<rparr>)"

section \<open>Rule sets\<close>

text \<open>
  The checks of \<open>load_all_versions\<close> over the rules of its files, in the order of the file names; reading and
  validating the files comes before.
\<close>

fun check_identities :: "(string \<times> string) list \<Rightarrow> string list \<Rightarrow> rca_rule list \<Rightarrow> rule_error option" where
  "check_identities identities current [] = None"
| "check_identities identities current (r # rs) =
     (if rule_identity r \<in> set identities then Some (Rule_load_error ''duplicate rule identity'')
      else if \<not> is_current r then check_identities (rule_identity r # identities) current rs
      else if rule_id r \<in> set current then Some (Rule_load_error ''multiple current versions'')
      else check_identities (rule_identity r # identities) (rule_id r # current) rs)"

definition load_all_versions :: "rca_rule list \<Rightarrow> rule_error + rca_rule list" where
  "load_all_versions loaded = (case check_identities [] [] loaded of Some e \<Rightarrow> Inl e
     | None \<Rightarrow> Inr (sort_key rule_identity loaded))"

definition load_all :: "rca_rule list \<Rightarrow> rule_error + rca_rule list" where
  "load_all loaded = map_sum id (filter is_current) (load_all_versions loaded)"

definition get_version :: "rca_rule list \<Rightarrow> string \<Rightarrow> string \<Rightarrow> rule_error + rca_rule option" where
  "get_version loaded rid ver =
     map_sum id (List.find (\<lambda>r. rule_id r = rid \<and> rule_version r = ver)) (load_all_versions loaded)"

definition resolve_typed :: "(string \<Rightarrow> string) \<Rightarrow> (rca_rule \<Rightarrow> json) \<Rightarrow> rca_rule list \<Rightarrow> incident
    \<Rightarrow> rule_error + rule_resolution" where
  "resolve_typed h dump loaded i = (case load_all_versions loaded of Inl e \<Rightarrow> Inl e
     | Inr rules \<Rightarrow> resolve_rules_for_incident h dump i rules)"

end
