(* ===== verification/Lte_Identifiers.thy ===== *)
theory Lte_Identifiers
  imports A2a_Canonical
begin

text \<open>
  LTE resource identifiers (\<open>telco_local/lte_identifiers.py\<close>): a decimal component of 28 bits, its normal
  form without leading zeroes, and the selectors of an eNodeB or one of its cells.  Among texts of characters
  below 256 the selectors the Supervisor accepts in a scan request are exactly the normal forms; beyond them
  its \<open>str.isdecimal()\<close> also takes the decimal digits of other scripts, which the pattern here refuses.
\<close>

definition LTE_IDENTIFIER_MAX :: nat where "LTE_IDENTIFIER_MAX = 268435455"

datatype lte_error = Lte_error string

section \<open>Operations\<close>

definition normalize_lte_identifier :: "string \<Rightarrow> string \<Rightarrow> lte_error + string" where
  "normalize_lte_identifier component value =
     (let raw = py_strip value; refused = Lte_error (''invalid LTE '' @ component @ '' identifier'') in
      if \<not> (1 \<le> length raw \<and> length raw \<le> 9 \<and> list_all digit_char raw) then Inl refused
      else if digits_value raw > LTE_IDENTIFIER_MAX then Inl refused
      else Inr (show_nat (digits_value raw)))"

definition canonical_lte_resource_id :: "string \<Rightarrow> string option \<Rightarrow> lte_error + string" where
  "canonical_lte_resource_id enodeb_id cell_id =
     (case normalize_lte_identifier ''eNodeB'' enodeb_id of Inl e \<Rightarrow> Inl e
      | Inr enodeb \<Rightarrow> (case cell_id of
          None \<Rightarrow> Inr (''lte:enodeb:'' @ enodeb)
        | Some cell_id \<Rightarrow> (case normalize_lte_identifier ''Cell'' cell_id of Inl e \<Rightarrow> Inl e
          | Inr cell \<Rightarrow> Inr (''lte:enodeb:'' @ enodeb @ '':cell:'' @ cell))))"

definition parse_lte_resource_id :: "string \<Rightarrow> lte_error + string \<times> string option" where
  "parse_lte_resource_id value = (let segments = py_split (CHR '':'') (py_strip value) in
     if length segments = 3 \<and> take 2 segments = [''lte'', ''enodeb'']
     then map_sum id (\<lambda>enodeb. (enodeb, None)) (normalize_lte_identifier ''eNodeB'' (segments ! 2))
     else if length segments = 5 \<and> take 2 segments = [''lte'', ''enodeb''] \<and> segments ! 3 = ''cell''
     then (case normalize_lte_identifier ''eNodeB'' (segments ! 2) of Inl e \<Rightarrow> Inl e
       | Inr enodeb \<Rightarrow> map_sum id (\<lambda>cell. (enodeb, Some cell)) (normalize_lte_identifier ''Cell'' (segments ! 4)))
     else Inl (Lte_error ''invalid canonical LTE resource identifier''))"

section \<open>Decimal texts\<close>

lemma digits_value_append: "digits_value (s @ [c]) = 10 * digits_value s + (of_char c - 48)"
  by (simp add: digits_value_def)

lemma digits_value_short [simp]: "digits_value [] = 0" "digits_value [c] = of_char c - 48"
  by (simp_all add: digits_value_def)

lemma digit_char_of [simp]: "(k :: nat) < 10 \<Longrightarrow> digit_char (char_of (48 + k))"
  by (simp add: digit_char_def Let_def)

lemma zero_char: "char_of (48 :: nat) = CHR ''0''"
  by code_simp

lemma show_nat_value [simp]: "digits_value (show_nat n) = n"
proof (induction n rule: show_nat.induct)
  case (1 n)
  show ?case
  proof (cases "n < 10")
    case True
    then show ?thesis using digits_value_append [of "[]"] by (subst show_nat.simps) simp
  next
    case False
    then show ?thesis using 1 by (subst show_nat.simps) (simp add: digits_value_append)
  qed
qed

lemma show_nat_decimal: "list_all digit_char (show_nat n)" "show_nat n \<noteq> []"
proof -
  have "list_all digit_char (show_nat n) \<and> show_nat n \<noteq> []"
  proof (induction n rule: show_nat.induct)
    case (1 n)
    show ?case
    proof (cases "n < 10")
      case True
      then show ?thesis by (subst (1 2) show_nat.simps) simp
    next
      case False
      then show ?thesis using 1 by (subst (1 2) show_nat.simps) simp
    qed
  qed
  then show "list_all digit_char (show_nat n)" "show_nat n \<noteq> []" by simp_all
qed

lemma show_nat_length: "n < 10 ^ k \<Longrightarrow> 0 < k \<Longrightarrow> length (show_nat n) \<le> k"
proof (induction n arbitrary: k rule: show_nat.induct)
  case (1 n)
  show ?case
  proof (cases "n < 10")
    case True
    then show ?thesis using "1.prems" by (subst show_nat.simps) simp
  next
    case False
    have "k \<noteq> 1" using False "1.prems"(1) by auto
    then obtain j where j: "k = Suc j" "0 < j"
      using "1.prems"(2) by (cases k) auto
    have "n div 10 < 10 ^ j" using "1.prems"(1) j by (simp add: less_mult_imp_div_less)
    then show ?thesis using 1(1) [OF False] j False by (subst show_nat.simps) simp
  qed
qed

text \<open>Leading zeroes apart, a decimal text is the text of its number.\<close>

lemma digits_value_pos: "list_all digit_char s \<Longrightarrow> s \<noteq> [] \<Longrightarrow> hd s \<noteq> CHR ''0'' \<Longrightarrow> 0 < digits_value s"
proof (induction s rule: rev_induct)
  case (snoc c s)
  show ?case
  proof (cases "s = []")
    case True
    have "(of_char c :: nat) \<noteq> 48"
    proof
      assume "(of_char c :: nat) = 48"
      then have "char_of (of_char c :: nat) = (char_of (48 :: nat) :: char)" by simp
      then show False using snoc.prems(3) True zero_char by simp
    qed
    then show ?thesis using snoc.prems(1) True by (auto simp: digits_value_append digit_char_def Let_def)
  next
    case False
    then show ?thesis using snoc by (simp add: digits_value_append)
  qed
qed simp

lemma show_digits_value:
  "list_all digit_char s \<Longrightarrow> s \<noteq> [] \<Longrightarrow> length s > 1 \<longrightarrow> hd s \<noteq> CHR ''0'' \<Longrightarrow> show_nat (digits_value s) = s"
proof (induction s rule: rev_induct)
  case (snoc c s)
  let ?d = "(of_char c :: nat) - 48"
  have d: "48 \<le> (of_char c :: nat)" "?d < 10" using snoc.prems(1) by (auto simp: digit_char_def Let_def)
  have c: "char_of (48 + ?d) = c" using d(1) by simp
  show ?case
  proof (cases "s = []")
    case True
    then show ?thesis using d c by (subst show_nat.simps) (simp add: digits_value_append)
  next
    case False
    then have "0 < digits_value s" using snoc.prems digits_value_pos [of s] by simp
    then have "\<not> digits_value (s @ [c]) < 10" by (simp add: digits_value_append)
    moreover have "digits_value (s @ [c]) div 10 = digits_value s" "digits_value (s @ [c]) mod 10 = ?d"
      using d(2) by (simp_all add: digits_value_append)
    moreover have "show_nat (digits_value s) = s" using snoc False by simp
    ultimately show ?thesis using c by (subst show_nat.simps) simp
  qed
qed simp

lemma show_nat_head: "n \<ge> 10 \<Longrightarrow> hd (show_nat n) \<noteq> CHR ''0''"
proof (induction n rule: show_nat.induct)
  case (1 n)
  show ?case
  proof (cases "n div 10 < 10")
    case True
    have "show_nat n = show_nat (n div 10) @ [char_of (48 + n mod 10)]" using 1(2) by (subst show_nat.simps) simp
    moreover have "show_nat (n div 10) = [char_of (48 + n div 10)]" using True by (subst show_nat.simps) simp
    ultimately have hd: "hd (show_nat n) = char_of (48 + n div 10)" by simp
    have "(of_char (hd (show_nat n)) :: nat) = 48 + n div 10" using True unfolding hd by simp
    moreover have "(of_char (CHR ''0'') :: nat) = 48" unfolding zero_char [symmetric] by simp
    moreover have "0 < n div 10" using 1(2) by simp
    ultimately show ?thesis by (metis add_cancel_right_right less_irrefl)
  next
    case False
    then show ?thesis using 1 show_nat_decimal(2) [of "n div 10"] by (subst show_nat.simps) simp
  qed
qed

section \<open>Segments\<close>

lemma py_split_Nil [simp]: "py_split c [] = [[]]"
  by (simp add: py_split_def)

lemma py_split_Cons: "py_split c (d # s) = (if d = c then [] # py_split c s else (d # hd (py_split c s)) # tl (py_split c s))"
  by (simp add: py_split_def)

lemma py_split_nonempty: "py_split c s \<noteq> []"
  by (cases s) (simp_all add: py_split_Cons)

lemma py_split_append: "c \<notin> set x \<Longrightarrow> py_split c (x @ c # y) = x # py_split c y"
  by (induction x) (auto simp: py_split_Cons)

lemma py_split_single: "c \<notin> set x \<Longrightarrow> py_split c x = [x]"
  by (induction x) (auto simp: py_split_Cons)

lemma join_split: "join [c] (py_split c s) = s"
proof (induction s)
  case (Cons d s)
  obtain x xs where x: "py_split c s = x # xs" using py_split_nonempty by (cases "py_split c s") auto
  then show ?case using Cons by (cases xs) (auto simp: py_split_Cons)
qed simp

lemma strip_plain: "\<forall>c\<in>set s. \<not> py_isspace c \<Longrightarrow> py_strip s = s"
  by (simp add: py_strip_def dropWhile_eq_self_iff)
    (metis dropWhile_eq_self_iff hd_in_set list.set_sel(1) rev_rev_ident set_rev)

lemma decimal_chars:
  assumes "list_all digit_char s"
  shows "\<forall>c\<in>set s. \<not> py_isspace c" and "CHR '':'' \<notin> set s"
proof -
  show "\<forall>c\<in>set s. \<not> py_isspace c"
    using assms by (fastforce simp: list_all_iff digit_char_def py_isspace_def Let_def)
  have "\<not> digit_char (CHR '':'')" by code_simp
  then show "CHR '':'' \<notin> set s" using assms by (auto simp: list_all_iff)
qed

section \<open>Normal forms\<close>

definition normal_component :: "string \<Rightarrow> bool" where
  "normal_component s \<longleftrightarrow> (\<exists>n\<le>LTE_IDENTIFIER_MAX. s = show_nat n)"

lemma normal_component_props:
  assumes "normal_component s"
  shows "normalize_lte_identifier component s = Inr s" and "list_all digit_char s" and "digits_value s \<le> LTE_IDENTIFIER_MAX"
    and "canonical_component s"
proof -
  obtain n where n: "n \<le> LTE_IDENTIFIER_MAX" "s = show_nat n" using assms by (auto simp: normal_component_def)
  show digits: "list_all digit_char s" using n show_nat_decimal by simp
  have length: "1 \<le> length s" "length s \<le> 9"
    using n show_nat_decimal(2) [of n] show_nat_length [of n 9] by (simp_all add: LTE_IDENTIFIER_MAX_def Suc_le_eq)
  then show "normalize_lte_identifier component s = Inr s" "digits_value s \<le> LTE_IDENTIFIER_MAX"
    using n digits strip_plain [OF decimal_chars(1) [OF digits]] by (simp_all add: normalize_lte_identifier_def)
  have "\<not> (length s > 1 \<and> hd s = CHR ''0'')"
  proof (cases "n < 10")
    case True
    then show ?thesis using n(2) by (subst (asm) show_nat.simps) simp
  next
    case False
    then show ?thesis using show_nat_head [of n] n(2) by simp
  qed
  then show "canonical_component s"
    using n digits length by (auto simp: canonical_component_def LTE_IDENTIFIER_MAX_def)
qed

lemma normalize_Inr: "normalize_lte_identifier component v = Inr r \<Longrightarrow> normal_component r"
  unfolding normalize_lte_identifier_def normal_component_def Let_def
  by (intro exI [of _ "digits_value (py_strip v)"]) (auto split: if_splits)

lemma canonical_component_iff: "canonical_component s \<longleftrightarrow> normal_component s"
proof
  assume s: "canonical_component s"
  then have "show_nat (digits_value s) = s" by (intro show_digits_value) (auto simp: canonical_component_def)
  then show "normal_component s"
    using s unfolding normal_component_def canonical_component_def LTE_IDENTIFIER_MAX_def by metis
qed (rule normal_component_props)

text \<open>The selector of an eNodeB or a cell in normal form.\<close>

definition selector :: "string \<Rightarrow> string option \<Rightarrow> string" where
  "selector enodeb cell = ''lte:enodeb:'' @ enodeb @ (case cell of None \<Rightarrow> [] | Some c \<Rightarrow> '':cell:'' @ c)"

lemma canonical_Inr:
  assumes "canonical_lte_resource_id e c = Inr r"
  shows "\<exists>e' c'. normal_component e' \<and> opt_ok normal_component c' \<and> r = selector e' c'"
proof -
  obtain e' where e': "normalize_lte_identifier ''eNodeB'' e = Inr e'"
    using assms by (auto simp: canonical_lte_resource_id_def split: sum.splits)
  show ?thesis
  proof (cases c)
    case None
    then show ?thesis using assms e' normalize_Inr [OF e']
      by (intro exI [of _ e'] exI [of _ None]) (simp add: canonical_lte_resource_id_def selector_def)
  next
    case (Some x)
    then obtain c' where c': "normalize_lte_identifier ''Cell'' x = Inr c'" "r = selector e' (Some c')"
      using assms e' by (auto simp: canonical_lte_resource_id_def selector_def split: sum.splits)
    then show ?thesis using normalize_Inr [OF e'] normalize_Inr [OF c'(1)] by (intro exI conjI) simp_all
  qed
qed

lemma canonical_normal:
  "normal_component e \<Longrightarrow> opt_ok normal_component c \<Longrightarrow> canonical_lte_resource_id e c = Inr (selector e c)"
  by (cases c) (simp_all add: canonical_lte_resource_id_def selector_def normal_component_props(1))

lemma selector_segments:
  assumes "normal_component e" and "opt_ok normal_component c"
  shows "py_split (CHR '':'') (selector e c) = [''lte'', ''enodeb'', e] @ (case c of None \<Rightarrow> [] | Some x \<Rightarrow> [''cell'', x])"
    and "py_strip (selector e c) = selector e c"
proof -
  have e: "CHR '':'' \<notin> set e" "\<forall>x\<in>set e. \<not> py_isspace x"
    using decimal_chars normal_component_props(2) [OF assms(1)] by blast+
  have c: "CHR '':'' \<notin> set x" "\<forall>y\<in>set x. \<not> py_isspace y" if "c = Some x" for x
    using that assms(2) decimal_chars normal_component_props(2) [of x] by auto
  have head: "''lte:enodeb:'' @ s = ''lte'' @ CHR '':'' # ''enodeb'' @ CHR '':'' # s" for s by simp
  have first: "py_split (CHR '':'') (''lte:enodeb:'' @ s) = [''lte'', ''enodeb''] @ py_split (CHR '':'') s" for s
    unfolding head using py_split_append [of "CHR '':''" "''lte''"] py_split_append [of "CHR '':''" "''enodeb''"] by simp
  have mid: "e @ '':cell:'' @ x = e @ CHR '':'' # ''cell'' @ CHR '':'' # x" for x by simp
  show "py_split (CHR '':'') (selector e c) = [''lte'', ''enodeb'', e] @ (case c of None \<Rightarrow> [] | Some x \<Rightarrow> [''cell'', x])"
  proof (cases c)
    case None
    then show ?thesis using py_split_single [OF e(1)] first by (simp add: selector_def)
  next
    case (Some x)
    have "py_split (CHR '':'') (''cell'' @ CHR '':'' # x) = [''cell'', x]"
      using py_split_append [of "CHR '':''" "''cell''"] py_split_single [OF c(1) [OF Some]] by simp
    then show ?thesis unfolding selector_def Some option.case first mid
      using py_split_append [OF e(1)] by simp
  qed
  have "\<forall>y\<in>set ''lte:enodeb:''. \<not> py_isspace y" "\<forall>y\<in>set '':cell:''. \<not> py_isspace y" by code_simp+
  then show "py_strip (selector e c) = selector e c"
    using e(2) c(2) by (intro strip_plain) (auto simp: selector_def split: option.splits)
qed

lemma parse_selector:
  assumes "normal_component e" and "opt_ok normal_component c"
  shows "parse_lte_resource_id (selector e c) = Inr (e, c)"
  using assms unfolding parse_lte_resource_id_def selector_segments [OF assms] Let_def
  by (cases c) (simp_all add: normal_component_props(1))

lemma map_sum_Inr: "map_sum f g x = Inr y \<longleftrightarrow> (\<exists>z. x = Inr z \<and> g z = y)"
  by (cases x) auto

lemma parse_Inr: "parse_lte_resource_id v = Inr (e, c) \<Longrightarrow> normal_component e \<and> opt_ok normal_component c"
  by (auto simp: parse_lte_resource_id_def Let_def map_sum_Inr dest: normalize_Inr split: if_splits sum.splits)

text \<open>
  Parsing a selector gives components in normal form, whose selector parses back to them; building a
  selector gives a text that parses, to components with that selector.  No component exceeds 28 bits.
\<close>
theorem lte_identifiers_roundtrip:
  "(parse_lte_resource_id v = Inr (e, c) \<longrightarrow> digits_value e \<le> LTE_IDENTIFIER_MAX \<and>
      (\<exists>r. canonical_lte_resource_id e c = Inr r \<and> parse_lte_resource_id r = Inr (e, c))) \<and>
   (canonical_lte_resource_id e c = Inr r \<longrightarrow>
      (\<exists>e' c'. parse_lte_resource_id r = Inr (e', c') \<and> canonical_lte_resource_id e' c' = Inr r))"
proof (intro conjI impI)
  assume parsed: "parse_lte_resource_id v = Inr (e, c)"
  note normal = parse_Inr [OF parsed]
  show "digits_value e \<le> LTE_IDENTIFIER_MAX" using normal normal_component_props(3) by blast
  show "\<exists>r. canonical_lte_resource_id e c = Inr r \<and> parse_lte_resource_id r = Inr (e, c)"
    using canonical_normal [of e c] parse_selector [of e c] normal by blast
next
  assume "canonical_lte_resource_id e c = Inr r"
  then obtain e' c' where "normal_component e'" "opt_ok normal_component c'" "r = selector e' c'"
    using canonical_Inr by blast
  then show "\<exists>e' c'. parse_lte_resource_id r = Inr (e', c') \<and> canonical_lte_resource_id e' c' = Inr r"
    using canonical_normal [of e' c'] parse_selector [of e' c'] by blast
qed

theorem lte_identifiers_roundtrip_witness:
  "parse_lte_resource_id '' lte:enodeb:007:cell:12 '' = Inr (''7'', Some ''12'') \<and>
   (\<exists>r. canonical_lte_resource_id ''7'' (Some ''12'') = Inr r \<and> parse_lte_resource_id r = Inr (''7'', Some ''12''))"
proof -
  have "py_split (CHR '':'') (py_strip '' lte:enodeb:007:cell:12 '') = [''lte'', ''enodeb'', ''007'', ''cell'', ''12'']"
    by code_simp
  moreover have "digits_value ''007'' = 7" "digits_value ''12'' = 12" "show_nat 7 = ''7''" "show_nat 12 = ''12''"
      "py_strip ''007'' = ''007''" "py_strip ''12'' = ''12''" "list_all digit_char ''007''" "list_all digit_char ''12''"
    by code_simp+
  ultimately have parsed: "parse_lte_resource_id '' lte:enodeb:007:cell:12 '' = Inr (''7'', Some ''12'')"
    by (simp add: parse_lte_resource_id_def normalize_lte_identifier_def LTE_IDENTIFIER_MAX_def)
  then show ?thesis
    using lte_identifiers_roundtrip [THEN conjunct1, rule_format, OF parsed, THEN conjunct2] parsed by (intro conjI)
qed

text \<open>
  Over characters below 256, a text passes the check of \<open>_validate_assurance_payload\<close> iff it parses as an
  LTE selector and is the canonical selector of what it parses to.  It is no claim about other characters.
\<close>
theorem scan_resources_are_normal_forms:
  "canonical_resource_id s = None \<longleftrightarrow>
     (\<exists>e c. parse_lte_resource_id s = Inr (e, c) \<and> canonical_lte_resource_id e c = Inr s)"
proof
  assume ok: "canonical_resource_id s = None"
  let ?segs = "py_split (CHR '':'') s"
  have shape: "length ?segs = 3 \<or> length ?segs = 5" "take 2 ?segs = [''lte'', ''enodeb'']"
      "length ?segs = 5 \<longrightarrow> ?segs ! 3 = ''cell''" "normal_component (?segs ! 2)"
      "length ?segs = 5 \<longrightarrow> normal_component (?segs ! 4)"
    using ok by (auto simp: canonical_resource_id_def Let_def canonical_component_iff take_Suc_conv_app_nth
        Cons_nth_drop_Suc [symmetric])
  obtain a b x rest where segs: "?segs = a # b # x # rest"
    using shape(1) by (cases ?segs; cases "tl ?segs"; cases "tl (tl ?segs)") auto
  then have ab: "a = ''lte''" "b = ''enodeb''" "normal_component x" using shape(2,4) by simp_all
  have s: "s = join '':'' ?segs" using join_split [of "CHR '':''" s] by simp
  obtain c where c: "opt_ok normal_component c" "s = selector x c"
  proof (cases rest)
    case Nil
    then show ?thesis using that [of None] s unfolding segs ab by (simp add: selector_def)
  next
    case (Cons d ds)
    then obtain y where "rest = [''cell'', y]" "normal_component y"
      using shape(1,3,5) segs by (cases ds) auto
    then show ?thesis using that [of "Some y"] s unfolding segs ab by (simp add: selector_def)
  qed
  then show "\<exists>e c. parse_lte_resource_id s = Inr (e, c) \<and> canonical_lte_resource_id e c = Inr s"
    using parse_selector [OF ab(3) c(1)] canonical_normal [OF ab(3) c(1)] by blast
next
  assume "\<exists>e c. parse_lte_resource_id s = Inr (e, c) \<and> canonical_lte_resource_id e c = Inr s"
  then obtain e c where s: "normal_component e" "opt_ok normal_component c" "s = selector e c"
    using canonical_Inr by blast
  then show "canonical_resource_id s = None"
    using selector_segments(1) [OF s(1,2)] normal_component_props(4)
    by (cases c) (simp_all add: canonical_resource_id_def Let_def)
qed

end
