(* ===== verification/Detector_Scan.thy ===== *)
theory Detector_Scan
  imports Rules Lte_Identifiers
begin

text \<open>
  The scan of the local detector (\<open>telco_local/detector.py\<close>) up to the candidates it builds: the checked
  scope, the samples past a rule's threshold, their grouping by resources, the episodes between gaps, and
  the capacities.  \<open>query\<close> is the telemetry repository's answer; the incident trigger of a candidate is not
  part of the model.
\<close>

definition MAX_CURRENT_RULES :: nat where "MAX_CURRENT_RULES = 32"
definition MAX_EPISODE_SAMPLES :: nat where "MAX_EPISODE_SAMPLES = 1000"
definition MAX_SCAN_CANDIDATES :: nat where "MAX_SCAN_CANDIDATES = 100"
definition MAX_SCAN_RESOURCE_IDS :: nat where "MAX_SCAN_RESOURCE_IDS = 100"
definition MAX_SCAN_WINDOW :: int where "MAX_SCAN_WINDOW = 31 * 86400000000"
definition MAX_QUERY_OBSERVATIONS :: nat where "MAX_QUERY_OBSERVATIONS = 50000"

datatype scan_error = Scan_value string | Scan_capacity string | Scan_sensitive string | Scan_lte lte_error
  | Scan_rule rule_error

section \<open>Scope\<close>

definition privacy_safe :: "json \<Rightarrow> string \<Rightarrow> scan_error option" where
  "privacy_safe value label =
     fail_if (assert_model_safe value \<noteq> None) (Scan_sensitive (label @ '' rejected by privacy policy''))"

definition require_identifier :: "string \<Rightarrow> string \<Rightarrow> scan_error + string" where
  "require_identifier name value = (let normalized = py_strip value in
     case first_error [
       fail_if (normalized = []) (Scan_value (name @ '' is required'')),
       fail_if (length normalized > 256) (Scan_value (name @ '' exceeds 256 characters'')),
       privacy_safe (JStr normalized) name] of Some e \<Rightarrow> Inl e | None \<Rightarrow> Inr normalized)"

text \<open>A datetime: without a zone, or an instant with the offset of its zone in microseconds.\<close>

datatype scan_time = Local_time | Zoned_time instant int

definition scan_instant :: "scan_time \<Rightarrow> scan_error + instant" where
  "scan_instant t = (case t of Local_time \<Rightarrow> Inl (Scan_value ''scan windows must be timezone-aware UTC'')
     | Zoned_time i offset \<Rightarrow> if offset \<noteq> 0 then Inl (Scan_value ''scan windows must use UTC'') else Inr i)"

datatype id_argument = Id_text string | Id_list "string list"

fun normalize_resource_ids :: "string list \<Rightarrow> scan_error + string list" where
  "normalize_resource_ids [] = Inr []"
| "normalize_resource_ids (raw # rest) = (case parse_lte_resource_id raw of Inl e \<Rightarrow> Inl (Scan_lte e)
   | Inr (enodeb_id, cell_id) \<Rightarrow> (case canonical_lte_resource_id enodeb_id cell_id of Inl e \<Rightarrow> Inl (Scan_lte e)
     | Inr normalized \<Rightarrow> map_sum id (\<lambda>ids. normalized # ids) (normalize_resource_ids rest)))"

definition scan_window :: "scan_time option \<Rightarrow> scan_time option \<Rightarrow> scan_error + (instant \<times> instant) option" where
  "scan_window first_instant last_instant = (case (first_instant, last_instant) of
     (None, None) \<Rightarrow> Inr None
   | (Some ws, Some we) \<Rightarrow> (case scan_instant ws of Inl e \<Rightarrow> Inl e
     | Inr start \<Rightarrow> (case scan_instant we of Inl e \<Rightarrow> Inl e
       | Inr stop \<Rightarrow>
         if stop < start then Inl (Scan_value ''window_end must not be earlier than window_start'')
         else if stop - start > MAX_SCAN_WINDOW then Inl (Scan_value ''scan window must not exceed 31 days'')
         else Inr (Some (start, stop))))
   | _ \<Rightarrow> Inl (Scan_value ''window_start and window_end must be provided together''))"

definition scan_resources :: "id_argument \<Rightarrow> scan_error + string list" where
  "scan_resources resource_ids = (case resource_ids of
     Id_text _ \<Rightarrow> Inl (Scan_value ''resource_ids must be a sequence of identifiers'')
   | Id_list supplied \<Rightarrow>
       if length supplied > MAX_SCAN_RESOURCE_IDS then Inl (Scan_value ''resource_ids must contain at most 100 items'')
       else case privacy_safe (JList (map JStr supplied)) ''resource_ids'' of Some e \<Rightarrow> Inl e
       | None \<Rightarrow> map_sum id (\<lambda>ids. sort (remdups ids)) (normalize_resource_ids supplied))"

definition validated_scan_scope :: "scan_time option \<Rightarrow> scan_time option \<Rightarrow> id_argument
    \<Rightarrow> scan_error + (instant \<times> instant) option \<times> string list" where
  "validated_scan_scope first_instant last_instant resource_ids = (case scan_window first_instant last_instant of
     Inl e \<Rightarrow> Inl e | Inr window \<Rightarrow> map_sum id (Pair window) (scan_resources resource_ids))"

section \<open>Episodes\<close>

definition resource_identity :: "resource_reference list \<Rightarrow> (string \<times> string) list" where
  "resource_identity resources = map (\<lambda>r. (resource_type_value (resource_type r), resource_id r)) resources"

text \<open>\<open>(later - earlier).total_seconds() / 60\<close>.\<close>

definition gap_minutes :: "instant \<Rightarrow> instant \<Rightarrow> rat" where
  "gap_minutes t t' = fl (fl (of_int (t' - t) / 1000000) / 60)"

fun episode_loop :: "int \<Rightarrow> kpi_observation list list \<Rightarrow> kpi_observation list \<Rightarrow> kpi_observation list
    \<Rightarrow> kpi_observation list list" where
  "episode_loop max_gap result current [] = result @ [current]"
| "episode_loop max_gap result current (ob # rest) =
     (if gap_minutes (observed_at (last current)) (observed_at ob) > of_int max_gap
      then episode_loop max_gap (result @ [current]) [ob] rest
      else episode_loop max_gap result (current @ [ob]) rest)"

definition ordered_observations :: "kpi_observation list \<Rightarrow> kpi_observation list" where
  "ordered_observations = sort_key (\<lambda>ob. (observed_at ob, observation_id ob))"

definition episodes :: "kpi_observation list \<Rightarrow> int \<Rightarrow> kpi_observation list list" where
  "episodes observations max_gap = (case ordered_observations observations of [] \<Rightarrow> []
     | ob # rest \<Rightarrow> episode_loop max_gap [] [ob] rest)"

section \<open>Samples\<close>

definition validate_rule_observation :: "rca_rule \<Rightarrow> kpi_observation \<Rightarrow> scan_error + bool" where
  "validate_rule_observation r ob =
     (if obs_kpi_name ob \<noteq> det_kpi_name (detection r) then Inr False
      else if obs_unit ob \<noteq> det_unit (detection r) then Inl (Scan_value (''KPI unit mismatch for rule '' @ rule_id r))
      else if \<not> set (quality_flags ob) \<subseteq> {''SOURCE_TIMEZONE_ASSUMED_UTC''} then Inr False
      else Inr (past_threshold (obs_observed_value ob) (det_comparator (detection r)) (det_threshold (detection r))))"

fun matched_observations :: "rca_rule \<Rightarrow> kpi_observation list \<Rightarrow> scan_error + kpi_observation list" where
  "matched_observations r [] = Inr []"
| "matched_observations r (ob # obs) = (case validate_rule_observation r ob of Inl e \<Rightarrow> Inl e
   | Inr matches \<Rightarrow> map_sum id (\<lambda>ms. if matches then ob # ms else ms) (matched_observations r obs))"

definition add_to_group :: "((string \<times> string) list, kpi_observation list) dict \<Rightarrow> kpi_observation
    \<Rightarrow> ((string \<times> string) list, kpi_observation list) dict" where
  "add_to_group d ob = (let key = resource_identity (obs_resources ob) in
     AList.update key ((case map_of d key of None \<Rightarrow> [] | Some obs \<Rightarrow> obs) @ [ob]) d)"

definition grouped_observations :: "kpi_observation list \<Rightarrow> ((string \<times> string) list, kpi_observation list) dict" where
  "grouped_observations = foldl add_to_group []"

definition rule_episodes :: "rca_rule \<Rightarrow> kpi_observation list \<Rightarrow> kpi_observation list list" where
  "rule_episodes r matched = concat (map (\<lambda>(key, group). episodes group (max_gap_minutes (detection r)))
     (sort_key fst (grouped_observations matched)))"

type_synonym episode_spec = "rca_rule \<times> kpi_observation list"

fun add_episodes :: "rca_rule \<Rightarrow> kpi_observation list list \<Rightarrow> episode_spec list \<Rightarrow> scan_error + episode_spec list" where
  "add_episodes r [] specs = Inr specs"
| "add_episodes r (episode # rest) specs =
     (if length episode > MAX_EPISODE_SAMPLES then Inl (Scan_capacity ''detector episode capacity exceeded'')
      else if length (specs @ [(r, episode)]) > MAX_SCAN_CANDIDATES
      then Inl (Scan_capacity ''detector candidate capacity exceeded'')
      else add_episodes r rest (specs @ [(r, episode)]))"

fun scan_rules :: "kpi_observation list \<Rightarrow> rca_rule list \<Rightarrow> episode_spec list \<Rightarrow> scan_error + episode_spec list" where
  "scan_rules observations [] specs = Inr specs"
| "scan_rules observations (r # rs) specs = (case matched_observations r observations of Inl e \<Rightarrow> Inl e
   | Inr matched \<Rightarrow> (case add_episodes r (rule_episodes r matched) specs of Inl e \<Rightarrow> Inl e
     | Inr specs \<Rightarrow> scan_rules observations rs specs))"

text \<open>
  \<open>scan\<close>: the candidates' rules and episodes.  \<open>fresh\<close> is the drawn workflow identifier and \<open>rule_files\<close> the
  rules of the rule directory.
\<close>

definition scan :: "(string list \<Rightarrow> (instant \<times> instant) option \<Rightarrow> string list \<Rightarrow> kpi_observation list) \<Rightarrow> rca_rule list
    \<Rightarrow> string \<Rightarrow> string option \<Rightarrow> string \<Rightarrow> scan_time option \<Rightarrow> scan_time option \<Rightarrow> id_argument
    \<Rightarrow> scan_error + episode_spec list" where
  "scan query rule_files trace workflow fresh first_instant last_instant resource_ids =
     (case require_identifier ''trace_id'' trace of Inl e \<Rightarrow> Inl e
      | Inr trace \<Rightarrow> (case (case workflow of None \<Rightarrow> Inr fresh | Some w \<Rightarrow> require_identifier ''workflow_id'' w) of
          Inl e \<Rightarrow> Inl e
      | Inr workflow \<Rightarrow>
        if workflow = trace then Inl (Scan_value ''workflow_id and trace_id must be independent'')
        else case validated_scan_scope first_instant last_instant resource_ids of Inl e \<Rightarrow> Inl e
      | Inr (window, ids) \<Rightarrow> (case load_all rule_files of Inl e \<Rightarrow> Inl (Scan_rule e)
      | Inr current \<Rightarrow> (let rules = filter (\<lambda>r. rule_technology r = technology_value LTE) current in
        if length rules > MAX_CURRENT_RULES then Inl (Scan_capacity ''detector rule capacity exceeded'')
        else if rules = [] then Inr []
        else let observations = query (sort (remdups (map (\<lambda>r. det_kpi_name (detection r)) rules))) window ids in
        if length observations = MAX_QUERY_OBSERVATIONS
        then Inl (Scan_capacity ''detector observation capacity reached'')
        else scan_rules observations rules []))))"

end
