(* ===== verification/Detector_Candidates.thy ===== *)
theory Detector_Candidates
  imports Detector_Scan Repository Contracts Json_Values
begin

text \<open>
  The candidates of the local detector (\<open>telco_local/detector.py\<close>): the incident trigger an episode becomes,
  the whole of \<open>scan\<close>, and \<open>confirm\<close>, which writes a candidate into the in-memory repository.  Arguments
  stand for what the module calls: the services of the repository, pydantic's dumps, the Chinese texts of a
  trigger, and in \<open>detector_env\<close> what may differ from call to call (rule files, telemetry, UUIDs, clocks and
  what other coroutines do to the repository while a call awaits).
\<close>

section \<open>Services and environment\<close>

datatype detector_error = Det_scan scan_error | Det_value string | Det_validation string | Det_repository repo_error

text \<open>An \<open>IncidentTrigger\<close>: its envelope, incident and summary.\<close>

type_synonym trigger = "envelope \<times> incident \<times> string"

record detector_services =
  det_services :: services
  det_dump_rule :: "rca_rule \<Rightarrow> json"
  det_dump_evidence :: "evidence_reference \<Rightarrow> json"
  det_dump_trigger :: "trigger \<Rightarrow> json"
  det_dump_result :: "incident \<Rightarrow> json"
  det_title :: "string \<Rightarrow> string"
  det_summary :: "string \<Rightarrow> instant \<Rightarrow> instant \<Rightarrow> nat \<Rightarrow> string"

text \<open>\<open>env_ids\<close> are the UUIDs drawn in order after the workflow's, \<open>env_clock\<close> the readings of the clock.\<close>

record detector_env =
  env_rules :: "rca_rule list"
  env_query :: "string list \<Rightarrow> (instant \<times> instant) option \<Rightarrow> string list \<Rightarrow> kpi_observation list"
  env_evidence :: "incident \<Rightarrow> evidence_reference list"
  env_workflow :: string
  env_ids :: "nat \<Rightarrow> string"
  env_clock :: "nat \<Rightarrow> py_datetime"
  env_repository_clock :: py_datetime
  env_others :: "repository \<Rightarrow> repository"

definition detector_now :: "py_datetime \<Rightarrow> detector_error + instant" where
  "detector_now clock = (case clock of
     Naive _ \<Rightarrow> Inl (Det_value ''detector clock must return a timezone-aware datetime'')
   | Aware t \<Rightarrow> Inr t)"

definition stable_digest :: "services \<Rightarrow> json list \<Rightarrow> string" where
  "stable_digest s parts = sha256 s (json_text (JList parts))"

definition require_bounded_text :: "string \<Rightarrow> string \<Rightarrow> nat \<Rightarrow> scan_error + string" where
  "require_bounded_text name v max_length = (let normalized = py_strip v in
     case first_error [
       fail_if (normalized = []) (Scan_value (name @ '' is required'')),
       fail_if (length normalized > max_length) (Scan_value (name @ '' exceeds '' @ show_nat max_length @ '' characters'')),
       privacy_safe (JStr normalized) name] of Some e \<Rightarrow> Inl e | None \<Rightarrow> Inr normalized)"

fun comparator_value :: "kpi_comparator \<Rightarrow> string" where
  "comparator_value LESS_THAN = ''LT''"
| "comparator_value LESS_THAN_OR_EQUAL = ''LTE''"
| "comparator_value GREATER_THAN = ''GT''"
| "comparator_value GREATER_THAN_OR_EQUAL = ''GTE''"
| "comparator_value EQUAL = ''EQ''"
| "comparator_value NOT_EQUAL = ''NE''"

fun evidence_type_value :: "evidence_type \<Rightarrow> string" where
  "evidence_type_value METRIC = ''METRIC''"
| "evidence_type_value TRACE = ''TRACE''"
| "evidence_type_value LOG = ''LOG''"
| "evidence_type_value RULE = ''RULE''"
| "evidence_type_value DOCUMENT = ''DOCUMENT''"
| "evidence_type_value PRIOR_INCIDENT = ''PRIOR_INCIDENT''"
| "evidence_type_value TEST_RESULT = ''TEST_RESULT''"
| "evidence_type_value TOPOLOGY = ''TOPOLOGY''"

section \<open>Candidates\<close>

definition deduplicate_resources :: "resource_reference list \<Rightarrow> resource_reference list" where
  "deduplicate_resources resources = snd (foldl (\<lambda>(seen, result) r.
     let identity = (resource_type_value (resource_type r), resource_id r) in
     if identity \<in> set seen then (seen, result) else (identity # seen, result @ [r])) ([], []) resources)"

definition json_identities :: "(string \<times> string) list \<Rightarrow> json" where
  "json_identities ids = JList (map (\<lambda>(kind, name). JList [JStr kind, JStr name]) ids)"

text \<open>\<open>math.fsum(values) / len(values)\<close>: the exact sum rounded once, then one division.\<close>

definition mean_value :: "kpi_observation list \<Rightarrow> rat" where
  "mean_value episode = fl (fl (sum_list (map obs_observed_value episode)) / of_nat (length episode))"

definition episode_flags :: "kpi_observation list \<Rightarrow> string list" where
  "episode_flags episode = sort (remdups (concat (map quality_flags episode)))"

definition rule_snapshot :: "detector_services \<Rightarrow> rca_rule \<Rightarrow> json" where
  "rule_snapshot d r = JObj [
     (''rule_id'', JStr (rule_id r)), (''version'', JStr (rule_version r)),
     (''content_sha256'', JStr (rule_content_sha256 (sha256 (det_services d)) (det_dump_rule d) r)),
     (''kpi_name'', JStr (det_kpi_name (detection r))),
     (''comparator'', JStr (comparator_value (det_comparator (detection r)))),
     (''threshold'', json_float (det_threshold (detection r))),
     (''unit'', json_opt (det_unit (detection r))),
     (''max_gap_minutes'', JInt (max_gap_minutes (detection r)))]"

definition detection_snapshot :: "detector_services \<Rightarrow> rca_rule \<Rightarrow> kpi_observation list \<Rightarrow> json" where
  "detection_snapshot d r episode = JObj [
     (''rule'', rule_snapshot d r),
     (''resources'', JList (map stable_identity (deduplicate_resources (obs_resources (hd episode))))),
     (''window_start'', json_time (observed_at (hd episode))),
     (''window_end'', json_time (observed_at (last episode))),
     (''observations'', JList (map (\<lambda>ob. JObj [
        (''observation_id'', JStr (observation_id ob)), (''observed_at'', json_time (observed_at ob)),
        (''observed_value'', json_float (obs_observed_value ob)), (''quality_flags'', json_strs (quality_flags ob))])
        episode)),
     (''source_event_ids'', json_strs (map observation_id episode))]"

text \<open>The second part of the digest that names the violation.\<close>

definition violation_snapshot :: "rca_rule \<Rightarrow> kpi_observation list \<Rightarrow> json" where
  "violation_snapshot r episode = JObj [
     (''rule_id'', JStr (rule_id r)), (''rule_version'', JStr (rule_version r)),
     (''kpi_name'', JStr (det_kpi_name (detection r))),
     (''comparator'', JStr (comparator_value (det_comparator (detection r)))),
     (''threshold'', json_float (det_threshold (detection r))),
     (''unit'', json_opt (det_unit (detection r))),
     (''window_start'', json_time (observed_at (hd episode))),
     (''window_end'', json_time (observed_at (last episode))),
     (''source_event_ids'', json_strs (map observation_id episode)),
     (''observed_value'', json_float (mean_value episode)),
     (''resource_ids'', json_strs (map resource_id (deduplicate_resources (obs_resources (hd episode))))),
     (''aggregation'', JStr ''arithmetic_mean_of_violating_samples''),
     (''max_gap_minutes'', JInt (max_gap_minutes (detection r))),
     (''quality_flags'', json_strs (episode_flags episode)),
     (''sample_count'', JInt (int (length episode)))]"

definition episode_violation :: "detector_services \<Rightarrow> rca_rule \<Rightarrow> kpi_observation list \<Rightarrow> kpi_violation" where
  "episode_violation d r episode = \<lparr>
     violation_id = Some (''violation-'' @ stable_digest (det_services d) [JStr ''kpi-violation-v2'', violation_snapshot r episode]),
     kpi_name = det_kpi_name (detection r),
     observed_value = mean_value episode,
     threshold_value = det_threshold (detection r),
     comparator = det_comparator (detection r),
     kpi_unit = det_unit (detection r),
     kpi_window_start = Some (observed_at (hd episode)),
     kpi_window_end = Some (observed_at (last episode)),
     kpi_rule_id = Some (rule_id r),
     kpi_rule_version = Some (rule_version r),
     kpi_resource_ids = map resource_id (deduplicate_resources (obs_resources (hd episode))),
     kpi_dimensions = [(''aggregation'', ''arithmetic_mean_of_violating_samples''),
       (''max_gap_minutes'', show_int (max_gap_minutes (detection r))),
       (''quality_flags'', join '','' (episode_flags episode)),
       (''sample_count'', show_nat (length episode))]\<rparr>"

definition correlation_of :: "services \<Rightarrow> rca_rule \<Rightarrow> kpi_observation list \<Rightarrow> string" where
  "correlation_of s r episode = ''correlation-'' @ stable_digest s [JStr ''detector-episode-v1'', JStr (rule_id r),
     JStr (rule_version r), json_identities (resource_identity (deduplicate_resources (obs_resources (hd episode)))),
     json_time (observed_at (hd episode))]"

definition preview_incident :: "detector_services \<Rightarrow> rca_rule \<Rightarrow> kpi_observation list \<Rightarrow> string \<Rightarrow> incident" where
  "preview_incident d r episode trace = \<lparr>
     incident_id = ''preview-'' @ stable_digest (det_services d)
       [JStr ''detector-evidence-scope-v3'', detection_snapshot d r episode],
     correlation_key = Some (correlation_of (det_services d) r episode),
     source_event_ids = map observation_id episode,
     technology = LTE, vendor_profile = None, status = DETECTED, severity = Sev_UNKNOWN,
     title = det_title d (det_kpi_name (detection r)),
     description = description_zh r,
     affected_resources = deduplicate_resources (obs_resources (hd episode)),
     detected_at = observed_at (last episode),
     window_start = Some (observed_at (hd episode)),
     window_end = Some (observed_at (last episode)),
     violated_kpis = [episode_violation d r episode],
     evidence_refs = [], hypotheses = [], root_cause = None, rca_reports = [], recommendations = [], approvals = [],
     action_runs = [], verification_runs = [],
     model_metadata = [(''detector_algorithm'', JStr ''deterministic-threshold-episodes-v3''),
       (''rule_content_hashes'', JObj [(rule_id r,
          JStr (rule_content_sha256 (sha256 (det_services d)) (det_dump_rule d) r))])],
     rule_versions = [(rule_id r, rule_version r)],
     trace_id = trace, duplicate_of = None,
     created_at = observed_at (last episode), updated_at = observed_at (last episode), revision = 0\<rparr>"

definition order_evidence :: "evidence_reference list \<Rightarrow> evidence_reference list" where
  "order_evidence = sort_key (\<lambda>e. (evidence_type_value (evidence_type e), evidence_id e, evidence_uri e))"

definition candidate_id_of :: "detector_services \<Rightarrow> rca_rule \<Rightarrow> kpi_observation list \<Rightarrow> evidence_reference list \<Rightarrow> string" where
  "candidate_id_of d r episode evidence = ''incident-'' @ stable_digest (det_services d) [JStr ''detector-candidate-v3'',
     detection_snapshot d r episode, JObj [(''evidence_refs'', JList (map (det_dump_evidence d) evidence))]]"

text \<open>\<open>_trigger_for_episode\<close>, with the two UUIDs and the clock reading of the \<open>k\<close>-th trigger.\<close>

definition trigger_for_episode :: "detector_services \<Rightarrow> detector_env \<Rightarrow> nat \<Rightarrow> string \<Rightarrow> string \<Rightarrow> episode_spec
    \<Rightarrow> detector_error + trigger" where
  "trigger_for_episode d e k trace workflow spec = (case spec of (r, episode) \<Rightarrow>
     case validate_kpi_violation (episode_violation d r episode) of Some x \<Rightarrow> Inl (Det_validation x) | None \<Rightarrow>
     let preview = preview_incident d r episode trace in
     case model_validate (sha256 (det_services d)) preview of Some x \<Rightarrow> Inl (Det_validation x) | None \<Rightarrow>
     let evidence = order_evidence (env_evidence e preview);
         iid = candidate_id_of d r episode evidence;
         candidate = preview\<lparr>incident_id := iid, evidence_refs := evidence\<rparr> in
     case model_validate (sha256 (det_services d)) candidate of Some x \<Rightarrow> Inl (Det_validation x) | None \<Rightarrow>
     case detector_now (env_clock e k) of Inl x \<Rightarrow> Inl x | Inr now \<Rightarrow>
     let envelope = \<lparr>message_id = env_ids e (2 * k), workflow_id = workflow, env_incident_id = iid,
           env_trace_id = trace, env_idempotency_key = env_ids e (2 * k + 1), sent_at = now\<rparr>;
         summary = det_summary d (det_kpi_name (detection r)) (observed_at (hd episode)) (observed_at (last episode))
           (length episode) in
     case validate_incident_trigger (sha256 (det_services d)) envelope candidate summary of
       Some x \<Rightarrow> Inl (Det_validation x)
     | None \<Rightarrow> Inr (envelope, candidate, summary))"

fun triggers_from :: "detector_services \<Rightarrow> detector_env \<Rightarrow> nat \<Rightarrow> string \<Rightarrow> string \<Rightarrow> episode_spec list
    \<Rightarrow> detector_error + trigger list" where
  "triggers_from d e k trace workflow [] = Inr []"
| "triggers_from d e k trace workflow (spec # specs) = (case trigger_for_episode d e k trace workflow spec of
     Inl x \<Rightarrow> Inl x
   | Inr trigger \<Rightarrow> map_sum id (\<lambda>ts. trigger # ts) (triggers_from d e (Suc k) trace workflow specs))"

definition order_triggers :: "trigger list \<Rightarrow> trigger list" where
  "order_triggers = sort_key (\<lambda>(envelope, i, summary).
     (the (window_start i), the (window_end i), env_incident_id envelope))"

text \<open>The whole of \<open>scan\<close>.\<close>

definition scan_candidates :: "detector_services \<Rightarrow> detector_env \<Rightarrow> string \<Rightarrow> string option \<Rightarrow> scan_time option
    \<Rightarrow> scan_time option \<Rightarrow> id_argument \<Rightarrow> detector_error + trigger list" where
  "scan_candidates d e trace workflow first_instant last_instant resource_ids =
     (case scan (env_query e) (env_rules e) trace workflow (env_workflow e) first_instant last_instant resource_ids of
        Inl x \<Rightarrow> Inl (Det_scan x)
      | Inr specs \<Rightarrow> (case triggers_from d e 0 (py_strip trace)
            (case workflow of None \<Rightarrow> env_workflow e | Some w \<Rightarrow> py_strip w) specs of
          Inl x \<Rightarrow> Inl x
        | Inr triggers \<Rightarrow> let result = order_triggers triggers in
            (case privacy_safe (JList (map (det_dump_trigger d) result)) ''detector result'' of
               Some x \<Rightarrow> Inl (Det_scan x) | None \<Rightarrow> Inr result)))"

section \<open>Confirmation\<close>

record confirm_request =
  cr_candidate :: string
  cr_trace :: string
  cr_key :: string
  cr_actor :: string
  cr_reason :: string
  cr_window_start :: "scan_time option"
  cr_window_end :: "scan_time option"
  cr_resource_ids :: id_argument

text \<open>The normalized candidate identifier, write metadata, window and resources of a request.\<close>

definition confirm_arguments :: "confirm_request
    \<Rightarrow> scan_error + string \<times> write_metadata \<times> (instant \<times> instant) option \<times> string list" where
  "confirm_arguments q = (case require_identifier ''candidate_id'' (cr_candidate q) of Inl x \<Rightarrow> Inl x | Inr cid \<Rightarrow>
     case require_identifier ''trace_id'' (cr_trace q) of Inl x \<Rightarrow> Inl x | Inr trace \<Rightarrow>
     case require_identifier ''idempotency_key'' (cr_key q) of Inl x \<Rightarrow> Inl x | Inr key \<Rightarrow>
     case require_identifier ''actor'' (cr_actor q) of Inl x \<Rightarrow> Inl x | Inr actor \<Rightarrow>
     case require_bounded_text ''reason'' (cr_reason q) 4096 of Inl x \<Rightarrow> Inl x | Inr reason \<Rightarrow>
     case validated_scan_scope (cr_window_start q) (cr_window_end q) (cr_resource_ids q) of Inl x \<Rightarrow> Inl x
     | Inr (window, ids) \<Rightarrow> Inr (cid,
         \<lparr>meta_key = key, meta_actor = actor, meta_reason = reason, meta_trace = trace\<rparr>, window, ids))"

text \<open>The incident that is rebuilt from a recorded result.\<close>

definition replayed_candidate :: "services \<Rightarrow> incident \<Rightarrow> detector_error + incident" where
  "replayed_candidate s i =
     (if status i \<noteq> DETECTED \<or> revision i \<noteq> 0 \<or> window_end i = None \<or> Some (detected_at i) \<noteq> window_end i
      then Inl (Det_value ''candidate replay cannot reconstruct the original snapshot'')
      else let rebuilt = i\<lparr>created_at := detected_at i, updated_at := detected_at i\<rparr> in
        case model_validate (sha256 s) rebuilt of Some x \<Rightarrow> Inl (Det_validation x) | None \<Rightarrow> Inr rebuilt)"

definition rescan :: "detector_services \<Rightarrow> detector_env \<Rightarrow> string \<Rightarrow> string \<Rightarrow> (instant \<times> instant) option \<Rightarrow> string list
    \<Rightarrow> detector_error + incident option" where
  "rescan d e cid trace window ids =
     (case scan_candidates d e trace None (map_option (\<lambda>(start, stop). Zoned_time start 0) window)
         (map_option (\<lambda>(start, stop). Zoned_time stop 0) window) (Id_list ids) of
        Inl x \<Rightarrow> Inl x
      | Inr triggers \<Rightarrow> Inr (map_option (\<lambda>(envelope, i, summary). i)
          (List.find (\<lambda>(envelope, i, summary). env_incident_id envelope = cid) triggers)))"

definition select_candidate :: "detector_services \<Rightarrow> detector_env \<Rightarrow> string \<Rightarrow> write_metadata
    \<Rightarrow> (instant \<times> instant) option \<Rightarrow> string list \<Rightarrow> repository \<Rightarrow> detector_error + incident option" where
  "select_candidate d e cid m window ids r =
     (case find_by_idempotency_key cid (meta_key m) ''create_or_correlate'' r of
        Inl x \<Rightarrow> Inl (Det_repository x)
      | Inr (Some recorded_incident) \<Rightarrow>
          if incident_id recorded_incident = cid
          then map_sum id Some (replayed_candidate (det_services d) recorded_incident)
          else rescan d e cid (meta_trace m) window ids
      | Inr None \<Rightarrow> rescan d e cid (meta_trace m) window ids)"

definition confirm :: "detector_services \<Rightarrow> detector_env \<Rightarrow> confirm_request \<Rightarrow> repository
    \<Rightarrow> (detector_error + incident) \<times> repository" where
  "confirm d e q r = (case confirm_arguments q of Inl x \<Rightarrow> (Inl (Det_scan x), r) | Inr (cid, m, window, ids) \<Rightarrow>
     let selected = select_candidate d e cid m window ids r; r' = env_others e r in
     case selected of Inl x \<Rightarrow> (Inl x, r')
     | Inr None \<Rightarrow> (Inl (Det_value ''candidate is unavailable after deterministic rescan''), r')
     | Inr (Some i) \<Rightarrow> (case create_or_correlate (det_services d) (env_repository_clock e) i m r' of
         (Inl x, r'') \<Rightarrow> (Inl (Det_repository x), r'')
       | (Inr result, r'') \<Rightarrow> (case privacy_safe (det_dump_result d result) ''confirmed incident'' of
           Some x \<Rightarrow> (Inl (Det_scan x), r'') | None \<Rightarrow> (Inr result, r''))))"

end
