(* ===== verification/Rules_Properties.thy ===== *)
theory Rules_Properties
  imports Rules
begin

text \<open>
  What \<open>resolve_rules_for_incident\<close> trusts: only rules the incident's own record names, when their content
  is the recorded one and their detection explains the violation; and when it calls a resolution exact.
\<close>

section \<open>The index of rules\<close>

lemma same_rule_equiv: "same_rule r r" "same_rule r s \<Longrightarrow> same_rule s r" "same_rule r s \<Longrightarrow> same_rule s t \<Longrightarrow> same_rule r t"
  by (simp_all add: same_rule_def)

definition index_ok :: "rca_rule list \<Rightarrow> rule_index \<Rightarrow> bool" where
  "index_ok rules index \<longleftrightarrow>
     (\<forall>r\<in>set rules. map_of (fst index) (rule_identity r) \<noteq> None) \<and>
     (\<forall>k r. map_of (fst index) k = Some r \<longrightarrow> r \<in> set rules \<and> rule_identity r = k) \<and>
     (\<forall>k r s. map_of (fst index) k = Some r \<longrightarrow> k \<notin> set (snd index) \<longrightarrow> s \<in> set rules \<longrightarrow> rule_identity s = k \<longrightarrow>
       same_rule s r)"

lemma index_okD:
  assumes "index_ok rules index"
  shows "r \<in> set rules \<Longrightarrow> map_of (fst index) (rule_identity r) \<noteq> None"
    and "map_of (fst index) k = Some r \<Longrightarrow> r \<in> set rules \<and> rule_identity r = k"
    and "map_of (fst index) k = Some r \<Longrightarrow> k \<notin> set (snd index) \<Longrightarrow> s \<in> set rules \<Longrightarrow> rule_identity s = k \<Longrightarrow> same_rule s r"
  using assms unfolding index_ok_def by blast+

lemma index_okI:
  assumes "\<And>r. r \<in> set rules \<Longrightarrow> map_of d (rule_identity r) \<noteq> None"
    and "\<And>k r. map_of d k = Some r \<Longrightarrow> r \<in> set rules \<and> rule_identity r = k"
    and "\<And>k r s. map_of d k = Some r \<Longrightarrow> k \<notin> set dups \<Longrightarrow> s \<in> set rules \<Longrightarrow> rule_identity s = k \<Longrightarrow> same_rule s r"
  shows "index_ok rules (d, dups)"
  using assms unfolding index_ok_def fst_conv snd_conv by blast

lemma index_rule_ok:
  assumes ok: "index_ok rules (d, dups)"
  shows "index_ok (rules @ [r]) (index_rule (d, dups) r)"
proof -
  let ?k = "rule_identity r"
  have known: "s \<in> set rules \<Longrightarrow> map_of d (rule_identity s) \<noteq> None"
    and sound: "map_of d k = Some s \<Longrightarrow> s \<in> set rules \<and> rule_identity s = k"
    and unique: "map_of d k = Some t \<Longrightarrow> k \<notin> set dups \<Longrightarrow> s \<in> set rules \<Longrightarrow> rule_identity s = k \<Longrightarrow> same_rule s t" for k s t
    using index_okD [OF ok] by simp_all
  consider (new) "map_of d ?k = None" | (equal) p where "map_of d ?k = Some p" "same_rule p r"
    | (other) p where "map_of d ?k = Some p" "\<not> same_rule p r" by (cases "map_of d ?k") auto
  then show ?thesis
  proof cases
    case new
    then have "index_rule (d, dups) r = (AList.update ?k r d, dups)" by (simp add: index_rule_def)
    moreover have "rule_identity s \<noteq> ?k" if "s \<in> set rules" for s using known [OF that] new by auto
    ultimately show ?thesis
      using known sound unique same_rule_equiv(1) by (auto intro!: index_okI split: if_splits)
  next
    case equal
    then have "index_rule (d, dups) r = (AList.update ?k r d, dups)" by (simp add: index_rule_def)
    moreover have "same_rule s r" if "?k \<notin> set dups" "s \<in> set rules" "rule_identity s = ?k" for s
      using unique [OF equal(1) that] equal(2) same_rule_equiv(3) by blast
    ultimately show ?thesis
      using known sound unique same_rule_equiv(1) by (auto intro!: index_okI split: if_splits)
  next
    case other
    then have "index_rule (d, dups) r = (d, ?k # dups)" by (simp add: index_rule_def)
    then show ?thesis using other known sound unique by (auto intro!: index_okI)
  qed
qed

lemma index_rules_ok: "index_ok (filter (\<lambda>r. rule_technology r = tech) rules) (index_rules tech rules)"
proof -
  have "index_ok rs (foldl index_rule ([], []) rs)" for rs
  proof (induction rs rule: rev_induct)
    case Nil
    show ?case by (simp add: index_ok_def)
  next
    case (snoc r rs)
    then show ?case using index_rule_ok by (cases "foldl index_rule ([], []) rs") simp
  qed
  then show ?thesis by (simp add: index_rules_def)
qed

section \<open>One violation\<close>

text \<open>The digest the incident recorded for a rule, when it recorded one.\<close>

definition content_vouched :: "(string \<Rightarrow> string) \<Rightarrow> (rca_rule \<Rightarrow> json) \<Rightarrow> incident \<Rightarrow> rca_rule \<Rightarrow> bool" where
  "content_vouched h dump i r \<longleftrightarrow> (\<exists>hashes. content_hashes i = Inr hashes \<and>
     (case map_of hashes (rule_id r) of
        Some (JStr s) \<Rightarrow> py_lower s = rule_content_sha256 h dump r
      | Some v \<Rightarrow> v = JNull \<and> \<not> requires_content_digest i
      | None \<Rightarrow> \<not> requires_content_digest i \<and> metadata_entry ''rule_content_hashes'' i = JNull))"

text \<open>What makes a rule the explanation of a violation.\<close>

definition explains :: "(string \<Rightarrow> string) \<Rightarrow> (rca_rule \<Rightarrow> json) \<Rightarrow> incident \<Rightarrow> rule_index \<Rightarrow> kpi_violation \<Rightarrow> rca_rule \<Rightarrow> bool" where
  "explains h dump i index v r \<longleftrightarrow> detection_matches r v \<and> map_of (rule_versions i) (rule_id r) = Some (rule_version r) \<and>
     map_of (fst index) (rule_identity r) = Some r \<and> rule_identity r \<notin> set (snd index) \<and> content_issue h dump i r = None \<and>
     (rule_id r = BUBBLERAN_REPLAY_RULE_ID \<longrightarrow>
       metadata_entry ''detector_algorithm'' i = JStr BUBBLERAN_REPLAY_DETECTOR_ALGORITHM)"

lemma resolve_violation_Inr:
  assumes "index_ok rules index"
  shows "resolve_violation h dump i index v = Inr r \<longleftrightarrow> explains h dump i index v r"
proof
  assume "resolve_violation h dump i index v = Inr r"
  then obtain rid ver where *: "kpi_rule_id v = Some rid" "kpi_rule_version v = Some ver"
    "map_of (rule_versions i) rid = Some ver" "(rid, ver) \<notin> set (snd index)" "map_of (fst index) (rid, ver) = Some r"
    "rid = BUBBLERAN_REPLAY_RULE_ID \<longrightarrow> metadata_entry ''detector_algorithm'' i = JStr BUBBLERAN_REPLAY_DETECTOR_ALGORITHM"
    "content_issue h dump i r = None" "detection_matches r v"
    by (auto simp: resolve_violation_def split: option.splits if_splits)
  then have "rule_identity r = (rid, ver)" using index_okD(2) [OF assms *(5)] by simp
  then show "explains h dump i index v r" using * by (simp add: explains_def rule_identity_def)
next
  assume "explains h dump i index v r"
  then show "resolve_violation h dump i index v = Inr r"
    by (auto simp: explains_def resolve_violation_def detection_matches_def rule_identity_def)
qed

lemma content_issue_None:
  assumes "content_issue h dump i r = None"
  shows "content_vouched h dump i r"
proof -
  obtain hashes where hashes: "content_hashes i = Inr hashes"
    using assms by (auto simp: content_issue_def Let_def split: if_splits sum.splits)
  show ?thesis
  proof (cases "map_of hashes (rule_id r)")
    case None
    then show ?thesis using assms hashes
      by (auto simp: content_issue_def content_vouched_def Let_def split: if_splits)
  next
    case (Some w)
    then show ?thesis using assms hashes
      by (cases w) (auto simp: content_issue_def content_vouched_def Let_def split: if_splits)
  qed
qed

section \<open>The resolved rules\<close>

lemma set_update_same:
  "distinct (map fst d) \<Longrightarrow> (\<And>w. (k, w) \<in> set d \<Longrightarrow> w = v) \<Longrightarrow> set (AList.update k v d) = insert (k, v) (set d)"
proof (induction d)
  case (Cons p d)
  show ?case
  proof (cases "fst p = k")
    case True
    then have "snd p = v" using Cons.prems(2) [of "snd p"] by (cases p) simp
    then show ?thesis using True by (cases p) simp
  next
    case False
    then show ?thesis using Cons by (cases p) auto
  qed
qed simp

lemma resolved_set:
  assumes "index_ok rules index"
  shows "set (resolved_rules h dump i index) = {r. \<exists>v\<in>set (violated_kpis i). resolve_violation h dump i index v = Inr r}"
proof -
  let ?add = "\<lambda>d v. case resolve_violation h dump i index v of Inl _ \<Rightarrow> d | Inr r \<Rightarrow> AList.update (rule_identity r) r d"
  let ?found = "\<lambda>vs. {r. \<exists>v\<in>set vs. resolve_violation h dump i index v = Inr r}"
  have known: "map_of (fst index) (rule_identity r) = Some r" if "resolve_violation h dump i index v = Inr r" for r v
    using that resolve_violation_Inr [OF assms] by (simp add: explains_def)
  have pairs: "distinct (map fst (foldl ?add [] vs)) \<and> set (foldl ?add [] vs) = (\<lambda>r. (rule_identity r, r)) ` ?found vs" for vs
  proof (induction vs rule: rev_induct)
    case Nil
    show ?case by simp
  next
    case (snoc v vs)
    show ?case
    proof (cases "resolve_violation h dump i index v")
      case (Inl code)
      then show ?thesis using snoc by simp
    next
      case (Inr r)
      have same: "w = r" if "(rule_identity r, w) \<in> set (foldl ?add [] vs)" for w
      proof -
        have "rule_identity w = rule_identity r" "\<exists>u. resolve_violation h dump i index u = Inr w"
          using that snoc by auto
        then show ?thesis using known Inr by (metis option.inject)
      qed
      have found: "?found (vs @ [v]) = insert r (?found vs)" using Inr by auto
      have add: "foldl ?add [] (vs @ [v]) = AList.update (rule_identity r) r (foldl ?add [] vs)" using Inr by simp
      show ?thesis unfolding add found
        using distinct_update [OF conjunct1 [OF snoc]] set_update_same [OF conjunct1 [OF snoc] same] snoc by simp
    qed
  qed
  have "set (resolved_rules h dump i index) = snd ` set (foldl ?add [] (violated_kpis i))"
    by (simp add: resolved_rules_def)
  also have "\<dots> = ?found (violated_kpis i)" unfolding conjunct2 [OF pairs] by (simp add: image_image)
  finally show ?thesis .
qed

lemma resolution_Inr:
  assumes "resolve_rules_for_incident h dump i available = Inr res" and "technology i \<in> {LTE, FIVE_G_SA}"
  defines "index \<equiv> index_rules (technology_value (technology i)) available"
  shows "resolution_rules res = resolved_rules h dump i index"
    and "resolution_issues res = order_issues (violation_issues h dump i index @ unreferenced_rules i @ unreferenced_hashes i)"
    and "resolution_status res = status_of i (resolution_rules res) (resolution_issues res)"
  using assms by (auto simp: resolve_rules_for_incident_def Let_def split: if_splits)

lemma resolution_not_applicable:
  assumes "resolve_rules_for_incident h dump i available = Inr res" and "technology i \<notin> {LTE, FIVE_G_SA}"
  shows "resolution_rules res = []" and "resolution_status res = Rule_NOT_APPLICABLE"
  using assms by (auto simp: resolve_rules_for_incident_def)

text \<open>
  C17: A rule that is resolved for an incident is an available rule of its technology; one of the incident's
  violations names it by identifier and version and is past its threshold, in its KPI, unit and comparator;
  the incident records that version; every other available rule of that identity is equal to it; and its
  content is the one whose digest the incident recorded, which a v3 detection must have done.
\<close>
theorem resolved_rule_is_bound:
  assumes "resolve_rules_for_incident h dump i available = Inr res" and "r \<in> set (resolution_rules res)"
  shows "r \<in> set available \<and> rule_technology r = technology_value (technology i) \<and>
    (\<exists>v\<in>set (violated_kpis i). detection_matches r v) \<and> map_of (rule_versions i) (rule_id r) = Some (rule_version r) \<and>
    (\<forall>s\<in>set available. rule_technology s = rule_technology r \<and> rule_identity s = rule_identity r \<longrightarrow> same_rule s r) \<and>
    content_vouched h dump i r"
proof -
  let ?tech = "technology_value (technology i)" and ?index = "index_rules (technology_value (technology i)) available"
  have "technology i \<in> {LTE, FIVE_G_SA}" using assms resolution_not_applicable by fastforce
  then have "r \<in> set (resolved_rules h dump i ?index)" using resolution_Inr(1) [OF assms(1)] assms(2) by simp
  then obtain v where v: "v \<in> set (violated_kpis i)" "explains h dump i ?index v r"
    using resolved_set [OF index_rules_ok] resolve_violation_Inr [OF index_rules_ok] by blast
  then have key: "map_of (fst ?index) (rule_identity r) = Some r" "rule_identity r \<notin> set (snd ?index)"
      "content_issue h dump i r = None"
    by (simp_all add: explains_def)
  note found = index_okD(2,3) [OF index_rules_ok key(1)]
  show ?thesis
    using v found(1) found(2) [OF key(2)] content_issue_None [OF key(3)] by (auto simp: explains_def)
qed

section \<open>Exact resolutions\<close>

lemma numbered_members: "length ks = length vs \<Longrightarrow> (\<exists>k. (k, v) \<in> set (zip ks vs)) \<longleftrightarrow> v \<in> set vs"
  by (metis in_set_impl_in_set_zip2 in_set_zipE)

lemma violation_issues_empty:
  "violation_issues h dump i index = [] \<longleftrightarrow> (\<forall>v\<in>set (violated_kpis i). \<exists>r. resolve_violation h dump i index v = Inr r)"
proof -
  let ?vs = "violated_kpis i"
  have members: "(\<exists>k. (k, v) \<in> set (zip [0..<length ?vs] ?vs)) \<longleftrightarrow> v \<in> set ?vs" for v
    by (rule numbered_members) simp
  have "violation_issues h dump i index = [] \<longleftrightarrow>
      (\<forall>k v. (k, v) \<in> set (zip [0..<length ?vs] ?vs) \<longrightarrow> (\<exists>r. resolve_violation h dump i index v = Inr r))"
  proof -
    have "(case resolve_violation h dump i index v of Inl code \<Rightarrow> [issue_at k code (kpi_rule_id v) (kpi_rule_version v)]
        | Inr _ \<Rightarrow> []) = [] \<longleftrightarrow> (\<exists>r. resolve_violation h dump i index v = Inr r)" for k v
      by (cases "resolve_violation h dump i index v") simp_all
    then show ?thesis unfolding violation_issues_def by (simp add: split_beta) force
  qed
  also have "\<dots> \<longleftrightarrow> (\<forall>v\<in>set ?vs. \<exists>r. resolve_violation h dump i index v = Inr r)"
    using members by blast
  finally show ?thesis .
qed

lemma unreferenced_rules_empty:
  "unreferenced_rules i = [] \<longleftrightarrow> fst ` set (rule_versions i) \<subseteq> {rid. Some rid \<in> kpi_rule_id ` set (violated_kpis i)}"
proof -
  let ?n = "length (violated_kpis i)" and ?items = "sort (rule_versions i)"
  have "unreferenced_rules i = [] \<longleftrightarrow> (\<forall>k rid ver. (k, rid, ver) \<in> set (zip [?n..<?n + length ?items] ?items) \<longrightarrow>
      Some rid \<in> kpi_rule_id ` set (violated_kpis i))"
    unfolding unreferenced_rules_def Let_def by (simp only: map_is_Nil_conv filter_empty_conv) auto
  also have "\<dots> \<longleftrightarrow> (\<forall>rid ver. (rid, ver) \<in> set ?items \<longrightarrow> Some rid \<in> kpi_rule_id ` set (violated_kpis i))"
    using numbered_members [of "[?n..<?n + length ?items]" ?items] by (metis add_diff_cancel_left' length_upt)
  finally show ?thesis by auto
qed

text \<open>The identifiers for which a content digest was recorded.\<close>

definition hashed_ids :: "incident \<Rightarrow> string set" where
  "hashed_ids i = (case object_entries (metadata_entry ''rule_content_hashes'' i) of None \<Rightarrow> {} | Some kvs \<Rightarrow> fst ` set kvs)"

lemma unreferenced_hashes_empty: "unreferenced_hashes i = [] \<longleftrightarrow> hashed_ids i \<subseteq> set (claimed_rule_ids i)"
proof (cases "object_entries (metadata_entry ''rule_content_hashes'' i)")
  case (Some kvs)
  have "zip [n..<n + length xs] xs = [] \<longleftrightarrow> xs = []" for n and xs :: "string list" by (cases xs) (simp_all add: upt_rec)
  moreover have "sort xs = [] \<longleftrightarrow> xs = []" for xs :: "string list" by (metis length_0_conv length_sort)
  ultimately show ?thesis
    unfolding unreferenced_hashes_def hashed_ids_def Let_def Some
    by (simp only: option.case map_is_Nil_conv filter_empty_conv set_remdups set_map) blast
qed (simp add: unreferenced_hashes_def hashed_ids_def)

text \<open>
  C18: A resolution is \<open>EXACT\<close> iff the incident has violations, each of them is explained by a resolved
  rule, and the incident records no rule version and no content digest that none of its violations names.
\<close>
theorem exact_resolution_iff:
  assumes "resolve_rules_for_incident h dump i available = Inr res"
  shows "resolution_status res = Rule_EXACT \<longleftrightarrow> violated_kpis i \<noteq> [] \<and>
    (\<forall>v\<in>set (violated_kpis i). \<exists>r\<in>set (resolution_rules res). detection_matches r v) \<and>
    fst ` set (rule_versions i) \<subseteq> {rid. Some rid \<in> kpi_rule_id ` set (violated_kpis i)} \<and>
    hashed_ids i \<subseteq> set (claimed_rule_ids i)"
proof (cases "technology i \<in> {LTE, FIVE_G_SA}")
  case False
  show ?thesis
    using resolution_not_applicable [OF assms False] by (auto simp: neq_Nil_conv)
next
  case True
  let ?index = "index_rules (technology_value (technology i)) available"
  note res = resolution_Inr [OF assms True]
  note iff = resolve_violation_Inr [OF index_rules_ok]
  have rules: "set (resolution_rules res) = {r. \<exists>v\<in>set (violated_kpis i). explains h dump i ?index v r}"
    unfolding res(1) resolved_set [OF index_rules_ok] iff ..
  have "(\<exists>r. resolve_violation h dump i ?index v = Inr r) \<longleftrightarrow> (\<exists>r\<in>set (resolution_rules res). detection_matches r v)"
    if "v \<in> set (violated_kpis i)" for v
    using that unfolding rules iff by (auto simp: explains_def)
  then have "violation_issues h dump i ?index = [] \<longleftrightarrow>
      (\<forall>v\<in>set (violated_kpis i). \<exists>r\<in>set (resolution_rules res). detection_matches r v)"
    unfolding violation_issues_empty by blast
  moreover have "resolution_issues res = [] \<longleftrightarrow>
      violation_issues h dump i ?index = [] \<and> unreferenced_rules i = [] \<and> unreferenced_hashes i = []"
  proof -
    have "sort_key f xs = [] \<longleftrightarrow> xs = []" for f :: "resolution_issue \<Rightarrow> string \<times> string \<times> string \<times> string" and xs
      by (metis length_0_conv length_sort)
    then show ?thesis unfolding res(2) order_issues_def by (simp only: append_is_Nil_conv)
  qed
  moreover have "resolution_status res = Rule_EXACT \<longleftrightarrow> resolution_issues res = [] \<and> violated_kpis i \<noteq> []"
    unfolding res(3) by (simp add: status_of_def)
  ultimately show ?thesis unfolding unreferenced_rules_empty unreferenced_hashes_empty by blast
qed

section \<open>Rule sets\<close>

lemma filter_only: "distinct xs \<Longrightarrow> k \<in> set xs \<Longrightarrow> filter (\<lambda>x. x = k) xs = [k]"
proof (induction xs)
  case (Cons x xs)
  then show ?case by (cases "x = k") (auto simp: filter_empty_conv)
qed simp

lemma check_identities_None:
  "check_identities ids cur rules = None \<longleftrightarrow> distinct (map rule_identity rules) \<and>
     set (map rule_identity rules) \<inter> set ids = {} \<and> distinct (map rule_id (filter is_current rules)) \<and>
     set (map rule_id (filter is_current rules)) \<inter> set cur = {}"
  by (induction ids cur rules rule: check_identities.induct) auto

lemma load_all_versions_Inr:
  "load_all_versions loaded = Inr rules \<longleftrightarrow> distinct (map rule_identity loaded) \<and>
     distinct (map rule_id (filter is_current loaded)) \<and> rules = sort_key rule_identity loaded"
  by (auto simp: load_all_versions_def check_identities_None split: option.splits)
    (metis check_identities_None empty_iff empty_set inf_bot_right option.distinct(1))

text \<open>
  A rule directory loads iff no identity and no current rule identifier occurs twice; the rules do not
  depend on the names or the order of the files, and an exact version is found iff a file holds it.
\<close>
theorem rule_set_is_exact:
  assumes "load_all_versions loaded = Inr rules"
  shows "(\<forall>other. mset other = mset loaded \<longrightarrow> load_all_versions other = Inr rules) \<and>
    (\<forall>rid ver r. get_version loaded rid ver = Inr (Some r) \<longleftrightarrow> r \<in> set loaded \<and> rule_identity r = (rid, ver)) \<and>
    (\<forall>tech. snd (index_rules tech rules) = [])"
proof (intro conjI allI impI)
  have *: "distinct (map rule_identity loaded)" "distinct (map rule_id (filter is_current loaded))"
      "rules = sort_key rule_identity loaded"
    using assms by (auto simp: load_all_versions_Inr)
  have inj: "inj_on rule_identity (set loaded)" using *(1) by (simp add: distinct_map)
  show "load_all_versions other = Inr rules" if m: "mset other = mset loaded" for other
  proof -
    have "mset (map rule_identity other) = mset (map rule_identity loaded)"
      "mset (map rule_id (filter is_current other)) = mset (map rule_id (filter is_current loaded))"
      using m by (simp_all only: mset_map mset_filter)
    then have "distinct (map rule_identity other)" "distinct (map rule_id (filter is_current other))"
      using *(1,2) mset_eq_imp_distinct_iff by blast+
    moreover have "sort_key rule_identity other = sort_key rule_identity loaded"
    proof (rule properties_for_sort_key)
      show "mset (sort_key rule_identity loaded) = mset other" using m by simp
      show "filter (\<lambda>x. rule_identity k = rule_identity x) (sort_key rule_identity loaded) =
          filter (\<lambda>x. rule_identity k = rule_identity x) other" if "k \<in> set (sort_key rule_identity loaded)" for k
      proof -
        have "distinct other" "distinct (sort_key rule_identity loaded)" "set other = set loaded"
          using *(1) mset_eq_imp_distinct_iff [OF m] mset_eq_setD [OF m] by (simp_all add: distinct_map)
        moreover have k: "k \<in> set loaded" using that by simp
        moreover have "(rule_identity k = rule_identity x) = (x = k)" if "x \<in> set loaded" for x
          using inj_on_eq_iff [OF inj k that] by auto
        ultimately have "filter (\<lambda>x. rule_identity k = rule_identity x) xs = filter (\<lambda>x. x = k) xs"
          if "set xs = set loaded" for xs
          using that by (intro filter_cong) auto
        then have only: "filter (\<lambda>x. rule_identity k = rule_identity x) xs = [k]"
          if "distinct xs" "set xs = set loaded" for xs
          using filter_only [OF that(1), of k] k that by simp
        show ?thesis
          using only \<open>distinct other\<close> \<open>distinct (sort_key rule_identity loaded)\<close> \<open>set other = set loaded\<close> by simp
      qed
    qed simp
    ultimately show ?thesis using * by (simp add: load_all_versions_Inr)
  qed
  show "get_version loaded rid ver = Inr (Some r) \<longleftrightarrow> r \<in> set loaded \<and> rule_identity r = (rid, ver)" for rid ver r
  proof
    assume "get_version loaded rid ver = Inr (Some r)"
    then have "List.find (\<lambda>r. rule_id r = rid \<and> rule_version r = ver) rules = Some r"
      by (simp add: get_version_def assms)
    then have "r \<in> set rules" "rule_identity r = (rid, ver)" by (auto simp: find_Some_iff rule_identity_def)
    then show "r \<in> set loaded \<and> rule_identity r = (rid, ver)" using *(3) by simp
  next
    assume r: "r \<in> set loaded \<and> rule_identity r = (rid, ver)"
    then obtain s where s: "List.find (\<lambda>r. rule_id r = rid \<and> rule_version r = ver) rules = Some s"
      using *(3) by (cases "List.find (\<lambda>r. rule_id r = rid \<and> rule_version r = ver) rules")
        (auto simp: find_None_iff rule_identity_def)
    then have "s \<in> set rules" "rule_identity s = (rid, ver)" by (auto simp: find_Some_iff rule_identity_def)
    then have "s = r" using inj_onD [OF inj, of s r] r *(3) by simp
    then show "get_version loaded rid ver = Inr (Some r)" using s by (simp add: get_version_def assms)
  qed
  have "snd (foldl index_rule ([], []) rs) = [] \<and> fst ` set (fst (foldl index_rule ([], []) rs)) = rule_identity ` set rs"
    if "distinct (map rule_identity rs)" for rs
    using that
  proof (induction rs rule: rev_induct)
    case (snoc r rs)
    obtain d dups where d: "foldl index_rule ([], []) rs = (d, dups)" by fastforce
    then have "dups = []" "fst ` set d = rule_identity ` set rs" "rule_identity r \<notin> rule_identity ` set rs"
      using snoc by auto
    moreover from this have "map_of d (rule_identity r) = None" by (simp add: map_of_eq_None_iff)
    then have "index_rule (d, dups) r = (AList.update (rule_identity r) r d, dups)" by (simp add: index_rule_def)
    ultimately show ?case using d by (simp add: keys_update)
  qed simp
  moreover have "distinct (map rule_identity (filter (\<lambda>r. rule_technology r = tech) rules))" for tech
    using *(1,3) inj by (auto simp: distinct_map intro: inj_on_subset)
  ultimately show "snd (index_rules tech rules) = []" for tech by (simp add: index_rules_def)
qed

end
