(* ===== verification/Detector_Properties.thy ===== *)
theory Detector_Properties
  imports Detector_Scan Rules_Properties
begin

text \<open>
  What a scan finds: episodes are the maximal runs of samples without a gap, although the gap is computed in
  floating point, and the candidates hold every sample past a rule's threshold exactly once.
\<close>

section \<open>Gaps\<close>

text \<open>The rounded minutes are past a whole number of minutes iff the microseconds are.\<close>

lemma gap_minutes_exact:
  assumes "t \<le> t'" and "0 \<le> g" and "g \<le> 10080"
  shows "gap_minutes t t' > of_int g \<longleftrightarrow> t' - t > g * 60000000"
proof
  assume less: "t' - t > g * 60000000"
  have fine: "fl (of_int m * 2 powi - 20) = of_int m * 2 powi - 20" "fl (of_int m * 2 powi - 26) = of_int m * 2 powi - 26"
    if "\<bar>m\<bar> \<le> 2 ^ 53" for m by (rule fl_exact [OF that])+
  have p20: "(2 :: rat) powi - 20 = 1 / 1048576" and p26: "(2 :: rat) powi - 26 = 1 / 67108864"
    by (simp_all add: power_int_def power_one_over)
  let ?y = "of_int (60 * g * 1048576 + 1) * 2 powi - 20 :: rat" and ?z = "of_int (g * 67108864 + 1) * 2 powi - 26 :: rat"
  have "rat_of_int (g * 60000000 + 1) \<le> of_int (t' - t)" using less by (subst of_int_le_iff) linarith
  then have "?y \<le> of_int (t' - t) / 1000000" unfolding p20 by simp
  moreover have "0 \<le> ?y" "0 \<le> ?z" using assms(2) unfolding p20 p26 by simp_all
  moreover have "fl ?y = ?y" "fl ?z = ?z" using assms(2,3) by (intro fine; simp)+
  ultimately have "?y \<le> fl (of_int (t' - t) / 1000000)" using fl_mono by metis
  moreover have "?z \<le> ?y / 60" unfolding p20 p26 by simp
  ultimately have "?z \<le> fl (of_int (t' - t) / 1000000) / 60" by simp
  then have "?z \<le> gap_minutes t t'"
    unfolding gap_minutes_def using fl_mono [OF \<open>0 \<le> ?z\<close>] \<open>fl ?z = ?z\<close> by metis
  moreover have "of_int g < ?z" unfolding p26 by simp
  ultimately show "gap_minutes t t' > of_int g" by linarith
next
  assume more: "gap_minutes t t' > of_int g"
  show "t' - t > g * 60000000"
  proof (rule ccontr)
    assume "\<not> t' - t > g * 60000000"
    then have "rat_of_int (t' - t) \<le> of_int (g * 60000000)" by (simp only: of_int_le_iff not_less)
    then have "rat_of_int (t' - t) / 1000000 \<le> of_int (60 * g)" by simp
    moreover have "0 \<le> rat_of_int (t' - t) / 1000000" using assms(1) by simp
    ultimately have "fl (of_int (t' - t) / 1000000) \<le> of_int (60 * g)"
      using fl_mono fl_of_int [of "60 * g"] assms(2,3) by fastforce
    then have "fl (of_int (t' - t) / 1000000) / 60 \<le> of_int g" by simp
    moreover have "0 \<le> fl (of_int (t' - t) / 1000000) / 60" using assms(1) fl_sign(1) by simp
    ultimately have "gap_minutes t t' \<le> fl (of_int g)" unfolding gap_minutes_def by (rule fl_mono [rotated])
    then show False using more fl_of_int [of g] assms(2,3) by simp
  qed
qed

section \<open>Episodes\<close>

definition close_to :: "int \<Rightarrow> kpi_observation \<Rightarrow> kpi_observation \<Rightarrow> bool" where
  "close_to g a b \<longleftrightarrow> observed_at b - observed_at a \<le> g * 60000000"

text \<open>A division of samples into maximal runs: no gap inside a run, one between any two.\<close>

definition maximal_runs :: "int \<Rightarrow> kpi_observation list list \<Rightarrow> bool" where
  "maximal_runs g es \<longleftrightarrow> [] \<notin> set es \<and> (\<forall>e\<in>set es. successively (close_to g) e) \<and>
     successively (\<lambda>e f. \<not> close_to g (last e) (hd f)) es"

lemma maximal_runs_Cons:
  "maximal_runs g (e # es) \<longleftrightarrow> e \<noteq> [] \<and> successively (close_to g) e \<and> maximal_runs g es \<and>
     (es \<noteq> [] \<longrightarrow> \<not> close_to g (last e) (hd (hd es)))"
  by (cases es) (auto simp: maximal_runs_def)

lemma longer_run_closes:
  assumes "concat (e # es) = concat (f # fs)" and "maximal_runs g (e # es)" and "maximal_runs g (f # fs)"
  shows "length f \<le> length e"
proof (rule ccontr)
  assume longer: "\<not> length f \<le> length e"
  then have prefix: "take (length e) f = e" using assms(1)
    by (metis append_eq_append_conv_if concat.simps(2) nle_le)
  then obtain y ys where f: "f = e @ y # ys"
    by (metis append_take_drop_id drop_eq_Nil list.exhaust longer)
  then have rest: "concat es = y # ys @ concat fs" using assms(1) by simp
  then have es: "es \<noteq> []" by auto
  then have "hd es \<noteq> []" using assms(2) hd_in_set [OF es] by (metis maximal_runs_Cons maximal_runs_def)
  then have "hd (hd es) = y" using rest es by (cases es; cases "hd es") auto
  then have "\<not> close_to g (last e) y" using assms(2) es by (auto simp: maximal_runs_Cons)
  moreover have "close_to g (last e) y"
    using assms(2,3) f by (auto simp: maximal_runs_Cons successively_append_iff)
  ultimately show False by blast
qed

lemma maximal_runs_unique:
  assumes "concat es = concat fs" and "maximal_runs g es" and "maximal_runs g fs"
  shows "es = fs"
  using assms
proof (induction es arbitrary: fs)
  case Nil
  then show ?case by (cases fs) (auto simp: maximal_runs_def)
next
  case (Cons e es)
  then obtain f fs' where fs: "fs = f # fs'" by (cases fs) (auto simp: maximal_runs_def)
  have "length e = length f"
    using longer_run_closes [of e es f fs' g] longer_run_closes [of f fs' e es g] Cons.prems fs by simp
  then have "e = f" "concat es = concat fs'" using Cons.prems(1) fs by auto
  then show ?case using Cons fs by (simp add: maximal_runs_Cons)
qed

lemma maximal_runs_snoc:
  "maximal_runs g (es @ [e]) \<longleftrightarrow> maximal_runs g es \<and> e \<noteq> [] \<and> successively (close_to g) e \<and>
     (es \<noteq> [] \<longrightarrow> \<not> close_to g (last (last es)) (hd e))"
  by (auto simp: maximal_runs_def successively_append_iff)

lemma episode_loop_runs:
  assumes "maximal_runs g (res @ [current])" and "sorted (map observed_at (last current # rest))"
    and "0 \<le> g" and "g \<le> 10080"
  shows "maximal_runs g (episode_loop g res current rest) \<and>
    concat (episode_loop g res current rest) = concat res @ current @ rest"
  using assms
proof (induction g res current rest rule: episode_loop.induct)
  case (2 g res current ob rest)
  let ?gap = "gap_minutes (observed_at (last current)) (observed_at ob) > of_int g"
  have order: "observed_at (last current) \<le> observed_at ob" "sorted (map observed_at (ob # rest))"
    using "2.prems"(2) by simp_all
  have gap: "?gap \<longleftrightarrow> \<not> close_to g (last current) ob"
    unfolding close_to_def not_le by (rule gap_minutes_exact [OF order(1) "2.prems"(3,4)])
  show ?case
  proof (cases ?gap)
    case True
    have "maximal_runs g ((res @ [current]) @ [[ob]])"
      unfolding maximal_runs_snoc [of g "res @ [current]"] using "2.prems"(1) True gap by simp
    then show ?thesis using "2.IH"(1) [OF True _ _ "2.prems"(3,4)] order(2) True by simp
  next
    case False
    have "maximal_runs g (res @ [current @ [ob]])"
      using "2.prems"(1) False gap unfolding maximal_runs_snoc by (auto simp: successively_append_iff)
    then show ?thesis using "2.IH"(2) [OF False _ _ "2.prems"(3,4)] order(2) False by simp
  qed
qed simp

lemma episodes_runs:
  assumes "0 \<le> g" and "g \<le> 10080"
  shows "maximal_runs g (episodes obs g) \<and> concat (episodes obs g) = ordered_observations obs"
proof (cases "ordered_observations obs")
  case Nil
  then show ?thesis by (simp add: episodes_def maximal_runs_def)
next
  case (Cons ob rest)
  have "sorted (map (\<lambda>ob. (observed_at ob, observation_id ob)) (ordered_observations obs))"
    by (simp add: ordered_observations_def)
  then have "sorted (map observed_at (ob # rest))"
    unfolding Cons sorted_map by (rule sorted_wrt_mono_rel [rotated]) auto
  moreover have "maximal_runs g ([] @ [[ob]])" by (simp add: maximal_runs_def)
  ultimately show ?thesis
    using episode_loop_runs [of g "[]" "[ob]" rest] assms Cons by (simp add: episodes_def)
qed

text \<open>
  C23: \<open>_episodes\<close> divides the samples, ordered by time and identifier, into the maximal runs without a gap
  of more than the rule's minutes: it returns the one division into non-empty runs whose neighbours are
  close inside a run and not close between two runs, with the gap measured exactly, not in floating point.
\<close>
theorem episodes_are_maximal_runs:
  assumes "0 \<le> g" and "g \<le> 10080"
  shows "episodes obs g = es \<longleftrightarrow> maximal_runs g es \<and> concat es = ordered_observations obs"
  using episodes_runs [OF assms, of obs] maximal_runs_unique by metis

section \<open>Groups\<close>

lemma mset_concat_perm: "mset xss = mset yss \<Longrightarrow> mset (concat xss) = mset (concat yss)"
  unfolding mset_concat by (metis mset_map sum_mset_sum_list)

lemma mset_update_group:
  "distinct (map fst d) \<Longrightarrow>
     mset (concat (map snd (AList.update k ((case map_of d k of None \<Rightarrow> [] | Some g \<Rightarrow> g) @ [x]) d))) =
     add_mset x (mset (concat (map snd d)))"
  by (induction d) auto

definition groups_ok :: "kpi_observation list \<Rightarrow> ((string \<times> string) list, kpi_observation list) dict \<Rightarrow> bool" where
  "groups_ok obs d \<longleftrightarrow> distinct (map fst d) \<and> mset (concat (map snd d)) = mset obs \<and>
     (\<forall>k g. map_of d k = Some g \<longrightarrow> g \<noteq> [] \<and> (\<forall>x\<in>set g. resource_identity (obs_resources x) = k))"

lemma grouped_ok: "groups_ok obs (grouped_observations obs)"
proof (induction obs rule: rev_induct)
  case Nil
  show ?case by (simp add: groups_ok_def grouped_observations_def)
next
  case (snoc x obs)
  have grouped: "grouped_observations (obs @ [x]) = add_to_group (grouped_observations obs) x"
    by (simp add: grouped_observations_def)
  show ?case
    using snoc distinct_update mset_update_group [of "grouped_observations obs"]
    unfolding groups_ok_def grouped add_to_group_def Let_def
    by (auto split: option.splits if_splits)
qed

lemma rule_episodes_ok:
  assumes "0 \<le> max_gap_minutes (detection r)" and "max_gap_minutes (detection r) \<le> 10080"
  shows "mset (concat (rule_episodes r obs)) = mset obs"
    and "e \<in> set (rule_episodes r obs) \<Longrightarrow> e \<noteq> [] \<and> successively (close_to (max_gap_minutes (detection r))) e \<and>
      (\<forall>x\<in>set e. resource_identity (obs_resources x) = resource_identity (obs_resources (hd e)))"
proof -
  let ?g = "max_gap_minutes (detection r)" and ?d = "grouped_observations obs"
  note runs = episodes_runs [OF assms]
  have d: "distinct (map fst ?d)" "mset (concat (map snd ?d)) = mset obs"
    "map_of ?d k = Some g \<Longrightarrow> g \<noteq> [] \<and> (\<forall>x\<in>set g. resource_identity (obs_resources x) = k)" for k g
    using grouped_ok [of obs] unfolding groups_ok_def by blast+
  have flat: "concat (concat (map (\<lambda>(key, group). episodes group ?g) kgs)) = concat (map (\<lambda>(key, group). ordered_observations group) kgs)"
    for kgs using runs by (induction kgs) auto
  have same: "mset (concat (map (\<lambda>(key, group). ordered_observations group) kgs)) = mset (concat (map snd kgs))" for kgs
    by (induction kgs) (auto simp: ordered_observations_def)
  have "mset (concat (rule_episodes r obs)) = mset (concat (map snd (sort_key fst ?d)))"
    unfolding rule_episodes_def flat same ..
  also have "\<dots> = mset (concat (map snd ?d))" by (rule mset_concat_perm) simp
  finally show "mset (concat (rule_episodes r obs)) = mset obs" using d(2) by simp
  assume "e \<in> set (rule_episodes r obs)"
  then obtain k group where group: "(k, group) \<in> set ?d" "e \<in> set (episodes group ?g)"
    by (auto simp: rule_episodes_def)
  then have members: "\<forall>x\<in>set group. resource_identity (obs_resources x) = k"
    using d(1,3) by (metis map_of_is_SomeI)
  have "e \<noteq> []" "successively (close_to ?g) e" using runs [of group] group(2) by (auto simp: maximal_runs_def)
  moreover have "set e \<subseteq> set group"
    using runs [of group] group(2) by (metis UN_upper set_concat ordered_observations_def set_sort)
  ultimately show "e \<noteq> [] \<and> successively (close_to ?g) e \<and>
      (\<forall>x\<in>set e. resource_identity (obs_resources x) = resource_identity (obs_resources (hd e)))"
    using members by (metis hd_in_set subsetD)
qed

section \<open>The scan\<close>

text \<open>
  What a rule is to find: a sample of its KPI in its unit, of good quality (an assumed time zone is the one
  flag it may carry), whose value is on the far side of the threshold.
\<close>

definition beyond :: "kpi_comparator \<Rightarrow> rat \<Rightarrow> rat \<Rightarrow> bool" where
  "beyond c t x = (case c of LESS_THAN \<Rightarrow> x < t | LESS_THAN_OR_EQUAL \<Rightarrow> x \<le> t | GREATER_THAN \<Rightarrow> t < x
     | GREATER_THAN_OR_EQUAL \<Rightarrow> t \<le> x | EQUAL \<Rightarrow> x = t | NOT_EQUAL \<Rightarrow> x \<noteq> t)"

definition violates :: "rca_rule \<Rightarrow> kpi_observation \<Rightarrow> bool" where
  "violates r ob \<longleftrightarrow> obs_kpi_name ob = det_kpi_name (detection r) \<and> obs_unit ob = det_unit (detection r) \<and>
     (\<forall>flag\<in>set (quality_flags ob). flag = ''SOURCE_TIMEZONE_ASSUMED_UTC'') \<and>
     beyond (det_comparator (detection r)) (det_threshold (detection r)) (obs_observed_value ob)"

lemma past_threshold_beyond: "past_threshold x c t = beyond c t x"
  by (cases c) (auto simp: past_threshold_def beyond_def compare_values_def fact_number_def float_overflows_def
      ordered_by_def same_type_def)

lemma validate_rule_observation_Inr:
  "validate_rule_observation r ob = Inr b \<longleftrightarrow> b = violates r ob \<and>
     (obs_kpi_name ob = det_kpi_name (detection r) \<longrightarrow> obs_unit ob = det_unit (detection r))"
  by (auto simp: validate_rule_observation_def violates_def past_threshold_beyond)

lemma matched_Inr: "matched_observations r obs = Inr ms \<Longrightarrow> ms = filter (violates r) obs"
  by (induction obs arbitrary: ms)
    (auto simp: validate_rule_observation_Inr map_sum_Inr split: sum.splits if_splits)

lemma add_episodes_Inr:
  "add_episodes r es specs = Inr specs' \<Longrightarrow> length specs \<le> MAX_SCAN_CANDIDATES \<Longrightarrow>
     specs' = specs @ map (Pair r) es \<and> length specs' \<le> MAX_SCAN_CANDIDATES \<and> (\<forall>e\<in>set es. length e \<le> MAX_EPISODE_SAMPLES)"
  by (induction r es specs arbitrary: specs' rule: add_episodes.induct) (fastforce split: if_splits)+

definition rule_specs :: "kpi_observation list \<Rightarrow> rca_rule \<Rightarrow> episode_spec list" where
  "rule_specs obs r = map (Pair r) (rule_episodes r (filter (violates r) obs))"

lemma scan_rules_Inr:
  assumes "scan_rules obs rules specs = Inr specs'" and "length specs \<le> MAX_SCAN_CANDIDATES"
  shows "specs' = specs @ concat (map (rule_specs obs) rules) \<and> length specs' \<le> MAX_SCAN_CANDIDATES \<and>
    (\<forall>r\<in>set rules. \<forall>e\<in>set (rule_episodes r (filter (violates r) obs)). length e \<le> MAX_EPISODE_SAMPLES)"
  using assms
proof (induction obs rules specs rule: scan_rules.induct)
  case (2 obs r rs specs)
  obtain matched specs1 where step: "matched_observations r obs = Inr matched"
      "add_episodes r (rule_episodes r matched) specs = Inr specs1" "scan_rules obs rs specs1 = Inr specs'"
    using "2.prems"(1) by (auto split: sum.splits)
  note added = add_episodes_Inr [OF step(2) "2.prems"(2)]
  show ?case
    using "2.IH" [OF step(1,2,3)] added matched_Inr [OF step(1)] by (auto simp: rule_specs_def)
qed simp

text \<open>The candidates of a scan over samples and rules.\<close>

definition specs_cover :: "kpi_observation list \<Rightarrow> rca_rule list \<Rightarrow> episode_spec list \<Rightarrow> bool" where
  "specs_cover obs rules specs \<longleftrightarrow> length specs \<le> MAX_SCAN_CANDIDATES \<and>
     (\<forall>(r, e)\<in>set specs. r \<in> set rules \<and> e \<noteq> [] \<and> length e \<le> MAX_EPISODE_SAMPLES \<and>
       successively (close_to (max_gap_minutes (detection r))) e \<and>
       (\<forall>x\<in>set e. violates r x \<and> resource_identity (obs_resources x) = resource_identity (obs_resources (hd e)))) \<and>
     (\<forall>r\<in>set rules. mset (concat (map snd (filter (\<lambda>s. fst s = r) specs))) = filter_mset (violates r) (mset obs))"

definition gaps_ok :: "rca_rule list \<Rightarrow> bool" where
  "gaps_ok rules \<longleftrightarrow> (\<forall>r\<in>set rules. 0 \<le> max_gap_minutes (detection r) \<and> max_gap_minutes (detection r) \<le> 10080)"

lemma rule_specs_filter:
  "distinct rules \<Longrightarrow> r \<in> set rules \<Longrightarrow>
     filter (\<lambda>s. fst s = r) (concat (map (rule_specs obs) rules)) = rule_specs obs r"
proof (induction rules)
  case (Cons q rules)
  have same: "filter (\<lambda>s. fst s = r) (rule_specs obs r) = rule_specs obs r" by (simp add: rule_specs_def comp_def)
  have other: "filter (\<lambda>s. fst s = r) (rule_specs obs q) = []" if "q \<noteq> r" for q using that by (simp add: rule_specs_def comp_def)
  have none: "filter (\<lambda>s. fst s = r) (concat (map (rule_specs obs) qs)) = []" if "r \<notin> set qs" for qs
    using that other by (induction qs) auto
  show ?case using Cons same other none by (cases "q = r") auto
qed simp

lemma scan_rules_cover:
  assumes "scan_rules obs rules [] = Inr specs" and "distinct rules" and "gaps_ok rules"
  shows "specs_cover obs rules specs"
proof -
  have specs: "specs = concat (map (rule_specs obs) rules)" "length specs \<le> MAX_SCAN_CANDIDATES"
      "\<forall>r\<in>set rules. \<forall>e\<in>set (rule_episodes r (filter (violates r) obs)). length e \<le> MAX_EPISODE_SAMPLES"
    using scan_rules_Inr [OF assms(1)] by (simp, fastforce, simp)
  have gaps: "0 \<le> max_gap_minutes (detection r)" "max_gap_minutes (detection r) \<le> 10080" if "r \<in> set rules" for r
    using assms(3) that by (auto simp: gaps_ok_def)
  have each: "r \<in> set rules \<and> e \<noteq> [] \<and> length e \<le> MAX_EPISODE_SAMPLES \<and>
      successively (close_to (max_gap_minutes (detection r))) e \<and>
      (\<forall>x\<in>set e. violates r x \<and> resource_identity (obs_resources x) = resource_identity (obs_resources (hd e)))"
    if "(r, e) \<in> set specs" for r e
  proof -
    have r: "r \<in> set rules" and e: "e \<in> set (rule_episodes r (filter (violates r) obs))"
      using that specs(1) by (auto simp: rule_specs_def)
    have "set e \<subseteq> set (concat (rule_episodes r (filter (violates r) obs)))" using e by auto
    also have "\<dots> = set (filter (violates r) obs)" by (rule mset_eq_setD [OF rule_episodes_ok(1) [OF gaps [OF r]]])
    finally have "\<forall>x\<in>set e. violates r x" by auto
    moreover have "length e \<le> MAX_EPISODE_SAMPLES" using specs(3) r e by blast
    ultimately show ?thesis using rule_episodes_ok(2) [OF gaps [OF r] e] r by blast
  qed
  have "mset (concat (map snd (filter (\<lambda>s. fst s = r) specs))) = filter_mset (violates r) (mset obs)"
    if "r \<in> set rules" for r
    using rule_specs_filter [OF assms(2) that, of obs] rule_episodes_ok(1) [OF gaps [OF that]] specs(1)
    by (simp add: rule_specs_def comp_def)
  then show ?thesis using specs(2) each unfolding specs_cover_def by blast
qed

text \<open>
  C19: A scan that returns holds every good sample past a rule's threshold in exactly one candidate of the
  rule: over the current LTE rules of the directory and the samples the repository has for their KPIs in the
  checked scope, each candidate is one rule with a bounded run of its violating samples on the same
  resources, and together the candidates of a rule are all its violating samples, none twice.  A sample
  violates a rule when it is of its KPI and unit, carries no quality flag but an assumed time zone, and its
  value lies beyond the threshold as the comparator says; samples with other flags are in no candidate.
\<close>
theorem scan_finds_every_violation:
  assumes "scan query rule_files trace workflow fresh from until ids = Inr specs" and "gaps_ok rule_files"
  shows "\<exists>window resources current. validated_scan_scope from until ids = Inr (window, resources) \<and>
    load_all rule_files = Inr current \<and>
    (let rules = filter (\<lambda>r. rule_technology r = technology_value LTE) current in
     specs_cover (if rules = [] then [] else query (sort (remdups (map (\<lambda>r. det_kpi_name (detection r)) rules))) window resources)
       rules specs)"
proof -
  obtain window resources current where *: "validated_scan_scope from until ids = Inr (window, resources)"
      "load_all rule_files = Inr current"
    using assms(1) by (auto simp: scan_def Let_def split: sum.splits if_splits option.splits prod.splits)
  let ?rules = "filter (\<lambda>r. rule_technology r = technology_value LTE) current"
  let ?obs = "query (sort (remdups (map (\<lambda>r. det_kpi_name (detection r)) ?rules))) window resources"
  have result: "if ?rules = [] then specs = [] else scan_rules ?obs ?rules [] = Inr specs"
    using assms(1) * by (auto simp: scan_def Let_def split: sum.splits if_splits option.splits)
  obtain rules where "load_all_versions rule_files = Inr rules" "current = filter is_current rules"
    using *(2) by (auto simp: load_all_def map_sum_Inr)
  then have "distinct ?rules" "set ?rules \<subseteq> set rule_files"
    by (auto simp: load_all_versions_Inr distinct_map)
  then have "specs_cover ?obs ?rules specs" if "?rules \<noteq> []"
    using result that assms(2) by (intro scan_rules_cover) (auto simp: gaps_ok_def)
  moreover have "specs_cover [] ?rules specs" if "?rules = []"
    using result that by (simp add: specs_cover_def)
  ultimately show ?thesis using * unfolding Let_def by (intro exI conjI) (assumption | simp)+
qed

end
