(* ===== verification/Candidate_Properties.thy ===== *)
theory Candidate_Properties
  imports Detector_Candidates Detector_Properties Repository_Properties
begin

text \<open>
  What the candidates of the detector are and what confirming one does: the rules of a candidate's incident
  resolve exactly when the mean of its samples violates the rule, only candidates of a fresh scan are created,
  and a confirmation that created its incident can be repeated at any later time.
\<close>

section \<open>Triggers\<close>

text \<open>The incident of a trigger is the preview of its episode, under its final identifier and evidence.\<close>

definition candidate_incident :: "detector_services \<Rightarrow> episode_spec \<Rightarrow> string \<Rightarrow> incident \<Rightarrow> bool" where
  "candidate_incident d spec trace i \<longleftrightarrow> (\<exists>iid evidence. i = (preview_incident d (fst spec) (snd spec) trace)\<lparr>
     incident_id := iid, evidence_refs := evidence\<rparr>) \<and> incident_valid (sha256 (det_services d)) i"

lemma trigger_Inr:
  assumes "trigger_for_episode d e k trace workflow spec = Inr (envelope, i, summary)"
  shows "candidate_incident d spec trace i" "incident_id i = env_incident_id envelope"
proof -
  obtain r episode where spec: "spec = (r, episode)" by (cases spec)
  let ?p = "preview_incident d r episode trace"
  let ?ev = "order_evidence (env_evidence e ?p)"
  let ?c = "?p\<lparr>incident_id := candidate_id_of d r episode ?ev, evidence_refs := ?ev\<rparr>"
  have *: "i = ?c" "model_validate (sha256 (det_services d)) ?c = None"
      "env_incident_id envelope = candidate_id_of d r episode ?ev"
    using assms unfolding trigger_for_episode_def spec Let_def prod.case
    by (auto split: option.splits sum.splits)
  then show "incident_id i = env_incident_id envelope" by simp
  show "candidate_incident d spec trace i" using * unfolding candidate_incident_def spec by auto
qed

lemma triggers_from_Inr:
  "triggers_from d e k trace workflow specs = Inr ts \<Longrightarrow> (envelope, i, summary) \<in> set ts \<Longrightarrow>
     \<exists>n spec. spec \<in> set specs \<and> trigger_for_episode d e n trace workflow spec = Inr (envelope, i, summary)"
proof (induction specs arbitrary: k ts)
  case (Cons spec specs)
  then obtain t rest where step: "trigger_for_episode d e k trace workflow spec = Inr t"
      "triggers_from d e (Suc k) trace workflow specs = Inr rest" "ts = t # rest"
    by (auto simp: map_sum_Inr split: sum.splits)
  show ?case
  proof (cases "(envelope, i, summary) = t")
    case True
    then show ?thesis using step(1) by (intro exI [of _ k] exI [of _ spec]) simp
  next
    case False
    then have "(envelope, i, summary) \<in> set rest" using Cons.prems(2) step(3) by simp
    from Cons.IH [OF step(2) this] show ?thesis by auto
  qed
qed simp

lemma scan_candidates_Inr:
  assumes "scan_candidates d e trace workflow from until ids = Inr ts" and "(envelope, i, summary) \<in> set ts"
  shows "\<exists>specs spec. scan (env_query e) (env_rules e) trace workflow (env_workflow e) from until ids = Inr specs \<and>
    spec \<in> set specs \<and> candidate_incident d spec (py_strip trace) i \<and> incident_id i = env_incident_id envelope"
proof -
  obtain specs triggers where *: "scan (env_query e) (env_rules e) trace workflow (env_workflow e) from until ids = Inr specs"
      "triggers_from d e 0 (py_strip trace) (case workflow of None \<Rightarrow> env_workflow e | Some w \<Rightarrow> py_strip w) specs = Inr triggers"
      "ts = order_triggers triggers"
    using assms(1) by (auto simp: scan_candidates_def Let_def split: sum.splits option.splits)
  then have "(envelope, i, summary) \<in> set triggers" using assms(2) by (simp add: order_triggers_def)
  then show ?thesis using triggers_from_Inr [OF *(2)] trigger_Inr *(1) by metis
qed

lemma candidate_fields:
  assumes "candidate_incident d (r, episode) trace i"
  shows "technology i = LTE" "violated_kpis i = [episode_violation d r episode]"
    "rule_versions i = [(rule_id r, rule_version r)]" "status i = DETECTED" "revision i = 0"
    "window_end i = Some (detected_at i)" "created_at i = detected_at i" "updated_at i = detected_at i"
    "source_event_ids i = map observation_id episode" "trace_id i = trace"
    "window_start i = Some (observed_at (hd episode))" "window_end i = Some (observed_at (last episode))"
    "model_metadata i = [(''detector_algorithm'', JStr ''deterministic-threshold-episodes-v3''),
       (''rule_content_hashes'', JObj [(rule_id r,
          JStr (rule_content_sha256 (sha256 (det_services d)) (det_dump_rule d) r))])]"
    "incident_valid (sha256 (det_services d)) i"
  using assms by (auto simp: candidate_incident_def preview_incident_def)

section \<open>The rules of a candidate\<close>

lemma py_lower_digest:
  assumes "digest_text_ok s"
  shows "py_lower s = s"
proof -
  have "list_all (\<lambda>c. py_lower_char c = c) ''0123456789abcdef''" by code_simp
  then have "py_lower_char c = c" if "c \<in> set ''0123456789abcdef''" for c using that unfolding list_all_iff by blast
  then show ?thesis using assms by (simp add: digest_text_ok_def list_all_iff py_lower_def map_idI)
qed

lemma candidate_content:
  assumes "candidate_incident d (r, episode) trace i" and "\<And>text. digest_text_ok (sha256 (det_services d) text)"
    and "rule_id r \<noteq> BUBBLERAN_REPLAY_RULE_ID"
  shows "content_issue (sha256 (det_services d)) (det_dump_rule d) i r = None"
proof -
  let ?digest = "rule_content_sha256 (sha256 (det_services d)) (det_dump_rule d) r"
  have "content_hashes i = Inr [(rule_id r, JStr ?digest)]"
    by (simp add: content_hashes_def metadata_entry_def candidate_fields [OF assms(1)] object_entries_def)
  moreover have "digest_text_ok ?digest" unfolding rule_content_sha256_def by (rule assms(2))
  ultimately show ?thesis using assms(3) by (simp add: content_issue_def py_lower_digest)
qed

lemma stored_rule_indexed:
  assumes "load_all_versions files = Inr rules" and "r \<in> set files" and "rule_technology r = tech"
  shows "map_of (fst (index_rules tech rules)) (rule_identity r) = Some r" "snd (index_rules tech rules) = []"
proof -
  have rules: "set rules = set files" "distinct (map rule_identity files)"
    using assms(1) by (auto simp: load_all_versions_Inr)
  note ok = index_rules_ok [of tech rules]
  have "map_of (fst (index_rules tech rules)) (rule_identity r) \<noteq> None"
    using index_okD(1) [OF ok] assms(2,3) rules(1) by simp
  then obtain s where s: "map_of (fst (index_rules tech rules)) (rule_identity r) = Some s" by blast
  then have "s \<in> set files" "rule_identity s = rule_identity r" using index_okD(2) [OF ok s] rules(1) by auto
  then have "s = r" using rules(2) assms(2) by (auto simp: distinct_map dest: inj_onD)
  with s show "map_of (fst (index_rules tech rules)) (rule_identity r) = Some r" by simp
  show "snd (index_rules tech rules) = []" using rule_set_is_exact [OF assms(1)] by blast
qed

lemma candidate_resolution:
  assumes "candidate_incident d (r, episode) trace i" and "load_all_versions files = Inr rules" and "r \<in> set files"
    and "rule_technology r = technology_value LTE" and "rule_id r \<noteq> BUBBLERAN_REPLAY_RULE_ID"
    and "\<And>text. digest_text_ok (sha256 (det_services d) text)"
  shows "resolve_violation (sha256 (det_services d)) (det_dump_rule d) i (index_rules (technology_value LTE) rules)
      (episode_violation d r episode) =
    (if beyond (det_comparator (detection r)) (det_threshold (detection r)) (mean_value episode)
     then Inr r else Inl OBSERVATION_NOT_VIOLATION)"
  using stored_rule_indexed [OF assms(2,3,4)] candidate_content [OF assms(1,6,5)] assms(5) candidate_fields [OF assms(1)]
  by (simp add: resolve_violation_def episode_violation_def rule_identity_def detection_matches_def past_threshold_beyond)

text \<open>The field bounds of \<open>RcaRule\<close> that matter, for the rules the detector itself finds incidents with.\<close>

definition detector_rule_ok :: "rca_rule \<Rightarrow> bool" where
  "detector_rule_ok r \<longleftrightarrow> 0 \<le> max_gap_minutes (detection r) \<and> max_gap_minutes (detection r) \<le> 10080 \<and>
     length (rule_id r) \<le> 128 \<and> length (rule_version r) \<le> 64 \<and> rule_id r \<noteq> BUBBLERAN_REPLAY_RULE_ID"

lemma candidate_resolves:
  assumes "candidate_incident d (r, episode) trace i" and "load_all_versions files = Inr rules" and "r \<in> set files"
    and "rule_technology r = technology_value LTE" and "detector_rule_ok r"
    and "\<And>text. digest_text_ok (sha256 (det_services d) text)"
  shows "resolve_typed (sha256 (det_services d)) (det_dump_rule d) files i = Inr (
    if beyond (det_comparator (detection r)) (det_threshold (detection r)) (mean_value episode)
    then \<lparr>resolution_status = Rule_EXACT, resolution_rules = [r], resolution_issues = []\<rparr>
    else \<lparr>resolution_status = Rule_CONFLICT, resolution_rules = [],
      resolution_issues = [issue_at 0 OBSERVATION_NOT_VIOLATION (Some (rule_id r)) (Some (rule_version r))]\<rparr>)"
proof -
  let ?index = "index_rules (technology_value LTE) rules" and ?v = "episode_violation d r episode"
  have v: "kpi_rule_id ?v = Some (rule_id r)" "kpi_rule_version ?v = Some (rule_version r)"
    by (simp_all add: episode_violation_def)
  note fields = candidate_fields [OF assms(1)]
  have found: "resolve_violation (sha256 (det_services d)) (det_dump_rule d) i ?index ?v =
      (if beyond (det_comparator (detection r)) (det_threshold (detection r)) (mean_value episode)
       then Inr r else Inl OBSERVATION_NOT_VIOLATION)"
    using candidate_resolution [OF assms(1,2,3,4) _ assms(6)] assms(5) by (simp add: detector_rule_ok_def)
  have unreferenced: "unreferenced_rules i = []" "unreferenced_hashes i = []"
    by (auto simp: unreferenced_rules_empty unreferenced_hashes_empty hashed_ids_def metadata_entry_def
        object_entries_def claimed_rule_ids_def fields v)
  have "issue_valid (issue_at 0 OBSERVATION_NOT_VIOLATION (Some (rule_id r)) (Some (rule_version r)))"
    using assms(5) length_py_strip [of "rule_id r"] length_py_strip [of "rule_version r"]
    by (simp add: issue_valid_def issue_at_def detector_rule_ok_def)
  moreover have "issue_code (issue_at 0 OBSERVATION_NOT_VIOLATION a b) \<noteq> LEGACY_UNVERSIONED" for a b
    by (simp add: issue_at_def)
  ultimately show ?thesis
    by (simp add: resolve_typed_def assms(2) resolve_rules_for_incident_def Let_def unreferenced violation_issues_def
        resolved_rules_def fields(1,2) found v order_issues_def status_of_def del: technology_value.simps)
qed

lemma scan_specs:
  assumes "scan query files trace workflow fresh from until ids = Inr specs" and "(r, episode) \<in> set specs"
    and "gaps_ok files"
  shows "\<exists>rules. load_all_versions files = Inr rules \<and> r \<in> set files \<and> rule_technology r = technology_value LTE \<and>
    episode \<noteq> [] \<and> (\<forall>ob\<in>set episode. violates r ob)"
proof -
  obtain window resources current where *: "load_all files = Inr current"
      "scan_rules (query (sort (remdups (map (\<lambda>r. det_kpi_name (detection r))
         (filter (\<lambda>r. rule_technology r = technology_value LTE) current)))) window resources)
         (filter (\<lambda>r. rule_technology r = technology_value LTE) current) [] = Inr specs"
    using assms(1,2) by (auto simp: scan_def Let_def split: sum.splits if_splits option.splits prod.splits)
  then obtain rules where rules: "load_all_versions files = Inr rules" "current = filter is_current rules"
    by (auto simp: load_all_def map_sum_Inr)
  let ?rules = "filter (\<lambda>r. rule_technology r = technology_value LTE) current"
  have members: "distinct ?rules" "set ?rules \<subseteq> set files"
    using rules by (auto simp: load_all_versions_Inr distinct_map)
  then have "gaps_ok ?rules" using assms(3) by (auto simp: gaps_ok_def)
  from scan_rules_cover [OF *(2) members(1) this] assms(2)
  have "r \<in> set ?rules" "episode \<noteq> []" "\<forall>ob\<in>set episode. violates r ob" unfolding specs_cover_def by auto
  then show ?thesis using rules(1) members(2) by auto
qed

text \<open>
  When rounding cannot take the mean across a bound: the values are not negative and the bound, summed over the
  samples, is still a float.
\<close>

lemma mean_keeps_bound:
  assumes "episode \<noteq> []" and "fl t = t" and "fl (of_nat (length episode) * t) = of_nat (length episode) * t"
  shows "\<forall>ob\<in>set episode. 0 \<le> obs_observed_value ob \<and> obs_observed_value ob \<le> t \<Longrightarrow> mean_value episode \<le> t"
    and "0 \<le> t \<Longrightarrow> \<forall>ob\<in>set episode. t \<le> obs_observed_value ob \<Longrightarrow> t \<le> mean_value episode"
proof -
  let ?n = "of_nat (length episode) :: rat" and ?s = "sum_list (map obs_observed_value episode)"
  have n: "0 < ?n" using assms(1) by simp
  have exact: "fl (?n * t / ?n) = t" using n assms(2) by simp
  show "mean_value episode \<le> t" if v: "\<forall>ob\<in>set episode. 0 \<le> obs_observed_value ob \<and> obs_observed_value ob \<le> t"
  proof -
    have "0 \<le> ?s" using v by (intro sum_list_nonneg) auto
    moreover have "?s \<le> sum_list (map (\<lambda>_. t) episode)" by (rule sum_list_mono) (use v in auto)
    ultimately have "0 \<le> fl ?s" "fl ?s \<le> ?n * t"
      using fl_mono [of ?s "?n * t"] assms(3) fl_sign(1) by (auto simp: sum_list_triv)
    then have "fl (fl ?s / ?n) \<le> fl (?n * t / ?n)" using n by (intro fl_mono divide_right_mono) auto
    then show ?thesis using exact by (simp add: mean_value_def)
  qed
  show "t \<le> mean_value episode" if "0 \<le> t" "\<forall>ob\<in>set episode. t \<le> obs_observed_value ob"
  proof -
    have "sum_list (map (\<lambda>_. t) episode) \<le> ?s" by (rule sum_list_mono) (use that in auto)
    then have "?n * t \<le> fl ?s" using fl_mono [of "?n * t" ?s] assms(3) that(1) n by (simp add: sum_list_triv)
    then have "fl (?n * t / ?n) \<le> fl (fl ?s / ?n)" using n that(1) by (intro fl_mono divide_right_mono) auto
    then show ?thesis using exact by (simp add: mean_value_def)
  qed
qed


end
