(* ===== verification/Confirm_Properties.thy ===== *)
theory Confirm_Properties
  imports Candidate_Properties
begin

text \<open>
  What \<open>confirm\<close> does to the repository: it creates nothing but a candidate of a fresh scan, and a call that
  created its incident can be repeated at any later time, whatever the rules and the telemetry have become.
\<close>

section \<open>The write\<close>

lemma commit_create_stores:
  assumes "commit_create s c sc fp m t r = (e, r')"
  shows "(e = None \<longrightarrow> incidents r' = AList.update (incident_id c) c (incidents r)) \<and> (e \<noteq> None \<longrightarrow> incidents r' = incidents r)"
  using assms register_source_events_extends [of s "incident_id c" "source_event_ids c" t m r]
  by (auto simp: commit_create_def assoc_extends_def split: sum.splits prod.splits option.splits)

lemma create_or_correlate_stores:
  assumes "create_or_correlate s clock i m r = (res, r')" and "get k r' \<noteq> get k r"
  shows "\<exists>now. k = incident_id i \<and> get k r = None \<and> res = Inr (i\<lparr>created_at := now, updated_at := now\<rparr>) \<and>
    get k r' = Some (i\<lparr>created_at := now, updated_at := now\<rparr>)"
proof -
  have kept: "incidents r1 = incidents r" if "register_source_events s iid sids t m r = (e, r1)" for iid sids t e r1
    using register_source_events_extends [OF that] by (simp add: assoc_extends_def)
  have failed: "incidents r1 = incidents r" if "commit_create s c sc fp m t r = (Some e, r1)" for c sc fp t e r1
    using commit_create_stores [OF that] by simp
  have "\<exists>now c sc fp. validate_new_incident s i (meta_trace m) now = Inr c \<and>
      commit_create s c sc fp m now r = (None, r') \<and> incident_id c \<notin> set (map fst (incidents r)) \<and> res = Inr c"
    using assms kept failed unfolding create_or_correlate_def get_def
    by (auto split: sum.splits option.splits prod.splits if_splits) metis+
  then obtain now c sc fp where *: "validate_new_incident s i (meta_trace m) now = Inr c"
      "commit_create s c sc fp m now r = (None, r')" "incident_id c \<notin> set (map fst (incidents r))" "res = Inr c"
    by blast
  then have "k = incident_id c" "get k r' = Some c"
    using assms(2) commit_create_stores [OF *(2)] by (auto simp: get_def split: if_splits)
  moreover have "map_of (incidents r) (incident_id c) = None" using *(3) by (simp add: map_of_eq_None_iff)
  ultimately show ?thesis using *(4) validate_new_incident_Inr(1) [OF *(1)] by (auto simp: get_def)
qed

section \<open>The selected candidate\<close>

text \<open>What \<open>create_or_correlate\<close> is called with: a fresh detection whose three clocks are the end of its window.\<close>

definition selectable :: "services \<Rightarrow> string \<Rightarrow> incident \<Rightarrow> bool" where
  "selectable s cid i \<longleftrightarrow> incident_id i = cid \<and> status i = DETECTED \<and> revision i = 0 \<and>
     window_end i = Some (detected_at i) \<and> created_at i = detected_at i \<and> updated_at i = detected_at i \<and>
     incident_valid (sha256 s) i"

lemma rescan_Inr:
  assumes "rescan d e cid trace window ids = Inr (Some i)"
  shows "\<exists>ts envelope summary. scan_candidates d e trace None (map_option (\<lambda>(start, stop). Zoned_time start 0) window)
      (map_option (\<lambda>(start, stop). Zoned_time stop 0) window) (Id_list ids) = Inr ts \<and> (envelope, i, summary) \<in> set ts \<and>
    selectable (det_services d) cid i"
proof -
  obtain ts envelope summary where ts: "scan_candidates d e trace None (map_option (\<lambda>(start, stop). Zoned_time start 0) window)
      (map_option (\<lambda>(start, stop). Zoned_time stop 0) window) (Id_list ids) = Inr ts"
      "List.find (\<lambda>(envelope, i, summary). env_incident_id envelope = cid) ts = Some (envelope, i, summary)"
    using assms by (auto simp: rescan_def split: sum.splits)
  then have "env_incident_id envelope = cid" "(envelope, i, summary) \<in> set ts"
    by (auto simp: find_Some_iff in_set_conv_nth)
  with scan_candidates_Inr [OF ts(1) this(2)] ts(1) show ?thesis
    by (auto simp: selectable_def candidate_fields)
qed

lemma replayed_Inr:
  assumes "replayed_candidate s c = Inr i" and "incident_id c = cid"
  shows "selectable s cid i" "i = c\<lparr>created_at := detected_at c, updated_at := detected_at c\<rparr>"
  using assms by (auto simp: replayed_candidate_def selectable_def Let_def split: if_splits option.splits)

lemma replayed_committed:
  assumes "selectable s cid i"
  shows "replayed_candidate s (i\<lparr>created_at := now, updated_at := now\<rparr>) = Inr i"
proof -
  let ?i = "i\<lparr>created_at := detected_at i, updated_at := detected_at i\<rparr>"
  have same: "?i = i" using assms by (simp add: selectable_def)
  have "incident_valid (sha256 s) ?i" unfolding same using assms by (simp add: selectable_def)
  then have "replayed_candidate s (i\<lparr>created_at := now, updated_at := now\<rparr>) = Inr ?i"
    using assms by (simp add: replayed_candidate_def selectable_def Let_def)
  then show ?thesis unfolding same .
qed

definition recorded_key :: "repository \<Rightarrow> string \<Rightarrow> string \<Rightarrow> incident option" where
  "recorded_key r cid key = map_option rec_result (map_of (idempotency r) (''create_or_correlate'', cid, key))"

lemma operation_text: "py_lower (py_strip ''create_or_correlate'') = ''create_or_correlate''" by code_simp

lemma find_by_key_Inr: "find_by_idempotency_key cid key ''create_or_correlate'' r = Inr x \<Longrightarrow> x = recorded_key r cid key"
  by (auto simp: find_by_idempotency_key_def request_scope_def recorded_key_def operation_text split: option.splits)

lemma write_scope:
  "write_request s ''create_or_correlate'' i m = Inr (sc, fp) \<Longrightarrow> sc = (''create_or_correlate'', incident_id i, meta_key m)"
  by (auto simp: write_request_def request_scope_def operation_text split: option.splits)

lemma select_candidate_Inr:
  assumes "select_candidate d e cid m window ids r = Inr (Some i)"
  shows "selectable (det_services d) cid i"
    and "recorded_key r cid (meta_key m) = None \<Longrightarrow> rescan d e cid (meta_trace m) window ids = Inr (Some i)"
proof -
  obtain x where x: "find_by_idempotency_key cid (meta_key m) ''create_or_correlate'' r = Inr x"
    using assms by (auto simp: select_candidate_def split: sum.splits)
  note key = find_by_key_Inr [OF x]
  show "selectable (det_services d) cid i"
    using assms x rescan_Inr replayed_Inr(1)
    by (fastforce simp: select_candidate_def map_sum_Inr split: option.splits if_splits)
  show "rescan d e cid (meta_trace m) window ids = Inr (Some i)" if "recorded_key r cid (meta_key m) = None"
    using assms x that key by (simp add: select_candidate_def)
qed

lemma confirm_arguments_Inr:
  assumes "confirm_arguments q = Inr (cid, m, window, ids)"
  shows "cid = py_strip (cr_candidate q)" "meta_trace m = py_strip (cr_trace q)" "meta_key m = py_strip (cr_key q)"
    "validated_scan_scope (cr_window_start q) (cr_window_end q) (cr_resource_ids q) = Inr (window, ids)"
  using assms by (auto simp: confirm_arguments_def require_identifier_def Let_def split: sum.splits prod.splits option.splits)

lemma confirm_writes:
  assumes "confirm d e q r = (res, r')" and "get k r' \<notin> {get k r, get k (env_others e r)}"
    and "durable (det_services d) r (env_others e r)"
  shows "\<exists>cid m window ids i res'. confirm_arguments q = Inr (cid, m, window, ids) \<and>
    recorded_key r cid (meta_key m) = None \<and> select_candidate d e cid m window ids r = Inr (Some i) \<and>
    create_or_correlate (det_services d) (env_repository_clock e) i m (env_others e r) = (res', r') \<and>
    (\<forall>x. res = Inr x \<longrightarrow> res' = Inr x)"
proof (cases "confirm_arguments q")
  case (Inr args)
  obtain cid m window ids where args: "args = (cid, m, window, ids)" by (cases args)
  let ?s = "det_services d" and ?r = "env_others e r"
  obtain i res' where i: "select_candidate d e cid m window ids r = Inr (Some i)"
      "create_or_correlate ?s (env_repository_clock e) i m ?r = (res', r')" "\<forall>x. res = Inr x \<longrightarrow> res' = Inr x"
    using assms(1,2) unfolding confirm_def Inr args Let_def
    by (auto split: sum.splits option.splits prod.splits)
  have "recorded_key r cid (meta_key m) = None"
  proof (rule ccontr)
    assume "recorded_key r cid (meta_key m) \<noteq> None"
    then obtain entry where "map_of (idempotency ?r) (''create_or_correlate'', cid, meta_key m) = Some entry"
      using assms(3) by (force simp: recorded_key_def durable_def map_le_def dom_def)
    moreover have "incident_id i = cid" using select_candidate_Inr(1) [OF i(1)] by (simp add: selectable_def)
    ultimately have "r' = ?r"
      using i(2) write_scope unfolding create_or_correlate_def
      by (fastforce simp: replay_def split: sum.splits option.splits if_splits prod.splits)
    with assms(2) show False by blast
  qed
  with i Inr args show ?thesis by blast
qed (use assms in \<open>simp add: confirm_def\<close>)

section \<open>Properties\<close>

lemma run_durable: "reachable s r \<Longrightarrow> (repo_step s)\<^sup>*\<^sup>* r r' \<Longrightarrow> durable s r r'"
  using incident_store.run_keeps reachable_repo_inv by blast

text \<open>
  C21: A confirmation changes no stored incident and creates at most one, the one it was asked for: an
  incident that neither was there nor was written by other coroutines meanwhile is, but for the instants of
  its storage, a candidate of a scan that this call made over the checked scope, under the requested
  identifier, which the repository did not hold; and what the call returns is what it stored.
\<close>
theorem confirm_creates_only_candidates:
  assumes "confirm d e q r = (res, r')" and "get k r' \<notin> {get k r, get k (env_others e r)}"
    and "reachable (det_services d) r" and "(repo_step (det_services d))\<^sup>*\<^sup>* r (env_others e r)"
  shows "\<exists>window ids ts envelope i summary now.
    validated_scan_scope (cr_window_start q) (cr_window_end q) (cr_resource_ids q) = Inr (window, ids) \<and>
    scan_candidates d e (py_strip (cr_trace q)) None (map_option (\<lambda>(start, stop). Zoned_time start 0) window)
      (map_option (\<lambda>(start, stop). Zoned_time stop 0) window) (Id_list ids) = Inr ts \<and> (envelope, i, summary) \<in> set ts \<and>
    k = py_strip (cr_candidate q) \<and> incident_id i = k \<and> get k (env_others e r) = None \<and>
    get k r' = Some (i\<lparr>created_at := now, updated_at := now\<rparr>) \<and> (\<forall>x. res = Inr x \<longrightarrow> get k r' = Some x)"
proof -
  obtain cid m window ids i res' where *: "confirm_arguments q = Inr (cid, m, window, ids)"
      "recorded_key r cid (meta_key m) = None" "select_candidate d e cid m window ids r = Inr (Some i)"
      "create_or_correlate (det_services d) (env_repository_clock e) i m (env_others e r) = (res', r')"
      "\<forall>x. res = Inr x \<longrightarrow> res' = Inr x"
    using confirm_writes [OF assms(1,2) run_durable [OF assms(3,4)]] by blast
  note args = confirm_arguments_Inr [OF *(1)]
  have "get k r' \<noteq> get k (env_others e r)" using assms(2) by simp
  from create_or_correlate_stores [OF *(4) this] obtain now where stored: "k = incident_id i"
      "get k (env_others e r) = None" "res' = Inr (i\<lparr>created_at := now, updated_at := now\<rparr>)"
      "get k r' = Some (i\<lparr>created_at := now, updated_at := now\<rparr>)" by blast
  have cid: "incident_id i = cid" using select_candidate_Inr(1) [OF *(3)] by (simp add: selectable_def)
  from rescan_Inr [OF select_candidate_Inr(2) [OF *(3,2)]] stored *(5) args cid show ?thesis by auto
qed

lemma recorded_by_key:
  assumes "recorded (write_request s ''create_or_correlate'' i m) r x"
  shows "find_by_idempotency_key (incident_id i) (meta_key m) ''create_or_correlate'' r = Inr (Some x)"
proof -
  obtain sc fp entry where *: "write_request s ''create_or_correlate'' i m = Inr (sc, fp)"
      "map_of (idempotency r) sc = Some entry" "rec_result entry = x"
    using assms by (auto simp: recorded_def)
  then have "request_scope ''create_or_correlate'' (incident_id i) (meta_key m) = Inr sc"
    by (auto simp: write_request_def split: option.splits sum.splits)
  then show ?thesis using * by (simp add: find_by_idempotency_key_def)
qed

lemma confirm_Inr:
  assumes "confirm d e q r = (Inr x, r')"
  shows "\<exists>cid m window ids i. confirm_arguments q = Inr (cid, m, window, ids) \<and>
    selectable (det_services d) cid i \<and>
    create_or_correlate (det_services d) (env_repository_clock e) i m (env_others e r) = (Inr x, r') \<and>
    privacy_safe (det_dump_result d x) ''confirmed incident'' = None"
proof -
  obtain cid m window ids i where "confirm_arguments q = Inr (cid, m, window, ids)"
      "select_candidate d e cid m window ids r = Inr (Some i)"
      "create_or_correlate (det_services d) (env_repository_clock e) i m (env_others e r) = (Inr x, r')"
      "privacy_safe (det_dump_result d x) ''confirmed incident'' = None"
    using assms unfolding confirm_def Let_def
    by (auto split: sum.splits option.splits prod.splits)
  then show ?thesis using select_candidate_Inr(1) by blast
qed

text \<open>
  C20: A confirmation that created its incident can be repeated with the same arguments at any later time:
  it returns the incident it returned and writes nothing, whatever the rules, the telemetry, the clocks and the
  repository have become, even when no scan finds the candidate any more.
\<close>
theorem confirm_can_be_repeated:
  assumes "confirm d e q r = (Inr x, r')" and "get (py_strip (cr_candidate q)) (env_others e r) = None"
    and "get (py_strip (cr_candidate q)) r' \<noteq> None" and "reachable (det_services d) r'"
    and "(repo_step (det_services d))\<^sup>*\<^sup>* r' r''" and "(repo_step (det_services d))\<^sup>*\<^sup>* r'' (env_others e' r'')"
  shows "confirm d e' q r'' = (Inr x, env_others e' r'')"
proof -
  let ?s = "det_services d"
  obtain cid m window ids i where *: "confirm_arguments q = Inr (cid, m, window, ids)" "selectable ?s cid i"
      "create_or_correlate ?s (env_repository_clock e) i m (env_others e r) = (Inr x, r')"
      "privacy_safe (det_dump_result d x) ''confirmed incident'' = None"
    using confirm_Inr [OF assms(1)] by blast
  have cid: "cid = py_strip (cr_candidate q)" "incident_id i = cid"
    using confirm_arguments_Inr(1) [OF *(1)] *(2) by (simp_all add: selectable_def)
  have "get cid r' \<noteq> get cid (env_others e r)" using assms(2,3) cid(1) by auto
  from create_or_correlate_stores [OF *(3) this] obtain now where x: "x = i\<lparr>created_at := now, updated_at := now\<rparr>" by auto
  have later: "durable ?s r' r''" "durable ?s r' (env_others e' r'')"
    using run_durable [OF assms(4)] assms(5,6) rtranclp_trans by metis+
  have "recorded (write_request ?s ''create_or_correlate'' i m) r'' x"
    by (rule recorded_persists [OF create_or_correlate_records [OF *(3)] later(1)])
  from recorded_by_key [OF this] have "select_candidate d e' cid m window ids r'' = Inr (Some i)"
    using cid(2) replayed_committed [OF *(2), of now] by (simp add: select_candidate_def x)
  moreover have "create_or_correlate ?s (env_repository_clock e') i m (env_others e' r'') = (Inr x, env_others e' r'')"
    using correlate_op.retry [OF _ later(2), where q = "(i, m)"] *(3) by simp
  ultimately show ?thesis using *(1,4) by (simp add: confirm_def Let_def)
qed

text \<open>
  A second confirmation of a candidate whose incident has moved on, under another key, returns that incident, but
  it can never be repeated: the recorded result is not a fresh detection, and the retry is refused.
\<close>
theorem moved_confirmation_cannot_be_repeated:
  assumes "confirm d e q r = (Inr x, r')" and "incident_id x = py_strip (cr_candidate q)"
    and "status x \<noteq> DETECTED \<or> revision x \<noteq> 0"
    and "reachable (det_services d) r'" and "(repo_step (det_services d))\<^sup>*\<^sup>* r' r''"
  shows "confirm d e' q r'' =
    (Inl (Det_value ''candidate replay cannot reconstruct the original snapshot''), env_others e' r'')"
proof -
  let ?s = "det_services d"
  obtain cid m window ids i where *: "confirm_arguments q = Inr (cid, m, window, ids)" "selectable ?s cid i"
      "create_or_correlate ?s (env_repository_clock e) i m (env_others e r) = (Inr x, r')"
    using confirm_Inr [OF assms(1)] by blast
  have cid: "cid = py_strip (cr_candidate q)" "incident_id i = cid"
    using confirm_arguments_Inr(1) [OF *(1)] *(2) by (simp_all add: selectable_def)
  have "recorded (write_request ?s ''create_or_correlate'' i m) r'' x"
    by (rule recorded_persists [OF create_or_correlate_records [OF *(3)] run_durable [OF assms(4,5)]])
  from recorded_by_key [OF this] have "select_candidate d e' cid m window ids r'' =
      Inl (Det_value ''candidate replay cannot reconstruct the original snapshot'')"
    using cid assms(2,3) by (auto simp: select_candidate_def replayed_candidate_def)
  then show ?thesis using *(1) by (simp add: confirm_def Let_def)
qed

end
