(* ===== verification/Detector_Examples.thy ===== *)
theory Detector_Examples
  imports Detector_Properties Fixtures
begin

text \<open>One rule, three samples and the incident they lead to: runs to which the properties of rules and
  scans apply.\<close>

definition ex_rule :: rca_rule where
  "ex_rule = \<lparr>rule_id = ''lte.throughput'', rule_version = ''1.0.0'', rule_technology = ''LTE'', is_current = True,
     description_zh = ''low throughput'',
     detection = \<lparr>det_kpi_name = ''throughput'', det_comparator = LESS_THAN, det_threshold = 5, det_unit = None,
       max_gap_minutes = 10\<rparr>,
     analysis = \<lparr>analysis_evidence_types = [METRIC], analysis_when = \<lparr>group_operator = Group_ALL, group_predicates = [
       \<lparr>pred_fact = ''kpi.throughput'', pred_comparator = LESS_THAN, pred_value = Fact_int 5\<rparr>]\<rparr>,
       hypothesis_zh = ''overload'', root_cause_zh = ''overload''\<rparr>,
     rule_sev = \<lparr>severity_cases = [], severity_default = Sev_LOW\<rparr>\<rparr>"

definition ex_sample :: "string \<Rightarrow> int \<Rightarrow> rat \<Rightarrow> kpi_observation" where
  "ex_sample name minute value = \<lparr>observation_id = name, obs_kpi_name = ''throughput'', obs_observed_value = value,
     observed_at = minute * 60000000, obs_resources = [], obs_unit = None, obs_source_uri = ''file'',
     quality_flags = [], obs_dimensions = []\<rparr>"

definition ex_samples :: "kpi_observation list" where
  "ex_samples = [ex_sample ''c'' 30 2, ex_sample ''a'' 0 1, ex_sample ''b'' 10 3, ex_sample ''d'' 31 7]"

theorem episodes_are_maximal_runs_witness:
  "episodes [ex_sample ''c'' 30 2, ex_sample ''a'' 0 1, ex_sample ''b'' 10 3] 10 =
     [[ex_sample ''a'' 0 1, ex_sample ''b'' 10 3], [ex_sample ''c'' 30 2]]"
proof -
  let ?runs = "[[ex_sample ''a'' 0 1, ex_sample ''b'' 10 3], [ex_sample ''c'' 30 2]]"
  have "maximal_runs 10 ?runs" by (simp add: maximal_runs_def close_to_def ex_sample_def)
  moreover have "concat ?runs = ordered_observations [ex_sample ''c'' 30 2, ex_sample ''a'' 0 1, ex_sample ''b'' 10 3]"
    by (simp add: ordered_observations_def ex_sample_def)
  ultimately show ?thesis
    using episodes_are_maximal_runs [of 10 "[ex_sample ''c'' 30 2, ex_sample ''a'' 0 1, ex_sample ''b'' 10 3]" ?runs] by simp
qed

theorem rule_set_is_exact_witness:
  "load_all_versions [ex_rule] = Inr [ex_rule] \<and>
   get_version [ex_rule] ''lte.throughput'' ''1.0.0'' = Inr (Some ex_rule)"
proof -
  have loaded: "load_all_versions [ex_rule] = Inr [ex_rule]" by (simp add: load_all_versions_def)
  have "rule_identity ex_rule = (''lte.throughput'', ''1.0.0'')" by (simp add: rule_identity_def ex_rule_def)
  then show ?thesis using rule_set_is_exact [OF loaded] loaded by simp
qed

definition ex_hash :: "string \<Rightarrow> string" where "ex_hash text = replicate 64 (CHR ''a'')"

definition ex_dump :: "rca_rule \<Rightarrow> json" where "ex_dump r = JStr (rule_id r)"

definition ex_low :: kpi_violation where
  "ex_low = \<lparr>violation_id = None, kpi_name = ''throughput'', observed_value = 2, threshold_value = 5,
     comparator = LESS_THAN, kpi_unit = None, kpi_window_start = None, kpi_window_end = None,
     kpi_rule_id = Some ''lte.throughput'', kpi_rule_version = Some ''1.0.0'', kpi_resource_ids = [], kpi_dimensions = []\<rparr>"

definition ex_found :: incident where
  "ex_found = ex_detected\<lparr>technology := LTE, violated_kpis := [ex_low], rule_versions := [(''lte.throughput'', ''1.0.0'')],
     model_metadata := [(''detector_algorithm'', JStr ''deterministic-threshold-episodes-v3''),
       (''rule_content_hashes'', JObj [(''lte.throughput'', JStr (replicate 64 (CHR ''A'')))])]\<rparr>"

lemma ex_found_resolved:
  "resolve_rules_for_incident ex_hash ex_dump ex_found [ex_rule] =
     Inr \<lparr>resolution_status = Rule_EXACT, resolution_rules = [ex_rule], resolution_issues = []\<rparr>"
proof -
  let ?index = "([((''lte.throughput'', ''1.0.0''), ex_rule)], [])"
  have rule: "rule_identity ex_rule = (''lte.throughput'', ''1.0.0'')" "rule_technology ex_rule = ''LTE''"
      "rule_id ex_rule = ''lte.throughput''" "rule_version ex_rule = ''1.0.0''"
    by (simp_all add: rule_identity_def ex_rule_def)
  have index: "index_rules ''LTE'' [ex_rule] = ?index" by (simp add: index_rules_def index_rule_def rule)
  have found: "violated_kpis ex_found = [ex_low]" "technology ex_found = LTE"
      "rule_versions ex_found = [(''lte.throughput'', ''1.0.0'')]"
    by (simp_all add: ex_found_def)
  have meta: "metadata_entry ''rule_content_hashes'' ex_found = JObj [(''lte.throughput'', JStr (replicate 64 (CHR ''A'')))]"
      "metadata_entry ''rule_content_sha256'' ex_found = JNull"
    by (simp_all add: metadata_entry_def ex_found_def)
  have lower: "py_lower (replicate 64 (CHR ''A'')) = replicate 64 (CHR ''a'')"
  proof -
    have "py_lower_char (CHR ''A'') = CHR ''a''" by code_simp
    then show ?thesis by (simp add: py_lower_def)
  qed
  have digest: "digest_text_ok (replicate 64 (CHR ''a''))" by (simp add: digest_text_ok_def list_all_iff)
  have "content_hashes ex_found = Inr [(''lte.throughput'', JStr (replicate 64 (CHR ''A'')))]"
    by (simp add: content_hashes_def meta object_entries_def)
  then have content: "content_issue ex_hash ex_dump ex_found ex_rule = None"
    by (simp add: content_issue_def meta rule lower digest rule_content_sha256_def ex_hash_def)
  have matches: "detection_matches ex_rule ex_low"
    by (simp add: detection_matches_def ex_rule_def ex_low_def past_threshold_def compare_values_def fact_number_def
        float_overflows_def ordered_by_def)
  have "explains ex_hash ex_dump ex_found ?index ex_low ex_rule"
    using matches content by (simp add: explains_def found rule BUBBLERAN_REPLAY_RULE_ID_def)
  moreover have "index_ok [ex_rule] ?index" by (rule index_okI) (auto simp: rule same_rule_equiv(1) split: if_splits)
  ultimately have resolved: "resolve_violation ex_hash ex_dump ex_found ?index ex_low = Inr ex_rule"
    by (simp add: resolve_violation_Inr)
  have "violation_issues ex_hash ex_dump ex_found ?index = []" "resolved_rules ex_hash ex_dump ex_found ?index = [ex_rule]"
    by (simp_all add: violation_issues_def resolved_rules_def found resolved)
  moreover have "unreferenced_rules ex_found = []" by (simp add: unreferenced_rules_empty found ex_low_def)
  moreover have "unreferenced_hashes ex_found = []"
    by (simp add: unreferenced_hashes_empty hashed_ids_def meta object_entries_def claimed_rule_ids_def found ex_low_def)
  ultimately show ?thesis
    by (simp add: resolve_rules_for_incident_def Let_def found index order_issues_def status_of_def)
qed

theorem resolved_rule_is_bound_witness:
  "resolve_rules_for_incident ex_hash ex_dump ex_found [ex_rule] =
     Inr \<lparr>resolution_status = Rule_EXACT, resolution_rules = [ex_rule], resolution_issues = []\<rparr> \<and>
   content_vouched ex_hash ex_dump ex_found ex_rule"
  using resolved_rule_is_bound [OF ex_found_resolved, of ex_rule] ex_found_resolved by simp

theorem exact_resolution_iff_witness:
  "resolve_rules_for_incident ex_hash ex_dump ex_found [ex_rule] =
     Inr \<lparr>resolution_status = Rule_EXACT, resolution_rules = [ex_rule], resolution_issues = []\<rparr> \<and>
   hashed_ids ex_found \<subseteq> set (claimed_rule_ids ex_found)"
  using exact_resolution_iff [OF ex_found_resolved] ex_found_resolved by simp

definition ex_query :: "string list \<Rightarrow> (instant \<times> instant) option \<Rightarrow> string list \<Rightarrow> kpi_observation list" where
  "ex_query names window resources = ex_samples"

theorem scan_finds_every_violation_witness:
  "\<exists>specs. scan ex_query [ex_rule] ''trace'' None ''workflow'' None None (Id_list []) = Inr specs \<and>
     specs_cover ex_samples [ex_rule] specs \<and> specs \<noteq> []"
proof -
  let ?specs = "[(ex_rule, [ex_sample ''a'' 0 1, ex_sample ''b'' 10 3]), (ex_rule, [ex_sample ''c'' 30 2])]"
  have trace: "require_identifier ''trace_id'' ''trace'' = Inr ''trace''" by code_simp
  have scope: "validated_scan_scope None None (Id_list []) = Inr (None, [])" by code_simp
  have current: "load_all [ex_rule] = Inr [ex_rule]" by code_simp
  have lte: "rule_technology ex_rule = technology_value LTE" "max_gap_minutes (detection ex_rule) = 10"
    by (simp_all add: ex_rule_def)
  have "matched_observations ex_rule ex_samples = Inr [ex_sample ''c'' 30 2, ex_sample ''a'' 0 1, ex_sample ''b'' 10 3]"
    by code_simp
  moreover have "rule_episodes ex_rule [ex_sample ''c'' 30 2, ex_sample ''a'' 0 1, ex_sample ''b'' 10 3] =
      [[ex_sample ''a'' 0 1, ex_sample ''b'' 10 3], [ex_sample ''c'' 30 2]]"
    by code_simp
  ultimately have "scan_rules ex_samples [ex_rule] [] = Inr ?specs"
    by (simp add: MAX_EPISODE_SAMPLES_def MAX_SCAN_CANDIDATES_def)
  then have result: "scan ex_query [ex_rule] ''trace'' None ''workflow'' None None (Id_list []) = Inr ?specs"
    using trace scope current lte
    by (simp add: scan_def ex_query_def Let_def MAX_CURRENT_RULES_def MAX_QUERY_OBSERVATIONS_def ex_samples_def)
  have "gaps_ok [ex_rule]" by (simp add: gaps_ok_def lte)
  then have cover: "specs_cover ex_samples [ex_rule] ?specs"
    using scan_finds_every_violation [OF result] scope current lte by (simp add: ex_query_def)
  show ?thesis by (intro exI [of _ ?specs] conjI, rule result, rule cover) simp
qed

end
