(* ===== verification/Confirm_Examples.thy ===== *)
theory Confirm_Examples
  imports Confirm_Properties Detector_Examples Payloads
begin

text \<open>A candidate of two samples, its confirmation and its retry; and three samples on a threshold that their
  mean leaves.\<close>

definition ex_det :: detector_services where
  "ex_det = \<lparr>det_services = ex_services, det_dump_rule = ex_dump, det_dump_evidence = (\<lambda>_. JNull),
     det_dump_trigger = (\<lambda>_. JNull), det_dump_result = (\<lambda>_. JNull), det_title = id, det_summary = (\<lambda>k _ _ _. k)\<rparr>"

lemma ex_det_simps [simp]:
  "det_services ex_det = ex_services" "det_dump_rule ex_det = ex_dump" "det_dump_trigger ex_det t = JNull"
  "det_dump_result ex_det x = JNull" "det_title ex_det k = k" "det_summary ex_det k from until n = k"
  by (simp_all add: ex_det_def)

definition ex_pair :: "kpi_observation list" where
  "ex_pair = [ex_sample ''a'' 0 1, ex_sample ''b'' 10 3]"

text \<open>Telemetry that holds these samples, and telemetry that has lost everything.\<close>

definition ex_detector_env :: "rca_rule list \<Rightarrow> kpi_observation list \<Rightarrow> detector_env" where
  "ex_detector_env rules samples = \<lparr>env_rules = rules, env_query = (\<lambda>_ _ _. samples), env_evidence = (\<lambda>_. []),
     env_workflow = ''workflow'', env_ids = (\<lambda>_. ''uuid''), env_clock = (\<lambda>_. Aware 0), env_repository_clock = Aware 95,
     env_others = id\<rparr>"

lemma ex_detector_env_simps [simp]:
  "env_rules (ex_detector_env rules samples) = rules" "env_query (ex_detector_env rules samples) names window ids = samples"
  "env_evidence (ex_detector_env rules samples) i = []" "env_workflow (ex_detector_env rules samples) = ''workflow''"
  "env_ids (ex_detector_env rules samples) k = ''uuid''" "env_clock (ex_detector_env rules samples) k = Aware 0"
  "env_repository_clock (ex_detector_env rules samples) = Aware 95" "env_others (ex_detector_env rules samples) r = r"
  by (simp_all add: ex_detector_env_def)

lemma ex_digests [simp]:
  "stable_digest ex_services parts = replicate 64 (CHR ''a'')"
  "rule_content_sha256 digest dump r = replicate 64 (CHR ''a'')"
  by (simp_all add: stable_digest_def rule_content_sha256_def digest_def)

definition ex_candidate_id :: string where "ex_candidate_id = ''incident-'' @ replicate 64 (CHR ''a'')"

definition ex_found_candidate :: incident where
  "ex_found_candidate = (preview_incident ex_det ex_rule ex_pair ''trace1'')\<lparr>incident_id := ex_candidate_id\<rparr>"

lemma ex_candidate_valid: "incident_valid digest ex_found_candidate"
  "incident_valid digest (preview_incident ex_det ex_rule ex_pair ''trace1'')"
  "incident_valid digest (ex_found_candidate\<lparr>created_at := 95, updated_at := 95\<rparr>)"
  by (simp_all add: ex_found_candidate_def ex_candidate_id_def preview_incident_def episode_violation_def correlation_of_def
      ex_validate_defs validate_kpi_violation_def kpi_violation_fields_ok_def deduplicate_resources_def ex_pair_def ex_sample_def ex_rule_def)

lemma ex_trigger:
  "trigger_for_episode ex_det (ex_detector_env rules samples) 0 ''trace1'' ''workflow'' (ex_rule, ex_pair) =
     Inr (\<lparr>message_id = ''uuid'', workflow_id = ''workflow'', env_incident_id = ex_candidate_id, env_trace_id = ''trace1'',
       env_idempotency_key = ''uuid'', sent_at = 0\<rparr>, ex_found_candidate, ''throughput'')"
proof -
  let ?p = "preview_incident ex_det ex_rule ex_pair ''trace1''"
  have id: "candidate_id_of ex_det ex_rule ex_pair [] = ex_candidate_id"
    by (simp add: candidate_id_of_def ex_candidate_id_def)
  have p: "?p\<lparr>incident_id := ex_candidate_id, evidence_refs := []\<rparr> = ex_found_candidate"
    by (simp add: ex_found_candidate_def preview_incident_def)
  have v: "validate_kpi_violation (episode_violation ex_det ex_rule ex_pair) = None"
    by (simp add: episode_violation_def ex_validate_defs validate_kpi_violation_def kpi_violation_fields_ok_def ex_rule_def ex_pair_def ex_sample_def deduplicate_resources_def)
  have name: "det_kpi_name (detection ex_rule) = ''throughput''" by (simp add: ex_rule_def)
  have trace: "incident_id ex_found_candidate = ex_candidate_id" "trace_id ex_found_candidate = ''trace1''"
    by (simp_all add: ex_found_candidate_def preview_incident_def)
  have ids: "identifier_ok ex_candidate_id" "identifier_ok ''trace1''" "identifier_ok ''uuid''" "identifier_ok ''workflow''"
    by (simp_all add: identifier_ok_def ex_candidate_id_def)
  show ?thesis
    using ex_candidate_valid
    by (simp add: trigger_for_episode_def Let_def order_evidence_def id p v name detector_now_def
        validate_incident_trigger_def field_check_def fail_if_def envelope_ok_def short_text_ok_def ids trace)
qed

lemma ex_rules_loaded: "load_all [ex_rule] = Inr [ex_rule]" by code_simp

lemma ex_pair_scanned:
  "scan (\<lambda>_ _ _. ex_pair) [ex_rule] ''trace1'' None ''workflow'' None None (Id_list []) = Inr [(ex_rule, ex_pair)]"
proof -
  have trace: "require_identifier ''trace_id'' ''trace1'' = Inr ''trace1''" by code_simp
  have scope: "validated_scan_scope None None (Id_list []) = Inr (None, [])" by code_simp
  have "matched_observations ex_rule ex_pair = Inr ex_pair" "rule_episodes ex_rule ex_pair = [ex_pair]" by code_simp+
  then have "scan_rules ex_pair [ex_rule] [] = Inr [(ex_rule, ex_pair)]"
    by (simp add: MAX_EPISODE_SAMPLES_def MAX_SCAN_CANDIDATES_def ex_pair_def)
  moreover have "rule_technology ex_rule = technology_value LTE" by (simp add: ex_rule_def)
  ultimately show ?thesis
    using trace scope ex_rules_loaded
    by (simp add: scan_def Let_def MAX_CURRENT_RULES_def MAX_QUERY_OBSERVATIONS_def ex_pair_def)
qed

lemma ex_candidates:
  "\<exists>envelope. scan_candidates ex_det (ex_detector_env [ex_rule] ex_pair) ''trace1'' None None None (Id_list []) =
     Inr [(envelope, ex_found_candidate, ''throughput'')] \<and> env_incident_id envelope = ex_candidate_id"
proof -
  have query: "env_query (ex_detector_env [ex_rule] ex_pair) = (\<lambda>_ _ _. ex_pair)" by (simp add: ex_detector_env_def)
  have "py_strip ''trace1'' = ''trace1''" by code_simp
  moreover have "privacy_safe (JList [JNull]) ''detector result'' = None" by code_simp
  ultimately show ?thesis
    by (simp add: scan_candidates_def query ex_pair_scanned ex_trigger order_triggers_def)
qed


section \<open>A confirmation\<close>

definition ex_request :: confirm_request where
  "ex_request = \<lparr>cr_candidate = ex_candidate_id, cr_trace = ''trace1'', cr_key = ''k1'', cr_actor = ''detector'',
     cr_reason = ''scan'', cr_window_start = None, cr_window_end = None, cr_resource_ids = Id_list []\<rparr>"

definition ex_stored :: incident where
  "ex_stored = ex_found_candidate\<lparr>created_at := 95, updated_at := 95\<rparr>"

lemma require_plain:
  assumes "py_strip s = s" and "s \<noteq> []" and "length s \<le> 256" and "no_label s"
  shows "require_identifier name s = Inr s" "require_bounded_text name s 4096 = Inr s"
  using assms no_label_clean [OF assms(4)]
  by (simp_all add: require_identifier_def require_bounded_text_def privacy_safe_def assert_model_safe_def fail_if_def)

lemma ex_arguments: "confirm_arguments ex_request = Inr (ex_candidate_id, ex_meta ''k1'', None, [])"
proof -
  have strip: "py_strip ex_candidate_id = ex_candidate_id" "py_strip ''trace1'' = ''trace1''" "py_strip ''k1'' = ''k1''"
      "py_strip ''detector'' = ''detector''" "py_strip ''scan'' = ''scan''"
    by code_simp+
  have label: "no_label ex_candidate_id" "no_label ''trace1''" "no_label ''k1''" "no_label ''detector''" "no_label ''scan''"
    by code_simp+
  have "length ex_candidate_id = 73" "ex_candidate_id \<noteq> []" by (simp_all add: ex_candidate_id_def)
  moreover have "validated_scan_scope None None (Id_list []) = Inr (None, [])" by code_simp
  ultimately show ?thesis
    by (simp add: confirm_arguments_def ex_request_def ex_meta_def require_plain strip label)
qed

lemma ex_candidate_fields:
  "incident_id ex_found_candidate = ex_candidate_id" "revision ex_found_candidate = 0" "status ex_found_candidate = DETECTED"
  "trace_id ex_found_candidate = ''trace1''" "source_event_ids ex_found_candidate = [''a'', ''b'']"
  "detected_at ex_found_candidate = 600000000" "window_end ex_found_candidate = Some 600000000"
  by (simp_all add: ex_found_candidate_def preview_incident_def ex_pair_def ex_sample_def)

lemma ex_selected:
  "select_candidate ex_det (ex_detector_env [ex_rule] ex_pair) ex_candidate_id (ex_meta ''k1'') None [] empty_repository =
     Inr (Some ex_found_candidate)"
proof -
  have "request_scope ''create_or_correlate'' ex_candidate_id ''k1'' \<noteq> Inl e" for e by code_simp
  then have "find_by_idempotency_key ex_candidate_id ''k1'' ''create_or_correlate'' empty_repository = Inr None"
    by (auto simp: find_by_idempotency_key_def empty_repository_def split: sum.splits)
  then show ?thesis using ex_candidates by (auto simp: select_candidate_def rescan_def)
qed

lemma ex_confirmed_write:
  "\<exists>r. create_or_correlate ex_services (Aware 95) ex_found_candidate (ex_meta ''k1'') empty_repository = (Inr ex_stored, r) \<and>
     get ex_candidate_id r = Some ex_stored"
proof -
  have scope: "request_scope ''create_or_correlate'' ex_candidate_id ''k1'' = Inr (''create_or_correlate'', ex_candidate_id, ''k1'')"
    by code_simp
  have meta: "require_write_metadata (ex_meta ''k1'') = None" by (rule ex_meta_ok [where c = "CHR ''1''", simplified])
  obtain fp where request: "write_request ex_services ''create_or_correlate'' ex_found_candidate (ex_meta ''k1'') =
      Inr ((''create_or_correlate'', ex_candidate_id, ''k1''), fp)"
    by (simp add: write_request_def meta scope ex_candidate_fields del: json_text.simps)
  note stored = ex_candidate_fields [folded ex_stored_def]
  have fields: "incident_id ex_stored = ex_candidate_id" "source_event_ids ex_stored = [''a'', ''b'']"
    by (simp_all add: ex_stored_def ex_candidate_fields)
  have new: "validate_new_incident ex_services ex_found_candidate ''trace1'' 95 = Inr ex_stored"
    using ex_candidate_valid(3) by (simp add: validate_new_incident_def ex_candidate_fields Let_def ex_stored_def)
  have "\<exists>event. new_event ex_services ex_stored None (ex_meta ''k1'') fp 95 = Inr event"
    by (simp add: new_event_def new_audit_event_def Let_def fields ex_strip identifier_ok_def non_empty_str_ok_def
        digest_def ex_candidate_id_def ex_stored_def ex_candidate_fields)
  then obtain event where event: "new_event ex_services ex_stored None (ex_meta ''k1'') fp 95 = Inr event" ..
  have association: "\<exists>a. new_association ex_candidate_id [c] 95 ''detector'' ''scan'' ''k1'' ''trace1'' = Inr a"
    if "c \<in> {CHR ''a'', CHR ''b''}" for c
    using that by (auto simp: new_association_def ex_strip identifier_ok_def non_empty_str_ok_def ex_candidate_id_def)
  have "\<exists>r. commit_create ex_services ex_stored (''create_or_correlate'', ex_candidate_id, ''k1'') fp (ex_meta ''k1'') 95
      empty_repository = (None, r) \<and> get ex_candidate_id r = Some ex_stored"
    using association [of "CHR ''a''"] association [of "CHR ''b''"]
    by (auto simp: commit_create_def event fields register_source_events_def associated_source_ids_def
        empty_repository_def MAX_INCIDENT_SOURCE_EVENTS_def ownership_error_def source_event_owner_def store_incident_def
        get_def)
  then obtain r where r: "commit_create ex_services ex_stored (''create_or_correlate'', ex_candidate_id, ''k1'') fp
      (ex_meta ''k1'') 95 empty_repository = (None, r)" "get ex_candidate_id r = Some ex_stored" by blast
  have "create_or_correlate ex_services (Aware 95) ex_found_candidate (ex_meta ''k1'') empty_repository = (Inr ex_stored, r)"
    using r(1) new by (simp add: create_or_correlate_def request replay_def repository_now_def find_active_locked_def
        dict_of_def empty_repository_def)
  with r(2) show ?thesis by blast
qed

lemma ex_candidate_confirmed:
  "\<exists>r. confirm ex_det (ex_detector_env [ex_rule] ex_pair) ex_request empty_repository = (Inr ex_stored, r) \<and>
     get ex_candidate_id r = Some ex_stored \<and> reachable ex_services r"
proof -
  obtain r where r: "create_or_correlate ex_services (Aware 95) ex_found_candidate (ex_meta ''k1'') empty_repository = (Inr ex_stored, r)"
      "get ex_candidate_id r = Some ex_stored"
    using ex_confirmed_write by blast
  have "privacy_safe JNull ''confirmed incident'' = None" by code_simp
  then have "confirm ex_det (ex_detector_env [ex_rule] ex_pair) ex_request empty_repository = (Inr ex_stored, r)"
    by (simp add: confirm_def Let_def ex_arguments ex_selected r(1))
  moreover have "reachable ex_services r"
    unfolding reachable_def using repo_step.step_create_or_correlate [OF r(1)] by blast
  ultimately show ?thesis using r(2) by blast
qed

lemma ex_candidate_id_strip: "py_strip (cr_candidate ex_request) = ex_candidate_id" by code_simp

theorem confirm_creates_only_candidates_witness:
  "\<exists>r now ts envelope i summary. get ex_candidate_id r = Some (i\<lparr>created_at := now, updated_at := now\<rparr>) \<and>
     scan_candidates ex_det (ex_detector_env [ex_rule] ex_pair) ''trace1'' None None None (Id_list []) = Inr ts \<and>
     (envelope, i, summary) \<in> set ts"
proof -
  obtain r where r: "confirm ex_det (ex_detector_env [ex_rule] ex_pair) ex_request empty_repository = (Inr ex_stored, r)"
      "get ex_candidate_id r = Some ex_stored"
    using ex_candidate_confirmed by blast
  have scope: "validated_scan_scope None None (Id_list []) = Inr (None, [])" by code_simp
  have request: "cr_window_start ex_request = None" "cr_window_end ex_request = None" "cr_resource_ids ex_request = Id_list []"
      "py_strip (cr_trace ex_request) = ''trace1''"
    by (simp_all add: ex_request_def ex_strip)
  have "reachable (det_services ex_det) empty_repository" by (simp add: reachable_def)
  moreover have "get ex_candidate_id r \<notin> {get ex_candidate_id empty_repository,
      get ex_candidate_id (env_others (ex_detector_env [ex_rule] ex_pair) empty_repository)}"
    using r(2) by (simp add: get_def empty_repository_def)
  ultimately show ?thesis
    using confirm_creates_only_candidates [OF r(1), of ex_candidate_id] scope by (simp add: request) metis
qed

theorem confirm_can_be_repeated_witness:
  "\<exists>r. confirm ex_det (ex_detector_env [ex_rule] ex_pair) ex_request empty_repository = (Inr ex_stored, r) \<and>
     confirm ex_det (ex_detector_env [] []) ex_request r = (Inr ex_stored, r)"
proof -
  obtain r where r: "confirm ex_det (ex_detector_env [ex_rule] ex_pair) ex_request empty_repository = (Inr ex_stored, r)"
      "get ex_candidate_id r = Some ex_stored" "reachable ex_services r"
    using ex_candidate_confirmed by blast
  then show ?thesis
    using confirm_can_be_repeated [OF r(1), of r "ex_detector_env [] []"] ex_candidate_id_strip
    by (simp add: get_def empty_repository_def)
qed

section \<open>A mean beyond its samples\<close>

text \<open>
  Three samples of 0.1, each of which a rule with the threshold 0.1 and the comparator LTE finds: their mean is the
  next float above, so the rule that found the candidate does not explain it.
\<close>

definition ex_tenth :: rat where "ex_tenth = 3602879701896397 / 36028797018963968"

theorem mean_leaves_threshold:
  "ex_tenth = fl (1 / 10)"
  "\<not> beyond LESS_THAN_OR_EQUAL ex_tenth (mean_value (replicate 3 (ex_sample ''a'' 0 ex_tenth)))"
  "beyond LESS_THAN_OR_EQUAL ex_tenth (obs_observed_value (ex_sample ''a'' 0 ex_tenth))"
proof -
  have "ex_tenth < mean_value (replicate 3 (ex_sample ''a'' 0 ex_tenth))" by code_simp
  then show "\<not> beyond LESS_THAN_OR_EQUAL ex_tenth (mean_value (replicate 3 (ex_sample ''a'' 0 ex_tenth)))"
    by (simp add: beyond_def)
  show "ex_tenth = fl (1 / 10)" by code_simp
  show "beyond LESS_THAN_OR_EQUAL ex_tenth (obs_observed_value (ex_sample ''a'' 0 ex_tenth))"
    by (simp add: beyond_def ex_sample_def)
qed

end
