(* ===== verification/Spec2Isabelle.thy ===== *)
theory Spec2Isabelle
  imports Contracts Repository_Properties Repository_Refinement Rca_Evaluation_Properties Governance_Examples Episode_Examples A2a_Ownership Supervisor_Examples Confirm_Examples
begin

text \<open>
  A verification development of the NetworkAgent platform: agents that detect, diagnose and, after a
  human approval, remediate incidents of a mobile network.

  The program.  \<open>packages/telco-domain\<close> holds what every profile shares: the incident and its parts,
  the lifecycle state machine with its guards, the privacy guards of everything that reaches a model or
  a log, the messages agents exchange, and the repository port with its in-memory implementation.
  \<open>packages/telco-local\<close> adds the local governance, which asks for an approval, executes the fixed
  simulation of an approved action and verifies it, writing through the repository; its detector scans the
  LTE telemetry with versioned rules, and the rules an incident names can be resolved again, exactly.
  \<open>packages/telco-lab\<close> tests detectors and root-cause analysis on local data sets: an answer-blind
  ranking that is sealed by a digest, its evaluation against private answers, and the evaluation of
  predicted episodes.  \<open>networkagents/supervisor\<close> is the agent a user talks to; it exchanges canonical
  payloads with the assurance agent over A2A streams and lets a user confirm only what its server holds.

  Theories, in the order of the imports, and the files under \<open>src/\<close> they model.

  \<^item> \<open>Prelude\<close>: Python's strings, lists, dictionaries and the sequencing of checks that raise
    (\<open>first_error\<close>, \<open>fail_if\<close>).  \<open>Json\<close>: JSON values, their canonical text, the depth loop.  \<open>Binary64\<close>:
    Python floats as rationals with one rounding per operation; \<open>Float_Sums\<close>: their error bounds.
    \<open>Json_Values\<close>: instants and floats in JSON.
    \<open>Payloads\<close>: criteria for the size and privacy checks of the payloads the components build.
  \<^item> \<open>Privacy\<close> (\<open>telco_domain/privacy.py\<close>): detection, rejection and redaction of subscriber
    identifiers; the regular expression is a backtracking matcher.
  \<^item> \<open>Models\<close> (\<open>telco_domain/models.py\<close>): a record per model, a datatype per enum, and every
    validator as a function that returns the first error.
  \<^item> \<open>State_Machine\<close> (\<open>state_machine.py\<close>): the transition graph, the append-only and remediation guards,
    \<open>transition_incident\<close>; \<open>incident_step\<close> is one successful transition.  \<open>Fixtures\<close> is a concrete
    incident driven from detection to resolution; \<open>Lifecycle\<close> shows what every run satisfies.
  \<^item> \<open>Contracts\<close> (\<open>contracts.py\<close>): budgets, message validators, encoding and parsing of data parts,
    approval references.
  \<^item> \<open>Repository\<close> (\<open>memory.py\<close>, \<open>ports.py\<close>): the repository as a record of its dictionaries; every
    public operation returns its result or error and the state it leaves, partial writes included.
    \<open>Repository_Invariant\<close>: the step relation over all operations, the effects they have and the
    invariant; \<open>Repository_Properties\<close>: consistency, durability, idempotency, optimistic concurrency;
    \<open>Repository_Refinement\<close>: the repository implements an abstract board of tickets.
  \<^item> \<open>Governance\<close> (\<open>telco_local/governance.py\<close>): policy, gateways and engine.  At every \<open>await\<close> other
    coroutines may write to the repository, by a parameter that does any number of repository steps.
    \<open>Governance_Properties\<close>: decisions, execution, expiry, resumption; \<open>Governance_Examples\<close>: witnesses.
  \<^item> \<open>Lte_Identifiers\<close>, \<open>Rules\<close>, \<open>Detector_Scan\<close> (\<open>telco_local/lte_identifiers.py\<close>, \<open>rules.py\<close>,
    \<open>detector.py\<close>): the LTE selectors and that below character 256 they are the normal forms the Supervisor accepts; the checks
    of the rule directory and the resolution of an incident's rules; the scan up to its candidates.
    \<open>Rules_Properties\<close>: what a resolved rule is bound to and when a resolution is exact;
    \<open>Detector_Properties\<close>: episodes are the maximal runs, and a scan misses no violation;
    \<open>Detector_Examples\<close>: concrete rules, samples and a scan.
  \<^item> \<open>Detector_Candidates\<close> (\<open>detector.py\<close> again): the incident trigger of an episode, the whole of
    \<open>scan\<close>, and \<open>confirm\<close>, which writes a candidate into the repository while other coroutines write, too.
    \<open>Candidate_Properties\<close>: how the rules of a candidate resolve; \<open>Confirm_Properties\<close>: what a confirmation
    creates and that it can be repeated; \<open>Confirm_Examples\<close>: a candidate, its confirmation and its retry.
  \<^item> \<open>Rca_Models\<close>, \<open>Rca_Ranking\<close>, \<open>Rca_Evaluation\<close> (\<open>telco_lab/rcaeval_models.py\<close>,
    \<open>rcaeval_ranking.py\<close>, \<open>rcaeval_evaluation.py\<close>): contracts, ranking and scoring behind their error
    boundaries; the \<open>_Properties\<close> theories show exactness, totality and the role of the seal.
  \<^item> \<open>Lab_Schema\<close>, \<open>Episode_Evaluation\<close> (\<open>telco_lab/schema.py\<close>, \<open>evaluation.py\<close>): data set contracts and
    the evaluation of episodes.  \<open>Episode_Matching\<close>, \<open>Episode_Durations\<close>, \<open>Episode_Properties\<close> and
    \<open>Episode_Reports\<close> show that the sweep and the greedy selection give the stable matching, that
    durations are exact, that reports are valid; \<open>Episode_Examples\<close> are concrete runs.
  \<^item> \<open>A2a_Canonical\<close>, \<open>A2a_Parts\<close>, \<open>A2a_Stream\<close> (\<open>supervisor/src/agent/a2a_parts.py\<close>): canonical
    payloads, part decoding and the requests the Supervisor builds, the stream state machine and the
    ownership of UI threads.  \<open>A2a_Client\<close> (\<open>remote_agent_connection.py\<close>): \<open>send_streaming_task\<close> over the
    events of a stream.  \<open>A2a_Payloads\<close>: accepted payloads pass the guards of telco-domain and are a
    normal form; \<open>A2a_Properties\<close>: which streams have an outcome; \<open>A2a_Ownership\<close>: thread ownership
    refines a partial map; \<open>A2a_Outcomes\<close>: what an outcome of the client carries.
  \<^item> \<open>Supervisor_Session\<close> (\<open>supervisor/src/agent/host_agent.py\<close>): sockets, the fields of a session, the
    approval tool and \<open>send_task\<close>.  \<open>Supervisor_Properties\<close>: the step relation \<open>host_step\<close> over single
    writes, which covers every interleaving of the handlers, and what may be sent to the assurance agent;
    \<open>Supervisor_Runs\<close>: the handlers are runs of these steps, and what a failed task leaves behind;
    \<open>Supervisor_Examples\<close>: a conversation with a confirmed candidate and a scan that fails.

  Conventions.  A raised exception is a value: \<open>Inl\<close> of an error datatype, or \<open>Some\<close> error for a check
  that returns nothing; an operation that changes state returns the state it leaves when it raises, too.
  Dictionaries are association lists in insertion order, datetimes are UTC instants in microseconds,
  Python integers are \<open>int\<close>, floats are rationals rounded as binary64 rounds.  Locks make a locked
  method one atomic step.  Loops that walk a stack or an index are functions with a measure; the merge of
  two interval lists is a \<open>while\<close> whose result is an option, and \<open>evaluation_returns\<close> shows that it is
  never \<open>None\<close>.  No model uses fuel; the only bounds are those of the source.

  Parameters, for what is not under \<open>src/\<close>: SHA-256 (a hypothesis asks at most for texts of 64
  hexadecimal digits), pydantic's dumps and field coercion, clocks, UUIDs, \<open>datetime.fromisoformat\<close>,
  \<open>json.loads\<close>, the rules a directory holds, the answers of the telemetry queries, the RCA gateway and the
  writes of other coroutines.  The Chinese texts of a trigger are parameters, too.

  Interfaces are locales, interpreted on the models: \<open>versioned_aggregate\<close> and \<open>status_graph\<close> on the
  incident's transitions, \<open>durable_store\<close>, \<open>idempotent_write\<close> and \<open>refined_store\<close> on the repository,
  \<open>world_preorder\<close> on the states governance sees, \<open>implements\<close> on the ownership of UI threads.

  Not modelled.  Characters above 255: sizes, patterns and \<open>isdecimal\<close> are over code points
  below 256, and \<open>canonical_component\<close> says nothing about the decimal digits of other
  scripts.  Containers that occur twice in a payload: payloads are trees, so
  \<open>assert_payload_budget\<close> says nothing about shared ones.  Python's equality of 1, True and
  1.0, and of dictionaries in another key order, where the models compare JSON attributes
  (\<open>validate_append_only\<close>).  Also left out are integers of more than 4300 digits, negative
  zero and overflow of floats, and datetimes after the year 9999.  The governance runs against the in-memory
  repository only.  The Supervisor's session store is taken to accept its writes, its copy of the fields
  in the runtime's tool context is left out, and so are the discovery and listing of remote agents and
  the legacy free-text approval.  Left out because they are input and output, SQL, generated text or
  glue around libraries: the DuckDB and Spanner repositories, the reading of rule files, the telemetry
  queries, the RCA engine, replay and import of data sets, the LLM agents and their prompts, the HTTP
  and socket endpoints, the Kubernetes operator, the deployment and release tools.
\<close>

end
